(* ===== verification/Prelude.thy ===== *)
theory Prelude
  imports Main "HOL-Library.Word" "HOL-Library.Monad_Syntax" "HOL-Library.Multiset"
begin

text \<open>
  Shared vocabulary of the development: addresses, the C integer types of the LP64 and
  LLP64 targets the agent is built for, the truth values of the code base, and generic
  lemmas on options, lists and words.  Nothing here is specific to one component.
\<close>

unbundle bit_operations_syntax

section \<open>Addresses and C integers\<close>

text \<open>
  An address is a natural number of bytes; \<open>0\<close> is the null pointer.  C integers that the
  code only compares, copies or counts with are \<open>int\<close>; integers on which the code shifts,
  masks or relies on modular arithmetic keep their width.
\<close>

type_synonym ptr = nat
type_synonym u8 = "8 word"
type_synonym u16 = "16 word"
type_synonym u32 = "32 word"
type_synonym u64 = "64 word"
type_synonym size_t = "64 word"

abbreviation NULL :: ptr where
  "NULL \<equiv> 0"

text \<open>\<open>FLB_TRUE\<close> and \<open>MK_TRUE\<close> are spelled \<open>!FLB_FALSE\<close>, which is the int 1.\<close>

definition FLB_FALSE :: int where
  "FLB_FALSE = 0"

definition FLB_TRUE :: int where
  "FLB_TRUE = (if FLB_FALSE = 0 then 1 else 0)"

definition MK_FALSE :: int where
  "MK_FALSE = 0"

definition MK_TRUE :: int where
  "MK_TRUE = (if MK_FALSE = 0 then 1 else 0)"

text \<open>Return values of the output plugins.\<close>

definition FLB_ERROR :: u32 where
  "FLB_ERROR = 0"

definition FLB_OK :: u32 where
  "FLB_OK = 1"

definition FLB_RETRY :: u32 where
  "FLB_RETRY = 2"

lemma FLB_TRUE_eq [simp]: "FLB_TRUE = 1"
  by (simp add: FLB_TRUE_def FLB_FALSE_def)

lemma FLB_FALSE_eq [simp]: "FLB_FALSE = 0"
  by (simp add: FLB_FALSE_def)

lemma MK_TRUE_eq [simp]: "MK_TRUE = 1"
  by (simp add: MK_TRUE_def MK_FALSE_def)

lemma MK_FALSE_eq [simp]: "MK_FALSE = 0"
  by (simp add: MK_FALSE_def)

section \<open>Collections of facts\<close>

named_theorems heap_simps \<open>loads and stores on the heap of list links\<close>
named_theorems c_consts \<open>values of the constants of the headers\<close>
named_theorems flag_simps \<open>bit-flag reasoning\<close>

section \<open>Options and lists\<close>

lemma bind_eq_Some_iff: "Option.bind m f = Some y \<longleftrightarrow> (\<exists>x. m = Some x \<and> f x = Some y)"
  by (cases m) auto

lemma last_Cons_append_neq: "distinct (x # ys @ zs) \<Longrightarrow> last (x # ys) \<notin> set zs"
proof -
  assume d: "distinct (x # ys @ zs)"
  have "last (x # ys) \<in> set (x # ys)" by (rule last_in_set) simp
  with d show ?thesis by auto
qed

lemma hd_append_single_in: "hd (zs @ [x]) \<in> insert x (set zs)"
  by (cases zs) auto

lemma butlast_Cons_last: "butlast (x # ys) @ [last (x # ys)] = x # ys"
  by (rule append_butlast_last_id) simp

lemma last_notin_butlast: "distinct xs \<Longrightarrow> xs \<noteq> [] \<Longrightarrow> last xs \<notin> set (butlast xs)"
  by (metis append_butlast_last_id distinct_append disjoint_iff list.set_intros(1))

lemma hd_notin_tl: "distinct xs \<Longrightarrow> xs \<noteq> [] \<Longrightarrow> hd xs \<notin> set (tl xs)"
  by (cases xs) auto

section \<open>Words\<close>

lemma unat_less_len: "unat (w :: 'a::len word) < 2 ^ LENGTH('a)"
  by (rule unsigned_less)

lemma unat_of_nat_less: "n \<le> unat (w :: 'a::len word) \<Longrightarrow> unat (of_nat n :: 'a word) = n"
  by (metis le_less_trans mod_less unat_less_len unat_of_nat)

lemma and_not_disjoint:
  fixes x y :: "'a::len word"
  assumes "x AND y = 0"
  shows "x AND NOT y = x"
proof (rule bit_word_eqI)
  fix n
  have "\<not> bit (x AND y) n" using assms by simp
  then show "bit (x AND NOT y) n \<longleftrightarrow> bit x n" if "n < LENGTH('a)" using that by (auto simp: bit_simps)
qed

section \<open>Bucket sort is the stable sort\<close>

lemma filter_concat_classes:
  "filter (\<lambda>a. f a = k) (concat (map (\<lambda>j. filter (\<lambda>a. f a = j) xs) [0..<n])) =
     (if k < n then filter (\<lambda>a. f a = k) xs else [])"
proof (induction n)
  case (Suc n)
  have "filter (\<lambda>a. f a = k \<and> f a = n) xs = (if k = n then filter (\<lambda>a. f a = k) xs else [])"
    by (auto intro: filter_cong simp: filter_empty_conv)
  with Suc show ?case by (auto simp: less_Suc_eq conj_commute)
qed simp

lemma mset_concat_classes:
  "mset (concat (map (\<lambda>j. filter (\<lambda>a. f a = j) xs) [0..<n])) = mset (filter (\<lambda>a. f a < n) xs)"
proof (induction n)
  case (Suc n)
  have "filter (\<lambda>a. f a < Suc n) xs = filter (\<lambda>a. f a < n \<or> f a = n) xs"
    by (simp add: less_Suc_eq)
  moreover have "mset (filter (\<lambda>a. f a < n \<or> f a = n) xs) =
      mset (filter (\<lambda>a. f a < n) xs) + mset (filter (\<lambda>a. f a = n) xs)"
    by (induction xs) auto
  ultimately show ?case using Suc by simp
qed simp

lemma sorted_concat_classes:
  "sorted (map f (concat (map (\<lambda>j. filter (\<lambda>a. f a = j) xs) [0..<n])))" for f :: "'a \<Rightarrow> nat"
proof (induction n)
  case (Suc n)
  have "map f (filter (\<lambda>a. f a = n) xs) = replicate (length (filter (\<lambda>a. f a = n) xs)) n"
    by (induction xs) auto
  with Suc show ?case by (auto simp: sorted_append)
qed simp

lemma sort_key_classes:
  assumes "\<forall>a \<in> set xs. f a < n"
  shows "concat (map (\<lambda>j. filter (\<lambda>a. f a = j) xs) [0..<n]) = sort_key f xs"
proof (rule sym, rule properties_for_sort_key)
  show "mset (concat (map (\<lambda>j. filter (\<lambda>a. f a = j) xs) [0..<n])) = mset xs"
    using assms by (simp only: mset_concat_classes filter_True)
  show "filter (\<lambda>a. f k = f a) (concat (map (\<lambda>j. filter (\<lambda>a. f a = j) xs) [0..<n])) =
      filter (\<lambda>a. f k = f a) xs"
    if "k \<in> set (concat (map (\<lambda>j. filter (\<lambda>a. f a = j) xs) [0..<n]))" for k
    using that filter_concat_classes [of f "f k" xs n] by (auto simp: eq_commute [of "f k"])
qed (rule sorted_concat_classes)

section \<open>Printed numbers\<close>

text \<open>The conversions \<^verbatim>\<open>%d\<close>, \<^verbatim>\<open>%i\<close> and \<^verbatim>\<open>%x\<close> of formatted output.\<close>

fun digits :: "nat \<Rightarrow> nat \<Rightarrow> string" where
  "digits b n = (if b < 2 \<or> n < b then [''0123456789abcdef'' ! n] else digits b (n div b) @ [''0123456789abcdef'' ! (n mod b)])"

declare digits.simps [simp del]

definition show_int :: "int \<Rightarrow> string" where
  "show_int i = (if i < 0 then CHR ''-'' # digits 10 (nat (- i)) else digits 10 (nat i))"

end
