(* ===== verification/Mk_List.thy ===== *)
theory Mk_List
  imports Prelude
begin

text \<open>
  The intrusive, circular, doubly linked list of
  \<^verbatim>\<open>monkey/mk_core/mk_list.h\<close>.  A \<^verbatim>\<open>struct mk_list\<close> is embedded in the structure it links;
  the model keeps all of them in one heap indexed by address, so that aliasing between list
  heads and entries is the code's.  A load or store through \<open>NULL\<close> or through an address
  that holds no node is \<open>None\<close>: every theorem that an operation returns \<open>Some\<close> is also a
  memory-safety statement.
\<close>

section \<open>Nodes and the heap of nodes\<close>

record mk_list =
  mk_prev :: ptr
  mk_next :: ptr

type_synonym lheap = "ptr \<rightharpoonup> mk_list"

definition load_node :: "lheap \<Rightarrow> ptr \<Rightarrow> mk_list option" where
  "load_node h p = (if p = NULL then None else h p)"

definition load_next :: "lheap \<Rightarrow> ptr \<Rightarrow> ptr option" where
  "load_next h p = map_option mk_next (load_node h p)"

definition load_prev :: "lheap \<Rightarrow> ptr \<Rightarrow> ptr option" where
  "load_prev h p = map_option mk_prev (load_node h p)"

definition store_next :: "ptr \<Rightarrow> ptr \<Rightarrow> lheap \<Rightarrow> lheap option" where
  "store_next p v h = map_option (\<lambda>n. h(p \<mapsto> n\<lparr>mk_next := v\<rparr>)) (load_node h p)"

definition store_prev :: "ptr \<Rightarrow> ptr \<Rightarrow> lheap \<Rightarrow> lheap option" where
  "store_prev p v h = map_option (\<lambda>n. h(p \<mapsto> n\<lparr>mk_prev := v\<rparr>)) (load_node h p)"

section \<open>The operations of mk_list.h\<close>

definition mk_list_init :: "ptr \<Rightarrow> lheap \<Rightarrow> lheap option" where
  "mk_list_init list h = do {
     h \<leftarrow> store_next list list h;
     store_prev list list h
   }"

definition mk_list_add_between :: "ptr \<Rightarrow> ptr \<Rightarrow> ptr \<Rightarrow> lheap \<Rightarrow> lheap option" where
  "mk_list_add_between new prv nxt h = do {
     h \<leftarrow> store_prev nxt new h;
     h \<leftarrow> store_next new nxt h;
     h \<leftarrow> store_prev new prv h;
     store_next prv new h
   }"

definition mk_list_add :: "ptr \<Rightarrow> ptr \<Rightarrow> lheap \<Rightarrow> lheap option" where
  "mk_list_add new head h = do {
     p \<leftarrow> load_prev h head;
     mk_list_add_between new p head h
   }"

definition mk_list_add_after :: "ptr \<Rightarrow> ptr \<Rightarrow> ptr \<Rightarrow> lheap \<Rightarrow> lheap option" where
  "mk_list_add_after new prv head h = do {
     hp \<leftarrow> load_prev h head;
     hn \<leftarrow> load_next h head;
     if hp = hn \<or> hp = prv then mk_list_add new head h
     else do {
       nxt \<leftarrow> load_next h prv;
       h \<leftarrow> store_next new nxt h;
       h \<leftarrow> store_prev new prv h;
       h \<leftarrow> store_next prv new h;
       store_prev nxt new h
     }
   }"

definition mk_list_is_empty :: "ptr \<Rightarrow> lheap \<Rightarrow> int option" where
  "mk_list_is_empty head h = do {
     n \<leftarrow> load_next h head;
     Some (if n = head then 0 else - 1)
   }"

definition mk_list_add_before :: "ptr \<Rightarrow> ptr \<Rightarrow> ptr \<Rightarrow> lheap \<Rightarrow> lheap option" where
  "mk_list_add_before new nxt head h =
     (if new = NULL \<or> nxt = NULL \<or> head = NULL then Some h
      else do {
        e \<leftarrow> mk_list_is_empty head h;
        if e = 0 \<or> nxt = head then mk_list_add new head h
        else do {
          prv \<leftarrow> load_prev h nxt;
          h \<leftarrow> store_next new nxt h;
          h \<leftarrow> store_prev new prv h;
          h \<leftarrow> store_next prv new h;
          store_prev nxt new h
        }
      })"

definition mk_list_append :: "ptr \<Rightarrow> ptr \<Rightarrow> lheap \<Rightarrow> lheap option" where
  "mk_list_append new head h = do {
     e \<leftarrow> mk_list_is_empty head h;
     p \<leftarrow> load_prev h head;
     if e = 0 then mk_list_add_between new p head h
     else mk_list_add_after new p head h
   }"

definition mk_list_prepend :: "ptr \<Rightarrow> ptr \<Rightarrow> lheap \<Rightarrow> lheap option" where
  "mk_list_prepend new head h = do {
     e \<leftarrow> mk_list_is_empty head h;
     if e = 0 then do { p \<leftarrow> load_prev h head; mk_list_add_between new p head h }
     else do { n \<leftarrow> load_next h head; mk_list_add_before new n head h }
   }"

definition mk_list_del_between :: "ptr \<Rightarrow> ptr \<Rightarrow> lheap \<Rightarrow> lheap option" where
  "mk_list_del_between prv nxt h = do {
     h \<leftarrow> store_next prv nxt h;
     store_prev nxt prv h
   }"

definition mk_list_del :: "ptr \<Rightarrow> lheap \<Rightarrow> lheap option" where
  "mk_list_del entry h = do {
     p \<leftarrow> load_prev h entry;
     n \<leftarrow> load_next h entry;
     h \<leftarrow> mk_list_del_between p n h;
     h \<leftarrow> store_prev entry NULL h;
     store_next entry NULL h
   }"

definition mk_list_is_set :: "ptr \<Rightarrow> lheap \<Rightarrow> int option" where
  "mk_list_is_set head h = do {
     n \<leftarrow> load_next h head;
     p \<leftarrow> load_prev h head;
     Some (if n \<noteq> NULL \<and> p \<noteq> NULL then 0 else - 1)
   }"

text \<open>
  The loop of \<^verbatim>\<open>mk_list_size\<close>: \<open>None\<close> when it walks into an invalid node or never meets
  the head again.
\<close>

partial_function (option) mk_list_size_from :: "lheap \<Rightarrow> ptr \<Rightarrow> ptr \<Rightarrow> int \<Rightarrow> int option" where
  "mk_list_size_from h head it ret =
     (if it = head then Some ret
      else Option.bind (load_next h it) (\<lambda>n. mk_list_size_from h head n (ret + 1)))"

definition mk_list_size :: "ptr \<Rightarrow> lheap \<Rightarrow> int option" where
  "mk_list_size head h = do {
     it \<leftarrow> load_next h head;
     mk_list_size_from h head it 0
   }"

definition mk_list_entry_init :: "ptr \<Rightarrow> lheap \<Rightarrow> lheap option" where
  "mk_list_entry_init list h = do {
     h \<leftarrow> store_next list NULL h;
     store_prev list NULL h
   }"

definition mk_list_entry_is_orphan :: "ptr \<Rightarrow> lheap \<Rightarrow> int option" where
  "mk_list_entry_is_orphan head h = do {
     n \<leftarrow> load_next h head;
     p \<leftarrow> load_prev h head;
     Some (if n \<noteq> NULL \<and> p \<noteq> NULL then MK_FALSE else MK_TRUE)
   }"

definition mk_list_entry_orphan :: "ptr \<Rightarrow> lheap \<Rightarrow> int option" where
  "mk_list_entry_orphan head h = do {
     n \<leftarrow> load_next h head;
     p \<leftarrow> load_prev h head;
     Some (if n \<noteq> NULL \<and> p \<noteq> NULL then 0 else - 1)
   }"

definition mk_list_cat :: "ptr \<Rightarrow> ptr \<Rightarrow> lheap \<Rightarrow> lheap option" where
  "mk_list_cat list head h = do {
     lst \<leftarrow> load_prev h head;
     ln \<leftarrow> load_next h list;
     h \<leftarrow> store_next lst ln h;
     ln \<leftarrow> load_next h list;
     h \<leftarrow> store_prev ln lst h;
     lp \<leftarrow> load_prev h list;
     h \<leftarrow> store_next lp head h;
     lp \<leftarrow> load_prev h list;
     store_prev head lp h
   }"


text \<open>
  The iteration macros run a body for each entry.  The body gets the current entry and the
  program state \<open>'s\<close>, whose list heap is \<open>hp s\<close>, and says whether it leaves the loop
  (\<^verbatim>\<open>break\<close>).  The plain form reads \<open>curr->next\<close> after the body, the safe form before it.
\<close>

partial_function (option) mk_list_foreach_from ::
  "('s \<Rightarrow> lheap) \<Rightarrow> (ptr \<Rightarrow> 's \<Rightarrow> ('s \<times> bool) option) \<Rightarrow> ptr \<Rightarrow> ptr \<Rightarrow> 's \<Rightarrow> 's option" where
  "mk_list_foreach_from hp body head cur s =
     (if cur = head then Some s
      else Option.bind (body cur s) (\<lambda>r.
        if snd r then Some (fst r)
        else Option.bind (load_next (hp (fst r)) cur) (\<lambda>n.
          mk_list_foreach_from hp body head n (fst r))))"

definition mk_list_foreach ::
  "('s \<Rightarrow> lheap) \<Rightarrow> (ptr \<Rightarrow> 's \<Rightarrow> ('s \<times> bool) option) \<Rightarrow> ptr \<Rightarrow> 's \<Rightarrow> 's option" where
  "mk_list_foreach hp body head s = do {
     cur \<leftarrow> load_next (hp s) head;
     mk_list_foreach_from hp body head cur s
   }"

partial_function (option) mk_list_foreach_safe_from ::
  "('s \<Rightarrow> lheap) \<Rightarrow> (ptr \<Rightarrow> 's \<Rightarrow> 's option) \<Rightarrow> ptr \<Rightarrow> ptr \<Rightarrow> ptr \<Rightarrow> 's \<Rightarrow> 's option" where
  "mk_list_foreach_safe_from hp body head cur n s =
     (if cur = head then Some s
      else Option.bind (body cur s) (\<lambda>s'.
        Option.bind (load_next (hp s') n) (\<lambda>n'.
          mk_list_foreach_safe_from hp body head n n' s')))"

definition mk_list_foreach_safe ::
  "('s \<Rightarrow> lheap) \<Rightarrow> (ptr \<Rightarrow> 's \<Rightarrow> 's option) \<Rightarrow> ptr \<Rightarrow> 's \<Rightarrow> 's option" where
  "mk_list_foreach_safe hp body head s = do {
     cur \<leftarrow> load_next (hp s) head;
     n \<leftarrow> load_next (hp s) cur;
     mk_list_foreach_safe_from hp body head cur n s
   }"

partial_function (option) mk_list_foreach_r_from ::
  "('s \<Rightarrow> lheap) \<Rightarrow> (ptr \<Rightarrow> 's \<Rightarrow> ('s \<times> bool) option) \<Rightarrow> ptr \<Rightarrow> ptr \<Rightarrow> 's \<Rightarrow> 's option" where
  "mk_list_foreach_r_from hp body head cur s =
     (if cur = head then Some s
      else Option.bind (body cur s) (\<lambda>r.
        if snd r then Some (fst r)
        else Option.bind (load_prev (hp (fst r)) cur) (\<lambda>n.
          mk_list_foreach_r_from hp body head n (fst r))))"

definition mk_list_foreach_r ::
  "('s \<Rightarrow> lheap) \<Rightarrow> (ptr \<Rightarrow> 's \<Rightarrow> ('s \<times> bool) option) \<Rightarrow> ptr \<Rightarrow> 's \<Rightarrow> 's option" where
  "mk_list_foreach_r hp body head s = do {
     cur \<leftarrow> load_prev (hp s) head;
     mk_list_foreach_r_from hp body head cur s
   }"

partial_function (option) mk_list_foreach_safe_r_from ::
  "('s \<Rightarrow> lheap) \<Rightarrow> (ptr \<Rightarrow> 's \<Rightarrow> 's option) \<Rightarrow> ptr \<Rightarrow> ptr \<Rightarrow> ptr \<Rightarrow> 's \<Rightarrow> 's option" where
  "mk_list_foreach_safe_r_from hp body head cur n s =
     (if cur = head then Some s
      else Option.bind (body cur s) (\<lambda>s'.
        Option.bind (load_prev (hp s') n) (\<lambda>n'.
          mk_list_foreach_safe_r_from hp body head n n' s')))"

definition mk_list_foreach_safe_r ::
  "('s \<Rightarrow> lheap) \<Rightarrow> (ptr \<Rightarrow> 's \<Rightarrow> 's option) \<Rightarrow> ptr \<Rightarrow> 's \<Rightarrow> 's option" where
  "mk_list_foreach_safe_r hp body head s = do {
     cur \<leftarrow> load_prev (hp s) head;
     n \<leftarrow> load_prev (hp s) cur;
     mk_list_foreach_safe_r_from hp body head cur n s
   }"

text \<open>
  \<^verbatim>\<open>container_of\<close>: the structure around an embedded node lies \<open>off\<close> bytes before it.
\<close>

definition container_of :: "ptr \<Rightarrow> nat \<Rightarrow> ptr" where
  "container_of p off = p - off"

definition mk_list_entry_first :: "ptr \<Rightarrow> nat \<Rightarrow> lheap \<Rightarrow> ptr option" where
  "mk_list_entry_first p off h = do { n \<leftarrow> load_next h p; Some (container_of n off) }"

definition mk_list_entry_last :: "ptr \<Rightarrow> nat \<Rightarrow> lheap \<Rightarrow> ptr option" where
  "mk_list_entry_last p off h = do { n \<leftarrow> load_prev h p; Some (container_of n off) }"

definition mk_list_entry_next :: "ptr \<Rightarrow> nat \<Rightarrow> ptr \<Rightarrow> lheap \<Rightarrow> ptr option" where
  "mk_list_entry_next p off head h = do {
     n \<leftarrow> load_next h p;
     if n = head then do { f \<leftarrow> load_next h head; Some (container_of f off) }
     else Some (container_of n off)
   }"

section \<open>What a heap represents: the list predicate\<close>

text \<open>
  \<open>links h ps\<close>: consecutive addresses of \<open>ps\<close> point at each other.  \<open>dll h head xs\<close>: the
  nodes \<open>head # xs\<close> are distinct, valid and linked into a ring in this order; \<open>xs\<close> is the
  list the client sees.
\<close>

definition nx :: "lheap \<Rightarrow> ptr \<Rightarrow> ptr" where
  "nx h p = mk_next (the (h p))"

definition pv :: "lheap \<Rightarrow> ptr \<Rightarrow> ptr" where
  "pv h p = mk_prev (the (h p))"

definition valid :: "lheap \<Rightarrow> ptr \<Rightarrow> bool" where
  "valid h p \<longleftrightarrow> p \<noteq> NULL \<and> h p \<noteq> None"

fun links :: "lheap \<Rightarrow> ptr list \<Rightarrow> bool" where
  "links h (p # q # ps) = (nx h p = q \<and> pv h q = p \<and> links h (q # ps))"
| "links h _ = True"

definition dll :: "lheap \<Rightarrow> ptr \<Rightarrow> ptr list \<Rightarrow> bool" where
  "dll h head xs \<longleftrightarrow>
     distinct (head # xs) \<and> list_all (valid h) (head # xs) \<and> links h (head # xs @ [head])"

subsection \<open>Loads and stores in terms of validity\<close>

lemma load_next_valid [heap_simps]: "valid h p \<Longrightarrow> load_next h p = Some (nx h p)"
  by (auto simp: load_next_def load_node_def valid_def nx_def)

lemma load_prev_valid [heap_simps]: "valid h p \<Longrightarrow> load_prev h p = Some (pv h p)"
  by (auto simp: load_prev_def load_node_def valid_def pv_def)

lemma load_next_NULL [simp]: "load_next h NULL = None" "load_prev h NULL = None"
  by (simp_all add: load_next_def load_prev_def load_node_def)

definition upd_next :: "ptr \<Rightarrow> ptr \<Rightarrow> lheap \<Rightarrow> lheap" where
  "upd_next p v h = h(p \<mapsto> (the (h p))\<lparr>mk_next := v\<rparr>)"

definition upd_prev :: "ptr \<Rightarrow> ptr \<Rightarrow> lheap \<Rightarrow> lheap" where
  "upd_prev p v h = h(p \<mapsto> (the (h p))\<lparr>mk_prev := v\<rparr>)"

lemma store_next_valid [heap_simps]: "valid h p \<Longrightarrow> store_next p v h = Some (upd_next p v h)"
  by (auto simp: store_next_def load_node_def valid_def upd_next_def)

lemma store_prev_valid [heap_simps]: "valid h p \<Longrightarrow> store_prev p v h = Some (upd_prev p v h)"
  by (auto simp: store_prev_def load_node_def valid_def upd_prev_def)

lemma valid_upd [heap_simps]:
  "valid h q \<Longrightarrow> valid (upd_next p v h) q" "valid h q \<Longrightarrow> valid (upd_prev p v h) q"
  by (auto simp: valid_def upd_next_def upd_prev_def)

lemma nx_upd [heap_simps]:
  "nx (upd_next p v h) q = (if q = p then v else nx h q)" "nx (upd_prev p v h) q = nx h q"
  by (auto simp: nx_def upd_next_def upd_prev_def)

lemma pv_upd [heap_simps]:
  "pv (upd_prev p v h) q = (if q = p then v else pv h q)" "pv (upd_next p v h) q = pv h q"
  by (auto simp: pv_def upd_next_def upd_prev_def)

lemma upd_other [heap_simps]:
  "q \<noteq> p \<Longrightarrow> upd_next p v h q = h q" "q \<noteq> p \<Longrightarrow> upd_prev p v h q = h q"
  by (auto simp: upd_next_def upd_prev_def)

lemma dom_upd [heap_simps]:
  "valid h p \<Longrightarrow> dom (upd_next p v h) = dom h" "valid h p \<Longrightarrow> dom (upd_prev p v h) = dom h"
  by (auto simp: upd_next_def upd_prev_def valid_def)

subsection \<open>Rings under change\<close>

lemma links_app:
  "P \<noteq> [] \<Longrightarrow> Q \<noteq> [] \<Longrightarrow>
   links h (P @ Q) \<longleftrightarrow> links h P \<and> links h Q \<and> nx h (last P) = hd Q \<and> pv h (hd Q) = last P"
proof (induction P rule: induct_list012)
  case (2 p)
  then show ?case by (cases Q) auto
qed auto

lemma links_frame:
  assumes "\<And>p. p \<in> set (butlast ps) \<Longrightarrow> nx h' p = nx h p"
    and "\<And>p. p \<in> set (tl ps) \<Longrightarrow> pv h' p = pv h p"
  shows "links h' ps = links h ps"
  using assms by (induction h ps rule: links.induct) auto

lemma dll_frame:
  assumes "\<And>p. p \<in> set (head # xs) \<Longrightarrow> h' p = h p"
  shows "dll h' head xs = dll h head xs"
proof -
  have "links h' (head # xs @ [head]) = links h (head # xs @ [head])"
    using assms by (intro links_frame) (auto simp: nx_def pv_def dest: in_set_butlastD)
  moreover have "list_all (valid h') (head # xs) = list_all (valid h) (head # xs)"
    using assms by (auto simp: valid_def list_all_iff)
  ultimately show ?thesis by (simp add: dll_def)
qed

lemma dll_split:
  "dll h head (ys @ zs) \<longleftrightarrow>
     distinct (head # ys @ zs) \<and> list_all (valid h) (head # ys @ zs) \<and>
     links h (head # ys) \<and> links h (zs @ [head]) \<and>
     nx h (last (head # ys)) = hd (zs @ [head]) \<and> pv h (hd (zs @ [head])) = last (head # ys)"
  using links_app [of "head # ys" "zs @ [head]" h] by (auto simp: dll_def)

lemma dll_ends:
  assumes "dll h head xs"
  shows "valid h head" and "nx h head = hd (xs @ [head])" and "pv h head = last (head # xs)"
    and "\<And>p. p \<in> set xs \<Longrightarrow> valid h p" and "distinct xs" and "head \<notin> set xs"
proof -
  show "nx h head = hd (xs @ [head])"
    using dll_split [of h head "[]" xs] assms by simp
  show "pv h head = last (head # xs)"
    using dll_split [of h head xs "[]"] assms by simp
qed (use assms in \<open>auto simp: dll_def list_all_iff\<close>)

lemma dll_nonnull: "dll h head xs \<Longrightarrow> p \<in> set (head # xs) \<Longrightarrow> p \<noteq> NULL"
  by (auto simp: dll_def list_all_iff valid_def)

text \<open>
  The two facts every mutation rests on: linking a node between two neighbours of the ring
  inserts it there, unlinking a node removes it.
\<close>

lemma dll_insert:
  assumes d: "dll h head (ys @ zs)" and new: "new \<notin> set (head # ys @ zs)" "valid h' new"
    and vh: "\<And>x. valid h x \<Longrightarrow> valid h' x"
    and n: "\<And>x. nx h' x = (if x = new then hd (zs @ [head])
                          else if x = last (head # ys) then new else nx h x)"
    and p: "\<And>x. pv h' x = (if x = new then last (head # ys)
                          else if x = hd (zs @ [head]) then new else pv h x)"
  shows "dll h' head (ys @ new # zs)"
proof -
  let ?p = "last (head # ys)" and ?q = "hd (zs @ [head])"
  have dist: "distinct (head # ys @ zs)" using d by (simp add: dll_def)
  have pin: "?p \<in> set (head # ys)" by (rule last_in_set) simp
  have qin: "?q \<in> insert head (set zs)" by (rule hd_append_single_in)
  have pz: "?p \<notin> set zs" using dist by (rule last_Cons_append_neq)
  have pb: "?p \<notin> set (butlast (head # ys))" using dist by (intro last_notin_butlast) auto
  have qt: "?q \<notin> set (tl (zs @ [head]))" using dist by (intro hd_notin_tl) auto
  have qy: "?q \<notin> set ys" using qin dist by auto
  have "links h' (head # ys) = links h (head # ys)"
  proof (rule links_frame)
    show "nx h' x = nx h x" if "x \<in> set (butlast (head # ys))" for x
      using that pb new in_set_butlastD [OF that] unfolding n by auto
    show "pv h' x = pv h x" if "x \<in> set (tl (head # ys))" for x
      using that qy new unfolding p by auto
  qed
  moreover have "links h' (zs @ [head]) = links h (zs @ [head])"
  proof (rule links_frame)
    show "nx h' x = nx h x" if "x \<in> set (butlast (zs @ [head]))" for x
      using that pz new unfolding n by auto
    show "pv h' x = pv h x" if "x \<in> set (tl (zs @ [head]))" for x
      using that qt new list.set_sel(2) [of "zs @ [head]" x] unfolding p by auto
  qed
  moreover have "links h' (new # zs @ [head])"
    using calculation d qin new dll_split [of h head ys zs]
    by (cases "zs @ [head]") (auto simp: n p)
  moreover have "nx h' ?p = new" "pv h' new = ?p"
    using pin new unfolding n p by auto
  moreover have "list_all (valid h') (head # ys @ new # zs)"
    using d new vh by (auto simp: dll_def list_all_iff)
  ultimately show ?thesis
    using d dll_split [of h head ys zs] dll_split [of h' head ys "new # zs"] new by auto
qed

lemma dll_remove:
  assumes d: "dll h head (ys @ e # zs)"
    and vh: "\<And>x. valid h x \<Longrightarrow> valid h' x"
    and n: "\<And>x. x \<noteq> e \<Longrightarrow> nx h' x = (if x = last (head # ys) then hd (zs @ [head]) else nx h x)"
    and p: "\<And>x. x \<noteq> e \<Longrightarrow> pv h' x = (if x = hd (zs @ [head]) then last (head # ys) else pv h x)"
  shows "dll h' head (ys @ zs)"
proof -
  let ?p = "last (head # ys)" and ?q = "hd (zs @ [head])"
  have dist: "distinct (head # ys @ e # zs)" using d by (simp add: dll_def)
  have pin: "?p \<in> set (head # ys)" by (rule last_in_set) simp
  have qin: "?q \<in> insert head (set zs)" by (rule hd_append_single_in)
  have ne: "?p \<noteq> e" "?q \<noteq> e" using pin qin dist by auto
  have pz: "?p \<notin> set zs" using dist by (intro last_Cons_append_neq) auto
  have pb: "?p \<notin> set (butlast (head # ys))" using dist by (intro last_notin_butlast) auto
  have qt: "?q \<notin> set (tl (zs @ [head]))" using dist by (intro hd_notin_tl) auto
  have qy: "?q \<notin> set ys" using qin dist by auto
  have "links h' (head # ys) = links h (head # ys)"
  proof (rule links_frame)
    show "nx h' x = nx h x" if "x \<in> set (butlast (head # ys))" for x
      using that pb dist in_set_butlastD [OF that] by (subst n) auto
    show "pv h' x = pv h x" if "x \<in> set (tl (head # ys))" for x
      using that qy dist by (subst p) auto
  qed
  moreover have "links h' (zs @ [head]) = links h (zs @ [head])"
  proof (rule links_frame)
    show "nx h' x = nx h x" if "x \<in> set (butlast (zs @ [head]))" for x
      using that pz dist by (subst n) auto
    show "pv h' x = pv h x" if "x \<in> set (tl (zs @ [head]))" for x
      using that qt dist list.set_sel(2) [of "zs @ [head]" x] by (subst p) auto
  qed
  moreover have "links h (zs @ [head])"
    using d dll_split [of h head "ys @ [e]" zs] by simp
  moreover have "nx h' ?p = ?q" "pv h' ?q = ?p" using n [OF ne(1)] p [OF ne(2)] by auto
  moreover have "list_all (valid h') (head # ys @ zs)"
    using d vh by (auto simp: dll_def list_all_iff)
  ultimately show ?thesis
    using d dll_split [of h head ys "e # zs"] dll_split [of h' head ys zs] dist by auto
qed


section \<open>Correctness of the operations\<close>

text \<open>
  Every mutation keeps the set of allocated nodes and leaves the nodes outside the ring (and
  the node it links) as they were: \<open>frame S h h'\<close>.
\<close>

definition frame :: "ptr set \<Rightarrow> lheap \<Rightarrow> lheap \<Rightarrow> bool" where
  "frame S h h' \<longleftrightarrow> dom h' = dom h \<and> (\<forall>x. x \<notin> S \<longrightarrow> h' x = h x)"

lemma frameI: "dom h' = dom h \<Longrightarrow> (\<And>x. x \<notin> S \<Longrightarrow> h' x = h x) \<Longrightarrow> frame S h h'"
  by (simp add: frame_def)

lemma frame_valid: "frame S h h' \<Longrightarrow> valid h' x = valid h x"
  by (auto simp: frame_def valid_def dom_def)

lemma frame_trans: "frame S h h' \<Longrightarrow> frame T h' h'' \<Longrightarrow> frame (S \<union> T) h h''"
  by (auto simp: frame_def)

lemma frame_mono: "frame S h h' \<Longrightarrow> S \<subseteq> T \<Longrightarrow> frame T h h'"
  by (auto simp: frame_def)

lemma frame_dll: "frame S h h' \<Longrightarrow> set (head # xs) \<inter> S = {} \<Longrightarrow> dll h' head xs = dll h head xs"
  by (rule dll_frame) (auto simp: frame_def)

lemma ring_neighbours_valid:
  assumes "dll h head (ys @ zs)"
  shows "valid h (last (head # ys))" "valid h (hd (zs @ [head]))"
    "last (head # ys) \<in> set (head # ys @ zs)" "hd (zs @ [head]) \<in> set (head # ys @ zs)"
proof -
  show p: "last (head # ys) \<in> set (head # ys @ zs)"
    using last_in_set [of "head # ys"] by auto
  show q: "hd (zs @ [head]) \<in> set (head # ys @ zs)"
    using hd_append_single_in [of zs head] by auto
  show "valid h (last (head # ys))" "valid h (hd (zs @ [head]))"
    using p q assms by (auto simp: dll_def list_all_iff)
qed

lemma link_between:
  assumes "dll h head (ys @ zs)" "valid h new" "new \<notin> set (head # ys @ zs)"
    and "\<And>x. nx h' x = (if x = new then hd (zs @ [head])
                          else if x = last (head # ys) then new else nx h x)"
    and "\<And>x. pv h' x = (if x = new then last (head # ys)
                          else if x = hd (zs @ [head]) then new else pv h x)"
    and "dom h' = dom h"
    and "\<And>x. x \<notin> {new, last (head # ys), hd (zs @ [head])} \<Longrightarrow> h' x = h x"
  shows "dll h' head (ys @ new # zs) \<and> frame (set (head # ys @ new # zs)) h h'"
proof
  have v: "valid h' x = valid h x" for x using assms(6) by (auto simp: valid_def dom_def)
  show "dll h' head (ys @ new # zs)"
    using assms v by (intro dll_insert [of h]) auto
  have "{new, last (head # ys), hd (zs @ [head])} \<subseteq> set (head # ys @ new # zs)"
    using ring_neighbours_valid(3,4) [OF assms(1)]
    by (simp only: set_append list.set insert_subset empty_subsetI) blast
  then show "frame (set (head # ys @ new # zs)) h h'"
    by (intro frameI assms(6,7)) blast
qed

lemma mk_list_add_between_dll:
  assumes d: "dll h head (ys @ zs)" and new: "valid h new" "new \<notin> set (head # ys @ zs)"
  shows "\<exists>h'. mk_list_add_between new (last (head # ys)) (hd (zs @ [head])) h = Some h' \<and>
           dll h' head (ys @ new # zs) \<and> frame (set (head # ys @ new # zs)) h h'"
proof -
  let ?p = "last (head # ys)" and ?q = "hd (zs @ [head])"
  note v = ring_neighbours_valid [OF d]
  have neq: "?p \<noteq> new" "?q \<noteq> new" using v(3,4) new(2) by auto
  let ?h' = "upd_next ?p new (upd_prev new ?p (upd_next new ?q (upd_prev ?q new h)))"
  have "mk_list_add_between new ?p ?q h = Some ?h'"
    unfolding mk_list_add_between_def using v(1,2) new by (simp add: heap_simps)
  moreover have "dll ?h' head (ys @ new # zs) \<and> frame (set (head # ys @ new # zs)) h ?h'"
    using neq v(1,2) new by (intro link_between [OF d new]) (auto simp: heap_simps)
  ultimately show ?thesis by blast
qed

lemma mk_list_add_dll:
  assumes "dll h head xs" "valid h new" "new \<notin> set (head # xs)"
  shows "\<exists>h'. mk_list_add new head h = Some h' \<and> dll h' head (xs @ [new]) \<and>
           frame (set (head # xs @ [new])) h h'"
  using mk_list_add_between_dll [of h head xs "[]" new] assms dll_ends(1,3) [OF assms(1)]
  by (auto simp: mk_list_add_def heap_simps)

lemma ring_prev_eq_next:
  assumes "dll h head xs"
  shows "pv h head = nx h head \<longleftrightarrow> length xs \<le> 1"
proof -
  note e = dll_ends [OF assms]
  show ?thesis
  proof (cases xs)
    case (Cons x ys)
    then show ?thesis using e(2,3,5) by (cases ys rule: rev_cases) auto
  qed (use e in auto)
qed

lemma mk_list_add_after_dll:
  assumes d: "dll h head (ys @ prv # zs)" and new: "valid h new" "new \<notin> set (head # ys @ prv # zs)"
  shows "\<exists>h'. mk_list_add_after new prv head h = Some h' \<and> dll h' head (ys @ prv # new # zs) \<and>
           frame (set (head # ys @ prv # new # zs)) h h'"
proof -
  let ?q = "hd (zs @ [head])"
  note e = dll_ends [OF d]
  have d': "dll h head ((ys @ [prv]) @ zs)" using d by simp
  note v = ring_neighbours_valid [OF d']
  have q: "nx h prv = ?q" using dll_split [of h head "ys @ [prv]" zs] d by simp
  show ?thesis
  proof (cases "zs = []")
    case True
    then show ?thesis
      using mk_list_add_dll [OF d new(1)] new(2) e
      by (auto simp: mk_list_add_after_def heap_simps)
  next
    case False
    let ?h' = "upd_prev ?q new (upd_next prv new (upd_prev new prv (upd_next new ?q h)))"
    have l: "pv h head = last zs" using e(3) False by simp
    have "last zs \<noteq> prv" using e(5) False last_in_set [OF False] by auto
    moreover have "pv h head \<noteq> nx h head"
      using ring_prev_eq_next [OF d] False by (cases zs) auto
    ultimately have A: "mk_list_add_after new prv head h = Some ?h'"
      using v new e l q by (auto simp: mk_list_add_after_def heap_simps)
    have "dll ?h' head ((ys @ [prv]) @ new # zs) \<and>
        frame (set (head # (ys @ [prv]) @ new # zs)) h ?h'"
      using v new by (intro link_between [OF d' new(1)]) (auto simp: heap_simps)
    with A show ?thesis by auto
  qed
qed

text \<open>
  With the head itself as the position, \<^verbatim>\<open>mk_list_add_after\<close> puts the new node first only when
  the list has at least two entries: the early exit \<open>head->prev == head->next\<close> also holds for
  a one-element list and appends there.
\<close>

lemma mk_list_add_after_head_dll:
  assumes d: "dll h head xs" and new: "valid h new" "new \<notin> set (head # xs)"
  shows "\<exists>h'. mk_list_add_after new head head h = Some h' \<and>
           dll h' head (if length xs \<le> 1 then xs @ [new] else new # xs) \<and>
           frame (set (head # xs @ [new])) h h'"
proof (cases "length xs \<le> 1")
  case True
  then show ?thesis
    using mk_list_add_dll [OF assms] ring_prev_eq_next [OF d] dll_ends(1) [OF d]
    by (auto simp: mk_list_add_after_def heap_simps)
next
  case False
  let ?q = "hd (xs @ [head])"
  let ?h' = "upd_prev ?q new (upd_next head new (upd_prev new head (upd_next new ?q h)))"
  note e = dll_ends [OF d]
  have d': "dll h head ([] @ xs)" using d by simp
  note v = ring_neighbours_valid [OF d']
  have "pv h head \<noteq> head" using e(3,6) False last_in_set [of xs] by (cases xs) auto
  then have "mk_list_add_after new head head h = Some ?h'"
    using v new e ring_prev_eq_next [OF d] False by (auto simp: mk_list_add_after_def heap_simps)
  moreover have "dll ?h' head ([] @ new # xs) \<and> frame (set (head # [] @ new # xs)) h ?h'"
    using v new by (intro link_between [OF d' new(1)]) (auto simp: heap_simps)
  moreover have "set (head # [] @ new # xs) = set (head # xs @ [new])" by auto
  ultimately show ?thesis using False by auto
qed


lemma mk_list_is_empty_dll: "dll h head xs \<Longrightarrow> mk_list_is_empty head h = Some (if xs = [] then 0 else - 1)"
  using dll_ends [of h head xs] by (cases xs) (auto simp: mk_list_is_empty_def heap_simps)

lemma mk_list_add_before_dll:
  assumes d: "dll h head (ys @ nxt # zs)" and new: "valid h new" "new \<notin> set (head # ys @ nxt # zs)"
  shows "\<exists>h'. mk_list_add_before new nxt head h = Some h' \<and> dll h' head (ys @ new # nxt # zs) \<and>
           frame (set (head # ys @ new # nxt # zs)) h h'"
proof -
  let ?p = "last (head # ys)"
  let ?h' = "upd_prev nxt new (upd_next ?p new (upd_prev new ?p (upd_next new nxt h)))"
  note e = dll_ends [OF d] and v = ring_neighbours_valid [OF d]
  have p: "pv h nxt = ?p" using dll_split [of h head ys "nxt # zs"] d by simp
  have nn: "new \<noteq> NULL" "nxt \<noteq> NULL" "head \<noteq> NULL" "nxt \<noteq> head"
    using new e v by (auto simp: valid_def)
  have A: "mk_list_add_before new nxt head h = Some ?h'"
    using v new p nn by (simp add: mk_list_add_before_def mk_list_is_empty_dll [OF d] heap_simps)
  have "?p \<noteq> new" "nxt \<noteq> new" using v(3) new(2) by auto
  then have "dll ?h' head (ys @ new # nxt # zs) \<and> frame (set (head # ys @ new # nxt # zs)) h ?h'"
    using v new by (intro link_between [OF d new]) (auto simp: heap_simps)
  with A show ?thesis by blast
qed

lemma mk_list_add_before_head_dll:
  assumes "dll h head xs" "valid h new" "new \<notin> set (head # xs)"
  shows "\<exists>h'. mk_list_add_before new head head h = Some h' \<and> dll h' head (xs @ [new]) \<and>
           frame (set (head # xs @ [new])) h h'"
  using mk_list_add_dll [OF assms] assms dll_ends(1) [OF assms(1)]
  by (auto simp: mk_list_add_before_def mk_list_is_empty_dll valid_def)

lemma mk_list_append_dll:
  assumes "dll h head xs" "valid h new" "new \<notin> set (head # xs)"
  shows "\<exists>h'. mk_list_append new head h = Some h' \<and> dll h' head (xs @ [new]) \<and>
           frame (set (head # xs @ [new])) h h'"
proof (cases xs rule: rev_cases)
  case Nil
  then show ?thesis
    using mk_list_add_between_dll [of h head "[]" "[]" new] assms dll_ends [OF assms(1)]
    by (auto simp: mk_list_append_def mk_list_is_empty_dll heap_simps)
next
  case (snoc ys y)
  then show ?thesis
    using mk_list_add_after_dll [of h head ys y "[]" new] assms dll_ends [OF assms(1)]
    by (auto simp: mk_list_append_def mk_list_is_empty_dll heap_simps)
qed

lemma mk_list_prepend_dll:
  assumes "dll h head xs" "valid h new" "new \<notin> set (head # xs)"
  shows "\<exists>h'. mk_list_prepend new head h = Some h' \<and> dll h' head (new # xs) \<and>
           frame (set (head # new # xs)) h h'"
proof (cases xs)
  case Nil
  then show ?thesis
    using mk_list_add_between_dll [of h head "[]" "[]" new] assms dll_ends [OF assms(1)]
    by (auto simp: mk_list_prepend_def mk_list_is_empty_dll heap_simps)
next
  case (Cons y ys)
  then show ?thesis
    using mk_list_add_before_dll [of h head "[]" y ys new] assms dll_ends [OF assms(1)]
    by (auto simp: mk_list_prepend_def mk_list_is_empty_dll heap_simps)
qed

lemma mk_list_init_dll:
  "valid h head \<Longrightarrow> \<exists>h'. mk_list_init head h = Some h' \<and> dll h' head [] \<and> frame {head} h h'"
  by (auto simp: mk_list_init_def heap_simps dll_def frame_def)

lemma mk_list_del_dll:
  assumes d: "dll h head (ys @ e # zs)"
  shows "\<exists>h'. mk_list_del e h = Some h' \<and> dll h' head (ys @ zs) \<and>
           frame (set (head # ys @ e # zs)) h h' \<and> nx h' e = NULL \<and> pv h' e = NULL"
proof -
  let ?p = "last (head # ys)" and ?q = "hd (zs @ [head])"
  let ?h' = "upd_next e NULL (upd_prev e NULL (upd_prev ?q ?p (upd_next ?p ?q h)))"
  have de: "dll h head ((ys @ [e]) @ zs)" using d by simp
  note v = ring_neighbours_valid [OF d] and w = ring_neighbours_valid [OF de]
  have ve: "valid h e" using d by (auto simp: dll_def)
  have pe: "pv h e = ?p" using dll_split [of h head ys "e # zs"] d by simp
  have ne: "nx h e = ?q" using dll_split [of h head "ys @ [e]" zs] d by simp
  have A: "mk_list_del e h = Some ?h'"
    using v w ve pe ne by (simp add: mk_list_del_def mk_list_del_between_def heap_simps)
  have "dll ?h' head (ys @ zs)"
    using v w ve by (intro dll_remove [OF d]) (auto simp: heap_simps)
  moreover have "frame (set (head # ys @ e # zs)) h ?h'"
  proof (rule frameI)
    show "dom ?h' = dom h" using v w ve by (simp add: heap_simps)
    show "?h' x = h x" if "x \<notin> set (head # ys @ e # zs)" for x
    proof -
      have "x \<noteq> e" "x \<noteq> ?p" "x \<noteq> ?q" using that v(3) w(4) by auto
      then show ?thesis by (simp add: heap_simps)
    qed
  qed
  ultimately show ?thesis using A by (auto simp: heap_simps)
qed

lemma mk_list_del_orphan:
  assumes "valid h e" "nx h e = NULL" "pv h e = NULL"
  shows "mk_list_entry_is_orphan e h = Some MK_TRUE" "mk_list_entry_orphan e h = Some (- 1)"
    "mk_list_is_set e h = Some (- 1)"
  using assms by (auto simp: mk_list_entry_is_orphan_def mk_list_entry_orphan_def mk_list_is_set_def heap_simps)

lemma mk_list_linked_not_orphan:
  assumes d: "dll h head (ys @ e # zs)"
  shows "mk_list_entry_is_orphan e h = Some MK_FALSE" "mk_list_entry_orphan e h = Some 0"
    "mk_list_is_set e h = Some 0"
proof -
  have de: "dll h head ((ys @ [e]) @ zs)" using d by simp
  have "valid h e" using d by (auto simp: dll_def)
  moreover have "pv h e \<noteq> NULL"
    using dll_split [of h head ys "e # zs"] d ring_neighbours_valid(1) [OF d] by (simp add: valid_def)
  moreover have "nx h e \<noteq> NULL"
    using dll_split [of h head "ys @ [e]" zs] d ring_neighbours_valid(2) [OF de] by (simp add: valid_def)
  ultimately show "mk_list_entry_is_orphan e h = Some MK_FALSE" "mk_list_entry_orphan e h = Some 0"
    "mk_list_is_set e h = Some 0"
    by (auto simp: mk_list_entry_is_orphan_def mk_list_entry_orphan_def mk_list_is_set_def heap_simps)
qed

lemma mk_list_size_from_links:
  assumes "links h (zs @ [head])" "list_all (valid h) zs" "head \<notin> set zs"
  shows "mk_list_size_from h head (hd (zs @ [head])) r = Some (r + int (length zs))"
  using assms
proof (induction zs arbitrary: r)
  case Nil
  then show ?case by (simp add: mk_list_size_from.simps)
next
  case (Cons z zs)
  have "nx h z = hd (zs @ [head])" using Cons.prems(1) by (cases zs) auto
  moreover have "links h (zs @ [head])" using Cons.prems(1) by (cases zs) auto
  ultimately show ?case
    using Cons by (subst mk_list_size_from.simps) (auto simp: heap_simps)
qed

lemma mk_list_size_dll:
  assumes "dll h head xs"
  shows "mk_list_size head h = Some (int (length xs))"
  using assms dll_ends [OF assms] dll_split [of h head "[]" xs]
    mk_list_size_from_links [of h xs head 0]
  by (auto simp: mk_list_size_def heap_simps)

text \<open>
  Concatenation splices the entries of \<open>list\<close> behind those of \<open>head\<close>.  The donor's head is not
  reset: it still points into the spliced ring.
\<close>

lemma links_cat:
  assumes d: "dll h head xs" and e: "dll h lst ys" and disj: "set (head # xs) \<inter> set (lst # ys) = {}"
    and "ys \<noteq> []"
    and n: "\<And>x. nx h' x = (if x = last ys then head else if x = last (head # xs) then hd ys else nx h x)"
    and p: "\<And>x. pv h' x = (if x = head then last ys else if x = hd ys then last (head # xs) else pv h x)"
    and dm: "dom h' = dom h"
  shows "dll h' head (xs @ ys)"
proof -
  have v: "valid h' x = valid h x" for x using dm by (auto simp: valid_def dom_def)
  have dx: "distinct (head # xs)" "distinct ys" using d e by (auto simp: dll_def)
  have l: "last (head # xs) \<in> set (head # xs)" "last ys \<in> set ys" "hd ys \<in> set ys"
    using last_in_set [of "head # xs"] assms(4) by auto
  have b: "last ys \<notin> set (butlast ys)" "hd ys \<notin> set (tl ys)"
    "last (head # xs) \<notin> set (butlast (head # xs))"
    using last_notin_butlast [OF dx(2)] hd_notin_tl [OF dx(2)] last_notin_butlast [OF dx(1)] assms(4)
    by auto
  have "links h' (head # xs) = links h (head # xs)"
  proof (rule links_frame)
    show "nx h' x = nx h x" if "x \<in> set (butlast (head # xs))" for x
      using that in_set_butlastD [OF that] b(3) l disj unfolding n by auto
    show "pv h' x = pv h x" if "x \<in> set (tl (head # xs))" for x
      using that l disj dx unfolding p by auto
  qed
  moreover have "links h' ys = links h ys"
  proof (rule links_frame)
    show "nx h' x = nx h x" if "x \<in> set (butlast ys)" for x
      using that in_set_butlastD [OF that] b(1) l disj unfolding n by auto
    show "pv h' x = pv h x" if "x \<in> set (tl ys)" for x
      using that list.set_sel(2) [OF assms(4) that] b(2) disj unfolding p by auto
  qed
  moreover have "links h (head # xs)" "links h ys"
    using d e dll_split [of h head xs "[]"] dll_split [of h lst "[]" ys] links_app [of ys "[lst]" h] assms(4)
    by auto
  moreover have "nx h' (last (head # xs)) = hd ys" "pv h' (hd ys) = last (head # xs)"
    "nx h' (last ys) = head" "pv h' head = last ys"
    using l disj unfolding n p by auto
  ultimately have "links h' (head # xs) \<and> links h' (ys @ [head]) \<and>
      nx h' (last (head # xs)) = hd (ys @ [head]) \<and> pv h' (hd (ys @ [head])) = last (head # xs)"
    using links_app [of ys "[head]" h'] assms(4) by simp
  then show ?thesis
    using d e disj v dll_split [of h' head xs ys] by (auto simp: dll_def list_all_iff)
qed

lemma mk_list_cat_dll:
  assumes d: "dll h head xs" and e: "dll h lst ys" and disj: "set (head # xs) \<inter> set (lst # ys) = {}"
  shows "\<exists>h'. mk_list_cat lst head h = Some h' \<and> dll h' head (xs @ ys) \<and>
           frame (set (head # xs @ lst # ys)) h h'"
proof -
  note E = dll_ends [OF d] and F = dll_ends [OF e]
  have l: "last (head # xs) \<in> set (head # xs)" by (rule last_in_set) simp
  have vl: "valid h (last (head # xs))" using l E by auto
  show ?thesis
  proof (cases "ys = []")
    case True
    let ?h' = "upd_prev head (last (head # xs)) (upd_next (last (head # xs)) head
        (upd_prev lst (last (head # xs)) (upd_next (last (head # xs)) lst h)))"
    have "mk_list_cat lst head h = Some ?h'"
      using True E F vl l disj by (auto simp: mk_list_cat_def heap_simps)
    moreover have "frame {head, last (head # xs), lst} h ?h'"
      using E F vl by (intro frameI) (auto simp: heap_simps)
    then have "frame (set (head # xs @ lst # ys)) h ?h'"
      by (rule frame_mono) (use l in auto)
    moreover have "links ?h' (head # xs @ [head]) = links h (head # xs @ [head])"
      using E F l disj dll_split [of h head xs "[]"] d True
      by (intro links_frame) (auto simp: heap_simps)
    then have "dll ?h' head xs"
      using d by (auto simp: dll_def list_all_iff heap_simps)
    ultimately show ?thesis using True by auto
  next
    case False
    let ?h' = "upd_prev head (last ys) (upd_next (last ys) head
        (upd_prev (hd ys) (last (head # xs)) (upd_next (last (head # xs)) (hd ys) h)))"
    have m: "last ys \<in> set ys" "hd ys \<in> set ys" using False by auto
    have A: "mk_list_cat lst head h = Some ?h'"
      using False E F vl l m disj by (auto simp: mk_list_cat_def heap_simps)
    have "dll ?h' head (xs @ ys)"
      using E F vl l m disj by (intro links_cat [OF d e disj False]) (auto simp: heap_simps)
    moreover have "frame {head, last (head # xs), hd ys, last ys} h ?h'"
      using E F vl m by (intro frameI) (auto simp: heap_simps)
    then have "frame (set (head # xs @ lst # ys)) h ?h'"
      by (rule frame_mono) (use l m in auto)
    ultimately show ?thesis using A by blast
  qed
qed


section \<open>The iteration macros\<close>

text \<open>The reference for a loop with \<^verbatim>\<open>break\<close> over a list.\<close>

fun fold_break :: "(ptr \<Rightarrow> 's \<Rightarrow> ('s \<times> bool) option) \<Rightarrow> ptr list \<Rightarrow> 's \<Rightarrow> 's option" where
  "fold_break body [] s = Some s"
| "fold_break body (p # ps) s =
     Option.bind (body p s) (\<lambda>r. if snd r then Some (fst r) else fold_break body ps (fst r))"

lemma links_tail:
  "links h (z # zs @ [head]) \<Longrightarrow> nx h z = hd (zs @ [head]) \<and> links h (zs @ [head])"
  by (cases zs) auto

lemma foreach_from_links:
  assumes "links (hp s) (zs @ [head])" "list_all (valid (hp s)) zs" "head \<notin> set zs"
    and "\<And>p s' s'' b. p \<in> set zs \<Longrightarrow> hp s' = hp s \<Longrightarrow> body p s' = Some (s'', b) \<Longrightarrow> hp s'' = hp s"
  shows "mk_list_foreach_from hp body head (hd (zs @ [head])) s = fold_break body zs s"
  using assms
proof (induction zs arbitrary: s)
  case Nil
  then show ?case by (simp add: mk_list_foreach_from.simps)
next
  case (Cons z zs)
  note t = links_tail [of "hp s" z zs head]
  show ?case
  proof (cases "body z s")
    case None
    with Cons.prems(3) show ?thesis by (subst mk_list_foreach_from.simps) auto
  next
    case (Some r)
    then have hp: "hp (fst r) = hp s" using Cons.prems(4) [of z s "fst r" "snd r"] by simp
    have IH: "mk_list_foreach_from hp body head (hd (zs @ [head])) (fst r) = fold_break body zs (fst r)"
    proof (rule Cons.IH)
      show "hp s'' = hp (fst r)"
        if "p \<in> set zs" "hp s' = hp (fst r)" "body p s' = Some (s'', b)" for p s' s'' b
        using Cons.prems(4) [of p s' s'' b] that hp by auto
    qed (use Cons.prems t hp in auto)
    with Some Cons.prems t hp show ?thesis
      by (subst mk_list_foreach_from.simps) (auto simp: heap_simps)
  qed
qed

lemma mk_list_foreach_dll:
  assumes d: "dll (hp s) head xs"
    and "\<And>p s' s'' b. p \<in> set xs \<Longrightarrow> hp s' = hp s \<Longrightarrow> body p s' = Some (s'', b) \<Longrightarrow> hp s'' = hp s"
  shows "mk_list_foreach hp body head s = fold_break body xs s"
proof -
  note e = dll_ends [OF d]
  have "links (hp s) (xs @ [head])" "list_all (valid (hp s)) xs"
    using d dll_split [of "hp s" head "[]" xs] by (auto simp: dll_def)
  from foreach_from_links [where hp = hp and s = s and body = body, OF this e(6) assms(2)] e(1,2) show ?thesis
    by (auto simp: mk_list_foreach_def heap_simps)
qed

text \<open>
  The safe loop tolerates a body that unlinks the current entry: an invariant on the entries
  still to come carries over the whole loop, and the loop returns.
\<close>

lemma foreach_safe_from_inv:
  assumes "I zs s"
    and "\<And>zs s. I zs s \<Longrightarrow> dll (hp s) head zs"
    and "\<And>p zs s. I (p # zs) s \<Longrightarrow> \<exists>s'. body p s = Some s' \<and> I zs s'"
  shows "\<exists>s'. mk_list_foreach_safe_from hp body head (hd (zs @ [head]))
           (nx (hp s) (hd (zs @ [head]))) s = Some s' \<and> I [] s'"
  using assms(1)
proof (induction zs arbitrary: s)
  case Nil
  then show ?case by (subst mk_list_foreach_safe_from.simps) auto
next
  case (Cons z zs)
  have d: "dll (hp s) head (z # zs)" using Cons.prems by (rule assms(2))
  obtain s' where s': "body z s = Some s'" "I zs s'" using assms(3) [OF Cons.prems] by blast
  have "nx (hp s) z = hd (zs @ [head])" using dll_split [of "hp s" head "[z]" zs] d by simp
  moreover have "valid (hp s') (hd (zs @ [head]))"
    using ring_neighbours_valid(2) [of "hp s'" head "[]" zs] assms(2) [OF s'(2)] by simp
  moreover have "z \<noteq> head" using dll_ends(6) [OF d] by auto
  ultimately show ?case
    using Cons.IH [OF s'(2)] s'(1) by (subst mk_list_foreach_safe_from.simps) (auto simp: heap_simps)
qed

lemma mk_list_foreach_safe_inv:
  assumes "I xs s"
    and "\<And>zs s. I zs s \<Longrightarrow> dll (hp s) head zs"
    and "\<And>p zs s. I (p # zs) s \<Longrightarrow> \<exists>s'. body p s = Some s' \<and> I zs s'"
  shows "\<exists>s'. mk_list_foreach_safe hp body head s = Some s' \<and> I [] s'"
proof -
  have d: "dll (hp s) head ([] @ xs)" using assms(1,2) by simp
  have "valid (hp s) (hd (xs @ [head]))" using ring_neighbours_valid(2) [OF d] by simp
  with foreach_safe_from_inv [of I xs s hp head body] assms dll_ends [of "hp s" head xs] d show ?thesis
    by (auto simp: mk_list_foreach_safe_def heap_simps)
qed

lemma foreach_safe_r_from_inv:
  assumes "I zs s"
    and "\<And>zs s. I zs s \<Longrightarrow> dll (hp s) head zs"
    and "\<And>p zs s. I (zs @ [p]) s \<Longrightarrow> \<exists>s'. body p s = Some s' \<and> I zs s'"
  shows "\<exists>s'. mk_list_foreach_safe_r_from hp body head (last (head # zs))
           (pv (hp s) (last (head # zs))) s = Some s' \<and> I [] s'"
  using assms(1)
proof (induction zs arbitrary: s rule: rev_induct)
  case Nil
  then show ?case by (subst mk_list_foreach_safe_r_from.simps) auto
next
  case (snoc z zs)
  have d: "dll (hp s) head (zs @ [z])" using snoc.prems by (rule assms(2))
  obtain s' where s': "body z s = Some s'" "I zs s'" using assms(3) [OF snoc.prems] by blast
  have "pv (hp s) z = last (head # zs)" using dll_split [of "hp s" head zs "[z]"] d by simp
  moreover have "valid (hp s') (last (head # zs))"
    using ring_neighbours_valid(1) [of "hp s'" head zs "[]"] assms(2) [OF s'(2)] by simp
  moreover have "z \<noteq> head" using dll_ends(6) [OF d] by auto
  ultimately show ?case
    using snoc.IH [OF s'(2)] s'(1) by (subst mk_list_foreach_safe_r_from.simps) (auto simp: heap_simps)
qed

lemma mk_list_foreach_safe_r_inv:
  assumes "I xs s"
    and "\<And>zs s. I zs s \<Longrightarrow> dll (hp s) head zs"
    and "\<And>p zs s. I (zs @ [p]) s \<Longrightarrow> \<exists>s'. body p s = Some s' \<and> I zs s'"
  shows "\<exists>s'. mk_list_foreach_safe_r hp body head s = Some s' \<and> I [] s'"
proof -
  have d: "dll (hp s) head (xs @ [])" using assms(1,2) by simp
  have "valid (hp s) (last (head # xs))" using ring_neighbours_valid(1) [OF d] by simp
  with foreach_safe_r_from_inv [of I xs s hp head body] assms dll_ends [of "hp s" head xs] d show ?thesis
    by (auto simp: mk_list_foreach_safe_r_def heap_simps)
qed

lemma foreach_r_from_links:
  assumes "links (hp s) (head # zs)" "list_all (valid (hp s)) zs" "head \<notin> set zs"
    and "\<And>p s' s'' b. p \<in> set zs \<Longrightarrow> hp s' = hp s \<Longrightarrow> body p s' = Some (s'', b) \<Longrightarrow> hp s'' = hp s"
  shows "mk_list_foreach_r_from hp body head (last (head # zs)) s = fold_break body (rev zs) s"
  using assms
proof (induction zs arbitrary: s rule: rev_induct)
  case Nil
  then show ?case by (simp add: mk_list_foreach_r_from.simps)
next
  case (snoc z zs)
  have t: "pv (hp s) z = last (head # zs)" "links (hp s) (head # zs)"
    using snoc.prems(1) links_app [of "head # zs" "[z]" "hp s"] by auto
  show ?case
  proof (cases "body z s")
    case None
    with snoc.prems(3) show ?thesis by (subst mk_list_foreach_r_from.simps) auto
  next
    case (Some r)
    then have hp: "hp (fst r) = hp s" using snoc.prems(4) [of z s "fst r" "snd r"] by simp
    have IH: "mk_list_foreach_r_from hp body head (last (head # zs)) (fst r) = fold_break body (rev zs) (fst r)"
    proof (rule snoc.IH)
      show "hp s'' = hp (fst r)"
        if "p \<in> set zs" "hp s' = hp (fst r)" "body p s' = Some (s'', b)" for p s' s'' b
        using snoc.prems(4) [of p s' s'' b] that hp by auto
    qed (use snoc.prems t hp in auto)
    with Some snoc.prems t hp show ?thesis
      by (subst mk_list_foreach_r_from.simps) (auto simp: heap_simps)
  qed
qed

lemma mk_list_foreach_r_dll:
  assumes d: "dll (hp s) head xs"
    and "\<And>p s' s'' b. p \<in> set xs \<Longrightarrow> hp s' = hp s \<Longrightarrow> body p s' = Some (s'', b) \<Longrightarrow> hp s'' = hp s"
  shows "mk_list_foreach_r hp body head s = fold_break body (rev xs) s"
proof -
  note e = dll_ends [OF d]
  have "links (hp s) (head # xs)" "list_all (valid (hp s)) xs"
    using d dll_split [of "hp s" head xs "[]"] by (auto simp: dll_def)
  from foreach_r_from_links [where hp = hp and s = s and body = body, OF this e(6) assms(2)] e(1,3) show ?thesis
    by (auto simp: mk_list_foreach_r_def heap_simps)
qed

lemma container_of_member [simp]: "container_of (p + off) off = p"
  by (simp add: container_of_def)

text \<open>\<^verbatim>\<open>mk_list_entry_next\<close> walks the ring and skips the head.\<close>

lemma mk_list_entry_next_dll:
  assumes "dll h head (ys @ e # zs)"
  shows "mk_list_entry_next e off head h = Some (container_of (hd (zs @ ys @ [e])) off)"
proof -
  note E = dll_ends [OF assms]
  have "nx h e = hd (zs @ [head])" using dll_split [of h head "ys @ [e]" zs] assms by simp
  moreover have "nx h head = hd (ys @ [e])" using E(2) by (cases ys) auto
  ultimately show ?thesis
    using E by (cases zs; cases ys) (auto simp: mk_list_entry_next_def heap_simps)
qed

section \<open>Several disjoint lists in one heap\<close>

text \<open>
  Clients keep several lists at once (the buckets of a queue, the plugin registries of a
  configuration).  \<open>family rep h hs qs\<close>: the heads \<open>hs\<close> carry the lists \<open>qs\<close>, and no node is
  in two of them.  The contract of a list implementation is a locale; what follows for a
  family of lists is proved from the contract alone.
\<close>

definition family :: "('h \<Rightarrow> ptr \<Rightarrow> ptr list \<Rightarrow> bool) \<Rightarrow> 'h \<Rightarrow> ptr list \<Rightarrow> ptr list list \<Rightarrow> bool" where
  "family rep h hs qs \<longleftrightarrow> length qs = length hs \<and>
     (\<forall>i < length hs. rep h (hs ! i) (qs ! i)) \<and>
     (\<forall>i < length hs. \<forall>j < length hs. i \<noteq> j \<longrightarrow>
        set (hs ! i # qs ! i) \<inter> set (hs ! j # qs ! j) = {})"

definition members :: "ptr list \<Rightarrow> ptr list list \<Rightarrow> ptr set" where
  "members hs qs = set hs \<union> \<Union> (set ` set qs)"

lemma members_nth: "length qs = length hs \<Longrightarrow> i < length hs \<Longrightarrow> set (hs ! i # qs ! i) \<subseteq> members hs qs"
  by (auto simp: members_def)

locale intrusive_list =
  fixes rep :: "'h \<Rightarrow> ptr \<Rightarrow> ptr list \<Rightarrow> bool"
    and node :: "'h \<Rightarrow> ptr \<Rightarrow> bool"
    and same :: "ptr set \<Rightarrow> 'h \<Rightarrow> 'h \<Rightarrow> bool"
    and add :: "ptr \<Rightarrow> ptr \<Rightarrow> 'h \<Rightarrow> 'h option"
    and del :: "ptr \<Rightarrow> 'h \<Rightarrow> 'h option"
  assumes rep_frame: "same S h h' \<Longrightarrow> set (hd' # xs) \<inter> S = {} \<Longrightarrow> rep h hd' xs \<Longrightarrow> rep h' hd' xs"
    and node_same: "same S h h' \<Longrightarrow> node h p \<Longrightarrow> node h' p"
    and same_trans: "same S h h' \<Longrightarrow> same T h' h'' \<Longrightarrow> same (S \<union> T) h h''"
    and same_refl: "same {} h h"
    and add_law: "rep h hd' xs \<Longrightarrow> node h p \<Longrightarrow> p \<notin> set (hd' # xs) \<Longrightarrow>
      \<exists>h'. add p hd' h = Some h' \<and> rep h' hd' (xs @ [p]) \<and> same (set (hd' # xs @ [p])) h h'"
    and del_law: "rep h hd' (ys @ p # zs) \<Longrightarrow>
      \<exists>h'. del p h = Some h' \<and> rep h' hd' (ys @ zs) \<and> same (set (hd' # ys @ p # zs)) h h'"
begin

lemma family_update:
  assumes f: "family rep h hs qs" and i: "i < length hs" and s: "same S h h'"
    and S: "S \<subseteq> insert p (set (hs ! i # qs ! i))" and r: "rep h' (hs ! i) q"
    and q: "set q \<subseteq> insert p (set (qs ! i))"
    and p: "\<And>j. j < length hs \<Longrightarrow> j \<noteq> i \<Longrightarrow> p \<notin> set (hs ! j # qs ! j)"
  shows "family rep h' hs (qs[i := q])"
proof -
  have len: "length qs = length hs" using f by (simp add: family_def)
  have dj: "set (hs ! j # qs ! j) \<inter> set (hs ! i # qs ! i) = {}" if "j < length hs" "j \<noteq> i" for j
    using f i that unfolding family_def by blast
  have "rep h' (hs ! j) (qs[i := q] ! j)" if j: "j < length hs" for j
  proof (cases "j = i")
    case False
    have "set (hs ! j # qs ! j) \<inter> S = {}" using S dj [OF j False] p [OF j False] by blast
    moreover have "rep h (hs ! j) (qs ! j)" using f j unfolding family_def by blast
    ultimately show ?thesis using rep_frame [OF s] False by simp
  qed (use r i len in simp)
  moreover have "set (hs ! j # qs[i := q] ! j) \<inter> set (hs ! k # qs[i := q] ! k) = {}"
    if jk: "j < length hs" "k < length hs" "j \<noteq> k" for j k
  proof -
    have "set (hs ! j # qs ! j) \<inter> set (hs ! k # qs ! k) = {}"
      using f jk unfolding family_def by blast
    then show ?thesis
      using jk i len q p [of j] p [of k] dj [of j] dj [of k] by (cases "j = i"; cases "k = i") auto
  qed
  ultimately show ?thesis using len by (simp add: family_def)
qed

lemma family_add:
  assumes f: "family rep h hs qs" and i: "i < length hs" and n: "node h p" "p \<notin> members hs qs"
  shows "\<exists>h'. add p (hs ! i) h = Some h' \<and> family rep h' hs (qs[i := qs ! i @ [p]]) \<and>
           same (set (hs ! i # qs ! i @ [p])) h h'"
proof -
  have len: "length qs = length hs" and r: "rep h (hs ! i) (qs ! i)"
    using f i by (auto simp: family_def)
  have nin: "p \<notin> set (hs ! j # qs ! j)" if "j < length hs" for j
    using members_nth [OF len that] n(2) by blast
  obtain h' where h': "add p (hs ! i) h = Some h'" "rep h' (hs ! i) (qs ! i @ [p])"
      "same (set (hs ! i # qs ! i @ [p])) h h'"
    using add_law [OF r n(1) nin [OF i]] by blast
  moreover have "family rep h' hs (qs[i := qs ! i @ [p]])"
    by (rule family_update [OF f i h'(3) _ h'(2)]) (use nin in auto)
  ultimately show ?thesis by blast
qed

lemma family_del:
  assumes f: "family rep h hs qs" and i: "i < length hs" and q: "qs ! i = ys @ p # zs"
  shows "\<exists>h'. del p h = Some h' \<and> family rep h' hs (qs[i := ys @ zs]) \<and>
           same (set (hs ! i # qs ! i)) h h'"
proof -
  have r: "rep h (hs ! i) (ys @ p # zs)" using f i q by (auto simp: family_def)
  obtain h' where h': "del p h = Some h'" "rep h' (hs ! i) (ys @ zs)"
      "same (set (hs ! i # ys @ p # zs)) h h'"
    using del_law [OF r] by blast
  moreover have "p \<notin> set (hs ! j # qs ! j)" if "j < length hs" "j \<noteq> i" for j
  proof -
    have "set (hs ! i # qs ! i) \<inter> set (hs ! j # qs ! j) = {}" using f i that unfolding family_def by blast
    then show ?thesis using q by auto
  qed
  then have "family rep h' hs (qs[i := ys @ zs])"
    by (intro family_update [OF f i h'(3) _ h'(2)]) (auto simp: q)
  ultimately show ?thesis using q by auto
qed

text \<open>Adding a sequence of fresh nodes one after the other appends them in this order.\<close>

lemma family_add_all:
  assumes "family rep h hs qs" "i < length hs" "list_all (node h) ps" "distinct ps"
    and "set ps \<inter> members hs qs = {}"
  shows "\<exists>h'. foldl (\<lambda>m p. Option.bind m (add p (hs ! i))) (Some h) ps = Some h' \<and>
           family rep h' hs (qs[i := qs ! i @ ps])"
  using assms
proof (induction ps arbitrary: h qs)
  case (Cons p ps)
  have len: "length qs = length hs" using Cons.prems(1) by (simp add: family_def)
  obtain h1 where h1: "add p (hs ! i) h = Some h1" "family rep h1 hs (qs[i := qs ! i @ [p]])"
      "same (set (hs ! i # qs ! i @ [p])) h h1"
    using family_add [OF Cons.prems(1,2), of p] Cons.prems(3,5) by auto
  have "set (qs[i := qs ! i @ [p]]) \<subseteq> insert (qs ! i @ [p]) (set qs)"
    by (rule set_update_subset_insert)
  moreover have "qs ! i \<in> set qs" using len Cons.prems(2) by simp
  ultimately have "members hs (qs[i := qs ! i @ [p]]) \<subseteq> insert p (members hs qs)"
    by (auto simp: members_def)
  then have "set ps \<inter> members hs (qs[i := qs ! i @ [p]]) = {}"
    using Cons.prems(4,5) by auto
  then show ?case
    using Cons.IH [OF h1(2) Cons.prems(2)] h1(1) Cons.prems(2,3,4) len node_same [OF h1(3)]
    by (auto simp: list_all_iff)
qed (simp add: list_update_id)

end

interpretation ml: intrusive_list dll valid frame mk_list_add mk_list_del
proof
  show "\<exists>h'. mk_list_del p h = Some h' \<and> dll h' hd' (ys @ zs) \<and> frame (set (hd' # ys @ p # zs)) h h'"
    if "dll h hd' (ys @ p # zs)" for h hd' ys p zs
    using mk_list_del_dll [OF that] by blast
qed (auto simp: frame_dll frame_valid frame_trans frame_def intro!: mk_list_add_dll [simplified])

section \<open>Properties\<close>

text \<open>Two lists (heads 8 and 64) and a free node 48, used to instantiate the properties.\<close>

definition example_list_heap :: lheap where
  "example_list_heap = [8 \<mapsto> \<lparr>mk_prev = 32, mk_next = 16\<rparr>, 16 \<mapsto> \<lparr>mk_prev = 8, mk_next = 32\<rparr>,
     32 \<mapsto> \<lparr>mk_prev = 16, mk_next = 8\<rparr>, 48 \<mapsto> \<lparr>mk_prev = 0, mk_next = 0\<rparr>,
     64 \<mapsto> \<lparr>mk_prev = 80, mk_next = 80\<rparr>, 80 \<mapsto> \<lparr>mk_prev = 64, mk_next = 64\<rparr>]"

lemma example_list_dll: "dll example_list_heap 8 [16, 32]" "dll example_list_heap 64 [80]"
  by (simp_all add: dll_def example_list_heap_def valid_def nx_def pv_def)

lemma example_list_free: "valid example_list_heap 48"
  by (simp add: valid_def example_list_heap_def)



text \<open>
  Insertion after the head.  \<^verbatim>\<open>mk_list_add_after\<close> with the head itself as the previous node puts
  the new node first, except on a list of one entry, where its shortcut for short lists appends
  the node behind that entry.
\<close>

lemma add_after_head_position:
  assumes "dll h head xs" "valid h new" "new \<notin> set (head # xs)"
  shows "\<exists>h'. mk_list_add_after new head head h = Some h' \<and>
    dll h' head (if length xs \<le> 1 then xs @ [new] else new # xs)"
  using mk_list_add_after_head_dll [OF assms] by blast

lemma add_after_head_position_witness:
  "\<exists>h'. mk_list_add_after 48 64 64 example_list_heap = Some h' \<and> dll h' 64 [80, 48]"
  using add_after_head_position [OF example_list_dll(2) example_list_free] by simp

text \<open>
  C20: deletion.  \<^verbatim>\<open>mk_list_del\<close> of an entry of a well-formed list removes exactly that entry, leaves
  its links null so that \<^verbatim>\<open>mk_list_entry_is_orphan\<close> reports it, and touches no other list; while
  linked it was reported as not orphaned.
\<close>

theorem del_refines:
  assumes "dll h head (ys @ e # zs)"
  shows "mk_list_entry_is_orphan e h = Some MK_FALSE \<and>
    (\<exists>h'. mk_list_del e h = Some h' \<and> dll h' head (ys @ zs) \<and>
       mk_list_entry_is_orphan e h' = Some MK_TRUE \<and>
       (\<forall>head' xs. dll h head' xs \<and> set (head' # xs) \<inter> set (head # ys @ e # zs) = {} \<longrightarrow> dll h' head' xs))"
proof -
  obtain h' where h': "mk_list_del e h = Some h'" "dll h' head (ys @ zs)"
      "frame (set (head # ys @ e # zs)) h h'" "nx h' e = NULL" "pv h' e = NULL"
    using mk_list_del_dll [OF assms] by blast
  have "valid h e" using dll_ends(4) [OF assms] by simp
  then have "mk_list_entry_is_orphan e h' = Some MK_TRUE"
    using h'(4,5) frame_valid [OF h'(3)] by (intro mk_list_del_orphan(1)) auto
  moreover have "dll h' head' xs" if "dll h head' xs" "set (head' # xs) \<inter> set (head # ys @ e # zs) = {}" for head' xs
    using frame_dll [OF h'(3) that(2)] that(1) by simp
  ultimately show ?thesis using h'(1,2) mk_list_linked_not_orphan(1) [OF assms] by blast
qed

theorem del_refines_witness:
  "\<exists>h'. mk_list_del 16 example_list_heap = Some h' \<and> dll h' 8 [32] \<and> dll h' 64 [80]"
proof -
  obtain h' where "mk_list_del 16 example_list_heap = Some h'" "dll h' 8 [32]"
      "\<forall>head' xs. dll example_list_heap head' xs \<and> set (head' # xs) \<inter> set [8, 16, 32] = {} \<longrightarrow> dll h' head' xs"
    using del_refines [of example_list_heap 8 "[]" 16 "[32]"] example_list_dll(1) by auto
  then show ?thesis using example_list_dll(2) by auto
qed

text \<open>
  C39: concatenation.  \<^verbatim>\<open>mk_list_cat\<close> moves all entries of one well-formed list behind those of
  another, in order, for empty and non-empty lists alike, and \<^verbatim>\<open>mk_list_size\<close> of the result is the
  sum of the sizes.
\<close>

theorem cat_refines:
  assumes "dll h head xs" "dll h lst ys" "set (head # xs) \<inter> set (lst # ys) = {}"
  shows "\<exists>h'. mk_list_cat lst head h = Some h' \<and> dll h' head (xs @ ys) \<and>
    mk_list_size head h' = Some (int (length xs) + int (length ys))"
proof -
  obtain h' where "mk_list_cat lst head h = Some h'" "dll h' head (xs @ ys)"
    using mk_list_cat_dll [OF assms] by blast
  then show ?thesis using mk_list_size_dll by force
qed

theorem cat_refines_witness:
  "\<exists>h'. mk_list_cat 64 8 example_list_heap = Some h' \<and> dll h' 8 [16, 32, 80] \<and> mk_list_size 8 h' = Some 3"
  using cat_refines [OF example_list_dll] by simp

text \<open>
  Iteration.  A loop body that does not change the links sees, under \<^verbatim>\<open>mk_list_foreach\<close>, every
  entry once and in order until it breaks, and under \<^verbatim>\<open>mk_list_foreach_r\<close> in reverse order.
\<close>

lemma foreach_visits:
  assumes "dll (hp s) head xs"
    and "\<forall>p s' s'' b. p \<in> set xs \<and> hp s' = hp s \<and> body p s' = Some (s'', b) \<longrightarrow> hp s'' = hp s"
  shows "mk_list_foreach hp body head s = fold_break body xs s \<and>
    mk_list_foreach_r hp body head s = fold_break body (rev xs) s"
  using mk_list_foreach_dll [of hp s head xs body] mk_list_foreach_r_dll [of hp s head xs body] assms by blast

lemma foreach_visits_witness:
  "mk_list_foreach (\<lambda>_. example_list_heap) (\<lambda>p s. Some (s @ [p], False)) 8 [] = Some [16, 32] \<and>
   mk_list_foreach_r (\<lambda>_. example_list_heap) (\<lambda>p s. Some (s @ [p], False)) 8 [] = Some [32, 16]"
  using foreach_visits [of "\<lambda>_. example_list_heap" "[]" 8 "[16, 32]" "\<lambda>p s. Some (s @ [p], False)"]
    example_list_dll(1) by simp

text \<open>
  C35: deleting while iterating.  \<^verbatim>\<open>mk_list_foreach_safe\<close> and \<^verbatim>\<open>mk_list_foreach_safe_r\<close> with a body that
  unlinks the current entry return, and the list is empty afterwards.
\<close>

theorem foreach_safe_delete_all:
  assumes "dll h head xs"
  shows "(\<exists>h'. mk_list_foreach_safe (\<lambda>h. h) mk_list_del head h = Some h' \<and> dll h' head [] \<and>
      mk_list_is_empty head h' = Some 0) \<and>
    (\<exists>h'. mk_list_foreach_safe_r (\<lambda>h. h) mk_list_del head h = Some h' \<and> dll h' head [] \<and>
      mk_list_is_empty head h' = Some 0)"
proof -
  have del: "\<exists>h'. mk_list_del p h = Some h' \<and> dll h' head (ys @ zs)" if "dll h head (ys @ p # zs)" for p ys zs h
    using mk_list_del_dll [of h head ys p zs] that by auto
  have "\<exists>h'. mk_list_foreach_safe (\<lambda>h. h) mk_list_del head h = Some h' \<and> dll h' head []"
    by (rule mk_list_foreach_safe_inv [where I = "\<lambda>zs h. dll h head zs"]) (use assms del [of _ "[]"] in auto)
  moreover have "\<exists>h'. mk_list_foreach_safe_r (\<lambda>h. h) mk_list_del head h = Some h' \<and> dll h' head []"
    by (rule mk_list_foreach_safe_r_inv [where I = "\<lambda>zs h. dll h head zs"]) (use assms del [of _ _ _ "[]"] in auto)
  ultimately show ?thesis using mk_list_is_empty_dll by fastforce
qed

theorem foreach_safe_delete_all_witness:
  "\<exists>h'. mk_list_foreach_safe (\<lambda>h. h) mk_list_del 8 example_list_heap = Some h' \<and> mk_list_is_empty 8 h' = Some 0"
  using foreach_safe_delete_all [OF example_list_dll(1)] by blast

end
