(* ===== verification/Flb_Mem.thy ===== *)
theory Flb_Mem
  imports Prelude "HOL-Library.Signed_Division"
begin

text \<open>
  The allocation wrappers of \<^verbatim>\<open>fluent-bit/flb_mem.h\<close> and \<^verbatim>\<open>monkey/mk_core/mk_memory.h\<close>.
  The C library allocator is modelled by what the standard says of it: \<^verbatim>\<open>malloc\<close> returns null or
  a fresh block of indeterminate bytes, \<^verbatim>\<open>calloc\<close> a zeroed one (null when the product does not
  fit), \<^verbatim>\<open>realloc\<close> keeps the common prefix and leaves the old block alone when it fails.  Which
  address it answers is a parameter (\<open>allocator\<close>), so a theorem covers every pattern of
  successes and failures.
\<close>

section \<open>The C library allocator\<close>

text \<open>A byte of a block is \<open>None\<close> while it is indeterminate.\<close>

type_synonym block = "u8 option list"

record mem =
  blocks :: "ptr \<rightharpoonup> block"
  calls :: nat

type_synonym allocator = "mem \<Rightarrow> size_t \<Rightarrow> ptr"

definition fresh_allocator :: "allocator \<Rightarrow> bool" where
  "fresh_allocator al \<longleftrightarrow> (\<forall>m sz. al m sz \<noteq> NULL \<longrightarrow> blocks m (al m sz) = None)"

definition malloc :: "allocator \<Rightarrow> size_t \<Rightarrow> mem \<Rightarrow> ptr \<times> mem" where
  "malloc al sz m =
     (let p = al m sz; m' = m\<lparr>calls := Suc (calls m)\<rparr>
      in if p = NULL then (NULL, m')
         else (p, m'\<lparr>blocks := (blocks m)(p \<mapsto> replicate (unat sz) None)\<rparr>))"

definition calloc :: "allocator \<Rightarrow> size_t \<Rightarrow> size_t \<Rightarrow> mem \<Rightarrow> ptr \<times> mem" where
  "calloc al n sz m =
     (let p = (if unat n * unat sz < 2 ^ 64 then al m (n * sz) else NULL);
          m' = m\<lparr>calls := Suc (calls m)\<rparr>
      in if p = NULL then (NULL, m')
         else (p, m'\<lparr>blocks := (blocks m)(p \<mapsto> replicate (unat n * unat sz) (Some 0))\<rparr>))"

text \<open>\<open>free(NULL)\<close> does nothing; freeing what is not a live block is undefined: \<open>None\<close>.\<close>

definition free :: "ptr \<Rightarrow> mem \<Rightarrow> mem option" where
  "free p m =
     (if p = NULL then Some m
      else if blocks m p = None then None
      else Some (m\<lparr>blocks := (blocks m)(p := None)\<rparr>))"

definition realloc :: "allocator \<Rightarrow> ptr \<Rightarrow> size_t \<Rightarrow> mem \<Rightarrow> (ptr \<times> mem) option" where
  "realloc al p sz m =
     (if p = NULL then Some (malloc al sz m)
      else case blocks m p of
        None \<Rightarrow> None
      | Some b \<Rightarrow>
          (let q = al m sz; m' = m\<lparr>calls := Suc (calls m)\<rparr>;
               b' = take (unat sz) b @ replicate (unat sz - length b) None
           in Some (if q = NULL then (NULL, m')
                    else (q, m'\<lparr>blocks := (blocks m)(p := None, q \<mapsto> b')\<rparr>))))"

text \<open>\<open>memset(p + off, 0, n)\<close> inside the block at \<open>p\<close>; out of its bounds is \<open>None\<close>.\<close>

definition memset_zero :: "ptr \<Rightarrow> nat \<Rightarrow> nat \<Rightarrow> mem \<Rightarrow> mem option" where
  "memset_zero p off n m =
     (case blocks m p of
        None \<Rightarrow> None
      | Some b \<Rightarrow>
          (if off + n \<le> length b
           then Some (m\<lparr>blocks := (blocks m)(p \<mapsto> take off b @ replicate n (Some 0) @ drop (off + n) b)\<rparr>)
           else None))"

section \<open>flb_mem.h\<close>

text \<open>
  The fuzzing build counts allocations modulo \<^verbatim>\<open>flb_malloc_mod\<close> and fails the first ones of each
  round; \<open>None\<close> is the division by a zero modulus.  C's \<open>%\<close> is the truncating \<open>smod\<close>.
\<close>

definition flb_fuzz_get_probability :: "int \<Rightarrow> int \<Rightarrow> int \<Rightarrow> (int \<times> int) option" where
  "flb_fuzz_get_probability val flb_malloc_p flb_malloc_mod =
     (if flb_malloc_mod = 0 then None
      else (let p = (flb_malloc_p + 1) smod flb_malloc_mod
            in Some (if val > p then 1 else 0, p)))"

definition flb_malloc :: "allocator \<Rightarrow> size_t \<Rightarrow> mem \<Rightarrow> ptr \<times> mem" where
  "flb_malloc al sz m = (if sz = 0 then (NULL, m) else malloc al sz m)"

definition flb_calloc :: "allocator \<Rightarrow> size_t \<Rightarrow> size_t \<Rightarrow> mem \<Rightarrow> ptr \<times> mem" where
  "flb_calloc al n sz m = (if sz = 0 then (NULL, m) else calloc al n sz m)"

definition flb_realloc :: "allocator \<Rightarrow> ptr \<Rightarrow> size_t \<Rightarrow> mem \<Rightarrow> (ptr \<times> mem) option" where
  "flb_realloc al p sz m = realloc al p sz m"

definition flb_realloc_z :: "allocator \<Rightarrow> ptr \<Rightarrow> size_t \<Rightarrow> size_t \<Rightarrow> mem \<Rightarrow> (ptr \<times> mem) option" where
  "flb_realloc_z al p old_size new_size m = do {
     (tmp, m) \<leftarrow> flb_realloc al p new_size m;
     if tmp = NULL then Some (NULL, m)
     else if new_size > old_size then do {
       m \<leftarrow> memset_zero tmp (unat old_size) (unat (new_size - old_size)) m;
       Some (tmp, m)
     }
     else Some (tmp, m)
   }"

definition flb_free :: "ptr \<Rightarrow> mem \<Rightarrow> mem option" where
  "flb_free p m = free p m"

section \<open>mk_memory.h\<close>

record mk_ptr_t =
  ptr_data :: ptr
  ptr_len :: u64

definition mk_mem_alloc :: "allocator \<Rightarrow> size_t \<Rightarrow> mem \<Rightarrow> ptr \<times> mem" where
  "mk_mem_alloc al sz m =
     (let (aux, m) = malloc al sz m
      in if aux = NULL \<and> sz \<noteq> 0 then (NULL, m) else (aux, m))"

definition mk_mem_alloc_z :: "allocator \<Rightarrow> size_t \<Rightarrow> mem \<Rightarrow> ptr \<times> mem" where
  "mk_mem_alloc_z al sz m =
     (let (buf, m) = calloc al 1 sz m in if buf = NULL then (NULL, m) else (buf, m))"

definition mk_mem_realloc :: "allocator \<Rightarrow> ptr \<Rightarrow> size_t \<Rightarrow> mem \<Rightarrow> (ptr \<times> mem) option" where
  "mk_mem_realloc al p sz m = do {
     (aux, m) \<leftarrow> realloc al p sz m;
     if aux = NULL \<and> sz \<noteq> 0 then Some (NULL, m) else Some (aux, m)
   }"

definition mk_mem_free :: "ptr \<Rightarrow> mem \<Rightarrow> mem option" where
  "mk_mem_free p m = free p m"

definition mk_ptr_reset :: "mk_ptr_t \<Rightarrow> mk_ptr_t" where
  "mk_ptr_reset p = p\<lparr>ptr_data := NULL, ptr_len := 0\<rparr>"

section \<open>Correctness\<close>

lemma malloc_blocks:
  assumes "malloc al sz m = (p, m')" "fresh_allocator al"
  shows "p = NULL \<and> blocks m' = blocks m \<or>
    p \<noteq> NULL \<and> blocks m p = None \<and> blocks m' = (blocks m)(p \<mapsto> replicate (unat sz) None)"
  using assms by (auto simp: malloc_def Let_def fresh_allocator_def split: if_splits)

lemma flb_malloc_blocks:
  assumes "flb_malloc al sz m = (p, m')" "fresh_allocator al"
  shows "p = NULL \<and> blocks m' = blocks m \<or>
    p \<noteq> NULL \<and> sz \<noteq> 0 \<and> blocks m p = None \<and> blocks m' = (blocks m)(p \<mapsto> replicate (unat sz) None)"
  using assms malloc_blocks [of al sz m p m'] by (auto simp: flb_malloc_def split: if_splits)

lemma flb_calloc_blocks:
  assumes "flb_calloc al n sz m = (p, m')" "fresh_allocator al"
  shows "p = NULL \<and> blocks m' = blocks m \<or>
    p \<noteq> NULL \<and> blocks m p = None \<and>
    blocks m' = (blocks m)(p \<mapsto> replicate (unat n * unat sz) (Some 0))"
  using assms
  by (auto simp: flb_calloc_def calloc_def Let_def fresh_allocator_def split: if_splits)

lemma flb_free_live: "blocks m p \<noteq> None \<Longrightarrow> p \<noteq> NULL \<Longrightarrow>
    flb_free p m = Some (m\<lparr>blocks := (blocks m)(p := None)\<rparr>)"
  by (simp add: flb_free_def free_def)

lemma flb_free_NULL [simp]: "flb_free NULL m = Some m"
  by (simp add: flb_free_def free_def)


lemma flb_fuzz_fails_once_per_round:
  assumes "flb_malloc_mod > 0" "0 \<le> p"
  shows "flb_fuzz_get_probability 1 p flb_malloc_mod =
     Some (if flb_malloc_mod dvd p + 1 then 1 else 0, (p + 1) mod flb_malloc_mod)"
proof -
  obtain r where r: "(p + 1) mod flb_malloc_mod = r" "0 \<le> r"
    using assms(1) by (meson pos_mod_sign)
  then have "(p + 1) smod flb_malloc_mod = r" using assms by (simp add: smod_mod_positive)
  with r assms(1) show ?thesis
    by (auto simp: flb_fuzz_get_probability_def Let_def dvd_eq_mod_eq_0)
qed

lemma flb_realloc_z_grow:
  assumes al: "fresh_allocator al" and b: "blocks m p = Some b" "p \<noteq> NULL" "length b = unat old_size"
    and grow: "old_size < new_size" and r: "flb_realloc_z al p old_size new_size m = Some (q, m')"
  shows "q = NULL \<and> blocks m' = blocks m \<or>
    q \<noteq> NULL \<and> blocks m q = None \<and>
    blocks m' = (blocks m)(p := None, q \<mapsto> b @ replicate (unat new_size - unat old_size) (Some 0))"
proof (cases "al m new_size = NULL")
  case True
  then show ?thesis
    using b r by (auto simp: flb_realloc_z_def flb_realloc_def realloc_def Let_def)
next
  case False
  have lt: "unat old_size < unat new_size" using grow by (simp add: word_less_nat_alt)
  have sub: "unat (new_size - old_size) = unat new_size - unat old_size"
    using grow by (intro unat_sub) simp
  have fr: "blocks m (al m new_size) = None" using al False by (simp add: fresh_allocator_def)
  show ?thesis
    using False b r lt grow fr
    by (auto simp: flb_realloc_z_def flb_realloc_def realloc_def Let_def memset_zero_def sub)
qed

lemma flb_realloc_z_returns:
  assumes "fresh_allocator al" "blocks m p = Some b" "p \<noteq> NULL" "length b = unat old_size"
  shows "\<exists>q m'. flb_realloc_z al p old_size new_size m = Some (q, m')"
proof (cases "old_size < new_size \<and> al m new_size \<noteq> NULL")
  case True
  have "unat (new_size - old_size) = unat new_size - unat old_size"
    using True by (intro unat_sub order_less_imp_le) simp
  moreover have "unat old_size < unat new_size" using True by (simp add: word_less_nat_alt)
  ultimately show ?thesis using assms True
    by (auto simp: flb_realloc_z_def flb_realloc_def realloc_def Let_def memset_zero_def)
qed (use assms in \<open>auto simp: flb_realloc_z_def flb_realloc_def realloc_def Let_def\<close>)

end
