(* ===== verification/Bucket_Queue.thy ===== *)
theory Bucket_Queue
  imports Mk_List Flb_Mem
begin

text \<open>
  The bucket queue of \<^verbatim>\<open>fluent-bit/flb_bucket_queue.h\<close>: an array of list heads, one per
  priority, with a cursor \<open>top\<close> below which every bucket is empty.  It is the priority queue of
  the engine's event loop.  The state is the queue structure and the heap of list nodes.
\<close>

section \<open>The structure and its operations\<close>

record flb_bucket_queue =
  bq_buckets :: ptr
  bq_n_buckets :: size_t
  bq_top :: ptr
  bq_n_items :: size_t

type_synonym bq_state = "flb_bucket_queue \<times> lheap"

text \<open>\<open>sizeof(struct mk_list)\<close> and \<open>sizeof(struct flb_bucket_queue)\<close> with 8-byte pointers.\<close>

definition sizeof_mk_list :: nat where
  "sizeof_mk_list = 16"

definition sizeof_flb_bucket_queue :: size_t where
  "sizeof_flb_bucket_queue = 32"

definition bucket :: "flb_bucket_queue \<Rightarrow> nat \<Rightarrow> ptr" where
  "bucket q i = bq_buckets q + sizeof_mk_list * i"

text \<open>
  A block of \<open>n\<close> list heads becomes part of the heap of nodes when it is allocated (with
  indeterminate contents \<open>junk\<close>) and leaves it when it is freed.
\<close>

definition alloc_nodes :: "(ptr \<Rightarrow> mk_list) \<Rightarrow> ptr \<Rightarrow> nat \<Rightarrow> lheap \<Rightarrow> lheap" where
  "alloc_nodes junk b n h =
     (\<lambda>p. if p \<in> set (map (\<lambda>i. b + sizeof_mk_list * i) [0..<n]) then Some (junk p) else h p)"

definition free_nodes :: "ptr \<Rightarrow> nat \<Rightarrow> lheap \<Rightarrow> lheap" where
  "free_nodes b n h =
     (\<lambda>p. if p \<in> set (map (\<lambda>i. b + sizeof_mk_list * i) [0..<n]) then None else h p)"

fun init_buckets :: "ptr \<Rightarrow> nat \<Rightarrow> nat \<Rightarrow> lheap \<Rightarrow> lheap option" where
  "init_buckets b i 0 h = Some h"
| "init_buckets b i (Suc k) h =
     Option.bind (mk_list_init (b + sizeof_mk_list * i) h) (init_buckets b (Suc i) k)"

text \<open>
  \<open>Some (None, \<dots>)\<close> is the null return.  The size of the bucket array is computed in
  \<^verbatim>\<open>size_t\<close> and can wrap; the initialisation loop then leaves the block, which is \<open>None\<close>.
\<close>

definition flb_bucket_queue_create ::
  "allocator \<Rightarrow> (ptr \<Rightarrow> mk_list) \<Rightarrow> size_t \<Rightarrow> mem \<Rightarrow> lheap \<Rightarrow>
     ((ptr \<times> flb_bucket_queue) option \<times> mem \<times> lheap) option" where
  "flb_bucket_queue_create al junk priorities m h =
     (let (p, m) = flb_malloc al sizeof_flb_bucket_queue m
      in if p = NULL then Some (None, m, h)
         else
           (let sz = of_nat sizeof_mk_list * priorities; (b, m) = flb_malloc al sz m
            in if b = NULL then do { m \<leftarrow> flb_free p m; Some (None, m, h) }
               else do {
                 h \<leftarrow> init_buckets b 0 (unat priorities)
                       (alloc_nodes junk b (unat sz div sizeof_mk_list) h);
                 Some (Some (p, \<lparr>bq_buckets = b, bq_n_buckets = priorities,
                                 bq_top = b + sizeof_mk_list * unat priorities,
                                 bq_n_items = 0\<rparr>), m, h)
               }))"

definition flb_bucket_queue_is_empty :: "flb_bucket_queue \<Rightarrow> int" where
  "flb_bucket_queue_is_empty q =
     (if bq_top q = bucket q (unat (bq_n_buckets q)) then 1 else 0)"

partial_function (option) flb_bucket_queue_seek ::
  "lheap \<Rightarrow> flb_bucket_queue \<Rightarrow> flb_bucket_queue option" where
  "flb_bucket_queue_seek h q =
     (if flb_bucket_queue_is_empty q \<noteq> 0 then Some q
      else Option.bind (mk_list_is_empty (bq_top q) h) (\<lambda>e.
        if e = 0 then flb_bucket_queue_seek h (q\<lparr>bq_top := bq_top q + sizeof_mk_list\<rparr>)
        else Some q))"

definition flb_bucket_queue_add :: "ptr \<Rightarrow> size_t \<Rightarrow> bq_state \<Rightarrow> (int \<times> bq_state) option" where
  "flb_bucket_queue_add item priority s =
     (let (q, h) = s in
      if bq_n_buckets q \<le> priority then Some (- 1, (q, h))
      else do {
        q \<leftarrow> flb_bucket_queue_seek h q;
        h \<leftarrow> mk_list_add item (bucket q (unat priority)) h;
        q \<leftarrow> Some (if bucket q (unat priority) < bq_top q
                    then q\<lparr>bq_top := bucket q (unat priority)\<rparr> else q);
        Some (0, (q\<lparr>bq_n_items := bq_n_items q + 1\<rparr>, h))
      })"

definition flb_bucket_queue_find_min :: "bq_state \<Rightarrow> (ptr \<times> bq_state) option" where
  "flb_bucket_queue_find_min s =
     (let (q, h) = s in do {
        q \<leftarrow> flb_bucket_queue_seek h q;
        if flb_bucket_queue_is_empty q \<noteq> 0 then Some (NULL, (q, h))
        else do { n \<leftarrow> load_next h (bq_top q); Some (n, (q, h)) }
      })"

definition flb_bucket_queue_delete_min :: "bq_state \<Rightarrow> bq_state option" where
  "flb_bucket_queue_delete_min s =
     (let (q, h) = s in do {
        q \<leftarrow> flb_bucket_queue_seek h q;
        if flb_bucket_queue_is_empty q \<noteq> 0 then Some (q, h)
        else do {
          n \<leftarrow> load_next h (bq_top q);
          h \<leftarrow> mk_list_del n h;
          q \<leftarrow> flb_bucket_queue_seek h q;
          Some (q\<lparr>bq_n_items := bq_n_items q - 1\<rparr>, h)
        }
      })"

definition flb_bucket_queue_pop_min :: "bq_state \<Rightarrow> (ptr \<times> bq_state) option" where
  "flb_bucket_queue_pop_min s = do {
     (item, s) \<leftarrow> flb_bucket_queue_find_min s;
     s \<leftarrow> flb_bucket_queue_delete_min s;
     Some (item, s)
   }"

definition flb_bucket_queue_destroy ::
  "ptr \<Rightarrow> bq_state \<Rightarrow> mem \<Rightarrow> (int \<times> bq_state \<times> mem) option" where
  "flb_bucket_queue_destroy self s m =
     (let (q, h) = s in do {
        q \<leftarrow> flb_bucket_queue_seek h q;
        if flb_bucket_queue_is_empty q = 0 then Some (- 1, (q, h), m)
        else do {
          m \<leftarrow> flb_free (bq_buckets q) m;
          m \<leftarrow> flb_free self m;
          Some (0, (q, free_nodes (bq_buckets q) (unat (bq_n_buckets q)) h), m)
        }
      })"

section \<open>Abstraction: one list of items per priority\<close>

definition heads :: "flb_bucket_queue \<Rightarrow> ptr list" where
  "heads q = map (bucket q) [0..<unat (bq_n_buckets q)]"

text \<open>
  \<open>bq_inv s qs\<close>: the buckets hold the lists \<open>qs\<close>, and every bucket below \<open>top\<close> is empty.
\<close>

definition bq_inv :: "bq_state \<Rightarrow> ptr list list \<Rightarrow> bool" where
  "bq_inv s qs \<longleftrightarrow> (case s of (q, h) \<Rightarrow>
     family dll h (heads q) qs \<and>
     (\<exists>t \<le> length qs. bq_top q = bucket q t \<and> (\<forall>i < t. qs ! i = [])))"

text \<open>The abstract queue: smallest priority first, first come first served inside a priority.\<close>

definition pq_first :: "ptr list list \<Rightarrow> nat" where
  "pq_first qs = length (takeWhile (\<lambda>b. b = []) qs)"

definition pq_min :: "ptr list list \<Rightarrow> ptr" where
  "pq_min qs = (case concat qs of [] \<Rightarrow> NULL | x # _ \<Rightarrow> x)"

definition pq_rest :: "ptr list list \<Rightarrow> ptr list list" where
  "pq_rest qs = (let i = pq_first qs in if i < length qs then qs[i := tl (qs ! i)] else qs)"

lemma pq_first_le: "pq_first qs \<le> length qs"
  by (simp add: pq_first_def length_takeWhile_le)

lemma pq_first_below: "i < pq_first qs \<Longrightarrow> qs ! i = []"
  using nth_mem [of i "takeWhile (\<lambda>b. b = []) qs"] set_takeWhileD takeWhile_nth
  by (fastforce simp: pq_first_def)

lemma pq_first_here: "pq_first qs < length qs \<Longrightarrow> qs ! pq_first qs \<noteq> []"
  using nth_length_takeWhile by (fastforce simp: pq_first_def)

lemma pq_first_unique:
  assumes "t \<le> length qs" "\<And>i. i < t \<Longrightarrow> qs ! i = []" "t < length qs \<Longrightarrow> qs ! t \<noteq> []"
  shows "pq_first qs = t"
proof (rule linorder_cases [of "pq_first qs" t])
  assume "pq_first qs < t"
  then show ?thesis using pq_first_here [of qs] assms(1,2) by auto
next
  assume "t < pq_first qs"
  then show ?thesis using pq_first_below [of t qs] assms(3) pq_first_le [of qs] by auto
qed

lemma concat_take_pq_first: "concat (take (pq_first qs) qs) = []"
  using pq_first_below [of _ qs] by (auto simp: in_set_conv_nth)

lemma concat_pq_first:
  assumes "pq_first qs < length qs"
  shows "concat qs = qs ! pq_first qs @ concat (drop (Suc (pq_first qs)) qs)"
proof -
  let ?i = "pq_first qs"
  have "concat qs = concat (take ?i qs @ qs ! ?i # drop (Suc ?i) qs)"
    using id_take_nth_drop [OF assms] by simp
  also have "\<dots> = concat (take ?i qs) @ qs ! ?i @ concat (drop (Suc ?i) qs)" by simp
  finally show ?thesis unfolding concat_take_pq_first by simp
qed

lemma concat_pq_empty: "\<not> pq_first qs < length qs \<Longrightarrow> concat qs = []"
  using concat_take_pq_first [of qs] by simp

lemma concat_pq_Nil: "concat qs = [] \<longleftrightarrow> \<not> pq_first qs < length qs"
proof
  assume "concat qs = []"
  then show "\<not> pq_first qs < length qs"
    using pq_first_here [of qs] nth_mem [of "pq_first qs" qs] by auto
qed (rule concat_pq_empty)

lemma pq_min_eq: "pq_min qs = (if pq_first qs < length qs then hd (qs ! pq_first qs) else NULL)"
proof (cases "pq_first qs < length qs")
  case True
  then obtain x xs where "qs ! pq_first qs = x # xs" using pq_first_here [OF True] by (cases "qs ! pq_first qs") auto
  then show ?thesis using True unfolding pq_min_def concat_pq_first [OF True] by simp
next
  case False
  then show ?thesis unfolding pq_min_def concat_pq_empty [OF False] by simp
qed

lemma length_pq_rest [simp]: "length (pq_rest qs) = length qs"
  by (simp add: pq_rest_def Let_def)

lemma concat_pq_rest: "concat (pq_rest qs) = tl (concat qs)"
proof (cases "pq_first qs < length qs")
  case True
  let ?i = "pq_first qs"
  have "pq_rest qs = take ?i qs @ tl (qs ! ?i) # drop (Suc ?i) qs"
    using True by (simp add: pq_rest_def Let_def upd_conv_take_nth_drop)
  then have "concat (pq_rest qs) = concat (take ?i qs) @ tl (qs ! ?i) @ concat (drop (Suc ?i) qs)"
    by simp
  then show ?thesis
    unfolding concat_take_pq_first concat_pq_first [OF True] using pq_first_here [OF True] by simp
next
  case False
  then have "pq_rest qs = qs" by (simp add: pq_rest_def)
  then show ?thesis by (simp only: concat_pq_empty [OF False] list.sel)
qed

section \<open>The operations implement the abstract queue\<close>

lemma bucket_upd [simp]:
  "bucket (q\<lparr>bq_top := t\<rparr>) = bucket q" "bucket (q\<lparr>bq_n_items := n\<rparr>) = bucket q"
  by (auto simp: bucket_def)

lemma heads_upd [simp]:
  "heads (q\<lparr>bq_top := t\<rparr>) = heads q" "heads (q\<lparr>bq_n_items := n\<rparr>) = heads q"
  by (auto simp: heads_def)

lemma bucket_less [simp]: "bucket q i < bucket q j \<longleftrightarrow> i < j" "bucket q i = bucket q j \<longleftrightarrow> i = j"
  by (auto simp: bucket_def sizeof_mk_list_def)

lemma bucket_Suc: "bucket q i + sizeof_mk_list = bucket q (Suc i)"
  by (simp add: bucket_def)

lemma heads_nth [simp]: "i < unat (bq_n_buckets q) \<Longrightarrow> heads q ! i = bucket q i"
  by (simp add: heads_def)

lemma length_heads [simp]: "length (heads q) = unat (bq_n_buckets q)"
  by (simp add: heads_def)

lemma bq_inv_dll:
  assumes "bq_inv (q, h) qs"
  shows "length qs = unat (bq_n_buckets q)" "i < length qs \<Longrightarrow> dll h (bucket q i) (qs ! i)"
  using assms by (auto simp: bq_inv_def family_def)

text \<open>The cursor always comes to rest on the first bucket that holds an item.\<close>

lemma seek_from:
  assumes "t \<le> length qs" "\<And>i. i < t \<Longrightarrow> qs ! i = []" "bq_top q = bucket q t"
    and "length qs = unat (bq_n_buckets q)" "\<And>i. i < length qs \<Longrightarrow> dll h (bucket q i) (qs ! i)"
  shows "flb_bucket_queue_seek h q = Some (q\<lparr>bq_top := bucket q (pq_first qs)\<rparr>)"
  using assms
proof (induction "length qs - t" arbitrary: t q)
  case 0
  then have t: "t = length qs" by simp
  with 0 have "pq_first qs = t" by (intro pq_first_unique) auto
  with t 0 show ?case
    by (subst flb_bucket_queue_seek.simps) (simp add: flb_bucket_queue_is_empty_def)
next
  case (Suc k)
  then have t: "t < length qs" by simp
  note e = mk_list_is_empty_dll [OF Suc.prems(5) [OF t]]
  show ?case
  proof (cases "qs ! t = []")
    case True
    have "flb_bucket_queue_seek h (q\<lparr>bq_top := bucket q (Suc t)\<rparr>) =
            Some (q\<lparr>bq_top := bucket q (Suc t), bq_top := bucket q (pq_first qs)\<rparr>)"
      by (subst Suc.hyps(1) [of "Suc t"]) (use Suc t True less_Suc_eq in auto)
    then show ?thesis
      using e True t Suc.prems by (subst flb_bucket_queue_seek.simps)
        (simp add: flb_bucket_queue_is_empty_def bucket_Suc)
  next
    case False
    with t Suc.prems have "pq_first qs = t" by (intro pq_first_unique) auto
    with False t Suc.prems e show ?thesis
      by (subst flb_bucket_queue_seek.simps) (simp add: flb_bucket_queue_is_empty_def)
  qed
qed

lemma flb_bucket_queue_seek_inv:
  assumes "bq_inv (q, h) qs"
  shows "flb_bucket_queue_seek h q = Some (q\<lparr>bq_top := bucket q (pq_first qs)\<rparr>)"
proof -
  obtain t where "t \<le> length qs" "bq_top q = bucket q t" "\<forall>i < t. qs ! i = []"
    using assms by (auto simp: bq_inv_def)
  then show ?thesis using bq_inv_dll [OF assms] by (intro seek_from [of t]) auto
qed

lemma bq_inv_top:
  assumes "bq_inv (q, h) qs" "t \<le> pq_first qs"
  shows "bq_inv (q\<lparr>bq_top := bucket q t\<rparr>, h) qs"
proof -
  have "t \<le> length qs" "\<forall>i < t. qs ! i = []"
    using assms(2) pq_first_le [of qs] pq_first_below [of _ qs] by auto
  then show ?thesis using assms(1) by (auto simp: bq_inv_def)
qed

lemma bq_inv_n_items [simp]: "bq_inv (q\<lparr>bq_n_items := n\<rparr>, h) qs = bq_inv (q, h) qs"
  by (simp add: bq_inv_def)

lemma is_empty_top:
  "length qs = unat (bq_n_buckets q) \<Longrightarrow>
   flb_bucket_queue_is_empty (q\<lparr>bq_top := bucket q (pq_first qs)\<rparr>) \<noteq> 0 \<longleftrightarrow> \<not> pq_first qs < length qs"
  using pq_first_le [of qs] by (auto simp: flb_bucket_queue_is_empty_def)

text \<open>\<open>pq_insert\<close>: the abstract insertion, at the end of the item's priority class.\<close>

definition pq_insert :: "nat \<Rightarrow> ptr \<Rightarrow> ptr list list \<Rightarrow> ptr list list" where
  "pq_insert i x qs = qs[i := qs ! i @ [x]]"

lemma length_pq_insert [simp]: "length (pq_insert i x qs) = length qs"
  by (simp add: pq_insert_def)

lemma nth_pq_insert: "j < length qs \<Longrightarrow> pq_insert i x qs ! j = (if j = i then qs ! i @ [x] else qs ! j)"
  by (simp add: pq_insert_def)

text \<open>A node may be queued when it is a live node that is no bucket head and in no bucket.\<close>

definition bq_free :: "bq_state \<Rightarrow> ptr \<Rightarrow> bool" where
  "bq_free s x \<longleftrightarrow> (case s of (q, h) \<Rightarrow> valid h x \<and> x \<notin> set (heads q))"

lemma members_heads: "members (heads q) qs = set (heads q) \<union> set (concat qs)"
  by (auto simp: members_def)

lemma flb_bucket_queue_add_inv:
  assumes inv: "bq_inv (q, h) qs" and p: "priority < bq_n_buckets q"
    and x: "bq_free (q, h) item" "item \<notin> set (concat qs)"
  shows "\<exists>q' h'. flb_bucket_queue_add item priority (q, h) = Some (0, (q', h')) \<and>
    bq_inv (q', h') (pq_insert (unat priority) item qs) \<and> heads q' = heads q \<and>
    bq_n_items q' = bq_n_items q + 1 \<and> bq_n_buckets q' = bq_n_buckets q \<and>
    frame (set (bucket q (unat priority) # qs ! unat priority @ [item])) h h'"
proof -
  let ?i = "unat priority" and ?t = "pq_first qs"
  note len = bq_inv_dll(1) [OF inv]
  have i: "?i < length (heads q)" "?i < length qs" using p len by (simp_all add: word_less_nat_alt)
  obtain h' where h': "mk_list_add item (bucket q ?i) h = Some h'"
      "family dll h' (heads q) (pq_insert ?i item qs)"
      "frame (set (bucket q ?i # qs ! ?i @ [item])) h h'"
    using ml.family_add [of h "heads q" qs ?i item] inv i x
    by (auto simp: bq_inv_def bq_free_def members_heads pq_insert_def)
  have below: "\<forall>j < min ?i ?t. pq_insert ?i item qs ! j = []" "min ?i ?t \<le> length qs"
    using i pq_first_below [of _ qs] by (auto simp: nth_pq_insert)
  define q' where "q' = q\<lparr>bq_top := bucket q (min ?i ?t), bq_n_items := bq_n_items q + 1\<rparr>"
  have "bq_inv (q', h') (pq_insert ?i item qs)"
    unfolding bq_inv_def q'_def using h'(2) below by auto
  moreover have "flb_bucket_queue_add item priority (q, h) = Some (0, (q', h'))"
    using p h'(1) unfolding flb_bucket_queue_add_def q'_def min_def
    by (auto simp: flb_bucket_queue_seek_inv [OF inv])
  ultimately show ?thesis using h'(3) by (auto simp: q'_def)
qed

lemma flb_bucket_queue_add_error:
  "bq_n_buckets (fst s) \<le> priority \<Longrightarrow> flb_bucket_queue_add item priority s = Some (- 1, s)"
  by (auto simp: flb_bucket_queue_add_def split: prod.split)

lemma flb_bucket_queue_find_min_inv:
  assumes inv: "bq_inv (q, h) qs"
  shows "flb_bucket_queue_find_min (q, h) =
    Some (pq_min qs, (q\<lparr>bq_top := bucket q (pq_first qs)\<rparr>, h))"
proof (cases "pq_first qs < length qs")
  case True
  then have d: "dll h (bucket q (pq_first qs)) (qs ! pq_first qs)" using bq_inv_dll(2) [OF inv] by simp
  have "nx h (bucket q (pq_first qs)) = hd (qs ! pq_first qs)"
    using dll_ends(2) [OF d] pq_first_here [OF True] by simp
  then show ?thesis
    using True is_empty_top [OF bq_inv_dll(1) [OF inv]] dll_ends(1) [OF d]
    by (simp add: flb_bucket_queue_find_min_def flb_bucket_queue_seek_inv [OF inv] pq_min_eq heap_simps)
next
  case False
  then show ?thesis
    using is_empty_top [OF bq_inv_dll(1) [OF inv]]
    by (simp add: flb_bucket_queue_find_min_def flb_bucket_queue_seek_inv [OF inv] pq_min_eq)
qed

lemma pq_rest_below: "i < pq_first qs \<Longrightarrow> pq_rest qs ! i = []"
  using pq_first_below [of i qs] by (auto simp: pq_rest_def Let_def)

lemma flb_bucket_queue_delete_min_inv:
  assumes inv: "bq_inv (q, h) qs"
  shows "\<exists>q' h'. flb_bucket_queue_delete_min (q, h) = Some (q', h') \<and> bq_inv (q', h') (pq_rest qs) \<and>
    heads q' = heads q \<and> bq_n_buckets q' = bq_n_buckets q \<and>
    bq_n_items q' = (if concat qs = [] then bq_n_items q else bq_n_items q - 1) \<and>
    frame (members (heads q) qs) h h' \<and>
    (concat qs \<noteq> [] \<longrightarrow> nx h' (pq_min qs) = NULL \<and> pv h' (pq_min qs) = NULL)"
proof (cases "pq_first qs < length qs")
  case True
  let ?i = "pq_first qs"
  note len = bq_inv_dll(1) [OF inv]
  have d: "dll h (bucket q ?i) (qs ! ?i)" using bq_inv_dll(2) [OF inv] True by simp
  obtain x xs where x: "qs ! ?i = x # xs" using pq_first_here [OF True] by (cases "qs ! ?i") auto
  have ne: "concat qs \<noteq> []" unfolding concat_pq_first [OF True] x by simp
  have n: "nx h (bucket q ?i) = x" using dll_ends(2) [OF d] x by simp
  have i: "?i < length (heads q)" using True len by simp
  obtain h' where h': "mk_list_del x h = Some h'"
      "family dll h' (heads q) (qs[?i := xs])" "frame (set (bucket q ?i # qs ! ?i)) h h'"
    using ml.family_del [of h "heads q" qs ?i "[]" x xs] inv i x by (auto simp: bq_inv_def)
  have orphan: "nx h' x = NULL" "pv h' x = NULL"
    using mk_list_del_dll [of h "bucket q ?i" "[]" x xs] d x h'(1) by auto
  have r: "qs[?i := xs] = pq_rest qs" using True x by (simp add: pq_rest_def Let_def)
  have inv': "bq_inv (q\<lparr>bq_top := bucket q ?i\<rparr>, h') (pq_rest qs)"
    using h'(2) True pq_rest_below [of _ qs] by (auto simp: bq_inv_def r intro!: exI [of _ ?i])
  define q' where "q' = q\<lparr>bq_top := bucket q (pq_first (pq_rest qs)), bq_n_items := bq_n_items q - 1\<rparr>"
  have "flb_bucket_queue_delete_min (q, h) = Some (q', h')"
    using True h'(1) is_empty_top [OF len] dll_ends(1) [OF d]
    by (simp add: flb_bucket_queue_delete_min_def flb_bucket_queue_seek_inv [OF inv] heap_simps n
          flb_bucket_queue_seek_inv [OF inv'] q'_def)
  moreover have "bq_inv (q', h') (pq_rest qs)"
    using bq_inv_top [OF inv' order_refl] by (simp add: q'_def)
  moreover have "frame (members (heads q) qs) h h'"
    using members_nth [of qs "heads q" ?i] i len frame_mono [OF h'(3)] by simp
  moreover have "pq_min qs = x" using True x by (simp add: pq_min_eq)
  ultimately show ?thesis using ne orphan by (auto simp: q'_def simp del: concat_eq_Nil_conv)
next
  case False
  have "pq_rest qs = qs" using False by (simp add: pq_rest_def)
  moreover have "flb_bucket_queue_delete_min (q, h) = Some (q\<lparr>bq_top := bucket q (pq_first qs)\<rparr>, h)"
    using False is_empty_top [OF bq_inv_dll(1) [OF inv]]
    by (simp add: flb_bucket_queue_delete_min_def flb_bucket_queue_seek_inv [OF inv])
  moreover have "frame (members (heads q) qs) h h" by (simp add: frame_def)
  ultimately show ?thesis
    using bq_inv_top [OF inv order_refl] concat_pq_empty [OF False] by (simp del: concat_eq_Nil_conv)
qed

lemma flb_bucket_queue_pop_min_inv:
  assumes inv: "bq_inv (q, h) qs"
  shows "\<exists>q' h'. flb_bucket_queue_pop_min (q, h) = Some (pq_min qs, (q', h')) \<and>
    bq_inv (q', h') (pq_rest qs) \<and> heads q' = heads q \<and> bq_n_buckets q' = bq_n_buckets q \<and>
    bq_n_items q' = (if concat qs = [] then bq_n_items q else bq_n_items q - 1) \<and>
    frame (members (heads q) qs) h h' \<and>
    (concat qs \<noteq> [] \<longrightarrow> nx h' (pq_min qs) = NULL \<and> pv h' (pq_min qs) = NULL)"
  using flb_bucket_queue_delete_min_inv [OF bq_inv_top [OF inv order_refl]]
  by (auto simp: flb_bucket_queue_pop_min_def flb_bucket_queue_find_min_inv [OF inv]
      simp del: concat_eq_Nil_conv)

section \<open>Creation and destruction\<close>

lemma init_buckets_dll:
  assumes "\<And>j. i \<le> j \<Longrightarrow> j < i + k \<Longrightarrow> valid h (b + sizeof_mk_list * j)"
  shows "\<exists>h'. init_buckets b i k h = Some h' \<and>
    (\<forall>j. i \<le> j \<and> j < i + k \<longrightarrow> dll h' (b + sizeof_mk_list * j) []) \<and>
    frame {b + sizeof_mk_list * j | j. i \<le> j \<and> j < i + k} h h'"
  using assms
proof (induction k arbitrary: i h)
  case 0
  then show ?case by (auto simp: frame_def)
next
  case (Suc k)
  obtain h1 where h1: "mk_list_init (b + sizeof_mk_list * i) h = Some h1"
      "dll h1 (b + sizeof_mk_list * i) []" "frame {b + sizeof_mk_list * i} h h1"
    using mk_list_init_dll Suc.prems [of i] by auto
  obtain h2 where h2: "init_buckets b (Suc i) k h1 = Some h2"
      "\<forall>j. Suc i \<le> j \<and> j < Suc i + k \<longrightarrow> dll h2 (b + sizeof_mk_list * j) []"
      "frame {b + sizeof_mk_list * j | j. Suc i \<le> j \<and> j < Suc i + k} h1 h2"
    using Suc.IH [of "Suc i" h1] Suc.prems frame_valid [OF h1(3)] by auto
  have "dll h2 (b + sizeof_mk_list * i) []"
    using frame_dll [OF h2(3), of "b + sizeof_mk_list * i" "[]"] h1(2)
    by (auto simp: sizeof_mk_list_def)
  then have "dll h2 (b + sizeof_mk_list * j) []" if "i \<le> j" "j < i + Suc k" for j
    using h2(2) that by (cases "j = i") auto
  moreover have "frame {b + sizeof_mk_list * j | j. i \<le> j \<and> j < i + Suc k} h h2"
    by (rule frame_mono [OF frame_trans [OF h1(3) h2(3)]]) auto
  ultimately show ?case using h1(1) h2(1) by auto
qed

lemma family_empty_lists:
  assumes "\<And>i. i < length hs \<Longrightarrow> dll h (hs ! i) []" "distinct hs"
  shows "family dll h hs (replicate (length hs) [])"
  using assms by (auto simp: family_def nth_eq_iff_index_eq)

lemma distinct_heads: "distinct (heads q)"
  by (auto simp: heads_def distinct_map inj_on_def)

lemma valid_alloc_nodes: "b \<noteq> NULL \<Longrightarrow> j < n \<Longrightarrow> valid (alloc_nodes junk b n h) (b + sizeof_mk_list * j)"
  by (auto simp: valid_def alloc_nodes_def)

lemma flb_bucket_queue_create_inv:
  assumes al: "fresh_allocator al" and fits: "16 * unat priorities < 2 ^ 64"
    and r: "flb_bucket_queue_create al junk priorities m h = r"
  shows "(\<exists>m'. r = Some (None, m', h) \<and> blocks m' = blocks m) \<or>
    (\<exists>p q m' h'. r = Some (Some (p, q), m', h') \<and> bq_inv (q, h') (replicate (unat priorities) []) \<and>
       bq_n_items q = 0 \<and> bq_n_buckets q = priorities \<and> p \<noteq> NULL \<and> bq_buckets q \<noteq> NULL \<and>
       p \<noteq> bq_buckets q \<and> blocks m p = None \<and> blocks m (bq_buckets q) = None \<and>
       dom (blocks m') = dom (blocks m) \<union> {p, bq_buckets q} \<and>
       (\<forall>x. x \<notin> {p, bq_buckets q} \<longrightarrow> blocks m' x = blocks m x) \<and>
       (\<forall>x. x \<notin> set (heads q) \<longrightarrow> h' x = h x))"
proof -
  obtain p m1 where p: "flb_malloc al sizeof_flb_bucket_queue m = (p, m1)" by fastforce
  obtain b m2 where b: "flb_malloc al (of_nat sizeof_mk_list * priorities) m1 = (b, m2)" by fastforce
  note pb = flb_malloc_blocks [OF p al] and bb = flb_malloc_blocks [OF b al]
  consider "p = NULL" | "p \<noteq> NULL" "b = NULL" | "p \<noteq> NULL" "b \<noteq> NULL" by blast
  then show ?thesis
  proof cases
    case 1
    then show ?thesis using r p pb by (auto simp: flb_bucket_queue_create_def)
  next
    case 2
    then have "flb_free p m2 = Some (m2\<lparr>blocks := blocks m\<rparr>)"
      using pb bb by (subst flb_free_live) (auto simp: fun_upd_idem)
    then show ?thesis using r p b 2 by (auto simp: flb_bucket_queue_create_def Let_def)
  next
    case 3
    have n: "unat (of_nat sizeof_mk_list * priorities) div sizeof_mk_list = unat priorities"
    proof -
      have "unat ((16 :: size_t) * priorities) = unat (16 :: size_t) * unat priorities"
        using fits by (subst unat_mult_lem [symmetric]) simp
      then show ?thesis by (simp add: sizeof_mk_list_def)
    qed
    define h0 where "h0 = alloc_nodes junk b (unat priorities) h"
    obtain h' where h': "init_buckets b 0 (unat priorities) h0 = Some h'"
        "\<forall>j < unat priorities. dll h' (b + sizeof_mk_list * j) []"
        "frame {b + sizeof_mk_list * j | j. j < unat priorities} h0 h'"
      using init_buckets_dll [of 0 "unat priorities" h0 b] valid_alloc_nodes [OF 3(2)] by (auto simp: h0_def)
    define q where "q = \<lparr>bq_buckets = b, bq_n_buckets = priorities,
      bq_top = b + sizeof_mk_list * unat priorities, bq_n_items = 0\<rparr>"
    have bk: "bucket q j = b + sizeof_mk_list * j" for j by (simp add: bucket_def q_def)
    have nb: "bq_n_buckets q = priorities" by (simp add: q_def)
    have "family dll h' (heads q) (replicate (length (heads q)) [])"
      by (rule family_empty_lists) (use h'(2) bk nb distinct_heads in auto)
    then have "bq_inv (q, h') (replicate (unat priorities) [])"
      unfolding bq_inv_def by (auto simp: nb q_def bucket_def intro!: exI [of _ "unat priorities"])
    moreover have "h' x = h x" if "x \<notin> set (heads q)" for x
    proof -
      have "set (heads q) = {b + sizeof_mk_list * j | j. j < unat priorities}"
        by (auto simp: heads_def bk nb)
      then show ?thesis using that h'(3) by (auto simp: frame_def h0_def alloc_nodes_def heads_def bk nb)
    qed
    moreover have "r = Some (Some (p, q), m2, h')"
      using r p b 3 h'(1) by (auto simp: flb_bucket_queue_create_def Let_def n h0_def q_def)
    moreover have "p \<noteq> b" "blocks m b = None" "dom (blocks m2) = dom (blocks m) \<union> {p, b}"
      "\<forall>x. x \<notin> {p, b} \<longrightarrow> blocks m2 x = blocks m x"
      using pb bb 3 by (auto split: if_splits)
    ultimately show ?thesis using 3 pb by (auto simp: q_def)
  qed
qed

lemma flb_bucket_queue_destroy_inv:
  assumes inv: "bq_inv (q, h) qs" and live: "blocks m self \<noteq> None" "blocks m (bq_buckets q) \<noteq> None"
    and nn: "self \<noteq> NULL" "bq_buckets q \<noteq> NULL" "self \<noteq> bq_buckets q"
  shows "\<exists>q' h' m'. flb_bucket_queue_destroy self (q, h) m =
     Some (if concat qs = [] then 0 else - 1, (q', h'), m') \<and>
     (concat qs \<noteq> [] \<longrightarrow> bq_inv (q', h') qs \<and> h' = h \<and> m' = m) \<and>
     (concat qs = [] \<longrightarrow> blocks m' = (blocks m)(bq_buckets q := None, self := None) \<and>
        (\<forall>x. h' x = (if x \<in> set (heads q) then None else h x)))"
proof (cases "pq_first qs < length qs")
  case True
  then have "concat qs \<noteq> []" using pq_first_here [OF True] unfolding concat_pq_first [OF True] by simp
  with True show ?thesis
    using is_empty_top [OF bq_inv_dll(1) [OF inv]] bq_inv_top [OF inv order_refl]
    by (simp add: flb_bucket_queue_destroy_def flb_bucket_queue_seek_inv [OF inv] del: concat_eq_Nil_conv)
next
  case False
  have "free_nodes (bq_buckets q) (unat (bq_n_buckets q)) h x = (if x \<in> set (heads q) then None else h x)" for x
    by (auto simp: free_nodes_def heads_def bucket_def)
  then show ?thesis
    using False is_empty_top [OF bq_inv_dll(1) [OF inv]] concat_pq_empty [OF False] live nn
    by (simp add: flb_bucket_queue_destroy_def flb_bucket_queue_seek_inv [OF inv] flb_free_live
        del: concat_eq_Nil_conv)
qed

section \<open>The priority queue as an interface\<close>

text \<open>
  What the event loop relies on: insertion appends to a priority class and pop takes the first
  item of the first non-empty class.  The lemmas of the locale hold of every such queue.
\<close>

fun drain :: "('s \<Rightarrow> (ptr \<times> 's) option) \<Rightarrow> nat \<Rightarrow> 's \<Rightarrow> (ptr list \<times> 's) option" where
  "drain pop 0 s = Some ([], s)"
| "drain pop (Suc n) s = do {
     (x, s) \<leftarrow> pop s;
     (xs, s) \<leftarrow> drain pop n s;
     Some (x # xs, s)
   }"

fun insert_all :: "(ptr \<Rightarrow> nat \<Rightarrow> 's \<Rightarrow> 's option) \<Rightarrow> (ptr \<times> nat) list \<Rightarrow> 's \<Rightarrow> 's option" where
  "insert_all ins [] s = Some s"
| "insert_all ins ((x, i) # xs) s = Option.bind (ins x i s) (insert_all ins xs)"

definition pq_insert_all :: "(ptr \<times> nat) list \<Rightarrow> ptr list list \<Rightarrow> ptr list list" where
  "pq_insert_all xs qs = foldl (\<lambda>qs (x, i). pq_insert i x qs) qs xs"

lemma pq_insert_all_simps [simp]:
  "pq_insert_all [] qs = qs"
  "pq_insert_all ((x, i) # xs) qs = pq_insert_all xs (pq_insert i x qs)"
  by (simp_all add: pq_insert_all_def)

lemma length_pq_insert_all [simp]: "length (pq_insert_all xs qs) = length qs"
  by (induction xs arbitrary: qs) auto

lemma nth_pq_insert_all:
  "j < length qs \<Longrightarrow> pq_insert_all xs qs ! j = qs ! j @ map fst (filter (\<lambda>(x, i). i = j) xs)"
  by (induction xs arbitrary: qs) (auto simp: nth_pq_insert)

lemma set_concat_pq_insert:
  "i < length qs \<Longrightarrow> set (concat (pq_insert i x qs)) = insert x (set (concat qs))"
proof -
  assume i: "i < length qs"
  have "set (concat (pq_insert i x qs)) =
      set (concat (take i qs @ (qs ! i @ [x]) # drop (Suc i) qs))"
    using i by (simp add: pq_insert_def upd_conv_take_nth_drop)
  also have "\<dots> = insert x (set (concat (take i qs @ qs ! i # drop (Suc i) qs)))"
    by auto
  finally show ?thesis using id_take_nth_drop [OF i] by simp
qed

locale prio_queue =
  fixes inv :: "'s \<Rightarrow> ptr list list \<Rightarrow> bool"
    and ok :: "'s \<Rightarrow> ptr \<Rightarrow> bool"
    and ins :: "ptr \<Rightarrow> nat \<Rightarrow> 's \<Rightarrow> 's option"
    and pop :: "'s \<Rightarrow> (ptr \<times> 's) option"
  assumes ins_law: "inv s qs \<Longrightarrow> i < length qs \<Longrightarrow> ok s x \<Longrightarrow> x \<notin> set (concat qs) \<Longrightarrow>
      \<exists>s'. ins x i s = Some s' \<and> inv s' (pq_insert i x qs) \<and> (\<forall>y. ok s y \<longrightarrow> ok s' y)"
    and pop_law: "inv s qs \<Longrightarrow>
      \<exists>s'. pop s = Some (pq_min qs, s') \<and> inv s' (pq_rest qs) \<and> (\<forall>y. ok s y \<longrightarrow> ok s' y)"
begin

lemma drain_all:
  assumes "inv s qs" "n \<le> length (concat qs)"
  shows "\<exists>s'. drain pop n s = Some (take n (concat qs), s') \<and> inv s' ((pq_rest ^^ n) qs)"
  using assms
proof (induction n arbitrary: s qs)
  case (Suc n)
  obtain s1 where s1: "pop s = Some (pq_min qs, s1)" "inv s1 (pq_rest qs)"
    using pop_law [OF Suc.prems(1)] by blast
  obtain x xs where x: "concat qs = x # xs" using Suc.prems(2) by (cases "concat qs") auto
  then have "pq_min qs = x" "concat (pq_rest qs) = xs" by (simp_all only: pq_min_def concat_pq_rest list.case list.sel)
  then show ?case
    using Suc.IH [OF s1(2)] s1(1) Suc.prems(2) unfolding x
    by (auto simp: funpow_swap1)
qed simp

lemma insert_all_inv:
  assumes "inv s qs" "\<forall>(x, i) \<in> set xs. i < length qs \<and> ok s x \<and> x \<notin> set (concat qs)"
    and "distinct (map fst xs)"
  shows "\<exists>s'. insert_all ins xs s = Some s' \<and> inv s' (pq_insert_all xs qs)"
  using assms
proof (induction xs arbitrary: s qs)
  case (Cons a xs)
  obtain x i where a: "a = (x, i)" by fastforce
  obtain s1 where s1: "ins x i s = Some s1" "inv s1 (pq_insert i x qs)" "\<forall>y. ok s y \<longrightarrow> ok s1 y"
    using ins_law [OF Cons.prems(1), of i x] Cons.prems(2) a by auto
  have i: "i < length qs" using Cons.prems(2) a by auto
  have "\<forall>(y, j) \<in> set xs. j < length (pq_insert i x qs) \<and> ok s1 y \<and> y \<notin> set (concat (pq_insert i x qs))"
    unfolding set_concat_pq_insert [OF i] using Cons.prems(2,3) s1(3) a by (auto simp: image_iff)
  then show ?case
    using Cons.IH [OF s1(2)] Cons.prems(3) s1(1) a by auto
qed simp

text \<open>Items that enter an empty queue leave it stably sorted by priority.\<close>

lemma insert_all_drain:
  assumes "inv s (replicate n [])" "\<forall>(x, i) \<in> set xs. i < n \<and> ok s x" "distinct (map fst xs)"
  shows "\<exists>s' s''. insert_all ins xs s = Some s' \<and>
     drain pop (length (concat (pq_insert_all xs (replicate n [])))) s' =
       Some (concat (pq_insert_all xs (replicate n [])), s'')"
proof -
  have "set (concat (replicate n [])) = ({} :: ptr set)" by auto
  then obtain s' where s': "insert_all ins xs s = Some s'" "inv s' (pq_insert_all xs (replicate n []))"
    using insert_all_inv [OF assms(1), of xs] assms(2,3) by auto
  then show ?thesis using drain_all [OF s'(2) order_refl] by auto
qed

end

definition bq_insert :: "ptr \<Rightarrow> nat \<Rightarrow> bq_state \<Rightarrow> bq_state option" where
  "bq_insert x i s =
     Option.bind (flb_bucket_queue_add x (of_nat i) s) (\<lambda>(r, s). if r = 0 then Some s else None)"

interpretation bq: prio_queue bq_inv bq_free bq_insert flb_bucket_queue_pop_min
proof
  fix s qs i x
  assume inv: "bq_inv s qs" and i: "i < length qs" and x: "bq_free s x" "x \<notin> set (concat qs)"
  obtain q h where s: "s = (q, h)" by fastforce
  note len = bq_inv_dll(1) [OF inv [unfolded s]]
  have "unat (of_nat i :: size_t) = i"
    using i len by (intro unat_of_nat_less [of _ "bq_n_buckets q"]) simp
  moreover from this have "(of_nat i :: size_t) < bq_n_buckets q" using i len by (simp add: word_less_nat_alt)
  ultimately show "\<exists>s'. bq_insert x i s = Some s' \<and> bq_inv s' (pq_insert i x qs) \<and> (\<forall>y. bq_free s y \<longrightarrow> bq_free s' y)"
    using flb_bucket_queue_add_inv [of q h qs "of_nat i" x] inv x s
    by (auto simp: bq_insert_def bq_free_def frame_valid simp del: set_concat)
next
  fix s qs
  assume inv: "bq_inv s qs"
  obtain q h where s: "s = (q, h)" by fastforce
  show "\<exists>s'. flb_bucket_queue_pop_min s = Some (pq_min qs, s') \<and> bq_inv s' (pq_rest qs) \<and>
    (\<forall>y. bq_free s y \<longrightarrow> bq_free s' y)"
    using flb_bucket_queue_pop_min_inv [of q h qs] inv s
    by (auto simp: bq_free_def frame_valid simp del: concat_eq_Nil_conv)
qed

section \<open>Properties\<close>

text \<open>
  A queue of two priorities with the items 100 (priority 1), 200 and 300 (priority 0), used to
  instantiate the properties.
\<close>

definition example_queue :: flb_bucket_queue where
  "example_queue = \<lparr>bq_buckets = 16, bq_n_buckets = 2, bq_top = 16, bq_n_items = 3\<rparr>"

definition example_heap :: lheap where
  "example_heap = [16 \<mapsto> \<lparr>mk_prev = 300, mk_next = 200\<rparr>, 32 \<mapsto> \<lparr>mk_prev = 100, mk_next = 100\<rparr>,
     100 \<mapsto> \<lparr>mk_prev = 32, mk_next = 32\<rparr>, 200 \<mapsto> \<lparr>mk_prev = 16, mk_next = 300\<rparr>,
     300 \<mapsto> \<lparr>mk_prev = 200, mk_next = 16\<rparr>, 400 \<mapsto> \<lparr>mk_prev = 0, mk_next = 0\<rparr>]"

definition example_items :: "ptr list list" where
  "example_items = [[200, 300], [100]]"

lemma example_heads: "heads example_queue = [16, 32]"
  by (simp add: heads_def example_queue_def bucket_def sizeof_mk_list_def upt_rec)

lemma example_inv: "bq_inv (example_queue, example_heap) example_items"
proof -
  have "dll example_heap 16 [200, 300]" "dll example_heap 32 [100]"
    by (simp_all add: dll_def example_heap_def valid_def nx_def pv_def)
  then have "family dll example_heap (heads example_queue) example_items"
    unfolding example_heads by (auto simp: family_def example_items_def less_Suc_eq numeral_2_eq_2)
  moreover have "bq_top example_queue = bucket example_queue 0"
    by (simp add: example_queue_def bucket_def)
  ultimately show ?thesis unfolding bq_inv_def by auto
qed

lemma example_free: "bq_free (example_queue, example_heap) 400" "400 \<notin> set (concat example_items)"
  by (simp_all add: bq_free_def example_heads valid_def example_heap_def example_items_def)

text \<open>
  C19: popping.  \<^verbatim>\<open>flb_bucket_queue_pop_min\<close> on a well-formed queue always returns; it answers the
  first item of the first non-empty bucket (null when there is none), removes exactly that item
  and leaves it unlinked, keeps the order of all others, and decrements the item counter when an
  item was there.
\<close>

theorem pop_min_refines:
  assumes "bq_inv (q, h) qs"
  shows "\<exists>q' h'. flb_bucket_queue_pop_min (q, h) = Some (pq_min qs, (q', h')) \<and>
    bq_inv (q', h') (pq_rest qs) \<and> concat (pq_rest qs) = tl (concat qs) \<and>
    bq_n_items q' = (if concat qs = [] then bq_n_items q else bq_n_items q - 1) \<and>
    (concat qs \<noteq> [] \<longrightarrow> mk_list_entry_is_orphan (pq_min qs) h' = Some MK_TRUE)"
proof -
  obtain q' h' where p: "flb_bucket_queue_pop_min (q, h) = Some (pq_min qs, (q', h'))"
      "bq_inv (q', h') (pq_rest qs)" "frame (members (heads q) qs) h h'"
      "bq_n_items q' = (if concat qs = [] then bq_n_items q else bq_n_items q - 1)"
      "concat qs \<noteq> [] \<longrightarrow> nx h' (pq_min qs) = NULL \<and> pv h' (pq_min qs) = NULL"
    using flb_bucket_queue_pop_min_inv [OF assms] by blast
  have "mk_list_entry_is_orphan (pq_min qs) h' = Some MK_TRUE" if ne: "concat qs \<noteq> []"
  proof -
    have f: "pq_first qs < length qs" using ne concat_pq_Nil [of qs] by blast
    have "valid h (pq_min qs)"
      using dll_ends(4) [OF bq_inv_dll(2) [OF assms f]] pq_first_here [OF f] f by (simp add: pq_min_eq)
    then show ?thesis using p(5) ne frame_valid [OF p(3)] by (intro mk_list_del_orphan(1)) auto
  qed
  with p concat_pq_rest [of qs] show ?thesis by blast
qed

theorem pop_min_refines_witness:
  "\<exists>q' h'. flb_bucket_queue_pop_min (example_queue, example_heap) = Some (200, (q', h')) \<and>
     bq_inv (q', h') [[300], [100]] \<and> bq_n_items q' = 2"
  using pop_min_refines [OF example_inv]
  by (auto simp: pq_min_def pq_rest_def pq_first_def example_items_def example_queue_def)

text \<open>
  C18: insertion.  \<^verbatim>\<open>flb_bucket_queue_add\<close> of a free node appends it to the bucket of its priority
  and counts it; with a priority that has no bucket it answers -1 and changes nothing.
\<close>

theorem add_refines:
  assumes "bq_inv (q, h) qs" "bq_free (q, h) item" "item \<notin> set (concat qs)"
  shows "if priority < bq_n_buckets q
    then \<exists>q' h'. flb_bucket_queue_add item priority (q, h) = Some (0, (q', h')) \<and>
      bq_inv (q', h') (qs[unat priority := qs ! unat priority @ [item]]) \<and>
      bq_n_items q' = bq_n_items q + 1
    else flb_bucket_queue_add item priority (q, h) = Some (- 1, (q, h))"
  using flb_bucket_queue_add_inv [OF assms(1) _ assms(2,3), of priority]
    flb_bucket_queue_add_error [of "(q, h)" priority item]
  by (auto simp: pq_insert_def)

theorem add_refines_witness:
  "\<exists>q' h'. flb_bucket_queue_add 400 0 (example_queue, example_heap) = Some (0, (q', h')) \<and>
     bq_inv (q', h') [[200, 300, 400], [100]]"
  using add_refines [OF example_inv example_free, of 0]
  by (auto simp: example_items_def example_queue_def)

text \<open>
  C1: the queue sorts.  Distinct free items inserted into an empty queue of \<open>n\<close> priorities come
  out of successive pops ordered by priority, items of equal priority in the order of insertion.
\<close>

theorem bucket_queue_sorts:
  assumes "bq_inv s (replicate n [])" "list_all (\<lambda>(x, i). i < n \<and> bq_free s x) xs" "distinct (map fst xs)"
  shows "\<exists>s' s''. insert_all bq_insert xs s = Some s' \<and>
    drain flb_bucket_queue_pop_min (length xs) s' = Some (map fst (sort_key snd xs), s'')"
proof -
  have "pq_insert_all xs (replicate n []) = map (\<lambda>j. map fst (filter (\<lambda>x. snd x = j) xs)) [0..<n]"
    by (rule nth_equalityI) (auto simp: nth_pq_insert_all split_def)
  then have "concat (pq_insert_all xs (replicate n [])) =
      map fst (concat (map (\<lambda>j. filter (\<lambda>x. snd x = j) xs) [0..<n]))"
    by (simp add: map_concat comp_def)
  moreover have "concat (map (\<lambda>j. filter (\<lambda>x. snd x = j) xs) [0..<n]) = sort_key snd xs"
    using assms(2) by (intro sort_key_classes) (auto simp: list_all_iff)
  ultimately have "concat (pq_insert_all xs (replicate n [])) = map fst (sort_key snd xs)" by simp
  moreover have "\<forall>(x, i) \<in> set xs. i < n \<and> bq_free s x" using assms(2) by (auto simp: list_all_iff)
  ultimately show ?thesis using bq.insert_all_drain [OF assms(1) _ assms(3)] by (auto simp: length_sort)
qed

definition example_empty_heap :: lheap where
  "example_empty_heap = [16 \<mapsto> \<lparr>mk_prev = 16, mk_next = 16\<rparr>, 32 \<mapsto> \<lparr>mk_prev = 32, mk_next = 32\<rparr>,
     100 \<mapsto> \<lparr>mk_prev = 0, mk_next = 0\<rparr>, 200 \<mapsto> \<lparr>mk_prev = 0, mk_next = 0\<rparr>,
     300 \<mapsto> \<lparr>mk_prev = 0, mk_next = 0\<rparr>]"

lemma example_empty_inv: "bq_inv (example_queue, example_empty_heap) (replicate 2 [])"
proof -
  have "dll example_empty_heap 16 []" "dll example_empty_heap 32 []"
    by (simp_all add: dll_def example_empty_heap_def valid_def nx_def pv_def)
  then have "family dll example_empty_heap (heads example_queue) (replicate 2 [])"
    unfolding example_heads by (auto simp: family_def less_Suc_eq numeral_2_eq_2)
  moreover have "bq_top example_queue = bucket example_queue 0"
    by (simp add: example_queue_def bucket_def)
  ultimately show ?thesis unfolding bq_inv_def by auto
qed

theorem bucket_queue_sorts_witness:
  "\<exists>s' s''. insert_all bq_insert [(100, 1), (200, 0), (300, 0)] (example_queue, example_empty_heap) = Some s' \<and>
     drain flb_bucket_queue_pop_min 3 s' = Some ([200, 300, 100], s'')"
proof -
  have "list_all (\<lambda>(x, i :: nat). i < 2 \<and> bq_free (example_queue, example_empty_heap) x) [(100, 1), (200, 0), (300, 0)]"
    by (simp add: bq_free_def example_heads valid_def example_empty_heap_def)
  from bucket_queue_sorts [OF example_empty_inv this] show ?thesis
    by (simp add: sort_key_def numeral_3_eq_3)
qed

text \<open>
  C37: life cycle.  Creating a queue of \<open>priorities\<close> buckets whose array size does not wrap either
  fails with null, having released everything it allocated, or gives an empty queue whose
  destruction answers 0 and restores the heap.
\<close>

theorem create_destroy_no_leak:
  assumes "fresh_allocator al" "16 * unat priorities < 2 ^ 64"
  shows "\<exists>r m' h'. flb_bucket_queue_create al junk priorities m h = Some (r, m', h') \<and>
    (case r of
       None \<Rightarrow> blocks m' = blocks m \<and> h' = h
     | Some (self, q) \<Rightarrow>
         bq_inv (q, h') (replicate (unat priorities) []) \<and> bq_n_items q = 0 \<and>
         (\<exists>s'' m''. flb_bucket_queue_destroy self (q, h') m' = Some (0, s'', m'') \<and> blocks m'' = blocks m))"
proof (rule flb_bucket_queue_create_inv [OF assms refl, of junk m h, THEN disjE])
  assume "\<exists>p q m' h'. flb_bucket_queue_create al junk priorities m h = Some (Some (p, q), m', h') \<and>
       bq_inv (q, h') (replicate (unat priorities) []) \<and>
       bq_n_items q = 0 \<and> bq_n_buckets q = priorities \<and> p \<noteq> NULL \<and> bq_buckets q \<noteq> NULL \<and>
       p \<noteq> bq_buckets q \<and> blocks m p = None \<and> blocks m (bq_buckets q) = None \<and>
       dom (blocks m') = dom (blocks m) \<union> {p, bq_buckets q} \<and>
       (\<forall>x. x \<notin> {p, bq_buckets q} \<longrightarrow> blocks m' x = blocks m x) \<and>
       (\<forall>x. x \<notin> set (heads q) \<longrightarrow> h' x = h x)"
  then obtain p q m' h' where c: "flb_bucket_queue_create al junk priorities m h = Some (Some (p, q), m', h')"
      "bq_inv (q, h') (replicate (unat priorities) [])" "bq_n_items q = 0"
      "p \<noteq> NULL" "bq_buckets q \<noteq> NULL" "p \<noteq> bq_buckets q" "blocks m p = None" "blocks m (bq_buckets q) = None"
      "dom (blocks m') = dom (blocks m) \<union> {p, bq_buckets q}"
      "\<forall>x. x \<notin> {p, bq_buckets q} \<longrightarrow> blocks m' x = blocks m x"
    by blast
  have e: "concat (replicate (unat priorities) []) = ([] :: ptr list)" by simp
  have live: "blocks m' p \<noteq> None" "blocks m' (bq_buckets q) \<noteq> None" using c(9) by auto
  obtain s'' m'' where d: "flb_bucket_queue_destroy p (q, h') m' = Some (0, s'', m'')"
      "blocks m'' = (blocks m')(bq_buckets q := None, p := None)"
    using flb_bucket_queue_destroy_inv [OF c(2) live c(4,5,6)] unfolding e by auto
  have "blocks m'' = blocks m"
    unfolding d(2) using c(7,8,10) by (auto simp: fun_eq_iff)
  with c(1-3) d(1) show ?thesis by auto
qed auto

theorem create_destroy_no_leak_witness:
  "\<exists>r m' h'. flb_bucket_queue_create (\<lambda>m sz. if blocks m 64 = None then 64 else 0) (\<lambda>_. \<lparr>mk_prev = 0, mk_next = 0\<rparr>)
     8 \<lparr>blocks = Map.empty, calls = 0\<rparr> Map.empty = Some (r, m', h')"
proof -
  have "fresh_allocator (\<lambda>m sz. if blocks m 64 = None then 64 else 0)" by (simp add: fresh_allocator_def)
  from create_destroy_no_leak [OF this, of 8] show ?thesis by fastforce
qed

text \<open>
  C38: direct deletion.  Unlinking a queued item with \<^verbatim>\<open>mk_list_del\<close>, which the header allows, keeps
  the queue well formed but not its counter: the item is gone and \<^verbatim>\<open>n_items\<close> still counts it; and
  \<^verbatim>\<open>flb_bucket_queue_is_empty\<close>, which looks at the top pointer, denies that a queue without items is empty.
\<close>

theorem direct_delete_drifts:
  assumes "bq_inv (q, h) qs" "bq_n_items q = of_nat (length (concat qs))" "i < length qs"
    and "qs ! i = ys @ item # zs"
  shows "\<exists>h'. mk_list_del item h = Some h' \<and> bq_inv (q, h') (qs[i := ys @ zs]) \<and>
    bq_n_items q = of_nat (length (concat (qs[i := ys @ zs])) + 1) \<and>
    (concat (qs[i := ys @ zs]) = [] \<longrightarrow> flb_bucket_queue_is_empty q = 0)"
proof -
  have i: "i < length (heads q)" using assms(3) bq_inv_dll(1) [OF assms(1)] by simp
  obtain h' where h': "mk_list_del item h = Some h'" "family dll h' (heads q) (qs[i := ys @ zs])"
    using ml.family_del [of h "heads q" qs i ys item zs] assms i by (auto simp: bq_inv_def)
  obtain t where t: "t \<le> length qs" "bq_top q = bucket q t" "\<forall>j < t. qs ! j = []"
    using assms(1) by (auto simp: bq_inv_def)
  then have "\<not> i < t" using assms(4) by auto
  then have "\<forall>j < t. qs[i := ys @ zs] ! j = []" using t(3) by auto
  then have "bq_inv (q, h') (qs[i := ys @ zs])" using h'(2) t(1,2) by (auto simp: bq_inv_def)
  moreover have "length (concat qs) = length (concat (qs[i := ys @ zs])) + 1"
  proof -
    have "length (concat (take i qs @ (ys @ item # zs) # drop (Suc i) qs)) =
        length (concat (take i qs @ (ys @ zs) # drop (Suc i) qs)) + 1" by simp
    moreover have "qs = take i qs @ (ys @ item # zs) # drop (Suc i) qs"
      using id_take_nth_drop [OF assms(3)] assms(4) by simp
    moreover have "qs[i := ys @ zs] = take i qs @ (ys @ zs) # drop (Suc i) qs"
      using assms(3) by (simp add: upd_conv_take_nth_drop)
    ultimately show ?thesis by metis
  qed
  moreover have "flb_bucket_queue_is_empty q = 0"
    using t \<open>\<not> i < t\<close> i assms(3) by (auto simp: flb_bucket_queue_is_empty_def)
  ultimately show ?thesis using h'(1) assms(2) by auto
qed

theorem direct_delete_drifts_witness:
  "\<exists>h'. mk_list_del 300 example_heap = Some h' \<and> bq_inv (example_queue, h') [[200], [100]]"
  using direct_delete_drifts [OF example_inv, of 0 "[200]" 300 "[]"]
  by (auto simp: example_items_def example_queue_def)

end
