(* ===== verification/Mk_Event.thy ===== *)
theory Mk_Event
  imports Prelude
begin

text \<open>
  The event structures of \<^verbatim>\<open>monkey/mk_core/mk_event.h\<close> and the loop over the reported events
  that each polling backend defines (\<^verbatim>\<open>mk_event_epoll.h\<close>, \<^verbatim>\<open>mk_event_kqueue.h\<close>,
  \<^verbatim>\<open>mk_event_select.h\<close>, \<^verbatim>\<open>mk_event_libevent.h\<close>).  The backends differ in the array they report
  events in; the locale \<open>event_backend\<close> states what the engine relies on, and each backend
  is an interpretation of it.
\<close>

section \<open>Constants\<close>

definition MK_EVENT_UNMODIFIED :: int where "MK_EVENT_UNMODIFIED = - 1"
definition MK_EVENT_NOTIFICATION :: int where "MK_EVENT_NOTIFICATION = 0"
definition MK_EVENT_LISTENER :: int where "MK_EVENT_LISTENER = 1"
definition MK_EVENT_FIFO :: int where "MK_EVENT_FIFO = 2"
definition MK_EVENT_CONNECTION :: int where "MK_EVENT_CONNECTION = 3"
definition MK_EVENT_CUSTOM :: int where "MK_EVENT_CUSTOM = 4"
definition MK_EVENT_THREAD :: int where "MK_EVENT_THREAD = 5"

definition MK_EVENT_EMPTY :: u32 where "MK_EVENT_EMPTY = 0"
definition MK_EVENT_READ :: u32 where "MK_EVENT_READ = 1"
definition MK_EVENT_WRITE :: u32 where "MK_EVENT_WRITE = 4"
definition MK_EVENT_SLEEP :: u32 where "MK_EVENT_SLEEP = 8"
definition MK_EVENT_CLOSE :: u32 where "MK_EVENT_CLOSE = 16 OR 8 OR 8192"
definition MK_EVENT_IDLE :: u32 where "MK_EVENT_IDLE = 16 OR 8"

definition MK_EVENT_QUEUE_SIZE :: int where "MK_EVENT_QUEUE_SIZE = 256"
definition MK_EVENT_LEVEL :: int where "MK_EVENT_LEVEL = 256"
definition MK_EVENT_EDGE :: int where "MK_EVENT_EDGE = 512"

definition MK_EVENT_NONE :: u8 where "MK_EVENT_NONE = 1"
definition MK_EVENT_REGISTERED :: u8 where "MK_EVENT_REGISTERED = 2"

definition MK_EVENT_PRIORITY_DEFAULT :: u8 where "MK_EVENT_PRIORITY_DEFAULT = 6"

definition MK_EP_SOCKET_CLOSED :: int where "MK_EP_SOCKET_CLOSED = 0"
definition MK_EP_SOCKET_ERROR :: int where "MK_EP_SOCKET_ERROR = 1"
definition MK_EP_SOCKET_TIMEOUT :: int where "MK_EP_SOCKET_TIMEOUT = 2"
definition MK_EP_SOCKET_DONE :: int where "MK_EP_SOCKET_DONE = 3"

lemmas mk_event_consts [c_consts] =
  MK_EVENT_CUSTOM_def MK_EVENT_EMPTY_def MK_EVENT_READ_def MK_EVENT_WRITE_def
  MK_EVENT_NONE_def MK_EVENT_REGISTERED_def MK_EVENT_PRIORITY_DEFAULT_def

section \<open>Events\<close>

text \<open>
  The list nodes \<^verbatim>\<open>_head\<close> and \<^verbatim>\<open>_priority_head\<close> of an event live in the heap of list nodes, at
  fixed offsets from the event (layout of an LP64 target); the record holds the other fields.
  \<^verbatim>\<open>char priority\<close> is the byte of the signed type.
\<close>

record mk_event =
  ev_fd :: int
  ev_type :: int
  ev_mask :: u32
  ev_status :: u8
  ev_data :: ptr
  ev_handler :: ptr
  ev_priority :: u8

text \<open>The structures as zeroed memory.\<close>

definition zero_mk_event :: mk_event where
  "zero_mk_event =
    \<lparr>ev_fd = 0, ev_type = 0, ev_mask = 0, ev_status = 0, ev_data = 0, ev_handler = 0,
     ev_priority = 0\<rparr>"

definition mk_event_head_off :: nat where "mk_event_head_off = 32"
definition mk_event_priority_head_off :: nat where "mk_event_priority_head_off = 48"

record mk_event_loop =
  evl_size :: int
  evl_n_events :: int
  evl_events :: ptr
  evl_data :: ptr

definition MK_EVENT_IS_REGISTERED :: "mk_event \<Rightarrow> bool" where
  "MK_EVENT_IS_REGISTERED event \<longleftrightarrow> ev_status event AND MK_EVENT_REGISTERED \<noteq> 0"

definition MK_EVENT_INIT :: "mk_event \<Rightarrow> int \<Rightarrow> ptr \<Rightarrow> ptr \<Rightarrow> mk_event" where
  "MK_EVENT_INIT ev fd data callback =
     ev\<lparr>ev_fd := fd, ev_type := MK_EVENT_CUSTOM, ev_mask := MK_EVENT_EMPTY,
        ev_status := MK_EVENT_NONE, ev_data := data, ev_handler := callback\<rparr>"

definition MK_EVENT_ZERO :: "mk_event \<Rightarrow> mk_event" where
  "MK_EVENT_ZERO e = MK_EVENT_INIT e (- 1) NULL NULL"

definition MK_EVENT_NEW :: "mk_event \<Rightarrow> mk_event" where
  "MK_EVENT_NEW e = e\<lparr>ev_mask := MK_EVENT_EMPTY, ev_status := MK_EVENT_NONE\<rparr>"

section \<open>The loop over reported events\<close>

text \<open>
  The four \<^verbatim>\<open>mk_event_foreach\<close> macros have the same control flow: entry 0 is read before the
  loop when there is one, entry \<open>i\<close> after the increment while \<open>i < n_events\<close>.  \<open>get\<close> reads
  the array; \<open>None\<close> is a read out of its bounds.
\<close>

function foreach_entry ::
  "(nat \<Rightarrow> ptr option) \<Rightarrow> int \<Rightarrow> (ptr \<Rightarrow> 's \<Rightarrow> 's option) \<Rightarrow> nat \<Rightarrow> ptr \<Rightarrow> 's \<Rightarrow> 's option" where
  "foreach_entry get n_events body i event s =
     (if int i < n_events then
        Option.bind (body event s) (\<lambda>s.
          if int (Suc i) < n_events
          then Option.bind (get (Suc i)) (\<lambda>event. foreach_entry get n_events body (Suc i) event s)
          else foreach_entry get n_events body (Suc i) NULL s)
      else Some s)"
  by pat_completeness auto
termination
  by (relation "measure (\<lambda>(get, n_events, body, i, event, s). nat (n_events - int i))") auto

declare foreach_entry.simps [simp del]

definition foreach_array ::
  "(nat \<Rightarrow> ptr option) \<Rightarrow> int \<Rightarrow> (ptr \<Rightarrow> 's \<Rightarrow> 's option) \<Rightarrow> 's \<Rightarrow> 's option" where
  "foreach_array get n_events body s =
     (if 0 < n_events then Option.bind (get 0) (\<lambda>event. foreach_entry get n_events body 0 event s)
      else foreach_entry get n_events body 0 NULL s)"

definition array_get :: "'a list \<Rightarrow> nat \<Rightarrow> 'a option" where
  "array_get xs i = (if i < length xs then Some (xs ! i) else None)"

text \<open>epoll: \<^verbatim>\<open>__ctx->events[__i].data.ptr\<close>.\<close>

record epoll_event =
  ee_events :: u32
  ee_ptr :: ptr

record mk_event_ctx_epoll =
  epoll_efd :: int
  epoll_queue_size :: int
  epoll_events :: "epoll_event list"

definition mk_event_foreach_epoll ::
  "(ptr \<Rightarrow> 's \<Rightarrow> 's option) \<Rightarrow> mk_event_loop \<Rightarrow> mk_event_ctx_epoll \<Rightarrow> 's \<Rightarrow> 's option" where
  "mk_event_foreach_epoll body evl ctx =
     foreach_array (\<lambda>i. map_option ee_ptr (array_get (epoll_events ctx) i)) (evl_n_events evl) body"

text \<open>kqueue: \<^verbatim>\<open>__ctx->events[__i].udata\<close>; the filter constants are the system's.\<close>

record kevent =
  ke_filter :: u16
  ke_udata :: ptr

record mk_event_ctx_kqueue =
  kqueue_kfd :: int
  kqueue_queue_size :: int
  kqueue_events :: "kevent list"

definition kqueue_filter_mask :: "u16 \<Rightarrow> u16 \<Rightarrow> u16 \<Rightarrow> u32" where
  "kqueue_filter_mask EVFILT_READ EVFILT_WRITE f =
     (if f = EVFILT_READ then MK_EVENT_READ
      else if f = EVFILT_WRITE then MK_EVENT_WRITE
      else 0)"

definition mk_event_foreach_kqueue ::
  "(ptr \<Rightarrow> 's \<Rightarrow> 's option) \<Rightarrow> mk_event_loop \<Rightarrow> mk_event_ctx_kqueue \<Rightarrow> 's \<Rightarrow> 's option" where
  "mk_event_foreach_kqueue body evl ctx =
     foreach_array (\<lambda>i. map_option ke_udata (array_get (kqueue_events ctx) i)) (evl_n_events evl) body"

text \<open>select: \<^verbatim>\<open>__ctx->fired[__i].data\<close>.  A descriptor set is the set of its members.\<close>

record mk_event_ctx_select =
  select_max_fd :: int
  select_rfds :: "int set"
  select_wfds :: "int set"
  select_active_rfds :: "int set"
  select_active_wfds :: "int set"
  select_queue_size :: int
  select_events :: "ptr list"
  select_fired :: "mk_event list"

definition mk_event_foreach_select ::
  "(ptr \<Rightarrow> 's \<Rightarrow> 's option) \<Rightarrow> mk_event_loop \<Rightarrow> mk_event_ctx_select \<Rightarrow> 's \<Rightarrow> 's option" where
  "mk_event_foreach_select body evl ctx =
     foreach_array (\<lambda>i. map_option ev_data (array_get (select_fired ctx) i)) (evl_n_events evl) body"

text \<open>libevent: \<^verbatim>\<open>__ctx->fired[__i].data\<close>.\<close>

record mk_event_ctx_libevent =
  libevent_queue_size :: size_t
  libevent_fired_count :: int
  libevent_base :: ptr
  libevent_fired :: "mk_event list"

definition mk_event_foreach_libevent ::
  "(ptr \<Rightarrow> 's \<Rightarrow> 's option) \<Rightarrow> mk_event_loop \<Rightarrow> mk_event_ctx_libevent \<Rightarrow> 's \<Rightarrow> 's option" where
  "mk_event_foreach_libevent body evl ctx =
     foreach_array (\<lambda>i. map_option ev_data (array_get (libevent_fired ctx) i)) (evl_n_events evl) body"

section \<open>The loop is a fold over the first events of the array\<close>

fun fold_opt :: "('a \<Rightarrow> 's \<Rightarrow> 's option) \<Rightarrow> 'a list \<Rightarrow> 's \<Rightarrow> 's option" where
  "fold_opt f [] s = Some s"
| "fold_opt f (x # xs) s = Option.bind (f x s) (fold_opt f xs)"

lemma fold_opt_append: "fold_opt f (xs @ ys) s = Option.bind (fold_opt f xs s) (fold_opt f ys)"
  by (induction xs arbitrary: s) (auto split: bind_splits)

lemma foreach_entry_fold:
  assumes "n_events = int (i + length es)" "\<And>j. j < length es \<Longrightarrow> get (i + j) = Some (es ! j)"
    and "es \<noteq> [] \<Longrightarrow> event = hd es"
  shows "foreach_entry get n_events body i event s = fold_opt body es s"
  using assms
proof (induction es arbitrary: i event s)
  case Nil
  then show ?case by (simp add: foreach_entry.simps)
next
  case (Cons e es)
  have IH: "foreach_entry get n_events body (Suc i) ev s' = fold_opt body es s'"
    if "es \<noteq> [] \<Longrightarrow> ev = hd es" for ev s'
  proof (rule Cons.IH)
    show "get (Suc i + j) = Some (es ! j)" if "j < length es" for j
      using Cons.prems(2) [of "Suc j"] that by simp
  qed (use Cons.prems(1) that in auto)
  have "get (Suc i) = Some (hd es)" if "es \<noteq> []"
    using Cons.prems(2) [of 1] that by (simp add: hd_conv_nth)
  then show ?case
    using Cons.prems(1,3) IH by (subst foreach_entry.simps) (cases es; cases "body e s"; auto)
qed

lemma foreach_array_fold:
  assumes "n_events = int n" "n \<le> length es" "\<And>j. j < n \<Longrightarrow> get j = Some (es ! j)"
  shows "foreach_array get n_events body s = fold_opt body (take n es) s"
proof -
  have "foreach_entry get n_events body 0 ev s = fold_opt body (take n es) s"
    if "take n es \<noteq> [] \<Longrightarrow> ev = hd (take n es)" for ev
    by (rule foreach_entry_fold) (use assms that in auto)
  moreover have "get 0 = Some (hd (take n es))" if "0 < n"
    using assms that by (cases es) (auto simp: hd_conv_nth)
  ultimately show ?thesis using assms(1,2) by (auto simp: foreach_array_def)
qed

text \<open>
  The contract of a backend: when the kernel reported \<open>n_events\<close> events and the array holds at
  least as many, the loop runs its body on exactly these, in the order of the array.
\<close>

locale event_backend =
  fixes reported :: "'c \<Rightarrow> ptr list"
    and foreach :: "(ptr \<Rightarrow> 's \<Rightarrow> 's option) \<Rightarrow> mk_event_loop \<Rightarrow> 'c \<Rightarrow> 's \<Rightarrow> 's option"
  assumes foreach_fold: "evl_n_events evl = int n \<Longrightarrow> n \<le> length (reported ctx) \<Longrightarrow>
      foreach body evl ctx s = fold_opt body (take n (reported ctx)) s"
begin

lemma foreach_inv:
  assumes "evl_n_events evl = int n" "n \<le> length (reported ctx)" "I s"
    and "\<And>e s. e \<in> set (take n (reported ctx)) \<Longrightarrow> I s \<Longrightarrow> \<exists>s'. body e s = Some s' \<and> I s'"
  shows "\<exists>s'. foreach body evl ctx s = Some s' \<and> I s'"
proof -
  have "\<exists>s'. fold_opt body es s = Some s' \<and> I s'" if "set es \<subseteq> set (take n (reported ctx))" "I s" for es s
    using that
  proof (induction es arbitrary: s)
    case (Cons e es)
    then show ?case using assms(4) [of e s] by fastforce
  qed simp
  then show ?thesis using foreach_fold [OF assms(1,2), of body s] assms(3) by auto
qed

lemma foreach_none: "evl_n_events evl = 0 \<Longrightarrow> foreach body evl ctx s = Some s"
  using foreach_fold [of evl 0 ctx body s] by simp

end

interpretation epoll: event_backend "\<lambda>c. map ee_ptr (epoll_events c)" mk_event_foreach_epoll
  by unfold_locales
    (auto simp: mk_event_foreach_epoll_def array_get_def intro!: foreach_array_fold)

interpretation kqueue: event_backend "\<lambda>c. map ke_udata (kqueue_events c)" mk_event_foreach_kqueue
  by unfold_locales
    (auto simp: mk_event_foreach_kqueue_def array_get_def intro!: foreach_array_fold)

interpretation select: event_backend "\<lambda>c. map ev_data (select_fired c)" mk_event_foreach_select
  by unfold_locales
    (auto simp: mk_event_foreach_select_def array_get_def intro!: foreach_array_fold)

interpretation libevent: event_backend "\<lambda>c. map ev_data (libevent_fired c)" mk_event_foreach_libevent
  by unfold_locales
    (auto simp: mk_event_foreach_libevent_def array_get_def intro!: foreach_array_fold)

lemma MK_EVENT_ZERO_unregistered: "\<not> MK_EVENT_IS_REGISTERED (MK_EVENT_ZERO e)"
  by (simp add: MK_EVENT_IS_REGISTERED_def MK_EVENT_ZERO_def MK_EVENT_INIT_def c_consts)

end
