(* ===== verification/Event_Loop.thy ===== *)
theory Event_Loop
  imports Bucket_Queue Mk_Event
begin

text \<open>
  The prioritised event loop of \<^verbatim>\<open>fluent-bit/flb_event_loop.h\<close>: events reported by the polling
  backend are moved to the bucket queue and handed to the engine smallest priority first.  The
  backend is the epoll one; \<^verbatim>\<open>mk_event_wait_2\<close> is code outside the headers and a parameter.
\<close>

section \<open>Loading events into the queue\<close>

text \<open>
  \<open>events\<close> is the heap of event structures.  \<^verbatim>\<open>event->priority\<close> is a \<^verbatim>\<open>char\<close> that is passed as a
  \<^verbatim>\<open>size_t\<close>: it is sign-extended, so a negative priority is larger than every bucket number.
  The result of \<^verbatim>\<open>flb_bucket_queue_add\<close> is ignored.
\<close>

type_synonym event_heap = "ptr \<rightharpoonup> mk_event"

definition load_event :: "event_heap \<Rightarrow> ptr \<Rightarrow> mk_event option" where
  "load_event events e = (if e = NULL then None else events e)"

definition priority_node :: "ptr \<Rightarrow> ptr" where
  "priority_node e = e + mk_event_priority_head_off"

definition event_priority :: "mk_event \<Rightarrow> size_t" where
  "event_priority ev = scast (ev_priority ev)"

definition flb_event_load_bucket_queue_event ::
  "event_heap \<Rightarrow> ptr \<Rightarrow> bq_state \<Rightarrow> bq_state option" where
  "flb_event_load_bucket_queue_event events event s = do {
     ev \<leftarrow> load_event events event;
     p \<leftarrow> load_prev (snd s) (priority_node event);
     if p = NULL then do {
       (r, s) \<leftarrow> flb_bucket_queue_add (priority_node event) (event_priority ev) s;
       Some s
     }
     else Some s
   }"

definition flb_event_load_bucket_queue ::
  "event_heap \<Rightarrow> mk_event_loop \<Rightarrow> mk_event_ctx_epoll \<Rightarrow> bq_state \<Rightarrow> bq_state option" where
  "flb_event_load_bucket_queue events evl ctx =
     mk_event_foreach_epoll
       (\<lambda>event s. do {
          ev \<leftarrow> load_event events event;
          if ev_status ev \<noteq> MK_EVENT_NONE then flb_event_load_bucket_queue_event events event s
          else Some s
        }) evl ctx"

text \<open>The error branch of \<^verbatim>\<open>flb_event_load_injected_events\<close> logs and returns.\<close>

definition flb_event_load_injected_events ::
  "event_heap \<Rightarrow> mk_event_loop \<Rightarrow> mk_event_ctx_epoll \<Rightarrow> int \<Rightarrow> bq_state \<Rightarrow> bq_state option" where
  "flb_event_load_injected_events events evl ctx n_events_initial s =
     (if evl_n_events evl < n_events_initial then Some s
      else if evl_n_events evl > n_events_initial then do {
        (i, s) \<leftarrow> mk_event_foreach_epoll
          (\<lambda>event (i, s). do {
             s \<leftarrow> (if i \<ge> n_events_initial then flb_event_load_bucket_queue_event events event s
                   else Some s);
             Some (i + 1, s)
           }) evl ctx (0 :: int, s);
        Some s
      }
      else Some s)"

section \<open>The live loop\<close>

text \<open>
  The world the loop runs in: the queue and the list nodes, the events, the loop descriptor and
  the backend's array, and whatever else the body and \<^verbatim>\<open>mk_event_wait_2\<close> work on.
\<close>

record 'x world =
  w_queue :: bq_state
  w_events :: event_heap
  w_evl :: mk_event_loop
  w_ctx :: mk_event_ctx_epoll
  w_ext :: 'x

definition load_ready :: "'x world \<Rightarrow> 'x world option" where
  "load_ready w = do {
     s \<leftarrow> flb_event_load_bucket_queue (w_events w) (w_evl w) (w_ctx w) (w_queue w);
     Some (w\<lparr>w_queue := s\<rparr>)
   }"

definition load_injected :: "int \<Rightarrow> 'x world \<Rightarrow> 'x world option" where
  "load_injected n w = do {
     s \<leftarrow> flb_event_load_injected_events (w_events w) (w_evl w) (w_ctx w) n (w_queue w);
     Some (w\<lparr>w_queue := s\<rparr>)
   }"

text \<open>
  \<^verbatim>\<open>event = flb_bucket_queue_find_min(bktq) ? mk_list_entry(flb_bucket_queue_pop_min(bktq), \<dots>) : NULL\<close>
\<close>

definition next_event :: "'x world \<Rightarrow> (ptr \<times> 'x world) option" where
  "next_event w = do {
     (m, s) \<leftarrow> flb_bucket_queue_find_min (w_queue w);
     if m \<noteq> NULL then do {
       (p, s) \<leftarrow> flb_bucket_queue_pop_min s;
       Some (container_of p mk_event_priority_head_off, w\<lparr>w_queue := s\<rparr>)
     }
     else Some (NULL, w\<lparr>w_queue := s\<rparr>)
   }"

text \<open>
  The condition and update of \<^verbatim>\<open>flb_event_priority_live_foreach\<close>.  The result is the list of
  events the body ran on, the value of \<^verbatim>\<open>event\<close> at the exit, and the world.  \<open>None\<close> is undefined
  behaviour or a loop that does not end, which \<open>max_iter = -1\<close> allows.
\<close>

partial_function (option) live_loop ::
  "('x world \<Rightarrow> 'x world) \<Rightarrow> (ptr \<Rightarrow> 'x world \<Rightarrow> 'x world option) \<Rightarrow> int \<Rightarrow>
     int \<Rightarrow> int \<Rightarrow> ptr \<Rightarrow> 'x world \<Rightarrow> (ptr list \<times> ptr \<times> 'x world) option" where
  "live_loop wait body max_iter iter n_events event w =
     (if event \<noteq> NULL \<and> (iter < max_iter \<or> max_iter = - 1) then do {
        w \<leftarrow> body event w;
        w \<leftarrow> load_injected n_events w;
        w \<leftarrow> load_ready (wait w);
        r \<leftarrow> next_event w;
        t \<leftarrow> live_loop wait body max_iter (iter + 1) (evl_n_events (w_evl w)) (fst r) (snd r);
        Some (event # fst t, snd t)
      }
      else Some ([], event, w))"

definition flb_event_priority_live_foreach ::
  "('x world \<Rightarrow> 'x world) \<Rightarrow> (ptr \<Rightarrow> 'x world \<Rightarrow> 'x world option) \<Rightarrow> int \<Rightarrow> 'x world \<Rightarrow>
     (ptr list \<times> ptr \<times> 'x world) option" where
  "flb_event_priority_live_foreach wait body max_iter w = do {
     let n_events = evl_n_events (w_evl w);
     w \<leftarrow> load_ready w;
     (event, w) \<leftarrow> next_event w;
     live_loop wait body max_iter 0 n_events event w
   }"

section \<open>Invariant of the loop\<close>

text \<open>
  Every event's priority node is a live node outside the bucket array that is either queued or
  orphaned, and the queue holds only such nodes.
\<close>

definition events_inv :: "event_heap \<Rightarrow> bq_state \<Rightarrow> ptr list list \<Rightarrow> bool" where
  "events_inv events s qs \<longleftrightarrow> bq_inv s qs \<and>
     set (concat qs) \<subseteq> priority_node ` dom events \<and> NULL \<notin> dom events \<and>
     (\<forall>e \<in> dom events. bq_free s (priority_node e) \<and>
        (priority_node e \<in> set (concat qs) \<or> pv (snd s) (priority_node e) = NULL))"

definition ready_ok :: "event_heap \<Rightarrow> mk_event_loop \<Rightarrow> mk_event_ctx_epoll \<Rightarrow> bool" where
  "ready_ok events evl ctx \<longleftrightarrow> 0 \<le> evl_n_events evl \<and>
     nat (evl_n_events evl) \<le> length (epoll_events ctx) \<and>
     ee_ptr ` set (take (nat (evl_n_events evl)) (epoll_events ctx)) \<subseteq> dom events"

text \<open>What loading an event does to the abstract queue.\<close>

definition pq_load :: "event_heap \<Rightarrow> ptr \<Rightarrow> ptr list list \<Rightarrow> ptr list list" where
  "pq_load events e qs =
     (let i = unat (event_priority (the (events e)))
      in if priority_node e \<notin> set (concat qs) \<and> i < length qs
         then pq_insert i (priority_node e) qs else qs)"

definition pq_load_ready :: "event_heap \<Rightarrow> ptr list \<Rightarrow> ptr list list \<Rightarrow> ptr list list" where
  "pq_load_ready events es qs =
     foldl (\<lambda>qs e. if ev_status (the (events e)) \<noteq> MK_EVENT_NONE then pq_load events e qs else qs) qs es"

lemma priority_node_inj [simp]: "priority_node e = priority_node e' \<longleftrightarrow> e = e'"
  by (simp add: priority_node_def)

lemma container_of_priority_node [simp]:
  "container_of (priority_node e) mk_event_priority_head_off = e"
  by (simp add: priority_node_def)

lemma bq_inv_queued:
  assumes inv: "bq_inv (q, h) qs" and x: "x \<in> set (concat qs)"
  shows "valid h x" "pv h x \<noteq> NULL" "x \<noteq> NULL"
proof -
  obtain b where "b \<in> set qs" "x \<in> set b" using x by auto
  then obtain i where i: "i < length qs" "x \<in> set (qs ! i)" by (metis in_set_conv_nth)
  note d = bq_inv_dll(2) [OF inv i(1)]
  obtain ys zs where sp: "qs ! i = ys @ x # zs" using i(2) by (auto simp: in_set_conv_decomp)
  have "mk_list_entry_is_orphan x h = Some MK_FALSE"
    by (rule mk_list_linked_not_orphan(1)) (use d sp in simp)
  moreover show "valid h x" using dll_ends(4) [OF d] i(2) by simp
  ultimately show "pv h x \<noteq> NULL" by (auto simp: mk_list_entry_is_orphan_def heap_simps split: if_splits)
  show "x \<noteq> NULL" using dll_nonnull [OF d] i(2) by simp
qed

lemma events_invD:
  assumes "events_inv events (q, h) qs" "e \<in> dom events"
  shows "valid h (priority_node e)" "priority_node e \<notin> set (heads q)"
    "priority_node e \<in> set (concat qs) \<or> pv h (priority_node e) = NULL"
  using assms unfolding events_inv_def bq_free_def by (simp_all del: set_concat)

lemma events_invI:
  assumes "bq_inv s qs" "set (concat qs) \<subseteq> priority_node ` dom events" "NULL \<notin> dom events"
    and "\<And>e. e \<in> dom events \<Longrightarrow> bq_free s (priority_node e)"
    and "\<And>e. e \<in> dom events \<Longrightarrow> priority_node e \<notin> set (concat qs) \<Longrightarrow> pv (snd s) (priority_node e) = NULL"
  shows "events_inv events s qs"
proof -
  have "priority_node e \<in> set (concat qs) \<or> pv (snd s) (priority_node e) = NULL" if "e \<in> dom events" for e
    using assms(5) [OF that] by (cases "priority_node e \<in> set (concat qs)") simp_all
  with assms(4) have "\<forall>e \<in> dom events. bq_free s (priority_node e) \<and>
      (priority_node e \<in> set (concat qs) \<or> pv (snd s) (priority_node e) = NULL)"
    by (intro ballI conjI)
  with assms(1-3) show ?thesis unfolding events_inv_def by (intro conjI)
qed

lemma events_inv_queued:
  "events_inv events s qs \<Longrightarrow> set (concat qs) \<subseteq> priority_node ` dom events"
  "events_inv events s qs \<Longrightarrow> NULL \<notin> dom events"
  unfolding events_inv_def by blast+

lemma load_bucket_queue_event_inv:
  assumes inv: "events_inv events s qs" and e: "e \<in> dom events"
  shows "\<exists>s'. flb_event_load_bucket_queue_event events e s = Some s' \<and>
    events_inv events s' (pq_load events e qs)"
proof -
  obtain q h where s: "s = (q, h)" by fastforce
  have "e \<noteq> NULL" using e inv by (metis events_inv_def)
  then obtain ev where ev: "events e = Some ev" "load_event events e = Some ev"
    using e by (auto simp: load_event_def)
  let ?x = "priority_node e" and ?i = "unat (event_priority ev)"
  have bq: "bq_inv (q, h) qs" and fr: "bq_free (q, h) ?x"
    using inv e s by (auto simp: events_inv_def)
  have ld: "load_prev h ?x = Some (pv h ?x)" using fr by (simp add: bq_free_def heap_simps)
  note len = bq_inv_dll(1) [OF bq]
  consider "?x \<in> set (concat qs)" | "?x \<notin> set (concat qs)" "\<not> ?i < length qs"
    | "?x \<notin> set (concat qs)" "?i < length qs" by blast
  then show ?thesis
  proof cases
    case 1
    then show ?thesis
      using ev ld bq_inv_queued(2) [OF bq 1] inv s
      by (simp add: flb_event_load_bucket_queue_event_def pq_load_def Let_def del: set_concat)
  next
    case 2
    then have "bq_n_buckets q \<le> event_priority ev" using len by (simp add: word_le_nat_alt)
    then show ?thesis
      using 2 ev ld inv s
      by (simp add: flb_event_load_bucket_queue_event_def pq_load_def Let_def
          flb_bucket_queue_add_error del: set_concat)
  next
    case 3
    then have "pv h ?x = NULL" using inv e s by (auto simp: events_inv_def simp del: set_concat)
    moreover have "event_priority ev < bq_n_buckets q" using 3(2) len by (simp add: word_less_nat_alt)
    then obtain q' h' where a: "flb_bucket_queue_add ?x (event_priority ev) (q, h) = Some (0, (q', h'))"
        "bq_inv (q', h') (pq_insert ?i ?x qs)" "heads q' = heads q"
        "frame (set (bucket q ?i # qs ! ?i @ [?x])) h h'"
      using flb_bucket_queue_add_inv [OF bq _ fr 3(1)] by blast
    have "events_inv events (q', h') (pq_insert ?i ?x qs)"
    proof -
      have "pv h' (priority_node e') = NULL"
        if "e' \<in> dom events" "priority_node e' \<notin> set (concat (pq_insert ?i ?x qs))" for e'
      proof -
        have n: "priority_node e' \<notin> set (concat qs)" "priority_node e' \<noteq> ?x"
          using that(2) unfolding set_concat_pq_insert [OF 3(2)] by auto
        moreover have "bucket q ?i \<in> set (heads q)" using 3(2) len by (simp add: heads_def)
        then have "priority_node e' \<noteq> bucket q ?i"
          using events_invD(2) [OF inv [unfolded s] that(1)] by auto
        moreover have "set (qs ! ?i) \<subseteq> set (concat qs)" using nth_mem [OF 3(2)] by auto
        ultimately have "h' (priority_node e') = h (priority_node e')"
          using a(4) by (auto simp: frame_def simp del: set_concat)
        then show ?thesis using events_invD(3) [OF inv [unfolded s] that(1)] n by (simp add: pv_def del: set_concat)
      qed
      moreover have "bq_free (q', h') (priority_node e')" if "e' \<in> dom events" for e'
        using events_invD [OF inv [unfolded s] that] a(3) frame_valid [OF a(4)] by (simp add: bq_free_def)
      moreover have "set (concat (pq_insert ?i ?x qs)) \<subseteq> priority_node ` dom events"
        unfolding set_concat_pq_insert [OF 3(2)] using events_inv_queued(1) [OF inv] e by blast
      ultimately show ?thesis by (intro events_invI a(2) events_inv_queued(2) [OF inv]) simp_all
    qed
    ultimately show ?thesis
      using a(1) ev ld s 3
      by (simp add: flb_event_load_bucket_queue_event_def pq_load_def Let_def del: set_concat)
  qed
qed

lemma load_event_dom: "e \<in> dom events \<Longrightarrow> NULL \<notin> dom events \<Longrightarrow> load_event events e = Some (the (events e))"
  unfolding load_event_def by (metis domD option.sel)

lemma fold_load_ready:
  assumes "events_inv events s qs" "set es \<subseteq> dom events"
  shows "\<exists>s'. fold_opt (\<lambda>event s. do {
             ev \<leftarrow> load_event events event;
             if ev_status ev \<noteq> MK_EVENT_NONE then flb_event_load_bucket_queue_event events event s
             else Some s }) es s = Some s' \<and> events_inv events s' (pq_load_ready events es qs)"
  using assms
proof (induction es arbitrary: s qs)
  case (Cons e es)
  have "load_event events e = Some (the (events e))"
    using Cons.prems by (intro load_event_dom) (auto simp: events_inv_def)
  moreover obtain s1 where "flb_event_load_bucket_queue_event events e s = Some s1"
      "events_inv events s1 (pq_load events e qs)"
    using load_bucket_queue_event_inv [OF Cons.prems(1), of e] Cons.prems(2) by auto
  ultimately show ?case
    using Cons.IH Cons.prems by (auto simp: pq_load_ready_def)
qed (simp add: pq_load_ready_def)

definition ready_events :: "mk_event_loop \<Rightarrow> mk_event_ctx_epoll \<Rightarrow> ptr list" where
  "ready_events evl ctx = take (nat (evl_n_events evl)) (map ee_ptr (epoll_events ctx))"

lemma ready_ok_fold:
  assumes "ready_ok events evl ctx"
  shows "mk_event_foreach_epoll body evl ctx s = fold_opt body (ready_events evl ctx) s"
    "set (ready_events evl ctx) \<subseteq> dom events"
  using assms epoll.foreach_fold [of evl "nat (evl_n_events evl)" ctx body s]
  by (auto simp: ready_ok_def ready_events_def take_map)

lemma load_bucket_queue_inv:
  assumes "events_inv events s qs" "ready_ok events evl ctx"
  shows "\<exists>s'. flb_event_load_bucket_queue events evl ctx s = Some s' \<and>
    events_inv events s' (pq_load_ready events (ready_events evl ctx) qs)"
  using fold_load_ready [OF assms(1) ready_ok_fold(2) [OF assms(2)]]
  by (simp add: flb_event_load_bucket_queue_def ready_ok_fold(1) [OF assms(2)])

definition pq_load_from :: "event_heap \<Rightarrow> ptr list \<Rightarrow> ptr list list \<Rightarrow> ptr list list" where
  "pq_load_from events es qs = foldl (\<lambda>qs e. pq_load events e qs) qs es"

lemma fold_load_injected:
  assumes "events_inv events s qs" "set es \<subseteq> dom events"
  shows "\<exists>s'. fold_opt (\<lambda>event (i, s). do {
             s \<leftarrow> (if i \<ge> n then flb_event_load_bucket_queue_event events event s else Some s);
             Some (i + 1, s) }) es (i, s) = Some (i + int (length es), s') \<and>
           events_inv events s' (pq_load_from events (drop (nat (n - i)) es) qs)"
  using assms
proof (induction es arbitrary: i s qs)
  case (Cons e es)
  show ?case
  proof (cases "n \<le> i")
    case True
    obtain s1 where s1: "flb_event_load_bucket_queue_event events e s = Some s1"
        "events_inv events s1 (pq_load events e qs)"
      using load_bucket_queue_event_inv [OF Cons.prems(1), of e] Cons.prems(2) by auto
    with True Cons.IH [OF s1(2), of "i + 1"] Cons.prems(2) show ?thesis
      by (auto simp: pq_load_from_def algebra_simps)
  next
    case False
    then have "drop (nat (n - i)) (e # es) = drop (nat (n - (i + 1))) es"
      by (cases "nat (n - i)") (auto simp: nat_diff_distrib' intro!: arg_cong2 [of _ _ _ _ drop])
    with False Cons.IH [OF Cons.prems(1), of "i + 1"] Cons.prems(2) show ?thesis
      by (auto simp: algebra_simps)
  qed
qed (simp add: pq_load_from_def)

lemma load_injected_events_inv:
  assumes inv: "events_inv events s qs" and r: "ready_ok events evl ctx" and n: "0 \<le> n"
  shows "\<exists>s'. flb_event_load_injected_events events evl ctx n s = Some s' \<and>
    events_inv events s' (pq_load_from events (drop (nat n) (ready_events evl ctx)) qs)"
proof (cases "evl_n_events evl > n")
  case True
  then show ?thesis
    using fold_load_injected [OF inv ready_ok_fold(2) [OF r], of n 0]
    by (auto simp: flb_event_load_injected_events_def ready_ok_fold(1) [OF r])
next
  case False
  then have "drop (nat n) (ready_events evl ctx) = []" by (auto simp: ready_events_def)
  with False inv show ?thesis by (cases s) (auto simp: flb_event_load_injected_events_def pq_load_from_def)
qed

text \<open>The next event: the container of the smallest node, unlinked from the queue.\<close>

lemma next_event_inv:
  assumes inv: "events_inv (w_events w) (w_queue w) qs"
  shows "\<exists>s'. next_event w =
      Some (if concat qs = [] then NULL else container_of (pq_min qs) mk_event_priority_head_off,
            w\<lparr>w_queue := s'\<rparr>) \<and>
    events_inv (w_events w) s' (pq_rest qs) \<and>
    (concat qs \<noteq> [] \<longrightarrow> pv (snd s') (pq_min qs) = NULL)"
proof -
  obtain q h where s: "w_queue w = (q, h)" by fastforce
  have bq: "bq_inv (q, h) qs" using inv s by (simp add: events_inv_def)
  let ?q = "q\<lparr>bq_top := bucket q (pq_first qs)\<rparr>"
  note fm = flb_bucket_queue_find_min_inv [OF bq]
  show ?thesis
  proof (cases "concat qs")
    case Nil
    then have m: "pq_min qs = NULL" by (simp only: pq_min_def list.case)
    have "\<not> pq_first qs < length qs" using Nil concat_pq_Nil [of qs] by blast
    then have "pq_rest qs = qs" by (simp add: pq_rest_def)
    moreover have "events_inv (w_events w) (?q, h) qs"
      using inv s bq_inv_top [OF bq order_refl] by (auto simp: events_inv_def bq_free_def)
    ultimately show ?thesis using fm m s Nil by (auto simp: next_event_def simp del: concat_eq_Nil_conv)
  next
    case (Cons x xs)
    then have m: "pq_min qs = x" by (simp only: pq_min_def list.case)
    have x: "x \<in> set (concat qs)" using Cons by (simp only: list.set_intros)
    have rest: "set (concat qs) = insert x (set (concat (pq_rest qs)))"
      by (simp only: concat_pq_rest Cons list.sel list.set)
    obtain q' h' where p: "flb_bucket_queue_pop_min (?q, h) = Some (x, (q', h'))"
        "bq_inv (q', h') (pq_rest qs)" "heads q' = heads q" "frame (members (heads q) qs) h h'"
        "pv h' x = NULL"
      using flb_bucket_queue_pop_min_inv [OF bq_inv_top [OF bq order_refl]] m Cons
      by (auto simp del: concat_eq_Nil_conv)
    have "pv h' (priority_node e) = NULL"
      if "e \<in> dom (w_events w)" "priority_node e \<notin> set (concat (pq_rest qs))" for e
    proof (cases "priority_node e = x")
      case False
      then have n: "priority_node e \<notin> set (concat qs)" using that(2) rest by simp
      moreover have "priority_node e \<notin> set (heads q)"
        using events_invD(2) [OF inv [unfolded s] that(1)] .
      ultimately have "h' (priority_node e) = h (priority_node e)"
        using p(4) by (simp add: frame_def members_heads del: set_concat)
      then show ?thesis using events_invD(3) [OF inv [unfolded s] that(1)] n by (simp add: pv_def del: set_concat)
    qed (use p(5) in simp)
    moreover have "bq_free (q', h') (priority_node e)" if "e \<in> dom (w_events w)" for e
      using events_invD [OF inv [unfolded s] that] p(3) frame_valid [OF p(4)] by (simp add: bq_free_def)
    moreover have "set (concat (pq_rest qs)) \<subseteq> priority_node ` dom (w_events w)"
      using events_inv_queued(1) [OF inv] rest by blast
    ultimately have "events_inv (w_events w) (q', h') (pq_rest qs)"
      by (intro events_invI p(2) events_inv_queued(2) [OF inv]) simp_all
    then show ?thesis
      using fm m s p(1,5) Cons bq_inv_queued(3) [OF bq x]
      by (auto simp: next_event_def simp del: concat_eq_Nil_conv)
  qed
qed

section \<open>The loop returns, within its budget\<close>

definition world_inv :: "'x world \<Rightarrow> ptr list list \<Rightarrow> bool" where
  "world_inv w qs \<longleftrightarrow> events_inv (w_events w) (w_queue w) qs \<and> ready_ok (w_events w) (w_evl w) (w_ctx w)"

text \<open>
  What the loop needs of the code it calls: the body may queue, unlink, register or destroy
  events as long as it leaves a well-formed world; \<^verbatim>\<open>mk_event_wait_2\<close> reports known events and
  does not touch the queue.
\<close>

definition body_ok :: "(ptr \<Rightarrow> 'x world \<Rightarrow> 'x world option) \<Rightarrow> bool" where
  "body_ok body \<longleftrightarrow> (\<forall>e w qs. world_inv w qs \<and> e \<in> dom (w_events w) \<longrightarrow>
     (\<exists>w' qs'. body e w = Some w' \<and> world_inv w' qs'))"

definition wait_ok :: "('x world \<Rightarrow> 'x world) \<Rightarrow> bool" where
  "wait_ok wait \<longleftrightarrow> (\<forall>w qs. world_inv w qs \<longrightarrow> world_inv (wait w) qs)"

lemma load_ready_inv:
  assumes "world_inv w qs"
  shows "\<exists>s'. load_ready w = Some (w\<lparr>w_queue := s'\<rparr>) \<and>
    world_inv (w\<lparr>w_queue := s'\<rparr>) (pq_load_ready (w_events w) (ready_events (w_evl w) (w_ctx w)) qs)"
proof -
  obtain s' where "flb_event_load_bucket_queue (w_events w) (w_evl w) (w_ctx w) (w_queue w) = Some s'"
      "events_inv (w_events w) s' (pq_load_ready (w_events w) (ready_events (w_evl w) (w_ctx w)) qs)"
    using load_bucket_queue_inv assms unfolding world_inv_def by blast
  then show ?thesis using assms by (intro exI [of _ s']) (simp add: load_ready_def world_inv_def)
qed

lemma load_injected_inv:
  assumes "world_inv w qs" "0 \<le> n"
  shows "\<exists>s'. load_injected n w = Some (w\<lparr>w_queue := s'\<rparr>) \<and>
    world_inv (w\<lparr>w_queue := s'\<rparr>) (pq_load_from (w_events w) (drop (nat n) (ready_events (w_evl w) (w_ctx w))) qs)"
proof -
  obtain s' where "flb_event_load_injected_events (w_events w) (w_evl w) (w_ctx w) n (w_queue w) = Some s'"
      "events_inv (w_events w) s' (pq_load_from (w_events w) (drop (nat n) (ready_events (w_evl w) (w_ctx w))) qs)"
    using load_injected_events_inv assms unfolding world_inv_def by blast
  then show ?thesis using assms by (intro exI [of _ s']) (simp add: load_injected_def world_inv_def)
qed

lemma next_event_world:
  assumes inv: "world_inv w qs"
  shows "\<exists>e w' qs'. next_event w = Some (e, w') \<and> world_inv w' qs' \<and> w_evl w' = w_evl w \<and>
    (e = NULL \<longrightarrow> concat qs' = []) \<and>
    (e \<noteq> NULL \<longrightarrow> e \<in> dom (w_events w') \<and> pv (snd (w_queue w')) (priority_node e) = NULL)"
proof -
  have ev: "events_inv (w_events w) (w_queue w) qs" using inv by (simp add: world_inv_def)
  obtain s' where s': "next_event w =
        Some (if concat qs = [] then NULL else container_of (pq_min qs) mk_event_priority_head_off,
              w\<lparr>w_queue := s'\<rparr>)"
      "events_inv (w_events w) s' (pq_rest qs)"
      "concat qs \<noteq> [] \<longrightarrow> pv (snd s') (pq_min qs) = NULL"
    using next_event_inv [OF ev] by blast
  have wi: "world_inv (w\<lparr>w_queue := s'\<rparr>) (pq_rest qs)" using inv s'(2) by (simp add: world_inv_def)
  show ?thesis
  proof (cases "concat qs")
    case Nil
    then have "concat (pq_rest qs) = []" by (simp only: concat_pq_rest list.sel)
    with Nil s'(1) wi show ?thesis by (auto simp del: concat_eq_Nil_conv)
  next
    case (Cons x xs)
    then have m: "pq_min qs = x" by (simp only: pq_min_def list.case)
    have "x \<in> set (concat qs)" using Cons by (simp only: list.set_intros)
    then obtain e where e: "x = priority_node e" "e \<in> dom (w_events w)"
      using ev unfolding events_inv_def by blast
    moreover have "e \<noteq> NULL" using e ev by (metis events_inv_def)
    ultimately show ?thesis using Cons m s'(1,3) wi by (auto simp del: concat_eq_Nil_conv)
  qed
qed

definition live_result :: "int \<Rightarrow> int \<Rightarrow> ptr list \<Rightarrow> ptr \<Rightarrow> 'x world \<Rightarrow> bool" where
  "live_result max_iter iter handled left w \<longleftrightarrow>
     int (length handled) \<le> max_iter - iter \<and> NULL \<notin> set handled \<and>
     (\<exists>qs. world_inv w qs \<and> (left = NULL \<longrightarrow> concat qs = [])) \<and>
     (left \<noteq> NULL \<longrightarrow> int (length handled) = max_iter - iter \<and> left \<in> dom (w_events w) \<and>
        pv (snd (w_queue w)) (priority_node left) = NULL)"

lemma live_loop_returns:
  assumes ok: "body_ok body" "wait_ok wait" and "0 \<le> n" "iter \<le> max_iter" "0 \<le> max_iter"
    and inv: "world_inv w qs" "event = NULL \<longrightarrow> concat qs = []"
      "event \<noteq> NULL \<longrightarrow> event \<in> dom (w_events w) \<and> pv (snd (w_queue w)) (priority_node event) = NULL"
  shows "\<exists>handled left w'. live_loop wait body max_iter iter n event w = Some (handled, left, w') \<and>
    live_result max_iter iter handled left w'"
  using assms(3-)
proof (induction "nat (max_iter - iter)" arbitrary: iter n event w qs)
  case 0
  then have "live_loop wait body max_iter iter n event w = Some ([], event, w)"
    by (subst live_loop.simps) auto
  moreover have "live_result max_iter iter [] event w"
    using 0 unfolding live_result_def by auto
  ultimately show ?case by blast
next
  case (Suc k)
  show ?case
  proof (cases "event = NULL")
    case True
    then have "live_loop wait body max_iter iter n event w = Some ([], event, w)"
      by (subst live_loop.simps) simp
    moreover have "live_result max_iter iter [] event w"
      using Suc.prems Suc.hyps(2) True unfolding live_result_def by auto
    ultimately show ?thesis by blast
  next
    case False
    obtain w1 q1 where w1: "body event w = Some w1" "world_inv w1 q1"
      using ok(1) Suc.prems(4,6) False unfolding body_ok_def by blast
    obtain w2 q2 where w2: "load_injected n w1 = Some w2" "world_inv w2 q2"
      using load_injected_inv [OF w1(2) Suc.prems(1)] by blast
    have w3: "world_inv (wait w2) q2" using ok(2) w2(2) by (simp add: wait_ok_def)
    obtain w4 q4 where w4: "load_ready (wait w2) = Some w4" "world_inv w4 q4"
      using load_ready_inv [OF w3] by blast
    obtain e w5 q5 where w5: "next_event w4 = Some (e, w5)" "world_inv w5 q5"
        "e = NULL \<longrightarrow> concat q5 = []"
        "e \<noteq> NULL \<longrightarrow> e \<in> dom (w_events w5) \<and> pv (snd (w_queue w5)) (priority_node e) = NULL"
      using next_event_world [OF w4(2)] by (auto simp del: concat_eq_Nil_conv)
    have "0 \<le> evl_n_events (w_evl w4)" using w4(2) by (simp add: world_inv_def ready_ok_def)
    moreover have "k = nat (max_iter - (iter + 1))" "iter + 1 \<le> max_iter" using Suc.hyps(2) by auto
    moreover note this
    ultimately obtain handled left w' where r:
        "live_loop wait body max_iter (iter + 1) (evl_n_events (w_evl w4)) e w5 = Some (handled, left, w')"
        "live_result max_iter (iter + 1) handled left w'"
      using Suc.hyps(1) [of "iter + 1" "evl_n_events (w_evl w4)" w5 q5 e] Suc.prems(3) w5
      by (auto simp del: concat_eq_Nil_conv)
    have "live_loop wait body max_iter iter n event w = Some (event # handled, left, w')"
      using False \<open>iter + 1 \<le> max_iter\<close> w1(1) w2(1) w4(1) w5(1) r(1) by (subst live_loop.simps) simp
    moreover have "live_result max_iter iter (event # handled) left w'"
      using r(2) False by (auto simp: live_result_def simp del: concat_eq_Nil_conv)
    ultimately show ?thesis by blast
  qed
qed

section \<open>The order of a round\<close>

text \<open>
  A round in which nothing new happens: the body works outside the loop's own state and
  \<^verbatim>\<open>mk_event_wait_2\<close> reports no event.
\<close>

definition quiet_body :: "(ptr \<Rightarrow> 'x world \<Rightarrow> 'x world option) \<Rightarrow> bool" where
  "quiet_body body \<longleftrightarrow> (\<forall>e w. \<exists>x. body e w = Some (w\<lparr>w_ext := x\<rparr>))"

definition quiet_wait :: "('x world \<Rightarrow> 'x world) \<Rightarrow> bool" where
  "quiet_wait wait \<longleftrightarrow> (\<forall>w. wait w = w\<lparr>w_evl := (w_evl w)\<lparr>evl_n_events := 0\<rparr>\<rparr>)"

definition queued_events :: "ptr list list \<Rightarrow> ptr list" where
  "queued_events qs = map (\<lambda>p. container_of p mk_event_priority_head_off) (concat qs)"

lemma next_event_queued:
  assumes "events_inv (w_events w) (w_queue w) qs"
  shows "\<exists>s'. next_event w =
      Some (case queued_events qs of [] \<Rightarrow> NULL | e # _ \<Rightarrow> e, w\<lparr>w_queue := s'\<rparr>) \<and>
    events_inv (w_events w) s' (pq_rest qs) \<and> queued_events (pq_rest qs) = tl (queued_events qs)"
proof -
  have "queued_events (pq_rest qs) = tl (queued_events qs)"
    unfolding queued_events_def concat_pq_rest map_tl ..
  moreover have e: "(if concat qs = [] then NULL else container_of (pq_min qs) mk_event_priority_head_off) =
      (case queued_events qs of [] \<Rightarrow> NULL | e # _ \<Rightarrow> e)"
    unfolding queued_events_def pq_min_def by (simp split: list.split del: concat_eq_Nil_conv)
  ultimately show ?thesis using next_event_inv [OF assms] unfolding e by blast
qed

lemma queued_events_nonnull:
  assumes "events_inv events s qs" "e \<in> set (queued_events qs)"
  shows "e \<noteq> NULL"
proof -
  obtain x where "x \<in> set (concat qs)" "e = container_of x mk_event_priority_head_off"
    using assms(2) by (auto simp: queued_events_def simp del: set_concat)
  moreover obtain e' where "e' \<in> dom events" "x = priority_node e'"
    using events_inv_queued(1) [OF assms(1)] calculation(1) by blast
  ultimately show ?thesis using events_inv_queued(2) [OF assms(1)] by auto
qed

definition cut :: "nat \<Rightarrow> ptr list \<Rightarrow> ptr list \<times> ptr" where
  "cut k es = (take k es, if k < length es then es ! k else NULL)"

lemma quiet_loop:
  assumes q: "quiet_body body" "quiet_wait wait" and "0 \<le> max_iter" "iter \<le> max_iter"
    and inv: "events_inv (w_events w) (w_queue w) qs" "evl_n_events (w_evl w) = n"
      "event = NULL \<Longrightarrow> queued_events qs = []"
  shows "\<exists>w'. live_loop wait body max_iter iter n event w =
     (let (handled, left) = cut (nat (max_iter - iter)) (if event = NULL then [] else event # queued_events qs)
      in Some (handled, left, w'))"
  using assms(3-)
proof (induction "nat (max_iter - iter)" arbitrary: iter n event w qs)
  case 0
  then show ?case by (subst live_loop.simps) (auto simp: cut_def)
next
  case (Suc k)
  show ?case
  proof (cases "event = NULL")
    case True
    then show ?thesis by (subst live_loop.simps) (auto simp: cut_def)
  next
    case False
    obtain x where x: "body event w = Some (w\<lparr>w_ext := x\<rparr>)" using q(1) by (auto simp: quiet_body_def)
    define w2 where "w2 = wait (w\<lparr>w_ext := x\<rparr>)"
    have inj: "load_injected n (w\<lparr>w_ext := x\<rparr>) = Some (w\<lparr>w_ext := x\<rparr>)"
      using Suc.prems(4) by (cases "w_queue w")
        (auto simp: load_injected_def flb_event_load_injected_events_def)
    have w2: "w_queue w2 = w_queue w" "w_events w2 = w_events w" "evl_n_events (w_evl w2) = 0"
      using q(2) by (simp_all add: w2_def quiet_wait_def)
    have rdy: "load_ready w2 = Some w2"
      using w2(3) by (simp add: load_ready_def flb_event_load_bucket_queue_def epoll.foreach_none)
    have ev2: "events_inv (w_events w2) (w_queue w2) qs" using Suc.prems(3) w2 by simp
    define e where "e = (case queued_events qs of [] \<Rightarrow> NULL | e # _ \<Rightarrow> e)"
    obtain s' where n: "next_event w2 = Some (e, w2\<lparr>w_queue := s'\<rparr>)"
        "events_inv (w_events w2) s' (pq_rest qs)" "queued_events (pq_rest qs) = tl (queued_events qs)"
      using next_event_queued [OF ev2] unfolding e_def by blast
    have e: "(if e = NULL then [] else e # tl (queued_events qs)) = queued_events qs"
      "e = NULL \<Longrightarrow> queued_events qs = []"
      using queued_events_nonnull [OF ev2] by (auto simp: e_def split: list.splits)
    have "k = nat (max_iter - (iter + 1))" "iter + 1 \<le> max_iter" using Suc.hyps(2) by auto
    then obtain w' where "live_loop wait body max_iter (iter + 1) 0 e (w2\<lparr>w_queue := s'\<rparr>) =
        (let (handled, left) = cut (nat (max_iter - (iter + 1))) (if e = NULL then [] else e # queued_events (pq_rest qs))
         in Some (handled, left, w'))"
      using Suc.hyps(1) [of "iter + 1" "w2\<lparr>w_queue := s'\<rparr>" "pq_rest qs" 0 e] n(2,3) e(2) w2 Suc.prems(1)
      by auto
    then have r: "live_loop wait body max_iter (iter + 1) 0 e (w2\<lparr>w_queue := s'\<rparr>) =
        Some (take k (queued_events qs),
          if k < length (queued_events qs) then queued_events qs ! k else NULL, w')"
      unfolding n(3) e(1) cut_def using \<open>k = nat (max_iter - (iter + 1))\<close> by simp
    show ?thesis
      using False x inj rdy n(1) r w2(3) Suc.hyps(2) [symmetric] Suc.prems(1) \<open>iter + 1 \<le> max_iter\<close>
      by (subst live_loop.simps) (simp add: w2_def [symmetric] cut_def)
  qed
qed

text \<open>Loading the distinct ready events into an empty queue sorts them by priority, stably.\<close>

definition event_prio :: "event_heap \<Rightarrow> ptr \<Rightarrow> nat" where
  "event_prio events e = unat (event_priority (the (events e)))"

definition loadable :: "event_heap \<Rightarrow> nat \<Rightarrow> ptr \<Rightarrow> bool" where
  "loadable events n e \<longleftrightarrow> ev_status (the (events e)) \<noteq> MK_EVENT_NONE \<and> event_prio events e < n"

lemma pq_load_ready_insert:
  assumes "distinct es" "priority_node ` set es \<inter> set (concat qs) = {}"
  shows "pq_load_ready events es qs =
    pq_insert_all (map (\<lambda>e. (priority_node e, event_prio events e)) (filter (loadable events (length qs)) es)) qs"
  using assms
proof (induction es arbitrary: qs)
  case (Cons e es)
  show ?case
  proof (cases "loadable events (length qs) e")
    case True
    then have i: "event_prio events e < length qs" by (simp add: loadable_def)
    have "priority_node ` set es \<inter> set (concat (pq_insert (event_prio events e) (priority_node e) qs)) = {}"
      unfolding set_concat_pq_insert [OF i] using Cons.prems by auto
    then show ?thesis
      using Cons.IH [of "pq_insert (event_prio events e) (priority_node e) qs"] Cons.prems True
      by (auto simp: pq_load_ready_def pq_load_def Let_def loadable_def event_prio_def)
  next
    case False
    then show ?thesis
      using Cons.IH [of qs] Cons.prems
      by (auto simp: pq_load_ready_def pq_load_def Let_def loadable_def event_prio_def)
  qed
qed (simp add: pq_load_ready_def)

lemma queued_events_sorted:
  assumes "distinct es"
  shows "queued_events (pq_load_ready events es (replicate n [])) =
    sort_key (event_prio events) (filter (loadable events n) es)"
proof -
  let ?es = "filter (loadable events n) es" and ?g = "\<lambda>e. (priority_node e, event_prio events e)"
  have e: "pq_load_ready events es (replicate n []) = pq_insert_all (map ?g ?es) (replicate n [])"
    using pq_load_ready_insert [OF assms, of "replicate n []" events] by auto
  have "pq_insert_all (map ?g ?es) (replicate n []) =
      map (\<lambda>j. map priority_node (filter (\<lambda>e. event_prio events e = j) ?es)) [0..<n]"
    by (rule nth_equalityI) (auto simp: nth_pq_insert_all filter_map comp_def)
  then have "queued_events (pq_load_ready events es (replicate n [])) =
      concat (map (\<lambda>j. filter (\<lambda>e. event_prio events e = j) ?es) [0..<n])"
    unfolding e queued_events_def by (simp add: map_concat comp_def)
  then show ?thesis
    using sort_key_classes [of ?es "event_prio events" n] by (simp add: loadable_def)
qed

section \<open>Properties\<close>

text \<open>
  C2: the loop ends and keeps its promises.  With a budget \<open>max_iter \<ge> 0\<close>, a body and a wait
  function that keep the world well formed, \<^verbatim>\<open>flb_event_priority_live_foreach\<close> returns; it runs the
  body at most \<open>max_iter\<close> times and never on null, leaves a well-formed queue, and stops either
  because the queue is empty or because the budget is used up.  In the second case it has taken
  one event off the queue without handling it; that event is unlinked, so it can be loaded again.
\<close>

theorem live_foreach_returns:
  assumes "world_inv w qs" "body_ok body" "wait_ok wait" "0 \<le> max_iter"
  shows "\<exists>handled left w'. flb_event_priority_live_foreach wait body max_iter w = Some (handled, left, w') \<and>
    int (length handled) \<le> max_iter \<and> NULL \<notin> set handled \<and>
    (\<exists>qs'. world_inv w' qs' \<and> (left = NULL \<longrightarrow> concat qs' = [])) \<and>
    (left \<noteq> NULL \<longrightarrow> int (length handled) = max_iter \<and> left \<in> dom (w_events w') \<and>
       pv (snd (w_queue w')) (priority_node left) = NULL)"
proof -
  obtain w1 q1 where w1: "load_ready w = Some w1" "world_inv w1 q1" using load_ready_inv [OF assms(1)] by blast
  obtain e w2 q2 where w2: "next_event w1 = Some (e, w2)" "world_inv w2 q2" "e = NULL \<longrightarrow> concat q2 = []"
      "e \<noteq> NULL \<longrightarrow> e \<in> dom (w_events w2) \<and> pv (snd (w_queue w2)) (priority_node e) = NULL"
    using next_event_world [OF w1(2)] by blast
  have "0 \<le> evl_n_events (w_evl w)" using assms(1) by (simp add: world_inv_def ready_ok_def)
  from live_loop_returns [OF assms(2,3) this assms(4) assms(4) w2(2,3,4)]
  obtain handled left w' where "live_loop wait body max_iter 0 (evl_n_events (w_evl w)) e w2 = Some (handled, left, w')"
    "live_result max_iter 0 handled left w'" by blast
  then show ?thesis using w1(1) w2(1)
    by (auto simp: flb_event_priority_live_foreach_def live_result_def simp del: concat_eq_Nil_conv)
qed

definition example_event :: "u8 \<Rightarrow> mk_event" where
  "example_event priority = \<lparr>ev_fd = 3, ev_type = 0, ev_mask = 1, ev_status = 2, ev_data = 0,
     ev_handler = 0, ev_priority = priority\<rparr>"

definition example_world :: "unit world" where
  "example_world = \<lparr>w_queue = (example_queue, example_empty_heap),
     w_events = [52 \<mapsto> example_event 1, 152 \<mapsto> example_event 0, 252 \<mapsto> example_event 0],
     w_evl = \<lparr>evl_size = 16, evl_n_events = 3, evl_events = 0, evl_data = 0\<rparr>,
     w_ctx = \<lparr>epoll_efd = 4, epoll_queue_size = 16,
       epoll_events = [\<lparr>ee_events = 1, ee_ptr = 52\<rparr>, \<lparr>ee_events = 1, ee_ptr = 152\<rparr>, \<lparr>ee_events = 1, ee_ptr = 252\<rparr>]\<rparr>,
     w_ext = ()\<rparr>"

lemma example_world_inv: "world_inv example_world (replicate 2 [])"
proof -
  have "events_inv (w_events example_world) (w_queue example_world) (replicate 2 [])"
    by (rule events_invI)
      (use example_empty_inv in \<open>auto simp: example_world_def bq_free_def example_heads valid_def
         example_empty_heap_def priority_node_def mk_event_priority_head_off_def pv_def split: if_splits\<close>)
  then show ?thesis by (auto simp: world_inv_def ready_ok_def example_world_def numeral_3_eq_3)
qed

theorem live_foreach_returns_witness:
  "\<exists>handled left w'. flb_event_priority_live_foreach id (\<lambda>e w. Some w) 5 example_world = Some (handled, left, w') \<and>
     length handled \<le> 5"
proof -
  have "body_ok (\<lambda>e (w :: unit world). Some w)" "wait_ok (id :: unit world \<Rightarrow> _)"
    by (auto simp: body_ok_def wait_ok_def)
  from live_foreach_returns [OF example_world_inv this, of 5] show ?thesis by fastforce
qed

text \<open>
  C16: order of a round.  When distinct events are reported, the queue is empty and nothing new is
  reported while the round runs, the body runs on the registered events with a valid priority in
  ascending order of priority, events of the same priority in the order they were reported; the
  budget cuts this sequence, and the event just beyond the cut is taken off the queue unhandled.
\<close>

theorem live_foreach_order:
  assumes "world_inv w (replicate n [])" "distinct (ready_events (w_evl w) (w_ctx w))"
    and "quiet_body body" "quiet_wait wait" "0 \<le> max_iter"
  shows "\<exists>w'. flb_event_priority_live_foreach wait body max_iter w =
    (let es = sort_key (event_prio (w_events w))
                (filter (loadable (w_events w) n) (ready_events (w_evl w) (w_ctx w)))
     in Some (take (nat max_iter) es, if nat max_iter < length es then es ! nat max_iter else NULL, w'))"
proof -
  define qs where "qs = pq_load_ready (w_events w) (ready_events (w_evl w) (w_ctx w)) (replicate n [])"
  obtain s1 where w1: "load_ready w = Some (w\<lparr>w_queue := s1\<rparr>)" "world_inv (w\<lparr>w_queue := s1\<rparr>) qs"
    using load_ready_inv [OF assms(1)] unfolding qs_def by blast
  have ev: "events_inv (w_events (w\<lparr>w_queue := s1\<rparr>)) (w_queue (w\<lparr>w_queue := s1\<rparr>)) qs"
    using w1(2) by (simp add: world_inv_def)
  define e where "e = (case queued_events qs of [] \<Rightarrow> NULL | e # _ \<Rightarrow> e)"
  obtain s2 where w2: "next_event (w\<lparr>w_queue := s1\<rparr>) = Some (e, w\<lparr>w_queue := s2\<rparr>)"
      "events_inv (w_events w) s2 (pq_rest qs)" "queued_events (pq_rest qs) = tl (queued_events qs)"
    using next_event_queued [OF ev] unfolding e_def by auto
  have e: "(if e = NULL then [] else e # tl (queued_events qs)) = queued_events qs"
    "e = NULL \<Longrightarrow> queued_events qs = []"
    using queued_events_nonnull [OF ev] by (auto simp: e_def split: list.splits)
  have "queued_events (pq_rest qs) = []" if "e = NULL" using e(2) [OF that] w2(3) by simp
  then obtain w' where l: "live_loop wait body max_iter 0 (evl_n_events (w_evl w)) e (w\<lparr>w_queue := s2\<rparr>) =
      (let (handled, left) = cut (nat (max_iter - 0)) (if e = NULL then [] else e # queued_events (pq_rest qs))
       in Some (handled, left, w'))"
    using quiet_loop [OF assms(3,4,5,5), of "w\<lparr>w_queue := s2\<rparr>" "pq_rest qs" "evl_n_events (w_evl w)" e] w2(2)
    by auto
  have "queued_events qs = sort_key (event_prio (w_events w))
      (filter (loadable (w_events w) n) (ready_events (w_evl w) (w_ctx w)))"
    unfolding qs_def by (rule queued_events_sorted [OF assms(2)])
  with l w1(1) w2(1) show ?thesis
    unfolding w2(3) e(1) by (auto simp: flb_event_priority_live_foreach_def cut_def Let_def)
qed

theorem live_foreach_order_witness:
  "\<exists>w'. flb_event_priority_live_foreach (\<lambda>w. w\<lparr>w_evl := (w_evl w)\<lparr>evl_n_events := 0\<rparr>\<rparr>) (\<lambda>e w. Some w) 2
     example_world = Some ([152, 252], 52, w')"
proof -
  have b: "quiet_body (\<lambda>e (w :: unit world). Some w)" by (simp add: quiet_body_def)
  have t: "quiet_wait (\<lambda>(w :: unit world). w\<lparr>w_evl := (w_evl w)\<lparr>evl_n_events := 0\<rparr>\<rparr>)" by (simp add: quiet_wait_def)
  have r: "ready_events (w_evl example_world) (w_ctx example_world) = [52, 152, 252]"
    by (simp add: ready_events_def example_world_def numeral_3_eq_3)
  have "event_prio (w_events example_world) 52 = 1" "event_prio (w_events example_world) 152 = 0"
    "event_prio (w_events example_world) 252 = 0"
    by (simp_all add: event_prio_def event_priority_def example_world_def example_event_def)
  moreover have "loadable (w_events example_world) 2 e" if "e \<in> set [52, 152, 252]" for e
    using that calculation by (auto simp: loadable_def MK_EVENT_NONE_def example_world_def example_event_def)
  ultimately show ?thesis
    using live_foreach_order [OF example_world_inv _ b t, of 2] unfolding r
    by (simp add: sort_key_def numeral_2_eq_2)
qed

end
