(* ===== verification/Flb_Bits.thy ===== *)
theory Flb_Bits
  imports Mk_Event
begin

text \<open>
  Bit packing: the 64-bit engine messages of \<^verbatim>\<open>fluent-bit/flb_bits.h\<close>, the engine's event codes
  of \<^verbatim>\<open>fluent-bit/flb_engine_macros.h\<close> and the 32-bit task codes of \<^verbatim>\<open>fluent-bit/flb_task.h\<close>.
\<close>

section \<open>flb_bits.h\<close>

definition FLB_BITS_U64_SET :: "u32 \<Rightarrow> u32 \<Rightarrow> u64" where
  "FLB_BITS_U64_SET a b = push_bit 32 (ucast a) OR ucast b"

definition FLB_BITS_U64_HIGH :: "u64 \<Rightarrow> u64" where
  "FLB_BITS_U64_HIGH val = drop_bit 32 val"

definition FLB_BITS_U64_LOW :: "u64 \<Rightarrow> u64" where
  "FLB_BITS_U64_LOW val = val AND 0xffffffff"

text \<open>\<open>1 << n\<close> is an \<^verbatim>\<open>int\<close> shift, so the macro is for 32-bit values and \<open>n < 31\<close>.\<close>

definition FLB_BITS_CLEAR :: "u32 \<Rightarrow> nat \<Rightarrow> u32" where
  "FLB_BITS_CLEAR val n = val AND NOT (push_bit n 1)"

text \<open>\<open>FLB_BIT_MASK(type, n)\<close> for a type of the width of \<open>'a\<close>; the shift needs \<open>0 < n\<close> to be defined.\<close>

definition FLB_BIT_MASK :: "nat \<Rightarrow> 'a::len word" where
  "FLB_BIT_MASK n =
     (if n \<noteq> 0 then - 1 else 0) AND drop_bit (LENGTH('a) - n) (- 1)"

section \<open>flb_engine_macros.h\<close>

definition FLB_ENGINE_EV_CORE :: int where "FLB_ENGINE_EV_CORE = MK_EVENT_NOTIFICATION"
definition FLB_ENGINE_EV_CUSTOM :: int where "FLB_ENGINE_EV_CUSTOM = MK_EVENT_CUSTOM"
definition FLB_ENGINE_EV_THREAD :: int where "FLB_ENGINE_EV_THREAD = 1024"
definition FLB_ENGINE_EV_SCHED :: int where "FLB_ENGINE_EV_SCHED = 2048"
definition FLB_ENGINE_EV_SCHED_FRAME :: int where
  "FLB_ENGINE_EV_SCHED_FRAME = FLB_ENGINE_EV_SCHED + 4096"
definition FLB_ENGINE_EV_INPUT :: int where "FLB_ENGINE_EV_INPUT = 8192"
definition FLB_ENGINE_EV_THREAD_INPUT :: int where "FLB_ENGINE_EV_THREAD_INPUT = 16384"
definition FLB_ENGINE_EV_OUTPUT :: int where "FLB_ENGINE_EV_OUTPUT = 32768"
definition FLB_ENGINE_EV_THREAD_OUTPUT :: int where "FLB_ENGINE_EV_THREAD_OUTPUT = 65536"
definition FLB_ENGINE_EV_THREAD_ENGINE :: int where "FLB_ENGINE_EV_THREAD_ENGINE = 131072"

definition FLB_ENGINE_EV_STARTED :: u64 where "FLB_ENGINE_EV_STARTED = FLB_BITS_U64_SET 1 1"
definition FLB_ENGINE_EV_FAILED :: u64 where "FLB_ENGINE_EV_FAILED = FLB_BITS_U64_SET 1 2"
definition FLB_ENGINE_EV_STOP :: u64 where "FLB_ENGINE_EV_STOP = FLB_BITS_U64_SET 1 3"
definition FLB_ENGINE_EV_SHUTDOWN :: u64 where "FLB_ENGINE_EV_SHUTDOWN = FLB_BITS_U64_SET 1 4"

definition FLB_ENGINE_STARTED :: u64 where "FLB_ENGINE_STARTED = FLB_BITS_U64_LOW FLB_ENGINE_EV_STARTED"
definition FLB_ENGINE_FAILED :: u64 where "FLB_ENGINE_FAILED = FLB_BITS_U64_LOW FLB_ENGINE_EV_FAILED"
definition FLB_ENGINE_STOP :: u64 where "FLB_ENGINE_STOP = FLB_BITS_U64_LOW FLB_ENGINE_EV_STOP"
definition FLB_ENGINE_SHUTDOWN :: u64 where "FLB_ENGINE_SHUTDOWN = FLB_BITS_U64_LOW FLB_ENGINE_EV_SHUTDOWN"

definition FLB_ENGINE_TASK :: u32 where "FLB_ENGINE_TASK = 2"
definition FLB_ENGINE_IN_CORO :: u32 where "FLB_ENGINE_IN_CORO = 3"

definition FLB_ENGINE_LOOP_MAX_ITER :: int where "FLB_ENGINE_LOOP_MAX_ITER = 10"

definition FLB_ENGINE_PRIORITY_DEFAULT :: nat where "FLB_ENGINE_PRIORITY_DEFAULT = unat MK_EVENT_PRIORITY_DEFAULT"
definition FLB_ENGINE_PRIORITY_COUNT :: nat where "FLB_ENGINE_PRIORITY_COUNT = 8"
definition FLB_ENGINE_PRIORITY_TOP :: nat where "FLB_ENGINE_PRIORITY_TOP = 0"
definition FLB_ENGINE_PRIORITY_BOTTOM :: nat where
  "FLB_ENGINE_PRIORITY_BOTTOM = FLB_ENGINE_PRIORITY_COUNT - 1"
definition FLB_ENGINE_PRIORITY_NETWORK :: nat where "FLB_ENGINE_PRIORITY_NETWORK = 1"
definition FLB_ENGINE_PRIORITY_CB_SCHED :: nat where "FLB_ENGINE_PRIORITY_CB_SCHED = FLB_ENGINE_PRIORITY_TOP"
definition FLB_ENGINE_PRIORITY_CB_TIMER :: nat where "FLB_ENGINE_PRIORITY_CB_TIMER = FLB_ENGINE_PRIORITY_TOP"
definition FLB_ENGINE_PRIORITY_SHUTDOWN :: nat where "FLB_ENGINE_PRIORITY_SHUTDOWN = FLB_ENGINE_PRIORITY_TOP"
definition FLB_ENGINE_PRIORITY_FLUSH :: nat where "FLB_ENGINE_PRIORITY_FLUSH = FLB_ENGINE_PRIORITY_NETWORK + 1"
definition FLB_ENGINE_PRIORITY_DNS :: nat where "FLB_ENGINE_PRIORITY_DNS = FLB_ENGINE_PRIORITY_NETWORK"
definition FLB_ENGINE_PRIORITY_CONNECT :: nat where "FLB_ENGINE_PRIORITY_CONNECT = FLB_ENGINE_PRIORITY_NETWORK"
definition FLB_ENGINE_PRIORITY_SEND_RECV :: nat where "FLB_ENGINE_PRIORITY_SEND_RECV = FLB_ENGINE_PRIORITY_NETWORK"
definition FLB_ENGINE_PRIORITY_THREAD :: nat where "FLB_ENGINE_PRIORITY_THREAD = FLB_ENGINE_PRIORITY_DEFAULT"

section \<open>Task codes of flb_task.h\<close>

text \<open>
  \<open>AAAA BBBBBBBBBBBBBB CCCCCCCCCCCCCC\<close>: 4 bits of return value, 14 of task id, 14 of output id.
\<close>

definition FLB_TASK_RET :: "u32 \<Rightarrow> u32" where
  "FLB_TASK_RET val = drop_bit 28 val"

definition FLB_TASK_ID :: "u32 \<Rightarrow> u32" where
  "FLB_TASK_ID val = drop_bit 14 (val AND 0xfffc000)"

definition FLB_TASK_OUT :: "u32 \<Rightarrow> u32" where
  "FLB_TASK_OUT val = val AND 0x3fff"

definition FLB_TASK_SET :: "u32 \<Rightarrow> u32 \<Rightarrow> u32 \<Rightarrow> u32" where
  "FLB_TASK_SET ret task_id out_id = push_bit 28 ret OR push_bit 14 task_id OR out_id"

section \<open>Round trips\<close>

lemma word_bit_less:
  fixes w :: "'a::len word"
  assumes "w < 2 ^ k" "bit w n"
  shows "n < k"
proof -
  have "w AND mask k = w" by (rule less_mask_eq) (rule assms(1))
  then have "bit (w AND mask k) n" using assms(2) by simp
  then show ?thesis by (simp add: bit_simps)
qed

lemma FLB_TASK_ID_bits: "FLB_TASK_ID val = take_bit 14 (drop_bit 14 val)"
  by (simp add: FLB_TASK_ID_def drop_bit_and take_bit_eq_mask mask_numeral)

lemma FLB_TASK_OUT_bits: "FLB_TASK_OUT val = take_bit 14 val"
  by (simp add: FLB_TASK_OUT_def take_bit_eq_mask mask_numeral)

lemma FLB_TASK_SET_fields:
  assumes "ret < 2 ^ 4" "task_id < 2 ^ 14" "out_id < 2 ^ 14"
  shows "FLB_TASK_RET (FLB_TASK_SET ret task_id out_id) = ret"
    and "FLB_TASK_ID (FLB_TASK_SET ret task_id out_id) = task_id"
    and "FLB_TASK_OUT (FLB_TASK_SET ret task_id out_id) = out_id"
proof -
  note b = word_bit_less [OF assms(1)] word_bit_less [OF assms(2)] word_bit_less [OF assms(3)]
  show "FLB_TASK_RET (FLB_TASK_SET ret task_id out_id) = ret"
    by (rule bit_word_eqI) (auto simp: FLB_TASK_RET_def FLB_TASK_SET_def bit_simps dest: b)
  show "FLB_TASK_ID (FLB_TASK_SET ret task_id out_id) = task_id"
    by (rule bit_word_eqI) (auto simp: FLB_TASK_ID_bits FLB_TASK_SET_def bit_simps dest: b)
  show "FLB_TASK_OUT (FLB_TASK_SET ret task_id out_id) = out_id"
    by (rule bit_word_eqI) (auto simp: FLB_TASK_OUT_bits FLB_TASK_SET_def bit_simps dest: b)
qed

lemma FLB_BITS_U64_fields:
  "FLB_BITS_U64_HIGH (FLB_BITS_U64_SET a b) = ucast a"
  "FLB_BITS_U64_LOW (FLB_BITS_U64_SET a b) = ucast b"
proof -
  have m: "(0xffffffff :: u64) = mask 32" by (simp add: mask_numeral)
  show "FLB_BITS_U64_HIGH (FLB_BITS_U64_SET a b) = ucast a"
    by (rule bit_word_eqI)
      (auto simp: FLB_BITS_U64_HIGH_def FLB_BITS_U64_SET_def bit_simps dest: bit_imp_le_length)
  show "FLB_BITS_U64_LOW (FLB_BITS_U64_SET a b) = ucast b"
    by (rule bit_word_eqI)
      (auto simp: FLB_BITS_U64_LOW_def FLB_BITS_U64_SET_def m bit_simps dest: bit_imp_le_length)
qed

lemma FLB_BIT_MASK_mask: "n \<le> LENGTH('a) \<Longrightarrow> (FLB_BIT_MASK n :: 'a::len word) = mask n"
  by (rule bit_word_eqI) (auto simp: FLB_BIT_MASK_def bit_simps)

section \<open>Properties\<close>

text \<open>
  C22: engine messages.  A return code, a task id and an output id that fit 4, 14 and 14 bits are
  packed by \<^verbatim>\<open>FLB_TASK_SET\<close> into the low half of an engine message of any key, and the readers'
  macros get back exactly the key and the three fields.
\<close>

theorem engine_message_round_trip:
  assumes "ret < 2 ^ 4" "task_id < 2 ^ 14" "out_id < 2 ^ 14"
  shows "FLB_BITS_U64_HIGH (FLB_BITS_U64_SET key (FLB_TASK_SET ret task_id out_id)) = ucast key \<and>
    (let val = ucast (FLB_BITS_U64_LOW (FLB_BITS_U64_SET key (FLB_TASK_SET ret task_id out_id)))
     in FLB_TASK_RET val = ret \<and> FLB_TASK_ID val = task_id \<and> FLB_TASK_OUT val = out_id)"
proof -
  have "ucast (ucast x :: u64) = x" for x :: u32 by (rule bit_word_eqI) (simp add: bit_simps)
  then show ?thesis by (simp add: FLB_BITS_U64_fields FLB_TASK_SET_fields [OF assms])
qed

theorem engine_message_round_trip_witness:
  "FLB_TASK_ID (ucast (FLB_BITS_U64_LOW (FLB_BITS_U64_SET FLB_ENGINE_TASK (FLB_TASK_SET 2 16383 5)))) = 16383"
  using engine_message_round_trip [of 2 16383 5 FLB_ENGINE_TASK] by (simp add: Let_def)

end
