(* ===== verification/Flb_Task.thy ===== *)
theory Flb_Task
  imports Mk_List Flb_Bits
begin

text \<open>
  Tasks and routes of \<^verbatim>\<open>fluent-bit/flb_task.h\<close>.  A task keeps an intrusive list of routes, one per
  output instance that has to deliver its chunk, and a user counter; the task is destroyed when
  the last user leaves and no retry is queued.
\<close>

section \<open>Structures\<close>

definition FLB_TASK_NEW :: u8 where "FLB_TASK_NEW = 0"
definition FLB_TASK_RUNNING :: u8 where "FLB_TASK_RUNNING = 1"

definition FLB_TASK_ROUTE_INACTIVE :: int where "FLB_TASK_ROUTE_INACTIVE = 0"
definition FLB_TASK_ROUTE_ACTIVE :: int where "FLB_TASK_ROUTE_ACTIVE = 1"
definition FLB_TASK_ROUTE_DROPPED :: int where "FLB_TASK_ROUTE_DROPPED = 2"

lemmas route_consts [c_consts] =
  FLB_TASK_ROUTE_INACTIVE_def FLB_TASK_ROUTE_ACTIVE_def FLB_TASK_ROUTE_DROPPED_def

text \<open>
  The list nodes and heads inside the structures are nodes of the list heap at the offsets of an
  LP64 target (with metrics); the records hold the other fields.
\<close>

record flb_task_route =
  rt_status :: int
  rt_out :: ptr

definition flb_task_route_head_off :: nat where "flb_task_route_head_off = 16"

record flb_task_retry =
  ry_attempts :: int
  ry_o_ins :: ptr
  ry_parent :: ptr

record flb_task =
  tk_id :: int
  tk_ref_id :: u64
  tk_status :: u8
  tk_users :: int
  tk_event_chunk :: ptr
  tk_ic :: ptr
  tk_records :: int
  tk_i_ins :: ptr
  tk_config :: ptr
  tk_lock :: ptr

definition flb_task_routes_off :: nat where "flb_task_routes_off = 48"
definition flb_task_retries_off :: nat where "flb_task_retries_off = 64"
definition flb_task_head_off :: nat where "flb_task_head_off = 80"

text \<open>The two heads \<^verbatim>\<open>pending\<close> and \<^verbatim>\<open>in_progress\<close> of a task queue.\<close>

record flb_task_queue =
  tq_pending :: ptr
  tq_in_progress :: ptr

record flb_task_enqueued =
  te_task :: ptr
  te_retry :: ptr
  te_out_instance :: ptr
  te_config :: ptr

record flb_task_map =
  tm_task :: ptr

text \<open>The structures as zeroed memory.\<close>

definition zero_flb_task :: flb_task where
  "zero_flb_task =
    \<lparr>tk_id = 0, tk_ref_id = 0, tk_status = 0, tk_users = 0, tk_event_chunk = 0, tk_ic = 0,
     tk_records = 0, tk_i_ins = 0, tk_config = 0, tk_lock = 0\<rparr>"

section \<open>Users\<close>

text \<open>
  \<^verbatim>\<open>flb_task_destroy\<close> is not in the headers: the parameter \<open>destroy\<close>.  The state is the heap of
  tasks, the heap of list nodes and the rest of the program.
\<close>

record 'x task_world =
  tw_tasks :: "ptr \<rightharpoonup> flb_task"
  tw_links :: lheap
  tw_rest :: 'x

definition flb_task_users_release ::
  "(ptr \<Rightarrow> int \<Rightarrow> 'x task_world \<Rightarrow> 'x task_world option) \<Rightarrow> ptr \<Rightarrow> 'x task_world \<Rightarrow> 'x task_world option" where
  "flb_task_users_release destroy task w = do {
     t \<leftarrow> tw_tasks w task;
     if tk_users t = 0 then do {
       n \<leftarrow> mk_list_size (task + flb_task_retries_off) (tw_links w);
       if n = 0 then destroy task FLB_TRUE w else Some w
     }
     else Some w
   }"

definition flb_task_users_inc :: "ptr \<Rightarrow> 'x task_world \<Rightarrow> 'x task_world option" where
  "flb_task_users_inc task w = do {
     t \<leftarrow> tw_tasks w task;
     Some (w\<lparr>tw_tasks := (tw_tasks w)(task \<mapsto> t\<lparr>tk_users := tk_users t + 1\<rparr>)\<rparr>)
   }"

definition flb_task_users_dec ::
  "(ptr \<Rightarrow> int \<Rightarrow> 'x task_world \<Rightarrow> 'x task_world option) \<Rightarrow> ptr \<Rightarrow> int \<Rightarrow> 'x task_world \<Rightarrow> 'x task_world option" where
  "flb_task_users_dec destroy task release_check w = do {
     t \<leftarrow> tw_tasks w task;
     let w = w\<lparr>tw_tasks := (tw_tasks w)(task \<mapsto> t\<lparr>tk_users := tk_users t - 1\<rparr>)\<rparr>;
     if release_check = FLB_TRUE then flb_task_users_release destroy task w else Some w
   }"

text \<open>The mutex operations are those of the thread library: parameters on the lock object.\<close>

definition flb_task_acquire_lock :: "(ptr \<Rightarrow> 'x \<Rightarrow> 'x) \<Rightarrow> ptr \<Rightarrow> 'x task_world \<Rightarrow> 'x task_world option" where
  "flb_task_acquire_lock pthread_mutex_lock task w = do {
     t \<leftarrow> tw_tasks w task;
     Some (w\<lparr>tw_rest := pthread_mutex_lock (tk_lock t) (tw_rest w)\<rparr>)
   }"

definition flb_task_release_lock :: "(ptr \<Rightarrow> 'x \<Rightarrow> 'x) \<Rightarrow> ptr \<Rightarrow> 'x task_world \<Rightarrow> 'x task_world option" where
  "flb_task_release_lock pthread_mutex_unlock task w = do {
     t \<leftarrow> tw_tasks w task;
     Some (w\<lparr>tw_rest := pthread_mutex_unlock (tk_lock t) (tw_rest w)\<rparr>)
   }"

section \<open>Routes\<close>

type_synonym route_heap = "ptr \<rightharpoonup> flb_task_route"

text \<open>
  The status of a route is an \<^verbatim>\<open>int\<close>, the result of \<^verbatim>\<open>flb_task_get_route_status\<close> a \<^verbatim>\<open>size_t\<close>: the same number for the
  statuses, which are not negative.
\<close>

definition flb_task_get_active_route_count :: "lheap \<Rightarrow> route_heap \<Rightarrow> ptr \<Rightarrow> int option" where
  "flb_task_get_active_route_count h rh task =
     mk_list_foreach (\<lambda>_. h)
       (\<lambda>iterator result. do {
          route \<leftarrow> rh (container_of iterator flb_task_route_head_off);
          Some (if rt_status route = FLB_TASK_ROUTE_ACTIVE then result + 1 else result, False)
        }) (task + flb_task_routes_off) 0"

definition flb_task_get_route_status :: "lheap \<Rightarrow> route_heap \<Rightarrow> ptr \<Rightarrow> ptr \<Rightarrow> int option" where
  "flb_task_get_route_status h rh task o_ins =
     mk_list_foreach (\<lambda>_. h)
       (\<lambda>iterator result. do {
          route \<leftarrow> rh (container_of iterator flb_task_route_head_off);
          Some (if rt_out route = o_ins then (rt_status route, True) else (result, False))
        }) (task + flb_task_routes_off) FLB_TASK_ROUTE_INACTIVE"

definition flb_task_set_route_status :: "lheap \<Rightarrow> ptr \<Rightarrow> ptr \<Rightarrow> int \<Rightarrow> route_heap \<Rightarrow> route_heap option" where
  "flb_task_set_route_status h task o_ins new_status rh =
     mk_list_foreach (\<lambda>_. h)
       (\<lambda>iterator rh. do {
          let r = container_of iterator flb_task_route_head_off;
          route \<leftarrow> rh r;
          Some (if rt_out route = o_ins then (rh(r \<mapsto> route\<lparr>rt_status := new_status\<rparr>), True)
                else (rh, False))
        }) (task + flb_task_routes_off) rh"

definition flb_task_activate_route :: "lheap \<Rightarrow> ptr \<Rightarrow> ptr \<Rightarrow> route_heap \<Rightarrow> route_heap option" where
  "flb_task_activate_route h task o_ins = flb_task_set_route_status h task o_ins FLB_TASK_ROUTE_ACTIVE"

definition flb_task_deactivate_route :: "lheap \<Rightarrow> ptr \<Rightarrow> ptr \<Rightarrow> route_heap \<Rightarrow> route_heap option" where
  "flb_task_deactivate_route h task o_ins = flb_task_set_route_status h task o_ins FLB_TASK_ROUTE_INACTIVE"

definition flb_task_drop_route :: "lheap \<Rightarrow> ptr \<Rightarrow> ptr \<Rightarrow> route_heap \<Rightarrow> route_heap option" where
  "flb_task_drop_route h task o_ins = flb_task_set_route_status h task o_ins FLB_TASK_ROUTE_DROPPED"

section \<open>The route list as a list of routes\<close>

text \<open>
  \<open>routes h rh task rs\<close>: the list of the task holds the routes \<open>rs\<close>.  The abstract operations
  act on the first route of an output.
\<close>

definition routes :: "lheap \<Rightarrow> route_heap \<Rightarrow> ptr \<Rightarrow> flb_task_route list \<Rightarrow> bool" where
  "routes h rh task rs \<longleftrightarrow>
     (\<exists>ps. dll h (task + flb_task_routes_off) (map (\<lambda>p. p + flb_task_route_head_off) ps) \<and>
           map rh ps = map Some rs)"

definition route_status :: "ptr \<Rightarrow> flb_task_route list \<Rightarrow> int" where
  "route_status o_ins rs =
     (case find (\<lambda>r. rt_out r = o_ins) rs of None \<Rightarrow> FLB_TASK_ROUTE_INACTIVE | Some r \<Rightarrow> rt_status r)"

fun update_route :: "ptr \<Rightarrow> int \<Rightarrow> flb_task_route list \<Rightarrow> flb_task_route list" where
  "update_route o_ins st [] = []"
| "update_route o_ins st (r # rs) =
     (if rt_out r = o_ins then r\<lparr>rt_status := st\<rparr> # rs else r # update_route o_ins st rs)"

definition active_routes :: "flb_task_route list \<Rightarrow> nat" where
  "active_routes rs = length (filter (\<lambda>r. rt_status r = FLB_TASK_ROUTE_ACTIVE) rs)"

lemma active_count_fold:
  assumes "map rh ps = map Some rs"
  shows "fold_break (\<lambda>iterator result. do {
            route \<leftarrow> rh (container_of iterator flb_task_route_head_off);
            Some (if rt_status route = FLB_TASK_ROUTE_ACTIVE then result + 1 else result, False) })
          (map (\<lambda>p. p + flb_task_route_head_off) ps) n = Some (n + int (active_routes rs))"
  using assms
  by (induction ps arbitrary: rs n) (auto simp: active_routes_def)

lemma get_status_fold:
  assumes "map rh ps = map Some rs"
  shows "fold_break (\<lambda>iterator result. do {
            route \<leftarrow> rh (container_of iterator flb_task_route_head_off);
            Some (if rt_out route = o_ins then (rt_status route, True) else (result, False)) })
          (map (\<lambda>p. p + flb_task_route_head_off) ps) r0 =
         Some (case find (\<lambda>r. rt_out r = o_ins) rs of None \<Rightarrow> r0 | Some r \<Rightarrow> rt_status r)"
  using assms
  by (induction ps arbitrary: rs) auto

lemma set_status_fold:
  assumes "map rh ps = map Some rs" "distinct ps"
  shows "\<exists>rh'. fold_break (\<lambda>iterator rh. do {
            let r = container_of iterator flb_task_route_head_off;
            route \<leftarrow> rh r;
            Some (if rt_out route = o_ins then (rh(r \<mapsto> route\<lparr>rt_status := st\<rparr>), True)
                  else (rh, False)) })
          (map (\<lambda>p. p + flb_task_route_head_off) ps) rh = Some rh' \<and>
         map rh' ps = map Some (update_route o_ins st rs) \<and> (\<forall>p. p \<notin> set ps \<longrightarrow> rh' p = rh p)"
  using assms
proof (induction ps arbitrary: rs)
  case (Cons p ps)
  obtain r rs' where r: "rs = r # rs'" "rh p = Some r" "map rh ps = map Some rs'"
    using Cons.prems(1) by (cases rs) auto
  show ?case
  proof (cases "rt_out r = o_ins")
    case True
    have "map (rh(p \<mapsto> r\<lparr>rt_status := st\<rparr>)) ps = map rh ps" using Cons.prems(2) by simp
    with True r show ?thesis by (auto simp: Let_def)
  next
    case False
    have d: "distinct ps" "p \<notin> set ps" using Cons.prems(2) by auto
    from Cons.IH [OF r(3) d(1)] False r d(2) show ?thesis by (auto simp: Let_def)
  qed
qed simp

lemma routes_dll_distinct:
  "dll h a (map (\<lambda>p. p + n) ps) \<Longrightarrow> distinct (ps :: nat list)"
  by (auto simp: dll_def distinct_map)

lemma active_route_count_refines:
  assumes "routes h rh task rs"
  shows "flb_task_get_active_route_count h rh task = Some (int (active_routes rs))"
proof -
  obtain ps where ps: "dll h (task + flb_task_routes_off) (map (\<lambda>p. p + flb_task_route_head_off) ps)"
    "map rh ps = map Some rs" using assms by (auto simp: routes_def)
  show ?thesis unfolding flb_task_get_active_route_count_def
    by (subst mk_list_foreach_dll [OF ps(1)]) (simp_all add: active_count_fold [OF ps(2)])
qed

lemma get_route_status_refines:
  assumes "routes h rh task rs"
  shows "flb_task_get_route_status h rh task o_ins = Some (route_status o_ins rs)"
proof -
  obtain ps where ps: "dll h (task + flb_task_routes_off) (map (\<lambda>p. p + flb_task_route_head_off) ps)"
    "map rh ps = map Some rs" using assms by (auto simp: routes_def)
  show ?thesis unfolding flb_task_get_route_status_def
    by (subst mk_list_foreach_dll [OF ps(1)]) (simp_all add: get_status_fold [OF ps(2)] route_status_def)
qed

lemma set_route_status_refines:
  assumes "routes h rh task rs"
  shows "\<exists>rh'. flb_task_set_route_status h task o_ins st rh = Some rh' \<and>
    routes h rh' task (update_route o_ins st rs)"
proof -
  obtain ps where ps: "dll h (task + flb_task_routes_off) (map (\<lambda>p. p + flb_task_route_head_off) ps)"
    "map rh ps = map Some rs" using assms by (auto simp: routes_def)
  note r = set_status_fold [OF ps(2) routes_dll_distinct [OF ps(1)], of o_ins st]
  have "flb_task_set_route_status h task o_ins st rh =
      fold_break (\<lambda>iterator rh. do {
            let r = container_of iterator flb_task_route_head_off;
            route \<leftarrow> rh r;
            Some (if rt_out route = o_ins then (rh(r \<mapsto> route\<lparr>rt_status := st\<rparr>), True)
                  else (rh, False)) })
          (map (\<lambda>p. p + flb_task_route_head_off) ps) rh"
    unfolding flb_task_set_route_status_def by (rule mk_list_foreach_dll [OF ps(1)]) simp
  with r ps(1) show ?thesis by (auto simp: routes_def)
qed

lemma route_status_update:
  "route_status o' (update_route o_ins st rs) =
     (if o' = o_ins \<and> find (\<lambda>r. rt_out r = o_ins) rs \<noteq> None then st else route_status o' rs)"
  by (induction rs) (auto simp: route_status_def)

lemma active_routes_update:
  assumes "find (\<lambda>r. rt_out r = o_ins) rs = Some r"
  shows "int (active_routes (update_route o_ins st rs)) =
     int (active_routes rs) - (if rt_status r = FLB_TASK_ROUTE_ACTIVE then 1 else 0) +
     (if st = FLB_TASK_ROUTE_ACTIVE then 1 else 0)"
  using assms by (induction rs) (auto simp: active_routes_def)

section \<open>Properties\<close>

text \<open>
  C17: the route table.  On a task whose list holds any routes, activating, deactivating or
  dropping the route of an output and then reading statuses behaves as a map from outputs to
  statuses: the output reads the new status if it has a route (else INACTIVE, unchanged), every
  other output reads what it read before, and the active count moves by exactly one when the
  status crosses ACTIVE.
\<close>

theorem route_table_correct:
  assumes "routes h rh task rs"
  shows "\<exists>rh'. flb_task_set_route_status h task o_ins st rh = Some rh' \<and>
    (\<forall>o'. flb_task_get_route_status h rh' task o' =
       (if o' = o_ins \<and> o_ins \<in> rt_out ` set rs then Some st else flb_task_get_route_status h rh task o')) \<and>
    (o_ins \<in> rt_out ` set rs \<longrightarrow>
       flb_task_get_active_route_count h rh' task =
       map_option (\<lambda>n. n - (if flb_task_get_route_status h rh task o_ins = Some FLB_TASK_ROUTE_ACTIVE then 1 else 0) +
             (if st = FLB_TASK_ROUTE_ACTIVE then 1 else 0)) (flb_task_get_active_route_count h rh task)) \<and>
    (o_ins \<notin> rt_out ` set rs \<longrightarrow>
       flb_task_get_active_route_count h rh' task = flb_task_get_active_route_count h rh task)"
proof -
  obtain rh' where rh': "flb_task_set_route_status h task o_ins st rh = Some rh'"
      "routes h rh' task (update_route o_ins st rs)" using set_route_status_refines [OF assms] by blast
  note g = get_route_status_refines [OF assms] get_route_status_refines [OF rh'(2)]
    active_route_count_refines [OF assms] active_route_count_refines [OF rh'(2)]
  have f: "find (\<lambda>r. rt_out r = o_ins) rs \<noteq> None \<longleftrightarrow> o_ins \<in> rt_out ` set rs"
    by (induction rs) auto
  have same: "o_ins \<notin> rt_out ` set rs \<Longrightarrow> update_route o_ins st rs = rs" by (induction rs) auto
  have act: "int (active_routes (update_route o_ins st rs)) =
      int (active_routes rs) - (if route_status o_ins rs = FLB_TASK_ROUTE_ACTIVE then 1 else 0) +
      (if st = FLB_TASK_ROUTE_ACTIVE then 1 else 0)" if "o_ins \<in> rt_out ` set rs"
    using that f active_routes_update [of o_ins rs _ st] by (auto simp: route_status_def)
  show ?thesis using rh'(1) act same f by (auto simp: g route_status_update)
qed

definition example_route_links :: lheap where
  "example_route_links = [148 \<mapsto> \<lparr>mk_prev = 316, mk_next = 216\<rparr>, 216 \<mapsto> \<lparr>mk_prev = 148, mk_next = 316\<rparr>,
     316 \<mapsto> \<lparr>mk_prev = 216, mk_next = 148\<rparr>]"

definition example_route_heap :: route_heap where
  "example_route_heap = [200 \<mapsto> \<lparr>rt_status = FLB_TASK_ROUTE_ACTIVE, rt_out = 7\<rparr>,
     300 \<mapsto> \<lparr>rt_status = FLB_TASK_ROUTE_INACTIVE, rt_out = 8\<rparr>]"

theorem route_table_correct_witness:
  "\<exists>rh'. flb_task_set_route_status example_route_links 100 7 FLB_TASK_ROUTE_DROPPED example_route_heap = Some rh' \<and>
     flb_task_get_route_status example_route_links rh' 100 7 = Some FLB_TASK_ROUTE_DROPPED \<and>
     flb_task_get_route_status example_route_links rh' 100 8 =
       flb_task_get_route_status example_route_links example_route_heap 100 8"
proof -
  let ?rs = "[\<lparr>rt_status = FLB_TASK_ROUTE_ACTIVE, rt_out = 7\<rparr>, \<lparr>rt_status = FLB_TASK_ROUTE_INACTIVE, rt_out = 8\<rparr>]"
  have "routes example_route_links example_route_heap 100 ?rs"
    by (auto simp: routes_def example_route_links_def example_route_heap_def dll_def valid_def nx_def pv_def
        flb_task_routes_off_def flb_task_route_head_off_def intro!: exI [of _ "[200, 300]"])
  from route_table_correct [OF this, of 7 FLB_TASK_ROUTE_DROPPED] show ?thesis by auto
qed

text \<open>
  The user counter.  A reference taken with \<^verbatim>\<open>flb_task_users_inc\<close> and dropped with a release
  check leaves a task that had users exactly as it was; dropping the last reference hands the task,
  with its counter at 0, to \<^verbatim>\<open>flb_task_destroy\<close> exactly when no retry is queued.
\<close>

lemma task_users_release:
  assumes "tw_tasks w task = Some t" "dll (tw_links w) (task + flb_task_retries_off) rs"
  shows "(tk_users t > 0 \<longrightarrow>
      Option.bind (flb_task_users_inc task w) (flb_task_users_dec destroy task FLB_TRUE) = Some w) \<and>
    (tk_users t = 1 \<longrightarrow> flb_task_users_dec destroy task FLB_TRUE w =
      (if rs = [] then destroy task FLB_TRUE (w\<lparr>tw_tasks := (tw_tasks w)(task \<mapsto> t\<lparr>tk_users := 0\<rparr>)\<rparr>)
       else Some (w\<lparr>tw_tasks := (tw_tasks w)(task \<mapsto> t\<lparr>tk_users := 0\<rparr>)\<rparr>)))"
proof -
  have "(tw_tasks w)(task \<mapsto> t) = tw_tasks w" using assms(1) by (simp add: fun_upd_idem)
  then show ?thesis using assms(1) mk_list_size_dll [OF assms(2)]
    by (simp add: flb_task_users_inc_def flb_task_users_dec_def flb_task_users_release_def Let_def)
qed

lemma task_users_release_witness:
  "flb_task_users_dec (\<lambda>p d w. Some (w\<lparr>tw_tasks := (tw_tasks w)(p := None)\<rparr>)) 100 FLB_TRUE
     \<lparr>tw_tasks = [100 \<mapsto> zero_flb_task\<lparr>tk_users := 1\<rparr>], tw_links = [164 \<mapsto> \<lparr>mk_prev = 164, mk_next = 164\<rparr>], tw_rest = ()\<rparr> =
     Some \<lparr>tw_tasks = Map.empty, tw_links = [164 \<mapsto> \<lparr>mk_prev = 164, mk_next = 164\<rparr>], tw_rest = ()\<rparr>"
proof -
  let ?w = "\<lparr>tw_tasks = [100 \<mapsto> zero_flb_task\<lparr>tk_users := 1\<rparr>], tw_links = [164 \<mapsto> \<lparr>mk_prev = 164, mk_next = 164\<rparr>], tw_rest = ()\<rparr>"
  have "dll (tw_links ?w) (100 + flb_task_retries_off) []"
    by (simp add: dll_def valid_def nx_def pv_def flb_task_retries_off_def)
  from task_users_release [of ?w 100, OF _ this] show ?thesis by simp
qed

end
