(* ===== verification/Flb_Config.thy ===== *)
theory Flb_Config
  imports Mk_Event Flb_Task
begin

text \<open>
  The configuration of the service, \<^verbatim>\<open>struct flb_config\<close> of \<^verbatim>\<open>fluent-bit/flb_config.h\<close>.  The record
  is built in the order of the structure, one extension per group of fields.  An embedded list
  head is the address of its node in the heap of list nodes; strings and objects of other
  modules are pointers; \<^verbatim>\<open>double\<close> is its bit pattern.  All optional features are compiled in.
\<close>

definition FLB_CONFIG_FLUSH_SECS :: int where "FLB_CONFIG_FLUSH_SECS = 1"
definition FLB_CONFIG_HTTP_LISTEN :: string where "FLB_CONFIG_HTTP_LISTEN = ''0.0.0.0''"
definition FLB_CONFIG_HTTP_PORT :: string where "FLB_CONFIG_HTTP_PORT = ''2020''"
definition HC_ERRORS_COUNT_DEFAULT :: int where "HC_ERRORS_COUNT_DEFAULT = 5"
definition HC_RETRY_FAILURE_COUNTS_DEFAULT :: int where "HC_RETRY_FAILURE_COUNTS_DEFAULT = 5"
definition HEALTH_CHECK_PERIOD :: int where "HEALTH_CHECK_PERIOD = 60"
definition FLB_CONFIG_DEFAULT_TAG :: string where "FLB_CONFIG_DEFAULT_TAG = ''fluent_bit''"

definition tasks_map_size :: nat where "tasks_map_size = 2048"
definition in_table_id_size :: nat where "in_table_id_size = 512"

record flb_config_service =
  cf_ch_event :: mk_event
  cf_support_mode :: int
  cf_is_ingestion_active :: int
  cf_is_shutting_down :: int
  cf_is_running :: int
  cf_flush :: u64
  cf_grace :: int
  cf_grace_count :: int
  cf_flush_fd :: int
  cf_convert_nan_to_null :: int
  cf_daemon :: int
  cf_shutdown_fd :: int
  cf_verbose :: int
  cf_init_time :: int
  cf_worker :: ptr
  cf_ch_data :: "int \<times> int"
  cf_ch_manager :: "int \<times> int"
  cf_ch_notif :: "int \<times> int"
  cf_ch_self_events :: "int \<times> int"
  cf_ch_evl :: ptr
  cf_file :: ptr
  cf_cf_main :: ptr
  cf_cf_opts :: ptr
  cf_parsers_list :: ptr
  cf_program_name :: ptr
  cf_conf_path :: ptr
  cf_conf_path_file :: ptr
  cf_external_plugins :: ptr
  cf_event_flush :: mk_event
  cf_event_shutdown :: mk_event
  cf_event_thread_init :: mk_event
  cf_collectors_mutex :: ptr
  cf_dso_plugins :: ptr

record flb_config_registry = flb_config_service +
  cf_processor_plugins :: ptr
  cf_custom_plugins :: ptr
  cf_in_plugins :: ptr
  cf_parser_plugins :: ptr
  cf_filter_plugins :: ptr
  cf_out_plugins :: ptr
  cf_customs :: ptr
  cf_inputs :: ptr
  cf_parsers :: ptr
  cf_multiline_parsers :: ptr
  cf_outputs :: ptr
  cf_filters :: ptr
  cf_evl :: ptr
  cf_evl_bktq :: ptr
  cf_proxies :: ptr
  cf_kernel :: ptr
  cf_log_file :: ptr
  cf_log :: ptr
  cf_parsers_file :: ptr
  cf_plugins_file :: ptr
  cf_env :: ptr
  cf_workdir :: ptr
  cf_exit_status_code :: int
  cf_workers :: ptr
  cf_metrics :: ptr
  cf_cmetrics :: ptr

record flb_config_net = flb_config_registry +
  cf_http_server :: int
  cf_http_port :: ptr
  cf_http_listen :: ptr
  cf_http_ctx :: ptr
  cf_health_check :: int
  cf_hc_errors_count :: int
  cf_hc_retry_failure_count :: int
  cf_health_check_period :: int
  cf_http_proxy :: ptr
  cf_no_proxy :: ptr
  cf_dns_mode :: ptr
  cf_dns_resolver :: ptr
  cf_dns_prefer_ipv4 :: int

record flb_config = flb_config_net +
  cf_cio :: ptr
  cf_storage_path :: ptr
  cf_storage_input_plugin :: ptr
  cf_storage_sync :: ptr
  cf_storage_metrics :: int
  cf_storage_checksum :: int
  cf_storage_max_chunks_up :: int
  cf_storage_del_bad_chunks :: int
  cf_storage_bl_mem_limit :: ptr
  cf_storage_metrics_ctx :: ptr
  cf_sqldb_list :: ptr
  cf_luajit_list :: ptr
  cf_wasm_list :: ptr
  cf_stream_processor_file :: ptr
  cf_stream_processor_ctx :: ptr
  cf_stream_processor_tasks :: ptr
  cf_enable_chunk_trace :: int
  cf_enable_hot_reload :: int
  cf_ensure_thread_safety_on_hot_reloading :: int
  cf_coro_stack_size :: u32
  cf_upstreams :: ptr
  cf_downstreams :: ptr
  cf_in_table_id :: "u16 list"
  cf_sched :: ptr
  cf_sched_cap :: u32
  cf_sched_base :: u32
  cf_tasks_map :: "flb_task_map list"
  cf_dry_run :: int

text \<open>The structures as zeroed memory.\<close>

definition zero_flb_config :: flb_config where
  "zero_flb_config =
    \<lparr>cf_ch_event = zero_mk_event, cf_support_mode = 0, cf_is_ingestion_active = 0,
     cf_is_shutting_down = 0, cf_is_running = 0, cf_flush = 0, cf_grace = 0, cf_grace_count = 0,
     cf_flush_fd = 0, cf_convert_nan_to_null = 0, cf_daemon = 0, cf_shutdown_fd = 0,
     cf_verbose = 0, cf_init_time = 0, cf_worker = 0, cf_ch_data = (0, 0), cf_ch_manager = (0, 0),
     cf_ch_notif = (0, 0), cf_ch_self_events = (0, 0), cf_ch_evl = 0, cf_file = 0, cf_cf_main = 0,
     cf_cf_opts = 0, cf_parsers_list = 0, cf_program_name = 0, cf_conf_path = 0,
     cf_conf_path_file = 0, cf_external_plugins = 0, cf_event_flush = zero_mk_event,
     cf_event_shutdown = zero_mk_event, cf_event_thread_init = zero_mk_event,
     cf_collectors_mutex = 0, cf_dso_plugins = 0, cf_processor_plugins = 0, cf_custom_plugins = 0,
     cf_in_plugins = 0, cf_parser_plugins = 0, cf_filter_plugins = 0, cf_out_plugins = 0,
     cf_customs = 0, cf_inputs = 0, cf_parsers = 0, cf_multiline_parsers = 0, cf_outputs = 0,
     cf_filters = 0, cf_evl = 0, cf_evl_bktq = 0, cf_proxies = 0, cf_kernel = 0, cf_log_file = 0,
     cf_log = 0, cf_parsers_file = 0, cf_plugins_file = 0, cf_env = 0, cf_workdir = 0,
     cf_exit_status_code = 0, cf_workers = 0, cf_metrics = 0, cf_cmetrics = 0, cf_http_server = 0,
     cf_http_port = 0, cf_http_listen = 0, cf_http_ctx = 0, cf_health_check = 0,
     cf_hc_errors_count = 0, cf_hc_retry_failure_count = 0, cf_health_check_period = 0,
     cf_http_proxy = 0, cf_no_proxy = 0, cf_dns_mode = 0, cf_dns_resolver = 0,
     cf_dns_prefer_ipv4 = 0, cf_cio = 0, cf_storage_path = 0, cf_storage_input_plugin = 0,
     cf_storage_sync = 0, cf_storage_metrics = 0, cf_storage_checksum = 0,
     cf_storage_max_chunks_up = 0, cf_storage_del_bad_chunks = 0, cf_storage_bl_mem_limit = 0,
     cf_storage_metrics_ctx = 0, cf_sqldb_list = 0, cf_luajit_list = 0, cf_wasm_list = 0,
     cf_stream_processor_file = 0, cf_stream_processor_ctx = 0, cf_stream_processor_tasks = 0,
     cf_enable_chunk_trace = 0, cf_enable_hot_reload = 0,
     cf_ensure_thread_safety_on_hot_reloading = 0, cf_coro_stack_size = 0, cf_upstreams = 0,
     cf_downstreams = 0, cf_in_table_id = [], cf_sched = 0, cf_sched_cap = 0, cf_sched_base = 0,
     cf_tasks_map = [], cf_dry_run = 0\<rparr>"

section \<open>The keys of the service section\<close>

text \<open>One row of the table of service properties: its key, its type and the offset of its field.\<close>

record flb_service_config =
  sc_key :: ptr
  sc_type :: int
  sc_offset :: size_t

datatype conf_type =
    FLB_CONF_TYPE_INT
  | FLB_CONF_TYPE_DOUBLE
  | FLB_CONF_TYPE_BOOL
  | FLB_CONF_TYPE_STR
  | FLB_CONF_TYPE_OTHER

definition FLB_CONF_STR_FLUSH :: string where "FLB_CONF_STR_FLUSH = ''Flush''"
definition FLB_CONF_STR_GRACE :: string where "FLB_CONF_STR_GRACE = ''Grace''"
definition FLB_CONF_STR_DAEMON :: string where "FLB_CONF_STR_DAEMON = ''Daemon''"
definition FLB_CONF_STR_LOGFILE :: string where "FLB_CONF_STR_LOGFILE = ''Log_File''"
definition FLB_CONF_STR_LOGLEVEL :: string where "FLB_CONF_STR_LOGLEVEL = ''Log_Level''"
definition FLB_CONF_STR_PARSERS_FILE :: string where "FLB_CONF_STR_PARSERS_FILE = ''Parsers_File''"
definition FLB_CONF_STR_PLUGINS_FILE :: string where "FLB_CONF_STR_PLUGINS_FILE = ''Plugins_File''"
definition FLB_CONF_STR_STREAMS_FILE :: string where "FLB_CONF_STR_STREAMS_FILE = ''Streams_File''"
definition FLB_CONF_STR_CONV_NAN :: string where "FLB_CONF_STR_CONV_NAN = ''json.convert_nan_to_null''"
definition FLB_CONF_STR_HTTP_SERVER :: string where "FLB_CONF_STR_HTTP_SERVER = ''HTTP_Server''"
definition FLB_CONF_STR_HTTP_LISTEN :: string where "FLB_CONF_STR_HTTP_LISTEN = ''HTTP_Listen''"
definition FLB_CONF_STR_HTTP_PORT :: string where "FLB_CONF_STR_HTTP_PORT = ''HTTP_Port''"
definition FLB_CONF_STR_HEALTH_CHECK :: string where "FLB_CONF_STR_HEALTH_CHECK = ''Health_Check''"
definition FLB_CONF_STR_HC_ERRORS_COUNT :: string where "FLB_CONF_STR_HC_ERRORS_COUNT = ''HC_Errors_Count''"
definition FLB_CONF_STR_HC_RETRIES_FAILURE_COUNT :: string where "FLB_CONF_STR_HC_RETRIES_FAILURE_COUNT = ''HC_Retry_Failure_Count''"
definition FLB_CONF_STR_HC_PERIOD :: string where "FLB_CONF_STR_HC_PERIOD = ''HC_Period''"
definition FLB_CONF_STR_ENABLE_CHUNK_TRACE :: string where "FLB_CONF_STR_ENABLE_CHUNK_TRACE = ''Enable_Chunk_Trace''"
definition FLB_CONF_STR_HOT_RELOAD :: string where "FLB_CONF_STR_HOT_RELOAD = ''Hot_Reload''"
definition FLB_CONF_STR_HOT_RELOAD_ENSURE_THREAD_SAFETY :: string where "FLB_CONF_STR_HOT_RELOAD_ENSURE_THREAD_SAFETY = ''Hot_Reload.Ensure_Thread_Safety''"
definition FLB_CONF_DNS_MODE :: string where "FLB_CONF_DNS_MODE = ''dns.mode''"
definition FLB_CONF_DNS_RESOLVER :: string where "FLB_CONF_DNS_RESOLVER = ''dns.resolver''"
definition FLB_CONF_DNS_PREFER_IPV4 :: string where "FLB_CONF_DNS_PREFER_IPV4 = ''dns.prefer_ipv4''"
definition FLB_CONF_STORAGE_PATH :: string where "FLB_CONF_STORAGE_PATH = ''storage.path''"
definition FLB_CONF_STORAGE_SYNC :: string where "FLB_CONF_STORAGE_SYNC = ''storage.sync''"
definition FLB_CONF_STORAGE_METRICS :: string where "FLB_CONF_STORAGE_METRICS = ''storage.metrics''"
definition FLB_CONF_STORAGE_CHECKSUM :: string where "FLB_CONF_STORAGE_CHECKSUM = ''storage.checksum''"
definition FLB_CONF_STORAGE_BL_MEM_LIMIT :: string where "FLB_CONF_STORAGE_BL_MEM_LIMIT = ''storage.backlog.mem_limit''"
definition FLB_CONF_STORAGE_MAX_CHUNKS_UP :: string where "FLB_CONF_STORAGE_MAX_CHUNKS_UP = ''storage.max_chunks_up''"
definition FLB_CONF_STORAGE_DELETE_IRRECOVERABLE_CHUNKS :: string where "FLB_CONF_STORAGE_DELETE_IRRECOVERABLE_CHUNKS = ''storage.delete_irrecoverable_chunks''"
definition FLB_CONF_STR_CORO_STACK_SIZE :: string where "FLB_CONF_STR_CORO_STACK_SIZE = ''Coro_Stack_Size''"
definition FLB_CONF_STR_SCHED_CAP :: string where "FLB_CONF_STR_SCHED_CAP = ''scheduler.cap''"
definition FLB_CONF_STR_SCHED_BASE :: string where "FLB_CONF_STR_SCHED_BASE = ''scheduler.base''"

text \<open>All keys; no two are the same.\<close>

definition service_keys :: "string list" where
  "service_keys = [
     FLB_CONF_STR_FLUSH, FLB_CONF_STR_GRACE, FLB_CONF_STR_DAEMON, FLB_CONF_STR_LOGFILE,
     FLB_CONF_STR_LOGLEVEL, FLB_CONF_STR_PARSERS_FILE, FLB_CONF_STR_PLUGINS_FILE,
     FLB_CONF_STR_STREAMS_FILE, FLB_CONF_STR_CONV_NAN, FLB_CONF_STR_HTTP_SERVER, FLB_CONF_STR_HTTP_LISTEN,
     FLB_CONF_STR_HTTP_PORT, FLB_CONF_STR_HEALTH_CHECK, FLB_CONF_STR_HC_ERRORS_COUNT,
     FLB_CONF_STR_HC_RETRIES_FAILURE_COUNT, FLB_CONF_STR_HC_PERIOD, FLB_CONF_STR_ENABLE_CHUNK_TRACE,
     FLB_CONF_STR_HOT_RELOAD, FLB_CONF_STR_HOT_RELOAD_ENSURE_THREAD_SAFETY, FLB_CONF_DNS_MODE,
     FLB_CONF_DNS_RESOLVER, FLB_CONF_DNS_PREFER_IPV4, FLB_CONF_STORAGE_PATH, FLB_CONF_STORAGE_SYNC,
     FLB_CONF_STORAGE_METRICS, FLB_CONF_STORAGE_CHECKSUM, FLB_CONF_STORAGE_BL_MEM_LIMIT,
     FLB_CONF_STORAGE_MAX_CHUNKS_UP, FLB_CONF_STORAGE_DELETE_IRRECOVERABLE_CHUNKS,
     FLB_CONF_STR_CORO_STACK_SIZE, FLB_CONF_STR_SCHED_CAP, FLB_CONF_STR_SCHED_BASE]"

lemmas service_key_defs = FLB_CONF_STR_FLUSH_def FLB_CONF_STR_GRACE_def FLB_CONF_STR_DAEMON_def
  FLB_CONF_STR_LOGFILE_def FLB_CONF_STR_LOGLEVEL_def FLB_CONF_STR_PARSERS_FILE_def
  FLB_CONF_STR_PLUGINS_FILE_def FLB_CONF_STR_STREAMS_FILE_def FLB_CONF_STR_CONV_NAN_def
  FLB_CONF_STR_HTTP_SERVER_def FLB_CONF_STR_HTTP_LISTEN_def FLB_CONF_STR_HTTP_PORT_def
  FLB_CONF_STR_HEALTH_CHECK_def FLB_CONF_STR_HC_ERRORS_COUNT_def FLB_CONF_STR_HC_RETRIES_FAILURE_COUNT_def
  FLB_CONF_STR_HC_PERIOD_def FLB_CONF_STR_ENABLE_CHUNK_TRACE_def FLB_CONF_STR_HOT_RELOAD_def
  FLB_CONF_STR_HOT_RELOAD_ENSURE_THREAD_SAFETY_def FLB_CONF_DNS_MODE_def FLB_CONF_DNS_RESOLVER_def
  FLB_CONF_DNS_PREFER_IPV4_def FLB_CONF_STORAGE_PATH_def FLB_CONF_STORAGE_SYNC_def
  FLB_CONF_STORAGE_METRICS_def FLB_CONF_STORAGE_CHECKSUM_def FLB_CONF_STORAGE_BL_MEM_LIMIT_def
  FLB_CONF_STORAGE_MAX_CHUNKS_UP_def FLB_CONF_STORAGE_DELETE_IRRECOVERABLE_CHUNKS_def FLB_CONF_STR_CORO_STACK_SIZE_def
  FLB_CONF_STR_SCHED_CAP_def FLB_CONF_STR_SCHED_BASE_def

lemma service_keys_distinct: "distinct service_keys"
  by (simp add: service_keys_def service_key_defs)

end
