(* ===== verification/Flb_Stream.thy ===== *)
theory Flb_Stream
  imports Flb_Config
begin

text \<open>
  The base of network streams, \<^verbatim>\<open>fluent-bit/flb_stream.h\<close>, with the option flags of
  \<^verbatim>\<open>fluent-bit/flb_io.h\<close>, the network setup of \<^verbatim>\<open>fluent-bit/flb_network.h\<close> and the upstream and
  downstream handlers that inherit from it.  The mutex functions of the thread library and
  \<^verbatim>\<open>flb_net_setup_init\<close> are parameters.
\<close>

section \<open>Structures\<close>

definition FLB_DOWNSTREAM :: int where "FLB_DOWNSTREAM = 1"
definition FLB_UPSTREAM :: int where "FLB_UPSTREAM = 2"
definition FLB_TRANSPORT_UNSET :: int where "FLB_TRANSPORT_UNSET = 0"
definition FLB_TRANSPORT_TCP :: int where "FLB_TRANSPORT_TCP = 1"
definition FLB_TRANSPORT_UDP :: int where "FLB_TRANSPORT_UDP = 2"
definition FLB_TRANSPORT_UNIX_STREAM :: int where "FLB_TRANSPORT_UNIX_STREAM = 3"
definition FLB_TRANSPORT_UNIX_DGRAM :: int where "FLB_TRANSPORT_UNIX_DGRAM = 4"

definition FLB_NETWORK_DEFAULT_BACKLOG_SIZE :: int where "FLB_NETWORK_DEFAULT_BACKLOG_SIZE = 128"
definition FLB_NETWORK_UNIX_SOCKET_PEER_ADDRESS_TEMPLATE :: string where
  "FLB_NETWORK_UNIX_SOCKET_PEER_ADDRESS_TEMPLATE = ''pid_%s''"
definition FLB_NETWORK_ADDRESS_UNAVAILABLE :: string where "FLB_NETWORK_ADDRESS_UNAVAILABLE = ''unavailable''"
definition FLB_DNS_LEGACY :: char where "FLB_DNS_LEGACY = CHR ''L''"
definition FLB_DNS_ASYNC :: char where "FLB_DNS_ASYNC = CHR ''A''"
definition FLB_DNS_USE_TCP :: char where "FLB_DNS_USE_TCP = CHR ''T''"
definition FLB_DNS_USE_UDP :: char where "FLB_DNS_USE_UDP = CHR ''U''"

text \<open>The context of a DNS lookup; the socket functions of the resolver library are of the type \<open>'f\<close>.\<close>

record 'f flb_dns_lookup_context =
  dl_response_event :: mk_event
  dl_ares_socket_registered :: int
  dl_ares_socket_functions :: 'f
  dl_udp_timeout_detected :: ptr
  dl_ares_socket_created :: int
  dl_ares_socket_type :: int
  dl_ares_channel :: ptr
  dl_result_code :: ptr
  dl_event_loop :: ptr
  dl_coroutine :: ptr
  dl_udp_timer :: ptr
  dl_finished :: int
  dl_dropped :: int
  dl_dns_ctx :: ptr
  dl_result :: ptr
  dl_head :: ptr

text \<open>The event is the first field of the context.\<close>

definition dns_response_event_off :: nat where "dns_response_event_off = 0"

definition FLB_DNS_LOOKUP_CONTEXT_FOR_EVENT :: "ptr \<Rightarrow> ptr" where
  "FLB_DNS_LOOKUP_CONTEXT_FOR_EVENT event = event - dns_response_event_off"

definition FLB_IO_CONNECT :: int where "FLB_IO_CONNECT = 0"
definition FLB_IO_WRITE :: int where "FLB_IO_WRITE = 1"
definition FLB_IO_TCP :: u32 where "FLB_IO_TCP = 1"
definition FLB_IO_TLS :: u32 where "FLB_IO_TLS = 2"
definition FLB_IO_OPT_TLS :: u32 where "FLB_IO_OPT_TLS = 4"
definition FLB_IO_ASYNC :: u32 where "FLB_IO_ASYNC = 8"
definition FLB_IO_TCP_KA :: u32 where "FLB_IO_TCP_KA = 16"
definition FLB_IO_IPV6 :: u32 where "FLB_IO_IPV6 = 32"

lemmas io_consts [c_consts] = FLB_IO_TCP_def FLB_IO_TLS_def FLB_IO_OPT_TLS_def FLB_IO_ASYNC_def
  FLB_IO_TCP_KA_def FLB_IO_IPV6_def

record flb_net_setup =
  ns_keepalive :: u8
  ns_keepalive_idle_timeout :: int
  ns_connect_timeout :: int
  ns_accept_timeout :: int
  ns_accept_timeout_log_error :: int
  ns_io_timeout :: int
  ns_connect_timeout_log_error :: int
  ns_source_address :: ptr
  ns_keepalive_max_recycle :: int
  ns_dns_mode :: ptr
  ns_dns_resolver :: ptr
  ns_dns_prefer_ipv4 :: int
  ns_max_worker_connections :: int

record flb_net_host =
  nh_ipv6 :: int
  nh_address :: ptr
  nh_port :: int
  nh_name :: ptr
  nh_listen :: ptr
  nh_uri :: ptr

text \<open>\<open>st_head\<close> is the address of the embedded node \<^verbatim>\<open>_head\<close>, \<open>st_list_mutex\<close> names the mutex.\<close>

record flb_stream =
  st_dynamically_allocated :: int
  st_thread_safety_flag :: int
  st_transport :: int
  st_flags :: u32
  st_type :: int
  st_list_mutex :: ptr
  st_tls_context :: ptr
  st_config :: ptr
  st_net :: flb_net_setup
  st_head :: ptr

record flb_upstream = flb_stream +
  us_tcp_host :: ptr
  us_tcp_port :: int
  us_proxied_host :: ptr
  us_proxied_port :: int
  us_proxy_username :: ptr
  us_proxy_password :: ptr
  us_ha_mode :: int
  us_ha_ctx :: ptr
  us_cmt_total_connections :: ptr
  us_cmt_busy_connections :: ptr
  us_cmt_total_connections_label :: ptr
  us_cmt_busy_connections_label :: ptr
  us_parent_upstream :: ptr
  us_queue :: ptr

record flb_downstream = flb_stream +
  ds_host :: ptr
  ds_port :: u16
  ds_server_fd :: int
  ds_dgram_connection :: ptr
  ds_busy_queue :: ptr
  ds_destroy_queue :: ptr

text \<open>The structures as zeroed memory.\<close>

definition zero_flb_net_setup :: flb_net_setup where
  "zero_flb_net_setup =
    \<lparr>ns_keepalive = 0, ns_keepalive_idle_timeout = 0, ns_connect_timeout = 0,
     ns_accept_timeout = 0, ns_accept_timeout_log_error = 0, ns_io_timeout = 0,
     ns_connect_timeout_log_error = 0, ns_source_address = 0, ns_keepalive_max_recycle = 0,
     ns_dns_mode = 0, ns_dns_resolver = 0, ns_dns_prefer_ipv4 = 0,
     ns_max_worker_connections = 0\<rparr>"

definition zero_flb_net_host :: flb_net_host where
  "zero_flb_net_host =
    \<lparr>nh_ipv6 = 0, nh_address = 0, nh_port = 0, nh_name = 0, nh_listen = 0,
     nh_uri = 0\<rparr>"

definition zero_flb_stream :: flb_stream where
  "zero_flb_stream =
    \<lparr>st_dynamically_allocated = 0, st_thread_safety_flag = 0, st_transport = 0,
     st_flags = 0, st_type = 0, st_list_mutex = 0, st_tls_context = 0, st_config = 0,
     st_net = zero_flb_net_setup, st_head = 0\<rparr>"

section \<open>Operations\<close>

text \<open>The operations act on the base part of every stream: \<open>'z flb_stream_scheme\<close>.\<close>

definition flb_stream_is_shutting_down :: "(ptr \<rightharpoonup> flb_config) \<Rightarrow> 'z flb_stream_scheme \<Rightarrow> int option" where
  "flb_stream_is_shutting_down configs stream = map_option cf_is_shutting_down (configs (st_config stream))"

definition flb_upstream_is_shutting_down :: "(ptr \<rightharpoonup> flb_config) \<Rightarrow> flb_upstream \<Rightarrow> int option" where
  "flb_upstream_is_shutting_down configs u = flb_stream_is_shutting_down configs u"

definition flb_downstream_is_shutting_down :: "(ptr \<rightharpoonup> flb_config) \<Rightarrow> flb_downstream \<Rightarrow> int option" where
  "flb_downstream_is_shutting_down configs d = flb_stream_is_shutting_down configs d"

definition flb_stream_setup ::
  "(flb_net_setup \<Rightarrow> flb_net_setup) \<Rightarrow> int \<Rightarrow> int \<Rightarrow> u32 \<Rightarrow> ptr \<Rightarrow> ptr \<Rightarrow> flb_net_setup option \<Rightarrow>
     'z flb_stream_scheme \<Rightarrow> 'z flb_stream_scheme" where
  "flb_stream_setup flb_net_setup_init type transport flags tls_context config net_setup stream =
     (let stream = stream\<lparr>st_thread_safety_flag := FLB_FALSE, st_tls_context := tls_context,
            st_transport := transport, st_config := config, st_flags := flags, st_type := type\<rparr>
      in case net_setup of
           None \<Rightarrow> stream\<lparr>st_net := flb_net_setup_init (st_net stream)\<rparr>
         | Some net \<Rightarrow> stream\<lparr>st_net := net\<rparr>)"

definition flb_stream_get_flags :: "'z flb_stream_scheme \<Rightarrow> u32" where
  "flb_stream_get_flags stream = st_flags stream"

definition flb_stream_set_flags :: "u32 \<Rightarrow> 'z flb_stream_scheme \<Rightarrow> 'z flb_stream_scheme" where
  "flb_stream_set_flags flags stream = stream\<lparr>st_flags := flags\<rparr>"

definition flb_stream_get_flag_status :: "'z flb_stream_scheme \<Rightarrow> u32 \<Rightarrow> int" where
  "flb_stream_get_flag_status stream flag = (if flb_stream_get_flags stream AND flag \<noteq> 0 then 1 else 0)"

definition flb_stream_enable_flags :: "u32 \<Rightarrow> 'z flb_stream_scheme \<Rightarrow> 'z flb_stream_scheme" where
  "flb_stream_enable_flags flag stream = flb_stream_set_flags (flb_stream_get_flags stream OR flag) stream"

definition flb_stream_disable_flags :: "u32 \<Rightarrow> 'z flb_stream_scheme \<Rightarrow> 'z flb_stream_scheme" where
  "flb_stream_disable_flags flag stream =
     flb_stream_set_flags (flb_stream_get_flags stream AND NOT flag) stream"

definition flb_stream_enable_async_mode :: "'z flb_stream_scheme \<Rightarrow> 'z flb_stream_scheme" where
  "flb_stream_enable_async_mode = flb_stream_enable_flags FLB_IO_ASYNC"

definition flb_stream_disable_async_mode :: "'z flb_stream_scheme \<Rightarrow> 'z flb_stream_scheme" where
  "flb_stream_disable_async_mode = flb_stream_disable_flags FLB_IO_ASYNC"

definition flb_stream_is_async :: "'z flb_stream_scheme \<Rightarrow> int" where
  "flb_stream_is_async stream = flb_stream_get_flag_status stream FLB_IO_ASYNC"

definition flb_stream_enable_keepalive :: "'z flb_stream_scheme \<Rightarrow> 'z flb_stream_scheme" where
  "flb_stream_enable_keepalive = flb_stream_enable_flags FLB_IO_TCP_KA"

definition flb_stream_disable_keepalive :: "'z flb_stream_scheme \<Rightarrow> 'z flb_stream_scheme" where
  "flb_stream_disable_keepalive = flb_stream_disable_flags FLB_IO_TCP_KA"

definition flb_stream_is_keepalive :: "'z flb_stream_scheme \<Rightarrow> int" where
  "flb_stream_is_keepalive stream = flb_stream_get_flag_status stream FLB_IO_TCP_KA"

definition flb_stream_is_secure :: "'z flb_stream_scheme \<Rightarrow> int" where
  "flb_stream_is_secure stream = flb_stream_get_flag_status stream FLB_IO_TLS"

definition flb_stream_is_thread_safe :: "'z flb_stream_scheme \<Rightarrow> int" where
  "flb_stream_is_thread_safe stream = st_thread_safety_flag stream"

definition flb_stream_enable_thread_safety ::
  "(ptr \<Rightarrow> 'm \<Rightarrow> 'm) \<Rightarrow> 'z flb_stream_scheme \<times> lheap \<times> 'm \<Rightarrow> ('z flb_stream_scheme \<times> lheap \<times> 'm) option" where
  "flb_stream_enable_thread_safety pthread_mutex_init s =
     (let (stream, h, m) = s;
          stream = stream\<lparr>st_thread_safety_flag := FLB_TRUE\<rparr>;
          m = pthread_mutex_init (st_list_mutex stream) m
      in do {
        r \<leftarrow> mk_list_entry_orphan (st_head stream) h;
        h \<leftarrow> (if r = 0 then mk_list_del (st_head stream) h else Some h);
        Some (stream, h, m)
      })"

text \<open>A mutex function returns its status and the new state of the mutexes.\<close>

definition flb_stream_acquire_lock ::
  "(ptr \<Rightarrow> 'm \<Rightarrow> int \<times> 'm) \<Rightarrow> (ptr \<Rightarrow> 'm \<Rightarrow> int \<times> 'm) \<Rightarrow> 'z flb_stream_scheme \<Rightarrow> int \<Rightarrow> 'm \<Rightarrow> int \<times> 'm" where
  "flb_stream_acquire_lock pthread_mutex_lock pthread_mutex_trylock stream wait_flag m =
     (let (result, m) =
            (if st_thread_safety_flag stream \<noteq> 0 then
               if wait_flag \<noteq> 0 then pthread_mutex_lock (st_list_mutex stream) m
               else pthread_mutex_trylock (st_list_mutex stream) m
             else (0, m))
      in (if result = 0 then FLB_TRUE else FLB_FALSE, m))"

definition flb_stream_release_lock ::
  "(ptr \<Rightarrow> 'm \<Rightarrow> int \<times> 'm) \<Rightarrow> 'z flb_stream_scheme \<Rightarrow> 'm \<Rightarrow> int \<times> 'm" where
  "flb_stream_release_lock pthread_mutex_unlock stream m =
     (let (result, m) =
            (if st_thread_safety_flag stream \<noteq> 0 then pthread_mutex_unlock (st_list_mutex stream) m
             else (0, m))
      in (if result = 0 then FLB_TRUE else FLB_FALSE, m))"

section \<open>Flags\<close>

text \<open>
  The flag word behaves as a set of bits: enabling or disabling a flag decides the status of
  every mask inside it and keeps the status of every mask disjoint from it.  The contract is a
  locale, so that each option (asynchronous mode, keepalive) gets its laws from one proof.
\<close>

locale stream_option =
  fixes enable disable :: "'s \<Rightarrow> 's"
    and is_on :: "'s \<Rightarrow> int"
    and flags :: "'s \<Rightarrow> u32"
    and bits :: u32
  assumes bits_nonzero: "bits \<noteq> 0"
    and is_on_def': "is_on s = (if flags s AND bits \<noteq> 0 then 1 else 0)"
    and enable_flags: "flags (enable s) = flags s OR bits"
    and disable_flags: "flags (disable s) = flags s AND NOT bits"
begin

lemma enable_on: "is_on (enable s) = 1"
  using bits_nonzero by (simp add: is_on_def' enable_flags bit.conj_disj_distrib2)

lemma disable_off: "is_on (disable s) = 0"
  by (simp add: is_on_def' disable_flags and.assoc)

lemma enable_other: "m AND bits = 0 \<Longrightarrow> flags (enable s) AND m = flags s AND m"
  by (simp add: enable_flags bit.conj_disj_distrib2 and.commute [of bits])

lemma disable_other: "m AND bits = 0 \<Longrightarrow> flags (disable s) AND m = flags s AND m"
  by (simp add: disable_flags and.assoc and.commute [of "NOT bits"] and_not_disjoint)

lemma enable_disable: "flags s AND bits = 0 \<Longrightarrow> flags (disable (enable s)) = flags s"
  by (simp add: disable_flags enable_flags bit.conj_disj_distrib2 and_not_disjoint)

end

interpretation async: stream_option flb_stream_enable_async_mode flb_stream_disable_async_mode
  flb_stream_is_async flb_stream_get_flags FLB_IO_ASYNC
  by unfold_locales
    (simp_all add: flb_stream_enable_async_mode_def flb_stream_disable_async_mode_def
      flb_stream_is_async_def flb_stream_get_flag_status_def flb_stream_enable_flags_def
      flb_stream_disable_flags_def flb_stream_get_flags_def flb_stream_set_flags_def c_consts)

interpretation keepalive: stream_option flb_stream_enable_keepalive flb_stream_disable_keepalive
  flb_stream_is_keepalive flb_stream_get_flags FLB_IO_TCP_KA
  by unfold_locales
    (simp_all add: flb_stream_enable_keepalive_def flb_stream_disable_keepalive_def
      flb_stream_is_keepalive_def flb_stream_get_flag_status_def flb_stream_enable_flags_def
      flb_stream_disable_flags_def flb_stream_get_flags_def flb_stream_set_flags_def c_consts)

section \<open>Properties\<close>

text \<open>
  Stream modes are independent.  Switching the asynchronous mode or keepalive of any stream on
  or off is read back by the test of the same mode and changes none of the other tests, and only
  touches the flag word.
\<close>

lemma stream_modes_independent:
  "flb_stream_is_async (flb_stream_enable_async_mode s) = 1 \<and>
   flb_stream_is_async (flb_stream_disable_async_mode s) = 0 \<and>
   flb_stream_is_keepalive (flb_stream_enable_keepalive s) = 1 \<and>
   flb_stream_is_keepalive (flb_stream_disable_keepalive s) = 0 \<and>
   list_all (\<lambda>f.
      flb_stream_is_keepalive (f s) = flb_stream_is_keepalive s \<and> flb_stream_is_secure (f s) = flb_stream_is_secure s \<and>
      f s = flb_stream_set_flags (flb_stream_get_flags (f s)) s)
     [flb_stream_enable_async_mode, flb_stream_disable_async_mode] \<and>
   list_all (\<lambda>f.
      flb_stream_is_async (f s) = flb_stream_is_async s \<and> flb_stream_is_secure (f s) = flb_stream_is_secure s \<and>
      f s = flb_stream_set_flags (flb_stream_get_flags (f s)) s)
     [flb_stream_enable_keepalive, flb_stream_disable_keepalive]"
proof -
  note other = async.enable_other async.disable_other keepalive.enable_other keepalive.disable_other
  note stat = flb_stream_is_async_def flb_stream_is_keepalive_def flb_stream_is_secure_def flb_stream_get_flag_status_def
  have m: "FLB_IO_TCP_KA AND FLB_IO_ASYNC = 0" "FLB_IO_ASYNC AND FLB_IO_TCP_KA = 0" "FLB_IO_TLS AND FLB_IO_ASYNC = 0"
    "FLB_IO_TLS AND FLB_IO_TCP_KA = 0" by (simp_all add: c_consts)
  have keep: "flb_stream_is_keepalive (f s) = flb_stream_is_keepalive s \<and> flb_stream_is_secure (f s) = flb_stream_is_secure s"
    if "f \<in> {flb_stream_enable_async_mode, flb_stream_disable_async_mode}" for f
    using that by (elim insertE emptyE) (simp_all add: stat other m)
  have async: "flb_stream_is_async (f s) = flb_stream_is_async s \<and> flb_stream_is_secure (f s) = flb_stream_is_secure s"
    if "f \<in> {flb_stream_enable_keepalive, flb_stream_disable_keepalive}" for f
    using that by (elim insertE emptyE) (simp_all add: stat other m)
  have only: "f s = flb_stream_set_flags (flb_stream_get_flags (f s)) s"
    if "f \<in> {flb_stream_enable_async_mode, flb_stream_disable_async_mode, flb_stream_enable_keepalive,
          flb_stream_disable_keepalive}" for f
    using that by (elim insertE emptyE)
      (simp_all add: flb_stream_enable_async_mode_def flb_stream_disable_async_mode_def flb_stream_enable_keepalive_def
        flb_stream_disable_keepalive_def flb_stream_enable_flags_def flb_stream_disable_flags_def
        flb_stream_set_flags_def flb_stream_get_flags_def)
  show ?thesis unfolding list_all_iff list.set
    using async.enable_on [of s] async.disable_off [of s] keepalive.enable_on [of s] keepalive.disable_off [of s]
      keep async only by blast
qed

text \<open>
  The stream lock.  On a stream without thread safety taking and releasing the lock succeed
  and touch no mutex.  After \<^verbatim>\<open>flb_stream_enable_thread_safety\<close> they answer true exactly when the
  mutex call they make (lock when waiting, trylock otherwise) answers 0, and the stream has been
  removed from the list it was linked in.
\<close>

lemma stream_lock_correct:
  assumes "dll h a (xs @ st_head s # ys)"
  shows "(st_thread_safety_flag s = 0 \<longrightarrow> flb_stream_acquire_lock lk tr s wait m = (FLB_TRUE, m) \<and>
      flb_stream_release_lock ul s m = (FLB_TRUE, m)) \<and>
    (\<exists>s' h' m'. flb_stream_enable_thread_safety ini (s, h, m) = Some (s', h', m') \<and>
      m' = ini (st_list_mutex s) m \<and> dll h' a (xs @ ys) \<and>
      (let (r, m2) = (if wait \<noteq> 0 then lk else tr) (st_list_mutex s) m'
       in flb_stream_acquire_lock lk tr s' wait m' = (if r = 0 then FLB_TRUE else FLB_FALSE, m2)) \<and>
      flb_stream_release_lock ul s' m' = (let (r, m2) = ul (st_list_mutex s) m' in (if r = 0 then FLB_TRUE else FLB_FALSE, m2)))"
proof -
  obtain h' where h': "mk_list_del (st_head s) h = Some h'" "dll h' a (xs @ ys)"
    using mk_list_del_dll [OF assms] by blast
  have "flb_stream_enable_thread_safety ini (s, h, m) =
      Some (s\<lparr>st_thread_safety_flag := FLB_TRUE\<rparr>, h', ini (st_list_mutex s) m)"
    using h'(1) mk_list_linked_not_orphan(2) [OF assms] by (simp add: flb_stream_enable_thread_safety_def Let_def)
  moreover have "FLB_TRUE \<noteq> 0" by (simp add: c_consts)
  ultimately show ?thesis
    using h'(2) by (simp add: flb_stream_acquire_lock_def flb_stream_release_lock_def split: prod.splits)
qed

lemma stream_lock_correct_witness:
  "\<exists>s' h' m'. flb_stream_enable_thread_safety (\<lambda>p m. m(p := 1)) (zero_flb_stream\<lparr>st_head := 16, st_list_mutex := 5\<rparr>,
       [8 \<mapsto> \<lparr>mk_prev = 16, mk_next = 16\<rparr>, 16 \<mapsto> \<lparr>mk_prev = 8, mk_next = 8\<rparr>], \<lambda>_. 0 :: nat) = Some (s', h', m') \<and>
     m' 5 = 1 \<and> dll h' 8 []"
proof -
  let ?s = "zero_flb_stream\<lparr>st_head := 16, st_list_mutex := 5\<rparr>"
  have "dll [8 \<mapsto> \<lparr>mk_prev = 16, mk_next = 16\<rparr>, 16 \<mapsto> \<lparr>mk_prev = 8, mk_next = 8\<rparr>] 8 ([] @ st_head ?s # [])"
    by (auto simp: dll_def valid_def nx_def pv_def)
  from stream_lock_correct [OF this, where ini = "\<lambda>p m. m(p := 1)" and m = "\<lambda>_. 0"] show ?thesis by fastforce
qed

end
