(* ===== verification/Flb_Heap.thy ===== *)
theory Flb_Heap
  imports Mk_List Flb_Mem
begin

text \<open>
  Structures with embedded list nodes on the C heap: when a structure is allocated its node is a
  fresh node of the list heap, when it is freed the node disappears.  Shared by the components
  that create and destroy linked structures.
\<close>

section \<open>Nodes inside allocated blocks\<close>

text \<open>
  An allocator hands out memory that overlaps no live block, and every list node lies in a live
  block; so the node of a new structure is none of the existing nodes.
\<close>

definition sep_allocator :: "allocator \<Rightarrow> bool" where
  "sep_allocator al \<longleftrightarrow> (\<forall>m sz q b. al m sz \<noteq> NULL \<and> blocks m q = Some b \<longrightarrow>
     q \<noteq> al m sz \<and> (al m sz + unat sz \<le> q \<or> q + length b \<le> al m sz))"

definition nodes_in_blocks :: "lheap \<Rightarrow> mem \<Rightarrow> bool" where
  "nodes_in_blocks h m \<longleftrightarrow> (\<forall>x \<in> dom h. \<exists>q b. blocks m q = Some b \<and> q \<le> x \<and> x < q + length b)"

definition zero_node :: mk_list where
  "zero_node = \<lparr>mk_prev = NULL, mk_next = NULL\<rparr>"

lemma sep_allocator_fresh_node:
  assumes "sep_allocator al" "nodes_in_blocks h m" "al m sz \<noteq> NULL" "off < unat sz"
  shows "al m sz + off \<notin> dom h"
proof
  assume "al m sz + off \<in> dom h"
  then obtain q b where "blocks m q = Some b" "q \<le> al m sz + off" "al m sz + off < q + length b"
    using assms(2) unfolding nodes_in_blocks_def by blast
  then show False using assms unfolding sep_allocator_def by fastforce
qed

lemma nodes_in_blocks_new:
  assumes "nodes_in_blocks h m" "blocks m' = (blocks m)(p \<mapsto> b)" "blocks m p = None" "off < length b"
    and "dom h' \<subseteq> insert (p + off) (dom h)"
  shows "nodes_in_blocks h' m'"
  unfolding nodes_in_blocks_def
proof
  fix x assume x: "x \<in> dom h'"
  show "\<exists>q b. blocks m' q = Some b \<and> q \<le> x \<and> x < q + length b"
  proof (cases "x = p + off")
    case True
    then show ?thesis using assms(2,4) by (intro exI [of _ p]) auto
  next
    case False
    then have "x \<in> dom h" using x assms(5) by auto
    then obtain q c where "blocks m q = Some c" "q \<le> x" "x < q + length c"
      using assms(1) unfolding nodes_in_blocks_def by blast
    moreover from this have "q \<noteq> p" using assms(3) by auto
    ultimately show ?thesis using assms(2) by (intro exI [of _ q]) auto
  qed
qed

text \<open>
  A bump allocator: addresses grow with the number of calls; it gives up rather than overlap a
  live block.  It satisfies both requirements.
\<close>

definition bump_allocator :: allocator where
  "bump_allocator m sz =
     (let p = 1048576 * Suc (calls m)
      in if \<forall>q b. blocks m q = Some b \<longrightarrow> q < p \<and> q + length b \<le> p then p else NULL)"

lemma bump_allocator_below:
  assumes "bump_allocator m sz \<noteq> NULL" "blocks m q = Some b"
  shows "q < bump_allocator m sz" "q + length b \<le> bump_allocator m sz"
proof -
  have c: "\<forall>q b. blocks m q = Some b \<longrightarrow> q < 1048576 * Suc (calls m) \<and> q + length b \<le> 1048576 * Suc (calls m)"
    using assms(1) by (simp only: bump_allocator_def Let_def split: if_splits)
  then have "bump_allocator m sz = 1048576 * Suc (calls m)" by (simp add: bump_allocator_def)
  then show "q < bump_allocator m sz" "q + length b \<le> bump_allocator m sz" using c assms(2) by auto
qed

lemma bump_allocator_ok: "fresh_allocator bump_allocator" "sep_allocator bump_allocator"
proof -
  show "fresh_allocator bump_allocator"
    unfolding fresh_allocator_def using bump_allocator_below(1) by (metis less_irrefl not_Some_eq)
  show "sep_allocator bump_allocator"
    unfolding sep_allocator_def using bump_allocator_below by (metis less_irrefl)
qed

section \<open>Families of lists when nodes appear and disappear\<close>

lemma family_frame:
  assumes "family dll h hs qs" "\<And>x. x \<in> members hs qs \<Longrightarrow> h' x = h x"
  shows "family dll h' hs qs"
proof -
  have len: "length qs = length hs" using assms(1) by (simp add: family_def)
  have "dll h' (hs ! i) (qs ! i) = dll h (hs ! i) (qs ! i)" if "i < length hs" for i
    using assms(2) members_nth [OF len that] by (intro dll_frame) auto
  then show ?thesis using assms(1) by (simp add: family_def)
qed

lemma members_nthE:
  assumes "x \<in> members hs qs" "length qs = length hs"
  obtains i where "i < length hs" "x \<in> set (hs ! i # qs ! i)"
  using assms unfolding members_def by (elim UnE UN_E) (metis in_set_conv_nth list.set_intros)+

lemma family_del_not_member:
  assumes f: "family dll h hs qs" and i: "i < length hs" and q: "qs ! i = ys @ p # zs"
  shows "p \<notin> members hs (qs[i := ys @ zs])"
proof
  assume "p \<in> members hs (qs[i := ys @ zs])"
  moreover have len: "length qs = length hs" using f by (simp add: family_def)
  ultimately obtain j where j: "j < length hs" "p \<in> set (hs ! j # qs[i := ys @ zs] ! j)"
    using members_nthE [of p hs "qs[i := ys @ zs]"] by auto
  show False
  proof (cases "j = i")
    case True
    have "dll h (hs ! i) (ys @ p # zs)" using f i q unfolding family_def by metis
    then show ?thesis using j True len by (auto simp: dll_def)
  next
    case False
    then have "set (hs ! i # qs ! i) \<inter> set (hs ! j # qs ! j) = {}" using f i j(1) unfolding family_def by blast
    then show ?thesis using j(2) False q by auto
  qed
qed

lemma members_valid:
  assumes "family dll h hs qs" "x \<in> members hs qs"
  shows "valid h x"
proof -
  have len: "length qs = length hs" using assms(1) by (simp add: family_def)
  obtain i where "i < length hs" "x \<in> set (hs ! i # qs ! i)" using members_nthE [OF assms(2) len] .
  moreover from this have "dll h (hs ! i) (qs ! i)" using assms(1) unfolding family_def by blast
  ultimately show ?thesis using dll_ends(1,4) by auto
qed

end
