(* ===== verification/C_Layout.thy ===== *)
theory C_Layout
  imports Prelude "HOL-Library.Sublist"
begin

text \<open>
  The memory layout of C structures on the 64-bit targets of the agent.  The library reaches
  an object from the list node embedded in it (\<^verbatim>\<open>mk_list_entry\<close>, \<^verbatim>\<open>container_of\<close>) by subtracting
  the offset of the node, so the offsets that the component theories use are consequences of
  the declarations.  This theory holds the types of fields, the placement rule of the two data
  models (every field at the next multiple of its alignment, the structure padded to its own
  alignment), and what follows for every structure: fields are aligned, lie inside the object
  and do not overlap, at any depth of nesting.
\<close>

section \<open>Types and their placement\<close>

text \<open>
  \<open>COpaque s a\<close> is a type given by its size and its alignment only (a mutex, a socket address).
  \<open>CLong\<close> is \<^verbatim>\<open>long\<close>, 4 bytes on Windows; \<open>CSock\<close> is a descriptor of a socket or of a pipe
  (\<^verbatim>\<open>flb_sockfd_t\<close>, \<^verbatim>\<open>flb_pipefd_t\<close>), an \<^verbatim>\<open>int\<close> on POSIX and an \<^verbatim>\<open>intptr_t\<close> on Windows.
\<close>

datatype data_model = LP64 | LLP64

datatype cbase = CChar | CShort | CInt | CLong | CLongLong | CDouble | CPtr | CSock

datatype ctype =
    CBase cbase
  | COpaque nat nat
  | CArray nat ctype
  | CStruct "(string \<times> ctype) list"
  | CUnion "(string \<times> ctype) list"

abbreviation "c_char \<equiv> CBase CChar"
abbreviation "c_short \<equiv> CBase CShort"
abbreviation "c_int \<equiv> CBase CInt"
abbreviation "c_long \<equiv> CBase CLong"
abbreviation "c_int64 \<equiv> CBase CLongLong"
abbreviation "c_double \<equiv> CBase CDouble"
abbreviation "c_ptr \<equiv> CBase CPtr"
abbreviation "c_sock \<equiv> CBase CSock"

primrec base_size :: "data_model \<Rightarrow> cbase \<Rightarrow> nat" where
  "base_size dm CChar = 1"
| "base_size dm CShort = 2"
| "base_size dm CInt = 4"
| "base_size dm CLong = (case dm of LP64 \<Rightarrow> 8 | LLP64 \<Rightarrow> 4)"
| "base_size dm CLongLong = 8"
| "base_size dm CDouble = 8"
| "base_size dm CPtr = 8"
| "base_size dm CSock = (case dm of LP64 \<Rightarrow> 4 | LLP64 \<Rightarrow> 8)"

definition round_up :: "nat \<Rightarrow> nat \<Rightarrow> nat" where
  "round_up n a = (n + a - 1) div a * a"

text \<open>Offsets, end and alignment of a sequence of fields given by their sizes and alignments.\<close>

fun place :: "(nat \<times> nat) list \<Rightarrow> nat \<Rightarrow> nat list" where
  "place [] n = []"
| "place ((s, a) # xs) n = round_up n a # place xs (round_up n a + s)"

fun place_end :: "(nat \<times> nat) list \<Rightarrow> nat \<Rightarrow> nat" where
  "place_end [] n = n"
| "place_end ((s, a) # xs) n = place_end xs (round_up n a + s)"

fun place_align :: "(nat \<times> nat) list \<Rightarrow> nat" where
  "place_align [] = 1"
| "place_align ((s, a) # xs) = max a (place_align xs)"

fun place_max :: "(nat \<times> nat) list \<Rightarrow> nat" where
  "place_max [] = 0"
| "place_max ((s, a) # xs) = max s (place_max xs)"

definition union_sa :: "(nat \<times> nat) list \<Rightarrow> nat \<times> nat" where
  "union_sa xs = (round_up (place_max xs) (place_align xs), place_align xs)"

definition struct_sa :: "(nat \<times> nat) list \<Rightarrow> nat \<times> nat" where
  "struct_sa xs = (round_up (place_end xs 0) (place_align xs), place_align xs)"

text \<open>Size and alignment of a type.\<close>

primrec size_align :: "data_model \<Rightarrow> ctype \<Rightarrow> nat \<times> nat" where
  "size_align dm (CBase b) = (base_size dm b, base_size dm b)"
| "size_align dm (COpaque s a) = (s, a)"
| "size_align dm (CArray n t) = (n * fst (size_align dm t), snd (size_align dm t))"
| "size_align dm (CStruct fs) = struct_sa (map snd (map (map_prod id (size_align dm)) fs))"
| "size_align dm (CUnion fs) = union_sa (map snd (map (map_prod id (size_align dm)) fs))"

definition sizeof :: "data_model \<Rightarrow> ctype \<Rightarrow> nat" where
  "sizeof dm t = fst (size_align dm t)"

definition alignof :: "data_model \<Rightarrow> ctype \<Rightarrow> nat" where
  "alignof dm t = snd (size_align dm t)"

definition field_offsets :: "data_model \<Rightarrow> (string \<times> ctype) list \<Rightarrow> nat list" where
  "field_offsets dm fs = place (map (size_align dm \<circ> snd) fs) 0"

text \<open>
  A member, and a member of a member: the offset and the type at the end of a path of names.
  Paths do not enter a union, whose members share their storage.
\<close>

definition field_at :: "data_model \<Rightarrow> (string \<times> ctype) list \<Rightarrow> string \<Rightarrow> (nat \<times> ctype) option" where
  "field_at dm fs x = map_of (zip (map fst fs) (zip (field_offsets dm fs) (map snd fs))) x"

fun locate :: "data_model \<Rightarrow> ctype \<Rightarrow> string list \<Rightarrow> (nat \<times> ctype) option" where
  "locate dm t [] = Some (0, t)"
| "locate dm (CStruct fs) (x # p) = do {
     (n, u) \<leftarrow> field_at dm fs x;
     (m, v) \<leftarrow> locate dm u p;
     Some (n + m, v)
   }"
| "locate dm _ (x # p) = None"

definition offsetof :: "data_model \<Rightarrow> ctype \<Rightarrow> string list \<Rightarrow> nat option" where
  "offsetof dm t p = map_option fst (locate dm t p)"

text \<open>Well-formed types: alignments are powers of two and field names are distinct.\<close>

definition alignments :: "nat set" where
  "alignments = {1, 2, 4, 8, 16}"

definition sa_ok :: "nat \<times> nat \<Rightarrow> bool" where
  "sa_ok sa \<longleftrightarrow> snd sa \<in> alignments \<and> snd sa dvd fst sa"

primrec wf_ctype :: "ctype \<Rightarrow> bool" where
  "wf_ctype (CBase b) \<longleftrightarrow> True"
| "wf_ctype (COpaque s a) \<longleftrightarrow> sa_ok (s, a)"
| "wf_ctype (CArray n t) \<longleftrightarrow> wf_ctype t"
| "wf_ctype (CStruct fs) \<longleftrightarrow> distinct (map fst fs) \<and> list_all snd (map (map_prod id wf_ctype) fs)"
| "wf_ctype (CUnion fs) \<longleftrightarrow> distinct (map fst fs) \<and> list_all snd (map (map_prod id wf_ctype) fs)"

text \<open>
  A structure as a header declares it, for the data model, the types and the features of a
  build: members may depend on a macro of the configuration.
\<close>

datatype member = Mem string ctype | MemIf string string ctype | MemUnless string string ctype

record build =
  bd_model :: data_model
  bd_ext :: "string \<Rightarrow> ctype"
  bd_defined :: "string \<Rightarrow> bool"

fun mem_name :: "member \<Rightarrow> string" where
  "mem_name (Mem x t) = x"
| "mem_name (MemIf g x t) = x"
| "mem_name (MemUnless g x t) = x"

fun mem_type :: "member \<Rightarrow> ctype" where
  "mem_type (Mem x t) = t"
| "mem_type (MemIf g x t) = t"
| "mem_type (MemUnless g x t) = t"

fun mem_on :: "build \<Rightarrow> member \<Rightarrow> bool" where
  "mem_on b (Mem x t) = True"
| "mem_on b (MemIf g x t) = bd_defined b g"
| "mem_on b (MemUnless g x t) = (\<not> bd_defined b g)"

definition select :: "build \<Rightarrow> member list \<Rightarrow> (string \<times> ctype) list" where
  "select b ms = map (\<lambda>m. (mem_name m, mem_type m)) (filter (mem_on b) ms)"

definition cstruct :: "build \<Rightarrow> member list \<Rightarrow> ctype" where
  "cstruct b ms = CStruct (select b ms)"

definition members_ok :: "member list \<Rightarrow> bool" where
  "members_ok ms \<longleftrightarrow> distinct (map mem_name ms) \<and> list_all (wf_ctype \<circ> mem_type) ms"

definition ext_ok :: "build \<Rightarrow> bool" where
  "ext_ok b \<longleftrightarrow> (\<forall>x. wf_ctype (bd_ext b x))"

section \<open>Rounding\<close>

lemma round_up_dvd [simp]: "a dvd round_up n a"
  by (simp add: round_up_def)

lemma round_up_ge: "0 < a \<Longrightarrow> n \<le> round_up n a"
proof -
  assume a: "0 < a"
  have "n + a - 1 < (n + a - 1) div a * a + a" using a by (metis add.commute dividend_less_div_times)
  then show ?thesis by (simp add: round_up_def)
qed

lemma round_up_lt: "0 < a \<Longrightarrow> round_up n a < n + a"
proof -
  assume a: "0 < a"
  have "(n + a - 1) div a * a \<le> n + a - 1" by simp
  then show ?thesis using a unfolding round_up_def by linarith
qed

lemma round_up_id: "0 < a \<Longrightarrow> a dvd n \<Longrightarrow> round_up n a = n"
proof -
  assume a: "0 < a" and d: "a dvd n"
  have "a dvd round_up n a" "n \<le> round_up n a" "round_up n a < n + a" using a by (auto intro: round_up_ge round_up_lt)
  then show ?thesis using d by (metis add_diff_cancel_left' dvd_diff_nat le_add_diff_inverse nat_add_left_cancel_less
      nat_dvd_not_less neq0_conv add.right_neutral)
qed

lemma alignments_pos: "a \<in> alignments \<Longrightarrow> 0 < a"
  by (auto simp: alignments_def)

lemma alignments_max: "a \<in> alignments \<Longrightarrow> b \<in> alignments \<Longrightarrow> a dvd max a b \<and> b dvd max a b \<and> max a b \<in> alignments"
  by (auto simp: alignments_def max_def)

section \<open>Sequences of fields\<close>

lemma length_place [simp]: "List.length (place xs n) = List.length xs"
  by (induction xs n rule: place.induct) auto

lemma place_align_ok:
  assumes "\<forall>x\<in>set xs. sa_ok x"
  shows "place_align xs \<in> alignments \<and> (\<forall>x\<in>set xs. snd x dvd place_align xs)"
  using assms
proof (induction xs rule: place_align.induct)
  case 1
  then show ?case by (simp add: alignments_def)
next
  case (2 s a xs)
  have a: "a \<in> alignments" using 2(2) by (simp add: sa_ok_def)
  have ih: "place_align xs \<in> alignments" "\<forall>x\<in>set xs. snd x dvd place_align xs" using 2 by auto
  show ?case using alignments_max [OF a ih(1)] ih(2) by (auto intro: dvd_trans)
qed

lemma place_bounds:
  assumes "\<forall>x\<in>set xs. sa_ok x"
  shows "n \<le> place_end xs n \<and> (\<forall>i<List.length xs. snd (xs ! i) dvd place xs n ! i \<and> n \<le> place xs n ! i \<and>
           place xs n ! i + fst (xs ! i) \<le> place_end xs n)"
  using assms
proof (induction xs n rule: place.induct)
  case (1 n)
  then show ?case by simp
next
  case (2 s a xs n)
  let ?m = "round_up n a + s"
  have n: "n \<le> round_up n a" using 2(2) by (intro round_up_ge alignments_pos) (simp add: sa_ok_def)
  have ih: "?m \<le> place_end xs ?m" "\<forall>i<List.length xs. snd (xs ! i) dvd place xs ?m ! i \<and> ?m \<le> place xs ?m ! i \<and>
           place xs ?m ! i + fst (xs ! i) \<le> place_end xs ?m" using 2 by auto
  have "n \<le> place xs ?m ! i" if "i < List.length xs" for i
    using ih(2)[rule_format, OF that] n by linarith
  then show ?case using ih n by (auto simp: nth_Cons split: nat.splits)
qed

lemma place_sep:
  assumes "\<forall>x\<in>set xs. sa_ok x" "i < j" "j < List.length xs"
  shows "place xs n ! i + fst (xs ! i) \<le> place xs n ! j"
  using assms
proof (induction xs n arbitrary: i j rule: place.induct)
  case (1 n)
  then show ?case by simp
next
  case (2 s a xs n)
  let ?m = "round_up n a + s"
  obtain j' where j: "j = Suc j'" "j' < List.length xs" using 2(3,4) by (cases j) auto
  show ?case
  proof (cases i)
    case 0
    have "?m \<le> place xs ?m ! j'" using place_bounds [of xs ?m] 2(2) j(2) by auto
    then show ?thesis using 0 j by simp
  next
    case (Suc i')
    have "place xs ?m ! i' + fst (xs ! i') \<le> place xs ?m ! j'" using 2 Suc j by (intro 2(1)) auto
    then show ?thesis using Suc j by simp
  qed
qed

section \<open>Fields of a structure\<close>

lemma struct_sa_ok: "\<forall>x\<in>set xs. sa_ok x \<Longrightarrow> sa_ok (struct_sa xs)"
  using place_align_ok [of xs] by (simp add: struct_sa_def sa_ok_def)

lemma size_align_struct: "size_align dm (CStruct fs) = struct_sa (map (size_align dm \<circ> snd) fs)"
  by (simp add: comp_def)

lemma wf_struct_iff: "wf_ctype (CStruct fs) \<longleftrightarrow> distinct (map fst fs) \<and> (\<forall>f\<in>set fs. wf_ctype (snd f))"
  by (auto simp: list_all_iff)

lemma wf_size_align: "wf_ctype t \<Longrightarrow> sa_ok (size_align dm t)"
proof (induction t)
  case (CBase b)
  then show ?case by (cases b; cases dm) (auto simp: sa_ok_def alignments_def)
next
  case (COpaque s a)
  then show ?case by simp
next
  case (CArray n t)
  then show ?case by (simp add: sa_ok_def)
next
  case (CStruct fs)
  have "sa_ok (size_align dm (snd f))" if "f \<in> set fs" for f
    using CStruct.IH [of f "snd f"] CStruct.prems that by (cases f) (auto simp: wf_struct_iff simp del: wf_ctype.simps)
  then show ?case unfolding size_align_struct by (intro struct_sa_ok) auto
next
  case (CUnion fs)
  have "sa_ok (size_align dm (snd f))" if "f \<in> set fs" for f
    using CUnion.IH [of f "snd f"] CUnion.prems that by (cases f) (auto simp: list_all_iff)
  then show ?case using place_align_ok [of "map (size_align dm \<circ> snd) fs"]
    by (simp add: union_sa_def sa_ok_def comp_def)
qed

lemma wf_fields_ok: "wf_ctype (CStruct fs) \<Longrightarrow> \<forall>x\<in>set (map (size_align dm \<circ> snd) fs). sa_ok x"
  using wf_size_align by (auto simp: wf_struct_iff simp del: wf_ctype.simps)

lemma field_at_nth:
  assumes "field_at dm fs x = Some (n, u)"
  obtains i where "i < length fs" "fs ! i = (x, u)" "field_offsets dm fs ! i = n"
proof -
  have "(x, n, u) \<in> set (zip (map fst fs) (zip (field_offsets dm fs) (map snd fs)))"
    using assms by (simp add: field_at_def map_of_SomeD)
  then obtain i where "i < length fs" "fst (fs ! i) = x" "field_offsets dm fs ! i = n" "snd (fs ! i) = u"
    by (auto simp: set_zip field_offsets_def)
  then show ?thesis using that by (metis prod.collapse)
qed

lemma field_at_bounds:
  assumes wf: "wf_ctype (CStruct fs)" and f: "field_at dm fs x = Some (n, u)"
  shows "wf_ctype u" "alignof dm u dvd n" "n + sizeof dm u \<le> sizeof dm (CStruct fs)"
    "alignof dm u dvd alignof dm (CStruct fs)"
proof -
  obtain i where i: "i < length fs" "fs ! i = (x, u)" "field_offsets dm fs ! i = n" by (rule field_at_nth [OF f])
  let ?xs = "map (size_align dm \<circ> snd) fs"
  note ok = wf_fields_ok [OF wf, of dm]
  have b: "snd (?xs ! i) dvd place ?xs 0 ! i" "place ?xs 0 ! i + fst (?xs ! i) \<le> place_end ?xs 0"
    using place_bounds [OF ok, of 0] i(1) by auto
  have x: "?xs ! i = size_align dm u" using i by simp
  have e: "place_end ?xs 0 \<le> round_up (place_end ?xs 0) (place_align ?xs)"
    using place_align_ok [OF ok] by (intro round_up_ge alignments_pos) blast
  show "wf_ctype u" using wf i(1,2) nth_mem [of i fs] by (auto simp: wf_struct_iff simp del: wf_ctype.simps)
  show "alignof dm u dvd n" using b(1) x i(3) by (simp add: alignof_def field_offsets_def)
  show "n + sizeof dm u \<le> sizeof dm (CStruct fs)"
    using b(2) x i(3) e unfolding sizeof_def size_align_struct by (simp add: struct_sa_def field_offsets_def)
  show "alignof dm u dvd alignof dm (CStruct fs)"
    using place_align_ok [OF ok] x i(1) nth_mem [of i ?xs] unfolding alignof_def size_align_struct
    by (auto simp: struct_sa_def simp del: nth_mem)
qed

lemma field_at_disjoint:
  assumes wf: "wf_ctype (CStruct fs)" and f: "field_at dm fs x = Some (n, u)" "field_at dm fs y = Some (m, v)" "x \<noteq> y"
  shows "n + sizeof dm u \<le> m \<or> m + sizeof dm v \<le> n"
proof -
  obtain i where i: "i < length fs" "fs ! i = (x, u)" "field_offsets dm fs ! i = n" by (rule field_at_nth [OF f(1)])
  obtain j where j: "j < length fs" "fs ! j = (y, v)" "field_offsets dm fs ! j = m" by (rule field_at_nth [OF f(2)])
  have ne: "i \<noteq> j" using i j f(3) by auto
  note sep = place_sep [OF wf_fields_ok [OF wf, of dm], of _ _ 0]
  show ?thesis using sep [of i j] sep [of j i] ne i j
    by (cases "i < j") (auto simp: sizeof_def field_offsets_def)
qed

section \<open>Members at any depth\<close>

lemma locate_Cons:
  assumes "locate dm t (x # p) = Some (n, v)"
  obtains fs k u m where "t = CStruct fs" "field_at dm fs x = Some (k, u)" "locate dm u p = Some (m, v)" "n = k + m"
  using assms by (cases t) (auto simp: bind_eq_Some_iff)

lemma locate_bounds:
  assumes "wf_ctype t" "locate dm t p = Some (n, v)"
  shows "wf_ctype v \<and> alignof dm v dvd n \<and> alignof dm v dvd alignof dm t \<and> n + sizeof dm v \<le> sizeof dm t"
  using assms
proof (induction p arbitrary: t n)
  case Nil
  then show ?case by simp
next
  case (Cons x p)
  obtain fs k u m where l: "t = CStruct fs" "field_at dm fs x = Some (k, u)" "locate dm u p = Some (m, v)" "n = k + m"
    by (rule locate_Cons [OF Cons.prems(2)])
  note f = field_at_bounds [OF Cons.prems(1)[unfolded l(1)] l(2)]
  note ih = Cons.IH [OF f(1) l(3)]
  show ?case using ih f(2,3,4) l(1,4) by (auto intro: dvd_trans)
qed

lemma locate_disjoint:
  assumes "wf_ctype t" "locate dm t p = Some (n, u)" "locate dm t q = Some (m, v)" "p \<parallel> q"
  shows "n + sizeof dm u \<le> m \<or> m + sizeof dm v \<le> n"
  using assms
proof (induction p arbitrary: q t n m)
  case Nil
  then show ?case by simp
next
  case (Cons x p)
  obtain y q' where q: "q = y # q'" using Cons.prems(4) by (cases q) auto
  obtain fs k w i where l: "t = CStruct fs" "field_at dm fs x = Some (k, w)" "locate dm w p = Some (i, u)" "n = k + i"
    by (rule locate_Cons [OF Cons.prems(2)])
  obtain k' w' i' where l': "field_at dm fs y = Some (k', w')" "locate dm w' q' = Some (i', v)" "m = k' + i'"
    using locate_Cons [OF Cons.prems(3)[unfolded q]] l(1) by (metis ctype.inject(4))
  have wf: "wf_ctype (CStruct fs)" using Cons.prems(1) l(1) by simp
  note f = field_at_bounds(1) [OF wf]
  show ?case
  proof (cases "x = y")
    case True
    then have "w' = w" "k' = k" using l l' by auto
    moreover have "p \<parallel> q'" using Cons.prems(4) q True by (auto simp: parallel_def)
    ultimately show ?thesis using Cons.IH [OF f [OF l(2)] l(3), of q' i'] l l' by auto
  next
    case False
    have "k + sizeof dm w \<le> k' \<or> k' + sizeof dm w' \<le> k" by (rule field_at_disjoint [OF wf l(2) l'(1) False])
    moreover have "i + sizeof dm u \<le> sizeof dm w" using locate_bounds [OF f [OF l(2)] l(3)] by blast
    moreover have "i' + sizeof dm v \<le> sizeof dm w'" using locate_bounds [OF f [OF l'(1)] l'(2)] by blast
    ultimately show ?thesis using l(4) l'(3) by linarith
  qed
qed

section \<open>Declared structures\<close>

lemma wf_cstruct: "members_ok ms \<Longrightarrow> wf_ctype (cstruct b ms)"
  unfolding cstruct_def wf_struct_iff members_ok_def select_def
  by (auto simp: list_all_iff comp_def distinct_map_filter)

lemma ext_okD [simp]: "ext_ok b \<Longrightarrow> wf_ctype (bd_ext b x)"
  by (simp add: ext_ok_def)

end
