(* ===== verification/Types_Monkey.thy ===== *)
theory Types_Monkey
  imports C_Layout
begin

text \<open>
  The structures of the monkey library (\<^verbatim>\<open>monkey/mk_core\<close>): list nodes, events and their loops,
  files, I/O vectors, configuration readers, lines and thread channels.
\<close>

text \<open>\<^verbatim>\<open>monkey/mk_core/mk_list.h\<close>\<close>

definition struct_mk_list :: "build \<Rightarrow> ctype" where
  "struct_mk_list b = cstruct b
    [Mem ''prev'' c_ptr, Mem ''next'' c_ptr]"

text \<open>\<^verbatim>\<open>monkey/mk_core/mk_event.h\<close>\<close>

definition struct_mk_event :: "build \<Rightarrow> ctype" where
  "struct_mk_event b = cstruct b
    [Mem ''fd'' c_int, Mem ''type'' c_int, Mem ''mask'' c_int, Mem ''status'' c_char,
     Mem ''data'' c_ptr, Mem ''handler'' c_ptr, Mem ''_head'' (struct_mk_list b),
     Mem ''_priority_head'' (struct_mk_list b), Mem ''priority'' c_char]"

text \<open>\<^verbatim>\<open>monkey/mk_core/mk_memory.h\<close>\<close>

definition struct_mk_ptr_t :: "build \<Rightarrow> ctype" where
  "struct_mk_ptr_t b = cstruct b
    [Mem ''data'' c_ptr, Mem ''len'' c_long]"

text \<open>\<^verbatim>\<open>monkey/mk_core/mk_event.h\<close>\<close>

definition struct_mk_event_loop :: "build \<Rightarrow> ctype" where
  "struct_mk_event_loop b = cstruct b
    [Mem ''size'' c_int, Mem ''n_events'' c_int, Mem ''events'' c_ptr, Mem ''data'' c_ptr]"

text \<open>\<^verbatim>\<open>monkey/mk_core/mk_event_epoll.h\<close>\<close>

definition struct_mk_event_ctx_epoll :: "build \<Rightarrow> ctype" where
  "struct_mk_event_ctx_epoll b = cstruct b
    [Mem ''efd'' c_int, Mem ''queue_size'' c_int, Mem ''events'' c_ptr]"

text \<open>\<^verbatim>\<open>monkey/mk_core/mk_event_kqueue.h\<close>\<close>

definition struct_mk_event_ctx_kqueue :: "build \<Rightarrow> ctype" where
  "struct_mk_event_ctx_kqueue b = cstruct b
    [Mem ''kfd'' c_int, Mem ''queue_size'' c_int, Mem ''events'' c_ptr]"

text \<open>\<^verbatim>\<open>monkey/mk_core/mk_event_libevent.h\<close>\<close>

definition struct_mk_event_ctx_libevent :: "build \<Rightarrow> ctype" where
  "struct_mk_event_ctx_libevent b = cstruct b
    [Mem ''queue_size'' c_int64, Mem ''fired_count'' c_int, Mem ''base'' c_ptr,
     Mem ''fired'' c_ptr]"

text \<open>\<^verbatim>\<open>monkey/mk_core/mk_event_select.h\<close>\<close>

definition struct_mk_event_ctx_select :: "build \<Rightarrow> ctype" where
  "struct_mk_event_ctx_select b = cstruct b
    [Mem ''max_fd'' c_int, Mem ''rfds'' (bd_ext b ''fd_set''),
     Mem ''wfds'' (bd_ext b ''fd_set''), Mem ''_rfds'' (bd_ext b ''fd_set''),
     Mem ''_wfds'' (bd_ext b ''fd_set''), Mem ''queue_size'' c_int, Mem ''events'' c_ptr,
     Mem ''fired'' c_ptr]"

text \<open>\<^verbatim>\<open>monkey/mk_core/mk_file.h\<close>\<close>

definition struct_file_info :: "build \<Rightarrow> ctype" where
  "struct_file_info b = cstruct b
    [Mem ''size'' c_int64, Mem ''last_modification'' c_int64, Mem ''flags_read_only'' c_int,
     Mem ''exists'' c_char, Mem ''is_file'' c_char, Mem ''is_link'' c_char,
     Mem ''is_directory'' c_char, Mem ''exec_access'' c_char, Mem ''read_access'' c_char]"

text \<open>\<^verbatim>\<open>monkey/mk_core/mk_iov.h\<close>\<close>

definition struct_mk_iov :: "build \<Rightarrow> ctype" where
  "struct_mk_iov b = cstruct b
    [Mem ''iov_idx'' c_int, Mem ''buf_idx'' c_int, Mem ''size'' c_int,
     Mem ''total_len'' c_long, Mem ''io'' c_ptr, Mem ''buf_to_free'' c_ptr]"

text \<open>\<^verbatim>\<open>monkey/mk_core/mk_rconf.h\<close>\<close>

definition struct_mk_rconf_section :: "build \<Rightarrow> ctype" where
  "struct_mk_rconf_section b = cstruct b
    [Mem ''name'' c_ptr, Mem ''entries'' (struct_mk_list b), Mem ''_head'' (struct_mk_list b)]"

definition struct_mk_rconf_entry :: "build \<Rightarrow> ctype" where
  "struct_mk_rconf_entry b = cstruct b
    [Mem ''key'' c_ptr, Mem ''val'' c_ptr, Mem ''_head'' (struct_mk_list b)]"

definition struct_mk_rconf_file :: "build \<Rightarrow> ctype" where
  "struct_mk_rconf_file b = cstruct b
    [Mem ''path'' c_ptr, Mem ''_head'' (struct_mk_list b)]"

definition struct_mk_rconf :: "build \<Rightarrow> ctype" where
  "struct_mk_rconf b = cstruct b
    [Mem ''level'' c_int, Mem ''created'' c_int, Mem ''file'' c_ptr, Mem ''root_path'' c_ptr,
     Mem ''includes'' (struct_mk_list b), Mem ''metas'' (struct_mk_list b),
     Mem ''sections'' (struct_mk_list b)]"

text \<open>\<^verbatim>\<open>monkey/mk_core/mk_string.h\<close>\<close>

definition struct_mk_string_line :: "build \<Rightarrow> ctype" where
  "struct_mk_string_line b = cstruct b
    [Mem ''val'' c_ptr, Mem ''len'' c_int, Mem ''_head'' (struct_mk_list b)]"

text \<open>\<^verbatim>\<open>monkey/mk_core/mk_thread_channel.h\<close>\<close>

definition struct_mk_thread_channel :: "build \<Rightarrow> ctype" where
  "struct_mk_thread_channel b = cstruct b
    [Mem ''size'' c_int, Mem ''used'' c_int, Mem ''bufs'' (struct_mk_list b),
     Mem ''sender'' c_int, Mem ''receiver'' c_int, Mem ''ended'' c_int, Mem ''done'' c_int,
     Mem ''_head'' (struct_mk_list b)]"

text \<open>All of them.\<close>

definition monkey_structs :: "build \<Rightarrow> ctype list" where
  "monkey_structs b =
    [struct_mk_list b, struct_mk_event b, struct_mk_ptr_t b, struct_mk_event_loop b,
     struct_mk_event_ctx_epoll b, struct_mk_event_ctx_kqueue b, struct_mk_event_ctx_libevent b,
     struct_mk_event_ctx_select b, struct_file_info b, struct_mk_iov b,
     struct_mk_rconf_section b, struct_mk_rconf_entry b, struct_mk_rconf_file b,
     struct_mk_rconf b, struct_mk_string_line b, struct_mk_thread_channel b]"

lemmas monkey_structs_defs = struct_mk_list_def struct_mk_event_def struct_mk_ptr_t_def struct_mk_event_loop_def
    struct_mk_event_ctx_epoll_def struct_mk_event_ctx_kqueue_def
    struct_mk_event_ctx_libevent_def struct_mk_event_ctx_select_def struct_file_info_def
    struct_mk_iov_def struct_mk_rconf_section_def struct_mk_rconf_entry_def
    struct_mk_rconf_file_def struct_mk_rconf_def struct_mk_string_line_def
    struct_mk_thread_channel_def

lemma wf_monkey_structs: "ext_ok b \<Longrightarrow> list_all wf_ctype (monkey_structs b)"
  by (simp add: monkey_structs_def monkey_structs_defs members_ok_def wf_cstruct sa_ok_def alignments_def)

end
