(* ===== verification/Types_Engine.thy ===== *)
theory Types_Engine
  imports Types_Monkey
begin

text \<open>
  The structures of the engine (\<^verbatim>\<open>fluent-bit/*.h\<close>): configuration, plugins and their instances,
  chunks, tasks, coroutines, streams and connections, the scheduler, logs and log events.
  Members under a feature macro depend on the build; types of other packages are \<open>bd_ext\<close>.
\<close>

text \<open>Sizes of arrays that the headers name.\<close>

definition FLB_CONNECTION_MAX_PORT_LENGTH :: nat where "FLB_CONNECTION_MAX_PORT_LENGTH = 5"
definition FLB_CONNECTION_MAX_LABEL_LENGTH :: nat where "FLB_CONNECTION_MAX_LABEL_LENGTH = 7"
definition FLB_CONNECTION_MAX_IPV4_ADDRESS_LENGTH :: nat where "FLB_CONNECTION_MAX_IPV4_ADDRESS_LENGTH = 15"
definition FLB_CONNECTION_MAX_IPV6_ADDRESS_LENGTH :: nat where "FLB_CONNECTION_MAX_IPV6_ADDRESS_LENGTH = 39"
definition FLB_CONNECTION_MAX_UNIX_ADDRESS_LENGTH :: nat where "FLB_CONNECTION_MAX_UNIX_ADDRESS_LENGTH = 11 + 4 + 1"
definition FLB_CONNECTION_MAX_ADDRESS_LENGTH :: nat where
  "FLB_CONNECTION_MAX_ADDRESS_LENGTH = FLB_CONNECTION_MAX_IPV6_ADDRESS_LENGTH"
definition FLB_CONNECTION_MAX_USER_FRIENDLY_ADDRESS_LENGTH :: nat where
  "FLB_CONNECTION_MAX_USER_FRIENDLY_ADDRESS_LENGTH =
     FLB_CONNECTION_MAX_ADDRESS_LENGTH + FLB_CONNECTION_MAX_PORT_LENGTH + FLB_CONNECTION_MAX_LABEL_LENGTH"

text \<open>\<^verbatim>\<open>fluent-bit/flb_bucket_queue.h\<close>\<close>

definition struct_flb_bucket_queue :: "build \<Rightarrow> ctype" where
  "struct_flb_bucket_queue b = cstruct b
    [Mem ''buckets'' c_ptr, Mem ''n_buckets'' c_int64, Mem ''top'' c_ptr,
     Mem ''n_items'' c_int64]"

text \<open>\<^verbatim>\<open>fluent-bit/flb_byteswap.h\<close>\<close>

definition struct_flb_bswap_value_internal :: "build \<Rightarrow> ctype" where
  "struct_flb_bswap_value_internal b = CUnion
    [(''raw'', CArray 8 c_char), (''word'', c_short), (''dword'', c_int),
     (''qword'', c_int64)]"

text \<open>\<^verbatim>\<open>fluent-bit/flb_callback.h\<close>\<close>

definition struct_flb_callback_entry :: "build \<Rightarrow> ctype" where
  "struct_flb_callback_entry b = cstruct b
    [Mem ''name'' c_ptr, Mem ''cb'' c_ptr, Mem ''_head'' (struct_mk_list b)]"

definition struct_flb_callback :: "build \<Rightarrow> ctype" where
  "struct_flb_callback b = cstruct b
    [Mem ''name'' c_ptr, Mem ''ht'' c_ptr, Mem ''entries'' (struct_mk_list b),
     Mem ''config'' c_ptr]"

text \<open>\<^verbatim>\<open>fluent-bit/flb_time.h\<close>\<close>

definition struct_flb_time :: "build \<Rightarrow> ctype" where
  "struct_flb_time b = cstruct b
    [Mem ''tm'' (bd_ext b ''struct timespec'')]"

text \<open>\<^verbatim>\<open>fluent-bit/flb_task_map.h\<close>\<close>

definition struct_flb_task_map :: "build \<Rightarrow> ctype" where
  "struct_flb_task_map b = cstruct b
    [Mem ''task'' c_ptr]"

text \<open>\<^verbatim>\<open>fluent-bit/flb_config.h\<close>\<close>

definition struct_flb_config :: "build \<Rightarrow> ctype" where
  "struct_flb_config b = cstruct b
    [Mem ''ch_event'' (struct_mk_event b), Mem ''support_mode'' c_int,
     Mem ''is_ingestion_active'' c_int, Mem ''is_shutting_down'' c_int,
     Mem ''is_running'' c_int, Mem ''flush'' c_double, Mem ''grace'' c_int,
     Mem ''grace_count'' c_int, Mem ''flush_fd'' c_sock, Mem ''convert_nan_to_null'' c_int,
     Mem ''daemon'' c_int, Mem ''shutdown_fd'' c_sock, Mem ''verbose'' c_int,
     Mem ''init_time'' c_int64, Mem ''worker'' (bd_ext b ''pthread_t''),
     Mem ''ch_data'' (CArray 2 c_sock), Mem ''ch_manager'' (CArray 2 c_sock),
     Mem ''ch_notif'' (CArray 2 c_sock), Mem ''ch_self_events'' (CArray 2 c_sock),
     Mem ''ch_evl'' c_ptr, Mem ''file'' c_ptr, Mem ''cf_main'' c_ptr, Mem ''cf_opts'' c_ptr,
     Mem ''cf_parsers_list'' (struct_mk_list b), Mem ''program_name'' c_ptr,
     Mem ''conf_path'' c_ptr, Mem ''conf_path_file'' c_ptr,
     Mem ''external_plugins'' (struct_mk_list b), Mem ''event_flush'' (struct_mk_event b),
     Mem ''event_shutdown'' (struct_mk_event b), Mem ''event_thread_init'' (struct_mk_event b),
     Mem ''collectors_mutex'' (bd_ext b ''pthread_mutex_t''), Mem ''dso_plugins'' c_ptr,
     Mem ''processor_plugins'' (struct_mk_list b), Mem ''custom_plugins'' (struct_mk_list b),
     Mem ''in_plugins'' (struct_mk_list b), Mem ''parser_plugins'' (struct_mk_list b),
     Mem ''filter_plugins'' (struct_mk_list b), Mem ''out_plugins'' (struct_mk_list b),
     Mem ''customs'' (struct_mk_list b), Mem ''inputs'' (struct_mk_list b),
     Mem ''parsers'' (struct_mk_list b), Mem ''multiline_parsers'' (struct_mk_list b),
     Mem ''outputs'' (struct_mk_list b), Mem ''filters'' (struct_mk_list b), Mem ''evl'' c_ptr,
     Mem ''evl_bktq'' c_ptr, Mem ''proxies'' (struct_mk_list b), Mem ''kernel'' c_ptr,
     Mem ''log_file'' c_ptr, Mem ''log'' c_ptr, Mem ''parsers_file'' c_ptr,
     Mem ''plugins_file'' c_ptr, Mem ''env'' c_ptr, Mem ''workdir'' c_ptr,
     Mem ''exit_status_code'' c_int, Mem ''workers'' (struct_mk_list b),
     MemIf ''FLB_HAVE_METRICS'' ''metrics'' c_ptr, Mem ''cmetrics'' (struct_mk_list b),
     MemIf ''FLB_HAVE_HTTP_SERVER'' ''http_server'' c_int,
     MemIf ''FLB_HAVE_HTTP_SERVER'' ''http_port'' c_ptr,
     MemIf ''FLB_HAVE_HTTP_SERVER'' ''http_listen'' c_ptr,
     MemIf ''FLB_HAVE_HTTP_SERVER'' ''http_ctx'' c_ptr,
     MemIf ''FLB_HAVE_HTTP_SERVER'' ''health_check'' c_int,
     MemIf ''FLB_HAVE_HTTP_SERVER'' ''hc_errors_count'' c_int,
     MemIf ''FLB_HAVE_HTTP_SERVER'' ''hc_retry_failure_count'' c_int,
     MemIf ''FLB_HAVE_HTTP_SERVER'' ''health_check_period'' c_int, Mem ''http_proxy'' c_ptr,
     Mem ''no_proxy'' c_ptr, Mem ''dns_mode'' c_ptr, Mem ''dns_resolver'' c_ptr,
     Mem ''dns_prefer_ipv4'' c_int, Mem ''cio'' c_ptr, Mem ''storage_path'' c_ptr,
     Mem ''storage_input_plugin'' c_ptr, Mem ''storage_sync'' c_ptr,
     Mem ''storage_metrics'' c_int, Mem ''storage_checksum'' c_int,
     Mem ''storage_max_chunks_up'' c_int, Mem ''storage_del_bad_chunks'' c_int,
     Mem ''storage_bl_mem_limit'' c_ptr, Mem ''storage_metrics_ctx'' c_ptr,
     MemIf ''FLB_HAVE_SQLDB'' ''sqldb_list'' (struct_mk_list b),
     MemIf ''FLB_HAVE_LUAJIT'' ''luajit_list'' (struct_mk_list b),
     MemIf ''FLB_HAVE_WASM'' ''wasm_list'' (struct_mk_list b),
     MemIf ''FLB_HAVE_STREAM_PROCESSOR'' ''stream_processor_file'' c_ptr,
     MemIf ''FLB_HAVE_STREAM_PROCESSOR'' ''stream_processor_ctx'' c_ptr,
     MemIf ''FLB_HAVE_STREAM_PROCESSOR'' ''stream_processor_tasks'' (struct_mk_list b),
     MemIf ''FLB_HAVE_CHUNK_TRACE'' ''enable_chunk_trace'' c_int,
     Mem ''enable_hot_reload'' c_int, Mem ''ensure_thread_safety_on_hot_reloading'' c_int,
     Mem ''coro_stack_size'' c_int, Mem ''upstreams'' (struct_mk_list b),
     Mem ''downstreams'' (struct_mk_list b), Mem ''in_table_id'' (CArray 512 c_short),
     Mem ''sched'' c_ptr, Mem ''sched_cap'' c_int, Mem ''sched_base'' c_int,
     Mem ''tasks_map'' (CArray 2048 (struct_flb_task_map b)), Mem ''dry_run'' c_int]"

definition struct_flb_service_config :: "build \<Rightarrow> ctype" where
  "struct_flb_service_config b = cstruct b
    [Mem ''key'' c_ptr, Mem ''type'' c_int, Mem ''offset'' c_int64]"

text \<open>\<^verbatim>\<open>fluent-bit/flb_config_map.h\<close>\<close>

definition struct_flb_config_map_val :: "build \<Rightarrow> ctype" where
  "struct_flb_config_map_val b = cstruct b
    [Mem ''val'' (CUnion [(''i_num'', c_int), (''boolean'', c_char), (''d_num'', c_double),
     (''s_num'', c_int64), (''str'', c_ptr), (''list'', c_ptr)]), Mem ''mult'' c_ptr,
     Mem ''_head'' (struct_mk_list b)]"

definition struct_flb_config_map :: "build \<Rightarrow> ctype" where
  "struct_flb_config_map b = cstruct b
    [Mem ''type'' c_int, Mem ''name'' c_ptr, Mem ''def_value'' c_ptr, Mem ''flags'' c_int,
     Mem ''set_property'' c_int, Mem ''offset'' c_int64, Mem ''desc'' c_ptr,
     Mem ''value'' (struct_flb_config_map_val b), Mem ''_head'' (struct_mk_list b)]"

text \<open>\<^verbatim>\<open>fluent-bit/flb_connection.h\<close>\<close>

definition struct_flb_connection :: "build \<Rightarrow> ctype" where
  "struct_flb_connection b = cstruct b
    [Mem ''event'' (struct_mk_event b), Mem ''user_data'' c_ptr, Mem ''fd'' c_sock,
     Mem ''raw_remote_host'' (bd_ext b ''struct sockaddr_storage''),
     Mem ''remote_host'' (CArray (FLB_CONNECTION_MAX_ADDRESS_LENGTH + 1) c_char),
     Mem ''remote_port'' c_short,
     Mem ''user_friendly_remote_host'' (CArray (FLB_CONNECTION_MAX_USER_FRIENDLY_ADDRESS_LENGTH + 1) c_char),
     Mem ''net'' c_ptr, Mem ''net_error'' c_int, Mem ''busy_flag'' c_int,
     Mem ''shutdown_flag'' c_int, Mem ''recycle'' c_int, Mem ''ka_count'' c_int,
     Mem ''ts_assigned'' c_int64, Mem ''ts_created'' c_int64, Mem ''ts_available'' c_int64,
     Mem ''ts_io_timeout'' c_int64, Mem ''ts_connect_start'' c_int64,
     Mem ''ts_connect_timeout'' c_int64, Mem ''evl'' c_ptr,
     Mem '''' (CUnion [(''stream'', c_ptr), (''upstream'', c_ptr), (''downstream'', c_ptr)]),
     Mem ''coroutine'' c_ptr, Mem ''type'' c_int, Mem ''dynamically_allocated'' c_int,
     Mem ''_head'' (struct_mk_list b), Mem ''tls_session'' c_ptr]"

text \<open>\<^verbatim>\<open>fluent-bit/flb_coro.h\<close>\<close>

definition struct_flb_coro :: "build \<Rightarrow> ctype" where
  "struct_flb_coro b = cstruct b
    [MemIf ''FLB_HAVE_VALGRIND'' ''valgrind_stack_id'' c_int, Mem ''caller'' c_ptr,
     Mem ''callee'' c_ptr, Mem ''data'' c_ptr]"

text \<open>\<^verbatim>\<open>fluent-bit/flb_custom.h\<close>\<close>

definition struct_flb_custom_plugin :: "build \<Rightarrow> ctype" where
  "struct_flb_custom_plugin b = cstruct b
    [Mem ''flags'' c_int, Mem ''name'' c_ptr, Mem ''description'' c_ptr,
     Mem ''config_map'' c_ptr, Mem ''cb_init'' c_ptr, Mem ''cb_run'' c_ptr,
     Mem ''cb_exit'' c_ptr, Mem ''_head'' (struct_mk_list b)]"

definition struct_flb_custom_instance :: "build \<Rightarrow> ctype" where
  "struct_flb_custom_instance b = cstruct b
    [Mem ''id'' c_int, Mem ''log_level'' c_int, Mem ''name'' (CArray 32 c_char),
     Mem ''alias'' c_ptr, Mem ''context'' c_ptr, Mem ''data'' c_ptr, Mem ''p'' c_ptr,
     Mem ''properties'' (struct_mk_list b), Mem ''config_map'' c_ptr,
     Mem ''_head'' (struct_mk_list b), Mem ''cmt'' c_ptr, Mem ''config'' c_ptr]"

text \<open>\<^verbatim>\<open>fluent-bit/flb_network.h\<close>\<close>

definition struct_flb_net_setup :: "build \<Rightarrow> ctype" where
  "struct_flb_net_setup b = cstruct b
    [Mem ''keepalive'' c_char, Mem ''keepalive_idle_timeout'' c_int,
     Mem ''connect_timeout'' c_int, Mem ''accept_timeout'' c_int,
     Mem ''accept_timeout_log_error'' c_int, Mem ''io_timeout'' c_int,
     Mem ''connect_timeout_log_error'' c_int, Mem ''source_address'' c_ptr,
     Mem ''keepalive_max_recycle'' c_int, Mem ''dns_mode'' c_ptr, Mem ''dns_resolver'' c_ptr,
     Mem ''dns_prefer_ipv4'' c_int, Mem ''max_worker_connections'' c_int]"

text \<open>\<^verbatim>\<open>fluent-bit/flb_stream.h\<close>\<close>

definition struct_flb_stream :: "build \<Rightarrow> ctype" where
  "struct_flb_stream b = cstruct b
    [Mem ''dynamically_allocated'' c_int, Mem ''thread_safety_flag'' c_int,
     Mem ''transport'' c_int, Mem ''flags'' c_int, Mem ''type'' c_int,
     Mem ''list_mutex'' (bd_ext b ''pthread_mutex_t''), Mem ''tls_context'' c_ptr,
     Mem ''config'' c_ptr, Mem ''net'' (struct_flb_net_setup b),
     Mem ''_head'' (struct_mk_list b)]"

text \<open>\<^verbatim>\<open>fluent-bit/flb_downstream.h\<close>\<close>

definition struct_flb_downstream :: "build \<Rightarrow> ctype" where
  "struct_flb_downstream b = cstruct b
    [Mem ''base'' (struct_flb_stream b), Mem ''host'' c_ptr, Mem ''port'' c_short,
     Mem ''server_fd'' c_sock, Mem ''dgram_connection'' c_ptr,
     Mem ''busy_queue'' (struct_mk_list b), Mem ''destroy_queue'' (struct_mk_list b)]"

text \<open>\<^verbatim>\<open>fluent-bit/flb_env.h\<close>\<close>

definition struct_flb_env :: "build \<Rightarrow> ctype" where
  "struct_flb_env b = cstruct b
    [Mem ''warn_unused'' c_int, Mem ''ht'' c_ptr]"

text \<open>\<^verbatim>\<open>fluent-bit/flb_event.h\<close>\<close>

definition struct_flb_event_chunk :: "build \<Rightarrow> ctype" where
  "struct_flb_event_chunk b = cstruct b
    [Mem ''type'' c_int, Mem ''tag'' c_ptr, Mem ''data'' c_ptr, Mem ''size'' c_int64,
     Mem ''total_events'' c_int64]"

text \<open>\<^verbatim>\<open>fluent-bit/flb_filter.h\<close>\<close>

definition struct_flb_filter_plugin :: "build \<Rightarrow> ctype" where
  "struct_flb_filter_plugin b = cstruct b
    [Mem ''event_type'' c_int, Mem ''flags'' c_int, Mem ''name'' c_ptr,
     Mem ''description'' c_ptr, Mem ''config_map'' c_ptr, Mem ''cb_init'' c_ptr,
     Mem ''cb_filter'' c_ptr, Mem ''cb_exit'' c_ptr, Mem ''_head'' (struct_mk_list b)]"

definition struct_flb_filter_instance :: "build \<Rightarrow> ctype" where
  "struct_flb_filter_instance b = cstruct b
    [Mem ''event_type'' c_int, Mem ''id'' c_int, Mem ''log_level'' c_int,
     Mem ''log_suppress_interval'' c_int, Mem ''name'' (CArray 32 c_char), Mem ''alias'' c_ptr,
     Mem ''match'' c_ptr, MemIf ''FLB_HAVE_REGEX'' ''match_regex'' c_ptr,
     Mem ''parent_processor'' c_ptr, Mem ''context'' c_ptr, Mem ''data'' c_ptr,
     Mem ''p'' c_ptr, Mem ''properties'' (struct_mk_list b), Mem ''config_map'' c_ptr,
     Mem ''_head'' (struct_mk_list b), Mem ''cmt'' c_ptr, Mem ''cmt_records'' c_ptr,
     Mem ''cmt_bytes'' c_ptr, Mem ''cmt_add_records'' c_ptr, Mem ''cmt_drop_records'' c_ptr,
     MemIf ''FLB_HAVE_METRICS'' ''metrics'' c_ptr, Mem ''config'' c_ptr]"

text \<open>\<^verbatim>\<open>fluent-bit/flb_hash_table.h\<close>\<close>

definition struct_flb_hash_table_entry :: "build \<Rightarrow> ctype" where
  "struct_flb_hash_table_entry b = cstruct b
    [Mem ''created'' c_int64, Mem ''hits'' c_int64, Mem ''hash'' c_int64, Mem ''key'' c_ptr,
     Mem ''key_len'' c_int64, Mem ''val'' c_ptr, Mem ''val_size'' c_int64, Mem ''table'' c_ptr,
     Mem ''_head'' (struct_mk_list b), Mem ''_head_parent'' (struct_mk_list b)]"

definition struct_flb_hash_table_chain :: "build \<Rightarrow> ctype" where
  "struct_flb_hash_table_chain b = cstruct b
    [Mem ''count'' c_int, Mem ''chains'' (struct_mk_list b)]"

definition struct_flb_hash_table :: "build \<Rightarrow> ctype" where
  "struct_flb_hash_table b = cstruct b
    [Mem ''evict_mode'' c_int, Mem ''max_entries'' c_int, Mem ''total_count'' c_int,
     Mem ''cache_ttl'' c_int, Mem ''size'' c_int64, Mem ''entries'' (struct_mk_list b),
     Mem ''table'' c_ptr]"

text \<open>\<^verbatim>\<open>fluent-bit/flb_input.h\<close>\<close>

definition struct_flb_input_plugin :: "build \<Rightarrow> ctype" where
  "struct_flb_input_plugin b = cstruct b
    [Mem ''type'' c_int, Mem ''proxy'' c_ptr, Mem ''flags'' c_int, Mem ''name'' c_ptr,
     Mem ''description'' c_ptr, Mem ''config_map'' c_ptr, Mem ''cb_init'' c_ptr,
     Mem ''cb_pre_run'' c_ptr, Mem ''cb_collect'' c_ptr, Mem ''cb_flush_buf'' c_ptr,
     Mem ''cb_flush_end'' c_ptr, Mem ''cb_pause'' c_ptr, Mem ''cb_resume'' c_ptr,
     Mem ''cb_ingest'' c_ptr, Mem ''cb_exit'' c_ptr, Mem ''cb_destroy'' c_ptr,
     Mem ''instance'' c_ptr, Mem ''_head'' (struct_mk_list b)]"

text \<open>\<^verbatim>\<open>fluent-bit/flb_network.h\<close>\<close>

definition struct_flb_net_host :: "build \<Rightarrow> ctype" where
  "struct_flb_net_host b = cstruct b
    [Mem ''ipv6'' c_int, Mem ''address'' c_ptr, Mem ''port'' c_int, Mem ''name'' c_ptr,
     Mem ''listen'' c_ptr, Mem ''uri'' c_ptr]"

text \<open>\<^verbatim>\<open>fluent-bit/flb_input.h\<close>\<close>

definition struct_flb_input_instance :: "build \<Rightarrow> ctype" where
  "struct_flb_input_instance b = cstruct b
    [Mem ''event'' (struct_mk_event b), Mem ''processor'' c_ptr, Mem ''flags'' c_int,
     Mem ''id'' c_int, MemIf ''FLB_HAVE_CHUNK_TRACE'' ''chunk_trace_ctxt'' c_ptr,
     MemIf ''FLB_HAVE_CHUNK_TRACE'' ''chunk_trace_lock'' (bd_ext b ''pthread_mutex_t''),
     Mem ''log_level'' c_int, Mem ''log_suppress_interval'' c_int,
     Mem ''channel'' (CArray 2 c_sock), Mem ''runs_in_coroutine'' c_int,
     Mem ''name'' (CArray 32 c_char), Mem ''alias'' c_ptr, Mem ''context'' c_ptr,
     Mem ''ch_events'' (CArray 2 c_sock), Mem ''p'' c_ptr, Mem ''tag'' c_ptr,
     Mem ''tag_len'' c_int, Mem ''tag_default'' c_int, Mem ''routable'' c_int,
     Mem ''storage_pause_on_chunks_overlimit'' c_int, Mem ''host'' (struct_flb_net_host b),
     Mem ''storage'' c_ptr, Mem ''storage_type'' c_int, Mem ''mem_chunks_size'' c_int64,
     Mem ''mp_total_buf_size'' c_int64, Mem ''mem_buf_limit'' c_int64,
     Mem ''mem_buf_status'' c_int, Mem ''storage_buf_status'' c_int, Mem ''data'' c_ptr,
     Mem ''config_map'' c_ptr, Mem ''_head'' (struct_mk_list b),
     Mem ''routes_direct'' (struct_mk_list b), Mem ''routes'' (struct_mk_list b),
     Mem ''properties'' (struct_mk_list b), Mem ''collectors'' (struct_mk_list b),
     Mem ''chunks'' (struct_mk_list b), Mem ''chunks_up'' (struct_mk_list b),
     Mem ''chunks_down'' (struct_mk_list b), Mem ''tasks'' (struct_mk_list b),
     Mem ''input_coro_id'' c_int, Mem ''input_coro_list'' (struct_mk_list b),
     Mem ''input_coro_list_destroy'' (struct_mk_list b),
     MemIf ''FLB_HAVE_METRICS'' ''metrics'' c_ptr, Mem ''is_threaded'' c_int,
     Mem ''thi'' c_ptr, Mem ''rb'' c_ptr, Mem ''upstreams'' (struct_mk_list b),
     Mem ''downstreams'' (struct_mk_list b), Mem ''cmt'' c_ptr, Mem ''cmt_bytes'' c_ptr,
     Mem ''cmt_records'' c_ptr, Mem ''cmt_storage_overlimit'' c_ptr,
     Mem ''cmt_storage_memory_bytes'' c_ptr, Mem ''cmt_storage_chunks'' c_ptr,
     Mem ''cmt_storage_chunks_up'' c_ptr, Mem ''cmt_storage_chunks_down'' c_ptr,
     Mem ''cmt_storage_chunks_busy'' c_ptr, Mem ''cmt_storage_chunks_busy_bytes'' c_ptr,
     Mem ''cmt_memrb_dropped_chunks'' c_ptr, Mem ''cmt_memrb_dropped_bytes'' c_ptr,
     Mem ''ht_log_chunks'' c_ptr, Mem ''ht_metric_chunks'' c_ptr,
     Mem ''ht_trace_chunks'' c_ptr, Mem ''use_tls'' c_int, Mem ''tls_verify'' c_int,
     Mem ''tls_debug'' c_int, Mem ''tls_vhost'' c_ptr, Mem ''tls_ca_path'' c_ptr,
     Mem ''tls_ca_file'' c_ptr, Mem ''tls_crt_file'' c_ptr, Mem ''tls_key_file'' c_ptr,
     Mem ''tls_key_passwd'' c_ptr, Mem ''tls_config_map'' c_ptr, Mem ''tls'' c_ptr,
     Mem ''net_setup'' (struct_flb_net_setup b), Mem ''net_config_map'' c_ptr,
     Mem ''net_properties'' (struct_mk_list b), Mem ''config'' c_ptr]"

definition struct_flb_input_collector :: "build \<Rightarrow> ctype" where
  "struct_flb_input_collector b = cstruct b
    [Mem ''event'' (struct_mk_event b), Mem ''evl'' c_ptr, Mem ''id'' c_int,
     Mem ''type'' c_int, Mem ''running'' c_int, Mem ''fd_event'' c_sock,
     Mem ''fd_timer'' c_sock, Mem ''seconds'' c_int64, Mem ''nanoseconds'' c_long,
     Mem ''cb_collect'' c_ptr, Mem ''instance'' c_ptr, Mem ''_head'' (struct_mk_list b)]"

definition struct_flb_input_coro :: "build \<Rightarrow> ctype" where
  "struct_flb_input_coro b = cstruct b
    [Mem ''id'' c_int, Mem ''start_time'' c_int64, Mem ''end_time'' c_int64, Mem ''ins'' c_ptr,
     Mem ''coro'' c_ptr, Mem ''config'' c_ptr, Mem ''_head'' (struct_mk_list b)]"

definition struct_flb_libco_in_params :: "build \<Rightarrow> ctype" where
  "struct_flb_libco_in_params b = cstruct b
    [Mem ''config'' c_ptr, Mem ''coll'' c_ptr, Mem ''coro'' c_ptr]"

text \<open>\<^verbatim>\<open>fluent-bit/flb_input_chunk.h\<close>\<close>

definition struct_flb_input_chunk :: "build \<Rightarrow> ctype" where
  "struct_flb_input_chunk b = cstruct b
    [Mem ''event_type'' c_int, Mem ''fs_counted'' c_char, Mem ''busy'' c_int,
     Mem ''fs_backlog'' c_int, Mem ''sp_done'' c_int,
     MemIf ''FLB_HAVE_METRICS'' ''total_records'' c_int,
     MemIf ''FLB_HAVE_METRICS'' ''added_records'' c_int, Mem ''chunk'' c_ptr,
     Mem ''stream_off'' (bd_ext b ''off_t''), Mem ''mp_pck'' (bd_ext b ''msgpack_packer''),
     Mem ''in'' c_ptr, Mem ''task'' c_ptr, MemIf ''FLB_HAVE_CHUNK_TRACE'' ''trace'' c_ptr,
     Mem ''routes_mask'' (CArray 4 c_int64), Mem ''_head'' (struct_mk_list b)]"

text \<open>\<^verbatim>\<open>fluent-bit/flb_input_thread.h\<close>\<close>

definition struct_flb_input_thread :: "build \<Rightarrow> ctype" where
  "struct_flb_input_thread b = cstruct b
    [Mem ''mutex'' (bd_ext b ''pthread_mutex_t''), Mem ''exit'' c_char,
     Mem ''write_file'' c_ptr, Mem ''writer'' (bd_ext b ''mpack_writer_t''),
     Mem ''thread'' (bd_ext b ''pthread_t''), Mem ''read'' c_sock, Mem ''write'' c_sock,
     Mem ''coll_fd'' c_int, Mem ''callback'' c_ptr, Mem ''data'' c_ptr,
     Mem ''buf'' (CArray 65535 c_char), Mem ''bufpos'' c_int64]"

definition struct_flb_input_thread_instance :: "build \<Rightarrow> ctype" where
  "struct_flb_input_thread_instance b = cstruct b
    [Mem ''event'' (struct_mk_event b), Mem ''event_local'' (struct_mk_event b),
     Mem ''evl'' c_ptr, Mem ''ch_parent_events'' (CArray 2 c_sock),
     Mem ''ch_thread_events'' (CArray 2 c_sock), Mem ''ins'' c_ptr, Mem ''tp'' c_ptr,
     Mem ''th'' c_ptr, Mem ''config'' c_ptr, Mem ''init_status'' c_int,
     Mem ''init_mutex'' (bd_ext b ''pthread_mutex_t''),
     Mem ''init_condition'' (bd_ext b ''pthread_cond_t''), Mem ''input_coro_id'' c_int,
     Mem ''input_coro_list'' (struct_mk_list b),
     Mem ''input_coro_list_destroy'' (struct_mk_list b)]"

text \<open>\<^verbatim>\<open>fluent-bit/flb_kernel.h\<close>\<close>

definition struct_flb_kernel :: "build \<Rightarrow> ctype" where
  "struct_flb_kernel b = cstruct b
    [Mem ''minor'' c_char, Mem ''major'' c_char, Mem ''patch'' c_char, Mem ''n_version'' c_int,
     Mem ''s_version'' (struct_mk_ptr_t b)]"

text \<open>\<^verbatim>\<open>fluent-bit/flb_log.h\<close>\<close>

definition struct_flb_log :: "build \<Rightarrow> ctype" where
  "struct_flb_log b = cstruct b
    [Mem ''event'' (struct_mk_event b), Mem ''ch_mng'' (CArray 2 c_sock), Mem ''type'' c_short,
     Mem ''level'' c_short, Mem ''out'' c_ptr, Mem ''tid'' (bd_ext b ''pthread_t''),
     Mem ''worker'' c_ptr, Mem ''evl'' c_ptr, Mem ''pth_init'' c_int,
     Mem ''pth_cond'' (bd_ext b ''pthread_cond_t''),
     Mem ''pth_mutex'' (bd_ext b ''pthread_mutex_t'')]"

definition struct_flb_log_cache_entry :: "build \<Rightarrow> ctype" where
  "struct_flb_log_cache_entry b = cstruct b
    [Mem ''buf'' c_ptr, Mem ''timestamp'' c_int64, Mem ''_head'' (struct_mk_list b)]"

definition struct_flb_log_cache :: "build \<Rightarrow> ctype" where
  "struct_flb_log_cache b = cstruct b
    [Mem ''size'' c_int, Mem ''timeout'' c_int, Mem ''entries'' (struct_mk_list b)]"

text \<open>\<^verbatim>\<open>fluent-bit/flb_log_event.h\<close>\<close>

definition struct_flb_log_event :: "build \<Rightarrow> ctype" where
  "struct_flb_log_event b = cstruct b
    [Mem ''raw_timestamp'' c_ptr, Mem ''timestamp'' (struct_flb_time b),
     Mem ''metadata'' c_ptr, Mem ''format'' c_int, Mem ''body'' c_ptr, Mem ''root'' c_ptr]"

text \<open>\<^verbatim>\<open>fluent-bit/flb_log_event_decoder.h\<close>\<close>

definition struct_flb_log_event_decoder :: "build \<Rightarrow> ctype" where
  "struct_flb_log_event_decoder b = cstruct b
    [Mem ''dynamically_allocated'' c_int,
     Mem ''unpacked_empty_map'' (bd_ext b ''msgpack_unpacked''),
     Mem ''previous_offset'' c_int64, Mem ''unpacked_event'' (bd_ext b ''msgpack_unpacked''),
     Mem ''record_length'' c_int64, Mem ''record_base'' c_ptr, Mem ''initialized'' c_int,
     Mem ''empty_map'' c_ptr, Mem ''buffer'' c_ptr, Mem ''offset'' c_int64,
     Mem ''length'' c_int64, Mem ''last_result'' c_int]"

text \<open>\<^verbatim>\<open>fluent-bit/flb_log_event_encoder_dynamic_field.h\<close>\<close>

definition struct_flb_log_event_encoder_dynamic_field :: "build \<Rightarrow> ctype" where
  "struct_flb_log_event_encoder_dynamic_field b = cstruct b
    [Mem ''initialized'' c_int, Mem ''entry_count'' c_int64, Mem ''data_offset'' c_int64,
     Mem ''packer'' (bd_ext b ''msgpack_packer''),
     Mem ''buffer'' (bd_ext b ''msgpack_sbuffer''),
     Mem ''scopes'' (bd_ext b ''struct cfl_list''), Mem ''data'' c_ptr, Mem ''size'' c_int64,
     Mem ''type'' c_int]"

text \<open>\<^verbatim>\<open>fluent-bit/flb_log_event_encoder.h\<close>\<close>

definition struct_flb_log_event_encoder :: "build \<Rightarrow> ctype" where
  "struct_flb_log_event_encoder b = cstruct b
    [Mem ''dynamically_allocated'' c_int, Mem ''output_buffer'' c_ptr,
     Mem ''output_length'' c_int64, Mem ''initialized'' c_int,
     Mem ''timestamp'' (struct_flb_time b),
     Mem ''metadata'' (struct_flb_log_event_encoder_dynamic_field b),
     Mem ''body'' (struct_flb_log_event_encoder_dynamic_field b),
     Mem ''root'' (struct_flb_log_event_encoder_dynamic_field b),
     Mem ''packer'' (bd_ext b ''msgpack_packer''),
     Mem ''buffer'' (bd_ext b ''msgpack_sbuffer''), Mem ''format'' c_int]"

text \<open>\<^verbatim>\<open>fluent-bit/flb_mp.h\<close>\<close>

definition struct_flb_mp_map_header :: "build \<Rightarrow> ctype" where
  "struct_flb_mp_map_header b = cstruct b
    [Mem ''offset'' (bd_ext b ''off_t''), Mem ''entries'' c_int64, Mem ''data'' c_ptr]"

text \<open>\<^verbatim>\<open>fluent-bit/flb_log_event_encoder_dynamic_field.h\<close>\<close>

definition struct_flb_log_event_encoder_dynamic_field_scope :: "build \<Rightarrow> ctype" where
  "struct_flb_log_event_encoder_dynamic_field_scope b = cstruct b
    [Mem ''offset'' c_int64, Mem ''header'' (struct_flb_mp_map_header b), Mem ''type'' c_int,
     Mem ''_head'' (bd_ext b ''struct cfl_list'')]"

text \<open>\<^verbatim>\<open>fluent-bit/flb_mp.h\<close>\<close>

definition struct_flb_mp_accessor_match :: "build \<Rightarrow> ctype" where
  "struct_flb_mp_accessor_match b = cstruct b
    [Mem ''matched'' c_int, Mem ''start_key'' c_ptr, Mem ''key'' c_ptr, Mem ''val'' c_ptr,
     Mem ''ra'' c_ptr]"

definition struct_flb_mp_accessor :: "build \<Rightarrow> ctype" where
  "struct_flb_mp_accessor b = cstruct b
    [Mem ''matches_size'' c_int, Mem ''matches'' c_ptr, Mem ''ra_list'' (struct_mk_list b)]"

text \<open>\<^verbatim>\<open>fluent-bit/flb_network.h\<close>\<close>

definition struct_flb_dns_lookup_context :: "build \<Rightarrow> ctype" where
  "struct_flb_dns_lookup_context b = cstruct b
    [Mem ''response_event'' (struct_mk_event b), Mem ''ares_socket_registered'' c_int,
     Mem ''ares_socket_functions'' (bd_ext b ''struct ares_socket_functions''),
     Mem ''udp_timeout_detected'' c_ptr, Mem ''ares_socket_created'' c_int,
     Mem ''ares_socket_type'' c_int, Mem ''ares_channel'' c_ptr, Mem ''result_code'' c_ptr,
     Mem ''event_loop'' c_ptr, Mem ''coroutine'' c_ptr, Mem ''udp_timer'' c_ptr,
     Mem ''finished'' c_int, Mem ''dropped'' c_int, Mem ''dns_ctx'' c_ptr,
     Mem ''result'' c_ptr, Mem ''_head'' (struct_mk_list b)]"

text \<open>\<^verbatim>\<open>fluent-bit/flb_output.h\<close>\<close>

definition struct_flb_test_out_formatter :: "build \<Rightarrow> ctype" where
  "struct_flb_test_out_formatter b = cstruct b
    [Mem ''rt_ctx'' c_ptr, Mem ''rt_ffd'' c_int, Mem ''rt_out_callback'' c_ptr,
     Mem ''rt_data'' c_ptr, Mem ''flush_ctx'' c_ptr, Mem ''callback'' c_ptr]"

definition struct_flb_output_plugin :: "build \<Rightarrow> ctype" where
  "struct_flb_output_plugin b = cstruct b
    [Mem ''event_type'' c_int, Mem ''type'' c_int, Mem ''proxy'' c_ptr, Mem ''flags'' c_int,
     Mem ''name'' c_ptr, Mem ''description'' c_ptr, Mem ''config_map'' c_ptr,
     Mem ''host'' (struct_flb_net_host b), Mem ''cb_init'' c_ptr, Mem ''cb_pre_run'' c_ptr,
     Mem ''cb_flush'' c_ptr, Mem ''cb_exit'' c_ptr, Mem ''cb_destroy'' c_ptr,
     Mem ''workers'' c_int, Mem ''test_formatter'' (struct_flb_test_out_formatter b),
     Mem ''_head'' (struct_mk_list b)]"

definition struct_flb_output_instance :: "build \<Rightarrow> ctype" where
  "struct_flb_output_instance b = cstruct b
    [Mem ''event'' (struct_mk_event b), Mem ''processor'' c_ptr, Mem ''event_type'' c_int,
     Mem ''id'' c_int, Mem ''log_level'' c_int, Mem ''log_suppress_interval'' c_int,
     Mem ''name'' (CArray 32 c_char), Mem ''alias'' c_ptr, Mem ''flags'' c_int,
     Mem ''test_mode'' c_int, Mem ''ch_events'' (CArray 2 c_sock), Mem ''p'' c_ptr,
     Mem ''context'' c_ptr, Mem ''retry_limit'' c_int, Mem ''use_tls'' c_int,
     Mem ''match'' c_ptr, MemIf ''FLB_HAVE_REGEX'' ''match_regex'' c_ptr,
     MemIf ''FLB_HAVE_TLS'' ''tls_verify'' c_int, MemIf ''FLB_HAVE_TLS'' ''tls_debug'' c_int,
     MemIf ''FLB_HAVE_TLS'' ''tls_vhost'' c_ptr, MemIf ''FLB_HAVE_TLS'' ''tls_ca_path'' c_ptr,
     MemIf ''FLB_HAVE_TLS'' ''tls_ca_file'' c_ptr,
     MemIf ''FLB_HAVE_TLS'' ''tls_crt_file'' c_ptr,
     MemIf ''FLB_HAVE_TLS'' ''tls_key_file'' c_ptr,
     MemIf ''FLB_HAVE_TLS'' ''tls_key_passwd'' c_ptr, Mem ''host'' (struct_flb_net_host b),
     Mem ''data'' c_ptr, Mem ''out_context'' c_ptr, Mem ''tls'' c_ptr,
     Mem ''properties'' (struct_mk_list b), Mem ''config_map'' c_ptr,
     Mem ''net_setup'' (struct_flb_net_setup b), Mem ''net_config_map'' c_ptr,
     Mem ''net_properties'' (struct_mk_list b), Mem ''tls_config_map'' c_ptr,
     Mem ''_head'' (struct_mk_list b), Mem ''cmt'' c_ptr, Mem ''cmt_proc_records'' c_ptr,
     Mem ''cmt_proc_bytes'' c_ptr, Mem ''cmt_errors'' c_ptr, Mem ''cmt_retries'' c_ptr,
     Mem ''cmt_retries_failed'' c_ptr, Mem ''cmt_dropped_records'' c_ptr,
     Mem ''cmt_retried_records'' c_ptr, Mem ''cmt_upstream_total_connections'' c_ptr,
     Mem ''cmt_upstream_busy_connections'' c_ptr, MemIf ''FLB_HAVE_METRICS'' ''metrics'' c_ptr,
     Mem ''callback'' c_ptr, Mem ''test_formatter'' (struct_flb_test_out_formatter b),
     Mem ''fs_chunks_size'' c_int64, Mem ''fs_backlog_chunks_size'' c_int64,
     Mem ''total_limit_size'' c_int64, Mem ''singleplex_queue'' c_ptr,
     Mem ''tp_workers'' c_int, Mem ''tp'' c_ptr, Mem ''is_threaded'' c_int,
     Mem ''upstreams'' (struct_mk_list b), Mem ''flush_id'' c_int,
     Mem ''flush_list'' (struct_mk_list b), Mem ''flush_list_destroy'' (struct_mk_list b),
     Mem ''config'' c_ptr]"

definition struct_flb_output_flush :: "build \<Rightarrow> ctype" where
  "struct_flb_output_flush b = cstruct b
    [Mem ''id'' c_int, Mem ''buffer'' c_ptr, Mem ''task'' c_ptr, Mem ''config'' c_ptr,
     Mem ''o_ins'' c_ptr, Mem ''coro'' c_ptr, Mem ''processed_event_chunk'' c_ptr,
     Mem ''_head'' (struct_mk_list b)]"

definition struct_flb_out_flush_params :: "build \<Rightarrow> ctype" where
  "struct_flb_out_flush_params b = cstruct b
    [Mem ''event_chunk'' c_ptr, Mem ''out_flush'' c_ptr, Mem ''i_ins'' c_ptr,
     Mem ''out_plugin'' c_ptr, Mem ''out_context'' c_ptr, Mem ''config'' c_ptr,
     Mem ''coro'' c_ptr]"

text \<open>\<^verbatim>\<open>fluent-bit/flb_upstream_queue.h\<close>\<close>

definition struct_flb_upstream_queue :: "build \<Rightarrow> ctype" where
  "struct_flb_upstream_queue b = cstruct b
    [Mem ''av_queue'' (struct_mk_list b), Mem ''busy_queue'' (struct_mk_list b),
     Mem ''destroy_queue'' (struct_mk_list b)]"

text \<open>\<^verbatim>\<open>fluent-bit/flb_output_thread.h\<close>\<close>

definition struct_flb_out_thread_upstream :: "build \<Rightarrow> ctype" where
  "struct_flb_out_thread_upstream b = cstruct b
    [Mem ''u'' c_ptr, Mem ''queue'' (struct_flb_upstream_queue b),
     Mem ''_head'' (struct_mk_list b)]"

definition struct_flb_out_thread_instance :: "build \<Rightarrow> ctype" where
  "struct_flb_out_thread_instance b = cstruct b
    [Mem ''event'' (struct_mk_event b), Mem ''evl'' c_ptr, Mem ''evl_bktq'' c_ptr,
     Mem ''ch_parent_events'' (CArray 2 c_sock), Mem ''ch_thread_events'' (CArray 2 c_sock),
     Mem ''ins'' c_ptr, Mem ''config'' c_ptr, Mem ''th'' c_ptr,
     Mem ''_head'' (struct_mk_list b), Mem ''flush_id'' c_int,
     Mem ''flush_list'' (struct_mk_list b), Mem ''flush_list_destroy'' (struct_mk_list b),
     Mem ''flush_mutex'' (bd_ext b ''pthread_mutex_t''), Mem ''upstreams'' (struct_mk_list b)]"

text \<open>\<^verbatim>\<open>fluent-bit/flb_parser.h\<close>\<close>

definition struct_flb_parser_types :: "build \<Rightarrow> ctype" where
  "struct_flb_parser_types b = cstruct b
    [Mem ''key'' c_ptr, Mem ''key_len'' c_int, Mem ''type'' c_int]"

definition struct_flb_parser :: "build \<Rightarrow> ctype" where
  "struct_flb_parser b = cstruct b
    [Mem ''type'' c_int, Mem ''name'' c_ptr, Mem ''p_regex'' c_ptr, Mem ''skip_empty'' c_int,
     Mem ''time_fmt'' c_ptr, Mem ''time_fmt_full'' c_ptr, Mem ''time_key'' c_ptr,
     Mem ''time_offset'' c_int, Mem ''time_keep'' c_int, Mem ''time_strict'' c_int,
     Mem ''logfmt_no_bare_keys'' c_int, Mem ''time_frac_secs'' c_ptr, Mem ''types'' c_ptr,
     Mem ''types_len'' c_int, Mem ''decoders'' c_ptr, Mem ''time_with_year'' c_int,
     Mem ''time_fmt_year'' c_ptr, Mem ''time_with_tz'' c_int, Mem ''regex'' c_ptr,
     Mem ''_head'' (struct_mk_list b)]"

text \<open>\<^verbatim>\<open>fluent-bit/flb_processor.h\<close>\<close>

definition struct_flb_processor_unit :: "build \<Rightarrow> ctype" where
  "struct_flb_processor_unit b = cstruct b
    [Mem ''event_type'' c_int, Mem ''unit_type'' c_int, Mem ''name'' c_ptr,
     Mem ''stage'' c_int64, Mem ''ctx'' c_ptr, Mem ''lock'' (bd_ext b ''pthread_mutex_t''),
     Mem ''unused_list'' (struct_mk_list b), Mem ''_head'' (struct_mk_list b),
     Mem ''parent'' c_ptr]"

definition struct_flb_processor :: "build \<Rightarrow> ctype" where
  "struct_flb_processor b = cstruct b
    [Mem ''is_active'' c_int, Mem ''name'' c_ptr, Mem ''logs'' (struct_mk_list b),
     Mem ''metrics'' (struct_mk_list b), Mem ''traces'' (struct_mk_list b),
     Mem ''stage_count'' c_int64, Mem ''data'' c_ptr, Mem ''source_plugin_type'' c_int,
     Mem ''config'' c_ptr]"

definition struct_flb_processor_plugin :: "build \<Rightarrow> ctype" where
  "struct_flb_processor_plugin b = cstruct b
    [Mem ''flags'' c_int, Mem ''name'' c_ptr, Mem ''description'' c_ptr,
     Mem ''config_map'' c_ptr, Mem ''cb_init'' c_ptr, Mem ''cb_process_logs'' c_ptr,
     Mem ''cb_process_metrics'' c_ptr, Mem ''cb_process_traces'' c_ptr, Mem ''cb_exit'' c_ptr,
     Mem ''_head'' (struct_mk_list b)]"

definition struct_flb_processor_instance :: "build \<Rightarrow> ctype" where
  "struct_flb_processor_instance b = cstruct b
    [Mem ''id'' c_int, Mem ''log_level'' c_int, Mem ''name'' (CArray 32 c_char),
     Mem ''alias'' c_ptr, Mem ''context'' c_ptr, Mem ''data'' c_ptr, Mem ''p'' c_ptr,
     Mem ''properties'' (struct_mk_list b), Mem ''config_map'' c_ptr,
     Mem ''log_decoder'' c_ptr, Mem ''log_encoder'' c_ptr, Mem ''cmt'' c_ptr,
     Mem ''config'' c_ptr]"

text \<open>\<^verbatim>\<open>fluent-bit/flb_router.h\<close>\<close>

definition struct_flb_router_path :: "build \<Rightarrow> ctype" where
  "struct_flb_router_path b = cstruct b
    [Mem ''ins'' c_ptr, Mem ''_head'' (struct_mk_list b)]"

text \<open>\<^verbatim>\<open>fluent-bit/flb_scheduler.h\<close>\<close>

definition struct_flb_sched_timer :: "build \<Rightarrow> ctype" where
  "struct_flb_sched_timer b = cstruct b
    [Mem ''event'' (struct_mk_event b), Mem ''active'' c_int, Mem ''type'' c_int,
     Mem ''data'' c_ptr, Mem ''sched'' c_ptr, Mem ''timer_fd'' c_int, Mem ''cb'' c_ptr,
     Mem ''config'' c_ptr, Mem ''_head'' (struct_mk_list b)]"

definition struct_flb_sched_request :: "build \<Rightarrow> ctype" where
  "struct_flb_sched_request b = cstruct b
    [Mem ''fd'' c_sock, Mem ''created'' c_int64, Mem ''timeout'' c_int64, Mem ''data'' c_ptr,
     Mem ''timer'' c_ptr, Mem ''_head'' (struct_mk_list b)]"

definition struct_flb_sched :: "build \<Rightarrow> ctype" where
  "struct_flb_sched b = cstruct b
    [Mem ''requests'' (struct_mk_list b), Mem ''requests_wait'' (struct_mk_list b),
     Mem ''timers'' (struct_mk_list b), Mem ''timers_drop'' (struct_mk_list b),
     Mem ''frame_fd'' c_sock, Mem ''evl'' c_ptr, Mem ''config'' c_ptr]"

text \<open>\<^verbatim>\<open>fluent-bit/flb_sds.h\<close>\<close>

definition struct_flb_sds :: "build \<Rightarrow> ctype" where
  "struct_flb_sds b = cstruct b
    [Mem ''len'' (COpaque 8 1), Mem ''alloc'' (COpaque 8 1), Mem ''buf'' (CArray 0 c_char)]"

text \<open>\<^verbatim>\<open>fluent-bit/flb_storage.h\<close>\<close>

definition struct_flb_storage_metrics :: "build \<Rightarrow> ctype" where
  "struct_flb_storage_metrics b = cstruct b
    [Mem ''fd'' c_int, Mem ''cmt'' c_ptr, Mem ''cmt_chunks'' c_ptr,
     Mem ''cmt_mem_chunks'' c_ptr, Mem ''cmt_fs_chunks'' c_ptr, Mem ''cmt_fs_chunks_up'' c_ptr,
     Mem ''cmt_fs_chunks_down'' c_ptr]"

definition struct_flb_storage_input :: "build \<Rightarrow> ctype" where
  "struct_flb_storage_input b = cstruct b
    [Mem ''type'' c_int, Mem ''stream'' c_ptr, Mem ''cio'' c_ptr]"

text \<open>\<^verbatim>\<open>fluent-bit/flb_task.h\<close>\<close>

definition struct_flb_task_route :: "build \<Rightarrow> ctype" where
  "struct_flb_task_route b = cstruct b
    [Mem ''status'' c_int, Mem ''out'' c_ptr, Mem ''_head'' (struct_mk_list b)]"

definition struct_flb_task_retry :: "build \<Rightarrow> ctype" where
  "struct_flb_task_retry b = cstruct b
    [Mem ''attempts'' c_int, Mem ''o_ins'' c_ptr, Mem ''parent'' c_ptr,
     Mem ''_head'' (struct_mk_list b)]"

definition struct_flb_task :: "build \<Rightarrow> ctype" where
  "struct_flb_task b = cstruct b
    [Mem ''id'' c_int, Mem ''ref_id'' c_int64, Mem ''status'' c_char, Mem ''users'' c_int,
     Mem ''event_chunk'' c_ptr, Mem ''ic'' c_ptr, MemIf ''FLB_HAVE_METRICS'' ''records'' c_int,
     Mem ''routes'' (struct_mk_list b), Mem ''retries'' (struct_mk_list b),
     Mem ''_head'' (struct_mk_list b), Mem ''i_ins'' c_ptr, Mem ''config'' c_ptr,
     Mem ''lock'' (bd_ext b ''pthread_mutex_t'')]"

definition struct_flb_task_queue :: "build \<Rightarrow> ctype" where
  "struct_flb_task_queue b = cstruct b
    [Mem ''pending'' (struct_mk_list b), Mem ''in_progress'' (struct_mk_list b)]"

definition struct_flb_task_enqueued :: "build \<Rightarrow> ctype" where
  "struct_flb_task_enqueued b = cstruct b
    [Mem ''task'' c_ptr, Mem ''retry'' c_ptr, Mem ''out_instance'' c_ptr, Mem ''config'' c_ptr,
     Mem ''_head'' (struct_mk_list b)]"

text \<open>\<^verbatim>\<open>fluent-bit/flb_time.h\<close>\<close>

definition struct_flb_tm :: "build \<Rightarrow> ctype" where
  "struct_flb_tm b = cstruct b
    [Mem ''tm'' (bd_ext b ''struct tm''), MemUnless ''FLB_HAVE_GMTOFF'' ''tm_gmtoff'' c_long]"

text \<open>\<^verbatim>\<open>fluent-bit/flb_upstream.h\<close>\<close>

definition struct_flb_upstream :: "build \<Rightarrow> ctype" where
  "struct_flb_upstream b = cstruct b
    [Mem ''base'' (struct_flb_stream b), Mem ''tcp_host'' c_ptr, Mem ''tcp_port'' c_int,
     Mem ''proxied_host'' c_ptr, Mem ''proxied_port'' c_int, Mem ''proxy_username'' c_ptr,
     Mem ''proxy_password'' c_ptr, Mem ''ha_mode'' c_int, Mem ''ha_ctx'' c_ptr,
     Mem ''cmt_total_connections'' c_ptr, Mem ''cmt_busy_connections'' c_ptr,
     Mem ''cmt_total_connections_label'' c_ptr, Mem ''cmt_busy_connections_label'' c_ptr,
     Mem ''parent_upstream'' c_ptr, Mem ''queue'' (struct_flb_upstream_queue b)]"

text \<open>\<^verbatim>\<open>fluent-bit/flb_upstream_node.h\<close>\<close>

definition struct_flb_upstream_node :: "build \<Rightarrow> ctype" where
  "struct_flb_upstream_node b = cstruct b
    [Mem ''name'' c_ptr, Mem ''host'' c_ptr, Mem ''port'' c_ptr, Mem ''tls_enabled'' c_int,
     MemIf ''FLB_HAVE_TLS'' ''tls_verify'' c_int, MemIf ''FLB_HAVE_TLS'' ''tls_debug'' c_int,
     MemIf ''FLB_HAVE_TLS'' ''tls_ca_path'' c_ptr,
     MemIf ''FLB_HAVE_TLS'' ''tls_ca_file'' c_ptr,
     MemIf ''FLB_HAVE_TLS'' ''tls_crt_file'' c_ptr,
     MemIf ''FLB_HAVE_TLS'' ''tls_key_file'' c_ptr,
     MemIf ''FLB_HAVE_TLS'' ''tls_key_passwd'' c_ptr, Mem ''tls'' c_ptr, Mem ''ht'' c_ptr,
     Mem ''u'' c_ptr, Mem ''data'' c_ptr, Mem ''_head'' (struct_mk_list b)]"

text \<open>\<^verbatim>\<open>fluent-bit/flb_uri.h\<close>\<close>

definition struct_flb_uri_field :: "build \<Rightarrow> ctype" where
  "struct_flb_uri_field b = cstruct b
    [Mem ''length'' c_int64, Mem ''value'' c_ptr, Mem ''_head'' (struct_mk_list b)]"

definition struct_flb_uri :: "build \<Rightarrow> ctype" where
  "struct_flb_uri b = cstruct b
    [Mem ''full'' c_ptr, Mem ''count'' c_char, Mem ''list'' (struct_mk_list b),
     Mem ''map'' c_ptr]"

text \<open>\<^verbatim>\<open>fluent-bit/flb_worker.h\<close>\<close>

definition struct_flb_worker :: "build \<Rightarrow> ctype" where
  "struct_flb_worker b = cstruct b
    [Mem ''event'' (struct_mk_event b), Mem ''func'' c_ptr, Mem ''data'' c_ptr,
     Mem ''tid'' (bd_ext b ''pthread_t''), Mem ''log_cache'' c_ptr,
     Mem ''log'' (CArray 2 c_sock), Mem ''config'' c_ptr, Mem ''log_ctx'' c_ptr,
     Mem ''mutex'' (bd_ext b ''pthread_mutex_t''), Mem ''_head'' (struct_mk_list b)]"

text \<open>All of them.\<close>

definition engine_structs :: "build \<Rightarrow> ctype list" where
  "engine_structs b =
    [struct_flb_bucket_queue b, struct_flb_bswap_value_internal b, struct_flb_callback_entry b,
     struct_flb_callback b, struct_flb_time b, struct_flb_task_map b, struct_flb_config b,
     struct_flb_service_config b, struct_flb_config_map_val b, struct_flb_config_map b,
     struct_flb_connection b, struct_flb_coro b, struct_flb_custom_plugin b,
     struct_flb_custom_instance b, struct_flb_net_setup b, struct_flb_stream b,
     struct_flb_downstream b, struct_flb_env b, struct_flb_event_chunk b,
     struct_flb_filter_plugin b, struct_flb_filter_instance b, struct_flb_hash_table_entry b,
     struct_flb_hash_table_chain b, struct_flb_hash_table b, struct_flb_input_plugin b,
     struct_flb_net_host b, struct_flb_input_instance b, struct_flb_input_collector b,
     struct_flb_input_coro b, struct_flb_libco_in_params b, struct_flb_input_chunk b,
     struct_flb_input_thread b, struct_flb_input_thread_instance b, struct_flb_kernel b,
     struct_flb_log b, struct_flb_log_cache_entry b, struct_flb_log_cache b,
     struct_flb_log_event b, struct_flb_log_event_decoder b,
     struct_flb_log_event_encoder_dynamic_field b, struct_flb_log_event_encoder b,
     struct_flb_mp_map_header b, struct_flb_log_event_encoder_dynamic_field_scope b,
     struct_flb_mp_accessor_match b, struct_flb_mp_accessor b, struct_flb_dns_lookup_context b,
     struct_flb_test_out_formatter b, struct_flb_output_plugin b, struct_flb_output_instance b,
     struct_flb_output_flush b, struct_flb_out_flush_params b, struct_flb_upstream_queue b,
     struct_flb_out_thread_upstream b, struct_flb_out_thread_instance b,
     struct_flb_parser_types b, struct_flb_parser b, struct_flb_processor_unit b,
     struct_flb_processor b, struct_flb_processor_plugin b, struct_flb_processor_instance b,
     struct_flb_router_path b, struct_flb_sched_timer b, struct_flb_sched_request b,
     struct_flb_sched b, struct_flb_sds b, struct_flb_storage_metrics b,
     struct_flb_storage_input b, struct_flb_task_route b, struct_flb_task_retry b,
     struct_flb_task b, struct_flb_task_queue b, struct_flb_task_enqueued b, struct_flb_tm b,
     struct_flb_upstream b, struct_flb_upstream_node b, struct_flb_uri_field b,
     struct_flb_uri b, struct_flb_worker b]"

lemmas engine_structs_defs = struct_flb_bucket_queue_def struct_flb_bswap_value_internal_def
    struct_flb_callback_entry_def struct_flb_callback_def struct_flb_time_def
    struct_flb_task_map_def struct_flb_config_def struct_flb_service_config_def
    struct_flb_config_map_val_def struct_flb_config_map_def struct_flb_connection_def
    struct_flb_coro_def struct_flb_custom_plugin_def struct_flb_custom_instance_def
    struct_flb_net_setup_def struct_flb_stream_def struct_flb_downstream_def
    struct_flb_env_def struct_flb_event_chunk_def struct_flb_filter_plugin_def
    struct_flb_filter_instance_def struct_flb_hash_table_entry_def
    struct_flb_hash_table_chain_def struct_flb_hash_table_def struct_flb_input_plugin_def
    struct_flb_net_host_def struct_flb_input_instance_def struct_flb_input_collector_def
    struct_flb_input_coro_def struct_flb_libco_in_params_def struct_flb_input_chunk_def
    struct_flb_input_thread_def struct_flb_input_thread_instance_def struct_flb_kernel_def
    struct_flb_log_def struct_flb_log_cache_entry_def struct_flb_log_cache_def
    struct_flb_log_event_def struct_flb_log_event_decoder_def
    struct_flb_log_event_encoder_dynamic_field_def struct_flb_log_event_encoder_def
    struct_flb_mp_map_header_def struct_flb_log_event_encoder_dynamic_field_scope_def
    struct_flb_mp_accessor_match_def struct_flb_mp_accessor_def
    struct_flb_dns_lookup_context_def struct_flb_test_out_formatter_def
    struct_flb_output_plugin_def struct_flb_output_instance_def struct_flb_output_flush_def
    struct_flb_out_flush_params_def struct_flb_upstream_queue_def
    struct_flb_out_thread_upstream_def struct_flb_out_thread_instance_def
    struct_flb_parser_types_def struct_flb_parser_def struct_flb_processor_unit_def
    struct_flb_processor_def struct_flb_processor_plugin_def
    struct_flb_processor_instance_def struct_flb_router_path_def struct_flb_sched_timer_def
    struct_flb_sched_request_def struct_flb_sched_def struct_flb_sds_def
    struct_flb_storage_metrics_def struct_flb_storage_input_def struct_flb_task_route_def
    struct_flb_task_retry_def struct_flb_task_def struct_flb_task_queue_def
    struct_flb_task_enqueued_def struct_flb_tm_def struct_flb_upstream_def
    struct_flb_upstream_node_def struct_flb_uri_field_def struct_flb_uri_def
    struct_flb_worker_def

lemma wf_engine_structs: "ext_ok b \<Longrightarrow> list_all wf_ctype (engine_structs b)"
  by (simp add: engine_structs_def engine_structs_defs monkey_structs_defs members_ok_def wf_cstruct sa_ok_def alignments_def)

end
