(* ===== verification/Flb_Plugins.thy ===== *)
theory Flb_Plugins
  imports Flb_Config Flb_Heap Types_Engine
begin

text \<open>
  The registry of built-in plugins, \<^verbatim>\<open>fluent-bit/flb_plugins.h\<close>.  Registration copies each static
  plugin description to the heap and links the copy into the list of its kind;
  unregistration walks the lists, runs the destroy callbacks, unlinks and frees.  The theorems
  are about every pattern of allocation failures.
\<close>

section \<open>Plugins, layouts and the state\<close>

datatype plugin_kind = PCustom | PInput | POutput | PFilter | PProcessor

text \<open>
  The size of a plugin structure and the offset of its list node depend on the compiled
  features: a parameter.  \<open>plugin\<close> is what the registry reads of a description: which static
  description it is a copy of, and its destroy callback.
\<close>

record layout =
  lay_size :: "plugin_kind \<Rightarrow> size_t"
  lay_head :: "plugin_kind \<Rightarrow> nat"

record plugin =
  pl_name :: string
  pl_cb_destroy :: ptr

record 'x plugin_world =
  pw_mem :: mem
  pw_links :: lheap
  pw_plugins :: "ptr \<rightharpoonup> plugin"
  pw_ext :: 'x

fun registry :: "flb_config \<Rightarrow> plugin_kind \<Rightarrow> ptr" where
  "registry cfg PCustom = cf_custom_plugins cfg"
| "registry cfg PInput = cf_in_plugins cfg"
| "registry cfg POutput = cf_out_plugins cfg"
| "registry cfg PFilter = cf_filter_plugins cfg"
| "registry cfg PProcessor = cf_processor_plugins cfg"

section \<open>The built-in plugins, in the order of registration\<close>

definition builtin_customs :: "(plugin_kind \<times> string) list" where
  "builtin_customs = map (Pair PCustom)
    [''custom_calyptia_plugin'']"

definition builtin_inputs_1 :: "(plugin_kind \<times> string) list" where
  "builtin_inputs_1 = map (Pair PInput)
    [''in_kubernetes_events_plugin'', ''in_fluentbit_metrics_plugin'',
     ''in_prometheus_scrape_plugin'', ''in_emitter_plugin'', ''in_tail_plugin'',
     ''in_dummy_plugin'', ''in_http_plugin'', ''in_statsd_plugin'', ''in_opentelemetry_plugin'',
     ''in_elasticsearch_plugin'', ''in_splunk_plugin'', ''in_event_test_plugin'',
     ''in_event_type_plugin'']"

definition builtin_inputs_2 :: "(plugin_kind \<times> string) list" where
  "builtin_inputs_2 = map (Pair PInput)
    [''in_storage_backlog_plugin'', ''in_nginx_exporter_metrics_plugin'',
     ''in_stream_processor_plugin'', ''in_winlog_plugin'', ''in_winstat_plugin'',
     ''in_winevtlog_plugin'', ''in_windows_exporter_metrics_plugin'', ''in_syslog_plugin'',
     ''in_udp_plugin'', ''in_tcp_plugin'', ''in_lib_plugin'', ''in_forward_plugin'',
     ''in_random_plugin'']"

definition builtin_outputs_1 :: "(plugin_kind \<times> string) list" where
  "builtin_outputs_1 = map (Pair POutput)
    [''out_azure_plugin'', ''out_azure_blob_plugin'', ''out_azure_logs_ingestion_plugin'',
     ''out_azure_kusto_plugin'', ''out_calyptia_plugin'', ''out_counter_plugin'',
     ''out_datadog_plugin'', ''out_es_plugin'', ''out_file_plugin'', ''out_forward_plugin'',
     ''out_http_plugin'', ''out_influxdb_plugin'', ''out_logdna_plugin'']"

definition builtin_outputs_2 :: "(plugin_kind \<times> string) list" where
  "builtin_outputs_2 = map (Pair POutput)
    [''out_loki_plugin'', ''out_nrlogs_plugin'', ''out_null_plugin'', ''out_opensearch_plugin'',
     ''out_skywalking_plugin'', ''out_slack_plugin'', ''out_splunk_plugin'',
     ''out_stackdriver_plugin'', ''out_stdout_plugin'', ''out_syslog_plugin'',
     ''out_tcp_plugin'', ''out_udp_plugin'', ''out_lib_plugin'']"

definition builtin_outputs_3 :: "(plugin_kind \<times> string) list" where
  "builtin_outputs_3 = map (Pair POutput)
    [''out_flowcounter_plugin'', ''out_gelf_plugin'', ''out_websocket_plugin'',
     ''out_cloudwatch_logs_plugin'', ''out_kinesis_firehose_plugin'',
     ''out_kinesis_streams_plugin'', ''out_opentelemetry_plugin'',
     ''out_prometheus_exporter_plugin'', ''out_prometheus_remote_write_plugin'',
     ''out_s3_plugin'', ''out_vivo_exporter_plugin'', ''out_chronicle_plugin'']"

definition builtin_filters_1 :: "(plugin_kind \<times> string) list" where
  "builtin_filters_1 = map (Pair PFilter)
    [''filter_alter_size_plugin'', ''filter_aws_plugin'', ''filter_checklist_plugin'',
     ''filter_ecs_plugin'', ''filter_record_modifier_plugin'', ''filter_throttle_plugin'',
     ''filter_throttle_size_plugin'', ''filter_type_converter_plugin'',
     ''filter_kubernetes_plugin'', ''filter_modify_plugin'', ''filter_multiline_plugin'']"

definition builtin_filters_2 :: "(plugin_kind \<times> string) list" where
  "builtin_filters_2 = map (Pair PFilter)
    [''filter_nest_plugin'', ''filter_parser_plugin'', ''filter_expect_plugin'',
     ''filter_grep_plugin'', ''filter_rewrite_tag_plugin'', ''filter_log_to_metrics_plugin'',
     ''filter_lua_plugin'', ''filter_stdout_plugin'', ''filter_geoip2_plugin'',
     ''filter_nightfall_plugin'']"

definition builtin_processors :: "(plugin_kind \<times> string) list" where
  "builtin_processors = map (Pair PProcessor)
    [''processor_labels_plugin'', ''processor_attributes_plugin'']"

definition builtin_plugins :: "(plugin_kind \<times> string) list" where
  "builtin_plugins = builtin_customs @ builtin_inputs_1 @ builtin_inputs_2 @
     builtin_outputs_1 @ builtin_outputs_2 @ builtin_outputs_3 @
     builtin_filters_1 @ builtin_filters_2 @ builtin_processors"

text \<open>
  The static descriptions that the header declares, with the kind of their type.  Registration goes through
  all of them, in this order and without repetition.
\<close>

definition declared_plugins :: "(plugin_kind \<times> string) list" where
  "declared_plugins =
    [(PCustom, ''custom_calyptia_plugin''), (PInput, ''in_kubernetes_events_plugin''),
     (PInput, ''in_fluentbit_metrics_plugin''), (PInput, ''in_prometheus_scrape_plugin''),
     (PInput, ''in_emitter_plugin''), (PInput, ''in_tail_plugin''), (PInput, ''in_dummy_plugin''),
     (PInput, ''in_http_plugin''), (PInput, ''in_statsd_plugin''),
     (PInput, ''in_opentelemetry_plugin''), (PInput, ''in_elasticsearch_plugin''),
     (PInput, ''in_splunk_plugin''), (PInput, ''in_event_test_plugin''),
     (PInput, ''in_event_type_plugin''), (PInput, ''in_storage_backlog_plugin''),
     (PInput, ''in_nginx_exporter_metrics_plugin''), (PInput, ''in_stream_processor_plugin''),
     (PInput, ''in_winlog_plugin''), (PInput, ''in_winstat_plugin''), (PInput, ''in_winevtlog_plugin''),
     (PInput, ''in_windows_exporter_metrics_plugin''), (PInput, ''in_syslog_plugin''),
     (PInput, ''in_udp_plugin''), (PInput, ''in_tcp_plugin''), (PInput, ''in_lib_plugin''),
     (PInput, ''in_forward_plugin''), (PInput, ''in_random_plugin''), (POutput, ''out_azure_plugin''),
     (POutput, ''out_azure_blob_plugin''), (POutput, ''out_azure_logs_ingestion_plugin''),
     (POutput, ''out_azure_kusto_plugin''), (POutput, ''out_calyptia_plugin''),
     (POutput, ''out_counter_plugin''), (POutput, ''out_datadog_plugin''), (POutput, ''out_es_plugin''),
     (POutput, ''out_file_plugin''), (POutput, ''out_forward_plugin''), (POutput, ''out_http_plugin''),
     (POutput, ''out_influxdb_plugin''), (POutput, ''out_logdna_plugin''),
     (POutput, ''out_loki_plugin''), (POutput, ''out_nrlogs_plugin''), (POutput, ''out_null_plugin''),
     (POutput, ''out_opensearch_plugin''), (POutput, ''out_skywalking_plugin''),
     (POutput, ''out_slack_plugin''), (POutput, ''out_splunk_plugin''),
     (POutput, ''out_stackdriver_plugin''), (POutput, ''out_stdout_plugin''),
     (POutput, ''out_syslog_plugin''), (POutput, ''out_tcp_plugin''), (POutput, ''out_udp_plugin''),
     (POutput, ''out_lib_plugin''), (POutput, ''out_flowcounter_plugin''),
     (POutput, ''out_gelf_plugin''), (POutput, ''out_websocket_plugin''),
     (POutput, ''out_cloudwatch_logs_plugin''), (POutput, ''out_kinesis_firehose_plugin''),
     (POutput, ''out_kinesis_streams_plugin''), (POutput, ''out_opentelemetry_plugin''),
     (POutput, ''out_prometheus_exporter_plugin''), (POutput, ''out_prometheus_remote_write_plugin''),
     (POutput, ''out_s3_plugin''), (POutput, ''out_vivo_exporter_plugin''),
     (POutput, ''out_chronicle_plugin''), (PFilter, ''filter_alter_size_plugin''),
     (PFilter, ''filter_aws_plugin''), (PFilter, ''filter_checklist_plugin''),
     (PFilter, ''filter_ecs_plugin''), (PFilter, ''filter_record_modifier_plugin''),
     (PFilter, ''filter_throttle_plugin''), (PFilter, ''filter_throttle_size_plugin''),
     (PFilter, ''filter_type_converter_plugin''), (PFilter, ''filter_kubernetes_plugin''),
     (PFilter, ''filter_modify_plugin''), (PFilter, ''filter_multiline_plugin''),
     (PFilter, ''filter_nest_plugin''), (PFilter, ''filter_parser_plugin''),
     (PFilter, ''filter_expect_plugin''), (PFilter, ''filter_grep_plugin''),
     (PFilter, ''filter_rewrite_tag_plugin''), (PFilter, ''filter_log_to_metrics_plugin''),
     (PFilter, ''filter_lua_plugin''), (PFilter, ''filter_stdout_plugin''),
     (PFilter, ''filter_geoip2_plugin''), (PFilter, ''filter_nightfall_plugin''),
     (PProcessor, ''processor_labels_plugin''), (PProcessor, ''processor_attributes_plugin'')]"

lemma declared_plugins_registered: "builtin_plugins = declared_plugins" "distinct builtin_plugins"
proof -
  show *: "builtin_plugins = declared_plugins"
    by (simp add: builtin_plugins_def builtin_customs_def builtin_inputs_1_def builtin_inputs_2_def builtin_outputs_1_def
      builtin_outputs_2_def builtin_outputs_3_def builtin_filters_1_def builtin_filters_2_def builtin_processors_def
      declared_plugins_def)
  show "distinct builtin_plugins" unfolding * declared_plugins_def by code_simp
qed

section \<open>Operations\<close>

text \<open>
  One block of \<^verbatim>\<open>flb_plugins_register\<close>.  The copy brings the null links of the static
  description, so the node starts with null pointers.
\<close>

definition register_plugin ::
  "allocator \<Rightarrow> layout \<Rightarrow> (string \<Rightarrow> plugin) \<Rightarrow> flb_config \<Rightarrow> plugin_kind \<times> string \<Rightarrow>
     'x plugin_world \<Rightarrow> (int \<times> 'x plugin_world) option" where
  "register_plugin al lay statics cfg kn w =
     (let (k, name) = kn; (p, m) = flb_malloc al (lay_size lay k) (pw_mem w)
      in if p = NULL then Some (- 1, w\<lparr>pw_mem := m\<rparr>)
         else do {
           h \<leftarrow> mk_list_add (p + lay_head lay k) (registry cfg k)
                 ((pw_links w)(p + lay_head lay k \<mapsto> zero_node));
           Some (0, w\<lparr>pw_mem := m, pw_links := h, pw_plugins := (pw_plugins w)(p \<mapsto> statics name)\<rparr>)
         })"

fun register_all ::
  "allocator \<Rightarrow> layout \<Rightarrow> (string \<Rightarrow> plugin) \<Rightarrow> flb_config \<Rightarrow> (plugin_kind \<times> string) list \<Rightarrow>
     'x plugin_world \<Rightarrow> (int \<times> 'x plugin_world) option" where
  "register_all al lay statics cfg [] w = Some (0, w)"
| "register_all al lay statics cfg (kn # kns) w =
     Option.bind (register_plugin al lay statics cfg kn w) (\<lambda>(r, w).
       if r = 0 then register_all al lay statics cfg kns w else Some (r, w))"

definition flb_plugins_register ::
  "allocator \<Rightarrow> layout \<Rightarrow> (string \<Rightarrow> plugin) \<Rightarrow> flb_config \<Rightarrow> 'x plugin_world \<Rightarrow>
     (int \<times> 'x plugin_world) option" where
  "flb_plugins_register al lay statics cfg w = register_all al lay statics cfg builtin_plugins w"

text \<open>
  The body of one unregistration loop; only input and output plugins have a destroy callback.
  Freeing the structure removes its block, its node and its contents.
\<close>

definition unregister_plugin ::
  "(ptr \<Rightarrow> ptr \<Rightarrow> 'x \<Rightarrow> 'x) \<Rightarrow> layout \<Rightarrow> plugin_kind \<Rightarrow> ptr \<Rightarrow> 'x plugin_world \<Rightarrow> 'x plugin_world option" where
  "unregister_plugin call lay k head w = do {
     let p = container_of head (lay_head lay k);
     pl \<leftarrow> pw_plugins w p;
     let w = (if (k = PInput \<or> k = POutput) \<and> pl_cb_destroy pl \<noteq> NULL
              then w\<lparr>pw_ext := call (pl_cb_destroy pl) p (pw_ext w)\<rparr> else w);
     h \<leftarrow> mk_list_del (p + lay_head lay k) (pw_links w);
     m \<leftarrow> flb_free p (pw_mem w);
     Some (w\<lparr>pw_mem := m, pw_links := h(p + lay_head lay k := None),
             pw_plugins := (pw_plugins w)(p := None)\<rparr>)
   }"

definition unregister_kind ::
  "(ptr \<Rightarrow> ptr \<Rightarrow> 'x \<Rightarrow> 'x) \<Rightarrow> layout \<Rightarrow> flb_config \<Rightarrow> plugin_kind \<Rightarrow> 'x plugin_world \<Rightarrow>
     'x plugin_world option" where
  "unregister_kind call lay cfg k w =
     mk_list_foreach_safe pw_links (unregister_plugin call lay k) (registry cfg k) w"

definition flb_plugins_unregister ::
  "(ptr \<Rightarrow> ptr \<Rightarrow> 'x \<Rightarrow> 'x) \<Rightarrow> layout \<Rightarrow> flb_config \<Rightarrow> 'x plugin_world \<Rightarrow> 'x plugin_world option" where
  "flb_plugins_unregister call lay cfg w = do {
     w \<leftarrow> unregister_kind call lay cfg PCustom w;
     w \<leftarrow> unregister_kind call lay cfg PInput w;
     w \<leftarrow> unregister_kind call lay cfg POutput w;
     w \<leftarrow> unregister_kind call lay cfg PFilter w;
     unregister_kind call lay cfg PProcessor w
   }"

section \<open>Invariant\<close>

definition kinds :: "plugin_kind list" where
  "kinds = [PCustom, PInput, POutput, PFilter, PProcessor]"

fun kind_index :: "plugin_kind \<Rightarrow> nat" where
  "kind_index PCustom = 0"
| "kind_index PInput = 1"
| "kind_index POutput = 2"
| "kind_index PFilter = 3"
| "kind_index PProcessor = 4"

definition registries :: "flb_config \<Rightarrow> ptr list" where
  "registries cfg = map (registry cfg) kinds"

text \<open>
  \<open>reg m0 lay cfg ps w\<close>: the registry of each kind \<open>k\<close> holds the plugins \<open>ps k\<close>; each is a live
  block that was not one in \<open>m0\<close>, and no other block changed since \<open>m0\<close>.
\<close>

definition node_lists :: "layout \<Rightarrow> (plugin_kind \<Rightarrow> ptr list) \<Rightarrow> ptr list list" where
  "node_lists lay ps = map (\<lambda>k. map (\<lambda>p. p + lay_head lay k) (ps k)) kinds"

definition reg :: "mem \<Rightarrow> layout \<Rightarrow> flb_config \<Rightarrow> (plugin_kind \<Rightarrow> ptr list) \<Rightarrow> 'x plugin_world \<Rightarrow> bool" where
  "reg m0 lay cfg ps w \<longleftrightarrow>
     family dll (pw_links w) (registries cfg) (node_lists lay ps) \<and>
     distinct (concat (map ps kinds)) \<and>
     (\<forall>k. \<forall>p \<in> set (ps k). p \<noteq> NULL \<and> blocks m0 p = None \<and> blocks (pw_mem w) p \<noteq> None \<and>
        pw_plugins w p \<noteq> None) \<and>
     (\<forall>q. (\<forall>k. q \<notin> set (ps k)) \<longrightarrow> blocks (pw_mem w) q = blocks m0 q)"

definition layout_ok :: "layout \<Rightarrow> bool" where
  "layout_ok lay \<longleftrightarrow> (\<forall>k. lay_head lay k < unat (lay_size lay k))"

lemma kinds_index [simp]: "kind_index k < 5" "kinds ! kind_index k = k" "length kinds = 5"
  by (cases k; simp add: kinds_def)+

lemma set_kinds [simp]: "set kinds = UNIV" "k \<in> set kinds"
  using plugin_kind.exhaust by (auto simp: kinds_def)

lemma registries_nth [simp]: "registries cfg ! kind_index k = registry cfg k" "length (registries cfg) = 5"
  by (simp_all add: registries_def)

lemma node_lists_nth [simp]:
  "node_lists lay ps ! kind_index k = map (\<lambda>p. p + lay_head lay k) (ps k)" "length (node_lists lay ps) = 5"
  by (simp_all add: node_lists_def)

lemma node_lists_update:
  "node_lists lay (ps(k := xs)) = (node_lists lay ps)[kind_index k := map (\<lambda>p. p + lay_head lay k) xs]"
  by (cases k) (simp_all add: node_lists_def kinds_def)

lemma regD:
  assumes "reg m0 lay cfg ps w" "p \<in> set (ps k)"
  shows "p \<noteq> NULL" "blocks m0 p = None" "blocks (pw_mem w) p \<noteq> None" "pw_plugins w p \<noteq> None"
  using assms unfolding reg_def by blast+

section \<open>Registration\<close>

lemma register_plugin_reg:
  assumes al: "fresh_allocator al" "sep_allocator al" "layout_ok lay"
    and inv: "reg m0 lay cfg ps w" "nodes_in_blocks (pw_links w) (pw_mem w)"
  shows "(\<exists>w'. register_plugin al lay statics cfg (k, name) w = Some (- 1, w') \<and> reg m0 lay cfg ps w' \<and>
       pw_plugins w' = pw_plugins w \<and> al (pw_mem w) (lay_size lay k) = NULL) \<or>
    (\<exists>p w'. register_plugin al lay statics cfg (k, name) w = Some (0, w') \<and>
       reg m0 lay cfg (ps(k := ps k @ [p])) w' \<and> nodes_in_blocks (pw_links w') (pw_mem w') \<and>
       pw_plugins w' = (pw_plugins w)(p \<mapsto> statics name) \<and> (\<forall>k. p \<notin> set (ps k)))"
proof -
  obtain p m where pm: "flb_malloc al (lay_size lay k) (pw_mem w) = (p, m)" by fastforce
  note mb = flb_malloc_blocks [OF pm al(1)]
  have fam: "family dll (pw_links w) (registries cfg) (node_lists lay ps)" using inv(1) by (simp add: reg_def)
  show ?thesis
  proof (cases "p = NULL")
    case True
    have "lay_size lay k \<noteq> 0" using al(3) by (auto simp: layout_ok_def dest!: spec [of _ k])
    then have "al (pw_mem w) (lay_size lay k) = NULL"
      using pm True by (auto simp: flb_malloc_def malloc_def Let_def split: if_splits)
    with True mb pm inv(1) show ?thesis by (auto simp: register_plugin_def reg_def)
  next
    case False
    let ?n = "p + lay_head lay k"
    define h1 where "h1 = (pw_links w)(?n \<mapsto> zero_node)"
    have p: "p = al (pw_mem w) (lay_size lay k)"
      using pm False by (auto simp: flb_malloc_def malloc_def Let_def split: if_splits)
    have off: "lay_head lay k < unat (lay_size lay k)" using al(3) by (simp add: layout_ok_def)
    have fresh: "?n \<notin> dom (pw_links w)"
      using sep_allocator_fresh_node [OF al(2) inv(2) _ off] False p by simp
    have nm: "?n \<notin> members (registries cfg) (node_lists lay ps)"
      using members_valid [OF fam] fresh by (auto simp: valid_def)
    have "family dll h1 (registries cfg) (node_lists lay ps)"
      by (rule family_frame [OF fam]) (use nm in \<open>auto simp: h1_def\<close>)
    moreover have "valid h1 ?n" using False by (simp add: valid_def h1_def)
    ultimately obtain h2 where h2: "mk_list_add ?n (registry cfg k) h1 = Some h2"
        "family dll h2 (registries cfg) (node_lists lay (ps(k := ps k @ [p])))" "dom h2 = dom h1"
      using ml.family_add [of h1 "registries cfg" "node_lists lay ps" "kind_index k" ?n] nm
      by (auto simp: node_lists_update frame_def)
    define w' where "w' = w\<lparr>pw_mem := m, pw_links := h2, pw_plugins := (pw_plugins w)(p \<mapsto> statics name)\<rparr>"
    have r: "register_plugin al lay statics cfg (k, name) w = Some (0, w')"
      using pm False h2(1) by (simp add: register_plugin_def h1_def w'_def)
    have blk: "blocks (pw_mem w) p = None" "blocks m = (blocks (pw_mem w))(p \<mapsto> replicate (unat (lay_size lay k)) None)"
      using mb False by auto
    have np: "p \<notin> set (ps k')" for k' using regD(3) [OF inv(1)] blk(1) by blast
    have m0: "blocks m0 p = None" using inv(1) blk(1) np by (auto simp: reg_def)
    have "distinct (concat (map (ps(k := ps k @ [p])) kinds))"
      using inv(1) np unfolding reg_def kinds_def by (cases k) auto
    then have "reg m0 lay cfg (ps(k := ps k @ [p])) w'"
      using inv(1) h2(2) blk m0 False by (auto simp: reg_def w'_def)
    moreover have "nodes_in_blocks h2 m"
      by (rule nodes_in_blocks_new [OF inv(2) blk(2,1)]) (use off h2(3) in \<open>auto simp: h1_def\<close>)
    ultimately show ?thesis using r np by (auto simp: w'_def)
  qed
qed

text \<open>The plugins of one kind in a list of (kind, name, address) triples.\<close>

definition of_kind :: "((plugin_kind \<times> string) \<times> ptr) list \<Rightarrow> plugin_kind \<Rightarrow> ptr list" where
  "of_kind xs k = map snd (filter (\<lambda>x. fst (fst x) = k) xs)"

definition copied :: "(string \<Rightarrow> plugin) \<Rightarrow> ((plugin_kind \<times> string) \<times> ptr) list \<Rightarrow> 'x plugin_world \<Rightarrow> bool" where
  "copied statics xs w \<longleftrightarrow> (\<forall>x \<in> set xs. pw_plugins w (snd x) = Some (statics (snd (fst x))))"

lemma of_kind_snoc: "of_kind (xs @ [((k, n), p)]) = (of_kind xs)(k := of_kind xs k @ [p])"
  by (auto simp: of_kind_def)

lemma of_kind_mem: "x \<in> set xs \<Longrightarrow> snd x \<in> set (of_kind xs (fst (fst x)))"
  by (auto simp: of_kind_def)

lemma register_all_reg:
  assumes al: "fresh_allocator al" "sep_allocator al" "layout_ok lay"
    and "reg m0 lay cfg (of_kind xs) w" "nodes_in_blocks (pw_links w) (pw_mem w)" "copied statics xs w"
  shows "\<exists>r w' ys. register_all al lay statics cfg kns w = Some (r, w') \<and>
    reg m0 lay cfg (of_kind (xs @ ys)) w' \<and> copied statics (xs @ ys) w' \<and>
    (r = 0 \<and> map fst ys = kns \<or>
     r = - 1 \<and> (\<exists>m sz. length ys < length kns \<and> map fst ys = take (length ys) kns \<and> al m sz = NULL))"
  using assms(4-)
proof (induction kns arbitrary: xs w)
  case Nil
  then show ?case by (intro exI [of _ 0] exI [of _ w] exI [of _ "[]"]) simp
next
  case (Cons kn kns)
  obtain k n where kn: "kn = (k, n)" by fastforce
  from register_plugin_reg [OF al Cons.prems(1,2), of statics k n] show ?case
  proof (elim disjE exE conjE)
    fix w'
    assume "register_plugin al lay statics cfg (k, n) w = Some (- 1, w')" "reg m0 lay cfg (of_kind xs) w'"
      "pw_plugins w' = pw_plugins w" "al (pw_mem w) (lay_size lay k) = NULL"
    then show ?thesis using Cons.prems(3) kn
      by (intro exI [of _ "- 1"] exI [of _ w'] exI [of _ "[]"]) (auto simp: copied_def)
  next
    fix p w'
    assume r: "register_plugin al lay statics cfg (k, n) w = Some (0, w')"
      "reg m0 lay cfg ((of_kind xs)(k := of_kind xs k @ [p])) w'"
      "nodes_in_blocks (pw_links w') (pw_mem w')" "pw_plugins w' = (pw_plugins w)(p \<mapsto> statics n)"
      "\<forall>k. p \<notin> set (of_kind xs k)"
    have "copied statics (xs @ [((k, n), p)]) w'"
      using Cons.prems(3) r(4,5) of_kind_mem [of _ xs] by (fastforce simp: copied_def)
    from Cons.IH [OF r(2) [folded of_kind_snoc [of xs k n p]] r(3) this] obtain r2 w2 ys where
      "register_all al lay statics cfg kns w' = Some (r2, w2)"
      "reg m0 lay cfg (of_kind (xs @ ((k, n), p) # ys)) w2" "copied statics (xs @ ((k, n), p) # ys) w2"
      "r2 = 0 \<and> map fst ys = kns \<or>
       r2 = - 1 \<and> (\<exists>m sz. length ys < length kns \<and> map fst ys = take (length ys) kns \<and> al m sz = NULL)"
      unfolding append_assoc append.simps by blast
    then show ?thesis using r(1) kn
      by (intro exI [of _ r2] exI [of _ w2] exI [of _ "((k, n), p) # ys"]) auto
  qed
qed

section \<open>Unregistration\<close>

lemma unregister_plugin_reg:
  assumes inv: "reg m0 lay cfg (ps(k := p # xs)) w"
  shows "\<exists>w'. unregister_plugin call lay k (p + lay_head lay k) w = Some w' \<and> reg m0 lay cfg (ps(k := xs)) w'"
proof -
  let ?n = "p + lay_head lay k" and ?qs = "node_lists lay (ps(k := p # xs))"
  have pk: "p \<in> set ((ps(k := p # xs)) k)" by simp
  note live = regD [OF inv pk]
  obtain pl where pl: "pw_plugins w p = Some pl" using live(4) by blast
  define w1 where "w1 = (if (k = PInput \<or> k = POutput) \<and> pl_cb_destroy pl \<noteq> NULL
      then w\<lparr>pw_ext := call (pl_cb_destroy pl) p (pw_ext w)\<rparr> else w)"
  have w1: "pw_links w1 = pw_links w" "pw_mem w1 = pw_mem w" "pw_plugins w1 = pw_plugins w"
    by (simp_all add: w1_def)
  have fam: "family dll (pw_links w) (registries cfg) ?qs" using inv by (simp add: reg_def)
  have qk: "?qs ! kind_index k = [] @ ?n # map (\<lambda>p. p + lay_head lay k) xs"
    unfolding node_lists_nth by simp
  obtain h where h: "mk_list_del ?n (pw_links w) = Some h"
      "family dll h (registries cfg) (node_lists lay (ps(k := xs)))"
    using ml.family_del [OF fam _ qk] by (auto simp: node_lists_update)
  have "?n \<notin> members (registries cfg) (node_lists lay (ps(k := xs)))"
    using family_del_not_member [OF fam _ qk] by (simp add: node_lists_update)
  then have f2: "family dll (h(?n := None)) (registries cfg) (node_lists lay (ps(k := xs)))"
    by (intro family_frame [OF h(2)]) auto
  define w' where "w' = w1\<lparr>pw_mem := (pw_mem w)\<lparr>blocks := (blocks (pw_mem w))(p := None)\<rparr>,
      pw_links := h(?n := None), pw_plugins := (pw_plugins w)(p := None)\<rparr>"
  have "unregister_plugin call lay k ?n w = Some w'"
    using pl h(1) live by (simp add: unregister_plugin_def flb_free_live w1_def w'_def Let_def)
  moreover have dist: "distinct (concat (map (ps(k := p # xs)) kinds))" using inv by (simp add: reg_def)
  moreover  from dist have d2: "distinct (concat (map (ps(k := xs)) kinds))" "\<forall>k'. p \<notin> set ((ps(k := xs)) k')"
    unfolding kinds_def by (cases k; auto; metis plugin_kind.exhaust)+
  moreover have "q \<noteq> NULL \<and> blocks m0 q = None \<and> blocks (pw_mem w') q \<noteq> None \<and> pw_plugins w' q \<noteq> None"
    if q: "q \<in> set ((ps(k := xs)) k')" for q k'
  proof -
    have "q \<in> set ((ps(k := p # xs)) k')" using q by (auto split: if_splits)
    from regD [OF inv this] show ?thesis using q d2(2) by (auto simp: w'_def)
  qed
  moreover have "blocks (pw_mem w') q = blocks m0 q" if q: "\<forall>k'. q \<notin> set ((ps(k := xs)) k')" for q
  proof (cases "q = p")
    case False
    have "q \<notin> set ((ps(k := p # xs)) k')" for k' using q [rule_format, of k'] False by (cases "k' = k") auto
    then show ?thesis using inv False unfolding reg_def by (simp add: w'_def)
  qed (use live(2) in \<open>simp add: w'_def\<close>)
  moreover have "family dll (pw_links w') (registries cfg) (node_lists lay (ps(k := xs)))"
    using f2 by (simp add: w'_def)
  ultimately show ?thesis unfolding reg_def by blast
qed

lemma reg_dll: "reg m0 lay cfg ps w \<Longrightarrow> dll (pw_links w) (registry cfg k) (map (\<lambda>p. p + lay_head lay k) (ps k))"
  using kinds_index(1) [of k] unfolding reg_def family_def by (metis node_lists_nth(1) registries_nth)

lemma unregister_kind_reg:
  fixes w :: "'a plugin_world"
  assumes inv: "reg m0 lay cfg ps w"
  shows "\<exists>w'. unregister_kind call lay cfg k w = Some w' \<and> reg m0 lay cfg (ps(k := [])) w'"
proof -
  define I where "I = (\<lambda>zs (w :: 'a plugin_world). \<exists>xs. zs = map (\<lambda>p. p + lay_head lay k) xs \<and> reg m0 lay cfg (ps(k := xs)) w)"
  have "\<exists>w'. mk_list_foreach_safe pw_links (unregister_plugin call lay k) (registry cfg k) w = Some w' \<and> I [] w'"
  proof (rule mk_list_foreach_safe_inv [where I = I])
    show "I (map (\<lambda>p. p + lay_head lay k) (ps k)) w" using inv by (auto simp: I_def)
    show "dll (pw_links w) (registry cfg k) zs" if "I zs w" for zs w
      using that reg_dll [of m0 lay cfg "ps(k := _)" w k] by (auto simp: I_def)
    show "\<exists>w'. unregister_plugin call lay k n w = Some w' \<and> I zs w'" if "I (n # zs) w" for n zs w
    proof -
      obtain p xs where "n = p + lay_head lay k" "zs = map (\<lambda>p. p + lay_head lay k) xs"
          "reg m0 lay cfg (ps(k := p # xs)) w"
        using \<open>I (n # zs) w\<close> by (auto simp: I_def Cons_eq_map_conv)
      then show ?thesis using unregister_plugin_reg [of m0 lay cfg ps k p xs w call] by (auto simp: I_def)
    qed
  qed
  then show ?thesis by (auto simp: unregister_kind_def I_def)
qed

lemma flb_plugins_unregister_reg:
  assumes "reg m0 lay cfg ps w"
  shows "\<exists>w'. flb_plugins_unregister call lay cfg w = Some w' \<and> reg m0 lay cfg (\<lambda>_. []) w'"
proof -
  obtain w1 where w1: "unregister_kind call lay cfg PCustom w = Some w1" "reg m0 lay cfg (ps(PCustom := [])) w1"
    using unregister_kind_reg [OF assms] by blast
  obtain w2 where w2: "unregister_kind call lay cfg PInput w1 = Some w2"
      "reg m0 lay cfg (ps(PCustom := [], PInput := [])) w2"
    using unregister_kind_reg [OF w1(2)] by blast
  obtain w3 where w3: "unregister_kind call lay cfg POutput w2 = Some w3"
      "reg m0 lay cfg (ps(PCustom := [], PInput := [], POutput := [])) w3"
    using unregister_kind_reg [OF w2(2)] by blast
  obtain w4 where w4: "unregister_kind call lay cfg PFilter w3 = Some w4"
      "reg m0 lay cfg (ps(PCustom := [], PInput := [], POutput := [], PFilter := [])) w4"
    using unregister_kind_reg [OF w3(2)] by blast
  obtain w5 where w5: "unregister_kind call lay cfg PProcessor w4 = Some w5"
      "reg m0 lay cfg (ps(PCustom := [], PInput := [], POutput := [], PFilter := [], PProcessor := [])) w5"
    using unregister_kind_reg [OF w4(2)] by blast
  have "ps(PCustom := [], PInput := [], POutput := [], PFilter := [], PProcessor := []) = (\<lambda>_. [])"
  proof
    show "(ps(PCustom := [], PInput := [], POutput := [], PFilter := [], PProcessor := [])) k = []" for k
      by (cases k) simp_all
  qed
  then show ?thesis using w1(1) w2(1) w3(1) w4(1) w5 by (auto simp: flb_plugins_unregister_def)
qed

lemma reg_empty_blocks: "reg m0 lay cfg (\<lambda>_. []) w \<Longrightarrow> blocks (pw_mem w) = blocks m0"
  by (auto simp: reg_def)

section \<open>Properties\<close>

text \<open>
  C23: registration.  \<^verbatim>\<open>flb_plugins_register\<close> always returns.  It answers 0 with every built-in
  plugin copied to the heap and linked, in the order of the calls, in the list of its kind, and no
  other block touched; or it answers -1 because an allocation failed, and then exactly a proper
  prefix of the built-in plugins has been registered (nothing is released on this path).
\<close>

theorem plugins_register_order:
  assumes "fresh_allocator al" "sep_allocator al" "layout_ok lay"
    and "reg (pw_mem w) lay cfg (\<lambda>_. []) w" "nodes_in_blocks (pw_links w) (pw_mem w)"
  shows "\<exists>r w' ys. flb_plugins_register al lay statics cfg w = Some (r, w') \<and>
    reg (pw_mem w) lay cfg (of_kind ys) w' \<and> copied statics ys w' \<and>
    (r = 0 \<and> map fst ys = builtin_plugins \<or>
     r = - 1 \<and> length ys < length builtin_plugins \<and> map fst ys = take (length ys) builtin_plugins \<and>
       (\<exists>m sz. al m sz = NULL))"
proof -
  have e: "of_kind [] = (\<lambda>_. [])" by (simp add: of_kind_def fun_eq_iff)
  have "reg (pw_mem w) lay cfg (of_kind []) w" "copied statics [] w"
    using assms(4) by (simp_all add: e copied_def)
  from register_all_reg [OF assms(1-3) this(1) assms(5) this(2), of builtin_plugins]
  show ?thesis unfolding flb_plugins_register_def append_Nil by blast
qed

text \<open>A configuration whose five registries are empty lists inside one block.\<close>

text \<open>The layout of the declared plugin structures, on either data model.\<close>

primrec plugin_struct :: "build \<Rightarrow> plugin_kind \<Rightarrow> ctype" where
  "plugin_struct b PCustom = struct_flb_custom_plugin b"
| "plugin_struct b PInput = struct_flb_input_plugin b"
| "plugin_struct b POutput = struct_flb_output_plugin b"
| "plugin_struct b PFilter = struct_flb_filter_plugin b"
| "plugin_struct b PProcessor = struct_flb_processor_plugin b"

definition plugin_layout :: "build \<Rightarrow> layout" where
  "plugin_layout b =
     \<lparr>lay_size = (\<lambda>k. of_nat (sizeof (bd_model b) (plugin_struct b k))),
      lay_head = (\<lambda>k. the (offsetof (bd_model b) (plugin_struct b k) [''_head'']))\<rparr>"

lemma plugin_layout_ok: "layout_ok (plugin_layout b)"
proof -
  have "lay_head (plugin_layout b) k < unat (lay_size (plugin_layout b) k)" for k
    by (cases k) (simp_all add: plugin_layout_def offsetof_def sizeof_def cstruct_def select_def struct_sa_def round_up_def
      field_at_def field_offsets_def struct_flb_custom_plugin_def struct_flb_input_plugin_def struct_flb_output_plugin_def
      struct_flb_filter_plugin_def struct_flb_processor_plugin_def struct_flb_net_host_def
      struct_flb_test_out_formatter_def struct_mk_list_def)
  then show ?thesis by (simp add: layout_ok_def)
qed

definition example_layout :: layout where
  "example_layout = plugin_layout \<lparr>bd_model = LP64, bd_ext = (\<lambda>_. c_ptr), bd_defined = (\<lambda>_. False)\<rparr>"

definition example_registry_cfg :: flb_config where
  "example_registry_cfg = zero_flb_config\<lparr>cf_custom_plugins := 600, cf_in_plugins := 616,
     cf_out_plugins := 632, cf_filter_plugins := 648, cf_processor_plugins := 664\<rparr>"

definition example_plugin_world :: "nat plugin_world" where
  "example_plugin_world = \<lparr>pw_mem = \<lparr>blocks = [512 \<mapsto> replicate 512 (Some 0)], calls = 0\<rparr>,
     pw_links = (\<lambda>x. if x \<in> {600, 616, 632, 648, 664} then Some \<lparr>mk_prev = x, mk_next = x\<rparr> else None),
     pw_plugins = Map.empty, pw_ext = 0\<rparr>"

lemma example_plugin_world_ok:
  "layout_ok example_layout" "reg (pw_mem example_plugin_world) example_layout example_registry_cfg (\<lambda>_. []) example_plugin_world"
  "nodes_in_blocks (pw_links example_plugin_world) (pw_mem example_plugin_world)"
proof -
  show "layout_ok example_layout" by (simp add: example_layout_def plugin_layout_ok)
  have r: "registries example_registry_cfg = [600, 616, 632, 648, 664]"
    by (simp add: registries_def kinds_def example_registry_cfg_def)
  have n: "node_lists example_layout (\<lambda>_. []) = [[], [], [], [], []]" by (simp add: node_lists_def kinds_def)
  have "dll (pw_links example_plugin_world) a []" if "a \<in> {600, 616, 632, 648, 664}" for a
    using that by (auto simp: dll_def example_plugin_world_def valid_def nx_def pv_def)
  then have "family dll (pw_links example_plugin_world) [600, 616, 632, 648, 664] [[], [], [], [], []]"
    by (auto simp: family_def less_Suc_eq numeral_eq_Suc)
  then show "reg (pw_mem example_plugin_world) example_layout example_registry_cfg (\<lambda>_. []) example_plugin_world"
    by (simp add: reg_def r n kinds_def)
  show "nodes_in_blocks (pw_links example_plugin_world) (pw_mem example_plugin_world)"
    by (auto simp: nodes_in_blocks_def example_plugin_world_def split: if_splits intro!: exI [of _ 512])
qed

theorem plugins_register_order_witness:
  "\<exists>r w'. flb_plugins_register bump_allocator example_layout (\<lambda>n. \<lparr>pl_name = n, pl_cb_destroy = 0\<rparr>) example_registry_cfg
      example_plugin_world = Some (r, w') \<and> (r = 0 \<or> r = - 1)"
  using plugins_register_order [OF bump_allocator_ok example_plugin_world_ok, of "\<lambda>n. \<lparr>pl_name = n, pl_cb_destroy = 0\<rparr>"]
  by blast

text \<open>
  C9: no plugin leaks.  Whatever allocations failed during registration, unregistration returns,
  every list of plugins is empty afterwards and the heap is the one before registration: each copy
  is unlinked and freed exactly once, and no block is freed that is not a copy.
\<close>

theorem register_unregister_no_leak:
  assumes "fresh_allocator al" "sep_allocator al" "layout_ok lay"
    and "reg (pw_mem w) lay cfg (\<lambda>_. []) w" "nodes_in_blocks (pw_links w) (pw_mem w)"
  shows "\<exists>r w1 w2. flb_plugins_register al lay statics cfg w = Some (r, w1) \<and>
    flb_plugins_unregister call lay cfg w1 = Some w2 \<and> blocks (pw_mem w2) = blocks (pw_mem w) \<and>
    (\<forall>k. dll (pw_links w2) (registry cfg k) [])"
proof -
  have e: "of_kind [] = (\<lambda>_. [])" by (simp add: of_kind_def fun_eq_iff)
  have "reg (pw_mem w) lay cfg (of_kind []) w" "copied statics [] w"
    using assms(4) by (simp_all add: e copied_def)
  from register_all_reg [OF assms(1-3) this(1) assms(5) this(2), of builtin_plugins] obtain r w1 ys where
    r: "register_all al lay statics cfg builtin_plugins w = Some (r, w1)"
      "reg (pw_mem w) lay cfg (of_kind ys) w1" by auto
  from flb_plugins_unregister_reg [OF r(2), of call] obtain w2 where
    u: "flb_plugins_unregister call lay cfg w1 = Some w2" "reg (pw_mem w) lay cfg (\<lambda>_. []) w2" by blast
  have "dll (pw_links w2) (registry cfg k) []" for k using reg_dll [OF u(2), of k] by simp
  then show ?thesis using r(1) u reg_empty_blocks [OF u(2)] by (auto simp: flb_plugins_register_def)
qed

theorem register_unregister_no_leak_witness:
  "\<exists>r w1 w2. flb_plugins_register bump_allocator example_layout (\<lambda>n. \<lparr>pl_name = n, pl_cb_destroy = 7\<rparr>) example_registry_cfg
      example_plugin_world = Some (r, w1) \<and>
    flb_plugins_unregister (\<lambda>_ _ n. Suc n) example_layout example_registry_cfg w1 = Some w2 \<and>
    blocks (pw_mem w2) = blocks (pw_mem example_plugin_world)"
  using register_unregister_no_leak [OF bump_allocator_ok example_plugin_world_ok,
      of "\<lambda>n. \<lparr>pl_name = n, pl_cb_destroy = 7\<rparr>" "\<lambda>_ _ n. Suc n"] by blast

end
