(* ===== verification/Flb_Serialize.thy ===== *)
theory Flb_Serialize
  imports Flb_Mem
begin

text \<open>
  The loop of \<^verbatim>\<open>flb_output_flush_create\<close> (\<^verbatim>\<open>fluent-bit/flb_output.h\<close>) that decodes the metrics or
  trace contexts of a chunk one after the other, runs the output's processor on each and appends
  the re-encoded context to a growing buffer.  The code has it twice, for CMetrics and for
  CTraces; the libraries, and the processor, are the parameter \<open>ctx_lib\<close>.
\<close>

section \<open>The libraries\<close>

text \<open>
  \<open>lib_decode data offset\<close> answers a status, a context and the next offset; \<open>lib_process\<close> is
  \<^verbatim>\<open>flb_processor_run\<close> on a context; \<open>lib_encode\<close> answers a status, a buffer of the library and its
  bytes.  The state \<open>'y\<close> of the libraries is apart from the memory of the agent's own heap.
\<close>

record 'y ctx_lib =
  lib_success :: int
  lib_decode :: "u8 list \<Rightarrow> size_t \<Rightarrow> 'y \<Rightarrow> (int \<times> ptr \<times> size_t) \<times> 'y"
  lib_process :: "ptr \<Rightarrow> 'y \<Rightarrow> int \<times> 'y"
  lib_encode :: "ptr \<Rightarrow> 'y \<Rightarrow> (int \<times> ptr \<times> u8 list) \<times> 'y"
  lib_destroy :: "ptr \<Rightarrow> 'y \<Rightarrow> 'y"
  lib_encode_destroy :: "ptr \<Rightarrow> 'y \<Rightarrow> 'y"

section \<open>The loop\<close>

definition memcpy_to :: "ptr \<Rightarrow> nat \<Rightarrow> u8 list \<Rightarrow> mem \<Rightarrow> mem option" where
  "memcpy_to p off bs m =
     (case blocks m p of
        None \<Rightarrow> None
      | Some b \<Rightarrow>
          (if off + length bs \<le> length b
           then Some (m\<lparr>blocks := (blocks m)(p \<mapsto> take off b @ map Some bs @ drop (off + length bs) b)\<rparr>)
           else None))"

text \<open>\<^verbatim>\<open>p_buf\<close>, \<^verbatim>\<open>p_size\<close>, \<^verbatim>\<open>serialization_buffer_offset\<close>, the heap and the libraries.\<close>

record 'y ser =
  ser_mem :: mem
  ser_buf :: ptr
  ser_size :: size_t
  ser_off :: size_t
  ser_lib :: 'y

datatype 'y ser_outcome = is_stop: Stop (stop_ok: bool) (stop_ser: "'y ser") | Continue (next_offset: size_t) (next_ser: "'y ser")

definition ser_append :: "'y ctx_lib \<Rightarrow> allocator \<Rightarrow> ptr \<Rightarrow> u8 list \<Rightarrow> size_t \<Rightarrow> 'y ser \<Rightarrow> 'y ser_outcome option" where
  "ser_append lib al buf bytes chunk_offset s =
     (let n = of_nat (length bytes) in do {
        (ok, s) \<leftarrow>
          (if ser_off s + n > ser_size s then do {
             (resized, m) \<leftarrow> flb_realloc al (ser_buf s) (ser_size s + n) (ser_mem s);
             Some (if resized = NULL
                   then (False, s\<lparr>ser_mem := m, ser_lib := lib_encode_destroy lib buf (ser_lib s)\<rparr>)
                   else (True, s\<lparr>ser_mem := m, ser_size := ser_size s + n, ser_buf := resized\<rparr>))
           }
           else Some (True, s));
        if \<not> ok then Some (Stop False s)
        else do {
          m \<leftarrow> memcpy_to (ser_buf s) (unat (ser_off s)) bytes (ser_mem s);
          Some (Continue chunk_offset (s\<lparr>ser_mem := m, ser_off := ser_off s + n,
             ser_lib := lib_encode_destroy lib buf (ser_lib s)\<rparr>))
        }
      })"

definition ser_step :: "'y ctx_lib \<Rightarrow> allocator \<Rightarrow> u8 list \<Rightarrow> size_t \<Rightarrow> 'y ser \<Rightarrow> 'y ser_outcome option" where
  "ser_step lib al data chunk_offset s =
     (let ((ret, ctx, chunk_offset), y) = lib_decode lib data chunk_offset (ser_lib s)
      in if ret \<noteq> lib_success lib then Some (Stop True (s\<lparr>ser_lib := y\<rparr>))
         else
           (let (ret, y) = lib_process lib ctx y
            in if ret = 0 then
                 (let ((ret, buf, bytes), y) = lib_encode lib ctx y; y = lib_destroy lib ctx y
                  in if ret \<noteq> 0 then Some (Stop False (s\<lparr>ser_lib := y\<rparr>))
                     else ser_append lib al buf bytes chunk_offset (s\<lparr>ser_lib := y\<rparr>))
               else Some (Continue chunk_offset (s\<lparr>ser_lib := y\<rparr>))))"

partial_function (option) ser_loop ::
  "'y ctx_lib \<Rightarrow> allocator \<Rightarrow> u8 list \<Rightarrow> size_t \<Rightarrow> 'y ser \<Rightarrow> (bool \<times> 'y ser) option" where
  "ser_loop lib al data chunk_offset s =
     Option.bind (ser_step lib al data chunk_offset s) (\<lambda>r.
       if is_stop r then Some (stop_ok r, stop_ser r)
       else ser_loop lib al data (next_offset r) (next_ser r))"

section \<open>The bytes a chunk turns into\<close>

text \<open>The same loop without memory: the encodings of the processed contexts, in order.\<close>

definition ref_step :: "'y ctx_lib \<Rightarrow> u8 list \<Rightarrow> size_t \<Rightarrow> 'y \<Rightarrow> (bool \<times> u8 list \<times> size_t \<times> 'y) option" where
  "ref_step lib data chunk_offset y =
     (let ((ret, ctx, chunk_offset), y) = lib_decode lib data chunk_offset y
      in if ret \<noteq> lib_success lib then Some (False, [], chunk_offset, y)
         else
           (let (ret, y) = lib_process lib ctx y
            in if ret = 0 then
                 (let ((ret, buf, bytes), y) = lib_encode lib ctx y; y = lib_destroy lib ctx y
                  in if ret \<noteq> 0 then None
                     else Some (True, bytes, chunk_offset, lib_encode_destroy lib buf y))
               else Some (True, [], chunk_offset, y)))"

partial_function (option) ref_loop :: "'y ctx_lib \<Rightarrow> u8 list \<Rightarrow> size_t \<Rightarrow> 'y \<Rightarrow> (u8 list \<times> 'y) option" where
  "ref_loop lib data chunk_offset y =
     Option.bind (ref_step lib data chunk_offset y) (\<lambda>r.
       if fst r then Option.bind (ref_loop lib data (fst (snd (snd r))) (snd (snd (snd r)))) (\<lambda>t.
         Some (fst (snd r) @ fst t, snd t))
       else Some ([], snd (snd (snd r))))"

section \<open>Correctness\<close>

text \<open>What is documented of a decoder: it only succeeds by consuming input.  \<open>B\<close> bounds an encoding.\<close>

definition lib_progress :: "'y ctx_lib \<Rightarrow> u8 list \<Rightarrow> bool" where
  "lib_progress lib data \<longleftrightarrow> (\<forall>off y ctx off' y'. lib_decode lib data off y = ((lib_success lib, ctx, off'), y') \<longrightarrow>
     unat off < unat off' \<and> unat off' \<le> length data)"

definition lib_bounded :: "'y ctx_lib \<Rightarrow> nat \<Rightarrow> bool" where
  "lib_bounded lib B \<longleftrightarrow> (\<forall>ctx y buf bytes y'. lib_encode lib ctx y = ((0, buf, bytes), y') \<longrightarrow> length bytes \<le> B)"

text \<open>The buffer is live, at least \<open>p_size\<close> long, and holds \<open>bs\<close> up to the offset.\<close>

definition ser_inv :: "u8 list \<Rightarrow> 'y ser \<Rightarrow> bool" where
  "ser_inv bs s \<longleftrightarrow> ser_buf s \<noteq> NULL \<and> unat (ser_off s) = length bs \<and> unat (ser_off s) \<le> unat (ser_size s) \<and>
     (\<exists>b. blocks (ser_mem s) (ser_buf s) = Some b \<and> unat (ser_size s) \<le> length b \<and>
          take (length bs) b = map Some bs)"

lemma realloc_blocks:
  assumes "fresh_allocator al" "p \<noteq> NULL" "blocks m p = Some b"
  shows "\<exists>q m'. flb_realloc al p sz m = Some (q, m') \<and>
    (q = NULL \<longrightarrow> blocks m' = blocks m) \<and>
    (q \<noteq> NULL \<longrightarrow> blocks m' q = Some (take (unat sz) b @ replicate (unat sz - length b) None))"
  using assms by (auto simp: flb_realloc_def realloc_def Let_def)

lemma ser_append_inv:
  assumes al: "fresh_allocator al" and inv: "ser_inv bs s"
    and fits: "unat (ser_size s) + length bytes < 2 ^ 64"
  shows "(\<exists>s'. ser_append lib al buf bytes off s = Some (Stop False s') \<and> ser_inv bs s' \<and>
            ser_size s' = ser_size s \<and> ser_buf s' = ser_buf s \<and> ser_lib s' = lib_encode_destroy lib buf (ser_lib s)) \<or>
    (\<exists>s'. ser_append lib al buf bytes off s = Some (Continue off s') \<and> ser_inv (bs @ bytes) s' \<and>
       unat (ser_size s) \<le> unat (ser_size s') \<and> unat (ser_size s') \<le> unat (ser_size s) + length bytes \<and> ser_lib s' = lib_encode_destroy lib buf (ser_lib s))"
proof -
  let ?n = "of_nat (length bytes) :: size_t"
  obtain b where b: "ser_buf s \<noteq> NULL" "unat (ser_off s) = length bs" "unat (ser_off s) \<le> unat (ser_size s)"
      "blocks (ser_mem s) (ser_buf s) = Some b" "unat (ser_size s) \<le> length b" "take (length bs) b = map Some bs"
    using inv by (auto simp: ser_inv_def)
  have n: "unat ?n = length bytes" using fits by (simp add: unat_of_nat)
  have sz: "unat (ser_size s + ?n) = unat (ser_size s) + length bytes"
    using fits n by (subst unat_add_lem [THEN iffD1]) simp_all
  have of: "unat (ser_off s + ?n) = length bs + length bytes"
    using fits n b(2,3) by (subst unat_add_lem [THEN iffD1]) simp_all
  have copy: "\<exists>m'. memcpy_to p (length bs) bytes m = Some m' \<and>
      (\<exists>b''. blocks m' p = Some b'' \<and> length b'' = length b' \<and> take (length bs + length bytes) b'' = map Some (bs @ bytes))"
    if "blocks m p = Some b'" "length bs + length bytes \<le> length b'" "take (length bs) b' = map Some bs" for m p b'
    using that by (auto simp: memcpy_to_def)
  show ?thesis
  proof (cases "ser_off s + ?n > ser_size s")
    case False
    then have "length bs + length bytes \<le> unat (ser_size s)"
      using of by (simp add: word_less_nat_alt)
    then obtain m' b'' where "memcpy_to (ser_buf s) (length bs) bytes (ser_mem s) = Some m'"
        "blocks m' (ser_buf s) = Some b''" "length b'' = length b" "take (length bs + length bytes) b'' = map Some (bs @ bytes)"
      using copy [OF b(4)] b(5,6) by fastforce
    then show ?thesis
      using False b \<open>length bs + length bytes \<le> unat (ser_size s)\<close> of
      by (auto simp: ser_append_def Let_def ser_inv_def)
  next
    case True
    obtain q m' where r: "flb_realloc al (ser_buf s) (ser_size s + ?n) (ser_mem s) = Some (q, m')"
        "q = NULL \<longrightarrow> blocks m' = blocks (ser_mem s)"
        "q \<noteq> NULL \<longrightarrow> blocks m' q = Some (take (unat (ser_size s + ?n)) b @ replicate (unat (ser_size s + ?n) - length b) None)"
      using realloc_blocks [OF al b(1,4)] by blast
    show ?thesis
    proof (cases "q = NULL")
      case True
      then show ?thesis
        using \<open>ser_off s + ?n > ser_size s\<close> r b by (auto simp: ser_append_def Let_def ser_inv_def)
    next
      case False
      define b' where "b' = take (unat (ser_size s + ?n)) b @ replicate (unat (ser_size s + ?n) - length b) None"
      have l: "length b' = unat (ser_size s) + length bytes" by (simp add: b'_def sz)
      have t: "take (length bs) b' = map Some bs"
        using b(2,3,5,6) sz by (simp add: b'_def min_def)
      obtain m'' b'' where "memcpy_to q (length bs) bytes m' = Some m''" "blocks m'' q = Some b''"
          "length b'' = length b'" "take (length bs + length bytes) b'' = map Some (bs @ bytes)"
        using copy [of m' q b'] False r(3) l t b(2,3) b'_def by auto
      then show ?thesis
        using \<open>ser_off s + ?n > ser_size s\<close> r(1) False b(2,3) l of sz
        by (auto simp: ser_append_def Let_def ser_inv_def)
    qed
  qed
qed

text \<open>One turn of the loop: it stops, or appends exactly what the reference says and moves on.\<close>

lemma ser_step_inv:
  assumes al: "fresh_allocator al" and inv: "ser_inv bs s" and lib: "lib_bounded lib B"
    and fits: "unat (ser_size s) + B < 2 ^ 64"
  shows "(\<exists>ok s'. ser_step lib al data off s = Some (Stop ok s') \<and> ser_inv bs s' \<and> ser_size s' = ser_size s \<and>
       (ok \<longrightarrow> (\<exists>off'. ref_step lib data off (ser_lib s) = Some (False, [], off', ser_lib s')))) \<or>
    (\<exists>bytes off' s'. ser_step lib al data off s = Some (Continue off' s') \<and> ser_inv (bs @ bytes) s' \<and>
       unat (ser_size s) \<le> unat (ser_size s') \<and> unat (ser_size s') \<le> unat (ser_size s) + B \<and>
       ref_step lib data off (ser_lib s) = Some (True, bytes, off', ser_lib s') \<and>
       (\<exists>ctx y. lib_decode lib data off (ser_lib s) = ((lib_success lib, ctx, off'), y)))"
proof -
  obtain ret ctx off' y where d: "lib_decode lib data off (ser_lib s) = ((ret, ctx, off'), y)" by (metis prod.exhaust)
  obtain ret2 y2 where p: "lib_process lib ctx y = (ret2, y2)" by fastforce
  obtain ret3 buf bytes y3 where e: "lib_encode lib ctx y2 = ((ret3, buf, bytes), y3)" by (metis prod.exhaust)
  have upd: "ser_inv bs (s\<lparr>ser_lib := z\<rparr>)" for z using inv by (simp add: ser_inv_def)
  consider "ret \<noteq> lib_success lib" | "ret = lib_success lib" "ret2 \<noteq> 0"
    | "ret = lib_success lib" "ret2 = 0" "ret3 \<noteq> 0" | "ret = lib_success lib" "ret2 = 0" "ret3 = 0" by blast
  then show ?thesis
  proof cases
    case 4
    have "length bytes \<le> B" using lib e 4 unfolding lib_bounded_def by blast
    then show ?thesis
      using ser_append_inv [OF al upd, of "lib_destroy lib ctx y3" bytes lib buf off'] fits d p e 4
      by (fastforce simp: ser_step_def ref_step_def Let_def)
  qed (use d p e upd inv in \<open>auto simp: ser_step_def ref_step_def Let_def\<close>)
qed

lemma ser_loop_inv:
  assumes al: "fresh_allocator al" and lib: "lib_progress lib data" "lib_bounded lib B"
    and "ser_inv bs s" "unat (ser_size s) + Suc (length data - unat off) * B < 2 ^ 64"
  shows "\<exists>ok s' more. ser_loop lib al data off s = Some (ok, s') \<and> ser_inv (bs @ more) s' \<and>
    unat (ser_size s) \<le> unat (ser_size s') \<and> (ok \<longrightarrow> ref_loop lib data off (ser_lib s) = Some (more, ser_lib s'))"
  using assms(4,5)
proof (induction "length data - unat off" arbitrary: off bs s rule: less_induct)
  case less
  have fits: "unat (ser_size s) + B < 2 ^ 64" using less.prems(2) by simp
  from ser_step_inv [OF al less.prems(1) lib(2) fits, of data off] show ?case
  proof (elim disjE exE conjE)
    fix ok s'
    assume "ser_step lib al data off s = Some (Stop ok s')" "ser_inv bs s'" "ser_size s' = ser_size s"
      "ok \<longrightarrow> (\<exists>off'. ref_step lib data off (ser_lib s) = Some (False, [], off', ser_lib s'))"
    then show ?thesis
      by (intro exI [of _ ok] exI [of _ s'] exI [of _ "[]"])
        (auto simp: ser_loop.simps [of lib al data off s] ref_loop.simps [of lib data off "ser_lib s"])
  next
    fix bytes off' s' ctx y
    assume st: "ser_step lib al data off s = Some (Continue off' s')" "ser_inv (bs @ bytes) s'"
      "unat (ser_size s') \<le> unat (ser_size s) + B" "unat (ser_size s) \<le> unat (ser_size s')"
      "ref_step lib data off (ser_lib s) = Some (True, bytes, off', ser_lib s')"
      "lib_decode lib data off (ser_lib s) = ((lib_success lib, ctx, off'), y)"
    have pr: "unat off < unat off'" "unat off' \<le> length data"
      using lib(1) st(6) unfolding lib_progress_def by blast+
    then have lt: "length data - unat off' < length data - unat off" by simp
    then have "Suc (length data - unat off') * B \<le> (length data - unat off) * B" by (intro mult_le_mono1) simp
    then have "unat (ser_size s') + Suc (length data - unat off') * B < 2 ^ 64" using st(3) less.prems(2) by simp
    from less.hyps [OF lt st(2) this] obtain ok s2 more where
      "ser_loop lib al data off' s' = Some (ok, s2)" "ser_inv (bs @ bytes @ more) s2"
      "ok \<longrightarrow> ref_loop lib data off' (ser_lib s') = Some (more, ser_lib s2)"
      "unat (ser_size s') \<le> unat (ser_size s2)" by auto
    then show ?thesis using st(1,4,5)
      by (intro exI [of _ ok] exI [of _ s2] exI [of _ "bytes @ more"])
        (auto simp: ser_loop.simps [of lib al data off s] ref_loop.simps [of lib data off "ser_lib s"])
  qed
qed

section \<open>The contexts of the library\<close>

text \<open>
  What the libraries document of their own objects: \<open>ctxs\<close> and \<open>bufs\<close> are the contexts and the encoding buffers alive.
  Decoding makes a new context and encoding a new buffer when they succeed, and nothing when they fail; a processor
  changes a context in place; the two destructors release the object they are given.
\<close>

definition lib_balanced :: "'y ctx_lib \<Rightarrow> ('y \<Rightarrow> ptr set) \<Rightarrow> ('y \<Rightarrow> ptr set) \<Rightarrow> bool" where
  "lib_balanced lib ctxs bufs \<longleftrightarrow>
     (\<forall>data off y ret ctx off' y'. lib_decode lib data off y = ((ret, ctx, off'), y') \<longrightarrow> bufs y' = bufs y \<and>
        (if ret = lib_success lib then ctx \<notin> ctxs y \<and> ctxs y' = insert ctx (ctxs y) else ctxs y' = ctxs y)) \<and>
     (\<forall>ctx y ret y'. lib_process lib ctx y = (ret, y') \<longrightarrow> ctxs y' = ctxs y \<and> bufs y' = bufs y) \<and>
     (\<forall>ctx y ret buf bytes y'. lib_encode lib ctx y = ((ret, buf, bytes), y') \<longrightarrow> ctxs y' = ctxs y \<and>
        (if ret = 0 then buf \<notin> bufs y \<and> bufs y' = insert buf (bufs y) else bufs y' = bufs y)) \<and>
     (\<forall>ctx y. ctxs (lib_destroy lib ctx y) = ctxs y - {ctx} \<and> bufs (lib_destroy lib ctx y) = bufs y) \<and>
     (\<forall>buf y. ctxs (lib_encode_destroy lib buf y) = ctxs y \<and> bufs (lib_encode_destroy lib buf y) = bufs y - {buf})"

text \<open>The contexts that the processor rejects in the first \<open>n\<close> turns of the loop, in order.\<close>

primrec rejects :: "'y ctx_lib \<Rightarrow> u8 list \<Rightarrow> nat \<Rightarrow> size_t \<Rightarrow> 'y \<Rightarrow> ptr list" where
  "rejects lib data 0 off y = []"
| "rejects lib data (Suc n) off y =
     (let ((ret, ctx, off), y) = lib_decode lib data off y
      in if ret \<noteq> lib_success lib then []
         else
           (let (ret, y) = lib_process lib ctx y
            in if ret \<noteq> 0 then ctx # rejects lib data n off y
               else
                 (let ((ret, buf, bytes), y) = lib_encode lib ctx y; y = lib_destroy lib ctx y
                  in if ret \<noteq> 0 then [] else rejects lib data n off (lib_encode_destroy lib buf y))))"

text \<open>From \<open>y\<close> to \<open>y'\<close> exactly the contexts \<open>rs\<close> stay behind, and no buffer.\<close>

definition contexts_left :: "('y \<Rightarrow> ptr set) \<Rightarrow> ('y \<Rightarrow> ptr set) \<Rightarrow> ptr list \<Rightarrow> 'y \<Rightarrow> 'y \<Rightarrow> bool" where
  "contexts_left ctxs bufs rs y y' \<longleftrightarrow> distinct rs \<and> set rs \<inter> ctxs y = {} \<and> ctxs y' = ctxs y \<union> set rs \<and> bufs y' = bufs y"

lemma contexts_left_refl [simp]: "contexts_left ctxs bufs [] y y"
  by (simp add: contexts_left_def)

lemma contexts_left_trans:
  "contexts_left ctxs bufs rs y y' \<Longrightarrow> contexts_left ctxs bufs rs' y' y'' \<Longrightarrow> contexts_left ctxs bufs (rs @ rs') y y''"
  by (auto simp: contexts_left_def)

lemma insert_diff_new: "c \<notin> C \<Longrightarrow> insert c C - {c} = C"
  by auto

text \<open>The state of the libraries in the examples: the contexts and the buffers that are alive.\<close>

type_synonym lib_objects = "ptr set \<times> ptr set"

text \<open>One turn: at most one context stays behind, that which \<open>rejects\<close> names, whichever way the turn ends.\<close>

lemma ser_append_lib:
  assumes "ser_append lib al buf bytes off s = Some r"
  shows "(\<exists>s'. r = Stop False s' \<and> ser_lib s' = lib_encode_destroy lib buf (ser_lib s)) \<or>
    (\<exists>s'. r = Continue off s' \<and> ser_lib s' = lib_encode_destroy lib buf (ser_lib s))"
  using assms by (auto simp: ser_append_def Let_def split: if_splits Option.bind_splits)

lemma ser_step_contexts:
  assumes b: "lib_balanced lib ctxs bufs" and st: "ser_step lib al data off s = Some r"
  shows "(\<exists>ok s'. r = Stop ok s' \<and> contexts_left ctxs bufs [] (ser_lib s) (ser_lib s') \<and>
       (ok \<longrightarrow> (\<forall>n. rejects lib data n off (ser_lib s) = []))) \<or>
    (\<exists>off' s' rs. r = Continue off' s' \<and> contexts_left ctxs bufs rs (ser_lib s) (ser_lib s') \<and>
       (\<forall>n. rejects lib data (Suc n) off (ser_lib s) = rs @ rejects lib data n off' (ser_lib s')))"
proof -
  obtain ret ctx off' y where d: "lib_decode lib data off (ser_lib s) = ((ret, ctx, off'), y)" by (metis prod.exhaust)
  obtain ret2 y2 where p: "lib_process lib ctx y = (ret2, y2)" by fastforce
  obtain ret3 buf bytes y3 where e: "lib_encode lib ctx y2 = ((ret3, buf, bytes), y3)" by (metis prod.exhaust)
  note b' = b [unfolded lib_balanced_def]
  have D: "bufs y = bufs (ser_lib s)"
    "if ret = lib_success lib then ctx \<notin> ctxs (ser_lib s) \<and> ctxs y = insert ctx (ctxs (ser_lib s)) else ctxs y = ctxs (ser_lib s)"
    using b' [THEN conjunct1] d by blast+
  have P: "ctxs y2 = ctxs y" "bufs y2 = bufs y" using b' [THEN conjunct2, THEN conjunct1] p by blast+
  have E: "ctxs y3 = ctxs y2" "if ret3 = 0 then buf \<notin> bufs y2 \<and> bufs y3 = insert buf (bufs y2) else bufs y3 = bufs y2"
    using b' [THEN conjunct2, THEN conjunct2, THEN conjunct1] e by blast+
  have X: "ctxs (lib_destroy lib c z) = ctxs z - {c}" "bufs (lib_destroy lib c z) = bufs z"
    "ctxs (lib_encode_destroy lib c z) = ctxs z" "bufs (lib_encode_destroy lib c z) = bufs z - {c}" for c z
    using b' by blast+
  consider "ret \<noteq> lib_success lib" | "ret = lib_success lib" "ret2 \<noteq> 0"
    | "ret = lib_success lib" "ret2 = 0" "ret3 \<noteq> 0" | "ret = lib_success lib" "ret2 = 0" "ret3 = 0" by blast
  then show ?thesis
  proof cases
    case 1
    then have "rejects lib data n off (ser_lib s) = []" for n using d by (cases n) simp_all
    then show ?thesis using st d 1 D
      by (auto simp: ser_step_def Let_def contexts_left_def)
  next
    case 2
    then have "contexts_left ctxs bufs [ctx] (ser_lib s) y2" using 2 D P
      by (auto simp: contexts_left_def)
    then show ?thesis using st d p 2 by (intro disjI2) (auto simp: ser_step_def Let_def)
  next
    case 3
    then have "contexts_left ctxs bufs [] (ser_lib s) (lib_destroy lib ctx y3)"
      using 3 D P E X by (auto simp: contexts_left_def)
    then show ?thesis using st d p e 3 by (auto simp: ser_step_def Let_def)
  next
    case 4
    then have "contexts_left ctxs bufs [] (ser_lib s) (lib_encode_destroy lib buf (lib_destroy lib ctx y3))"
      using 4 D P E X
      by (auto simp: contexts_left_def)
    moreover have "ser_append lib al buf bytes off' (s\<lparr>ser_lib := lib_destroy lib ctx y3\<rparr>) = Some r"
      using st d p e 4 by (simp add: ser_step_def Let_def)
    ultimately show ?thesis using ser_append_lib [of lib al buf bytes off'] d p e 4 by fastforce
  qed
qed

lemma ser_loop_contexts_prefix:
  assumes "ser_loop lib al data off s = Some t" "lib_balanced lib ctxs bufs"
  shows "\<exists>n. contexts_left ctxs bufs (rejects lib data n off (ser_lib s)) (ser_lib s) (ser_lib (snd t)) \<and>
    (fst t \<longrightarrow> (\<forall>m \<ge> n. rejects lib data m off (ser_lib s) = rejects lib data n off (ser_lib s)))"
proof -
  have "lib_balanced lib ctxs bufs \<longrightarrow>
      (\<exists>n. contexts_left ctxs bufs (rejects lib data n off (ser_lib s)) (ser_lib s) (ser_lib (snd t)) \<and>
        (fst t \<longrightarrow> (\<forall>m \<ge> n. rejects lib data m off (ser_lib s) = rejects lib data n off (ser_lib s))))"
    using assms(1)
  proof (rule ser_loop.raw_induct [rotated], intro impI)
    fix loop lib al data off and s :: "'a ser" and t
    assume IH: "\<And>lib al data off s t. loop lib al data off s = Some t \<Longrightarrow> lib_balanced lib ctxs bufs \<longrightarrow>
        (\<exists>n. contexts_left ctxs bufs (rejects lib data n off (ser_lib s)) (ser_lib s) (ser_lib (snd t)) \<and>
          (fst t \<longrightarrow> (\<forall>m \<ge> n. rejects lib data m off (ser_lib s) = rejects lib data n off (ser_lib s))))"
      and t: "Option.bind (ser_step lib al data off s) (\<lambda>r. if is_stop r then Some (stop_ok r, stop_ser r)
        else loop lib al data (next_offset r) (next_ser r)) = Some t"
      and b: "lib_balanced lib ctxs bufs"
    obtain r where r: "ser_step lib al data off s = Some r"
      "(if is_stop r then Some (stop_ok r, stop_ser r) else loop lib al data (next_offset r) (next_ser r)) = Some t"
      using t by (auto split: Option.bind_splits)
    from ser_step_contexts [OF b r(1)]
    show "\<exists>n. contexts_left ctxs bufs (rejects lib data n off (ser_lib s)) (ser_lib s) (ser_lib (snd t)) \<and>
        (fst t \<longrightarrow> (\<forall>m \<ge> n. rejects lib data m off (ser_lib s) = rejects lib data n off (ser_lib s)))"
    proof (elim disjE exE conjE)
      fix ok s'
      assume "r = Stop ok s'" "contexts_left ctxs bufs [] (ser_lib s) (ser_lib s')"
        "ok \<longrightarrow> (\<forall>n. rejects lib data n off (ser_lib s) = [])"
      then show ?thesis using r(2) by (intro exI [of _ 0]) auto
    next
      fix off' s' rs
      assume st: "r = Continue off' s'" "contexts_left ctxs bufs rs (ser_lib s) (ser_lib s')"
        "\<forall>n. rejects lib data (Suc n) off (ser_lib s) = rs @ rejects lib data n off' (ser_lib s')"
      then obtain n where n: "contexts_left ctxs bufs (rejects lib data n off' (ser_lib s')) (ser_lib s') (ser_lib (snd t))"
        "fst t \<longrightarrow> (\<forall>m \<ge> n. rejects lib data m off' (ser_lib s') = rejects lib data n off' (ser_lib s'))"
        using IH [of lib al data off' s' t] r(2) b by auto
      have "rejects lib data m off (ser_lib s) = rejects lib data (Suc n) off (ser_lib s)" if t: "fst t" and m: "m \<ge> Suc n" for m
      proof -
        obtain k where k: "m = Suc k" "n \<le> k" using m by (cases m) auto
        have "rejects lib data k off' (ser_lib s') = rejects lib data n off' (ser_lib s')" by (rule n(2) [rule_format, OF t k(2)])
        then show ?thesis by (simp only: k(1) st(3) [rule_format])
      qed
      moreover have "contexts_left ctxs bufs (rejects lib data (Suc n) off (ser_lib s)) (ser_lib s) (ser_lib (snd t))"
        using contexts_left_trans [OF st(2) n(1)] by (simp only: st(3) [rule_format])
      ultimately show ?thesis by blast
    qed
  qed
  then show ?thesis using assms(2) by blast
qed

text \<open>A decoder that makes progress succeeds once per byte at most, so as many turns as there are bytes see all contexts.\<close>

lemma rejects_enough:
  assumes "lib_progress lib data" "length data - unat off \<le> n"
  shows "rejects lib data n off y = rejects lib data (length data - unat off) off y"
  using assms(2)
proof (induction "length data - unat off" arbitrary: off n y rule: less_induct)
  case less
  obtain ret ctx off' y1 where d: "lib_decode lib data off y = ((ret, ctx, off'), y1)" by (metis prod.exhaust)
  obtain ret2 y2 where p: "lib_process lib ctx y1 = (ret2, y2)" by fastforce
  obtain ret3 buf bytes y3 where e: "lib_encode lib ctx y2 = ((ret3, buf, bytes), y3)" by (metis prod.exhaust)
  show ?case
  proof (cases "ret = lib_success lib")
    case True
    have o': "unat off < unat off'" "unat off' \<le> length data" using assms(1) d True unfolding lib_progress_def by blast+
    then obtain k where k: "length data - unat off = Suc k" "length data - unat off' \<le> k"
      by (cases "length data - unat off") simp_all
    obtain n' where n': "n = Suc n'" "k \<le> n'" using less.prems k(1) by (cases n) simp_all
    have lt: "length data - unat off' < length data - unat off" using k by simp
    have "rejects lib data n' off' z = rejects lib data k off' z" for z
      using less.hyps [OF lt, of n' z] less.hyps [OF lt, of k z] k(2) n'(2) by simp
    then show ?thesis using d p e k(1) n'(1) by simp
  next
    case False
    then have "rejects lib data j off y = []" for j using d by (cases j) simp_all
    then show ?thesis by simp
  qed
qed

text \<open>
  On every exit of the loop the contexts left behind are those rejected so far, and no buffer; when it completes, they
  are all the rejected ones.
\<close>

lemma ser_loop_contexts:
  assumes "ser_loop lib al data 0 s = Some (ok, s')" "lib_balanced lib ctxs bufs" "lib_progress lib data"
  shows "\<exists>n \<le> length data. contexts_left ctxs bufs (rejects lib data n 0 (ser_lib s)) (ser_lib s) (ser_lib s') \<and>
    (ok \<longrightarrow> n = length data)"
proof -
  obtain n where n: "contexts_left ctxs bufs (rejects lib data n 0 (ser_lib s)) (ser_lib s) (ser_lib s')"
    "ok \<longrightarrow> (\<forall>m \<ge> n. rejects lib data m 0 (ser_lib s) = rejects lib data n 0 (ser_lib s))"
    using ser_loop_contexts_prefix [OF assms(1,2)] by auto
  note enough = rejects_enough [OF assms(3), of 0, simplified]
  show ?thesis
  proof (cases ok)
    case True
    have "rejects lib data (max n (length data)) 0 (ser_lib s) = rejects lib data n 0 (ser_lib s)"
      by (rule n(2) [rule_format, OF True]) simp
    moreover have "rejects lib data (max n (length data)) 0 (ser_lib s) = rejects lib data (length data) 0 (ser_lib s)"
      by (rule enough) simp
    ultimately have "rejects lib data n 0 (ser_lib s) = rejects lib data (length data) 0 (ser_lib s)" by simp
    then show ?thesis using n(1) by auto
  next
    case ok: False
    show ?thesis
    proof (cases "n \<le> length data")
      case True
      then show ?thesis using n(1) ok by blast
    next
      case False
      then have "rejects lib data n 0 (ser_lib s) = rejects lib data (length data) 0 (ser_lib s)" by (intro enough) simp
      then show ?thesis using n(1) by auto
    qed
  qed
qed

section \<open>Properties\<close>

text \<open>
  C10: re-serialisation.  The decode, process, encode and append loop of an output flush returns
  for every decoder that makes progress, never writes outside its buffer whichever allocations
  fail, and when it completes, the buffer starts with the encodings of the contexts the processor
  accepted, in order; the offset is their total length and never exceeds \<^verbatim>\<open>p_size\<close>.
\<close>

theorem reserialise_correct:
  assumes "fresh_allocator al" "lib_progress lib data" "lib_bounded lib B"
    and "ser_inv [] s" "unat (ser_size s) + Suc (length data) * B < 2 ^ 64"
  shows "\<exists>ok s' bs b. ser_loop lib al data 0 s = Some (ok, s') \<and>
    blocks (ser_mem s') (ser_buf s') = Some b \<and> take (length bs) b = map Some bs \<and>
    unat (ser_off s') = length bs \<and> unat (ser_off s') \<le> unat (ser_size s') \<and> unat (ser_size s') \<le> length b \<and>
    (ok \<longrightarrow> ref_loop lib data 0 (ser_lib s) = Some (bs, ser_lib s'))"
proof -
  have "unat (ser_size s) + Suc (length data - unat (0 :: size_t)) * B < 2 ^ 64" using assms(5) by simp
  from ser_loop_inv [OF assms(1-4) this] show ?thesis by (auto simp: ser_inv_def)
qed

text \<open>
  A library whose contexts are the single bytes of the chunk: decoding allocates a context
  (counted in the state), encoding gives the byte back, and the processor accepts those that are
  not 0.
\<close>

definition byte_lib :: "nat ctx_lib" where
  "byte_lib = \<lparr>lib_success = 0,
     lib_decode = (\<lambda>data off n. if unat off < length data \<and> length data < 2 ^ 32
        then ((0, unat (data ! unat off), off + 1), Suc n) else ((1, 0, off), n)),
     lib_process = (\<lambda>ctx n. (if ctx = 0 then - 1 else 0, n)),
     lib_encode = (\<lambda>ctx n. ((0, ctx, [of_nat ctx]), n)),
     lib_destroy = (\<lambda>ctx n. n - 1), lib_encode_destroy = (\<lambda>buf n. n)\<rparr>"

definition example_ser :: "nat ser" where
  "example_ser = \<lparr>ser_mem = \<lparr>blocks = [64 \<mapsto> replicate 6 (Some 0)], calls = 1\<rparr>, ser_buf = 64,
     ser_size = 3, ser_off = 0, ser_lib = 0\<rparr>"

lemma byte_lib_progress: "lib_progress byte_lib data"
  unfolding lib_progress_def
proof (intro allI impI)
  fix off :: size_t and y ctx off' y'
  assume "lib_decode byte_lib data off y = ((lib_success byte_lib, ctx, off'), y')"
  then have o: "unat off < length data" "length data < 2 ^ 32" "off' = off + 1"
    by (auto simp: byte_lib_def split: if_splits)
  then have "unat (off + 1) = unat off + 1" by (subst unat_add_lem [THEN iffD1]) simp_all
  with o show "unat off < unat off' \<and> unat off' \<le> length data" by simp
qed

theorem reserialise_correct_witness:
  "\<exists>ok s'. ser_loop byte_lib (\<lambda>_ _. 0) [7, 0, 9] 0 example_ser = Some (ok, s') \<and>
     unat (ser_off s') \<le> unat (ser_size s')"
proof -
  have "fresh_allocator (\<lambda>_ _. 0)" "lib_bounded byte_lib 1"
    by (auto simp: fresh_allocator_def lib_bounded_def byte_lib_def)
  moreover have "ser_inv [] example_ser" by (simp add: ser_inv_def example_ser_def)
  moreover have "unat (ser_size example_ser) + Suc (length [7, 0, 9 :: u8]) * 1 < 2 ^ 64"
    by (simp add: example_ser_def)
  ultimately show ?thesis
    using reserialise_correct [OF _ byte_lib_progress, of "\<lambda>_ _. 0" 1 example_ser "[7, 0, 9]"] by blast
qed

end
