(* ===== verification/Flb_Input.thy ===== *)
theory Flb_Input
  imports Flb_Stream Flb_Heap
begin

text \<open>
  Input plugins, \<^verbatim>\<open>fluent-bit/flb_input.h\<close>, and the coroutines of \<^verbatim>\<open>fluent-bit/flb_coro.h\<close> their
  collectors run in.  The coroutine library (\<^verbatim>\<open>co_active\<close>, \<^verbatim>\<open>co_create\<close>, \<^verbatim>\<open>co_switch\<close>, \<^verbatim>\<open>co_delete\<close>),
  the event channel and the functions of other modules are parameters; thread-specific data is
  modelled as a table from keys to pointers.
\<close>

section \<open>Coroutines\<close>

record flb_coro =
  co_caller :: ptr
  co_callee :: ptr
  co_data :: ptr

definition sizeof_flb_coro :: nat where "sizeof_flb_coro = 24"

definition FLB_CORO_DATA :: "ptr \<Rightarrow> ptr" where
  "FLB_CORO_DATA coro = coro + sizeof_flb_coro"

text \<open>
  Twice \<^verbatim>\<open>STACK_FACTOR\<close>, which is 1.5 on macOS with aarch64, 2 on macOS and 1 elsewhere; \<^verbatim>\<open>FLB_CORO_STACK_SIZE\<close> can be set
  by the build.
\<close>

definition STACK_FACTOR_twice :: "bool \<Rightarrow> bool \<Rightarrow> nat" where
  "STACK_FACTOR_twice macos aarch64 = (if macos then if aarch64 then 3 else 4 else 2)"

definition FLB_CORO_STACK_SIZE_BYTE :: "nat option \<Rightarrow> bool \<Rightarrow> bool \<Rightarrow> nat \<Rightarrow> nat" where
  "FLB_CORO_STACK_SIZE_BYTE FLB_CORO_STACK_SIZE macos aarch64 PTHREAD_STACK_MIN =
     (case FLB_CORO_STACK_SIZE of Some n \<Rightarrow> n
      | None \<Rightarrow> (3 * STACK_FACTOR_twice macos aarch64 * PTHREAD_STACK_MIN) div 4)"

text \<open>The sizes that the comments give for macOS, whose smallest stacks have 16 KiB on aarch64 and 8 KiB on x86-64.\<close>

lemma macos_stack_sizes:
  "FLB_CORO_STACK_SIZE_BYTE None True True (16 * 1024) = 36 * 1024"
  "FLB_CORO_STACK_SIZE_BYTE None True False (8 * 1024) = 24 * 1024"
  by (simp_all add: FLB_CORO_STACK_SIZE_BYTE_def STACK_FACTOR_twice_def)

section \<open>Structures\<close>

definition FLB_COLLECT_TIME :: int where "FLB_COLLECT_TIME = 1"
definition FLB_COLLECT_FD_EVENT :: int where "FLB_COLLECT_FD_EVENT = 2"
definition FLB_COLLECT_FD_SERVER :: int where "FLB_COLLECT_FD_SERVER = 4"

definition FLB_INPUT_NET :: u32 where "FLB_INPUT_NET = 4"
definition FLB_INPUT_PLUGIN_CORE :: u32 where "FLB_INPUT_PLUGIN_CORE = 0"
definition FLB_INPUT_PLUGIN_PROXY :: u32 where "FLB_INPUT_PLUGIN_PROXY = 1"
definition FLB_INPUT_CORO :: u32 where "FLB_INPUT_CORO = 128"
definition FLB_INPUT_PRIVATE :: u32 where "FLB_INPUT_PRIVATE = 256"
definition FLB_INPUT_NOTAG :: u32 where "FLB_INPUT_NOTAG = 512"
definition FLB_INPUT_THREADED :: u32 where "FLB_INPUT_THREADED = 1024"
definition FLB_INPUT_NET_SERVER :: u32 where "FLB_INPUT_NET_SERVER = 2048"

definition FLB_INPUT_RUNNING :: int where "FLB_INPUT_RUNNING = 1"
definition FLB_INPUT_PAUSED :: int where "FLB_INPUT_PAUSED = 0"

definition FLB_INPUT_LOGS :: int where "FLB_INPUT_LOGS = 0"
definition FLB_INPUT_METRICS :: int where "FLB_INPUT_METRICS = 1"
definition FLB_INPUT_TRACES :: int where "FLB_INPUT_TRACES = 2"

text \<open>Callbacks are function pointers; embedded list heads are the addresses of their nodes.\<close>

record flb_input_plugin =
  ip_type :: int
  ip_proxy :: ptr
  ip_flags :: u32
  ip_name :: ptr
  ip_description :: ptr
  ip_config_map :: ptr
  ip_cb_init :: ptr
  ip_cb_pre_run :: ptr
  ip_cb_collect :: ptr
  ip_cb_flush_buf :: ptr
  ip_cb_flush_end :: ptr
  ip_cb_pause :: ptr
  ip_cb_resume :: ptr
  ip_cb_ingest :: ptr
  ip_cb_exit :: ptr
  ip_cb_destroy :: ptr
  ip_instance :: ptr

record flb_input_instance_base =
  ii_event :: mk_event
  ii_processor :: ptr
  ii_flags :: u32
  ii_id :: u32
  ii_chunk_trace_ctxt :: ptr
  ii_chunk_trace_lock :: ptr
  ii_log_level :: int
  ii_log_suppress_interval :: int
  ii_channel :: "int \<times> int"
  ii_runs_in_coroutine :: int
  ii_name :: string
  ii_alias :: ptr
  ii_context :: ptr
  ii_ch_events :: "int \<times> int"
  ii_p :: ptr
  ii_tag :: ptr
  ii_tag_len :: int
  ii_tag_default :: int
  ii_routable :: int
  ii_storage_pause_on_chunks_overlimit :: int
  ii_host :: flb_net_host
  ii_storage :: ptr
  ii_storage_type :: int
  ii_mem_chunks_size :: size_t
  ii_mp_total_buf_size :: size_t
  ii_mem_buf_limit :: size_t
  ii_mem_buf_status :: int
  ii_storage_buf_status :: int
  ii_data :: ptr

record flb_input_instance_lists = flb_input_instance_base +
  ii_config_map :: ptr
  ii_head :: ptr
  ii_routes_direct :: ptr
  ii_routes :: ptr
  ii_properties :: ptr
  ii_collectors :: ptr
  ii_chunks :: ptr
  ii_chunks_up :: ptr
  ii_chunks_down :: ptr
  ii_tasks :: ptr
  ii_input_coro_id :: int
  ii_input_coro_list :: ptr
  ii_input_coro_list_destroy :: ptr
  ii_metrics :: ptr
  ii_is_threaded :: int
  ii_thi :: ptr
  ii_rb :: ptr
  ii_upstreams :: ptr
  ii_downstreams :: ptr

record flb_input_instance = flb_input_instance_lists +
  ii_cmt :: ptr
  ii_cmt_bytes :: ptr
  ii_cmt_records :: ptr
  ii_cmt_storage_overlimit :: ptr
  ii_cmt_storage_memory_bytes :: ptr
  ii_cmt_storage_chunks :: ptr
  ii_cmt_storage_chunks_up :: ptr
  ii_cmt_storage_chunks_down :: ptr
  ii_cmt_storage_chunks_busy :: ptr
  ii_cmt_storage_chunks_busy_bytes :: ptr
  ii_cmt_memrb_dropped_chunks :: ptr
  ii_cmt_memrb_dropped_bytes :: ptr
  ii_ht_log_chunks :: ptr
  ii_ht_metric_chunks :: ptr
  ii_ht_trace_chunks :: ptr
  ii_use_tls :: int
  ii_tls_verify :: int
  ii_tls_debug :: int
  ii_tls_vhost :: ptr
  ii_tls_ca_path :: ptr
  ii_tls_ca_file :: ptr
  ii_tls_crt_file :: ptr
  ii_tls_key_file :: ptr
  ii_tls_key_passwd :: ptr
  ii_tls_config_map :: ptr
  ii_tls :: ptr
  ii_net_setup :: flb_net_setup
  ii_net_config_map :: ptr
  ii_net_properties :: ptr
  ii_config :: ptr

record flb_input_collector =
  cl_event :: mk_event
  cl_evl :: ptr
  cl_id :: int
  cl_type :: int
  cl_running :: int
  cl_fd_event :: int
  cl_fd_timer :: int
  cl_seconds :: int
  cl_nanoseconds :: int
  cl_cb_collect :: ptr
  cl_instance :: ptr

text \<open>The node \<^verbatim>\<open>_head\<close> of a \<^verbatim>\<open>flb_input_coro\<close> is 48 bytes into the structure.\<close>

record flb_input_coro =
  ic_id :: int
  ic_start_time :: int
  ic_end_time :: int
  ic_ins :: ptr
  ic_coro :: ptr
  ic_config :: ptr

definition flb_input_coro_head_off :: nat where "flb_input_coro_head_off = 48"
definition sizeof_flb_input_coro :: nat where "sizeof_flb_input_coro = 64"

record flb_libco_in_params =
  inp_config :: ptr
  inp_coll :: ptr
  inp_coro :: ptr

definition sizeof_flb_libco_in_params :: nat where "sizeof_flb_libco_in_params = 24"

text \<open>The structures as zeroed memory.\<close>

definition zero_flb_input_instance :: flb_input_instance where
  "zero_flb_input_instance =
    \<lparr>ii_event = zero_mk_event, ii_processor = 0, ii_flags = 0, ii_id = 0,
     ii_chunk_trace_ctxt = 0, ii_chunk_trace_lock = 0, ii_log_level = 0,
     ii_log_suppress_interval = 0, ii_channel = (0, 0), ii_runs_in_coroutine = 0, ii_name = '''',
     ii_alias = 0, ii_context = 0, ii_ch_events = (0, 0), ii_p = 0, ii_tag = 0, ii_tag_len = 0,
     ii_tag_default = 0, ii_routable = 0, ii_storage_pause_on_chunks_overlimit = 0,
     ii_host = zero_flb_net_host, ii_storage = 0, ii_storage_type = 0, ii_mem_chunks_size = 0,
     ii_mp_total_buf_size = 0, ii_mem_buf_limit = 0, ii_mem_buf_status = 0,
     ii_storage_buf_status = 0, ii_data = 0, ii_config_map = 0, ii_head = 0, ii_routes_direct = 0,
     ii_routes = 0, ii_properties = 0, ii_collectors = 0, ii_chunks = 0, ii_chunks_up = 0,
     ii_chunks_down = 0, ii_tasks = 0, ii_input_coro_id = 0, ii_input_coro_list = 0,
     ii_input_coro_list_destroy = 0, ii_metrics = 0, ii_is_threaded = 0, ii_thi = 0, ii_rb = 0,
     ii_upstreams = 0, ii_downstreams = 0, ii_cmt = 0, ii_cmt_bytes = 0, ii_cmt_records = 0,
     ii_cmt_storage_overlimit = 0, ii_cmt_storage_memory_bytes = 0, ii_cmt_storage_chunks = 0,
     ii_cmt_storage_chunks_up = 0, ii_cmt_storage_chunks_down = 0, ii_cmt_storage_chunks_busy = 0,
     ii_cmt_storage_chunks_busy_bytes = 0, ii_cmt_memrb_dropped_chunks = 0,
     ii_cmt_memrb_dropped_bytes = 0, ii_ht_log_chunks = 0, ii_ht_metric_chunks = 0,
     ii_ht_trace_chunks = 0, ii_use_tls = 0, ii_tls_verify = 0, ii_tls_debug = 0,
     ii_tls_vhost = 0, ii_tls_ca_path = 0, ii_tls_ca_file = 0, ii_tls_crt_file = 0,
     ii_tls_key_file = 0, ii_tls_key_passwd = 0, ii_tls_config_map = 0, ii_tls = 0,
     ii_net_setup = zero_flb_net_setup, ii_net_config_map = 0, ii_net_properties = 0,
     ii_config = 0\<rparr>"

definition zero_flb_input_collector :: flb_input_collector where
  "zero_flb_input_collector =
    \<lparr>cl_event = zero_mk_event, cl_evl = 0, cl_id = 0, cl_type = 0, cl_running = 0,
     cl_fd_event = 0, cl_fd_timer = 0, cl_seconds = 0, cl_nanoseconds = 0, cl_cb_collect = 0,
     cl_instance = 0\<rparr>"

section \<open>The state\<close>

text \<open>
  \<open>iw_tls\<close> is the thread-specific data of the running thread, \<open>iw_key\<close> the global
  \<^verbatim>\<open>libco_in_param_key\<close>, \<open>iw_keys\<close> the number of keys created so far.
\<close>

record 'x in_world =
  iw_mem :: mem
  iw_links :: lheap
  iw_instances :: "ptr \<rightharpoonup> flb_input_instance"
  iw_collectors :: "ptr \<rightharpoonup> flb_input_collector"
  iw_configs :: "ptr \<rightharpoonup> flb_config"
  iw_coros :: "ptr \<rightharpoonup> flb_coro"
  iw_icoros :: "ptr \<rightharpoonup> flb_input_coro"
  iw_params :: "ptr \<rightharpoonup> flb_libco_in_params"
  iw_tls :: "nat \<Rightarrow> ptr"
  iw_key :: nat
  iw_keys :: nat
  iw_ext :: 'x

text \<open>The code outside the headers.\<close>

record 'x in_env =
  env_alloc :: allocator
  env_time :: "'x in_world \<Rightarrow> int"
  env_coro_id_get :: "ptr \<Rightarrow> 'x in_world \<Rightarrow> int \<times> 'x in_world"
  env_co_active :: "'x in_world \<Rightarrow> ptr"
  env_co_create :: "u32 \<Rightarrow> 'x in_world \<Rightarrow> ptr \<times> 'x in_world"
  env_co_switch :: "ptr \<Rightarrow> 'x in_world \<Rightarrow> 'x in_world option"
  env_co_delete :: "ptr \<Rightarrow> 'x in_world \<Rightarrow> 'x in_world"
  env_coro_set :: "ptr \<Rightarrow> 'x in_world \<Rightarrow> 'x in_world"
  env_pipe_w :: "int \<Rightarrow> u64 \<Rightarrow> 'x in_world \<Rightarrow> int \<times> 'x in_world"
  env_prepare_destroy :: "ptr \<Rightarrow> 'x in_world \<Rightarrow> 'x in_world"
  env_collect :: "ptr \<Rightarrow> ptr \<Rightarrow> ptr \<Rightarrow> ptr \<Rightarrow> 'x in_world \<Rightarrow> 'x in_world"

section \<open>Coroutine operations\<close>

definition flb_coro_yield :: "'x in_env \<Rightarrow> ptr \<Rightarrow> int \<Rightarrow> 'x in_world \<Rightarrow> 'x in_world option" where
  "flb_coro_yield env coro ended w = do {
     c \<leftarrow> iw_coros w coro;
     env_co_switch env (co_caller c) w
   }"

definition flb_coro_return :: "'x in_env \<Rightarrow> ptr \<Rightarrow> 'x in_world \<Rightarrow> 'x in_world option" where
  "flb_coro_return env th w = do {
     c \<leftarrow> iw_coros w th;
     env_co_switch env (co_caller c) w
   }"

definition flb_coro_destroy :: "'x in_env \<Rightarrow> ptr \<Rightarrow> 'x in_world \<Rightarrow> 'x in_world option" where
  "flb_coro_destroy env coro w = do {
     c \<leftarrow> iw_coros w coro;
     let w = (if co_callee c \<noteq> NULL then env_co_delete env (co_callee c) w else w);
     m \<leftarrow> flb_free coro (iw_mem w);
     Some (w\<lparr>iw_mem := m, iw_coros := (iw_coros w)(coro := None)\<rparr>)
   }"

definition flb_coro_resume :: "'x in_env \<Rightarrow> ptr \<Rightarrow> 'x in_world \<Rightarrow> 'x in_world option" where
  "flb_coro_resume env coro w = do {
     let w = env_coro_set env coro w;
     c \<leftarrow> iw_coros w coro;
     let w = w\<lparr>iw_coros := (iw_coros w)(coro \<mapsto> c\<lparr>co_caller := env_co_active env w\<rparr>)\<rparr>;
     env_co_switch env (co_callee c) w
   }"

definition flb_coro_create :: "'x in_env \<Rightarrow> ptr \<Rightarrow> 'x in_world \<Rightarrow> ptr \<times> 'x in_world" where
  "flb_coro_create env data w =
     (let (coro, m) = flb_calloc (env_alloc env) 1 (of_nat sizeof_flb_coro) (iw_mem w)
      in if coro = NULL then (NULL, w\<lparr>iw_mem := m\<rparr>)
         else (coro, w\<lparr>iw_mem := m,
                iw_coros := (iw_coros w)(coro \<mapsto> \<lparr>co_caller = NULL, co_callee = NULL, co_data = data\<rparr>)\<rparr>))"

section \<open>Input operations\<close>

definition flb_input_coro_create :: "'x in_env \<Rightarrow> ptr \<Rightarrow> ptr \<Rightarrow> 'x in_world \<Rightarrow> (ptr \<times> 'x in_world) option" where
  "flb_input_coro_create env ins config w =
     (let (input_coro, m) = flb_calloc (env_alloc env) 1 (of_nat sizeof_flb_input_coro) (iw_mem w)
      in if input_coro = NULL then Some (NULL, w\<lparr>iw_mem := m\<rparr>)
         else
           (let w = w\<lparr>iw_mem := m,
                  iw_links := (iw_links w)(input_coro + flb_input_coro_head_off \<mapsto> zero_node),
                  iw_icoros := (iw_icoros w)(input_coro \<mapsto>
                    \<lparr>ic_id = 0, ic_start_time = 0, ic_end_time = 0, ic_ins = NULL, ic_coro = NULL, ic_config = NULL\<rparr>)\<rparr>;
                (coro, w) = flb_coro_create env input_coro w
            in if coro = NULL then do {
                 m \<leftarrow> flb_free input_coro (iw_mem w);
                 Some (NULL, w\<lparr>iw_mem := m,
                   iw_links := (iw_links w)(input_coro + flb_input_coro_head_off := None),
                   iw_icoros := (iw_icoros w)(input_coro := None)\<rparr>)
               }
               else do {
                 let (id', w) = env_coro_id_get env ins w;
                 let w = w\<lparr>iw_icoros := (iw_icoros w)(input_coro \<mapsto>
                    \<lparr>ic_id = id', ic_start_time = env_time env w, ic_end_time = 0,
                     ic_ins = ins, ic_coro = coro, ic_config = config\<rparr>)\<rparr>;
                 i \<leftarrow> iw_instances w ins;
                 h \<leftarrow> mk_list_add (input_coro + flb_input_coro_head_off) (ii_input_coro_list i) (iw_links w);
                 Some (input_coro, w\<lparr>iw_links := h\<rparr>)
               }))"

text \<open>The lookup-or-create of the thread's parameter block shared by the two functions below.\<close>

definition in_params_get :: "'x in_env \<Rightarrow> 'x in_world \<Rightarrow> ptr \<times> 'x in_world" where
  "in_params_get env w =
     (let params = iw_tls w (iw_key w)
      in if params \<noteq> NULL then (params, w)
         else
           (let (params, m) = flb_calloc (env_alloc env) 1 (of_nat sizeof_flb_libco_in_params) (iw_mem w)
            in if params = NULL then (NULL, w\<lparr>iw_mem := m\<rparr>)
               else (params, w\<lparr>iw_mem := m,
                       iw_params := (iw_params w)(params \<mapsto> \<lparr>inp_config = NULL, inp_coll = NULL, inp_coro = NULL\<rparr>),
                       iw_tls := (iw_tls w)(iw_key w := params)\<rparr>)))"

definition input_params_set :: "'x in_env \<Rightarrow> ptr \<Rightarrow> ptr \<Rightarrow> ptr \<Rightarrow> ptr \<Rightarrow> 'x in_world \<Rightarrow> 'x in_world option" where
  "input_params_set env coro coll config context w =
     (let (params, w) = in_params_get env w
      in if params = NULL then Some w
         else do {
           c \<leftarrow> iw_coros w coro;
           env_co_switch env (co_callee c)
             (w\<lparr>iw_params := (iw_params w)(params \<mapsto> \<lparr>inp_config = config, inp_coll = coll, inp_coro = coro\<rparr>)\<rparr>)
         })"

text \<open>
  \<^verbatim>\<open>input_pre_cb_collect\<close> up to its \<^verbatim>\<open>co_switch\<close> (which collector, configuration and coroutine
  it has read from the parameter block), and what it does when it is switched to again.
\<close>

definition input_pre_cb_collect_enter ::
  "'x in_env \<Rightarrow> 'x in_world \<Rightarrow> ((ptr \<times> ptr \<times> ptr) option \<times> 'x in_world) option" where
  "input_pre_cb_collect_enter env w =
     (let (params, w) = in_params_get env w
      in if params = NULL then Some (None, w)
         else do {
           p \<leftarrow> iw_params w params;
           c \<leftarrow> iw_coros w (inp_coro p);
           w \<leftarrow> env_co_switch env (co_caller c) w;
           Some (Some (inp_coll p, inp_config p, inp_coro p), w)
         })"

definition input_pre_cb_collect_resumed ::
  "'x in_env \<Rightarrow> ptr \<times> ptr \<times> ptr \<Rightarrow> 'x in_world \<Rightarrow> 'x in_world option" where
  "input_pre_cb_collect_resumed env locals w =
     (let (coll, config, coro) = locals in do {
        cl \<leftarrow> iw_collectors w coll;
        i \<leftarrow> iw_instances w (cl_instance cl);
        Some (env_collect env (cl_cb_collect cl) (cl_instance cl) config (ii_context i) w)
      })"

definition flb_input_coro_resume :: "'x in_env \<Rightarrow> ptr \<Rightarrow> 'x in_world \<Rightarrow> 'x in_world option" where
  "flb_input_coro_resume env input_coro w = do {
     ic \<leftarrow> iw_icoros w input_coro;
     flb_coro_resume env (ic_coro ic) w
   }"

definition libco_in_param_key_destroy :: "ptr \<Rightarrow> 'x in_world \<Rightarrow> 'x in_world option" where
  "libco_in_param_key_destroy data w = do {
     m \<leftarrow> flb_free data (iw_mem w);
     Some (w\<lparr>iw_mem := m, iw_params := (iw_params w)(data := None)\<rparr>)
   }"

text \<open>\<^verbatim>\<open>pthread_key_create\<close> makes a new key, for which every thread's value is null.\<close>

definition in_key_create :: "'x in_world \<Rightarrow> 'x in_world" where
  "in_key_create w = w\<lparr>iw_key := iw_keys w, iw_keys := Suc (iw_keys w), iw_tls := (iw_tls w)(iw_keys w := NULL)\<rparr>"

definition flb_input_coro_collect :: "'x in_env \<Rightarrow> ptr \<Rightarrow> ptr \<Rightarrow> 'x in_world \<Rightarrow> (ptr \<times> 'x in_world) option" where
  "flb_input_coro_collect env coll config w = do {
     cl \<leftarrow> iw_collectors w coll;
     (input_coro, w) \<leftarrow> flb_input_coro_create env (cl_instance cl) config w;
     if input_coro = NULL then Some (NULL, w)
     else do {
       let w = in_key_create w;
       ic \<leftarrow> iw_icoros w input_coro;
       if ic_coro ic = NULL then Some (NULL, w)
       else do {
         c \<leftarrow> iw_coros w (ic_coro ic);
         cf \<leftarrow> iw_configs w config;
         let caller = env_co_active env w;
         let (callee, w) = env_co_create env (cf_coro_stack_size cf) w;
         let w = w\<lparr>iw_coros := (iw_coros w)(ic_coro ic \<mapsto> c\<lparr>co_caller := caller, co_callee := callee\<rparr>)\<rparr>;
         i \<leftarrow> iw_instances w (cl_instance cl);
         w \<leftarrow> input_params_set env (ic_coro ic) coll config (ii_context i) w;
         Some (input_coro, w)
       }
     }
   }"

definition flb_input_is_threaded :: "flb_input_instance \<Rightarrow> int" where
  "flb_input_is_threaded ins = ii_is_threaded ins"

definition flb_input_return :: "'x in_env \<Rightarrow> ptr \<Rightarrow> 'x in_world \<Rightarrow> 'x in_world option" where
  "flb_input_return env coro w = do {
     c \<leftarrow> iw_coros w coro;
     ic \<leftarrow> iw_icoros w (co_data c);
     i \<leftarrow> iw_instances w (ic_ins ic);
     let (n, w) = env_pipe_w env (snd (ii_ch_events i)) (FLB_BITS_U64_SET FLB_ENGINE_IN_CORO (ii_id i)) w;
     Some (env_prepare_destroy env (co_data c) w)
   }"

definition flb_input_return_do :: "'x in_env \<Rightarrow> ('x in_world \<Rightarrow> ptr) \<Rightarrow> int \<Rightarrow> 'x in_world \<Rightarrow> 'x in_world option" where
  "flb_input_return_do env flb_coro_get ret w = do {
     let coro = flb_coro_get w;
     w \<leftarrow> flb_input_return env coro w;
     flb_coro_yield env coro FLB_TRUE w
   }"

definition flb_input_buf_paused :: "flb_input_instance \<Rightarrow> int" where
  "flb_input_buf_paused i =
     (if ii_mem_buf_status i = FLB_INPUT_PAUSED then FLB_TRUE
      else if ii_storage_buf_status i = FLB_INPUT_PAUSED then FLB_TRUE
      else FLB_FALSE)"

text \<open>
  \<^verbatim>\<open>flb_config_map_set\<close> writes the properties to the plugin's context or to the network setup.
  \<^verbatim>\<open>int ret\<close> has no initial value: it is \<open>None\<close> until it is assigned, and so is the result when
  neither map is set.
\<close>

datatype map_target = Target_Context ptr | Target_Net_Setup

definition flb_input_config_map_set ::
  "(ptr \<Rightarrow> ptr \<Rightarrow> map_target \<Rightarrow> 'c \<Rightarrow> int \<times> 'c) \<Rightarrow> flb_input_instance \<Rightarrow> ptr \<Rightarrow> 'c \<Rightarrow> int option \<times> 'c" where
  "flb_input_config_map_set map_set ins context c =
     (let (ret, c) = (if ii_config_map ins \<noteq> NULL
            then map_prod Some id (map_set (ii_properties ins) (ii_config_map ins) (Target_Context context) c)
            else (None, c))
      in if ret = Some (- 1) then (Some (- 1), c)
         else
           (let (ret, c) = (if ii_net_config_map ins \<noteq> NULL
                  then map_prod Some id (map_set (ii_net_properties ins) (ii_net_config_map ins) Target_Net_Setup c)
                  else (ret, c))
            in if ret = Some (- 1) then (Some (- 1), c) else (ret, c)))"

section \<open>Lemmas\<close>

text \<open>What the code relies on: taking a coroutine id only changes the instance's counter.\<close>

definition coro_id_get_ok :: "'x in_env \<Rightarrow> bool" where
  "coro_id_get_ok env \<longleftrightarrow> (\<forall>p w. \<exists>insts. snd (env_coro_id_get env p w) = w\<lparr>iw_instances := insts\<rparr> \<and>
     (\<forall>q i. iw_instances w q = Some i \<longrightarrow> (\<exists>n. insts q = Some (i\<lparr>ii_input_coro_id := n\<rparr>))))"

lemma in_params_get_tls:
  assumes "in_params_get env w = (params, w')" "params \<noteq> NULL"
  shows "iw_tls w' (iw_key w') = params"
  using assms by (auto simp: in_params_get_def Let_def split: if_splits prod.splits)

section \<open>Properties\<close>

text \<open>An instance at address 2048 whose coroutine list is the node 512, inside the block at 512.\<close>

definition example_in_env :: "'x in_env" where
  "example_in_env = \<lparr>env_alloc = bump_allocator, env_time = (\<lambda>w. 0), env_coro_id_get = (\<lambda>p w. (1, w)),
     env_co_active = (\<lambda>w. 1), env_co_create = (\<lambda>sz w. (4096, w)), env_co_switch = (\<lambda>t w. Some w),
     env_co_delete = (\<lambda>t w. w), env_coro_set = (\<lambda>c w. w), env_pipe_w = (\<lambda>fd v w. (8, w)),
     env_prepare_destroy = (\<lambda>p w. w), env_collect = (\<lambda>cb i cf cx w. w)\<rparr>"

definition example_in_world :: "'x \<Rightarrow> 'x in_world" where
  "example_in_world x = \<lparr>iw_mem = \<lparr>blocks = [512 \<mapsto> replicate 512 (Some 0)], calls = 0\<rparr>,
     iw_links = [512 \<mapsto> \<lparr>mk_prev = 512, mk_next = 512\<rparr>],
     iw_instances = [2048 \<mapsto> zero_flb_input_instance\<lparr>ii_input_coro_list := 512, ii_id := 7, ii_ch_events := (10, 11)\<rparr>],
     iw_collectors = [2500 \<mapsto> zero_flb_input_collector\<lparr>cl_instance := 2048\<rparr>],
     iw_configs = [3000 \<mapsto> zero_flb_config], iw_coros = [600 \<mapsto> \<lparr>co_caller = 1, co_callee = 4096, co_data = 640\<rparr>],
     iw_icoros = [640 \<mapsto> \<lparr>ic_id = 1, ic_start_time = 0, ic_end_time = 0, ic_ins = 2048, ic_coro = 600, ic_config = 3000\<rparr>],
     iw_params = Map.empty, iw_tls = (\<lambda>_. NULL), iw_key = 0, iw_keys = 1, iw_ext = x\<rparr>"

text \<open>
  C15: creating a collection coroutine.  \<^verbatim>\<open>flb_input_coro_create\<close> always returns; when either of its
  two allocations fails it answers null and has released everything, otherwise the new coroutine
  is the last entry of the instance's list, knows its instance and configuration, and its
  coroutine context points back to it (so the null check of its caller can never fire).
\<close>

theorem input_coro_create_safe:
  assumes "fresh_allocator (env_alloc env)" "sep_allocator (env_alloc env)"
    and "nodes_in_blocks (iw_links w) (iw_mem w)" "coro_id_get_ok env"
    and "iw_instances w ins = Some i" "dll (iw_links w) (ii_input_coro_list i) xs"
  shows "\<exists>r w'. flb_input_coro_create env ins config w = Some (r, w') \<and>
    (if r = NULL then blocks (iw_mem w') = blocks (iw_mem w) \<and> iw_links w' = iw_links w
     else dll (iw_links w') (ii_input_coro_list i) (xs @ [r + flb_input_coro_head_off]) \<and>
       (\<exists>ic c. iw_icoros w' r = Some ic \<and> ic_ins ic = ins \<and> ic_config ic = config \<and> ic_coro ic \<noteq> NULL \<and>
          iw_coros w' (ic_coro ic) = Some c \<and> co_data c = r))"
proof -
  let ?al = "env_alloc env"
  obtain p m where pm: "flb_calloc ?al 1 (of_nat sizeof_flb_input_coro) (iw_mem w) = (p, m)" by fastforce
  note pb = flb_calloc_blocks [OF pm assms(1)]
  show ?thesis
  proof (cases "p = NULL")
    case True
    then show ?thesis using pm pb by (auto simp: flb_input_coro_create_def)
  next
    case False
    let ?n = "p + flb_input_coro_head_off"
    have pal: "p = ?al (iw_mem w) (of_nat sizeof_flb_input_coro)"
      using pm False by (auto simp: flb_calloc_def calloc_def Let_def sizeof_flb_input_coro_def split: if_splits)
    have fresh: "?n \<notin> dom (iw_links w)"
      using sep_allocator_fresh_node [OF assms(2,3), of "of_nat sizeof_flb_input_coro" flb_input_coro_head_off] False pal
      by (simp add: sizeof_flb_input_coro_def flb_input_coro_head_off_def)
    obtain c m2 where cm: "flb_calloc ?al 1 (of_nat sizeof_flb_coro) m = (c, m2)" by fastforce
    note cb = flb_calloc_blocks [OF cm assms(1)]
    show ?thesis
    proof (cases "c = NULL")
      case True
      have b1: "blocks m2 p \<noteq> None" "(blocks m2)(p := None) = blocks (iw_mem w)"
        using pb cb True False by (auto simp: fun_upd_idem)
      moreover have "(iw_links w)(?n := None) = iw_links w" using fresh by (simp add: fun_upd_idem domIff)
      ultimately show ?thesis using pm cm True False flb_free_live [OF b1(1) False]
        by (simp add: flb_input_coro_create_def flb_coro_create_def)
    next
      case cn: False
      let ?w1 = "w\<lparr>iw_mem := m2, iw_links := (iw_links w)(?n \<mapsto> zero_node),
          iw_icoros := (iw_icoros w)(p \<mapsto>
            \<lparr>ic_id = 0, ic_start_time = 0, ic_end_time = 0, ic_ins = NULL, ic_coro = NULL, ic_config = NULL\<rparr>),
          iw_coros := (iw_coros w)(c \<mapsto> \<lparr>co_caller = NULL, co_callee = NULL, co_data = p\<rparr>)\<rparr>"
      have cc: "flb_coro_create env p (w\<lparr>iw_mem := m, iw_links := (iw_links w)(?n \<mapsto> zero_node),
          iw_icoros := (iw_icoros w)(p \<mapsto>
            \<lparr>ic_id = 0, ic_start_time = 0, ic_end_time = 0, ic_ins = NULL, ic_coro = NULL, ic_config = NULL\<rparr>)\<rparr>) = (c, ?w1)"
        using cm cn by (simp add: flb_coro_create_def)
      obtain k insts where k: "env_coro_id_get env ins ?w1 = (k, ?w1\<lparr>iw_instances := insts\<rparr>)"
          "\<forall>q i. iw_instances ?w1 q = Some i \<longrightarrow> (\<exists>n. insts q = Some (i\<lparr>ii_input_coro_id := n\<rparr>))"
        using assms(4) unfolding coro_id_get_ok_def by (metis prod.collapse)
      obtain n where n: "insts ins = Some (i\<lparr>ii_input_coro_id := n\<rparr>)" using k(2) assms(5) by auto
      have "set (ii_input_coro_list i # xs) \<subseteq> dom (iw_links w)"
        using dll_ends(1,4) [OF assms(6)] by (auto simp: valid_def)
      then have nin: "?n \<notin> set (ii_input_coro_list i # xs)" using fresh by blast
      then have "dll (iw_links ?w1) (ii_input_coro_list i) xs"
        using assms(6) by (subst dll_frame [where h = "iw_links w"]) auto
      moreover have "valid (iw_links ?w1) ?n" using False by (simp add: valid_def)
      ultimately obtain h where "mk_list_add ?n (ii_input_coro_list i) ((iw_links w)(?n \<mapsto> zero_node)) = Some h"
          "dll h (ii_input_coro_list i) (xs @ [?n])"
        using mk_list_add_dll [of "iw_links ?w1" "ii_input_coro_list i" xs ?n] nin by auto
      then show ?thesis
        using pm cc False cn k(1) n by (simp add: flb_input_coro_create_def Let_def)
    qed
  qed
qed

lemma coro_id_get_ok_example: "coro_id_get_ok (example_in_env :: 'x in_env)"
  unfolding coro_id_get_ok_def
proof (intro allI)
  fix p and w :: "'x in_world"
  show "\<exists>insts. snd (env_coro_id_get example_in_env p w) = w\<lparr>iw_instances := insts\<rparr> \<and>
     (\<forall>q i. iw_instances w q = Some i \<longrightarrow> (\<exists>n. insts q = Some (i\<lparr>ii_input_coro_id := n\<rparr>)))"
  proof (intro exI [of _ "iw_instances w"] conjI allI impI)
    show "snd (env_coro_id_get example_in_env p w) = w\<lparr>iw_instances := iw_instances w\<rparr>"
      by (simp add: example_in_env_def)
    show "\<exists>n. iw_instances w q = Some (i\<lparr>ii_input_coro_id := n\<rparr>)" if "iw_instances w q = Some i" for q i
      using that by (intro exI [of _ "ii_input_coro_id i"]) simp
  qed
qed

lemma example_in_world_ok:
  "nodes_in_blocks (iw_links (example_in_world x)) (iw_mem (example_in_world x))"
  "dll (iw_links (example_in_world x)) 512 []"
  by (auto simp: nodes_in_blocks_def example_in_world_def split: if_splits intro!: exI [of _ 512])
    (simp add: dll_def example_in_world_def valid_def nx_def pv_def)

theorem input_coro_create_safe_witness:
  "\<exists>r w'. flb_input_coro_create example_in_env 2048 3000 (example_in_world ()) = Some (r, w') \<and>
     (r \<noteq> NULL \<longrightarrow> dll (iw_links w') 512 [r + 48])"
proof -
  let ?i = "zero_flb_input_instance\<lparr>ii_input_coro_list := 512, ii_id := 7, ii_ch_events := (10, 11)\<rparr>"
  have a: "fresh_allocator (env_alloc (example_in_env :: unit in_env))" "sep_allocator (env_alloc (example_in_env :: unit in_env))"
    using bump_allocator_ok by (simp_all add: example_in_env_def)
  have i: "iw_instances (example_in_world ()) 2048 = Some ?i" by (simp add: example_in_world_def)
  have d: "dll (iw_links (example_in_world ())) (ii_input_coro_list ?i) []" using example_in_world_ok(2) by simp
  from input_coro_create_safe [OF a example_in_world_ok(1) coro_id_get_ok_example i d, of 3000] show ?thesis
    by (auto simp: flb_input_coro_head_off_def split: if_splits)
qed

text \<open>
  C24: parameters reach the coroutine.  When \<^verbatim>\<open>input_params_set\<close> finds or creates the thread's
  parameter block, it switches to the coroutine's stack in a state in which the entry point reads
  exactly the collector, configuration and coroutine that were set, before it yields; it later
  runs the callback of that collector with these copies, whatever the block holds by then.
\<close>

theorem input_params_reach_coroutine:
  assumes "in_params_get env w = (params, w1)" "params \<noteq> NULL" "iw_coros w1 coro = Some c"
    and "\<forall>t w. env_co_switch env t w \<noteq> None"
    and "iw_collectors w3 coll = Some cl" "iw_instances w3 (cl_instance cl) = Some i"
  shows "\<exists>w2 w2'. input_params_set env coro coll config context w = env_co_switch env (co_callee c) w2 \<and>
    input_pre_cb_collect_enter env w2 = Some (Some (coll, config, coro), w2') \<and>
    input_pre_cb_collect_resumed env (coll, config, coro) w3 =
      Some (env_collect env (cl_cb_collect cl) (cl_instance cl) config (ii_context i) w3)"
proof -
  define w2 where "w2 = w1\<lparr>iw_params := (iw_params w1)(params \<mapsto> \<lparr>inp_config = config, inp_coll = coll, inp_coro = coro\<rparr>)\<rparr>"
  have "iw_tls w2 (iw_key w2) = params" using in_params_get_tls [OF assms(1,2)] by (simp add: w2_def)
  then have g: "in_params_get env w2 = (params, w2)" using assms(2) by (simp add: in_params_get_def)
  obtain w2' where "env_co_switch env (co_caller c) w2 = Some w2'" using assms(4) by blast
  then have "input_pre_cb_collect_enter env w2 = Some (Some (coll, config, coro), w2')"
    using g assms(2,3) by (simp add: input_pre_cb_collect_enter_def w2_def)
  moreover have "input_params_set env coro coll config context w = env_co_switch env (co_callee c) w2"
    using assms(1-3) by (simp add: input_params_set_def w2_def)
  ultimately show ?thesis using assms(5,6) by (auto simp: input_pre_cb_collect_resumed_def)
qed

theorem input_params_reach_coroutine_witness:
  "\<exists>w2 w2'. input_params_set example_in_env 600 2500 3000 0 (example_in_world () \<lparr>iw_tls := (\<lambda>_. 700)\<rparr>) =
      env_co_switch example_in_env 4096 w2 \<and>
    input_pre_cb_collect_enter example_in_env w2 = Some (Some (2500, 3000, 600), w2')"
proof -
  let ?w = "example_in_world () \<lparr>iw_tls := (\<lambda>_. 700)\<rparr>"
  have "in_params_get example_in_env ?w = (700, ?w)" by (simp add: in_params_get_def)
  moreover have "iw_coros ?w 600 = Some \<lparr>co_caller = 1, co_callee = 4096, co_data = 640\<rparr>"
    by (simp add: example_in_world_def)
  moreover have "iw_collectors (example_in_world ()) 2500 = Some (zero_flb_input_collector\<lparr>cl_instance := 2048\<rparr>)"
    "iw_instances (example_in_world ()) (cl_instance (zero_flb_input_collector\<lparr>cl_instance := 2048\<rparr>)) =
      Some (zero_flb_input_instance\<lparr>ii_input_coro_list := 512, ii_id := 7, ii_ch_events := (10, 11)\<rparr>)"
    by (simp_all add: example_in_world_def)
  moreover have "\<forall>t w. env_co_switch (example_in_env :: unit in_env) t w \<noteq> None" by (simp add: example_in_env_def)
  ultimately show ?thesis
    using input_params_reach_coroutine [of example_in_env ?w 700 ?w 600 _ "example_in_world ()" 2500 _ _ 3000 0] by fastforce
qed

text \<open>
  The collection message.  \<^verbatim>\<open>flb_input_return\<close> writes to the instance's event channel a message
  whose high half identifies an input coroutine and whose low half is the instance id, and then
  hands the coroutine over for destruction.
\<close>

lemma input_return_message:
  assumes "iw_coros w coro = Some c" "iw_icoros w (co_data c) = Some ic" "iw_instances w (ic_ins ic) = Some i"
  shows "\<exists>val. flb_input_return env coro w =
      Some (env_prepare_destroy env (co_data c) (snd (env_pipe_w env (snd (ii_ch_events i)) val w))) \<and>
    FLB_BITS_U64_HIGH val = ucast FLB_ENGINE_IN_CORO \<and> FLB_BITS_U64_LOW val = ucast (ii_id i)"
  using assms
  by (intro exI [of _ "FLB_BITS_U64_SET FLB_ENGINE_IN_CORO (ii_id i)"])
    (simp add: flb_input_return_def FLB_BITS_U64_fields split_def)

lemma input_return_message_witness:
  "\<exists>val. flb_input_return example_in_env 600 (example_in_world ()) = Some (example_in_world ()) \<and>
     FLB_BITS_U64_HIGH val = 3 \<and> FLB_BITS_U64_LOW val = 7"
proof -
  let ?w = "example_in_world ()" and ?i = "zero_flb_input_instance\<lparr>ii_input_coro_list := 512, ii_id := 7, ii_ch_events := (10, 11)\<rparr>"
  let ?ic = "\<lparr>ic_id = 1, ic_start_time = 0, ic_end_time = 0, ic_ins = 2048, ic_coro = 600, ic_config = 3000\<rparr>"
  have a: "iw_coros ?w 600 = Some \<lparr>co_caller = 1, co_callee = 4096, co_data = 640\<rparr>"
    "iw_icoros ?w (co_data \<lparr>co_caller = 1, co_callee = 4096, co_data = 640\<rparr>) = Some ?ic"
    "iw_instances ?w (ic_ins ?ic) = Some ?i"
    by (simp_all add: example_in_world_def)
  from input_return_message [OF a, of example_in_env] show ?thesis
    by (auto simp: example_in_env_def FLB_ENGINE_IN_CORO_def)
qed

text \<open>
  Configuring an input.  \<^verbatim>\<open>flb_input_config_map_set\<close> answers -1 as soon as one of the two maps
  is rejected and does not process the second map then; with no map at all it returns the
  variable it never assigned.
\<close>

lemma input_config_map_set_result:
  "fst (flb_input_config_map_set map_set ins context c) =
     (let r1 = map_set (ii_properties ins) (ii_config_map ins) (Target_Context context) c;
          c1 = (if ii_config_map ins = NULL then c else snd r1);
          r2 = map_set (ii_net_properties ins) (ii_net_config_map ins) Target_Net_Setup c1
      in if ii_config_map ins = NULL \<and> ii_net_config_map ins = NULL then None
         else if ii_config_map ins \<noteq> NULL \<and> fst r1 = - 1 then Some (- 1)
         else if ii_net_config_map ins = NULL then Some (fst r1) else Some (fst r2))"
  by (auto simp: flb_input_config_map_set_def Let_def split_def)

end
