(* ===== verification/Flb_Output.thy ===== *)
theory Flb_Output
  imports Flb_Input Flb_Serialize
begin

text \<open>
  Output plugins, \<^verbatim>\<open>fluent-bit/flb_output.h\<close>: the creation of a flush coroutine for a task and an
  output, the entry point that runs the plugin's flush callback when the route is not dropped,
  and the return path that reports to the engine.  Coroutines are those of \<open>Flb_Input\<close>; the
  processors, the metrics and trace libraries, event chunks and the thread pool are parameters.
\<close>

section \<open>Structures\<close>

definition FLB_OUTPUT_NET :: u32 where "FLB_OUTPUT_NET = 32"
definition FLB_OUTPUT_PLUGIN_CORE :: u32 where "FLB_OUTPUT_PLUGIN_CORE = 0"
definition FLB_OUTPUT_PLUGIN_PROXY :: u32 where "FLB_OUTPUT_PLUGIN_PROXY = 1"
definition FLB_OUTPUT_NO_MULTIPLEX :: u32 where "FLB_OUTPUT_NO_MULTIPLEX = 512"
definition FLB_OUTPUT_PRIVATE :: u32 where "FLB_OUTPUT_PRIVATE = 1024"
definition FLB_OUTPUT_SYNCHRONOUS :: u32 where "FLB_OUTPUT_SYNCHRONOUS = 2048"
definition FLB_OUTPUT_LOGS :: u32 where "FLB_OUTPUT_LOGS = 1"
definition FLB_OUTPUT_METRICS :: u32 where "FLB_OUTPUT_METRICS = 2"
definition FLB_OUTPUT_TRACES :: u32 where "FLB_OUTPUT_TRACES = 4"
definition FLB_OUT_RETRY_UNLIMITED :: int where "FLB_OUT_RETRY_UNLIMITED = - 1"
definition FLB_OUT_RETRY_NONE :: int where "FLB_OUT_RETRY_NONE = 0"

definition FLB_EVENT_TYPE_LOGS :: int where "FLB_EVENT_TYPE_LOGS = 0"
definition FLB_EVENT_TYPE_METRICS :: int where "FLB_EVENT_TYPE_METRICS = 1"
definition FLB_EVENT_TYPE_TRACES :: int where "FLB_EVENT_TYPE_TRACES = 2"

text \<open>
  The flag of a chunk that is being traced, \<^verbatim>\<open>1 << 31\<close>: a shift into the sign bit, which the compilers in use carry
  out on the bits of the \<^verbatim>\<open>int\<close>.
\<close>

definition FLB_INPUT_CHUNK_HAS_TRACE :: u32 where "FLB_INPUT_CHUNK_HAS_TRACE = push_bit 31 1"
definition FLB_EVENT_TYPE_HAS_TRACE :: u32 where "FLB_EVENT_TYPE_HAS_TRACE = FLB_INPUT_CHUNK_HAS_TRACE"

lemmas event_types [c_consts] =
  FLB_EVENT_TYPE_LOGS_def FLB_EVENT_TYPE_METRICS_def FLB_EVENT_TYPE_TRACES_def

record flb_event_chunk =
  ec_type :: int
  ec_tag :: ptr
  ec_data :: ptr
  ec_size :: size_t
  ec_total_events :: size_t

record flb_test_out_formatter =
  tf_rt_ctx :: ptr
  tf_rt_ffd :: int
  tf_rt_out_callback :: ptr
  tf_rt_data :: ptr
  tf_flush_ctx :: ptr
  tf_callback :: ptr

record flb_output_plugin =
  op_event_type :: u32
  op_type :: int
  op_proxy :: ptr
  op_flags :: u32
  op_name :: ptr
  op_description :: ptr
  op_config_map :: ptr
  op_host :: flb_net_host
  op_cb_init :: ptr
  op_cb_pre_run :: ptr
  op_cb_flush :: ptr
  op_cb_exit :: ptr
  op_cb_destroy :: ptr
  op_workers :: int
  op_test_formatter :: flb_test_out_formatter

record flb_output_instance_base =
  oi_event :: mk_event
  oi_processor :: ptr
  oi_event_type :: u32
  oi_id :: u32
  oi_log_level :: int
  oi_log_suppress_interval :: int
  oi_name :: string
  oi_alias :: ptr
  oi_flags :: u32
  oi_test_mode :: int
  oi_ch_events :: "int \<times> int"
  oi_p :: ptr
  oi_context :: ptr
  oi_retry_limit :: int
  oi_use_tls :: int
  oi_match :: ptr
  oi_match_regex :: ptr
  oi_tls_verify :: int
  oi_tls_debug :: int
  oi_tls_vhost :: ptr
  oi_tls_ca_path :: ptr
  oi_tls_ca_file :: ptr
  oi_tls_crt_file :: ptr
  oi_tls_key_file :: ptr
  oi_tls_key_passwd :: ptr

record flb_output_instance = flb_output_instance_base +
  oi_host :: flb_net_host
  oi_data :: ptr
  oi_out_context :: ptr
  oi_tls :: ptr
  oi_properties :: ptr
  oi_config_map :: ptr
  oi_net_setup :: flb_net_setup
  oi_net_config_map :: ptr
  oi_net_properties :: ptr
  oi_tls_config_map :: ptr
  oi_head :: ptr
  oi_cmt :: ptr
  oi_cmt_proc_records :: ptr
  oi_cmt_proc_bytes :: ptr
  oi_cmt_errors :: ptr
  oi_cmt_retries :: ptr
  oi_cmt_retries_failed :: ptr
  oi_cmt_dropped_records :: ptr
  oi_cmt_retried_records :: ptr
  oi_cmt_upstream_total_connections :: ptr
  oi_cmt_upstream_busy_connections :: ptr
  oi_metrics :: ptr
  oi_callback :: ptr
  oi_test_formatter :: flb_test_out_formatter
  oi_fs_chunks_size :: size_t
  oi_fs_backlog_chunks_size :: size_t
  oi_total_limit_size :: size_t
  oi_singleplex_queue :: ptr
  oi_tp_workers :: int
  oi_tp :: ptr
  oi_is_threaded :: int
  oi_upstreams :: ptr
  oi_flush_id :: int
  oi_flush_list :: ptr
  oi_flush_list_destroy :: ptr
  oi_config :: ptr

text \<open>The node \<^verbatim>\<open>_head\<close> of a flush is 56 bytes into the structure of 72 bytes.\<close>

record flb_output_flush =
  of_id :: int
  of_buffer :: ptr
  of_task :: ptr
  of_config :: ptr
  of_o_ins :: ptr
  of_coro :: ptr
  of_processed_event_chunk :: ptr

definition flb_output_flush_head_off :: nat where "flb_output_flush_head_off = 56"
definition sizeof_flb_output_flush :: nat where "sizeof_flb_output_flush = 72"

record flb_out_flush_params =
  fp_event_chunk :: ptr
  fp_out_flush :: ptr
  fp_i_ins :: ptr
  fp_out_plugin :: ptr
  fp_out_context :: ptr
  fp_config :: ptr
  fp_coro :: ptr

definition sizeof_flb_out_flush_params :: nat where "sizeof_flb_out_flush_params = 56"

record flb_out_thread_instance =
  ti_event :: mk_event
  ti_evl :: ptr
  ti_evl_bktq :: ptr
  ti_ch_parent_events :: "int \<times> int"
  ti_ch_thread_events :: "int \<times> int"
  ti_ins :: ptr
  ti_config :: ptr
  ti_th :: ptr
  ti_flush_id :: int
  ti_flush_list :: ptr
  ti_flush_list_destroy :: ptr
  ti_flush_mutex :: ptr
  ti_upstreams :: ptr

text \<open>The structures as zeroed memory.\<close>

definition zero_flb_event_chunk :: flb_event_chunk where
  "zero_flb_event_chunk =
    \<lparr>ec_type = 0, ec_tag = 0, ec_data = 0, ec_size = 0, ec_total_events = 0\<rparr>"

definition zero_flb_test_out_formatter :: flb_test_out_formatter where
  "zero_flb_test_out_formatter =
    \<lparr>tf_rt_ctx = 0, tf_rt_ffd = 0, tf_rt_out_callback = 0, tf_rt_data = 0,
     tf_flush_ctx = 0, tf_callback = 0\<rparr>"

definition zero_flb_output_plugin :: flb_output_plugin where
  "zero_flb_output_plugin =
    \<lparr>op_event_type = 0, op_type = 0, op_proxy = 0, op_flags = 0, op_name = 0,
     op_description = 0, op_config_map = 0, op_host = zero_flb_net_host, op_cb_init = 0,
     op_cb_pre_run = 0, op_cb_flush = 0, op_cb_exit = 0, op_cb_destroy = 0, op_workers = 0,
     op_test_formatter = zero_flb_test_out_formatter\<rparr>"

definition zero_flb_output_instance :: flb_output_instance where
  "zero_flb_output_instance =
    \<lparr>oi_event = zero_mk_event, oi_processor = 0, oi_event_type = 0, oi_id = 0,
     oi_log_level = 0, oi_log_suppress_interval = 0, oi_name = '''', oi_alias = 0, oi_flags = 0,
     oi_test_mode = 0, oi_ch_events = (0, 0), oi_p = 0, oi_context = 0, oi_retry_limit = 0,
     oi_use_tls = 0, oi_match = 0, oi_match_regex = 0, oi_tls_verify = 0, oi_tls_debug = 0,
     oi_tls_vhost = 0, oi_tls_ca_path = 0, oi_tls_ca_file = 0, oi_tls_crt_file = 0,
     oi_tls_key_file = 0, oi_tls_key_passwd = 0, oi_host = zero_flb_net_host, oi_data = 0,
     oi_out_context = 0, oi_tls = 0, oi_properties = 0, oi_config_map = 0,
     oi_net_setup = zero_flb_net_setup, oi_net_config_map = 0, oi_net_properties = 0,
     oi_tls_config_map = 0, oi_head = 0, oi_cmt = 0, oi_cmt_proc_records = 0,
     oi_cmt_proc_bytes = 0, oi_cmt_errors = 0, oi_cmt_retries = 0, oi_cmt_retries_failed = 0,
     oi_cmt_dropped_records = 0, oi_cmt_retried_records = 0,
     oi_cmt_upstream_total_connections = 0, oi_cmt_upstream_busy_connections = 0, oi_metrics = 0,
     oi_callback = 0, oi_test_formatter = zero_flb_test_out_formatter, oi_fs_chunks_size = 0,
     oi_fs_backlog_chunks_size = 0, oi_total_limit_size = 0, oi_singleplex_queue = 0,
     oi_tp_workers = 0, oi_tp = 0, oi_is_threaded = 0, oi_upstreams = 0, oi_flush_id = 0,
     oi_flush_list = 0, oi_flush_list_destroy = 0, oi_config = 0\<rparr>"

definition zero_flb_out_thread_instance :: flb_out_thread_instance where
  "zero_flb_out_thread_instance =
    \<lparr>ti_event = zero_mk_event, ti_evl = 0, ti_evl_bktq = 0, ti_ch_parent_events = (0, 0),
     ti_ch_thread_events = (0, 0), ti_ins = 0, ti_config = 0, ti_th = 0, ti_flush_id = 0,
     ti_flush_list = 0, ti_flush_list_destroy = 0, ti_flush_mutex = 0, ti_upstreams = 0\<rparr>"

section \<open>The state\<close>

text \<open>
  The output side is the extension \<open>out_state\<close> of the world of \<open>Flb_Input\<close>; \<open>os_tls\<close> is the
  thread's \<^verbatim>\<open>out_flush_params\<close>, \<open>os_written\<close> the messages written to each event channel.
\<close>

record 'y out_state =
  os_tasks :: "ptr \<rightharpoonup> flb_task"
  os_routes :: "ptr \<rightharpoonup> flb_task_route"
  os_chunks :: "ptr \<rightharpoonup> flb_event_chunk"
  os_outputs :: "ptr \<rightharpoonup> flb_output_instance"
  os_plugins :: "ptr \<rightharpoonup> flb_output_plugin"
  os_flushes :: "ptr \<rightharpoonup> flb_output_flush"
  os_params :: "ptr \<rightharpoonup> flb_out_flush_params"
  os_threads :: "ptr \<rightharpoonup> flb_out_thread_instance"
  os_tls :: ptr
  os_locks :: "ptr list"
  os_written :: "(int \<times> u64) list"
  os_lib :: 'y

type_synonym 'y out_world = "'y out_state in_world"

definition os_update :: "('y out_state \<Rightarrow> 'y out_state) \<Rightarrow> 'y out_world \<Rightarrow> 'y out_world" where
  "os_update f w = w\<lparr>iw_ext := f (iw_ext w)\<rparr>"

text \<open>The code outside the header.  \<open>oe_run_logs\<close> is \<^verbatim>\<open>flb_processor_run\<close> on a log chunk.\<close>

record 'y out_env =
  oe_in :: "'y out_state in_env"
  oe_flush_id_get :: "ptr \<Rightarrow> 'y out_world \<Rightarrow> int \<times> 'y out_world"
  oe_processor_is_active :: "ptr \<Rightarrow> 'y out_world \<Rightarrow> bool"
  oe_run_logs :: "ptr \<Rightarrow> ptr \<Rightarrow> 'y out_world \<Rightarrow> (int \<times> ptr \<times> size_t) \<times> 'y out_world"
  oe_mp_count :: "ptr \<Rightarrow> size_t \<Rightarrow> 'y out_world \<Rightarrow> size_t"
  oe_event_chunk_create :: "int \<Rightarrow> size_t \<Rightarrow> ptr \<Rightarrow> ptr \<Rightarrow> size_t \<Rightarrow> 'y out_world \<Rightarrow> ptr \<times> 'y out_world"
  oe_event_chunk_destroy :: "ptr \<Rightarrow> 'y out_world \<Rightarrow> 'y out_world"
  oe_cmt :: "ptr \<Rightarrow> 'y ctx_lib"
  oe_ctr :: "ptr \<Rightarrow> 'y ctx_lib"
  oe_thread_instance_get :: "'y out_world \<Rightarrow> ptr"
  oe_coro_get :: "'y out_world \<Rightarrow> ptr"
  oe_prepare_destroy :: "ptr \<Rightarrow> 'y out_world \<Rightarrow> 'y out_world"
  oe_thread_pool_coros_size :: "ptr \<Rightarrow> 'y out_world \<Rightarrow> int"
  oe_cb_flush :: "ptr \<Rightarrow> ptr \<Rightarrow> ptr \<Rightarrow> ptr \<Rightarrow> ptr \<Rightarrow> ptr \<Rightarrow> 'y out_world \<Rightarrow> 'y out_world"

section \<open>Simple operations\<close>

definition flb_output_is_threaded :: "flb_output_instance \<Rightarrow> int" where
  "flb_output_is_threaded ins = oi_is_threaded ins"

definition free_flush :: "ptr \<Rightarrow> 'y out_world \<Rightarrow> 'y out_world option" where
  "free_flush out_flush w = do {
     m \<leftarrow> flb_free out_flush (iw_mem w);
     Some (os_update (\<lambda>o'. o'\<lparr>os_flushes := (os_flushes o')(out_flush := None)\<rparr>)
       (w\<lparr>iw_mem := m, iw_links := (iw_links w)(out_flush + flb_output_flush_head_off := None)\<rparr>))
   }"

definition flb_output_flush_destroy :: "'y out_env \<Rightarrow> ptr \<Rightarrow> 'y out_world \<Rightarrow> 'y out_world option" where
  "flb_output_flush_destroy env out_flush w = do {
     f \<leftarrow> os_flushes (iw_ext w) out_flush;
     h \<leftarrow> mk_list_del (out_flush + flb_output_flush_head_off) (iw_links w);
     w \<leftarrow> flb_coro_destroy (oe_in env) (of_coro f) (w\<lparr>iw_links := h\<rparr>);
     free_flush out_flush w
   }"

definition output_params_set ::
  "'y out_env \<Rightarrow> ptr \<Rightarrow> ptr \<Rightarrow> ptr \<Rightarrow> ptr \<Rightarrow> ptr \<Rightarrow> ptr \<Rightarrow> 'y out_world \<Rightarrow> 'y out_world option" where
  "output_params_set env out_flush coro task out_plugin out_context config w =
     (let (params, w) =
        (if os_tls (iw_ext w) \<noteq> NULL then (os_tls (iw_ext w), w)
         else (let (p, m) = flb_malloc (env_alloc (oe_in env)) (of_nat sizeof_flb_out_flush_params) (iw_mem w)
               in (p, w\<lparr>iw_mem := m\<rparr>)))
      in if params = NULL then Some w
         else do {
           f \<leftarrow> os_flushes (iw_ext w) out_flush;
           t \<leftarrow> os_tasks (iw_ext w) task;
           c \<leftarrow> iw_coros w coro;
           let ps = \<lparr>fp_event_chunk = (if of_processed_event_chunk f \<noteq> NULL
                                      then of_processed_event_chunk f else tk_event_chunk t),
                     fp_out_flush = out_flush, fp_i_ins = tk_i_ins t, fp_out_plugin = out_plugin,
                     fp_out_context = out_context, fp_config = config, fp_coro = coro\<rparr>;
           env_co_switch (oe_in env) (co_callee c)
             (os_update (\<lambda>o'. o'\<lparr>os_params := (os_params o')(params \<mapsto> ps), os_tls := params\<rparr>) w)
         })"

section \<open>The return path\<close>

text \<open>The locks held: that of a task is named by the task, that of a thread's flush list by its mutex.\<close>

definition task_lock :: "ptr \<Rightarrow> 'y out_world \<Rightarrow> 'y out_world" where
  "task_lock task w = os_update (\<lambda>o'. o'\<lparr>os_locks := task # os_locks o'\<rparr>) w"

definition task_unlock :: "ptr \<Rightarrow> 'y out_world \<Rightarrow> 'y out_world" where
  "task_unlock task w = os_update (\<lambda>o'. o'\<lparr>os_locks := remove1 task (os_locks o')\<rparr>) w"

text \<open>\<^verbatim>\<open>flb_pipe_w\<close> either writes the message or fails; a failure is only reported.\<close>

definition pipe_w :: "'y out_env \<Rightarrow> int \<Rightarrow> u64 \<Rightarrow> 'y out_world \<Rightarrow> int \<times> 'y out_world" where
  "pipe_w env fd val w =
     (let (n, w) = env_pipe_w (oe_in env) fd val w
      in (n, if n = - 1 then w else os_update (\<lambda>o'. o'\<lparr>os_written := os_written o' @ [(fd, val)]\<rparr>) w))"

text \<open>The release of the chunk a processor made; its data may be that of the task.\<close>

definition release_processed :: "'y out_env \<Rightarrow> ptr \<Rightarrow> 'y out_world \<Rightarrow> 'y out_world option" where
  "release_processed env out_flush w = do {
     f \<leftarrow> os_flushes (iw_ext w) out_flush;
     if of_processed_event_chunk f \<noteq> NULL then do {
       t \<leftarrow> os_tasks (iw_ext w) (of_task f);
       p \<leftarrow> os_chunks (iw_ext w) (of_processed_event_chunk f);
       e \<leftarrow> os_chunks (iw_ext w) (tk_event_chunk t);
       m \<leftarrow> (if ec_data e \<noteq> ec_data p then flb_free (ec_data p) (iw_mem w) else Some (iw_mem w));
       let w = oe_event_chunk_destroy env (of_processed_event_chunk f) (w\<lparr>iw_mem := m\<rparr>);
       Some (os_update (\<lambda>o'. o'\<lparr>os_flushes := (os_flushes o')(out_flush \<mapsto> f\<lparr>of_processed_event_chunk := NULL\<rparr>)\<rparr>) w)
     }
     else Some w
   }"

definition flb_output_return :: "'y out_env \<Rightarrow> u32 \<Rightarrow> ptr \<Rightarrow> 'y out_world \<Rightarrow> 'y out_world option" where
  "flb_output_return env ret co w = do {
     c \<leftarrow> iw_coros w co;
     let out_flush = co_data c;
     f \<leftarrow> os_flushes (iw_ext w) out_flush;
     ins \<leftarrow> os_outputs (iw_ext w) (of_o_ins f);
     t \<leftarrow> os_tasks (iw_ext w) (of_task f);
     let w = task_lock (of_task f) w;
     rh \<leftarrow> flb_task_deactivate_route (iw_links w) (of_task f) (of_o_ins f) (os_routes (iw_ext w));
     let w = task_unlock (of_task f) (os_update (\<lambda>o'. o'\<lparr>os_routes := rh\<rparr>) w);
     w \<leftarrow> release_processed env out_flush w;
     let set' = FLB_TASK_SET ret (word_of_int (tk_id t)) (oi_id ins);
     let val = FLB_BITS_U64_SET 2 set';
     pipe_fd \<leftarrow> (if flb_output_is_threaded ins = FLB_TRUE
                 then map_option (\<lambda>th. snd (ti_ch_thread_events th)) (os_threads (iw_ext w) (oe_thread_instance_get env w))
                 else Some (snd (oi_ch_events ins)));
     let (n, w) = pipe_w env pipe_fd val w;
     Some (oe_prepare_destroy env out_flush w)
   }"

definition flb_output_return_do :: "'y out_env \<Rightarrow> u32 \<Rightarrow> 'y out_world \<Rightarrow> 'y out_world option" where
  "flb_output_return_do env x w = do {
     let coro = oe_coro_get env w;
     w \<leftarrow> flb_output_return env x coro w;
     flb_coro_yield (oe_in env) coro FLB_TRUE w
   }"

definition flb_output_coros_size :: "'y out_env \<Rightarrow> ptr \<Rightarrow> 'y out_world \<Rightarrow> int option" where
  "flb_output_coros_size env ins w = do {
     i \<leftarrow> os_outputs (iw_ext w) ins;
     if flb_output_is_threaded i = FLB_TRUE then Some (oe_thread_pool_coros_size env ins w)
     else mk_list_size (oi_flush_list i) (iw_links w)
   }"

definition flb_output_config_map_set ::
  "(ptr \<Rightarrow> ptr \<Rightarrow> map_target \<Rightarrow> 'c \<Rightarrow> int \<times> 'c) \<Rightarrow> flb_output_instance \<Rightarrow> ptr \<Rightarrow> 'c \<Rightarrow> int \<times> 'c" where
  "flb_output_config_map_set map_set ins context c =
     (let (ret, c) = (if oi_config_map ins \<noteq> NULL
            then map_set (oi_properties ins) (oi_config_map ins) (Target_Context context) c else (0, c))
      in if oi_config_map ins \<noteq> NULL \<and> ret = - 1 then (- 1, c)
         else
           (let (ret, c) = (if oi_net_config_map ins \<noteq> NULL
                  then map_set (oi_net_properties ins) (oi_net_config_map ins) Target_Net_Setup c else (0, c))
            in if oi_net_config_map ins \<noteq> NULL \<and> ret = - 1 then (- 1, c) else (0, c)))"

section \<open>The entry point of a flush coroutine\<close>

text \<open>
  \<^verbatim>\<open>output_pre_cb_flush\<close> up to its \<^verbatim>\<open>co_switch\<close>, with the parameters it has copied, and what it does
  when the engine switches to it again.
\<close>

definition output_pre_cb_flush_enter ::
  "'y out_env \<Rightarrow> 'y out_world \<Rightarrow> (flb_out_flush_params option \<times> 'y out_world) option" where
  "output_pre_cb_flush_enter env w =
     (if os_tls (iw_ext w) = NULL then Some (None, w)
      else do {
        ps \<leftarrow> os_params (iw_ext w) (os_tls (iw_ext w));
        c \<leftarrow> iw_coros w (fp_coro ps);
        w \<leftarrow> env_co_switch (oe_in env) (co_caller c) w;
        Some (Some ps, w)
      })"

definition output_pre_cb_flush_resumed ::
  "'y out_env \<Rightarrow> flb_out_flush_params \<Rightarrow> 'y out_world \<Rightarrow> 'y out_world option" where
  "output_pre_cb_flush_resumed env ps w = do {
     f \<leftarrow> os_flushes (iw_ext w) (fp_out_flush ps);
     let w = task_lock (of_task f) w;
     route_status \<leftarrow> flb_task_get_route_status (iw_links w) (os_routes (iw_ext w)) (of_task f) (of_o_ins f);
     if route_status = FLB_TASK_ROUTE_DROPPED then
       flb_output_return_do env FLB_ERROR (task_unlock (of_task f) w)
     else do {
       rh \<leftarrow> flb_task_activate_route (iw_links w) (of_task f) (of_o_ins f) (os_routes (iw_ext w));
       let w = task_unlock (of_task f) (os_update (\<lambda>o'. o'\<lparr>os_routes := rh\<rparr>) w);
       p \<leftarrow> os_plugins (iw_ext w) (fp_out_plugin ps);
       Some (oe_cb_flush env (op_cb_flush p) (fp_event_chunk ps) (fp_out_flush ps) (fp_i_ins ps)
              (fp_out_context ps) (fp_config ps) w)
     }
   }"

section \<open>Creating a flush\<close>

text \<open>\<^verbatim>\<open>flb_coro_destroy(coro); flb_free(out_flush);\<close> and the release of a buffer, as on every error path.\<close>

definition flush_abort :: "'y out_env \<Rightarrow> ptr \<Rightarrow> ptr \<Rightarrow> 'y out_world \<Rightarrow> 'y out_world option" where
  "flush_abort env coro out_flush w = do {
     w \<leftarrow> flb_coro_destroy (oe_in env) coro w;
     free_flush out_flush w
   }"

definition free_buf :: "ptr \<Rightarrow> 'y out_world \<Rightarrow> 'y out_world option" where
  "free_buf p w = do { m \<leftarrow> flb_free p (iw_mem w); Some (w\<lparr>iw_mem := m\<rparr>) }"

definition set_processed :: "ptr \<Rightarrow> ptr \<Rightarrow> 'y out_world \<Rightarrow> 'y out_world option" where
  "set_processed out_flush chunk w = do {
     f \<leftarrow> os_flushes (iw_ext w) out_flush;
     Some (os_update (\<lambda>o'. o'\<lparr>os_flushes := (os_flushes o')(out_flush \<mapsto> f\<lparr>of_processed_event_chunk := chunk\<rparr>)\<rparr>) w)
   }"

text \<open>The branches of the processor section answer whether to go on.\<close>

definition flush_logs ::
  "'y out_env \<Rightarrow> flb_output_instance \<Rightarrow> ptr \<Rightarrow> ptr \<Rightarrow> ptr \<Rightarrow> 'y out_world \<Rightarrow> (bool \<times> 'y out_world) option" where
  "flush_logs env ins evc coro out_flush w = do {
     e \<leftarrow> os_chunks (iw_ext w) evc;
     let ((ret, p_buf, p_size), w) = oe_run_logs env (oi_processor ins) evc w;
     if ret = - 1 \<or> p_size = 0 then do {
       w \<leftarrow> flush_abort env coro out_flush w;
       Some (False, w)
     }
     else if oe_mp_count env p_buf p_size w = 0 then do {
       w \<leftarrow> flush_abort env coro out_flush w;
       w \<leftarrow> free_buf p_buf w;
       Some (False, w)
     }
     else do {
       let (tmp, w) = oe_event_chunk_create env (ec_type e) (oe_mp_count env p_buf p_size w) (ec_tag e) p_buf p_size w;
       if tmp = NULL then do {
         w \<leftarrow> flush_abort env coro out_flush w;
         w \<leftarrow> free_buf p_buf w;
         Some (False, w)
       }
       else do {
         w \<leftarrow> set_processed out_flush tmp w;
         Some (True, w)
       }
     }
   }"

text \<open>The bytes of a block; indeterminate or missing bytes cannot be read.\<close>

definition read_bytes :: "ptr \<Rightarrow> nat \<Rightarrow> mem \<Rightarrow> u8 list option" where
  "read_bytes p n m =
     (case blocks m p of
        None \<Rightarrow> None
      | Some b \<Rightarrow>
          (if n \<le> length b \<and> None \<notin> set (take n b) then Some (map the (take n b)) else None))"

definition flush_contexts ::
  "'y ctx_lib \<Rightarrow> 'y out_env \<Rightarrow> ptr \<Rightarrow> ptr \<Rightarrow> ptr \<Rightarrow> 'y out_world \<Rightarrow> (bool \<times> 'y out_world) option" where
  "flush_contexts lib env evc coro out_flush w = do {
     e \<leftarrow> os_chunks (iw_ext w) evc;
     let (p_buf, m) = flb_calloc (env_alloc (oe_in env)) (ec_size e * 2) 1 (iw_mem w);
     let w = w\<lparr>iw_mem := m\<rparr>;
     if p_buf = NULL then do {
       w \<leftarrow> flush_abort env coro out_flush w;
       Some (False, w)
     }
     else do {
       data \<leftarrow> read_bytes (ec_data e) (unat (ec_size e)) (iw_mem w);
       (ok, s) \<leftarrow> ser_loop lib (env_alloc (oe_in env)) data 0
         \<lparr>ser_mem = iw_mem w, ser_buf = p_buf, ser_size = ec_size e, ser_off = 0, ser_lib = os_lib (iw_ext w)\<rparr>;
       let w = os_update (\<lambda>o'. o'\<lparr>os_lib := ser_lib s\<rparr>) (w\<lparr>iw_mem := ser_mem s\<rparr>);
       if \<not> ok \<or> ser_off s = 0 then do {
         w \<leftarrow> flush_abort env coro out_flush w;
         w \<leftarrow> free_buf (ser_buf s) w;
         Some (False, w)
       }
       else do {
         let (tmp, w) = oe_event_chunk_create env (ec_type e) 0 (ec_tag e) (ser_buf s) (ser_size s) w;
         w \<leftarrow> set_processed out_flush tmp w;
         if tmp = NULL then do {
           w \<leftarrow> flush_abort env coro out_flush w;
           w \<leftarrow> free_buf (ser_buf s) w;
           Some (False, w)
         }
         else Some (True, w)
       }
     }
   }"

definition flush_metrics ::
  "'y out_env \<Rightarrow> flb_output_instance \<Rightarrow> ptr \<Rightarrow> ptr \<Rightarrow> ptr \<Rightarrow> 'y out_world \<Rightarrow> (bool \<times> 'y out_world) option" where
  "flush_metrics env ins = flush_contexts (oe_cmt env (oi_processor ins)) env"

definition flush_traces ::
  "'y out_env \<Rightarrow> flb_output_instance \<Rightarrow> ptr \<Rightarrow> ptr \<Rightarrow> ptr \<Rightarrow> 'y out_world \<Rightarrow> (bool \<times> 'y out_world) option" where
  "flush_traces env ins = flush_contexts (oe_ctr env (oi_processor ins)) env"

definition flush_process ::
  "'y out_env \<Rightarrow> flb_output_instance \<Rightarrow> ptr \<Rightarrow> ptr \<Rightarrow> ptr \<Rightarrow> 'y out_world \<Rightarrow> (bool \<times> 'y out_world) option" where
  "flush_process env ins evc coro out_flush w =
     (if oe_processor_is_active env (oi_processor ins) w then do {
        e \<leftarrow> os_chunks (iw_ext w) evc;
        if ec_type e = FLB_EVENT_TYPE_LOGS then flush_logs env ins evc coro out_flush w
        else if ec_type e = FLB_EVENT_TYPE_METRICS then flush_metrics env ins evc coro out_flush w
        else if ec_type e = FLB_EVENT_TYPE_TRACES then flush_traces env ins evc coro out_flush w
        else Some (True, w)
      }
      else Some (True, w))"

text \<open>
  The comparisons with the types see the flag of a traced chunk as well: such a chunk passes an active
  processor untouched.
\<close>

lemma traced_type_negative: "sint (ty OR FLB_EVENT_TYPE_HAS_TRACE) < 0"
proof -
  have "bit (ty OR FLB_EVENT_TYPE_HAS_TRACE) 31"
    by (simp add: FLB_EVENT_TYPE_HAS_TRACE_def FLB_INPUT_CHUNK_HAS_TRACE_def bit_simps)
  then show ?thesis by (simp add: sint_uint signed_take_bit_negative_iff bit_uint_iff)
qed

lemma traced_chunk_unprocessed:
  assumes "os_chunks (iw_ext w) evc = Some e" "ec_type e = sint (ty OR FLB_EVENT_TYPE_HAS_TRACE)"
  shows "flush_process env ins evc coro out_flush w = Some (True, w)"
  using assms traced_type_negative [of ty] by (auto simp: flush_process_def event_types)

text \<open>Creation of the stack and linking; \<open>False\<close> when the stack could not be created.\<close>

definition flush_start ::
  "'y out_env \<Rightarrow> ptr \<Rightarrow> flb_output_instance \<Rightarrow> ptr \<Rightarrow> ptr \<Rightarrow> ptr \<Rightarrow> 'y out_world \<Rightarrow> (bool \<times> 'y out_world) option" where
  "flush_start env o_ins ins config coro out_flush w = do {
     c \<leftarrow> iw_coros w coro;
     cf \<leftarrow> iw_configs w config;
     let caller = env_co_active (oe_in env) w;
     let (callee, w) = env_co_create (oe_in env) (cf_coro_stack_size cf) w;
     let w = w\<lparr>iw_coros := (iw_coros w)(coro \<mapsto> c\<lparr>co_caller := caller, co_callee := callee\<rparr>)\<rparr>;
     if callee = NULL then do {
       w \<leftarrow> flb_coro_destroy (oe_in env) coro w;
       f \<leftarrow> os_flushes (iw_ext w) out_flush;
       w \<leftarrow> (if of_processed_event_chunk f \<noteq> NULL then do {
               p \<leftarrow> os_chunks (iw_ext w) (of_processed_event_chunk f);
               w \<leftarrow> free_buf (ec_data p) w;
               Some (oe_event_chunk_destroy env (of_processed_event_chunk f) w)
             }
             else Some w);
       w \<leftarrow> free_flush out_flush w;
       Some (False, w)
     }
     else do {
       if oi_is_threaded ins = FLB_TRUE then do {
         th \<leftarrow> os_threads (iw_ext w) (oe_thread_instance_get env w);
         let w = task_lock (ti_flush_mutex th) w;
         h \<leftarrow> mk_list_add (out_flush + flb_output_flush_head_off) (ti_flush_list th) (iw_links w);
         Some (True, task_unlock (ti_flush_mutex th) (w\<lparr>iw_links := h\<rparr>))
       }
       else do {
         h \<leftarrow> mk_list_add (out_flush + flb_output_flush_head_off) (oi_flush_list ins) (iw_links w);
         Some (True, w\<lparr>iw_links := h\<rparr>)
       }
     }
   }"

definition new_flush :: "'y out_env \<Rightarrow> ptr \<Rightarrow> ptr \<Rightarrow> ptr \<Rightarrow> 'y out_world \<Rightarrow> ((ptr \<times> ptr) option \<times> 'y out_world) option" where
  "new_flush env task o_ins config w =
     (let (out_flush, m) = flb_calloc (env_alloc (oe_in env)) 1 (of_nat sizeof_flb_output_flush) (iw_mem w)
      in if out_flush = NULL then Some (None, w\<lparr>iw_mem := m\<rparr>)
         else
           (let w = os_update (\<lambda>o'. o'\<lparr>os_flushes := (os_flushes o')(out_flush \<mapsto>
                      \<lparr>of_id = 0, of_buffer = NULL, of_task = NULL, of_config = NULL, of_o_ins = NULL,
                       of_coro = NULL, of_processed_event_chunk = NULL\<rparr>)\<rparr>)
                    (w\<lparr>iw_mem := m, iw_links := (iw_links w)(out_flush + flb_output_flush_head_off \<mapsto> zero_node)\<rparr>);
                (coro, w) = flb_coro_create (oe_in env) out_flush w
            in if coro = NULL then do {
                 w \<leftarrow> free_flush out_flush w;
                 Some (None, w)
               }
               else do {
                 let (id', w) = oe_flush_id_get env o_ins w;
                 t \<leftarrow> os_tasks (iw_ext w) task;
                 e \<leftarrow> os_chunks (iw_ext w) (tk_event_chunk t);
                 let w = os_update (\<lambda>o'. o'\<lparr>os_flushes := (os_flushes o')(out_flush \<mapsto>
                      \<lparr>of_id = id', of_buffer = ec_data e, of_task = task, of_config = config, of_o_ins = o_ins,
                       of_coro = coro, of_processed_event_chunk = NULL\<rparr>)\<rparr>) w;
                 Some (Some (out_flush, coro), w)
               }))"

definition flb_output_flush_create ::
  "'y out_env \<Rightarrow> ptr \<Rightarrow> ptr \<Rightarrow> ptr \<Rightarrow> ptr \<Rightarrow> 'y out_world \<Rightarrow> (ptr \<times> 'y out_world) option" where
  "flb_output_flush_create env task i_ins o_ins config w = do {
     (r, w) \<leftarrow> new_flush env task o_ins config w;
     case r of
       None \<Rightarrow> Some (NULL, w)
     | Some (out_flush, coro) \<Rightarrow> do {
         t \<leftarrow> os_tasks (iw_ext w) task;
         ins \<leftarrow> os_outputs (iw_ext w) o_ins;
         (ok, w) \<leftarrow> flush_process env ins (tk_event_chunk t) coro out_flush w;
         if \<not> ok then Some (NULL, w)
         else do {
           (ok, w) \<leftarrow> flush_start env o_ins ins config coro out_flush w;
           if \<not> ok then Some (NULL, w)
           else do {
             w \<leftarrow> output_params_set env out_flush coro task (oi_p ins) (oi_context ins) config w;
             Some (out_flush, w)
           }
         }
       }
   }"

section \<open>Lemmas\<close>

lemma unlock_lock [simp]: "task_unlock t (task_lock t w) = w"
  by (simp add: task_unlock_def task_lock_def os_update_def)

lemma lock_fields [simp]:
  "iw_links (task_lock t w) = iw_links w" "iw_links (task_unlock t w) = iw_links w"
  "os_routes (iw_ext (task_lock t w)) = os_routes (iw_ext w)"
  by (simp_all add: task_unlock_def task_lock_def os_update_def)

lemma unlock_routes_lock:
  "task_unlock t (os_update (\<lambda>o'. o'\<lparr>os_routes := rh\<rparr>) (task_lock t w)) = os_update (\<lambda>o'. o'\<lparr>os_routes := rh\<rparr>) w"
  by (simp add: task_unlock_def task_lock_def os_update_def)

lemma unlock_links_lock: "task_unlock t ((task_lock t w)\<lparr>iw_links := h\<rparr>) = w\<lparr>iw_links := h\<rparr>"
  by (simp add: task_unlock_def task_lock_def os_update_def)

text \<open>What the code relies on: taking a flush id only changes the instance's counter.\<close>

definition flush_id_get_ok :: "'y out_env \<Rightarrow> bool" where
  "flush_id_get_ok env \<longleftrightarrow> (\<forall>p w. \<exists>outs. snd (oe_flush_id_get env p w) = os_update (\<lambda>s. s\<lparr>os_outputs := outs\<rparr>) w \<and>
     (\<forall>q i. os_outputs (iw_ext w) q = Some i \<longrightarrow> (\<exists>n. outs q = Some (i\<lparr>oi_flush_id := n\<rparr>))))"

lemma constant_flush_id: "oe_flush_id_get (env :: 'y out_env) = (\<lambda>p w. (n, w)) \<Longrightarrow> flush_id_get_ok env"
  unfolding flush_id_get_ok_def
proof (intro allI)
  fix p and w :: "'y out_world"
  assume e: "oe_flush_id_get env = (\<lambda>p w. (n, w))"
  have "\<exists>n. i = i\<lparr>oi_flush_id := n\<rparr>" for i :: flb_output_instance by (rule exI [of _ "oi_flush_id i"]) simp
  then show "\<exists>outs. snd (oe_flush_id_get env p w) = os_update (\<lambda>s. s\<lparr>os_outputs := outs\<rparr>) w \<and>
       (\<forall>q i. os_outputs (iw_ext w) q = Some i \<longrightarrow> (\<exists>n. outs q = Some (i\<lparr>oi_flush_id := n\<rparr>)))"
    by (intro exI [of _ "os_outputs (iw_ext w)"]) (simp add: e os_update_def)
qed

text \<open>The buffer that a flush names is the data of its task's chunk.\<close>

definition names_chunk :: "'y out_world \<Rightarrow> ptr \<Rightarrow> flb_output_flush \<Rightarrow> bool" where
  "names_chunk w task f \<longleftrightarrow> (\<exists>t e. os_tasks (iw_ext w) task = Some t \<and> os_chunks (iw_ext w) (tk_event_chunk t) = Some e \<and>
     of_buffer f = ec_data e)"

text \<open>Its id is one that \<^verbatim>\<open>flb_output_flush_id_get\<close> answers for the output as it was.\<close>

definition takes_id :: "'y out_env \<Rightarrow> 'y out_world \<Rightarrow> ptr \<Rightarrow> flb_output_flush \<Rightarrow> bool" where
  "takes_id env w o_ins f \<longleftrightarrow> (\<exists>v. os_outputs (iw_ext v) = os_outputs (iw_ext w) \<and> of_id f = fst (oe_flush_id_get env o_ins v))"

text \<open>A flush and its coroutine have just been allocated: everything else is as in \<open>w\<close>.\<close>

definition fresh_flush :: "'y out_world \<Rightarrow> ptr \<Rightarrow> ptr \<Rightarrow> ptr \<Rightarrow> ptr \<Rightarrow> ptr \<Rightarrow> 'y out_world \<Rightarrow> bool" where
  "fresh_flush w task o_ins config p c w' \<longleftrightarrow>
     p \<noteq> NULL \<and> c \<noteq> NULL \<and> p \<noteq> c \<and> blocks (iw_mem w) p = None \<and> blocks (iw_mem w) c = None \<and>
     (\<exists>bp bc. blocks (iw_mem w') = (blocks (iw_mem w))(p \<mapsto> bp, c \<mapsto> bc)) \<and>
     p + flb_output_flush_head_off \<notin> dom (iw_links w) \<and>
     iw_links w' = (iw_links w)(p + flb_output_flush_head_off \<mapsto> zero_node) \<and>
     iw_coros w' c = Some \<lparr>co_caller = NULL, co_callee = NULL, co_data = p\<rparr> \<and> iw_configs w' = iw_configs w \<and>
     (\<exists>f. os_flushes (iw_ext w') p = Some f \<and> of_task f = task \<and> of_o_ins f = o_ins \<and> of_coro f = c \<and>
          of_config f = config \<and> of_processed_event_chunk f = NULL \<and> names_chunk w task f) \<and>
     os_tasks (iw_ext w') = os_tasks (iw_ext w) \<and> os_chunks (iw_ext w') = os_chunks (iw_ext w) \<and>
     os_threads (iw_ext w') = os_threads (iw_ext w) \<and> os_lib (iw_ext w') = os_lib (iw_ext w) \<and>
     (\<forall>q i. os_outputs (iw_ext w) q = Some i \<longrightarrow> (\<exists>n. os_outputs (iw_ext w') q = Some (i\<lparr>oi_flush_id := n\<rparr>)))"

lemma new_flush_spec:
  assumes al: "fresh_allocator (env_alloc (oe_in env))" "sep_allocator (env_alloc (oe_in env))"
    and nb: "nodes_in_blocks (iw_links w) (iw_mem w)" and ok: "flush_id_get_ok env"
    and t: "os_tasks (iw_ext w) task = Some t" "os_chunks (iw_ext w) (tk_event_chunk t) = Some e"
  shows "(\<exists>w'. new_flush env task o_ins config w = Some (None, w') \<and> blocks (iw_mem w') = blocks (iw_mem w) \<and>
        iw_links w' = iw_links w \<and> os_lib (iw_ext w') = os_lib (iw_ext w)) \<or>
     (\<exists>p c w'. new_flush env task o_ins config w = Some (Some (p, c), w') \<and> fresh_flush w task o_ins config p c w' \<and>
        (\<forall>f. os_flushes (iw_ext w') p = Some f \<longrightarrow> takes_id env w o_ins f))"
proof -
  let ?al = "env_alloc (oe_in env)"
  obtain p m where pm: "flb_calloc ?al 1 (of_nat sizeof_flb_output_flush) (iw_mem w) = (p, m)" by fastforce
  note pb = flb_calloc_blocks [OF pm al(1)]
  show ?thesis
  proof (cases "p = NULL")
    case True
    then show ?thesis using pm pb by (auto simp: new_flush_def)
  next
    case False
    let ?n = "p + flb_output_flush_head_off"
    have pal: "p = ?al (iw_mem w) (of_nat sizeof_flb_output_flush)"
      using pm False by (auto simp: flb_calloc_def calloc_def Let_def sizeof_flb_output_flush_def split: if_splits)
    have fresh: "?n \<notin> dom (iw_links w)"
      using sep_allocator_fresh_node [OF al(2) nb, of "of_nat sizeof_flb_output_flush" flb_output_flush_head_off] False pal
      by (simp add: sizeof_flb_output_flush_def flb_output_flush_head_off_def)
    obtain c m2 where cm: "flb_calloc ?al 1 (of_nat sizeof_flb_coro) m = (c, m2)" by fastforce
    note cb = flb_calloc_blocks [OF cm al(1)]
    have upd: "(iw_links w)(?n := None) = iw_links w" using fresh by (simp add: fun_upd_idem domIff)
    show ?thesis
    proof (cases "c = NULL")
      case True
      have b1: "blocks m2 p \<noteq> None" "(blocks m2)(p := None) = blocks (iw_mem w)"
        using pb cb True False by (auto simp: fun_upd_idem)
      then show ?thesis using pm cm True False flb_free_live [OF b1(1) False] upd
        by (simp add: new_flush_def flb_coro_create_def os_update_def free_flush_def)
    next
      case cn: False
      define w1 where "w1 = os_update (\<lambda>s. s\<lparr>os_flushes := (os_flushes s)(p \<mapsto>
            \<lparr>of_id = 0, of_buffer = NULL, of_task = NULL, of_config = NULL, of_o_ins = NULL,
             of_coro = NULL, of_processed_event_chunk = NULL\<rparr>)\<rparr>)
          (w\<lparr>iw_mem := m2, iw_links := (iw_links w)(?n \<mapsto> zero_node),
             iw_coros := (iw_coros w)(c \<mapsto> \<lparr>co_caller = NULL, co_callee = NULL, co_data = p\<rparr>)\<rparr>)"
      obtain i w2 where iw: "oe_flush_id_get env o_ins w1 = (i, w2)" by fastforce
      obtain outs where outs: "w2 = os_update (\<lambda>s. s\<lparr>os_outputs := outs\<rparr>) w1"
          "\<forall>q i. os_outputs (iw_ext w1) q = Some i \<longrightarrow> (\<exists>n. outs q = Some (i\<lparr>oi_flush_id := n\<rparr>))"
        using ok iw unfolding flush_id_get_ok_def by (metis snd_conv)
      define w3 where "w3 = os_update (\<lambda>s. s\<lparr>os_flushes := (os_flushes s)(p \<mapsto>
            \<lparr>of_id = i, of_buffer = ec_data e, of_task = task, of_config = config, of_o_ins = o_ins,
             of_coro = c, of_processed_event_chunk = NULL\<rparr>)\<rparr>) w2"
      have "new_flush env task o_ins config w = Some (Some (p, c), w3)"
      proof -
        have "flb_coro_create (oe_in env) p (os_update (\<lambda>s. s\<lparr>os_flushes := (os_flushes s)(p \<mapsto>
            \<lparr>of_id = 0, of_buffer = NULL, of_task = NULL, of_config = NULL, of_o_ins = NULL,
             of_coro = NULL, of_processed_event_chunk = NULL\<rparr>)\<rparr>)
            (w\<lparr>iw_mem := m, iw_links := (iw_links w)(?n \<mapsto> zero_node)\<rparr>)) = (c, w1)"
          using cm cn by (simp add: flb_coro_create_def os_update_def w1_def)
        then show ?thesis
          using pm False cn iw t outs(1) by (simp add: new_flush_def w3_def os_update_def w1_def)
      qed
      moreover have "fresh_flush w task o_ins config p c w3"
        using pb cb False cn fresh outs t
        by (auto simp: fresh_flush_def names_chunk_def w3_def os_update_def w1_def split: if_splits)
      moreover have "\<forall>f. os_flushes (iw_ext w3) p = Some f \<longrightarrow> takes_id env w o_ins f"
        using iw by (auto simp: takes_id_def w3_def os_update_def w1_def intro!: exI [of _ w1])
      ultimately show ?thesis by blast
    qed
  qed
qed

text \<open>Creating a stack does not touch the state modelled here.\<close>

definition co_create_ok :: "'y out_env \<Rightarrow> bool" where
  "co_create_ok env \<longleftrightarrow> (\<forall>sz w. snd (env_co_create (oe_in env) sz w) = w)"

text \<open>
  The list a new flush is linked into: that of the output, or for a threaded output that of its worker,
  which is the one the calling thread runs.
\<close>

definition flush_home :: "'y out_env \<Rightarrow> flb_output_instance \<Rightarrow> 'y out_world \<Rightarrow> ptr \<Rightarrow> bool" where
  "flush_home env ins w lst \<longleftrightarrow>
     (if oi_is_threaded ins = FLB_TRUE
      then \<exists>ti th. (\<forall>w. oe_thread_instance_get env w = ti) \<and> os_threads (iw_ext w) ti = Some th \<and> ti_flush_list th = lst
      else oi_flush_list ins = lst)"

lemma flush_home_id [simp]: "flush_home env (ins\<lparr>oi_flush_id := k\<rparr>) w lst = flush_home env ins w lst"
  by (simp add: flush_home_def)

lemma flush_home_frame: "os_threads (iw_ext w') = os_threads (iw_ext w) \<Longrightarrow> flush_home env ins w' = flush_home env ins w"
  by (simp add: flush_home_def fun_eq_iff)

text \<open>
  What a flush at \<open>p\<close> with its coroutine at \<open>c\<close> holds: these two blocks and, with a processed chunk, its data and
  the blocks \<open>own\<close> says the chunk consists of; the rest of the memory is \<open>base\<close>.
\<close>

definition flush_holds :: "(ptr \<Rightarrow> flb_event_chunk \<Rightarrow> ptr set) \<Rightarrow> (ptr \<rightharpoonup> u8 option list) \<Rightarrow> ptr \<Rightarrow> ptr \<Rightarrow> 'y out_world \<Rightarrow> bool" where
  "flush_holds own base p c w \<longleftrightarrow> p \<noteq> NULL \<and> c \<noteq> NULL \<and> p \<noteq> c \<and> {p, c} \<subseteq> dom (blocks (iw_mem w)) \<and>
     (\<exists>cr. iw_coros w c = Some cr \<and> co_data cr = p) \<and>
     (\<exists>f. os_flushes (iw_ext w) p = Some f \<and> of_coro f = c \<and>
        (if of_processed_event_chunk f = NULL then (blocks (iw_mem w))(c := None, p := None) = base
         else \<exists>ch. os_chunks (iw_ext w) (of_processed_event_chunk f) = Some ch \<and> ec_data ch \<notin> {NULL, p, c} \<and>
           ec_data ch \<in> dom (blocks (iw_mem w)) \<and> {p, c} \<inter> own (of_processed_event_chunk f) ch = {} \<and>
           ((blocks (iw_mem w))(c := None, ec_data ch := None) |` (- own (of_processed_event_chunk f) ch))(p := None) = base))"

lemma flush_start_links:
  assumes c: "iw_coros w coro = Some cr" "iw_configs w config = Some cf"
    and ok: "env_co_create (oe_in env) (cf_coro_stack_size cf) w = (callee, w)" "callee \<noteq> NULL"
    and home: "flush_home env ins w lst"
    and d: "dll (iw_links w) lst xs" "valid (iw_links w) n" "n \<notin> set (lst # xs)" "n = p + flb_output_flush_head_off"
  shows "\<exists>w'. flush_start env o_ins ins config coro p w = Some (True, w') \<and> iw_ext w' = iw_ext w \<and>
    iw_mem w' = iw_mem w \<and> (\<exists>cr'. iw_coros w' coro = Some cr' \<and> co_data cr' = co_data cr) \<and> dll (iw_links w') lst (xs @ [n])"
proof -
  obtain h where "mk_list_add n lst (iw_links w) = Some h" "dll h lst (xs @ [n])"
    using mk_list_add_dll d(1-3) by blast
  then show ?thesis using c ok home d(4)
    by (cases "oi_is_threaded ins = FLB_TRUE") (auto simp: flush_start_def flush_home_def unlock_links_lock)
qed

lemma flush_start_fresh:
  assumes f: "fresh_flush w task o_ins config p c w'" and co: "co_create_ok env"
    and cf: "iw_configs w config = Some cf" and home: "flush_home env ins w lst"
    and d: "dll (iw_links w) lst xs"
  shows "(\<exists>w2. flush_start env o_ins ins config c p w' = Some (False, w2) \<and>
        blocks (iw_mem w2) = blocks (iw_mem w) \<and> iw_links w2 = iw_links w \<and> os_lib (iw_ext w2) = os_lib (iw_ext w')) \<or>
     (\<exists>w2. flush_start env o_ins ins config c p w' = Some (True, w2) \<and>
        dll (iw_links w2) lst (xs @ [p + flb_output_flush_head_off]) \<and>
        iw_ext w2 = iw_ext w' \<and> flush_holds own (blocks (iw_mem w)) p c w2)"
proof -
  let ?n = "p + flb_output_flush_head_off"
  obtain callee where cc: "env_co_create (oe_in env) (cf_coro_stack_size cf) w' = (callee, w')"
    using co unfolding co_create_ok_def by (metis prod.collapse)
  obtain bp bc fl where b: "p \<noteq> NULL" "c \<noteq> NULL" "p \<noteq> c" "blocks (iw_mem w) p = None" "blocks (iw_mem w) c = None"
      "blocks (iw_mem w') = (blocks (iw_mem w))(p \<mapsto> bp, c \<mapsto> bc)" "?n \<notin> dom (iw_links w)"
      "iw_links w' = (iw_links w)(?n \<mapsto> zero_node)"
      "iw_coros w' c = Some \<lparr>co_caller = NULL, co_callee = NULL, co_data = p\<rparr>" "iw_configs w' = iw_configs w"
      "os_flushes (iw_ext w') p = Some fl" "of_processed_event_chunk fl = NULL" "os_threads (iw_ext w') = os_threads (iw_ext w)"
      "of_coro fl = c"
    using f unfolding fresh_flush_def by blast
  have freed: "(blocks (iw_mem w))(p \<mapsto> bp, c := None, p := None) = blocks (iw_mem w)" using b(4,5) by (auto simp: fun_eq_iff)
  show ?thesis
  proof (cases "callee = NULL")
    case True
    have "(iw_links w)(?n := None) = iw_links w" using b(7) by (simp add: fun_upd_idem domIff)
    then show ?thesis
      using True cc b cf freed
      by (simp add: flush_start_def flb_coro_destroy_def flb_free_live free_flush_def os_update_def)
  next
    case False
    have "set (lst # xs) \<subseteq> dom (iw_links w)" using dll_ends(1,4) [OF d] by (auto simp: valid_def)
    then have nin: "?n \<notin> set (lst # xs)" using b(7) by blast
    have l: "dll (iw_links w') lst xs" using d b(8) nin by (subst dll_frame [where h = "iw_links w"]) auto
    have v: "valid (iw_links w') ?n" using b(1,8) by (simp add: valid_def)
    have "iw_configs w' config = Some cf" "flush_home env ins w' lst" using b(10,13) cf home flush_home_frame by fastforce+
    from flush_start_links [OF b(9) this(1) cc False this(2) l v nin refl, of o_ins] obtain w2 cr where
      "flush_start env o_ins ins config c p w' = Some (True, w2)" "iw_ext w2 = iw_ext w'" "iw_mem w2 = iw_mem w'"
      "iw_coros w2 c = Some cr" "co_data cr = p" "dll (iw_links w2) lst (xs @ [?n])" by auto
    moreover from this have "flush_holds own (blocks (iw_mem w)) p c w2" using b freed by (auto simp: flush_holds_def)
    ultimately show ?thesis by blast
  qed
qed

lemma ucast_ucast_32 [simp]: "ucast (ucast (x :: u32) :: u64) = x"
  by (rule bit_word_eqI) (simp add: bit_simps)

text \<open>
  What the return path relies on: destroying an event chunk releases none of the data of the chunks
  (the code frees that itself); the write to the pipe succeeds.
\<close>

definition chunk_destroy_ok :: "'y out_env \<Rightarrow> bool" where
  "chunk_destroy_ok env \<longleftrightarrow> (\<forall>p w. \<exists>m cs. oe_event_chunk_destroy env p w =
       os_update (\<lambda>s. s\<lparr>os_chunks := cs\<rparr>) (w\<lparr>iw_mem := m\<rparr>) \<and>
     (\<forall>q c. os_chunks (iw_ext w) q = Some c \<longrightarrow> blocks m (ec_data c) = blocks (iw_mem w) (ec_data c)))"

definition pipe_ok :: "'y out_env \<Rightarrow> bool" where
  "pipe_ok env \<longleftrightarrow> (\<forall>fd v w. env_pipe_w (oe_in env) fd v w = (8, w))"

text \<open>
  A flush may return: its processed chunk, if it has one, shares the data of the chunk \<open>e\<close> of its
  task or has a live block of its own.  \<open>fd\<close> is the channel of its output, or of the worker thread.
\<close>

definition may_return :: "'y out_env \<Rightarrow> 'y out_world \<Rightarrow> flb_output_flush \<Rightarrow> flb_event_chunk \<Rightarrow> bool" where
  "may_return env w f e \<longleftrightarrow> (of_processed_event_chunk f = NULL \<or>
     (\<exists>p. os_chunks (iw_ext w) (of_processed_event_chunk f) = Some p \<and>
          (ec_data p = ec_data e \<or> ec_data p \<noteq> NULL \<and> blocks (iw_mem w) (ec_data p) \<noteq> None)))"

definition return_fd :: "'y out_env \<Rightarrow> 'y out_world \<Rightarrow> flb_output_instance \<Rightarrow> int \<Rightarrow> bool" where
  "return_fd env w ins fd \<longleftrightarrow>
     (if oi_is_threaded ins = FLB_TRUE
      then \<exists>tp th. (\<forall>w'. oe_thread_instance_get env w' = tp) \<and> os_threads (iw_ext w) tp = Some th \<and>
             fd = snd (ti_ch_thread_events th)
      else fd = snd (oi_ch_events ins))"

text \<open>The data of the task's chunk is kept, that of a processed chunk of its own is released.\<close>

definition data_released :: "'y out_world \<Rightarrow> 'y out_world \<Rightarrow> flb_output_flush \<Rightarrow> flb_event_chunk \<Rightarrow> bool" where
  "data_released w w' f e \<longleftrightarrow> blocks (iw_mem w') (ec_data e) = blocks (iw_mem w) (ec_data e) \<and>
     (\<forall>p. of_processed_event_chunk f \<noteq> NULL \<and> os_chunks (iw_ext w) (of_processed_event_chunk f) = Some p \<and>
          ec_data p \<noteq> ec_data e \<longrightarrow> blocks (iw_mem w') (ec_data p) = None)"

lemma release_processed_spec:
  assumes f: "os_flushes (iw_ext w) q = Some f" and t: "os_tasks (iw_ext w) (of_task f) = Some t"
    and e: "os_chunks (iw_ext w) (tk_event_chunk t) = Some e"
    and ok: "may_return env w f e" "chunk_destroy_ok env"
  shows "\<exists>m cs. release_processed env q w = Some (os_update (\<lambda>s. s\<lparr>os_chunks := cs,
       os_flushes := (os_flushes s)(q \<mapsto> f\<lparr>of_processed_event_chunk := NULL\<rparr>)\<rparr>) (w\<lparr>iw_mem := m\<rparr>)) \<and>
     data_released w (w\<lparr>iw_mem := m\<rparr>) f e"
proof (cases "of_processed_event_chunk f = NULL")
  case True
  have "(os_flushes (iw_ext w))(q \<mapsto> f\<lparr>of_processed_event_chunk := NULL\<rparr>) = os_flushes (iw_ext w)"
    using f True by (cases f) (simp add: fun_upd_idem)
  then show ?thesis using True f
    by (intro exI [of _ "iw_mem w"] exI [of _ "os_chunks (iw_ext w)"])
      (simp add: release_processed_def data_released_def os_update_def)
next
  case False
  then obtain p where p: "os_chunks (iw_ext w) (of_processed_event_chunk f) = Some p"
      "ec_data p = ec_data e \<or> ec_data p \<noteq> NULL \<and> blocks (iw_mem w) (ec_data p) \<noteq> None"
    using ok(1) by (auto simp: may_return_def)
  obtain m where m: "(if ec_data e \<noteq> ec_data p then flb_free (ec_data p) (iw_mem w) else Some (iw_mem w)) = Some m"
      "blocks m (ec_data e) = blocks (iw_mem w) (ec_data e)" "ec_data p \<noteq> ec_data e \<longrightarrow> blocks m (ec_data p) = None"
    using p(2) flb_free_live [of "iw_mem w" "ec_data p"] by (cases "ec_data e = ec_data p") auto
  obtain m' cs where d: "oe_event_chunk_destroy env (of_processed_event_chunk f) (w\<lparr>iw_mem := m\<rparr>) =
       os_update (\<lambda>s. s\<lparr>os_chunks := cs\<rparr>) (w\<lparr>iw_mem := m'\<rparr>)"
     "\<forall>q c. os_chunks (iw_ext w) q = Some c \<longrightarrow> blocks m' (ec_data c) = blocks m (ec_data c)"
    using ok(2) [unfolded chunk_destroy_ok_def, rule_format, of "of_processed_event_chunk f" "w\<lparr>iw_mem := m\<rparr>"]
    by auto
  show ?thesis
    using False f t e p m d
    by (intro exI [of _ m'] exI [of _ cs]) (simp add: release_processed_def data_released_def os_update_def)
qed

text \<open>The return path around the release of the processed chunk, whatever the release leaves behind.\<close>

lemma flb_output_return_steps:
  assumes co: "iw_coros w co = Some c" and f: "os_flushes (iw_ext w) (co_data c) = Some f"
    and ins: "os_outputs (iw_ext w) (of_o_ins f) = Some ins" and t: "os_tasks (iw_ext w) (of_task f) = Some t"
    and r: "routes (iw_links w) (os_routes (iw_ext w)) (of_task f) rs"
    and ok: "return_fd env w ins fd" "pipe_ok env"
  shows "\<exists>rh. routes (iw_links w) rh (of_task f) (update_route (of_o_ins f) FLB_TASK_ROUTE_INACTIVE rs) \<and>
    (\<forall>m cs. release_processed env (co_data c) (os_update (\<lambda>s. s\<lparr>os_routes := rh\<rparr>) w) =
        Some (os_update (\<lambda>s. s\<lparr>os_routes := rh, os_chunks := cs,
          os_flushes := (os_flushes s)(co_data c \<mapsto> f\<lparr>of_processed_event_chunk := NULL\<rparr>)\<rparr>) (w\<lparr>iw_mem := m\<rparr>)) \<longrightarrow>
      flb_output_return env ret co w = Some (oe_prepare_destroy env (co_data c)
        (os_update (\<lambda>s. s\<lparr>os_routes := rh, os_chunks := cs,
           os_flushes := (os_flushes s)(co_data c \<mapsto> f\<lparr>of_processed_event_chunk := NULL\<rparr>),
           os_written := os_written s @ [(fd, FLB_BITS_U64_SET 2 (FLB_TASK_SET ret (word_of_int (tk_id t)) (oi_id ins)))]\<rparr>)
         (w\<lparr>iw_mem := m\<rparr>))))"
proof -
  obtain rh where rh: "flb_task_deactivate_route (iw_links w) (of_task f) (of_o_ins f) (os_routes (iw_ext w)) = Some rh"
      "routes (iw_links w) rh (of_task f) (update_route (of_o_ins f) FLB_TASK_ROUTE_INACTIVE rs)"
    using set_route_status_refines [OF r] unfolding flb_task_deactivate_route_def by blast
  define wr where "wr = os_update (\<lambda>s. s\<lparr>os_routes := rh\<rparr>) w"
  have "flb_output_return env ret co w = Some (oe_prepare_destroy env (co_data c)
        (os_update (\<lambda>s. s\<lparr>os_written := os_written s @
           [(fd, FLB_BITS_U64_SET 2 (FLB_TASK_SET ret (word_of_int (tk_id t)) (oi_id ins)))]\<rparr>) w'))"
    if "release_processed env (co_data c) wr = Some w'" "os_threads (iw_ext w') = os_threads (iw_ext w)" for w'
    using that co f ins t rh(1) ok
    by (auto simp: flb_output_return_def unlock_routes_lock wr_def [symmetric] return_fd_def pipe_ok_def
        flb_output_is_threaded_def pipe_w_def Let_def split: if_splits)
  note this [unfolded wr_def]
  then show ?thesis using rh(2) by (intro exI [of _ rh] conjI allI impI) (assumption, simp add: os_update_def)
qed

lemma flb_output_return_spec:
  assumes co: "iw_coros w co = Some c" and f: "os_flushes (iw_ext w) (co_data c) = Some f"
    and ins: "os_outputs (iw_ext w) (of_o_ins f) = Some ins" and t: "os_tasks (iw_ext w) (of_task f) = Some t"
    and e: "os_chunks (iw_ext w) (tk_event_chunk t) = Some e"
    and r: "routes (iw_links w) (os_routes (iw_ext w)) (of_task f) rs"
    and ok: "may_return env w f e" "chunk_destroy_ok env" "return_fd env w ins fd" "pipe_ok env"
  shows "\<exists>m cs rh w1. flb_output_return env ret co w = Some (oe_prepare_destroy env (co_data c) w1) \<and>
     w1 = os_update (\<lambda>s. s\<lparr>os_routes := rh, os_chunks := cs,
         os_flushes := (os_flushes s)(co_data c \<mapsto> f\<lparr>of_processed_event_chunk := NULL\<rparr>),
         os_written := os_written s @ [(fd, FLB_BITS_U64_SET 2 (FLB_TASK_SET ret (word_of_int (tk_id t)) (oi_id ins)))]\<rparr>)
       (w\<lparr>iw_mem := m\<rparr>) \<and>
     routes (iw_links w) rh (of_task f) (update_route (of_o_ins f) FLB_TASK_ROUTE_INACTIVE rs) \<and>
     data_released w w1 f e"
proof -
  from flb_output_return_steps [OF co f ins t r ok(3,4), of ret] obtain rh where
    rh: "routes (iw_links w) rh (of_task f) (update_route (of_o_ins f) FLB_TASK_ROUTE_INACTIVE rs)" and
    ret: "\<And>m cs. release_processed env (co_data c) (os_update (\<lambda>s. s\<lparr>os_routes := rh\<rparr>) w) =
        Some (os_update (\<lambda>s. s\<lparr>os_routes := rh, os_chunks := cs,
          os_flushes := (os_flushes s)(co_data c \<mapsto> f\<lparr>of_processed_event_chunk := NULL\<rparr>)\<rparr>) (w\<lparr>iw_mem := m\<rparr>)) \<Longrightarrow>
      flb_output_return env ret co w = Some (oe_prepare_destroy env (co_data c)
        (os_update (\<lambda>s. s\<lparr>os_routes := rh, os_chunks := cs,
           os_flushes := (os_flushes s)(co_data c \<mapsto> f\<lparr>of_processed_event_chunk := NULL\<rparr>),
           os_written := os_written s @ [(fd, FLB_BITS_U64_SET 2 (FLB_TASK_SET ret (word_of_int (tk_id t)) (oi_id ins)))]\<rparr>)
         (w\<lparr>iw_mem := m\<rparr>)))" by blast
  define wr where "wr = os_update (\<lambda>s. s\<lparr>os_routes := rh\<rparr>) w"
  have "may_return env wr f e" using ok(1) by (simp add: may_return_def wr_def os_update_def)
  then obtain m cs where mc: "release_processed env (co_data c) wr = Some (os_update (\<lambda>s. s\<lparr>os_chunks := cs,
       os_flushes := (os_flushes s)(co_data c \<mapsto> f\<lparr>of_processed_event_chunk := NULL\<rparr>)\<rparr>) (wr\<lparr>iw_mem := m\<rparr>))"
     "data_released wr (wr\<lparr>iw_mem := m\<rparr>) f e"
    using release_processed_spec [of wr "co_data c" f t e env] f t e ok(2) by (auto simp: wr_def os_update_def)
  then have "release_processed env (co_data c) (os_update (\<lambda>s. s\<lparr>os_routes := rh\<rparr>) w) =
      Some (os_update (\<lambda>s. s\<lparr>os_routes := rh, os_chunks := cs,
          os_flushes := (os_flushes s)(co_data c \<mapsto> f\<lparr>of_processed_event_chunk := NULL\<rparr>)\<rparr>) (w\<lparr>iw_mem := m\<rparr>))"
    by (simp add: wr_def os_update_def)
  from ret [OF this] show ?thesis using rh mc(2) by (fastforce simp: data_released_def wr_def os_update_def)
qed

text \<open>The message \<open>val\<close> tells the engine of the return value, the task and the output.\<close>

definition reports :: "u32 \<Rightarrow> flb_task \<Rightarrow> flb_output_instance \<Rightarrow> u64 \<Rightarrow> bool" where
  "reports ret t ins val \<longleftrightarrow> FLB_BITS_U64_HIGH val = ucast FLB_ENGINE_TASK \<and>
     FLB_TASK_RET (ucast (FLB_BITS_U64_LOW val)) = ret \<and>
     FLB_TASK_ID (ucast (FLB_BITS_U64_LOW val)) = word_of_int (tk_id t) \<and>
     FLB_TASK_OUT (ucast (FLB_BITS_U64_LOW val)) = oi_id ins"

definition ids_fit :: "flb_task \<Rightarrow> flb_output_instance \<Rightarrow> bool" where
  "ids_fit t ins \<longleftrightarrow> word_of_int (tk_id t) < (2 ^ 14 :: u32) \<and> oi_id ins < 2 ^ 14"

lemma reports_message:
  assumes "ret < 2 ^ 4" "ids_fit t ins"
  shows "reports ret t ins (FLB_BITS_U64_SET 2 (FLB_TASK_SET ret (word_of_int (tk_id t)) (oi_id ins)))"
  using FLB_TASK_SET_fields [of ret "word_of_int (tk_id t)" "oi_id ins"] assms
  by (simp add: reports_def ids_fit_def FLB_BITS_U64_fields FLB_ENGINE_TASK_def)

text \<open>Setting the parameters switches to the new coroutine, whose entry point copies them and yields.\<close>

lemma params_set_spec:
  assumes p: "(if os_tls (iw_ext w) \<noteq> NULL then (os_tls (iw_ext w), w)
        else (let (p, m) = flb_malloc (env_alloc (oe_in env)) (of_nat sizeof_flb_out_flush_params) (iw_mem w)
              in (p, w\<lparr>iw_mem := m\<rparr>))) = (params, w1)" "params \<noteq> NULL"
    and f: "os_flushes (iw_ext w) out_flush = Some f" "os_tasks (iw_ext w) task = Some t" "iw_coros w coro = Some c"
  shows "\<exists>w2. output_params_set env out_flush coro task out_plugin out_context config w =
       env_co_switch (oe_in env) (co_callee c) w2 \<and>
     output_pre_cb_flush_enter env w2 = map_option (Pair (Some
       \<lparr>fp_event_chunk = (if of_processed_event_chunk f \<noteq> NULL then of_processed_event_chunk f else tk_event_chunk t),
        fp_out_flush = out_flush, fp_i_ins = tk_i_ins t, fp_out_plugin = out_plugin,
        fp_out_context = out_context, fp_config = config, fp_coro = coro\<rparr>)) (env_co_switch (oe_in env) (co_caller c) w2)"
proof -
  have same: "iw_ext w1 = iw_ext w" "iw_coros w1 = iw_coros w"
    using p(1) by (auto simp: Let_def split: if_splits prod.splits)
  let ?ps = "\<lparr>fp_event_chunk = (if of_processed_event_chunk f \<noteq> NULL then of_processed_event_chunk f else tk_event_chunk t),
        fp_out_flush = out_flush, fp_i_ins = tk_i_ins t, fp_out_plugin = out_plugin,
        fp_out_context = out_context, fp_config = config, fp_coro = coro\<rparr>"
  let ?w2 = "os_update (\<lambda>o'. o'\<lparr>os_params := (os_params o')(params \<mapsto> ?ps), os_tls := params\<rparr>) w1"
  have "output_params_set env out_flush coro task out_plugin out_context config w =
       env_co_switch (oe_in env) (co_callee c) ?w2"
    unfolding output_params_set_def p(1) using p(2) f same by simp
  moreover have "output_pre_cb_flush_enter env ?w2 =
      map_option (Pair (Some ?ps)) (env_co_switch (oe_in env) (co_caller c) ?w2)"
    using p(2) f(3) same
    by (cases "env_co_switch (oe_in env) (co_caller c) ?w2") (simp_all add: output_pre_cb_flush_enter_def os_update_def)
  ultimately show ?thesis by blast
qed

text \<open>What a flush does when it is resumed, by the status of its route.\<close>

lemma resumed_dropped:
  assumes "os_flushes (iw_ext w) (fp_out_flush ps) = Some f"
    and "routes (iw_links w) (os_routes (iw_ext w)) (of_task f) rs"
    and "route_status (of_o_ins f) rs = FLB_TASK_ROUTE_DROPPED"
  shows "output_pre_cb_flush_resumed env ps w = flb_output_return_do env FLB_ERROR w"
  using get_route_status_refines [OF assms(2), of "of_o_ins f"] assms(1,3)
  by (simp add: output_pre_cb_flush_resumed_def)

lemma resumed_runs:
  assumes "os_flushes (iw_ext w) (fp_out_flush ps) = Some f" "os_plugins (iw_ext w) (fp_out_plugin ps) = Some p"
    and "routes (iw_links w) (os_routes (iw_ext w)) (of_task f) rs"
    and "route_status (of_o_ins f) rs \<noteq> FLB_TASK_ROUTE_DROPPED"
  shows "\<exists>rh. routes (iw_links w) rh (of_task f) (update_route (of_o_ins f) FLB_TASK_ROUTE_ACTIVE rs) \<and>
     output_pre_cb_flush_resumed env ps w =
        Some (oe_cb_flush env (op_cb_flush p) (fp_event_chunk ps) (fp_out_flush ps) (fp_i_ins ps)
               (fp_out_context ps) (fp_config ps) (os_update (\<lambda>o'. o'\<lparr>os_routes := rh\<rparr>) w))"
proof -
  obtain rh where rh: "flb_task_set_route_status (iw_links w) (of_task f) (of_o_ins f) FLB_TASK_ROUTE_ACTIVE
        (os_routes (iw_ext w)) = Some rh"
      "routes (iw_links w) rh (of_task f) (update_route (of_o_ins f) FLB_TASK_ROUTE_ACTIVE rs)"
    using set_route_status_refines [OF assms(3)] by blast
  then show ?thesis
    using get_route_status_refines [OF assms(3), of "of_o_ins f"] assms(1,2,4)
    by (auto simp: output_pre_cb_flush_resumed_def Let_def flb_task_activate_route_def unlock_routes_lock
        task_unlock_def task_lock_def os_update_def)
qed

section \<open>Properties\<close>

text \<open>
  An unthreaded output at 3700 with the flush list 512, a task at 3500 with one inactive route to
  it (its node is 3616), a flush at 3900 run by the coroutine 600.
\<close>

definition example_out_env :: "lib_objects out_env" where
  "example_out_env = \<lparr>oe_in = example_in_env, oe_flush_id_get = (\<lambda>p w. (1, w)),
     oe_processor_is_active = (\<lambda>p w. False), oe_run_logs = (\<lambda>p c w. ((0, 0, 0), w)), oe_mp_count = (\<lambda>p s w. 0),
     oe_event_chunk_create = (\<lambda>t n g d s w. (0, w)), oe_event_chunk_destroy = (\<lambda>c w. w),
     oe_cmt = (\<lambda>p. \<lparr>lib_success = 0, lib_decode = (\<lambda>d off y. ((1, 0, off), y)), lib_process = (\<lambda>c y. (0, y)),
        lib_encode = (\<lambda>c y. ((1, 0, []), y)), lib_destroy = (\<lambda>c y. y), lib_encode_destroy = (\<lambda>c y. y)\<rparr>),
     oe_ctr = (\<lambda>p. \<lparr>lib_success = 0, lib_decode = (\<lambda>d off y. ((1, 0, off), y)), lib_process = (\<lambda>c y. (0, y)),
        lib_encode = (\<lambda>c y. ((1, 0, []), y)), lib_destroy = (\<lambda>c y. y), lib_encode_destroy = (\<lambda>c y. y)\<rparr>),
     oe_thread_instance_get = (\<lambda>w. 0), oe_coro_get = (\<lambda>w. 600), oe_prepare_destroy = (\<lambda>p w. w),
     oe_thread_pool_coros_size = (\<lambda>p w. 0), oe_cb_flush = (\<lambda>cb e f i c g w. w)\<rparr>"

definition example_out_state :: "lib_objects out_state" where
  "example_out_state = \<lparr>os_tasks = [3500 \<mapsto> zero_flb_task\<lparr>tk_id := 5, tk_event_chunk := 3800\<rparr>],
     os_routes = [3600 \<mapsto> \<lparr>rt_status = FLB_TASK_ROUTE_INACTIVE, rt_out = 3700\<rparr>],
     os_chunks = [3800 \<mapsto> zero_flb_event_chunk],
     os_outputs = [3700 \<mapsto> zero_flb_output_instance\<lparr>oi_flush_list := 512, oi_id := 3, oi_ch_events := (10, 11)\<rparr>],
     os_plugins = [4000 \<mapsto> zero_flb_output_plugin],
     os_flushes = [3900 \<mapsto> \<lparr>of_id = 1, of_buffer = 0, of_task = 3500, of_config = 3000, of_o_ins = 3700,
        of_coro = 600, of_processed_event_chunk = NULL\<rparr>],
     os_params = Map.empty, os_threads = Map.empty, os_tls = NULL, os_locks = [], os_written = [], os_lib = ({}, {})\<rparr>"

definition example_out_world :: "lib_objects out_world" where
  "example_out_world = (example_in_world example_out_state)
     \<lparr>iw_mem := \<lparr>blocks = [512 \<mapsto> replicate 512 (Some 0), 3500 \<mapsto> replicate 512 (Some 0)], calls = 0\<rparr>,
      iw_links := [512 \<mapsto> \<lparr>mk_prev = 512, mk_next = 512\<rparr>, 3548 \<mapsto> \<lparr>mk_prev = 3616, mk_next = 3616\<rparr>,
        3616 \<mapsto> \<lparr>mk_prev = 3548, mk_next = 3548\<rparr>],
      iw_coros := [600 \<mapsto> \<lparr>co_caller = 1, co_callee = 4096, co_data = 3900\<rparr>]\<rparr>"

abbreviation example_routes :: "flb_task_route list" where
  "example_routes \<equiv> [\<lparr>rt_status = FLB_TASK_ROUTE_INACTIVE, rt_out = 3700\<rparr>]"

abbreviation example_output :: flb_output_instance where
  "example_output \<equiv> zero_flb_output_instance\<lparr>oi_flush_list := 512, oi_id := 3, oi_ch_events := (10, 11)\<rparr>"

abbreviation example_flush :: flb_output_flush where
  "example_flush \<equiv> \<lparr>of_id = 1, of_buffer = 0, of_task = 3500, of_config = 3000, of_o_ins = 3700,
     of_coro = 600, of_processed_event_chunk = NULL\<rparr>"

lemma example_out_maps:
  "os_tasks (iw_ext example_out_world) 3500 = Some (zero_flb_task\<lparr>tk_id := 5, tk_event_chunk := 3800\<rparr>)"
  "os_chunks (iw_ext example_out_world) 3800 = Some zero_flb_event_chunk"
  "os_outputs (iw_ext example_out_world) 3700 = Some example_output"
  "os_plugins (iw_ext example_out_world) 4000 = Some zero_flb_output_plugin"
  "os_flushes (iw_ext example_out_world) 3900 = Some example_flush"
  "iw_configs example_out_world 3000 = Some zero_flb_config"
  "iw_coros example_out_world 600 = Some \<lparr>co_caller = 1, co_callee = 4096, co_data = 3900\<rparr>"
  by (simp_all add: example_out_world_def example_in_world_def example_out_state_def)

lemma example_destroy_ok: "chunk_destroy_ok example_out_env"
  unfolding chunk_destroy_ok_def
proof (intro allI)
  fix p and w :: "lib_objects out_world"
  show "\<exists>m cs. oe_event_chunk_destroy example_out_env p w = os_update (\<lambda>s. s\<lparr>os_chunks := cs\<rparr>) (w\<lparr>iw_mem := m\<rparr>) \<and>
     (\<forall>q c. os_chunks (iw_ext w) q = Some c \<longrightarrow> blocks m (ec_data c) = blocks (iw_mem w) (ec_data c))"
    by (intro exI [of _ "iw_mem w"] exI [of _ "os_chunks (iw_ext w)"]) (simp add: example_out_env_def os_update_def)
qed

lemma example_out_links:
  "nodes_in_blocks (iw_links example_out_world) (iw_mem example_out_world)"
  "dll (iw_links example_out_world) 512 []"
  "routes (iw_links example_out_world) (os_routes (iw_ext example_out_world)) 3500 example_routes"
proof -
  show "nodes_in_blocks (iw_links example_out_world) (iw_mem example_out_world)"
    unfolding nodes_in_blocks_def
  proof
    fix x assume "x \<in> dom (iw_links example_out_world)"
    then have "x = 512 \<or> x = 3548 \<or> x = 3616" by (auto simp: example_out_world_def split: if_splits)
    then show "\<exists>q b. blocks (iw_mem example_out_world) q = Some b \<and> q \<le> x \<and> x < q + length b"
      by (intro exI [of _ "if x = 512 then 512 else 3500"] exI [of _ "replicate 512 (Some 0)"])
        (auto simp: example_out_world_def)
  qed
  show "dll (iw_links example_out_world) 512 []"
    by (simp add: dll_def example_out_world_def valid_def nx_def pv_def)
  show "routes (iw_links example_out_world) (os_routes (iw_ext example_out_world)) 3500 example_routes"
    by (auto simp: routes_def example_out_world_def example_in_world_def example_out_state_def dll_def valid_def nx_def pv_def
        flb_task_routes_off_def flb_task_route_head_off_def intro!: exI [of _ "[3600]"])
qed

text \<open>
  C3: a flush respects its route.  When the engine resumes a flush coroutine whose route was
  dropped, the plugin's callback is not run and the coroutine returns FLB_ERROR; otherwise the
  route is made active, other outputs' routes are untouched, and the callback runs with the
  parameters the coroutine copied before it first yielded.  The task lock is released on both paths.
\<close>

theorem flush_respects_route:
  assumes "os_flushes (iw_ext w) (fp_out_flush ps) = Some f" "os_plugins (iw_ext w) (fp_out_plugin ps) = Some p"
    and "routes (iw_links w) (os_routes (iw_ext w)) (of_task f) rs"
  shows "if route_status (of_o_ins f) rs = FLB_TASK_ROUTE_DROPPED
    then output_pre_cb_flush_resumed env ps w = flb_output_return_do env FLB_ERROR w
    else \<exists>rh. routes (iw_links w) rh (of_task f) (update_route (of_o_ins f) FLB_TASK_ROUTE_ACTIVE rs) \<and>
      (\<forall>o'. o' \<noteq> of_o_ins f \<longrightarrow>
         flb_task_get_route_status (iw_links w) rh (of_task f) o' = Some (route_status o' rs)) \<and>
      output_pre_cb_flush_resumed env ps w =
        Some (oe_cb_flush env (op_cb_flush p) (fp_event_chunk ps) (fp_out_flush ps) (fp_i_ins ps)
               (fp_out_context ps) (fp_config ps) (os_update (\<lambda>o'. o'\<lparr>os_routes := rh\<rparr>) w))"
proof (cases "route_status (of_o_ins f) rs = FLB_TASK_ROUTE_DROPPED")
  case True
  then show ?thesis using resumed_dropped [OF assms(1,3)] by simp
next
  case False
  from resumed_runs [OF assms this] obtain rh where
    rh: "routes (iw_links w) rh (of_task f) (update_route (of_o_ins f) FLB_TASK_ROUTE_ACTIVE rs)"
     "output_pre_cb_flush_resumed env ps w =
        Some (oe_cb_flush env (op_cb_flush p) (fp_event_chunk ps) (fp_out_flush ps) (fp_i_ins ps)
               (fp_out_context ps) (fp_config ps) (os_update (\<lambda>o'. o'\<lparr>os_routes := rh\<rparr>) w))" by blast
  have "flb_task_get_route_status (iw_links w) rh (of_task f) o' = Some (route_status o' rs)"
    if "o' \<noteq> of_o_ins f" for o'
    using get_route_status_refines [OF rh(1), of o'] that by (simp add: route_status_update)
  then show ?thesis using False rh by auto
qed

theorem flush_respects_route_witness:
  "\<exists>rh. routes (iw_links example_out_world) rh 3500 [\<lparr>rt_status = FLB_TASK_ROUTE_ACTIVE, rt_out = 3700\<rparr>] \<and>
     output_pre_cb_flush_resumed example_out_env \<lparr>fp_event_chunk = 3800, fp_out_flush = 3900, fp_i_ins = 0, fp_out_plugin = 4000,
         fp_out_context = 0, fp_config = 3000, fp_coro = 600\<rparr> example_out_world =
       Some (os_update (\<lambda>o'. o'\<lparr>os_routes := rh\<rparr>) example_out_world)"
proof -
  let ?ps = "\<lparr>fp_event_chunk = 3800, fp_out_flush = 3900, fp_i_ins = 0, fp_out_plugin = 4000,
    fp_out_context = 0, fp_config = 3000, fp_coro = 600\<rparr>"
  have "os_flushes (iw_ext example_out_world) (fp_out_flush ?ps) = Some example_flush"
    "os_plugins (iw_ext example_out_world) (fp_out_plugin ?ps) = Some zero_flb_output_plugin"
    "routes (iw_links example_out_world) (os_routes (iw_ext example_out_world)) (of_task example_flush) example_routes"
    using example_out_maps example_out_links by simp_all
  from flush_respects_route [OF this, of example_out_env] show ?thesis
    by (auto simp: route_status_def c_consts example_out_env_def)
qed

text \<open>
  How the creation ends: with the parameters of the callback set and a switch to the coroutine of the flush, or,
  when the block of the parameters cannot be allocated, with nothing but the flush itself.
\<close>

definition hand_over :: "'y out_env \<Rightarrow> ptr \<Rightarrow> ptr \<Rightarrow> ptr \<Rightarrow> flb_output_instance \<Rightarrow> ptr \<Rightarrow> 'y out_world \<Rightarrow> 'y out_world option \<Rightarrow> bool" where
  "hand_over env p c chunk ins config w r \<longleftrightarrow>
     (os_tls (iw_ext w) = NULL \<and> (\<exists>m. flb_malloc (env_alloc (oe_in env)) (of_nat sizeof_flb_out_flush_params) (iw_mem w) = (NULL, m) \<and>
        r = Some (w\<lparr>iw_mem := m\<rparr>))) \<or>
     (\<exists>params cr w2 ps. params \<noteq> NULL \<and> iw_coros w c = Some cr \<and> r = env_co_switch (oe_in env) (co_callee cr) w2 \<and>
        os_tls (iw_ext w2) = params \<and> os_params (iw_ext w2) params = Some ps \<and> fp_event_chunk ps = chunk \<and>
        fp_out_flush ps = p \<and> fp_out_plugin ps = oi_p ins \<and> fp_out_context ps = oi_context ins \<and> fp_config ps = config \<and>
        fp_coro ps = c \<and> iw_links w2 = iw_links w \<and> os_flushes (iw_ext w2) = os_flushes (iw_ext w))"

lemma output_params_set_hands_over:
  assumes "os_flushes (iw_ext w) p = Some f" "os_tasks (iw_ext w) task = Some t" "iw_coros w c = Some cr"
  shows "hand_over env p c (if of_processed_event_chunk f \<noteq> NULL then of_processed_event_chunk f else tk_event_chunk t) ins config w
    (output_params_set env p c task (oi_p ins) (oi_context ins) config w)"
proof -
  obtain q m where q: "flb_malloc (env_alloc (oe_in env)) (of_nat sizeof_flb_out_flush_params) (iw_mem w) = (q, m)" by fastforce
  consider "os_tls (iw_ext w) = NULL" "q = NULL" | "os_tls (iw_ext w) = NULL" "q \<noteq> NULL" | "os_tls (iw_ext w) \<noteq> NULL" by blast
  then show ?thesis
    by cases (use q assms in \<open>simp_all add: hand_over_def output_params_set_def os_update_def\<close>, fastforce+)
qed

text \<open>The creation without a processor.\<close>

lemma flush_create_plain:
  assumes "fresh_allocator (env_alloc (oe_in env))" "sep_allocator (env_alloc (oe_in env))"
    and "nodes_in_blocks (iw_links w) (iw_mem w)" "flush_id_get_ok env" "co_create_ok env"
    and "\<forall>w. \<not> oe_processor_is_active env (oi_processor ins) w"
    and "os_tasks (iw_ext w) task = Some t" "os_chunks (iw_ext w) (tk_event_chunk t) = Some e"
    and "os_outputs (iw_ext w) o_ins = Some ins" "flush_home env ins w lst"
    and "iw_configs w config = Some cf" "dll (iw_links w) lst xs"
  shows "(\<exists>w'. flb_output_flush_create env task i_ins o_ins config w = Some (NULL, w') \<and>
        blocks (iw_mem w') = blocks (iw_mem w) \<and> iw_links w' = iw_links w \<and> os_lib (iw_ext w') = os_lib (iw_ext w)) \<or>
     (\<exists>p c f w'. p \<noteq> NULL \<and> flb_output_flush_create env task i_ins o_ins config w =
          map_option (Pair p) (output_params_set env p c task (oi_p ins) (oi_context ins) config w') \<and>
        dll (iw_links w') lst (xs @ [p + flb_output_flush_head_off]) \<and>
        os_flushes (iw_ext w') p = Some f \<and> of_task f = task \<and> of_o_ins f = o_ins \<and> of_coro f = c \<and>
        of_config f = config \<and> of_buffer f = ec_data e \<and> takes_id env w o_ins f \<and> of_processed_event_chunk f = NULL \<and>
        os_tasks (iw_ext w') task = Some t \<and> os_lib (iw_ext w') = os_lib (iw_ext w) \<and> (\<exists>cr. iw_coros w' c = Some cr) \<and>
        flush_holds own (blocks (iw_mem w)) p c w')"
proof -
  from new_flush_spec [OF assms(1-4,7,8), of o_ins config] show ?thesis
  proof (elim disjE exE conjE)
    fix w'
    assume "new_flush env task o_ins config w = Some (None, w')" "blocks (iw_mem w') = blocks (iw_mem w)"
      "iw_links w' = iw_links w" "os_lib (iw_ext w') = os_lib (iw_ext w)"
    then show ?thesis by (simp add: flb_output_flush_create_def)
  next
    fix p c w'
    assume n: "new_flush env task o_ins config w = Some (Some (p, c), w')" "fresh_flush w task o_ins config p c w'"
      "\<forall>f. os_flushes (iw_ext w') p = Some f \<longrightarrow> takes_id env w o_ins f"
    obtain k where o': "os_outputs (iw_ext w') o_ins = Some (ins\<lparr>oi_flush_id := k\<rparr>)"
      using n(2) assms(9) unfolding fresh_flush_def by blast
    have t': "os_tasks (iw_ext w') task = Some t" "os_lib (iw_ext w') = os_lib (iw_ext w)"
      using n(2) assms(7) by (simp_all add: fresh_flush_def)
    obtain f where f: "os_flushes (iw_ext w') p = Some f" "of_task f = task" "of_o_ins f = o_ins" "of_coro f = c"
      "p \<noteq> NULL" "of_config f = config" "of_processed_event_chunk f = NULL" "names_chunk w task f"
      using n(2) unfolding fresh_flush_def by blast
    have b: "of_buffer f = ec_data e" "takes_id env w o_ins f" using f(1,8) assms(7,8) n(3) by (auto simp: names_chunk_def)
    have "flush_home env (ins\<lparr>oi_flush_id := k\<rparr>) w lst" using assms(10) by simp
    from flush_start_fresh [OF n(2) assms(5,11) this assms(12), where own = own] show ?thesis
    proof (elim disjE exE conjE)
      fix w2
      assume "flush_start env o_ins (ins\<lparr>oi_flush_id := k\<rparr>) config c p w' = Some (False, w2)"
        "blocks (iw_mem w2) = blocks (iw_mem w)" "iw_links w2 = iw_links w" "os_lib (iw_ext w2) = os_lib (iw_ext w')"
      then show ?thesis using n(1) o' t' assms(6)
        by (simp add: flb_output_flush_create_def flush_process_def)
    next
      fix w2
      assume s: "flush_start env o_ins (ins\<lparr>oi_flush_id := k\<rparr>) config c p w' = Some (True, w2)"
        "dll (iw_links w2) lst (xs @ [p + flb_output_flush_head_off])"
        "iw_ext w2 = iw_ext w'" "flush_holds own (blocks (iw_mem w)) p c w2"
      have "flb_output_flush_create env task i_ins o_ins config w =
          map_option (Pair p) (output_params_set env p c task (oi_p ins) (oi_context ins) config w2)"
        using n(1) o' t' assms(6) s(1)
        by (cases "output_params_set env p c task (oi_p ins) (oi_context ins) config w2")
          (simp_all add: flb_output_flush_create_def flush_process_def)
      moreover have "\<exists>cr. iw_coros w2 c = Some cr" using s(4) by (auto simp: flush_holds_def)
      ultimately show ?thesis using s(2-4) f b t'
        by (intro disjI2 exI [of _ p] exI [of _ c] exI [of _ f] exI [of _ w2]) simp
    qed
  qed
qed

text \<open>
  C11: creating a flush when no processor is active.  Whichever of the three allocations fails,
  \<^verbatim>\<open>flb_output_flush_create\<close> answers null, with every block it allocated released and the links as they were.
  Otherwise it answers a flush that holds two blocks, the rest of the memory being as before, linked at the end of the
  flush list, that of the output or of the worker that runs it, all its fields bound: task, output, coroutine,
  configuration, the data of the task's chunk, the next id of the output, and no processed chunk.  It then switches to the
  coroutine with the parameters of the callback set, unless the block of the parameters cannot be allocated: then the
  flush is answered and stays linked, but its coroutine is not started.
\<close>

theorem flush_create_safe:
  assumes "fresh_allocator (env_alloc (oe_in env))" "sep_allocator (env_alloc (oe_in env))"
    and "nodes_in_blocks (iw_links w) (iw_mem w)" "flush_id_get_ok env" "co_create_ok env"
    and "\<forall>w. \<not> oe_processor_is_active env (oi_processor ins) w"
    and "os_tasks (iw_ext w) task = Some t" "os_chunks (iw_ext w) (tk_event_chunk t) = Some e"
    and "os_outputs (iw_ext w) o_ins = Some ins" "flush_home env ins w lst"
    and "iw_configs w config = Some cf" "dll (iw_links w) lst xs"
  shows "(\<exists>w'. flb_output_flush_create env task i_ins o_ins config w = Some (NULL, w') \<and>
        blocks (iw_mem w') = blocks (iw_mem w) \<and> iw_links w' = iw_links w) \<or>
     (\<exists>p c f w' r. p \<noteq> NULL \<and> flb_output_flush_create env task i_ins o_ins config w = map_option (Pair p) r \<and>
        r = output_params_set env p c task (oi_p ins) (oi_context ins) config w' \<and>
        hand_over env p c (tk_event_chunk t) ins config w' r \<and>
        dll (iw_links w') lst (xs @ [p + flb_output_flush_head_off]) \<and>
        os_flushes (iw_ext w') p = Some f \<and> of_task f = task \<and> of_o_ins f = o_ins \<and> of_coro f = c \<and>
        of_config f = config \<and> of_buffer f = ec_data e \<and> takes_id env w o_ins f \<and> of_processed_event_chunk f = NULL \<and>
        flush_holds own (blocks (iw_mem w)) p c w')"
  using flush_create_plain [OF assms, of i_ins own]
proof (elim disjE exE conjE)
  fix p c f w' cr
  assume r: "p \<noteq> NULL" "flb_output_flush_create env task i_ins o_ins config w =
      map_option (Pair p) (output_params_set env p c task (oi_p ins) (oi_context ins) config w')"
    "dll (iw_links w') lst (xs @ [p + flb_output_flush_head_off])" "os_flushes (iw_ext w') p = Some f" "of_task f = task"
    "of_o_ins f = o_ins" "of_coro f = c" "of_config f = config" "of_buffer f = ec_data e" "takes_id env w o_ins f"
    "of_processed_event_chunk f = NULL" "flush_holds own (blocks (iw_mem w)) p c w'"
    and "os_tasks (iw_ext w') task = Some t" "iw_coros w' c = Some cr"
  then have "hand_over env p c (tk_event_chunk t) ins config w' (output_params_set env p c task (oi_p ins) (oi_context ins) config w')"
    using output_params_set_hands_over [OF r(4), of task t c cr env ins config] by simp
  then show ?thesis using r by blast
qed blast

theorem flush_create_safe_witness:
  "(\<exists>w'. flb_output_flush_create example_out_env 3500 0 3700 3000 example_out_world = Some (NULL, w')) \<or>
     (\<exists>p c w'. p \<noteq> NULL \<and> flb_output_flush_create example_out_env 3500 0 3700 3000 example_out_world =
          map_option (Pair p) (output_params_set example_out_env p c 3500 0 0 3000 w') \<and>
        dll (iw_links w') 512 [p + flb_output_flush_head_off])"
proof -
  have a: "fresh_allocator (env_alloc (oe_in example_out_env))" "sep_allocator (env_alloc (oe_in example_out_env))"
    using bump_allocator_ok by (simp_all add: example_out_env_def example_in_env_def)
  have i: "flush_id_get_ok example_out_env" by (rule constant_flush_id [of _ 1]) (simp add: example_out_env_def)
  have c: "co_create_ok example_out_env" "\<forall>w. \<not> oe_processor_is_active example_out_env (oi_processor example_output) w"
    by (simp_all add: co_create_ok_def example_out_env_def example_in_env_def)
  have e: "os_chunks (iw_ext example_out_world) (tk_event_chunk (zero_flb_task\<lparr>tk_id := 5, tk_event_chunk := 3800\<rparr>)) =
      Some zero_flb_event_chunk" using example_out_maps(2) by simp
  have t: "flush_home example_out_env example_output example_out_world (oi_flush_list example_output)"
    by (simp add: flush_home_def zero_flb_output_instance_def c_consts)
  have d: "dll (iw_links example_out_world) (oi_flush_list example_output) []" using example_out_links(2) by simp
  have o': "oi_p example_output = 0" "oi_context example_output = 0" "oi_flush_list example_output = 512"
    by (simp_all add: zero_flb_output_instance_def)
  note flush_create_safe [OF a example_out_links(1) i c example_out_maps(1) e example_out_maps(3) t example_out_maps(6) d, of 0 "\<lambda>q ch. {}",
    unfolded o' append_Nil]
  then show ?thesis by blast
qed


text \<open>The example with a chunk that a processor made from the data at 3500, and an output run by a worker thread.\<close>

definition example_threaded_world :: "lib_objects out_world" where
  "example_threaded_world = os_update (\<lambda>s. s\<lparr>
     os_outputs := (os_outputs s)(3700 \<mapsto> zero_flb_output_instance\<lparr>oi_id := 3, oi_is_threaded := FLB_TRUE\<rparr>),
     os_chunks := (os_chunks s)(3801 \<mapsto> zero_flb_event_chunk\<lparr>ec_data := 512\<rparr>),
     os_flushes := (os_flushes s)(3900 \<mapsto> example_flush\<lparr>of_processed_event_chunk := 3801\<rparr>),
     os_threads := [0 \<mapsto> zero_flb_out_thread_instance\<lparr>ti_ch_thread_events := (20, 21)\<rparr>]\<rparr>) example_out_world"


end
