(* ===== verification/Flb_Flush.thy ===== *)
theory Flb_Flush
  imports Flb_Output
begin

text \<open>
  The flushes of one task together, as the engine runs them.  Each flush coroutine of \<open>Flb_Output\<close> is
  suspended after its creation; the engine resumes it once, and its callback returns through
  \<^verbatim>\<open>flb_output_return\<close>.  Between any two of these steps the engine may drop a route.  The steps are the
  handlers of \<^verbatim>\<open>flb_output.h\<close> and \<^verbatim>\<open>flb_task.h\<close>, their order is free.  At the end, what a failing creation
  of a flush does to the chunk of its task.
\<close>

section \<open>Steps\<close>

datatype flush_phase = Suspended | Running | Returned

type_synonym 'y flush_system = "'y out_world \<times> (ptr \<Rightarrow> flush_phase)"

text \<open>\<open>resumes\<close>: the coroutine that runs when the flush \<open>q\<close> is resumed is the one of \<open>q\<close>.\<close>

definition resumes :: "'y out_env \<Rightarrow> 'y out_world \<Rightarrow> ptr \<Rightarrow> bool" where
  "resumes env w q \<longleftrightarrow> (\<exists>c. iw_coros w (oe_coro_get env w) = Some c \<and> co_data c = q)"

definition flush_of :: "'y out_world \<Rightarrow> ptr \<Rightarrow> ptr \<Rightarrow> ptr \<Rightarrow> bool" where
  "flush_of w task o_ins q \<longleftrightarrow> (\<exists>f. os_flushes (iw_ext w) q = Some f \<and> of_task f = task \<and> of_o_ins f = o_ins)"

inductive flush_step :: "'y out_env \<Rightarrow> ptr \<Rightarrow> 'y flush_system \<Rightarrow> 'y flush_system \<Rightarrow> bool"
  for env task where
  drop_route: "flb_task_drop_route (iw_links w) task o_ins (os_routes (iw_ext w)) = Some rh \<Longrightarrow>
     flush_step env task (w, ph) (os_update (\<lambda>s. s\<lparr>os_routes := rh\<rparr>) w, ph)"
| resume: "ph q = Suspended \<Longrightarrow> fp_out_flush ps = q \<Longrightarrow> flush_of w task o_ins q \<Longrightarrow> resumes env w q \<Longrightarrow>
     flb_task_get_route_status (iw_links w) (os_routes (iw_ext w)) task o_ins = Some st \<Longrightarrow>
     output_pre_cb_flush_resumed env ps w = Some w' \<Longrightarrow>
     flush_step env task (w, ph) (w', ph(q := if st = FLB_TASK_ROUTE_DROPPED then Returned else Running))"
| return: "ph q = Running \<Longrightarrow> flush_of w task o_ins q \<Longrightarrow> iw_coros w co = Some c \<Longrightarrow> co_data c = q \<Longrightarrow>
     flb_output_return env ret co w = Some w' \<Longrightarrow>
     flush_step env task (w, ph) (w', ph(q := Returned))"

text \<open>A new task: no route is active yet and no two routes lead to the same output.\<close>

definition new_task :: "'y out_world \<Rightarrow> ptr \<Rightarrow> bool" where
  "new_task w task \<longleftrightarrow> (\<exists>rs. routes (iw_links w) (os_routes (iw_ext w)) task rs \<and> distinct (map rt_out rs) \<and>
     (\<forall>r \<in> set rs. rt_status r \<noteq> FLB_TASK_ROUTE_ACTIVE))"

inductive flush_reachable :: "'y out_env \<Rightarrow> ptr \<Rightarrow> 'y flush_system \<Rightarrow> bool" for env task where
  start: "new_task w task \<Longrightarrow> flush_reachable env task (w, \<lambda>_. Suspended)"
| step: "flush_reachable env task s \<Longrightarrow> flush_step env task s s' \<Longrightarrow> flush_reachable env task s'"

section \<open>What the other code keeps\<close>

text \<open>
  The plugin, the chunk and pipe functions and a switch of coroutines do not change the statuses of
  the routes of the task or which task and output a flush belongs to.
\<close>

definition keeps :: "ptr \<Rightarrow> 'y out_world \<Rightarrow> 'y out_world \<Rightarrow> bool" where
  "keeps task w w' \<longleftrightarrow>
     (\<forall>rs. routes (iw_links w) (os_routes (iw_ext w)) task rs \<longrightarrow> routes (iw_links w') (os_routes (iw_ext w')) task rs) \<and>
     (\<forall>o_ins q. flush_of w task o_ins q \<longrightarrow> flush_of w' task o_ins q)"

definition outside_keeps :: "'y out_env \<Rightarrow> ptr \<Rightarrow> bool" where
  "outside_keeps env task \<longleftrightarrow>
     (\<forall>q w. keeps task w (oe_prepare_destroy env q w)) \<and>
     (\<forall>p w. keeps task w (oe_event_chunk_destroy env p w)) \<and>
     (\<forall>cb e f i x g w. keeps task w (oe_cb_flush env cb e f i x g w)) \<and>
     (\<forall>fd v w. keeps task w (snd (env_pipe_w (oe_in env) fd v w))) \<and>
     (\<forall>co w w'. env_co_switch (oe_in env) co w = Some w' \<longrightarrow> keeps task w w')"

lemma outside_keepsD:
  assumes "outside_keeps env task"
  shows "keeps task w (oe_prepare_destroy env q w)" "keeps task w (oe_event_chunk_destroy env p w)"
    "keeps task w (oe_cb_flush env cb e f i x g w)" "keeps task w (snd (env_pipe_w (oe_in env) fd v w))"
    "env_co_switch (oe_in env) co w = Some w' \<Longrightarrow> keeps task w w'"
  using assms by (simp_all add: outside_keeps_def)

lemma keeps_trans: "keeps task w w' \<Longrightarrow> keeps task w' w'' \<Longrightarrow> keeps task w w''"
  by (simp add: keeps_def)

lemma keeps_same:
  "iw_links w' = iw_links w \<Longrightarrow> os_routes (iw_ext w') = os_routes (iw_ext w) \<Longrightarrow>
   os_flushes (iw_ext w') = os_flushes (iw_ext w) \<Longrightarrow> keeps task w w'"
  by (simp add: keeps_def flush_of_def)

lemma pipe_w_keeps:
  assumes "outside_keeps env task" "pipe_w env fd v w = (n, w')"
  shows "keeps task w w'"
proof -
  have "keeps task w (snd (env_pipe_w (oe_in env) fd v w))" by (rule outside_keepsD(4) [OF assms(1)])
  then show ?thesis using assms(2)
    by (auto simp: keeps_def flush_of_def pipe_w_def os_update_def split_def Let_def split: if_splits)
qed

lemma release_processed_keeps:
  assumes "outside_keeps env task" "release_processed env q w = Some w'"
  shows "keeps task w w'"
proof -
  obtain f where f: "os_flushes (iw_ext w) q = Some f" using assms(2)
    by (auto simp: release_processed_def bind_eq_Some_conv)
  show ?thesis
  proof (cases "of_processed_event_chunk f = NULL")
    case True
    then show ?thesis using f assms(2) by (simp add: release_processed_def keeps_same)
  next
    case False
    then obtain m where w': "w' = os_update (\<lambda>s. s\<lparr>os_flushes := (os_flushes s)(q \<mapsto> f\<lparr>of_processed_event_chunk := NULL\<rparr>)\<rparr>)
        (oe_event_chunk_destroy env (of_processed_event_chunk f) (w\<lparr>iw_mem := m\<rparr>))"
      using f assms(2) by (auto simp: release_processed_def bind_eq_Some_conv Let_def)
    have "keeps task w (oe_event_chunk_destroy env (of_processed_event_chunk f) (w\<lparr>iw_mem := m\<rparr>))"
      using keeps_trans [OF keeps_same outside_keepsD(2) [OF assms(1)], of "w\<lparr>iw_mem := m\<rparr>" w] by simp
    then show ?thesis using f by (auto simp: keeps_def w' flush_of_def os_update_def)
  qed
qed

section \<open>The steps on the routes\<close>

definition live_route :: "'y out_world \<Rightarrow> (ptr \<Rightarrow> flush_phase) \<Rightarrow> ptr \<Rightarrow> flb_task_route \<Rightarrow> bool" where
  "live_route w ph task r \<longleftrightarrow> (\<exists>q. ph q = Running \<and> flush_of w task (rt_out r) q)"

definition flush_inv :: "ptr \<Rightarrow> 'y flush_system \<Rightarrow> bool" where
  "flush_inv task s \<longleftrightarrow> (\<exists>rs. routes (iw_links (fst s)) (os_routes (iw_ext (fst s))) task rs \<and> distinct (map rt_out rs) \<and>
     (\<forall>r \<in> set rs. rt_status r = FLB_TASK_ROUTE_ACTIVE \<longrightarrow> live_route (fst s) (snd s) task r))"

lemma update_route_outs [simp]: "map rt_out (update_route o_ins st rs) = map rt_out rs"
  by (induction rs) auto

lemma update_route_set:
  "distinct (map rt_out rs) \<Longrightarrow> r \<in> set (update_route o_ins st rs) \<Longrightarrow>
     if rt_out r = o_ins then rt_status r = st else r \<in> set rs"
proof (induction rs)
  case (Cons a rs)
  have d: "distinct (map rt_out rs)" "r \<in> set rs \<Longrightarrow> rt_out a \<noteq> rt_out r"
    using Cons.prems(1) by auto
  show ?case
  proof (cases "rt_out a = o_ins")
    case True
    then have "r = a\<lparr>rt_status := st\<rparr> \<or> r \<in> set rs" using Cons.prems(2) by simp
    then show ?thesis
    proof
      assume "r = a\<lparr>rt_status := st\<rparr>"
      then show ?thesis using True by simp
    next
      assume "r \<in> set rs"
      then show ?thesis using True d(2) by auto
    qed
  next
    case False
    then have "r = a \<or> r \<in> set (update_route o_ins st rs)" using Cons.prems(2) by simp
    then show ?thesis using Cons.IH [OF d(1)] False by (auto split: if_splits)
  qed
qed simp

lemma flb_output_return_keeps:
  assumes ok: "outside_keeps env task" and r: "flb_output_return env ret co w = Some w'"
    and co: "iw_coros w co = Some c" "flush_of w task o_ins (co_data c)"
    and rs: "routes (iw_links w) (os_routes (iw_ext w)) task rs"
  shows "routes (iw_links w') (os_routes (iw_ext w')) task (update_route o_ins FLB_TASK_ROUTE_INACTIVE rs) \<and>
     (\<forall>o' q. flush_of w task o' q \<longrightarrow> flush_of w' task o' q)"
proof -
  obtain f where f: "os_flushes (iw_ext w) (co_data c) = Some f" "of_task f = task" "of_o_ins f = o_ins"
    using co(2) by (auto simp: flush_of_def)
  obtain rh where rh: "flb_task_deactivate_route (iw_links w) task o_ins (os_routes (iw_ext w)) = Some rh"
      "routes (iw_links w) rh task (update_route o_ins FLB_TASK_ROUTE_INACTIVE rs)"
    using set_route_status_refines [OF rs] unfolding flb_task_deactivate_route_def by blast
  define wr where "wr = os_update (\<lambda>s. s\<lparr>os_routes := rh\<rparr>) w"
  obtain w1 fd v where s: "release_processed env (co_data c) wr = Some w1"
      "w' = oe_prepare_destroy env (co_data c) (snd (pipe_w env fd v w1))"
    using r co(1) f rh(1)
    by (auto simp: flb_output_return_def unlock_routes_lock wr_def [symmetric] bind_eq_Some_conv Let_def split_def)
  have "keeps task wr w'"
    using keeps_trans [OF keeps_trans [OF release_processed_keeps [OF ok s(1)] pipe_w_keeps [OF ok surjective_pairing]]
        outside_keepsD(1) [OF ok]] s(2) by blast
  moreover have "routes (iw_links wr) (os_routes (iw_ext wr)) task (update_route o_ins FLB_TASK_ROUTE_INACTIVE rs)"
    "\<forall>o' q. flush_of w task o' q \<longrightarrow> flush_of wr task o' q"
    using rh(2) by (simp_all add: wr_def os_update_def flush_of_def)
  ultimately show ?thesis unfolding keeps_def by blast
qed

lemma flush_resumed_keeps:
  assumes ok: "outside_keeps env task" and r: "output_pre_cb_flush_resumed env ps w = Some w'"
    and q: "flush_of w task o_ins (fp_out_flush ps)" "resumes env w (fp_out_flush ps)"
    and rs: "routes (iw_links w) (os_routes (iw_ext w)) task rs"
  shows "routes (iw_links w') (os_routes (iw_ext w')) task
      (update_route o_ins (if route_status o_ins rs = FLB_TASK_ROUTE_DROPPED then FLB_TASK_ROUTE_INACTIVE
                           else FLB_TASK_ROUTE_ACTIVE) rs) \<and>
     (\<forall>o' q. flush_of w task o' q \<longrightarrow> flush_of w' task o' q)"
proof -
  obtain f where f: "os_flushes (iw_ext w) (fp_out_flush ps) = Some f" "of_task f = task" "of_o_ins f = o_ins"
    using q(1) by (auto simp: flush_of_def)
  show ?thesis
  proof (cases "route_status o_ins rs = FLB_TASK_ROUTE_DROPPED")
    case True
    then have "flb_output_return_do env FLB_ERROR w = Some w'"
      using resumed_dropped [of w ps f rs env] f rs r by simp
    then obtain w1 co where w1: "flb_output_return env FLB_ERROR (oe_coro_get env w) w = Some w1"
        "env_co_switch (oe_in env) co w1 = Some w'"
      by (auto simp: flb_output_return_do_def flb_coro_yield_def bind_eq_Some_conv Let_def)
    obtain c where c: "iw_coros w (oe_coro_get env w) = Some c" "co_data c = fp_out_flush ps"
      using q(2) by (auto simp: resumes_def)
    have "keeps task w1 w'" by (rule outside_keepsD(5) [OF ok w1(2)])
    moreover have "flush_of w task o_ins (co_data c)" using c q(1) by simp
    ultimately show ?thesis
      using flb_output_return_keeps [OF ok w1(1) c(1) _ rs] True unfolding keeps_def by auto
  next
    case False
    obtain p where "os_plugins (iw_ext w) (fp_out_plugin ps) = Some p"
      using r f rs False get_route_status_refines [OF rs, of o_ins]
      by (auto simp: output_pre_cb_flush_resumed_def bind_eq_Some_conv Let_def task_lock_def task_unlock_def os_update_def)
    from resumed_runs [OF f(1) this, of rs env] rs False f obtain rh where
      rh: "routes (iw_links w) rh task (update_route o_ins FLB_TASK_ROUTE_ACTIVE rs)"
       "w' = oe_cb_flush env (op_cb_flush p) (fp_event_chunk ps) (fp_out_flush ps) (fp_i_ins ps)
               (fp_out_context ps) (fp_config ps) (os_update (\<lambda>o'. o'\<lparr>os_routes := rh\<rparr>) w)"
      using r by auto
    let ?w = "os_update (\<lambda>o'. o'\<lparr>os_routes := rh\<rparr>) w"
    have "keeps task ?w w'" unfolding rh(2) by (rule outside_keepsD(3) [OF ok])
    then show ?thesis using rh(1) False unfolding keeps_def by (simp add: os_update_def flush_of_def)
  qed
qed


section \<open>The invariant\<close>

lemma flush_inv_update:
  assumes rs: "distinct (map rt_out rs)"
    "\<forall>r \<in> set rs. rt_status r = FLB_TASK_ROUTE_ACTIVE \<longrightarrow> live_route w ph task r"
    and new: "routes (iw_links w') (os_routes (iw_ext w')) task (update_route o_ins st rs)"
    "\<forall>o' q. flush_of w task o' q \<longrightarrow> flush_of w' task o' q"
    and ph: "\<forall>q. ph q = Running \<and> ph' q \<noteq> Running \<longrightarrow> flush_of w task o_ins q"
    and st: "st = FLB_TASK_ROUTE_ACTIVE \<longrightarrow> (\<exists>q. ph' q = Running \<and> flush_of w task o_ins q)"
  shows "flush_inv task (w', ph')"
  unfolding flush_inv_def
proof (intro exI conjI ballI impI)
  show "routes (iw_links (fst (w', ph'))) (os_routes (iw_ext (fst (w', ph')))) task (update_route o_ins st rs)"
    using new(1) by simp
  show "distinct (map rt_out (update_route o_ins st rs))" using rs(1) by simp
next
  fix r assume r: "r \<in> set (update_route o_ins st rs)" "rt_status r = FLB_TASK_ROUTE_ACTIVE"
  show "live_route (fst (w', ph')) (snd (w', ph')) task r"
  proof (cases "rt_out r = o_ins")
    case True
    then have "st = FLB_TASK_ROUTE_ACTIVE" using update_route_set [OF rs(1) r(1)] r(2) by simp
    then show ?thesis using st new(2) True by (auto simp: live_route_def)
  next
    case False
    then have "r \<in> set rs" using update_route_set [OF rs(1) r(1)] by simp
    then obtain q where q: "ph q = Running" "flush_of w task (rt_out r) q"
      using rs(2) r(2) by (auto simp: live_route_def)
    have "ph' q = Running" using ph q False by (auto simp: flush_of_def)
    then show ?thesis using q(2) new(2) by (auto simp: live_route_def)
  qed
qed

lemma flush_step_inv:
  assumes "flush_step env task s s'" "flush_inv task s" "outside_keeps env task"
  shows "flush_inv task s'"
  using assms(1,2)
proof (induction rule: flush_step.induct)
  case (drop_route w o_ins rh ph)
  obtain rs where rs: "routes (iw_links w) (os_routes (iw_ext w)) task rs" "distinct (map rt_out rs)"
    "\<forall>r \<in> set rs. rt_status r = FLB_TASK_ROUTE_ACTIVE \<longrightarrow> live_route w ph task r"
    using drop_route.prems by (auto simp: flush_inv_def)
  have "routes (iw_links w) rh task (update_route o_ins FLB_TASK_ROUTE_DROPPED rs)"
    using set_route_status_refines [OF rs(1), of o_ins FLB_TASK_ROUTE_DROPPED] drop_route.hyps
    by (auto simp: flb_task_drop_route_def)
  then show ?case
    by (intro flush_inv_update [OF rs(2,3)]) (auto simp: os_update_def flush_of_def c_consts)
next
  case (resume ph q ps w o_ins st w')
  obtain rs where rs: "routes (iw_links w) (os_routes (iw_ext w)) task rs" "distinct (map rt_out rs)"
    "\<forall>r \<in> set rs. rt_status r = FLB_TASK_ROUTE_ACTIVE \<longrightarrow> live_route w ph task r"
    using resume.prems by (auto simp: flush_inv_def)
  have q: "flush_of w task o_ins (fp_out_flush ps)" "resumes env w (fp_out_flush ps)" using resume.hyps by simp_all
  have "st = route_status o_ins rs" using get_route_status_refines [OF rs(1), of o_ins] resume.hyps(5) by simp
  with flush_resumed_keeps [OF assms(3) resume.hyps(6) q rs(1)] resume.hyps(1-3) show ?case
    by (intro flush_inv_update [OF rs(2,3)]) (auto simp: c_consts)
next
  case (return ph q w o_ins co c ret w')
  obtain rs where rs: "routes (iw_links w) (os_routes (iw_ext w)) task rs" "distinct (map rt_out rs)"
    "\<forall>r \<in> set rs. rt_status r = FLB_TASK_ROUTE_ACTIVE \<longrightarrow> live_route w ph task r"
    using return.prems by (auto simp: flush_inv_def)
  have "flush_of w task o_ins (co_data c)" using return.hyps by simp
  from flb_output_return_keeps [OF assms(3) return.hyps(5,3) this rs(1)] return.hyps(1,2) show ?case
    by (intro flush_inv_update [OF rs(2,3)]) (auto simp: c_consts split: if_splits)
qed

lemma flush_reachable_inv:
  "flush_reachable env task s \<Longrightarrow> outside_keeps env task \<Longrightarrow> flush_inv task s"
proof (induction rule: flush_reachable.induct)
  case (start w)
  then show ?case by (auto simp: flush_inv_def new_task_def)
next
  case (step s s')
  then show ?case using flush_step_inv by blast
qed

lemma distinct_runners:
  assumes "distinct (map rt_out rs)" "\<forall>r \<in> set rs. live_route w ph task r"
  shows "\<exists>qs. length qs = length rs \<and> distinct qs \<and>
     (\<forall>q \<in> set qs. ph q = Running \<and> (\<exists>r \<in> set rs. flush_of w task (rt_out r) q))"
  using assms
proof (induction rs)
  case (Cons r rs)
  then obtain qs where qs: "length qs = length rs" "distinct qs"
    "\<forall>q \<in> set qs. ph q = Running \<and> (\<exists>r \<in> set rs. flush_of w task (rt_out r) q)" by auto
  obtain q where q: "ph q = Running" "flush_of w task (rt_out r) q"
    using Cons.prems(2) by (auto simp: live_route_def)
  have "q \<notin> set qs"
  proof
    assume "q \<in> set qs"
    then obtain r' where "r' \<in> set rs" "rt_out r' = rt_out r" using qs(3) q(2) by (fastforce simp: flush_of_def)
    then show False using Cons.prems(1) image_eqI [of "rt_out r" rt_out r' "set rs"] by auto
  qed
  then show ?case using qs q by (intro exI [of _ "q # qs"]) auto
qed simp


section \<open>A processor that changes nothing\<close>

text \<open>
  The chunk functions: creating a chunk fails or allocates the blocks \<open>own q c\<close> and keeps all others, it does
  not copy the data; destroying the chunk releases these blocks and nothing else.
\<close>

definition chunk_functions_ok :: "(ptr \<Rightarrow> flb_event_chunk \<Rightarrow> ptr set) \<Rightarrow> 'y out_env \<Rightarrow> bool" where
  "chunk_functions_ok own env \<longleftrightarrow>
     (\<forall>ty n tag buf sz w. oe_event_chunk_create env ty n tag buf sz w = (NULL, w) \<or>
        (\<exists>q m c. oe_event_chunk_create env ty n tag buf sz w =
          (q, os_update (\<lambda>s. s\<lparr>os_chunks := (os_chunks s)(q \<mapsto> c)\<rparr>) (w\<lparr>iw_mem := m\<rparr>)) \<and>
        q \<noteq> NULL \<and> os_chunks (iw_ext w) q = None \<and> ec_data c = buf \<and>
        own q c \<inter> dom (blocks (iw_mem w)) = {} \<and> (\<forall>a \<in> dom (blocks (iw_mem w)). blocks m a = blocks (iw_mem w) a))) \<and>
     (\<forall>q w c. os_chunks (iw_ext w) q = Some c \<longrightarrow> (\<exists>m. oe_event_chunk_destroy env q w =
          os_update (\<lambda>s. s\<lparr>os_chunks := (os_chunks s)(q := None)\<rparr>) (w\<lparr>iw_mem := m\<rparr>) \<and>
        blocks m = blocks (iw_mem w) |` (- own q c)))"

lemma chunk_createD:
  assumes "chunk_functions_ok own env"
  shows "oe_event_chunk_create env ty n tag buf sz w = (NULL, w) \<or>
     (\<exists>q m c. oe_event_chunk_create env ty n tag buf sz w =
          (q, os_update (\<lambda>s. s\<lparr>os_chunks := (os_chunks s)(q \<mapsto> c)\<rparr>) (w\<lparr>iw_mem := m\<rparr>)) \<and>
        q \<noteq> NULL \<and> os_chunks (iw_ext w) q = None \<and> ec_data c = buf \<and>
        own q c \<inter> dom (blocks (iw_mem w)) = {} \<and> (\<forall>a \<in> dom (blocks (iw_mem w)). blocks m a = blocks (iw_mem w) a))"
  using assms unfolding chunk_functions_ok_def by blast

text \<open>A processor without effect on the chunk \<open>e\<close> hands back the buffer it was given.\<close>

definition passes_logs :: "'y out_env \<Rightarrow> ptr \<Rightarrow> ptr \<Rightarrow> flb_event_chunk \<Rightarrow> bool" where
  "passes_logs env proc evc e \<longleftrightarrow> (\<forall>w. oe_processor_is_active env proc w \<and>
     oe_run_logs env proc evc w = ((0, ec_data e, ec_size e), w) \<and> oe_mp_count env (ec_data e) (ec_size e) w \<noteq> 0)"

lemma chunk_destroyD:
  assumes "chunk_functions_ok own env" "os_chunks (iw_ext w) q = Some c"
  shows "\<exists>m. oe_event_chunk_destroy env q w =
          os_update (\<lambda>s. s\<lparr>os_chunks := (os_chunks s)(q := None)\<rparr>) (w\<lparr>iw_mem := m\<rparr>) \<and>
        blocks m = blocks (iw_mem w) |` (- own q c)"
  using assms unfolding chunk_functions_ok_def by blast

lemma flush_start_fails:
  assumes c: "iw_coros w coro = Some cr" "iw_configs w config = Some cf" "coro \<noteq> NULL" "blocks (iw_mem w) coro \<noteq> None"
    and fail: "env_co_create (oe_in env) (cf_coro_stack_size cf) w = (NULL, w)"
    and f: "os_flushes (iw_ext w) p = Some fl" "of_processed_event_chunk fl = q" "q \<noteq> NULL"
      "os_chunks (iw_ext w) q = Some ch" "chunk_functions_ok own env"
    and d: "ec_data ch \<noteq> NULL" "ec_data ch \<noteq> coro" "blocks (iw_mem w) (ec_data ch) \<noteq> None"
    and p: "p \<noteq> NULL" "p \<noteq> coro" "p \<noteq> ec_data ch" "p \<notin> own q ch" "blocks (iw_mem w) p \<noteq> None"
  shows "\<exists>w'. flush_start env o_ins ins config coro p w = Some (False, w') \<and>
     os_chunks (iw_ext w') = (os_chunks (iw_ext w))(q := None) \<and> os_lib (iw_ext w') = os_lib (iw_ext w) \<and>
     iw_links w' = (iw_links w)(p + flb_output_flush_head_off := None) \<and>
     blocks (iw_mem w') = ((blocks (iw_mem w))(coro := None, ec_data ch := None) |` (- own q ch))(p := None)"
proof -
  define m where "m = (iw_mem w)\<lparr>blocks := (blocks (iw_mem w))(coro := None)\<rparr>"
  define w1 where "w1 = w\<lparr>iw_mem := m, iw_coros := (iw_coros w)(coro := None)\<rparr>"
  have 1: "flb_coro_destroy (oe_in env) coro (w\<lparr>iw_coros := (iw_coros w)(coro \<mapsto> cr\<lparr>co_caller := a, co_callee := NULL\<rparr>)\<rparr>) = Some w1"
    for a using c(3,4) by (simp add: flb_coro_destroy_def flb_free_live m_def w1_def)
  have x1: "iw_ext w1 = iw_ext w" "iw_mem w1 = m" by (simp_all add: w1_def)
  define w2 where "w2 = w1\<lparr>iw_mem := m\<lparr>blocks := (blocks m)(ec_data ch := None)\<rparr>\<rparr>"
  have 2: "free_buf (ec_data ch) w1 = Some w2"
    using d x1 by (simp add: free_buf_def w2_def flb_free_live m_def)
  have x2: "iw_ext w2 = iw_ext w" "blocks (iw_mem w2) = (blocks (iw_mem w))(coro := None, ec_data ch := None)"
    "iw_links w2 = iw_links w"
    using x1(1) by (simp_all add: w2_def m_def w1_def)
  obtain m3 where m3: "oe_event_chunk_destroy env q w2 =
        os_update (\<lambda>s. s\<lparr>os_chunks := (os_chunks s)(q := None)\<rparr>) (w2\<lparr>iw_mem := m3\<rparr>)"
      "blocks m3 = blocks (iw_mem w2) |` (- own q ch)"
    using chunk_destroyD [OF f(5), of w2 q ch] f(4) x2(1) by auto
  define w3 where "w3 = os_update (\<lambda>s. s\<lparr>os_chunks := (os_chunks s)(q := None)\<rparr>) (w2\<lparr>iw_mem := m3\<rparr>)"
  have "blocks m3 p \<noteq> None" using p m3(2) x2(2) by simp
  then obtain w4 where 4: "free_flush p w3 = Some w4" "os_chunks (iw_ext w4) = (os_chunks (iw_ext w))(q := None)"
      "iw_links w4 = (iw_links w)(p + flb_output_flush_head_off := None)" "blocks (iw_mem w4) = (blocks m3)(p := None)"
      "os_lib (iw_ext w4) = os_lib (iw_ext w)"
    using p(1) x2(1,3) by (simp add: free_flush_def w3_def os_update_def flb_free_live)
  have "flush_start env o_ins ins config coro p w = Some (False, w4)"
    using c(1,2) fail 1 x1(1) f(1-4) 2 m3(1) 4(1)
    by (simp add: flush_start_def Let_def w3_def [symmetric])
  with 4(2-5) m3(2) x2(2) show ?thesis by simp
qed

lemma flush_logs_no_chunk:
  assumes "passes_logs env (oi_processor ins) evc e" "os_chunks (iw_ext w) evc = Some e" "ec_size e \<noteq> 0"
    and "oe_event_chunk_create env (ec_type e) (oe_mp_count env (ec_data e) (ec_size e) w) (ec_tag e) (ec_data e) (ec_size e) w = (NULL, w)"
    and "iw_coros w c = Some \<lparr>co_caller = NULL, co_callee = NULL, co_data = p\<rparr>"
    and "blocks (iw_mem w) c \<noteq> None" "blocks (iw_mem w) p \<noteq> None" "blocks (iw_mem w) (ec_data e) \<noteq> None"
    and "c \<noteq> NULL" "p \<noteq> NULL" "ec_data e \<noteq> NULL" "c \<noteq> p" "ec_data e \<noteq> c" "ec_data e \<noteq> p"
  shows "\<exists>w'. flush_logs env ins evc c p w = Some (False, w') \<and> os_chunks (iw_ext w') = os_chunks (iw_ext w) \<and>
     blocks (iw_mem w') (ec_data e) = None"
  using assms
  by (simp add: passes_logs_def flush_logs_def flush_abort_def flb_coro_destroy_def flb_free_live free_flush_def
      free_buf_def os_update_def)

lemma flush_logs_chunk:
  assumes "passes_logs env (oi_processor ins) evc e" "os_chunks (iw_ext w) evc = Some e" "ec_size e \<noteq> 0"
    and "oe_event_chunk_create env (ec_type e) (oe_mp_count env (ec_data e) (ec_size e) w) (ec_tag e) (ec_data e) (ec_size e) w =
      (q, os_update (\<lambda>s. s\<lparr>os_chunks := (os_chunks s)(q \<mapsto> ch)\<rparr>) (w\<lparr>iw_mem := m\<rparr>))" "q \<noteq> NULL"
    and "os_flushes (iw_ext w) p = Some fl"
  shows "flush_logs env ins evc c p w = Some (True, os_update (\<lambda>s. s\<lparr>os_chunks := (os_chunks s)(q \<mapsto> ch),
        os_flushes := (os_flushes s)(p \<mapsto> fl\<lparr>of_processed_event_chunk := q\<rparr>)\<rparr>) (w\<lparr>iw_mem := m\<rparr>))"
  using assms by (simp add: passes_logs_def flush_logs_def set_processed_def os_update_def)

definition dangling :: "'y out_world \<Rightarrow> ptr \<Rightarrow> flb_event_chunk \<Rightarrow> bool" where
  "dangling w evc e \<longleftrightarrow> os_chunks (iw_ext w) evc = Some e \<and> ec_data e \<noteq> NULL \<and> blocks (iw_mem w) (ec_data e) = None"

lemma logs_stack_fails:
  assumes pl: "passes_logs env (oi_processor ins) evc e" "os_chunks (iw_ext w) evc = Some e" "ec_size e \<noteq> 0"
    and own: "chunk_functions_ok own env" and fail: "\<forall>sz w. env_co_create (oe_in env) sz w = (NULL, w)"
    and c: "iw_coros w c = Some \<lparr>co_caller = NULL, co_callee = NULL, co_data = p\<rparr>"
    and live: "blocks (iw_mem w) c \<noteq> None" "blocks (iw_mem w) p \<noteq> None" "blocks (iw_mem w) (ec_data e) \<noteq> None"
    and ne: "c \<noteq> NULL" "p \<noteq> NULL" "ec_data e \<noteq> NULL" "c \<noteq> p" "ec_data e \<noteq> c" "ec_data e \<noteq> p"
    and f: "os_flushes (iw_ext w) p = Some fl" "iw_configs w config = Some cf"
  shows "\<exists>ok w2. flush_logs env ins evc c p w = Some (ok, w2) \<and>
     (if ok then \<exists>w'. flush_start env o_ins ins config c p w2 = Some (False, w') \<and> dangling w' evc e
      else dangling w2 evc e)"
proof -
  let ?n = "oe_mp_count env (ec_data e) (ec_size e) w"
  from chunk_createD [OF own, of "ec_type e" ?n "ec_tag e" "ec_data e" "ec_size e" w] show ?thesis
  proof (elim disjE exE conjE)
    assume "oe_event_chunk_create env (ec_type e) ?n (ec_tag e) (ec_data e) (ec_size e) w = (NULL, w)"
    from flush_logs_no_chunk [OF pl this c live ne] ne(3) pl(2) show ?thesis by (auto simp: dangling_def)
  next
    fix q m ch
    assume q: "oe_event_chunk_create env (ec_type e) ?n (ec_tag e) (ec_data e) (ec_size e) w =
         (q, os_update (\<lambda>s. s\<lparr>os_chunks := (os_chunks s)(q \<mapsto> ch)\<rparr>) (w\<lparr>iw_mem := m\<rparr>))"
      "q \<noteq> NULL" "os_chunks (iw_ext w) q = None" "ec_data ch = ec_data e"
      "own q ch \<inter> dom (blocks (iw_mem w)) = {}" "\<forall>a \<in> dom (blocks (iw_mem w)). blocks m a = blocks (iw_mem w) a"
    define w2 where "w2 = os_update (\<lambda>s. s\<lparr>os_chunks := (os_chunks s)(q \<mapsto> ch),
        os_flushes := (os_flushes s)(p \<mapsto> fl\<lparr>of_processed_event_chunk := q\<rparr>)\<rparr>) (w\<lparr>iw_mem := m\<rparr>)"
    have w2: "flush_logs env ins evc c p w = Some (True, w2)"
      using flush_logs_chunk [OF pl q(1,2) f(1)] by (simp add: w2_def)
    have lm: "blocks m p \<noteq> None" "blocks m c \<noteq> None" "blocks m (ec_data e) \<noteq> None" "p \<notin> own q ch"
      using live q(5,6) by (auto simp: dom_def)
    have "env_co_create (oe_in env) (cf_coro_stack_size cf) w2 = (NULL, w2)" using fail by simp
    from flush_start_fails [where fl = "fl\<lparr>of_processed_event_chunk := q\<rparr>" and coro = c and p = p and q = q and ch = ch
        and config = config and o_ins = o_ins and ins = ins, OF _ _ _ _ this _ _ _ _ own]
    have "\<exists>w'. flush_start env o_ins ins config c p w2 = Some (False, w') \<and>
       os_chunks (iw_ext w') = (os_chunks (iw_ext w2))(q := None) \<and> blocks (iw_mem w') (ec_data ch) = None"
      using c f(2) q(2,4) lm ne by (fastforce simp: w2_def os_update_def)
    moreover have "evc \<noteq> q" using q(3) pl(2) by auto
    ultimately show ?thesis using w2 q(4) ne(3) pl(2)
      by (intro exI [of _ True] exI [of _ w2]) (auto simp: dangling_def w2_def os_update_def)
  qed
qed

section \<open>Properties\<close>

text \<open>
  C5: active routes.  However the engine interleaves resuming flushes, their returns and the dropping
  of routes, the number of active routes of a task that the engine counts never exceeds the number of
  flush callbacks that are running for it: there are that many different running flushes.  When none
  is running the count is 0.
\<close>

theorem active_routes_have_runners:
  assumes "flush_reachable env task (w, ph)" "outside_keeps env task"
  shows "\<exists>qs. flb_task_get_active_route_count (iw_links w) (os_routes (iw_ext w)) task = Some (int (length qs)) \<and>
     distinct qs \<and> (\<forall>q \<in> set qs. ph q = Running \<and> (\<exists>o_ins. flush_of w task o_ins q)) \<and>
     ((\<forall>q o_ins. flush_of w task o_ins q \<longrightarrow> ph q \<noteq> Running) \<longrightarrow> qs = [])"
proof -
  obtain rs where rs: "routes (iw_links w) (os_routes (iw_ext w)) task rs" "distinct (map rt_out rs)"
    "\<forall>r \<in> set rs. rt_status r = FLB_TASK_ROUTE_ACTIVE \<longrightarrow> live_route w ph task r"
    using flush_reachable_inv [OF assms] by (auto simp: flush_inv_def)
  let ?as = "filter (\<lambda>r. rt_status r = FLB_TASK_ROUTE_ACTIVE) rs"
  have "distinct (map rt_out ?as)" "\<forall>r \<in> set ?as. live_route w ph task r"
    using rs(2,3) by (simp_all add: distinct_map_filter)
  from distinct_runners [OF this] obtain qs where qs: "length qs = active_routes rs" "distinct qs"
    "\<forall>q \<in> set qs. ph q = Running \<and> (\<exists>o_ins. flush_of w task o_ins q)"
    unfolding active_routes_def by blast
  have "flb_task_get_active_route_count (iw_links w) (os_routes (iw_ext w)) task = Some (int (length qs))"
    unfolding qs(1) by (rule active_route_count_refines [OF rs(1)])
  moreover have "(\<forall>q o_ins. flush_of w task o_ins q \<longrightarrow> ph q \<noteq> Running) \<longrightarrow> qs = []"
    using qs(3) by (cases qs) auto
  ultimately show ?thesis using qs(2,3) by blast
qed

text \<open>The example: the flush at 3900 is resumed and returns.\<close>

lemma example_run:
  "\<exists>w. flush_reachable example_out_env 3500 (w, (\<lambda>_. Suspended)(3900 := Running, 3900 := Returned)) \<and>
     dom (os_flushes (iw_ext w)) = {3900}"
proof -
  let ?ps = "\<lparr>fp_event_chunk = 3800, fp_out_flush = 3900, fp_i_ins = 0, fp_out_plugin = 4000,
    fp_out_context = 0, fp_config = 3000, fp_coro = 600\<rparr>"
  let ?t = "zero_flb_task\<lparr>tk_id := 5, tk_event_chunk := 3800\<rparr>"
  have r: "routes (iw_links example_out_world) (os_routes (iw_ext example_out_world)) (of_task example_flush) example_routes"
    using example_out_links(3) by simp
  have p: "os_flushes (iw_ext example_out_world) (fp_out_flush ?ps) = Some example_flush"
    "os_plugins (iw_ext example_out_world) (fp_out_plugin ?ps) = Some zero_flb_output_plugin"
    "route_status (of_o_ins example_flush) example_routes \<noteq> FLB_TASK_ROUTE_DROPPED"
    using example_out_maps by (simp_all add: route_status_def c_consts)
  obtain rh where rh: "routes (iw_links example_out_world) rh 3500 (update_route 3700 FLB_TASK_ROUTE_ACTIVE example_routes)"
    "output_pre_cb_flush_resumed example_out_env ?ps example_out_world =
      Some (os_update (\<lambda>s. s\<lparr>os_routes := rh\<rparr>) example_out_world)"
    using resumed_runs [OF p(1,2) r p(3), of example_out_env] by (auto simp: example_out_env_def)
  let ?w1 = "os_update (\<lambda>s. s\<lparr>os_routes := rh\<rparr>) example_out_world"
  have "flush_reachable example_out_env 3500 (example_out_world, \<lambda>_. Suspended)"
    using r by (intro flush_reachable.start) (auto simp: new_task_def c_consts)
  moreover have "flush_step example_out_env 3500 (example_out_world, \<lambda>_. Suspended) (?w1, (\<lambda>_. Suspended)
      (3900 := if route_status 3700 example_routes = FLB_TASK_ROUTE_DROPPED then Returned else Running))"
    using rh(2) get_route_status_refines [OF example_out_links(3)] example_out_maps(5,7)
    by (intro flush_step.resume [where ps = ?ps]) (auto simp: flush_of_def resumes_def example_out_env_def)
  ultimately have 1: "flush_reachable example_out_env 3500 (?w1, (\<lambda>_. Suspended)(3900 := Running))"
    using p(3) flush_reachable.step by fastforce
  have w1: "iw_coros ?w1 600 = Some \<lparr>co_caller = 1, co_callee = 4096, co_data = 3900\<rparr>"
    "os_flushes (iw_ext ?w1) (co_data \<lparr>co_caller = 1, co_callee = 4096, co_data = 3900\<rparr>) = Some example_flush"
    "os_outputs (iw_ext ?w1) (of_o_ins example_flush) = Some example_output"
    "os_tasks (iw_ext ?w1) (of_task example_flush) = Some ?t"
    "os_chunks (iw_ext ?w1) (tk_event_chunk ?t) = Some zero_flb_event_chunk"
    "routes (iw_links ?w1) (os_routes (iw_ext ?w1)) (of_task example_flush) (update_route 3700 FLB_TASK_ROUTE_ACTIVE example_routes)"
    "may_return example_out_env ?w1 example_flush zero_flb_event_chunk"
    using example_out_maps rh(1) by (simp_all add: os_update_def may_return_def)
  have e: "return_fd example_out_env ?w1 example_output 11" "pipe_ok example_out_env"
    by (simp_all add: return_fd_def pipe_ok_def example_out_env_def example_in_env_def zero_flb_output_instance_def c_consts)
  obtain w2 where w2: "flb_output_return example_out_env FLB_OK 600 ?w1 = Some w2"
    "os_flushes (iw_ext w2) = (os_flushes (iw_ext ?w1))(3900 \<mapsto> example_flush)"
    using flb_output_return_spec [OF w1 example_destroy_ok e, of FLB_OK]
    by (auto simp: example_out_env_def os_update_def)
  have "flush_step example_out_env 3500 (?w1, (\<lambda>_. Suspended)(3900 := Running))
      (w2, (\<lambda>_. Suspended)(3900 := Running, 3900 := Returned))"
    using w1(1,2) w2(1) by (intro flush_step.return) (auto simp: flush_of_def)
  with 1 have "flush_reachable example_out_env 3500 (w2, (\<lambda>_. Suspended)(3900 := Running, 3900 := Returned))"
    by (rule flush_reachable.step)
  moreover have "dom (os_flushes (iw_ext w2)) = {3900}"
    unfolding w2(2) by (simp add: os_update_def example_out_world_def example_in_world_def example_out_state_def)
  ultimately show ?thesis by blast
qed

theorem active_routes_have_runners_witness:
  "\<exists>w ph. flush_reachable example_out_env 3500 (w, ph) \<and> ph 3900 = Returned \<and>
     flb_task_get_active_route_count (iw_links w) (os_routes (iw_ext w)) 3500 = Some 0"
proof -
  obtain w where w: "flush_reachable example_out_env 3500 (w, (\<lambda>_. Suspended)(3900 := Running, 3900 := Returned))"
    "dom (os_flushes (iw_ext w)) = {3900}" using example_run by blast
  have "outside_keeps example_out_env 3500"
    by (simp add: outside_keeps_def keeps_def example_out_env_def example_in_env_def)
  moreover have "\<forall>q o_ins. flush_of w 3500 o_ins q \<longrightarrow> ((\<lambda>_. Suspended)(3900 := Running, 3900 := Returned)) q \<noteq> Running"
    by simp
  ultimately show ?thesis using active_routes_have_runners [OF w(1)] w(1) by fastforce
qed

text \<open>
  C8: a flush without a stack.  When a processor passes a chunk of logs on unchanged, the buffer it
  hands back is that of the task's chunk.  If the coroutine of the flush then gets no stack (or the
  new chunk cannot be created), \<^verbatim>\<open>flb_output_flush_create\<close> answers null but releases this buffer, which
  \<^verbatim>\<open>flb_output_return\<close> takes care not to do: the chunk of the task, used by its other routes and by
  a retry, is left with a dangling pointer.
\<close>

theorem stack_failure_frees_task_data:
  assumes al: "fresh_allocator (env_alloc (oe_in env))" "sep_allocator (env_alloc (oe_in env))"
    and nb: "nodes_in_blocks (iw_links w) (iw_mem w)" and ids: "flush_id_get_ok env"
    and t: "os_tasks (iw_ext w) task = Some t" "os_chunks (iw_ext w) (tk_event_chunk t) = Some e"
    and e: "ec_type e = FLB_EVENT_TYPE_LOGS" "ec_size e \<noteq> 0" "ec_data e \<noteq> NULL" "blocks (iw_mem w) (ec_data e) \<noteq> None"
    and ins: "os_outputs (iw_ext w) o_ins = Some ins" "iw_configs w config = Some cf"
    and proc: "passes_logs env (oi_processor ins) (tk_event_chunk t) e" "chunk_functions_ok own env"
    and fail: "\<forall>sz w. env_co_create (oe_in env) sz w = (NULL, w)"
    and n: "new_flush env task o_ins config w = Some (Some (p, c), w1)"
  shows "\<exists>w'. flb_output_flush_create env task i_ins o_ins config w = Some (NULL, w') \<and>
     dangling w' (tk_event_chunk t) e"
proof -
  have fr: "fresh_flush w task o_ins config p c w1"
    using new_flush_spec [OF al nb ids t, of o_ins config] n by auto
  obtain bp bc fl k where b: "p \<noteq> NULL" "c \<noteq> NULL" "p \<noteq> c" "blocks (iw_mem w) p = None" "blocks (iw_mem w) c = None"
    "blocks (iw_mem w1) = (blocks (iw_mem w))(p \<mapsto> bp, c \<mapsto> bc)"
    "iw_coros w1 c = Some \<lparr>co_caller = NULL, co_callee = NULL, co_data = p\<rparr>" "iw_configs w1 = iw_configs w"
    "os_flushes (iw_ext w1) p = Some fl" "os_tasks (iw_ext w1) = os_tasks (iw_ext w)"
    "os_chunks (iw_ext w1) = os_chunks (iw_ext w)" "os_outputs (iw_ext w1) o_ins = Some (ins\<lparr>oi_flush_id := k\<rparr>)"
    using fr ins(1) unfolding fresh_flush_def by blast
  let ?ins = "ins\<lparr>oi_flush_id := k\<rparr>"
  have pl: "passes_logs env (oi_processor ?ins) (tk_event_chunk t) e" "os_chunks (iw_ext w1) (tk_event_chunk t) = Some e"
    using proc(1) b(11) t(2) by simp_all
  have ne: "ec_data e \<noteq> p" "ec_data e \<noteq> c" using b(4,5) e(4) by auto
  have live: "blocks (iw_mem w1) c \<noteq> None" "blocks (iw_mem w1) p \<noteq> None" "blocks (iw_mem w1) (ec_data e) \<noteq> None"
    using b(6) e(4) by auto
  have "flush_process env ?ins (tk_event_chunk t) c p w1 = flush_logs env ?ins (tk_event_chunk t) c p w1"
    using proc(1) pl(2) e(1) by (simp add: flush_process_def passes_logs_def)
  then show ?thesis
    using logs_stack_fails [OF pl e(2) proc(2) fail b(7) live b(2,1) e(3) _ ne(2,1) b(9), of config cf o_ins] b(3,8,10,12)
      ins(2) t(1) n by (auto simp: flb_output_flush_create_def split: if_splits)
qed

text \<open>The example with a processor that passes the logs at 9000 on, and no memory for stacks.\<close>

definition example_passing_env :: "lib_objects out_env" where
  "example_passing_env = example_out_env\<lparr>oe_in := example_in_env\<lparr>env_co_create := (\<lambda>sz w. (NULL, w))\<rparr>,
     oe_processor_is_active := (\<lambda>p w. True), oe_run_logs := (\<lambda>p c w. ((0, 9000, 64), w)), oe_mp_count := (\<lambda>p s w. 1),
     oe_event_chunk_create := (\<lambda>ty n tag buf sz w. if os_chunks (iw_ext w) 5000 = None
       then (5000, os_update (\<lambda>s. s\<lparr>os_chunks := (os_chunks s)(5000 \<mapsto>
         \<lparr>ec_type = ty, ec_tag = tag, ec_data = buf, ec_size = sz, ec_total_events = n\<rparr>)\<rparr>) w) else (NULL, w)),
     oe_event_chunk_destroy := (\<lambda>q w. os_update (\<lambda>s. s\<lparr>os_chunks := (os_chunks s)(q := None)\<rparr>) w)\<rparr>"

abbreviation example_logs :: flb_event_chunk where
  "example_logs \<equiv> \<lparr>ec_type = 0, ec_tag = 0, ec_data = 9000, ec_size = 64, ec_total_events = 1\<rparr>"

definition example_logs_world :: "lib_objects out_world" where
  "example_logs_world = os_update (\<lambda>s. s\<lparr>os_chunks := [3800 \<mapsto> example_logs]\<rparr>)
     (example_out_world\<lparr>iw_mem := \<lparr>blocks = [512 \<mapsto> replicate 512 (Some 0), 3500 \<mapsto> replicate 512 (Some 0),
        9000 \<mapsto> replicate 64 (Some 0)], calls = 0\<rparr>\<rparr>)"

lemma example_chunk_functions: "chunk_functions_ok (\<lambda>q c. {}) example_passing_env"
  unfolding chunk_functions_ok_def
proof (intro conjI allI impI)
  fix ty n tag buf sz and w :: "lib_objects out_world"
  show "oe_event_chunk_create example_passing_env ty n tag buf sz w = (NULL, w) \<or>
     (\<exists>q m c. oe_event_chunk_create example_passing_env ty n tag buf sz w =
          (q, os_update (\<lambda>s. s\<lparr>os_chunks := (os_chunks s)(q \<mapsto> c)\<rparr>) (w\<lparr>iw_mem := m\<rparr>)) \<and>
        q \<noteq> NULL \<and> os_chunks (iw_ext w) q = None \<and> ec_data c = buf \<and>
        {} \<inter> dom (blocks (iw_mem w)) = {} \<and> (\<forall>a \<in> dom (blocks (iw_mem w)). blocks m a = blocks (iw_mem w) a))"
    by (cases "os_chunks (iw_ext w) 5000")
      (auto simp: example_passing_env_def intro!: exI [of _ "5000 :: nat"] exI [of _ "iw_mem w"])
next
  fix q and w :: "lib_objects out_world" and c
  show "\<exists>m. oe_event_chunk_destroy example_passing_env q w =
      os_update (\<lambda>s. s\<lparr>os_chunks := (os_chunks s)(q := None)\<rparr>) (w\<lparr>iw_mem := m\<rparr>) \<and>
     blocks m = blocks (iw_mem w) |` (- {})"
    by (intro exI [of _ "iw_mem w"]) (simp add: example_passing_env_def restrict_map_def)
qed

lemma example_logs_new_flush:
  "\<exists>p c w1. new_flush example_passing_env 3500 3700 3000 example_logs_world = Some (Some (p, c), w1)"
  by (simp add: new_flush_def flb_coro_create_def flb_calloc_def calloc_def Let_def bump_allocator_def
      example_passing_env_def example_in_env_def example_out_env_def example_logs_world_def example_out_world_def
      example_in_world_def example_out_state_def os_update_def sizeof_flb_output_flush_def sizeof_flb_coro_def)


lemma example_logs_links: "nodes_in_blocks (iw_links example_logs_world) (iw_mem example_logs_world)"
  unfolding nodes_in_blocks_def
proof
  fix x assume "x \<in> dom (iw_links example_logs_world)"
  then have "x \<in> dom (iw_links example_out_world)" by (simp add: example_logs_world_def os_update_def)
  then obtain q b where "blocks (iw_mem example_out_world) q = Some b" "q \<le> x" "x < q + length b"
    using example_out_links(1) unfolding nodes_in_blocks_def by blast
  then show "\<exists>q b. blocks (iw_mem example_logs_world) q = Some b \<and> q \<le> x \<and> x < q + length b"
    by (intro exI [of _ q] exI [of _ b]) (auto simp: example_logs_world_def example_out_world_def os_update_def split: if_splits)
qed

theorem stack_failure_frees_task_data_witness:
  "\<exists>w'. flb_output_flush_create example_passing_env 3500 0 3700 3000 example_logs_world = Some (NULL, w') \<and>
     os_chunks (iw_ext w') 3800 = Some example_logs \<and> blocks (iw_mem w') 9000 = None"
proof -
  let ?t = "zero_flb_task\<lparr>tk_id := 5, tk_event_chunk := 3800\<rparr>"
  obtain p c w1 where n: "new_flush example_passing_env 3500 3700 3000 example_logs_world = Some (Some (p, c), w1)"
    using example_logs_new_flush by blast
  have a: "fresh_allocator (env_alloc (oe_in example_passing_env))" "sep_allocator (env_alloc (oe_in example_passing_env))"
    using bump_allocator_ok by (simp_all add: example_passing_env_def example_in_env_def)
  have i: "flush_id_get_ok example_passing_env"
    by (rule constant_flush_id [of _ 1]) (simp add: example_passing_env_def example_out_env_def)
  have w: "os_tasks (iw_ext example_logs_world) 3500 = Some ?t"
    "os_chunks (iw_ext example_logs_world) (tk_event_chunk ?t) = Some example_logs"
    "ec_type example_logs = FLB_EVENT_TYPE_LOGS" "ec_size example_logs \<noteq> 0" "ec_data example_logs \<noteq> NULL"
    "blocks (iw_mem example_logs_world) (ec_data example_logs) \<noteq> None"
    "os_outputs (iw_ext example_logs_world) 3700 = Some example_output" "iw_configs example_logs_world 3000 = Some zero_flb_config"
    by (simp_all add: example_logs_world_def example_out_world_def example_in_world_def example_out_state_def os_update_def c_consts)
  have p: "passes_logs example_passing_env (oi_processor example_output) (tk_event_chunk ?t) example_logs"
    "\<forall>sz w. env_co_create (oe_in example_passing_env) sz w = (NULL, w)"
    by (simp_all add: passes_logs_def example_passing_env_def)
  from stack_failure_frees_task_data [OF a example_logs_links i w p(1) example_chunk_functions p(2) n]
  show ?thesis by (auto simp: dangling_def)
qed

end
