(* ===== verification/Flb_Utf8.thy ===== *)
theory Flb_Utf8
  imports Prelude
begin

text \<open>
  The UTF-8 decoder of \<^verbatim>\<open>fluent-bit/flb_utf8.h\<close>: a table-driven automaton that is fed one byte at a
  time, the printer that drives it over a C string, and the length table.  The theorems compare
  them with the definition of UTF-8: the shortest encoding of a Unicode scalar value.
\<close>

section \<open>The code\<close>

definition flb_utf8_check :: "u32 \<Rightarrow> bool" where
  "flb_utf8_check c \<longleftrightarrow> c AND 0xC0 \<noteq> 0x80"

definition trailingBytesForUTF8 :: "u8 list" where
  "trailingBytesForUTF8 =
    [0, 0, 0, 0, 0, 0, 0, 0, 0, 0, 0, 0, 0, 0, 0, 0, 0, 0, 0, 0, 0, 0, 0, 0, 0, 0, 0, 0, 0, 0, 0, 0,
     0, 0, 0, 0, 0, 0, 0, 0, 0, 0, 0, 0, 0, 0, 0, 0, 0, 0, 0, 0, 0, 0, 0, 0, 0, 0, 0, 0, 0, 0, 0, 0,
     0, 0, 0, 0, 0, 0, 0, 0, 0, 0, 0, 0, 0, 0, 0, 0, 0, 0, 0, 0, 0, 0, 0, 0, 0, 0, 0, 0, 0, 0, 0, 0,
     0, 0, 0, 0, 0, 0, 0, 0, 0, 0, 0, 0, 0, 0, 0, 0, 0, 0, 0, 0, 0, 0, 0, 0, 0, 0, 0, 0, 0, 0, 0, 0,
     0, 0, 0, 0, 0, 0, 0, 0, 0, 0, 0, 0, 0, 0, 0, 0, 0, 0, 0, 0, 0, 0, 0, 0, 0, 0, 0, 0, 0, 0, 0, 0,
     0, 0, 0, 0, 0, 0, 0, 0, 0, 0, 0, 0, 0, 0, 0, 0, 0, 0, 0, 0, 0, 0, 0, 0, 0, 0, 0, 0, 0, 0, 0, 0,
     1, 1, 1, 1, 1, 1, 1, 1, 1, 1, 1, 1, 1, 1, 1, 1, 1, 1, 1, 1, 1, 1, 1, 1, 1, 1, 1, 1, 1, 1, 1, 1,
     2, 2, 2, 2, 2, 2, 2, 2, 2, 2, 2, 2, 2, 2, 2, 2, 3, 3, 3, 3, 3, 3, 3, 3, 4, 4, 4, 4, 5, 5, 5, 5]"

definition flb_utf8_len :: "u8 \<Rightarrow> int" where
  "flb_utf8_len s0 = uint (trailingBytesForUTF8 ! unat s0) + 1"

definition FLB_UTF8_ACCEPT :: u32 where "FLB_UTF8_ACCEPT = 0"
definition FLB_UTF8_REJECT :: u32 where "FLB_UTF8_REJECT = 1"

definition utf8d :: "u8 list" where
  "utf8d =
    [0, 0, 0, 0, 0, 0, 0, 0, 0, 0, 0, 0, 0, 0, 0, 0, 0, 0, 0, 0, 0, 0, 0, 0, 0, 0, 0, 0, 0, 0, 0, 0,
     0, 0, 0, 0, 0, 0, 0, 0, 0, 0, 0, 0, 0, 0, 0, 0, 0, 0, 0, 0, 0, 0, 0, 0, 0, 0, 0, 0, 0, 0, 0, 0,
     0, 0, 0, 0, 0, 0, 0, 0, 0, 0, 0, 0, 0, 0, 0, 0, 0, 0, 0, 0, 0, 0, 0, 0, 0, 0, 0, 0, 0, 0, 0, 0,
     0, 0, 0, 0, 0, 0, 0, 0, 0, 0, 0, 0, 0, 0, 0, 0, 0, 0, 0, 0, 0, 0, 0, 0, 0, 0, 0, 0, 0, 0, 0, 0,
     1, 1, 1, 1, 1, 1, 1, 1, 1, 1, 1, 1, 1, 1, 1, 1, 9, 9, 9, 9, 9, 9, 9, 9, 9, 9, 9, 9, 9, 9, 9, 9,
     7, 7, 7, 7, 7, 7, 7, 7, 7, 7, 7, 7, 7, 7, 7, 7, 7, 7, 7, 7, 7, 7, 7, 7, 7, 7, 7, 7, 7, 7, 7, 7,
     8, 8, 2, 2, 2, 2, 2, 2, 2, 2, 2, 2, 2, 2, 2, 2, 2, 2, 2, 2, 2, 2, 2, 2, 2, 2, 2, 2, 2, 2, 2, 2,
     10, 3, 3, 3, 3, 3, 3, 3, 3, 3, 3, 3, 3, 4, 3, 3, 11, 6, 6, 6, 5, 8, 8, 8, 8, 8, 8, 8, 8, 8, 8, 8,
     0, 1, 2, 3, 5, 8, 7, 1, 1, 1, 4, 6, 1, 1, 1, 1, 1, 1, 1, 1, 1, 1, 1, 1, 1, 1, 1, 1, 1, 1, 1, 1,
     1, 0, 1, 1, 1, 1, 1, 0, 1, 0, 1, 1, 1, 1, 1, 1, 1, 2, 1, 1, 1, 1, 1, 2, 1, 2, 1, 1, 1, 1, 1, 1,
     1, 1, 1, 1, 1, 1, 1, 2, 1, 1, 1, 1, 1, 1, 1, 1, 1, 2, 1, 1, 1, 1, 1, 1, 1, 2, 1, 1, 1, 1, 1, 1,
     1, 1, 1, 1, 1, 1, 1, 3, 1, 3, 1, 1, 1, 1, 1, 1, 1, 3, 1, 1, 1, 1, 1, 3, 1, 3, 1, 1, 1, 1, 1, 1,
     1, 3, 1, 1, 1, 1, 1, 1, 1, 1, 1, 1, 1, 1, 1, 1]"

text \<open>Reading the table out of its bounds is undefined: \<open>None\<close>.\<close>

definition utf8d_at :: "u32 \<Rightarrow> u32 option" where
  "utf8d_at i = (if unat i < length utf8d then Some (ucast (utf8d ! unat i)) else None)"

text \<open>The pair is \<open>(*state, *codep)\<close>; the function's value is the new state.\<close>

definition flb_utf8_decode :: "u32 \<times> u32 \<Rightarrow> u32 \<Rightarrow> (u32 \<times> u32) option" where
  "flb_utf8_decode sc byte =
     (let (state, codep) = sc in do {
        type \<leftarrow> utf8d_at byte;
        let codep = (if state \<noteq> FLB_UTF8_ACCEPT then (byte AND 0x3f) OR push_bit 6 codep
                     else drop_bit (unat type) 0xff AND byte);
        state \<leftarrow> utf8d_at (256 + state * 16 + type);
        Some (state, codep)
      })"

text \<open>What \<^verbatim>\<open>flb_utf8_print\<close> prints; a string without its terminating 0 is read out of bounds.\<close>

datatype utf8_output = Codepoint u32 | Not_Well_Formed

fun utf8_print_loop :: "u32 \<Rightarrow> u32 \<Rightarrow> u8 list \<Rightarrow> (u32 list \<times> u32) option" where
  "utf8_print_loop state codepoint [] = None"
| "utf8_print_loop state codepoint (b # s) =
     (if b = 0 then Some ([], state)
      else do {
        (state, codepoint) \<leftarrow> flb_utf8_decode (state, codepoint) (ucast b);
        (out, final) \<leftarrow> utf8_print_loop state codepoint s;
        Some (if state = 0 then codepoint # out else out, final)
      })"

text \<open>The local \<^verbatim>\<open>codepoint\<close> is not initialised: the parameter \<open>indeterminate\<close>.\<close>

definition flb_utf8_print :: "u32 \<Rightarrow> u8 list \<Rightarrow> utf8_output list option" where
  "flb_utf8_print indeterminate s = do {
     (out, state) \<leftarrow> utf8_print_loop 0 indeterminate s;
     Some (map Codepoint out @ (if state \<noteq> FLB_UTF8_ACCEPT then [Not_Well_Formed] else []))
   }"

section \<open>UTF-8\<close>

definition scalar :: "nat \<Rightarrow> bool" where
  "scalar c \<longleftrightarrow> c < 0xD800 \<or> 0xE000 \<le> c \<and> c \<le> 0x10FFFF"

definition utf8_encode :: "nat \<Rightarrow> nat list" where
  "utf8_encode c =
     (if c < 0x80 then [c]
      else if c < 0x800 then [0xC0 + c div 64, 0x80 + c mod 64]
      else if c < 0x10000 then [0xE0 + c div 4096, 0x80 + c div 64 mod 64, 0x80 + c mod 64]
      else [0xF0 + c div 262144, 0x80 + c div 4096 mod 64, 0x80 + c div 64 mod 64, 0x80 + c mod 64])"

section \<open>The automaton\<close>

text \<open>The class of a byte, the transitions on classes, and the transitions on bytes.\<close>

definition byte_class :: "nat \<Rightarrow> nat" where
  "byte_class b =
     (if b < 0x80 then 0 else if b < 0x90 then 1 else if b < 0xA0 then 9 else if b < 0xC0 then 7
      else if b < 0xC2 then 8 else if b < 0xE0 then 2 else if b = 0xE0 then 10 else if b = 0xED then 4
      else if b < 0xF0 then 3 else if b = 0xF0 then 11 else if b < 0xF4 then 6 else if b = 0xF4 then 5 else 8)"

definition next_class :: "nat \<Rightarrow> nat \<Rightarrow> nat" where
  "next_class s t =
     (if s = 0 then [0, 1, 2, 3, 5, 8, 7, 1, 1, 1, 4, 6, 1, 1, 1, 1] ! t
      else if s = 2 \<and> (t = 1 \<or> t = 7 \<or> t = 9) then 0
      else if s = 3 \<and> (t = 1 \<or> t = 7 \<or> t = 9) then 2
      else if s = 4 \<and> t = 7 then 2
      else if s = 5 \<and> (t = 1 \<or> t = 9) then 2
      else if s = 6 \<and> (t = 7 \<or> t = 9) then 3
      else if s = 7 \<and> (t = 1 \<or> t = 7 \<or> t = 9) then 3
      else if s = 8 \<and> t = 1 then 3
      else 1)"

definition next_state :: "nat \<Rightarrow> nat \<Rightarrow> nat" where
  "next_state s b =
     (if s = 0 then
        if b < 0x80 then 0 else if b < 0xC2 then 1 else if b < 0xE0 then 2 else if b = 0xE0 then 4
        else if b = 0xED then 5 else if b < 0xF0 then 3 else if b = 0xF0 then 6 else if b < 0xF4 then 7
        else if b = 0xF4 then 8 else 1
      else if b < 0x80 \<or> 0xC0 \<le> b then 1
      else if s = 2 then 0 else if s = 3 then 2
      else if s = 4 \<and> 0xA0 \<le> b then 2 else if s = 5 \<and> b < 0xA0 then 2
      else if s = 6 \<and> 0x90 \<le> b then 3 else if s = 7 then 3 else if s = 8 \<and> b < 0x90 then 3
      else 1)"

lemma utf8d_spec:
  "utf8d = map (\<lambda>b. of_nat (byte_class b)) [0..<256] @ map (\<lambda>i. of_nat (next_class (i div 16) (i mod 16))) [0..<144]"
  by code_simp

lemma byte_class_le: "byte_class b \<le> 11"
  by (simp add: byte_class_def)

lemma next_state_lt: "next_state s b < 9"
  by (simp add: next_state_def)

lemma next_class_state:
  assumes "s < 9"
  shows "next_class s (byte_class b) = next_state s b"
proof -
  have "s = 0 \<or> s = 1 \<or> s = 2 \<or> s = 3 \<or> s = 4 \<or> s = 5 \<or> s = 6 \<or> s = 7 \<or> s = 8" using assms by arith
  then show ?thesis
    by (elim disjE) (simp_all add: next_class_def byte_class_def next_state_def)
qed

lemma utf8d_class: "b < 256 \<Longrightarrow> utf8d ! b = of_nat (byte_class b)"
  by (simp add: utf8d_spec nth_append)

lemma utf8d_next: "s < 9 \<Longrightarrow> t < 16 \<Longrightarrow> utf8d ! (256 + s * 16 + t) = of_nat (next_class s t)"
  by (simp add: utf8d_spec nth_append)

lemma length_utf8d: "length utf8d = 400"
  by (simp add: utf8d_spec)

text \<open>One step, for every state the automaton can be in.\<close>

definition next_code :: "nat \<Rightarrow> u32 \<Rightarrow> u8 \<Rightarrow> u32" where
  "next_code s cp b =
     (if s \<noteq> 0 then (ucast b AND 0x3f) OR push_bit 6 cp
      else drop_bit (byte_class (unat b)) 0xff AND ucast b)"

lemma decode_step:
  assumes "s < 9"
  shows "flb_utf8_decode (of_nat s, cp) (ucast (b :: u8)) = Some (of_nat (next_state s (unat b)), next_code s cp b)"
proof -
  let ?t = "byte_class (unat b)"
  have b: "unat b < 256" using unat_less_len [of b] by simp
  have ub: "unat (ucast b :: u32) = unat b" using b by (simp add: unsigned_ucast_eq take_bit_nat_eq_self_iff)
  have s0: "((of_nat s :: u32) = 0) = (s = 0)"
  proof -
    have "unat (of_nat s :: u32) = s" using assms by (simp add: unat_of_nat)
    then show ?thesis by (metis unat_eq_zero of_nat_0)
  qed
  have t: "?t < 16" using byte_class_le [of "unat b"] by simp
  have ut: "unat (ucast (of_nat k :: u8) :: u32) = k" if "k < 256" for k
    using that by (simp add: unsigned_ucast_eq take_bit_nat_eq_self_iff unat_of_nat)
  have c: "utf8d_at (ucast b) = Some (of_nat ?t)"
  proof -
    have "ucast (of_nat ?t :: u8) = (of_nat ?t :: u32)"
      using ut [of ?t] t by (simp add: word_unat_eq_iff unat_of_nat)
    then show ?thesis using b by (simp add: utf8d_at_def ub length_utf8d utf8d_class)
  qed
  have i: "unat (256 + of_nat s * 16 + of_nat ?t :: u32) = 256 + s * 16 + ?t"
  proof -
    have "256 + of_nat s * 16 + of_nat ?t = (of_nat (256 + s * 16 + ?t) :: u32)" by simp
    then show ?thesis using assms t by (simp only: unat_of_nat) simp
  qed
  have n: "utf8d_at (256 + of_nat s * 16 + of_nat ?t) = Some (of_nat (next_state s (unat b)))"
  proof -
    have l: "next_state s (unat b) < 256" using next_state_lt [of s "unat b"] by simp
    have "ucast (of_nat (next_state s (unat b)) :: u8) = (of_nat (next_state s (unat b)) :: u32)"
      using ut [OF l] l by (simp add: word_unat_eq_iff unat_of_nat)
    then show ?thesis
      using assms t by (simp add: utf8d_at_def i length_utf8d utf8d_next next_class_state)
  qed
  have "unat (of_nat ?t :: u32) = ?t" using t by (simp add: unat_of_nat)
  then show ?thesis
    using c n s0 by (simp add: flb_utf8_decode_def next_code_def FLB_UTF8_ACCEPT_def Let_def)
qed

section \<open>Runs of the automaton\<close>

lemma next_state_1 [simp]: "next_state (Suc 0) b = Suc 0"
  by (simp add: next_state_def)

lemma next_states_1 [simp]: "foldl next_state (Suc 0) bs = Suc 0"
  by (induction bs) simp_all

lemma loop_step:
  assumes "s < 9" "b \<noteq> 0"
  shows "utf8_print_loop (of_nat s) cp (b # bs) =
     map_option (\<lambda>(out, f). (if next_state s (unat b) = 0 then next_code s cp b # out else out, f))
       (utf8_print_loop (of_nat (next_state s (unat b))) (next_code s cp b) bs)"
proof -
  have "(of_nat (next_state s (unat b)) :: u32) = 0 \<longleftrightarrow> next_state s (unat b) = 0"
    using next_state_lt [of s "unat b"] by (simp add: word_unat_eq_iff unat_of_nat)
  then show ?thesis using assms
    by (cases "utf8_print_loop (of_nat (next_state s (unat b))) (next_code s cp b) bs")
      (simp_all add: decode_step split: prod.splits)
qed

lemma loop_final:
  assumes "s < 9" "0 \<notin> set bs"
  shows "\<exists>out. utf8_print_loop (of_nat s) cp (bs @ 0 # rest) = Some (out, of_nat (foldl next_state s (map unat bs)))"
  using assms
proof (induction bs arbitrary: s cp)
  case (Cons b bs)
  have "b \<noteq> 0" using Cons.prems(2) by auto
  then show ?case
    using Cons.IH [OF next_state_lt, of s "unat b" "next_code s cp b"] Cons.prems
    by (auto simp del: utf8_print_loop.simps simp: loop_step [OF Cons.prems(1)])
qed simp

section \<open>Accepted bytes are encodings\<close>

lemma encode_1: "b < 0x80 \<Longrightarrow> utf8_encode b = [b] \<and> scalar b"
  by (simp add: utf8_encode_def scalar_def)

lemma encode_2:
  assumes "0xC2 \<le> b0" "b0 < 0xE0" "0x80 \<le> b1" "b1 < 0xC0"
  shows "\<exists>c. scalar c \<and> utf8_encode c = [b0, b1]"
proof -
  define q t where "q = b0 - 0xC0" and "t = b1 - 0x80"
  have qt: "b0 = 0xC0 + q" "b1 = 0x80 + t" "2 \<le> q" "q < 32" "t < 64" using assms by (auto simp: q_def t_def)
  then have "(q * 64 + t) div 64 = q" "(q * 64 + t) mod 64 = t" by simp_all
  with qt show ?thesis by (intro exI [of _ "q * 64 + t"]) (simp add: utf8_encode_def scalar_def)
qed

lemma split_3:
  assumes "r < 64" "t < (64 :: nat)"
  shows "(q * 4096 + r * 64 + t) div 4096 = q" "(q * 4096 + r * 64 + t) div 64 mod 64 = r" "(q * 4096 + r * 64 + t) mod 64 = t"
proof -
  have e: "q * 4096 + r * 64 + t = (q * 64 + r) * 64 + t" by simp
  then have d: "(q * 4096 + r * 64 + t) div 64 = q * 64 + r" using assms by simp
  then show "(q * 4096 + r * 64 + t) div 64 mod 64 = r" using assms by simp
  have "(q * 4096 + r * 64 + t) div 4096 = (q * 4096 + r * 64 + t) div 64 div 64" by (simp add: div_mult2_eq [symmetric])
  then show "(q * 4096 + r * 64 + t) div 4096 = q" using d assms by simp
  have "(x * 64 + t) mod 64 = t" for x using assms(2) by simp
  from this [of "q * 64 + r"] have "((q * 64 + r) * 64 + t) mod 64 = t" .
  then show "(q * 4096 + r * 64 + t) mod 64 = t" by (simp only: e)
qed

lemma encode_3:
  assumes "0xE0 \<le> b0" "b0 < 0xF0" "0x80 \<le> b1" "b1 < 0xC0" "0x80 \<le> b2" "b2 < 0xC0"
    and "b0 = 0xE0 \<Longrightarrow> 0xA0 \<le> b1" "b0 = 0xED \<Longrightarrow> b1 < 0xA0"
  shows "\<exists>c. scalar c \<and> utf8_encode c = [b0, b1, b2]"
proof -
  obtain q r t where e: "b0 = 0xE0 + q" "b1 = 0x80 + r" "b2 = 0x80 + t"
    using assms(1,3,5) by (meson le_Suc_ex)
  have b: "b0 = 0xE0 + q" "b1 = 0x80 + r" "b2 = 0x80 + t" "q < 16" "r < 64" "t < 64"
    "q = 0 \<Longrightarrow> 32 \<le> r" "q = 13 \<Longrightarrow> r < 32"
    using assms by (simp_all add: e)
  let ?c = "q * 4096 + r * 64 + t"
  have "0x800 \<le> ?c" "?c < 0x10000" using b(4-7) by (cases "q = 0"; simp)+
  moreover have "scalar ?c" using b(4-8) unfolding scalar_def by (cases "q < 13"; cases "q = 13"; simp)
  ultimately show ?thesis
    using b(1-3) split_3 [OF b(5,6), of q] by (intro exI [of _ ?c]) (simp add: utf8_encode_def)
qed

lemma split_4:
  assumes "r < 64" "s < 64" "t < (64 :: nat)"
  shows "(q * 262144 + r * 4096 + s * 64 + t) div 262144 = q"
    "(q * 262144 + r * 4096 + s * 64 + t) div 4096 mod 64 = r"
    "(q * 262144 + r * 4096 + s * 64 + t) div 64 mod 64 = s" "(q * 262144 + r * 4096 + s * 64 + t) mod 64 = t"
proof -
  have e: "q * 262144 + r * 4096 + s * 64 + t = (q * 64 + r) * 4096 + s * 64 + t" by simp
  note d = split_3 [OF assms(2,3), of "q * 64 + r", folded e]
  show "(q * 262144 + r * 4096 + s * 64 + t) div 64 mod 64 = s" "(q * 262144 + r * 4096 + s * 64 + t) mod 64 = t"
    by (rule d)+
  show "(q * 262144 + r * 4096 + s * 64 + t) div 4096 mod 64 = r" using d(1) assms by simp
  have "(q * 262144 + r * 4096 + s * 64 + t) div 262144 = (q * 262144 + r * 4096 + s * 64 + t) div 4096 div 64"
    by (simp add: div_mult2_eq [symmetric])
  then show "(q * 262144 + r * 4096 + s * 64 + t) div 262144 = q" using d(1) assms by simp
qed

lemma encode_4:
  assumes "0xF0 \<le> b0" "b0 < 0xF5" "0x80 \<le> b1" "b1 < 0xC0" "0x80 \<le> b2" "b2 < 0xC0" "0x80 \<le> b3" "b3 < 0xC0"
    and "b0 = 0xF0 \<Longrightarrow> 0x90 \<le> b1" "b0 = 0xF4 \<Longrightarrow> b1 < 0x90"
  shows "\<exists>c. scalar c \<and> utf8_encode c = [b0, b1, b2, b3]"
proof -
  obtain q r s t where e: "b0 = 0xF0 + q" "b1 = 0x80 + r" "b2 = 0x80 + s" "b3 = 0x80 + t"
    using assms(1,3,5,7) by (meson le_Suc_ex)
  have b: "b0 = 0xF0 + q" "b1 = 0x80 + r" "b2 = 0x80 + s" "b3 = 0x80 + t" "q \<le> 4" "r < 64" "s < 64" "t < 64"
    "q = 0 \<Longrightarrow> 16 \<le> r" "q = 4 \<Longrightarrow> r < 16"
    using assms by (simp_all add: e)
  let ?c = "q * 262144 + r * 4096 + s * 64 + t"
  have "0x10000 \<le> ?c" using b(9) by (cases "q = 0") simp_all
  moreover have "?c \<le> 0x10FFFF" using b(5-8,10) by (cases "q = 4") simp_all
  ultimately show ?thesis
    using b(1-4) split_4 [OF b(6-8), of q] by (intro exI [of _ ?c]) (simp add: utf8_encode_def scalar_def)
qed

text \<open>A byte sequence is well formed when it is the encoding of scalar values.\<close>

definition well_formed :: "nat list \<Rightarrow> nat list \<Rightarrow> bool" where
  "well_formed bs cs \<longleftrightarrow> (\<forall>c \<in> set cs. scalar c) \<and> bs = concat (map utf8_encode cs)"

lemma well_formed_step:
  assumes "scalar c" "utf8_encode c = pre" "\<exists>cs. well_formed bs cs"
  shows "\<exists>cs. well_formed (pre @ bs) cs"
proof -
  obtain cs where "well_formed bs cs" using assms(3) by blast
  then show ?thesis using assms(1,2) by (intro exI [of _ "c # cs"]) (simp add: well_formed_def)
qed

text \<open>The state reached when continuation bytes are still missing.\<close>

lemma need_1:
  assumes "foldl next_state 2 bs = 0"
  shows "\<exists>b bs'. bs = b # bs' \<and> 0x80 \<le> b \<and> b < 0xC0 \<and> foldl next_state 0 bs' = 0"
  using assms by (cases bs) (auto simp: next_state_def split: if_splits)

lemma need_2:
  assumes "foldl next_state s bs = 0" "s = 3 \<or> s = 4 \<or> s = 5"
  shows "\<exists>b bs'. bs = b # bs' \<and> 0x80 \<le> b \<and> b < 0xC0 \<and> (s = 4 \<longrightarrow> 0xA0 \<le> b) \<and> (s = 5 \<longrightarrow> b < 0xA0) \<and>
    foldl next_state 2 bs' = 0"
  using assms by (cases bs) (auto simp: next_state_def split: if_splits)

lemma need_3:
  assumes "foldl next_state s bs = 0" "s = 6 \<or> s = 7 \<or> s = 8"
  shows "\<exists>b bs'. bs = b # bs' \<and> 0x80 \<le> b \<and> b < 0xC0 \<and> (s = 6 \<longrightarrow> 0x90 \<le> b) \<and> (s = 8 \<longrightarrow> b < 0x90) \<and>
    foldl next_state 3 bs' = 0"
  using assms by (cases bs) (auto simp: next_state_def split: if_splits)

lemma accepted_well_formed:
  "foldl next_state 0 bs = 0 \<Longrightarrow> \<exists>cs. well_formed bs cs"
proof (induction "length bs" arbitrary: bs rule: less_induct)
  case less
  show ?case
  proof (cases bs)
    case Nil
    then show ?thesis by (intro exI [of _ "[]"]) (simp add: well_formed_def)
  next
    case (Cons b0 b1s)
    have f: "foldl next_state (next_state 0 b0) b1s = 0" using less.prems Cons by simp
    then have "next_state 0 b0 \<noteq> 1" by auto
    then consider "b0 < 0x80" | "0xC2 \<le> b0 \<and> b0 < 0xE0" | "0xE0 \<le> b0 \<and> b0 < 0xF0" | "0xF0 \<le> b0 \<and> b0 < 0xF5"
      by (auto simp: next_state_def split: if_splits)
    then show ?thesis
    proof cases
      case 1
      then have "\<exists>cs. well_formed b1s cs" using f less.hyps [of b1s] Cons by (simp add: next_state_def)
      from well_formed_step [OF _ _ this, of b0 "[b0]"] show ?thesis using encode_1 [OF 1] Cons by simp
    next
      case 2
      then have "foldl next_state 2 b1s = 0" using f by (simp add: next_state_def)
      from need_1 [OF this] obtain b1 r where r: "b1s = b1 # r" "0x80 \<le> b1" "b1 < 0xC0" "foldl next_state 0 r = 0" by blast
      obtain c where "scalar c" "utf8_encode c = [b0, b1]" using encode_2 2 r(2,3) by blast
      from well_formed_step [OF this less.hyps [of r]] show ?thesis using Cons r by simp
    next
      case 3
      define s where "s = next_state 0 b0"
      have s: "s = 3 \<or> s = 4 \<or> s = 5" "b0 = 0xE0 \<Longrightarrow> s = 4" "b0 = 0xED \<Longrightarrow> s = 5"
        using 3 by (auto simp: s_def next_state_def)
      from need_2 [OF f [folded s_def] s(1)] obtain b1 b2s where b1: "b1s = b1 # b2s" "0x80 \<le> b1" "b1 < 0xC0"
          "s = 4 \<longrightarrow> 0xA0 \<le> b1" "s = 5 \<longrightarrow> b1 < 0xA0" "foldl next_state 2 b2s = 0" by blast
      from need_1 [OF b1(6)] obtain b2 r where r: "b2s = b2 # r" "0x80 \<le> b2" "b2 < 0xC0" "foldl next_state 0 r = 0" by blast
      obtain c where "scalar c" "utf8_encode c = [b0, b1, b2]"
        using encode_3 [of b0 b1 b2] 3 b1(2-5) r(2,3) s(2,3) by blast
      from well_formed_step [OF this less.hyps [of r]] show ?thesis using Cons b1(1) r by simp
    next
      case 4
      define s where "s = next_state 0 b0"
      have s: "s = 6 \<or> s = 7 \<or> s = 8" "b0 = 0xF0 \<Longrightarrow> s = 6" "b0 = 0xF4 \<Longrightarrow> s = 8"
        using 4 by (auto simp: s_def next_state_def)
      from need_3 [OF f [folded s_def] s(1)] obtain b1 b2s where b1: "b1s = b1 # b2s" "0x80 \<le> b1" "b1 < 0xC0"
          "s = 6 \<longrightarrow> 0x90 \<le> b1" "s = 8 \<longrightarrow> b1 < 0x90" "foldl next_state 3 b2s = 0" by blast
      from need_2 [OF b1(6)] obtain b2 b3s where b2: "b2s = b2 # b3s" "0x80 \<le> b2" "b2 < 0xC0"
          "foldl next_state 2 b3s = 0" by auto
      from need_1 [OF b2(4)] obtain b3 r where r: "b3s = b3 # r" "0x80 \<le> b3" "b3 < 0xC0" "foldl next_state 0 r = 0" by blast
      obtain c where "scalar c" "utf8_encode c = [b0, b1, b2, b3]"
        using encode_4 [of b0 b1 b2 b3] 4 b1(2-5) b2(2,3) r(2,3) s(2,3) by blast
      from well_formed_step [OF this less.hyps [of r]] show ?thesis using Cons b1(1) b2(1) r by simp
    qed
  qed
qed

section \<open>Encodings are decoded\<close>

lemma unat_mask_byte:
  assumes "n \<le> 8"
  shows "unat (ucast (b :: u8) AND mask n :: u32) = unat b mod 2 ^ n"
proof -
  have b: "unat b < 256" using unat_less_len [of b] by simp
  have "ucast b AND mask n = (take_bit n (ucast b) :: u32)" by (simp add: take_bit_eq_mask)
  then show ?thesis
    using b assms by (simp add: min_absorb1 unsigned_take_bit_eq unsigned_ucast_eq take_bit_nat_eq_self_iff) (simp add: take_bit_eq_mod)
qed

lemma unat_next_code:
  assumes "s \<noteq> 0" "unat cp < 2 ^ 26"
  shows "unat (next_code s cp b) = unat cp * 64 + unat b mod 64"
proof -
  have m: "(0x3f :: u32) = mask 6" by (simp add: mask_numeral)
  have "(ucast b AND 0x3f) OR push_bit 6 cp = (ucast b AND 0x3f) + push_bit 6 cp"
    by (rule disjunctive_add [symmetric]) (auto simp: m bit_simps)
  moreover have "unat (ucast b AND (0x3f :: u32)) = unat b mod 64"
    unfolding m by (subst unat_mask_byte) simp_all
  moreover have "unat (push_bit 6 cp) = unat cp * 64"
    using assms(2) by (simp add: push_bit_eq_mult unat_mult_lem [THEN iffD1])
  moreover have "unat (ucast b AND (0x3f :: u32)) + unat (push_bit 6 cp) < 2 ^ 32"
    using calculation assms(2) by simp
  ultimately show ?thesis using assms(1)
    by (simp add: next_code_def unat_add_lem [THEN iffD1])
qed

lemma unat_lead_code:
  "unat (next_code 0 cp b) = unat b mod 2 ^ (8 - byte_class (unat b))"
proof -
  have m: "drop_bit k (mask 8 :: u32) = mask (8 - k)" for k
    by (rule bit_word_eqI) (auto simp: bit_simps)
  have "(0xff :: u32) = mask 8" by (simp add: mask_numeral)
  then have "next_code 0 cp b = ucast b AND mask (8 - byte_class (unat b))"
    by (simp only: next_code_def m and.commute) simp
  then show ?thesis by (simp add: unat_mask_byte)
qed

lemma loop_steps:
  fixes b :: u8
  assumes "b \<noteq> 0"
  shows "utf8_print_loop 0 cp (b # bs) =
     map_option (\<lambda>(out, f). (if next_state 0 (unat b) = 0 then next_code 0 cp b # out else out, f))
       (utf8_print_loop (of_nat (next_state 0 (unat b))) (next_code 0 cp b) bs)"
    and "utf8_print_loop 2 cp (b # bs) =
     map_option (\<lambda>(out, f). (if next_state 2 (unat b) = 0 then next_code 2 cp b # out else out, f))
       (utf8_print_loop (of_nat (next_state 2 (unat b))) (next_code 2 cp b) bs)"
    and "utf8_print_loop 3 cp (b # bs) =
     map_option (\<lambda>(out, f). (if next_state 3 (unat b) = 0 then next_code 3 cp b # out else out, f))
       (utf8_print_loop (of_nat (next_state 3 (unat b))) (next_code 3 cp b) bs)"
  using loop_step [OF _ assms, of 0 cp bs] loop_step [OF _ assms, of 2 cp bs] loop_step [OF _ assms, of 3 cp bs]
  by (simp_all del: utf8_print_loop.simps)

lemma of_unat: "unat (w :: u32) = c \<Longrightarrow> w = of_nat c"
  by auto

lemma mod_offset:
  fixes x :: nat
  shows "x < 64 \<Longrightarrow> (0x80 + x) mod 64 = x" "x < 64 \<Longrightarrow> (0xC0 + x) mod 64 = x"
    "x < 32 \<Longrightarrow> (0xE0 + x) mod 32 = x" "x < 4 \<Longrightarrow> (0xF0 + x) mod 4 = x"
proof -
  have m: "x < m \<Longrightarrow> (x + m * k) mod m = x" for m k :: nat by (simp only: mod_mult_self2 mod_less)
  show "x < 64 \<Longrightarrow> (0x80 + x) mod 64 = x" using m [of 64 2] by (simp add: add.commute del: mod_mult_self2)
  show "x < 64 \<Longrightarrow> (0xC0 + x) mod 64 = x" using m [of 64 3] by (simp add: add.commute del: mod_mult_self2)
  show "x < 32 \<Longrightarrow> (0xE0 + x) mod 32 = x" using m [of 32 7] by (simp add: add.commute del: mod_mult_self2)
  show "x < 4 \<Longrightarrow> (0xF0 + x) mod 4 = x" using m [of 4 60] by (simp add: add.commute del: mod_mult_self2)
qed

lemma decode_encode:
  assumes c: "scalar c" "map unat pre = utf8_encode c" "0 \<notin> set pre"
  shows "utf8_print_loop 0 cp (pre @ rest) = map_option (\<lambda>(out, f). (of_nat c # out, f)) (utf8_print_loop 0 (of_nat c) rest)"
proof -
  consider "c < 0x80" | "0x80 \<le> c" "c < 0x800" | "0x800 \<le> c" "c < 0x10000" | "0x10000 \<le> c" "c \<le> 0x10FFFF"
    using c(1) unfolding scalar_def by linarith
  then show ?thesis
  proof cases
    case 1
    then have "map unat pre = [c]" using c(2) by (simp add: utf8_encode_def)
    then obtain b0 where p: "pre = [b0]" "unat b0 = c" unfolding map_eq_Cons_conv map_is_Nil_conv by blast
    have z: "b0 \<noteq> 0" using c(3) p(1) by auto
    have "next_code 0 cp b0 = of_nat c"
      using 1 p(2) unat_lead_code [of cp b0] by (simp add: word_unat_eq_iff unat_of_nat byte_class_def)
    then show ?thesis using 1 p z by (simp del: utf8_print_loop.simps add: loop_steps next_state_def)
  next
    case 2
    then have "map unat pre = [0xC0 + c div 64, 0x80 + c mod 64]" using c(2) by (simp add: utf8_encode_def)
    then obtain b0 b1 where p: "pre = [b0, b1]" "unat b0 = 0xC0 + c div 64" "unat b1 = 0x80 + c mod 64"
      unfolding map_eq_Cons_conv map_is_Nil_conv by blast
    have z: "b0 \<noteq> 0" "b1 \<noteq> 0" using c(3) p(1) by auto
    have q: "2 \<le> c div 64" "c div 64 < 32" using 2 by auto
    then have n: "next_state 0 (unat b0) = 2" "next_state 2 (unat b1) = 0" "byte_class (unat b0) = 2"
      using p(2,3) by (simp_all add: next_state_def byte_class_def)
    have "unat (next_code 0 cp b0) = c div 64" using q p(2) n(3) by (simp add: unat_lead_code mod_offset)
    then have "unat (next_code 2 (next_code 0 cp b0) b1) = c" using q p(3) by (simp add: unat_next_code mod_offset)
    then have "next_code 2 (next_code 0 cp b0) b1 = of_nat c" by (rule of_unat)
    then show ?thesis using p n z by (simp del: utf8_print_loop.simps add: loop_steps option.map_comp comp_def case_prod_unfold)
  next
    case 3
    define q r t where "q = c div 4096" and "r = c div 64 mod 64" and "t = c mod 64"
    have cd: "c = q * 4096 + r * 64 + t"
    proof -
      have "c div 4096 = c div 64 div 64" by (simp add: div_mult2_eq [symmetric])
      then have "c div 64 = q * 64 + r" by (simp add: q_def r_def)
      moreover have "c = c div 64 * 64 + t" by (simp add: t_def)
      ultimately show ?thesis by simp
    qed
    have b: "q < 16" "r < 64" "t < 64" "q = 0 \<Longrightarrow> 32 \<le> r" "q = 13 \<Longrightarrow> r < 32"
    proof -
      show r: "r < 64" and t: "t < 64" by (simp_all add: r_def t_def)
      show "q < 16" "q = 0 \<Longrightarrow> 32 \<le> r" "q = 13 \<Longrightarrow> r < 32" using 3 c(1) cd r t by (auto simp: scalar_def)
    qed
    have "map unat pre = [0xE0 + q, 0x80 + r, 0x80 + t]" using 3 c(2) by (simp add: utf8_encode_def q_def r_def t_def)
    then obtain b0 b1 b2 where p: "pre = [b0, b1, b2]" "unat b0 = 0xE0 + q" "unat b1 = 0x80 + r" "unat b2 = 0x80 + t"
      unfolding map_eq_Cons_conv map_is_Nil_conv by blast
    have z: "b0 \<noteq> 0" "b1 \<noteq> 0" "b2 \<noteq> 0" using c(3) p(1) by auto
    define s where "s = next_state 0 (unat b0)"
    have s0: "next_state 0 (0xE0 + q) = s" using p(2) by (simp add: s_def)
    have n: "s = 4 \<or> s = 5 \<or> s = 3" "next_state s (unat b1) = 2" "next_state 2 (unat b2) = 0"
      using b p(2-4) by (auto simp: s_def next_state_def)
    have "unat b0 mod 2 ^ (8 - byte_class (unat b0)) = q"
      using b(1) p(2) by (cases "q = 0"; cases "q = 13"; simp add: byte_class_def mod_offset)
    then have l: "unat (next_code 0 cp b0) = q" by (simp add: unat_lead_code)
    have sn: "s \<noteq> 0" using n(1) by auto
    have m: "unat (next_code s (next_code 0 cp b0) b1) = q * 64 + r"
      using b(1,2) p(3) l sn by (simp add: unat_next_code mod_offset)
    have "unat (next_code 2 (next_code s (next_code 0 cp b0) b1) b2) = c"
      using b(1-3) p(4) m cd by (simp add: unat_next_code mod_offset)
    then have "next_code 2 (next_code s (next_code 0 cp b0) b1) b2 = of_nat c" by (rule of_unat)
    moreover have "s < 9" using n(1) by auto
    ultimately show ?thesis
      using p n z sn s0 loop_step [of s b1]
      by (simp del: utf8_print_loop.simps add: loop_steps option.map_comp comp_def case_prod_unfold)
  next
    case 4
    define q r u t where "q = c div 262144" and "r = c div 4096 mod 64" and "u = c div 64 mod 64" and "t = c mod 64"
    have cd: "c = q * 262144 + r * 4096 + u * 64 + t"
    proof -
      have "c div 262144 = c div 4096 div 64" "c div 4096 = c div 64 div 64" by (simp_all add: div_mult2_eq [symmetric])
      then have "c div 4096 = q * 64 + r" "c div 64 = (c div 4096) * 64 + u" by (simp_all add: q_def r_def u_def)
      moreover have "c = c div 64 * 64 + t" by (simp add: t_def)
      ultimately show ?thesis by simp
    qed
    have b: "q \<le> 4" "r < 64" "u < 64" "t < 64" "q = 0 \<Longrightarrow> 16 \<le> r" "q = 4 \<Longrightarrow> r < 16"
    proof -
      show r: "r < 64" and u: "u < 64" and t: "t < 64" by (simp_all add: r_def u_def t_def)
      show "q \<le> 4" "q = 0 \<Longrightarrow> 16 \<le> r" "q = 4 \<Longrightarrow> r < 16" using 4 cd r u t by auto
    qed
    have "map unat pre = [0xF0 + q, 0x80 + r, 0x80 + u, 0x80 + t]"
      using 4 c(2) by (simp add: utf8_encode_def q_def r_def u_def t_def)
    then obtain b0 b1 b2 b3 where p: "pre = [b0, b1, b2, b3]" "unat b0 = 0xF0 + q" "unat b1 = 0x80 + r"
        "unat b2 = 0x80 + u" "unat b3 = 0x80 + t"
      unfolding map_eq_Cons_conv map_is_Nil_conv by blast
    have z: "b0 \<noteq> 0" "b1 \<noteq> 0" "b2 \<noteq> 0" "b3 \<noteq> 0" using c(3) p(1) by auto
    define s where "s = next_state 0 (unat b0)"
    have s0: "next_state 0 (0xF0 + q) = s" using p(2) by (simp add: s_def)
    have n: "s = 6 \<or> s = 7 \<or> s = 8" "next_state s (unat b1) = 3" "next_state 3 (unat b2) = 2" "next_state 2 (unat b3) = 0"
      using b p(2-5) by (auto simp: s_def next_state_def)
    have "unat b0 mod 2 ^ (8 - byte_class (unat b0)) = q"
      using b(1) p(2) by (cases "q = 0"; cases "q = 4"; simp add: byte_class_def mod_offset)
    then have l: "unat (next_code 0 cp b0) = q" by (simp add: unat_lead_code)
    have sn: "s \<noteq> 0" using n(1) by auto
    have m: "unat (next_code s (next_code 0 cp b0) b1) = q * 64 + r"
      using b(1,2) p(3) l sn by (simp add: unat_next_code mod_offset)
    have m2: "unat (next_code 3 (next_code s (next_code 0 cp b0) b1) b2) = (q * 64 + r) * 64 + u"
      using b(1-3) p(4) m by (simp add: unat_next_code mod_offset)
    have "unat (next_code 2 (next_code 3 (next_code s (next_code 0 cp b0) b1) b2) b3) = c"
      using b(1-4) p(5) m2 cd by (simp add: unat_next_code mod_offset)
    then have "next_code 2 (next_code 3 (next_code s (next_code 0 cp b0) b1) b2) b3 = of_nat c"
      by (rule of_unat)
    moreover have "s < 9" using n(1) by auto
    ultimately show ?thesis
      using p n z sn s0 loop_step [of s b1]
      by (simp del: utf8_print_loop.simps add: loop_steps option.map_comp comp_def case_prod_unfold)
  qed
qed


lemma loop_well_formed:
  assumes "well_formed (map unat bs) cs" "0 \<notin> set bs"
  shows "utf8_print_loop 0 cp (bs @ 0 # rest) = Some (map of_nat cs, 0)"
  using assms
proof (induction cs arbitrary: bs cp)
  case Nil
  then show ?case by (simp add: well_formed_def)
next
  case (Cons c cs)
  have c: "scalar c" "map unat bs = utf8_encode c @ concat (map utf8_encode cs)"
    using Cons.prems(1) by (simp_all add: well_formed_def)
  then obtain pre bs' where b: "bs = pre @ bs'" "map unat pre = utf8_encode c" "map unat bs' = concat (map utf8_encode cs)"
    by (auto simp: map_eq_append_conv)
  have "0 \<notin> set pre" "0 \<notin> set bs'" using Cons.prems(2) b(1) by auto
  moreover have "well_formed (map unat bs') cs" using Cons.prems(1) b(3) by (simp add: well_formed_def)
  ultimately show ?case
    using decode_encode [OF c(1) b(2), of cp "bs' @ 0 # rest"] Cons.IH [of bs' "of_nat c"] b(1) by simp
qed

lemma trailing_spec:
  "trailingBytesForUTF8 = map (\<lambda>b. if b < 0xC0 then 0 else if b < 0xE0 then 1 else if b < 0xF0 then 2
     else if b < 0xF8 then 3 else if b < 0xFC then 4 else 5) [0..<256]"
  by code_simp

section \<open>Properties\<close>

text \<open>
  C26: decoding of strings.  Given a terminated string of any bytes, \<^verbatim>\<open>flb_utf8_print\<close> reads no table
  out of its bounds and stops at the terminator.  When the bytes are the UTF-8 encoding of a list
  of Unicode scalar values it prints exactly these, in order; when they are not (overlong forms,
  surrogates, values above 10FFFF, stray or missing continuation bytes) it reports the string as
  not well formed.
\<close>

theorem utf8_print_correct:
  assumes "0 \<notin> set bs"
  shows "(\<forall>cs. well_formed (map unat bs) cs \<longrightarrow>
      flb_utf8_print indeterminate (bs @ 0 # rest) = Some (map (\<lambda>c. Codepoint (of_nat c)) cs)) \<and>
    ((\<nexists>cs. well_formed (map unat bs) cs) \<longrightarrow>
      (\<exists>out. flb_utf8_print indeterminate (bs @ 0 # rest) = Some (map Codepoint out @ [Not_Well_Formed])))"
proof -
  have "flb_utf8_print indeterminate (bs @ 0 # rest) = Some (map (\<lambda>c. Codepoint (of_nat c)) cs)"
    if "well_formed (map unat bs) cs" for cs
    using loop_well_formed [OF that assms] by (simp add: flb_utf8_print_def FLB_UTF8_ACCEPT_def)
  moreover have "\<exists>out. flb_utf8_print indeterminate (bs @ 0 # rest) = Some (map Codepoint out @ [Not_Well_Formed])"
    if "\<nexists>cs. well_formed (map unat bs) cs"
  proof -
    let ?f = "foldl next_state 0 (map unat bs)"
    have "?f \<noteq> 0" using accepted_well_formed that by blast
    moreover have "?f < 9" by (cases bs rule: rev_cases) (simp_all add: next_state_lt)
    ultimately have "(of_nat ?f :: u32) \<noteq> 0" by (simp add: word_unat_eq_iff unat_of_nat)
    moreover obtain out where "utf8_print_loop (of_nat 0) indeterminate (bs @ 0 # rest) = Some (out, of_nat ?f)"
      using loop_final [OF _ assms, of 0] by auto
    ultimately show ?thesis by (auto simp: flb_utf8_print_def FLB_UTF8_ACCEPT_def)
  qed
  ultimately show ?thesis by blast
qed

theorem utf8_print_correct_witness:
  "flb_utf8_print 7 [0xC3, 0xA9, 0x61, 0, 5] = Some [Codepoint 0xE9, Codepoint 0x61] \<and>
   (\<exists>out. flb_utf8_print 7 [0xC0, 0x80, 0] = Some (map Codepoint out @ [Not_Well_Formed]))"
proof -
  have "well_formed (map unat [0xC3, 0xA9, 0x61 :: u8]) [0xE9, 0x61]"
    by (simp add: well_formed_def scalar_def utf8_encode_def)
  then have a: "flb_utf8_print 7 [0xC3, 0xA9, 0x61, 0, 5] = Some [Codepoint 0xE9, Codepoint 0x61]"
    using utf8_print_correct [of "[0xC3, 0xA9, 0x61]" 7 "[5]"] by simp
  have "\<nexists>cs. well_formed [0xC0, 0x80] cs"
  proof
    assume "\<exists>cs. well_formed [0xC0, 0x80] cs"
    then obtain cs where cs: "\<forall>c \<in> set cs. scalar c" "[0xC0, 0x80] = concat (map utf8_encode cs)"
      unfolding well_formed_def by blast
    then obtain c cs' where c: "cs = c # cs'" by (cases cs) auto
    then have "utf8_encode c @ concat (map utf8_encode cs') = [0xC0, 0x80]" using cs(2) by simp
    then have "hd (utf8_encode c) = 0xC0" by (auto simp: utf8_encode_def split: if_splits)
    then have "c div 64 = 0 \<and> 0x80 \<le> c \<or> 0xE0 \<le> (0xC0 :: nat)"
      by (auto simp: utf8_encode_def split: if_splits)
    then show False by auto
  qed
  then have "\<exists>out. flb_utf8_print 7 [0xC0, 0x80, 0] = Some (map Codepoint out @ [Not_Well_Formed])"
    using utf8_print_correct [of "[0xC0, 0x80]" 7 "[]"] by simp
  with a show ?thesis by blast
qed

text \<open>
  Sequence lengths.  On the first byte of the encoding of a scalar value \<^verbatim>\<open>flb_utf8_len\<close> answers
  the number of its bytes and \<^verbatim>\<open>flb_utf8_check\<close> recognises a start; on every following byte
  \<^verbatim>\<open>flb_utf8_check\<close> answers that it is none.
\<close>

lemma utf8_len_correct:
  assumes "scalar c" "utf8_encode c = b # bs"
  shows "flb_utf8_len (of_nat b) = int (length (utf8_encode c)) \<and> flb_utf8_check (of_nat b) \<and>
    (\<forall>x \<in> set bs. \<not> flb_utf8_check (of_nat x))"
proof -
  have start: "flb_utf8_check (of_nat x) \<longleftrightarrow> \<not> (0x80 \<le> x \<and> x < 0xC0)" if "x < 256" for x
  proof -
    have "\<forall>x \<in> set [0..<256]. (of_nat x AND 0xC0 \<noteq> (0x80 :: u32)) = (\<not> (0x80 \<le> x \<and> x < 0xC0))"
      by code_simp
    then show ?thesis using that by (simp add: flb_utf8_check_def)
  qed
  have len: "flb_utf8_len (of_nat x) = uint (trailingBytesForUTF8 ! x) + 1" if "x < 256" for x
    using that by (simp add: flb_utf8_len_def unat_of_nat)
  consider "c < 0x80" | "0x80 \<le> c" "c < 0x800" "c div 64 < 32" | "0x800 \<le> c" "c < 0x10000" "c div 4096 < 16"
    | "0x10000 \<le> c" "c \<le> 0x10FFFF" "c div 262144 < 5"
    using assms(1) unfolding scalar_def by fastforce
  then have "b < 256 \<and> \<not> (0x80 \<le> b \<and> b < 0xC0) \<and> (\<forall>x \<in> set bs. 0x80 \<le> x \<and> x < 0xC0) \<and>
      uint (trailingBytesForUTF8 ! b) = int (length bs)"
    using assms(2) by cases (auto simp: utf8_encode_def trailing_spec)
  then show ?thesis using start len assms(2) by (auto simp del: of_nat_add)
qed

lemma utf8_len_correct_witness:
  "flb_utf8_len 0xE2 = 3 \<and> flb_utf8_check 0xE2 \<and> \<not> flb_utf8_check 0x82"
proof -
  have "scalar 0x20AC" "utf8_encode 0x20AC = 0xE2 # [0x82, 0xAC]" by (simp_all add: scalar_def utf8_encode_def)
  from utf8_len_correct [OF this] show ?thesis by (simp add: utf8_encode_def)
qed

end
