(* ===== verification/Flb_Text.thy ===== *)
theory Flb_Text
  imports Flb_Mem
begin

text \<open>
  Text: the C string helpers of \<^verbatim>\<open>fluent-bit/flb_str.h\<close> on the heap, the length-prefixed strings of
  \<^verbatim>\<open>fluent-bit/flb_sds.h\<close> and the URI classification of \<^verbatim>\<open>fluent-bit/flb_uri.h\<close>.
\<close>

section \<open>C strings in memory\<close>

text \<open>
  The characters of a block up to its first 0.  Running into an indeterminate byte or off the end
  of the block is undefined: \<open>None\<close>.  A string is addressed by the start of its block.
\<close>

fun c_chars :: "block \<Rightarrow> u8 list option" where
  "c_chars [] = None"
| "c_chars (None # b) = None"
| "c_chars (Some c # b) = (if c = 0 then Some [] else map_option (Cons c) (c_chars b))"

definition strlen :: "ptr \<Rightarrow> mem \<Rightarrow> nat option" where
  "strlen s m = do { b \<leftarrow> blocks m s; cs \<leftarrow> c_chars b; Some (length cs) }"

definition memcpy :: "ptr \<Rightarrow> ptr \<Rightarrow> nat \<Rightarrow> mem \<Rightarrow> mem option" where
  "memcpy dst src n m = do {
     d \<leftarrow> blocks m dst;
     s \<leftarrow> blocks m src;
     if n \<le> length d \<and> n \<le> length s
     then Some (m\<lparr>blocks := (blocks m)(dst \<mapsto> take n s @ drop n d)\<rparr>) else None
   }"

definition store_byte :: "ptr \<Rightarrow> nat \<Rightarrow> u8 \<Rightarrow> mem \<Rightarrow> mem option" where
  "store_byte p i c m = do {
     b \<leftarrow> blocks m p;
     if i < length b then Some (m\<lparr>blocks := (blocks m)(p \<mapsto> b[i := Some c])\<rparr>) else None
   }"

section \<open>flb_str.h\<close>

definition flb_strndup :: "allocator \<Rightarrow> ptr \<Rightarrow> size_t \<Rightarrow> mem \<Rightarrow> (ptr \<times> mem) option" where
  "flb_strndup al s n m =
     (let (str, m) = flb_malloc al (n + 1) m
      in if str = NULL then Some (NULL, m)
         else do {
           m \<leftarrow> memcpy str s (unat n) m;
           m \<leftarrow> store_byte str (unat n) 0 m;
           Some (str, m)
         })"

definition flb_strdup :: "allocator \<Rightarrow> ptr \<Rightarrow> mem \<Rightarrow> (ptr \<times> mem) option" where
  "flb_strdup al s m = do { n \<leftarrow> strlen s m; flb_strndup al s (of_nat n) m }"

text \<open>\<^verbatim>\<open>strcmp(s, "") == 0\<close> looks at the first byte only.\<close>

definition flb_str_emptyval :: "ptr \<Rightarrow> mem \<Rightarrow> int option" where
  "flb_str_emptyval s m =
     (if s = NULL then Some FLB_FALSE
      else do {
        b \<leftarrow> blocks m s;
        c \<leftarrow> (if b = [] then None else hd b);
        Some (if c = 0 then FLB_TRUE else FLB_FALSE)
      })"

text \<open>
  \<^verbatim>\<open>while (c == str[--pos]);\<close> with \<open>pos\<close> before the decrement: at 0 the code reads \<^verbatim>\<open>str[-1]\<close>,
  outside the block.
\<close>

fun rtrim_loop :: "block \<Rightarrow> u8 \<Rightarrow> nat \<Rightarrow> nat option" where
  "rtrim_loop b c 0 = None"
| "rtrim_loop b c (Suc pos) = (case b ! pos of None \<Rightarrow> None | Some x \<Rightarrow> if c = x then rtrim_loop b c pos else Some pos)"

definition flb_rtrim :: "allocator \<Rightarrow> ptr \<Rightarrow> u8 \<Rightarrow> mem \<Rightarrow> (ptr \<times> mem) option" where
  "flb_rtrim al str c m = do {
     len \<leftarrow> strlen str m;
     b \<leftarrow> blocks m str;
     pos \<leftarrow> rtrim_loop b c len;
     if int pos < 0 then Some (NULL, m) else flb_strndup al str (of_nat pos + 1) m
   }"

section \<open>flb_sds.h\<close>

text \<open>
  A string object is a packed header of two 64-bit fields followed by the bytes; the value of type
  \<^verbatim>\<open>flb_sds_t\<close> points to the bytes, 16 after the header.
\<close>

definition FLB_SDS_HEADER_SIZE :: nat where "FLB_SDS_HEADER_SIZE = 8 + 8"

record flb_sds =
  sds_len' :: u64
  sds_alloc' :: u64
  sds_buf :: block

type_synonym sds_heap = "ptr \<rightharpoonup> flb_sds"

definition FLB_SDS_HEADER :: "ptr \<Rightarrow> ptr option" where
  "FLB_SDS_HEADER s = (if s < FLB_SDS_HEADER_SIZE then None else Some (s - FLB_SDS_HEADER_SIZE))"

definition sds_header :: "sds_heap \<Rightarrow> ptr \<Rightarrow> flb_sds option" where
  "sds_header h s = Option.bind (FLB_SDS_HEADER s) h"

definition flb_sds_len :: "ptr \<Rightarrow> sds_heap \<Rightarrow> size_t option" where
  "flb_sds_len s h = map_option sds_len' (sds_header h s)"

definition flb_sds_is_empty :: "ptr \<Rightarrow> sds_heap \<Rightarrow> int option" where
  "flb_sds_is_empty s h = do { n \<leftarrow> flb_sds_len s h; Some (if n = 0 then FLB_TRUE else FLB_FALSE) }"

definition flb_sds_len_set :: "ptr \<Rightarrow> size_t \<Rightarrow> sds_heap \<Rightarrow> sds_heap option" where
  "flb_sds_len_set s len h = do {
     p \<leftarrow> FLB_SDS_HEADER s;
     o' \<leftarrow> h p;
     Some (h(p \<mapsto> o'\<lparr>sds_len' := len\<rparr>))
   }"

definition flb_sds_alloc :: "ptr \<Rightarrow> sds_heap \<Rightarrow> size_t option" where
  "flb_sds_alloc s h = map_option sds_alloc' (sds_header h s)"

definition flb_sds_avail :: "ptr \<Rightarrow> sds_heap \<Rightarrow> size_t option" where
  "flb_sds_avail s h = map_option (\<lambda>o'. sds_alloc' o' - sds_len' o') (sds_header h s)"

text \<open>
  \<^verbatim>\<open>strncmp\<close> and \<^verbatim>\<open>strncasecmp\<close> on two blocks: at most \<open>n\<close> bytes, up to a common terminator; only the
  sign of the result is specified by the language.  \<open>fold\<close> is the identity or \<^verbatim>\<open>tolower\<close>.
\<close>

fun compare_bytes :: "(u8 \<Rightarrow> u8) \<Rightarrow> nat \<Rightarrow> block \<Rightarrow> block \<Rightarrow> int option" where
  "compare_bytes f 0 a b = Some 0"
| "compare_bytes f (Suc n) (Some x # a) (Some y # b) =
     (if f x \<noteq> f y then Some (if f x < f y then - 1 else 1)
      else if x = 0 then Some 0 else compare_bytes f n a b)"
| "compare_bytes f (Suc n) a b = None"

definition tolower :: "u8 \<Rightarrow> u8" where
  "tolower c = (if 0x41 \<le> c \<and> c \<le> 0x5A then c + 0x20 else c)"

text \<open>The int \<open>len\<close> is converted to the 64-bit type of the length for the comparison.\<close>

definition sds_compare :: "(u8 \<Rightarrow> u8) \<Rightarrow> ptr \<Rightarrow> block \<Rightarrow> int \<Rightarrow> sds_heap \<Rightarrow> int option" where
  "sds_compare f s str len h = do {
     n \<leftarrow> flb_sds_len s h;
     if n \<noteq> word_of_int len then Some (- 1)
     else do {
       o' \<leftarrow> sds_header h s;
       compare_bytes f (unat (word_of_int len :: size_t)) (sds_buf o') str
     }
   }"

definition flb_sds_cmp :: "ptr \<Rightarrow> block \<Rightarrow> int \<Rightarrow> sds_heap \<Rightarrow> int option" where
  "flb_sds_cmp s str len h = sds_compare (\<lambda>c. c) s str len h"

definition flb_sds_casecmp :: "ptr \<Rightarrow> block \<Rightarrow> int \<Rightarrow> sds_heap \<Rightarrow> int option" where
  "flb_sds_casecmp s str len h = sds_compare tolower s str len h"

section \<open>flb_uri.h\<close>

definition FLB_URI_MAX :: nat where "FLB_URI_MAX = 8"

record flb_uri_field =
  uf_length :: size_t
  uf_value :: ptr

record flb_uri =
  uri_full :: ptr
  uri_count :: u8
  uri_list :: ptr
  uri_map :: ptr

text \<open>The parameter is a signed char.\<close>

definition flb_uri_to_encode :: "u8 \<Rightarrow> int" where
  "flb_uri_to_encode c =
     (let c = sint c
      in if (48 \<le> c \<and> c \<le> 57) \<or> (65 \<le> c \<and> c \<le> 90) \<or> (97 \<le> c \<and> c \<le> 122) \<or>
            c = 63 \<or> c = 38 \<or> c = 45 \<or> c = 95 \<or> c = 46 \<or> c = 126 \<or> c = 47 \<or> c = 61
         then FLB_FALSE else FLB_TRUE)"

section \<open>Lemmas\<close>

text \<open>\<open>is_string m p s\<close>: the block at \<open>p\<close> holds the string \<open>s\<close>.\<close>

definition is_string :: "mem \<Rightarrow> ptr \<Rightarrow> u8 list \<Rightarrow> bool" where
  "is_string m p s \<longleftrightarrow> (\<exists>b. blocks m p = Some b \<and> c_chars b = Some s)"

lemma c_charsD:
  "c_chars b = Some s \<Longrightarrow> 0 \<notin> set s \<and> (\<exists>r. b = map Some s @ Some 0 # r)"
  by (induction b arbitrary: s rule: c_chars.induct) (auto split: if_splits)

lemma c_chars_string: "0 \<notin> set s \<Longrightarrow> c_chars (map Some s @ Some 0 # r) = Some s"
  by (induction s) auto

lemma terminated_copy:
  fixes b :: block
  assumes "n \<le> length b"
  shows "(take n b @ drop n (replicate (Suc n) None))[n := Some 0] = take n b @ [Some 0]"
proof -
  have d: "drop n (replicate (Suc n) (None :: u8 option)) = [None]" by (simp only: drop_replicate) simp
  show ?thesis unfolding d using assms by (simp add: list_update_append)
qed

text \<open>Either nothing happens, or the block is a terminated copy of the first \<open>n\<close> bytes.\<close>

definition copied :: "mem \<Rightarrow> ptr \<Rightarrow> mem \<Rightarrow> block \<Rightarrow> bool" where
  "copied m p m' b \<longleftrightarrow> p = NULL \<and> blocks m' = blocks m \<or>
     p \<noteq> NULL \<and> blocks m p = None \<and> blocks m' = (blocks m)(p \<mapsto> b @ [Some 0])"

lemma flb_strndup_spec:
  assumes al: "fresh_allocator al" and b: "blocks m s = Some b" "unat n \<le> length b"
  shows "\<exists>p m'. flb_strndup al s n m = Some (p, m') \<and> copied m p m' (take (unat n) b)"
proof -
  obtain q m1 where q: "flb_malloc al (n + 1) m = (q, m1)" by fastforce
  note mb = flb_malloc_blocks [OF q al]
  show ?thesis
  proof (cases "q = NULL")
    case True
    then show ?thesis using q mb by (auto simp: flb_strndup_def copied_def)
  next
    case False
    then have sz: "n + 1 \<noteq> 0" "blocks m q = None" "blocks m1 = (blocks m)(q \<mapsto> replicate (unat (n + 1)) None)"
      using mb by auto
    have u: "unat (n + 1) = Suc (unat n)" using sz(1) by (simp add: unatSuc add.commute)
    have ne: "s \<noteq> q" using b sz(2) by auto
    define m2 where "m2 = m1\<lparr>blocks := (blocks m1)(q \<mapsto> take (unat n) b @ drop (unat n) (replicate (Suc (unat n)) None))\<rparr>"
    have "memcpy q s (unat n) m1 = Some m2"
      using ne sz(3) b u by (simp add: memcpy_def m2_def del: replicate_Suc)
    moreover have "store_byte q (unat n) 0 m2 =
        Some (m2\<lparr>blocks := (blocks m2)(q \<mapsto> take (unat n) b @ [Some 0])\<rparr>)"
      using b(2) terminated_copy [OF b(2)] by (simp add: store_byte_def m2_def del: replicate_Suc)
    ultimately show ?thesis using q False sz(2,3)
      by (simp add: flb_strndup_def copied_def m2_def)
  qed
qed

lemma strlen_string:
  assumes "is_string m p s"
  shows "strlen p m = Some (length s)"
  using assms by (auto simp: is_string_def strlen_def)

text \<open>The trimming loop stops behind the last character that is not \<open>c\<close>.\<close>

lemma rtrim_loop_string:
  assumes "n \<le> length s"
  shows "rtrim_loop (map Some s @ r) c n =
    (let t = dropWhile ((=) c) (rev (take n s)) in if t = [] then None else Some (length t - 1))"
  using assms
proof (induction n)
  case (Suc n)
  have "take (Suc n) s = take n s @ [s ! n]" using Suc.prems by (simp add: take_Suc_conv_app_nth)
  moreover have "(map Some s @ r) ! n = Some (s ! n)" using Suc.prems by (simp add: nth_append)
  moreover have "rtrim_loop (map Some s @ r) c n =
    (let t = dropWhile ((=) c) (rev (take n s)) in if t = [] then None else Some (length t - 1))"
    using Suc by simp
  ultimately show ?case using Suc.prems by (cases "s ! n = c") auto
qed simp

definition rtrimmed :: "u8 \<Rightarrow> u8 list \<Rightarrow> u8 list" where
  "rtrimmed c s = rev (dropWhile ((=) c) (rev s))"

lemma rtrimmed_prefix: "\<exists>t. s = rtrimmed c s @ t"
proof -
  have "rev s = takeWhile ((=) c) (rev s) @ dropWhile ((=) c) (rev s)" by simp
  then have "s = rev (dropWhile ((=) c) (rev s)) @ rev (takeWhile ((=) c) (rev s))"
    by (metis rev_append rev_rev_ident)
  then show ?thesis unfolding rtrimmed_def by blast
qed

lemma compare_bytes_equal:
  assumes that: "\<And>c. f c = 0 \<longleftrightarrow> c = 0" and "length x = n" "length y = n"
  shows "\<exists>r. compare_bytes f n (map Some x @ p) (map Some y @ q) = Some r \<and>
    (r = 0 \<longleftrightarrow> map f (takeWhile (\<lambda>c. c \<noteq> 0) x) = map f (takeWhile (\<lambda>c. c \<noteq> 0) y))"
  using assms(2,3)
proof (induction n arbitrary: x y)
  case (Suc n)
  obtain a x' where x: "x = a # x'" "length x' = n" using Suc.prems(1) by (cases x) auto
  obtain b y' where y: "y = b # y'" "length y' = n" using Suc.prems(2) by (cases y) auto
  have "f a = f b \<Longrightarrow> a = 0 \<longleftrightarrow> b = 0" using that by metis
  then show ?case using Suc.IH [OF x(2) y(2)] x y by auto
qed simp

section \<open>Properties\<close>

text \<open>
  Copies of strings.  On a terminated string \<^verbatim>\<open>flb_strdup\<close> returns: null with the heap
  unchanged when the allocation fails, else a new block that is no longer than needed and holds
  the same string, every other block being untouched.
\<close>

lemma strdup_correct:
  assumes "fresh_allocator al" "is_string m p s" "length s < 2 ^ 64"
  shows "\<exists>q m'. flb_strdup al p m = Some (q, m') \<and>
    (if q = NULL then blocks m' = blocks m
     else blocks m q = None \<and> blocks m' = (blocks m)(q \<mapsto> map Some s @ [Some 0]) \<and> is_string m' q s)"
proof -
  obtain b where b: "blocks m p = Some b" "c_chars b = Some s" using assms(2) by (auto simp: is_string_def)
  then obtain r where r: "0 \<notin> set s" "b = map Some s @ Some 0 # r" using c_charsD by blast
  have n: "unat (of_nat (length s) :: size_t) = length s" using assms(3) by (simp add: unat_of_nat)
  have "unat (of_nat (length s) :: size_t) \<le> length b" using n r(2) by simp
  from flb_strndup_spec [OF assms(1) b(1) this] obtain q m' where
    q: "flb_strndup al p (of_nat (length s)) m = Some (q, m')" "copied m q m' (map Some s)"
    using n r(2) by auto
  then show ?thesis using r(1) strlen_string [OF assms(2)] c_chars_string [of s "[]"]
    by (auto simp: flb_strdup_def copied_def is_string_def)
qed

text \<open>A heap with the string "ab//" at 64.\<close>

definition example_string_mem :: mem where
  "example_string_mem = \<lparr>blocks = [64 \<mapsto> [Some 0x61, Some 0x62, Some 0x2F, Some 0x2F, Some 0, None]], calls = 0\<rparr>"

lemma example_string: "is_string example_string_mem 64 [0x61, 0x62, 0x2F, 0x2F]"
  by (simp add: is_string_def example_string_mem_def)

lemma constant_allocator: "fresh_allocator (\<lambda>m _. if blocks m 128 = None then 128 else 0)"
  by (auto simp: fresh_allocator_def)

lemma strdup_correct_witness:
  "\<exists>q m'. flb_strdup (\<lambda>m _. if blocks m 128 = None then 128 else 0) 64 example_string_mem = Some (q, m') \<and>
     (q \<noteq> NULL \<longrightarrow> is_string m' q [0x61, 0x62, 0x2F, 0x2F])"
  using strdup_correct [OF constant_allocator example_string] by fastforce

text \<open>
  C32: trimming.  \<^verbatim>\<open>flb_rtrim\<close> of a string with a character other than \<open>c\<close> returns null with the
  heap unchanged, or a new string without the trailing characters \<open>c\<close>.  On a string of \<open>c\<close> only,
  the empty string included, the loop reads the byte before the string: the case its test for a
  negative position was written for is undefined.
\<close>

theorem rtrim_correct:
  assumes "fresh_allocator al" "is_string m p s" "length s < 2 ^ 64"
  shows "if \<forall>x \<in> set s. x = c then flb_rtrim al p c m = None
    else \<exists>q m'. flb_rtrim al p c m = Some (q, m') \<and>
      (if q = NULL then blocks m' = blocks m
       else blocks m q = None \<and> is_string m' q (rtrimmed c s) \<and> (blocks m')(q := None) = blocks m)"
proof -
  obtain b where b: "blocks m p = Some b" "c_chars b = Some s" using assms(2) by (auto simp: is_string_def)
  then obtain r where r: "0 \<notin> set s" "b = map Some s @ Some 0 # r" using c_charsD by blast
  note loop = rtrim_loop_string [of "length s" s "Some 0 # r" c, simplified, folded r(2)]
  note len = strlen_string [OF assms(2)]
  show ?thesis
  proof (cases "\<forall>x \<in> set s. x = c")
    case True
    then have "dropWhile ((=) c) (rev s) = []" by (auto simp: dropWhile_eq_Nil_conv)
    then show ?thesis using True b(1) len loop by (simp add: flb_rtrim_def)
  next
    case False
    define t where "t = rtrimmed c s"
    have tn: "dropWhile ((=) c) (rev s) \<noteq> []" using False by (auto simp: dropWhile_eq_Nil_conv)
    have lt: "length (dropWhile ((=) c) (rev s)) = length t" by (simp add: t_def rtrimmed_def)
    obtain u where u: "s = t @ u" using rtrimmed_prefix t_def by blast
    have t0: "length t \<noteq> 0" using tn lt by auto
    obtain k where "length t = Suc k" using t0 by (cases "length t") auto
    then have "of_nat (length t - 1) + 1 = (of_nat (length t) :: size_t)" by simp
    moreover have n: "unat (of_nat (length t) :: size_t) = length t" using u assms(3) by (simp add: unat_of_nat)
    moreover have "length t \<le> length b" using u r(2) by simp
    ultimately obtain q m' where q: "flb_strndup al p (of_nat (length t - 1) + 1) m = Some (q, m')"
        "copied m q m' (take (length t) b)"
      using flb_strndup_spec [OF assms(1) b(1), of "of_nat (length t)"] by auto
    have "take (length t) b = map Some t" using u r(2) by simp
    moreover have "0 \<notin> set t" using u r(1) by auto
    ultimately show ?thesis
      using False q tn lt loop len b(1) c_chars_string [of t "[]"]
      by (auto simp: flb_rtrim_def Let_def copied_def is_string_def t_def fun_upd_idem)
  qed
qed

theorem rtrim_correct_witness:
  "(\<exists>q m'. flb_rtrim (\<lambda>m _. if blocks m 128 = None then 128 else 0) 64 0x2F example_string_mem = Some (q, m') \<and>
      (q \<noteq> NULL \<longrightarrow> is_string m' q [0x61, 0x62]))"
  using rtrim_correct [OF constant_allocator example_string, of "0x2F"] by (fastforce simp: rtrimmed_def)

text \<open>
  C40: comparison.  \<^verbatim>\<open>flb_sds_cmp\<close> with a string of \<open>len\<close> readable bytes answers -1 when the lengths
  differ, and otherwise 0 exactly when the two agree up to the first 0 byte: strings with a 0
  inside can compare equal although they differ behind it.  \<^verbatim>\<open>flb_sds_casecmp\<close> answers the same
  up to the case of ASCII letters.
\<close>

theorem sds_cmp_correct:
  assumes "FLB_SDS_HEADER s = Some p" "h p = Some o'" "sds_buf o' = map Some x @ xs"
    and "unat (sds_len' o') = length x" "length y = nat len" "0 \<le> len" "len < 2 ^ 31"
  shows "\<exists>r rc. flb_sds_cmp s (map Some y @ ys) len h = Some r \<and> flb_sds_casecmp s (map Some y @ ys) len h = Some rc \<and>
    (if length x \<noteq> length y then r = - 1 \<and> rc = - 1
     else (r = 0 \<longleftrightarrow> takeWhile (\<lambda>c. c \<noteq> 0) x = takeWhile (\<lambda>c. c \<noteq> 0) y) \<and>
       (rc = 0 \<longleftrightarrow> map tolower (takeWhile (\<lambda>c. c \<noteq> 0) x) = map tolower (takeWhile (\<lambda>c. c \<noteq> 0) y)))"
proof -
  have "take_bit 64 len = len" using assms(6,7) by (simp add: take_bit_int_eq_self)
  then have u: "unat (word_of_int len :: size_t) = length y" using assms(5) by (simp add: unsigned_of_int)
  have hd: "sds_header h s = Some o'" "flb_sds_len s h = Some (sds_len' o')"
    using assms(1,2) by (simp_all add: sds_header_def flb_sds_len_def)
  have ne: "sds_len' o' \<noteq> word_of_int len \<longleftrightarrow> length x \<noteq> length y"
    using assms(4) u by (metis word_unat_eq_iff)
  have low: "tolower c = 0 \<longleftrightarrow> c = 0" for c
  proof -
    have "c + 0x20 = 0 \<Longrightarrow> c = - 0x20" by (simp add: eq_neg_iff_add_eq_0)
    then show ?thesis by (auto simp: tolower_def)
  qed
  show ?thesis
  proof (cases "length x = length y")
    case True
    from compare_bytes_equal [of "\<lambda>c. c", OF _ True refl, of xs ys]
      compare_bytes_equal [of tolower, OF low True refl, of xs ys]
    show ?thesis using True ne hd u assms(3)
      by (auto simp: flb_sds_cmp_def flb_sds_casecmp_def sds_compare_def)
  next
    case False
    then show ?thesis using ne hd by (simp add: flb_sds_cmp_def flb_sds_casecmp_def sds_compare_def)
  qed
qed

theorem sds_cmp_correct_witness:
  "\<exists>r. flb_sds_cmp 32 [Some 0x61, Some 0, Some 0x63] 3 [16 \<mapsto> \<lparr>sds_len' = 3, sds_alloc' = 8,
       sds_buf = [Some 0x61, Some 0, Some 0x62, Some 0]\<rparr>] = Some r \<and> r = 0"
proof -
  let ?o = "\<lparr>sds_len' = 3, sds_alloc' = 8, sds_buf = [Some 0x61, Some 0, Some 0x62, Some 0]\<rparr> :: flb_sds"
  have "FLB_SDS_HEADER 32 = Some 16" by (simp add: FLB_SDS_HEADER_def FLB_SDS_HEADER_SIZE_def)
  from sds_cmp_correct [of 32 16 "[16 \<mapsto> ?o]" ?o "[0x61, 0, 0x62]" "[Some 0]" "[0x61, 0, 0x63]" 3 "[]", OF this]
  show ?thesis by auto
qed

end
