(* ===== verification/C_Double.thy ===== *)
theory C_Double
  imports Prelude "HOL-Library.Log_Nat"
begin

text \<open>
  The type \<^verbatim>\<open>double\<close> of C as far as the headers compute with it: differences, products with a positive
  integer, and conversions from and to integers, with the rounding of the format and the error it makes.
\<close>

section \<open>Doubles\<close>

text \<open>
  A \<^verbatim>\<open>double\<close> is the binary64 of IEEE 754: a finite number \<open>m * 2 ^ e\<close> with a significand below \<open>2 ^ 53\<close>, or
  one that is not finite.  An operation rounds its exact result to 53 bits, to the nearest number and to
  the even one of two; nothing here leaves the range of the exponents.
\<close>

datatype c_double = Finite (significand: int) (exponent: int) | Infinite bool | Nan

fun wf_double :: "c_double \<Rightarrow> bool" where
  "wf_double (Finite m e) \<longleftrightarrow> \<bar>m\<bar> < 2 ^ 53 \<and> - 1074 \<le> e \<and> e \<le> 971"
| "wf_double _ \<longleftrightarrow> True"

definition round_even :: "int \<Rightarrow> nat \<Rightarrow> int" where
  "round_even m s =
     (let q = m div 2 ^ s; r = m mod 2 ^ s
      in if 2 * r < 2 ^ s \<or> 2 * r = 2 ^ s \<and> even q then q else q + 1)"

definition dbl_round :: "int \<Rightarrow> int \<Rightarrow> c_double" where
  "dbl_round m e = (let s = floorlog 2 (nat \<bar>m\<bar>) - 53 in Finite (round_even m s) (e + int s))"

definition dbl_of_int :: "int \<Rightarrow> c_double" where
  "dbl_of_int i = dbl_round i 0"

fun dbl_sub :: "c_double \<Rightarrow> c_double \<Rightarrow> c_double" where
  "dbl_sub (Finite m e) (Finite n f) =
     (let g = min e f in dbl_round (m * 2 ^ nat (e - g) - n * 2 ^ nat (f - g)) g)"
| "dbl_sub (Infinite a) (Finite _ _) = Infinite a"
| "dbl_sub (Finite _ _) (Infinite b) = Infinite (\<not> b)"
| "dbl_sub (Infinite a) (Infinite b) = (if a = b then Nan else Infinite a)"
| "dbl_sub Nan _ = Nan"
| "dbl_sub _ Nan = Nan"

fun dbl_scale :: "c_double \<Rightarrow> int \<Rightarrow> c_double" where
  "dbl_scale (Finite m e) n = dbl_round (m * n) e"
| "dbl_scale d n = d"

text \<open>Conversion to an integer type of \<open>w\<close> bits cuts the fraction off; out of its range it is undefined.\<close>

definition dbl_trunc :: "int \<Rightarrow> int \<Rightarrow> int" where
  "dbl_trunc m e = (if 0 \<le> e then m * 2 ^ nat e else sgn m * (\<bar>m\<bar> div 2 ^ nat (- e)))"

fun dbl_to_int :: "nat \<Rightarrow> c_double \<Rightarrow> int option" where
  "dbl_to_int w (Finite m e) =
     (let i = dbl_trunc m e in if - (2 ^ (w - 1)) \<le> i \<and> i < 2 ^ (w - 1) then Some i else None)"
| "dbl_to_int w _ = None"

section \<open>Rounding and cutting off\<close>

lemma round_even_error: "2 * \<bar>m - round_even m s * 2 ^ s\<bar> \<le> 2 ^ s"
proof -
  define d where "d = (2 :: int) ^ s"
  have d: "0 < d" by (simp add: d_def)
  have m: "m = m div d * d + m mod d" by simp
  have r: "0 \<le> m mod d" "m mod d < d" using d by simp_all
  show ?thesis
  proof (cases "2 * (m mod d) < d \<or> 2 * (m mod d) = d \<and> even (m div d)")
    case True
    then have "round_even m s = m div d" by (simp add: round_even_def d_def [symmetric] Let_def)
    moreover have "m - m div d * d = m mod d" by (simp add: minus_div_mult_eq_mod)
    ultimately show ?thesis using r True by (auto simp: d_def [symmetric])
  next
    case False
    then have "round_even m s = m div d + 1" by (auto simp: round_even_def d_def [symmetric] Let_def)
    moreover have "m - (m div d + 1) * d = m mod d - d" using m by (simp add: algebra_simps)
    ultimately show ?thesis using r False by (auto simp: d_def [symmetric])
  qed
qed

lemma round_even_sign: "0 \<le> m \<Longrightarrow> 0 \<le> round_even m s" "m \<le> 0 \<Longrightarrow> round_even m s \<le> 0"
proof -
  show "0 \<le> m \<Longrightarrow> 0 \<le> round_even m s" by (simp add: round_even_def Let_def pos_imp_zdiv_nonneg_iff)
  assume m: "m \<le> 0"
  have "m div 2 ^ s \<le> - 1" if "m mod 2 ^ s \<noteq> 0"
  proof -
    have "m \<noteq> 0" using that by auto
    then have "m < 0" using m by simp
    then have "m div 2 ^ s < 0" by (intro pos_imp_zdiv_neg_iff [THEN iffD2]) simp_all
    then show ?thesis by simp
  qed
  moreover have "m div 2 ^ s \<le> 0" using m by (simp add: div_nonpos_pos_le0)
  moreover have "m mod 2 ^ s \<noteq> 0" if "\<not> 2 * (m mod 2 ^ s) < 2 ^ s" using that by auto
  ultimately show "round_even m s \<le> 0" by (auto simp: round_even_def Let_def)
qed

lemma dbl_round_exact [simp]: "\<bar>m\<bar> < 2 ^ 53 \<Longrightarrow> dbl_round m e = Finite m e"
proof -
  assume "\<bar>m\<bar> < 2 ^ 53"
  then have "nat \<bar>m\<bar> < 2 ^ 53" by (simp add: nat_less_iff)
  then have "floorlog 2 (nat \<bar>m\<bar>) \<le> 53" by (intro floorlog_leI) simp_all
  then show ?thesis by (simp add: dbl_round_def round_even_def Let_def)
qed

lemma trunc_error: "\<bar>m - sgn m * (\<bar>m\<bar> div 2 ^ j) * 2 ^ j\<bar> < (2 :: int) ^ j" for m :: int
proof -
  have "\<bar>m\<bar> - \<bar>m\<bar> div 2 ^ j * 2 ^ j = \<bar>m\<bar> mod 2 ^ j" by (simp add: minus_div_mult_eq_mod)
  moreover have "0 \<le> \<bar>m\<bar> mod 2 ^ j" "\<bar>m\<bar> mod 2 ^ j < (2 :: int) ^ j" by simp_all
  ultimately have "\<bar>\<bar>m\<bar> - \<bar>m\<bar> div 2 ^ j * 2 ^ j\<bar> < 2 ^ j" by simp
  moreover have "m - sgn m * (\<bar>m\<bar> div 2 ^ j) * 2 ^ j = sgn m * (\<bar>m\<bar> - \<bar>m\<bar> div 2 ^ j * 2 ^ j)"
    by (simp add: algebra_simps abs_mult_sgn)
  ultimately show ?thesis by (auto simp: abs_mult sgn_if)
qed

lemma abs_near:
  assumes "\<bar>a - x\<bar> < c" "d \<le> c" "2 * \<bar>p - a\<bar> \<le> d"
  shows "\<bar>p - x\<bar> < 2 * (c :: int)"
proof -
  have "2 * y \<le> d \<Longrightarrow> 0 \<le> y \<Longrightarrow> y \<le> c" for y using assms(2) by linarith
  then have "\<bar>p - a\<bar> \<le> c" using assms(3) by simp
  then show ?thesis using assms(1) unfolding abs_le_iff abs_less_iff by simp
qed

end
