(* ===== verification/Flb_Time.thy ===== *)
theory Flb_Time
  imports C_Double
begin

text \<open>
  Time stamps of \<^verbatim>\<open>fluent-bit/flb_time.h\<close>.  \<^verbatim>\<open>time_t\<close> has 64 bits; the width of \<^verbatim>\<open>long\<close> is a parameter where a
  result can depend on it.  \<open>C_Double\<close> has the type \<^verbatim>\<open>double\<close>.
\<close>

section \<open>Structures\<close>

record flb_time =
  tv_sec :: int
  tv_nsec :: int

definition zero_flb_time :: flb_time where
  "zero_flb_time = \<lparr>tv_sec = 0, tv_nsec = 0\<rparr>"

text \<open>The formats of a serialised event time, numbered from 1 as in the enumeration.\<close>

datatype flb_time_eventtime_fmt =
  FLB_TIME_ETFMT_INT | FLB_TIME_ETFMT_V0 | FLB_TIME_ETFMT_V1_EXT | FLB_TIME_ETFMT_V1_FIXEXT | FLB_TIME_ETFMT_OTHER

fun eventtime_fmt_value :: "flb_time_eventtime_fmt \<Rightarrow> int" where
  "eventtime_fmt_value FLB_TIME_ETFMT_INT = 1"
| "eventtime_fmt_value FLB_TIME_ETFMT_V0 = 2"
| "eventtime_fmt_value FLB_TIME_ETFMT_V1_EXT = 3"
| "eventtime_fmt_value FLB_TIME_ETFMT_V1_FIXEXT = 4"
| "eventtime_fmt_value FLB_TIME_ETFMT_OTHER = 5"

section \<open>Operations\<close>

definition flb_time_zero :: "flb_time \<Rightarrow> flb_time" where
  "flb_time_zero tm = tm\<lparr>tv_sec := 0, tv_nsec := 0\<rparr>"

definition flb_time_set :: "int \<Rightarrow> int \<Rightarrow> flb_time \<Rightarrow> flb_time" where
  "flb_time_set sec nsec tm = tm\<lparr>tv_sec := sec, tv_nsec := nsec\<rparr>"

definition flb_time_copy :: "flb_time \<Rightarrow> flb_time \<Rightarrow> flb_time" where
  "flb_time_copy src dst = dst\<lparr>tv_sec := tv_sec src, tv_nsec := tv_nsec src\<rparr>"

text \<open>
  The arithmetic is unsigned, the casts are signed: to \<^verbatim>\<open>long\<close>, of \<open>long_bits\<close> bits (64 on the LP64 targets, 32 on the
  Windows builds that \<^verbatim>\<open>flb_info.h\<close> describes).
\<close>

definition flb_time_from_uint64 :: "nat \<Rightarrow> u64 \<Rightarrow> flb_time \<Rightarrow> flb_time" where
  "flb_time_from_uint64 long_bits value dst =
     (let dst = dst\<lparr>tv_sec := signed_take_bit (long_bits - 1) (uint (value div 1000000000))\<rparr>
      in dst\<lparr>tv_nsec := signed_take_bit (long_bits - 1) (uint (value - word_of_int (tv_sec dst)))\<rparr>)"

text \<open>
  \<open>None\<close> is a conversion out of the range of its type.  The nanoseconds stay below a second, so that the cast to \<^verbatim>\<open>long\<close>
  gives the same with 64 and with 32 bits.
\<close>

definition flb_time_from_double :: "c_double \<Rightarrow> flb_time \<Rightarrow> flb_time option" where
  "flb_time_from_double d dst = do {
     sec \<leftarrow> dbl_to_int 32 d;
     let dst = dst\<lparr>tv_sec := sec\<rparr>;
     nsec \<leftarrow> dbl_to_int 64 (dbl_scale (dbl_sub d (dbl_of_int (tv_sec dst))) 1000000000);
     Some (dst\<lparr>tv_nsec := nsec\<rparr>)
   }"

definition flb_time_equal :: "flb_time \<Rightarrow> flb_time \<Rightarrow> int" where
  "flb_time_equal t0 t1 = (if tv_sec t0 = tv_sec t1 \<and> tv_nsec t0 = tv_nsec t1 then 1 else 0)"

section \<open>Properties\<close>

text \<open>A result cut to \<open>n + 1\<close> bits is the number \<open>r\<close> of that range exactly when both agree modulo \<open>2 ^ (n + 1)\<close>.\<close>

lemma signed_take_bit_eq_iff_dvd:
  assumes "- (2 ^ n) \<le> r" "r < 2 ^ n"
  shows "signed_take_bit n x = r \<longleftrightarrow> 2 ^ Suc n dvd x - (r :: int)"
proof -
  have "signed_take_bit n r = r" using assms by (intro signed_take_bit_int_eq_self)
  then have "signed_take_bit n x = r \<longleftrightarrow> take_bit (Suc n) x = take_bit (Suc n) r"
    using signed_take_bit_eq_iff_take_bit_eq [of n x r] by simp
  then show ?thesis by (simp only: take_bit_eq_mod mod_eq_dvd_iff)
qed

lemma uint_minus_cong:
  assumes "m \<le> 64"
  shows "2 ^ m dvd uint (v - word_of_int s :: u64) - (uint v - s)"
proof -
  have "uint (v - word_of_int s) = take_bit 64 (uint v - s)"
    by (simp add: uint_word_ariths unsigned_of_int take_bit_eq_mod mod_simps)
  moreover have "2 ^ 64 dvd take_bit 64 k - k" for k :: int
    by (simp add: take_bit_eq_mod mod_eq_dvd_iff [symmetric])
  moreover have "(2 :: int) ^ m dvd 2 ^ 64" using assms by (rule le_imp_power_dvd)
  ultimately show ?thesis by (metis dvd_trans)
qed

text \<open>
  C34: nanoseconds since the epoch.  Which values \<^verbatim>\<open>flb_time_from_uint64\<close> splits rightly, for a \<^verbatim>\<open>long\<close> of 64 and of 32
  bits: the seconds while they fit a \<^verbatim>\<open>long\<close>, the nanoseconds only if the seconds are a multiple of the range of \<^verbatim>\<open>long\<close>
  (it subtracts the number of seconds, not their nanoseconds), both exactly for the values below one second.  A value in
  the range of \<^verbatim>\<open>long\<close> gets the nanoseconds \<open>value - q\<close>.
\<close>

theorem time_from_uint64_nanoseconds:
  assumes "long_bits \<in> {32, 64}" "t = flb_time_from_uint64 long_bits value dst" "q = unat value div 1000000000"
  shows "(tv_sec t = int q \<longleftrightarrow> q < 2 ^ (long_bits - 1)) \<and>
    (tv_nsec t = int (unat value mod 1000000000) \<longleftrightarrow> 2 ^ long_bits dvd q) \<and>
    (tv_sec t = int q \<and> tv_nsec t = int (unat value mod 1000000000) \<longleftrightarrow> unat value < 1000000000) \<and>
    (unat value < 2 ^ (long_bits - 1) \<longrightarrow> tv_nsec t = int (unat value) - int q)"
proof -
  let ?n = "long_bits - 1" and ?v = "int (unat value)" and ?r = "int (unat value mod 1000000000)"
  have n: "Suc ?n = long_bits" "long_bits \<le> 64" "31 \<le> ?n" using assms(1) by auto
  have q: "uint (value div 1000000000) = int q"
    by (simp add: assms(3) uint_nat unat_div)
  have sec: "tv_sec t = signed_take_bit ?n (int q)" and nsec: "tv_nsec t = signed_take_bit ?n (uint (value - word_of_int (tv_sec t)))"
    by (simp_all add: assms(2) flb_time_from_uint64_def Let_def q)
  have 1: "tv_sec t = int q \<longleftrightarrow> q < 2 ^ ?n"
  proof -
    have "tv_sec t = int q \<longleftrightarrow> - (2 ^ ?n) \<le> int q \<and> int q < 2 ^ ?n"
      unfolding sec by (rule signed_take_bit_int_eq_self_iff)
    moreover have "- (2 ^ ?n) \<le> int q" by (rule order_trans [of _ 0]) simp_all
    ultimately show ?thesis by (metis of_nat_less_iff of_nat_numeral of_nat_power)
  qed
  have "2 ^ long_bits dvd tv_sec t - int q"
  proof -
    have "take_bit (Suc ?n) (signed_take_bit ?n (int q)) = take_bit (Suc ?n) (int q)"
      by (simp only: signed_take_bit_eq_iff_take_bit_eq [symmetric] signed_take_bit_signed_take_bit min.idem)
    then show ?thesis unfolding sec n(1) by (simp only: take_bit_eq_mod mod_eq_dvd_iff)
  qed
  then have "2 ^ long_bits dvd (uint (value - word_of_int (tv_sec t)) - (uint value - tv_sec t)) - (tv_sec t - int q)"
    using uint_minus_cong [OF n(2), of "value" "tv_sec t"] by (rule dvd_diff [rotated])
  moreover have "(a - (b - s)) - (s - d) = a - (b - d)" for a b s d :: int by simp
  ultimately have c: "2 ^ long_bits dvd uint (value - word_of_int (tv_sec t)) - (?v - int q)" by (simp only: uint_nat)
  have near: "tv_nsec t = x \<longleftrightarrow> 2 ^ long_bits dvd (?v - int q) - x" if "0 \<le> x" "x < 2 ^ ?n" for x
  proof -
    have "- (2 ^ ?n) \<le> x" using that(1) by (rule order_trans [rotated]) simp
    then have "tv_nsec t = x \<longleftrightarrow> 2 ^ long_bits dvd uint (value - word_of_int (tv_sec t)) - x"
      unfolding nsec using signed_take_bit_eq_iff_dvd [of ?n x] that(2) n(1) by metis
    moreover have "2 ^ long_bits dvd b - x" if "2 ^ long_bits dvd a - x" "2 ^ long_bits dvd a - b" for a b :: int
      using dvd_diff [OF that] by simp
    moreover have "2 ^ long_bits dvd a - x" if "2 ^ long_bits dvd b - x" "2 ^ long_bits dvd a - b" for a b :: int
      using dvd_add [OF that] by simp
    ultimately show ?thesis using c by blast
  qed
  have r: "?r < 2 ^ ?n"
  proof -
    have "?r < 2 ^ 31" by simp
    also have "\<dots> \<le> 2 ^ ?n" using n(3) by (rule power_increasing) simp
    finally show ?thesis .
  qed
  have "?v = int (q * 1000000000 + unat value mod 1000000000)" unfolding assms(3) by (simp only: div_mult_mod_eq)
  then have v: "?v = int q * 1000000000 + ?r" by (simp only: of_nat_add of_nat_mult of_nat_numeral)
  have "tv_nsec t = ?r \<longleftrightarrow> 2 ^ long_bits dvd 999999999 * int q"
    using near [of ?r] r v by (simp add: algebra_simps)
  moreover have "2 ^ long_bits dvd 999999999 * int q \<longleftrightarrow> 2 ^ long_bits dvd int q"
    by (rule coprime_dvd_mult_right_iff) simp
  moreover have "2 ^ long_bits dvd int q \<longleftrightarrow> 2 ^ long_bits dvd q" by (metis of_nat_dvd_iff of_nat_numeral of_nat_power)
  ultimately have 2: "tv_nsec t = ?r \<longleftrightarrow> 2 ^ long_bits dvd q" by simp
  have "q < 2 ^ ?n \<and> 2 ^ long_bits dvd q \<longleftrightarrow> q = 0"
  proof -
    have "(2 :: nat) ^ ?n < 2 ^ long_bits" using n by (intro power_strict_increasing) simp_all
    moreover have "2 ^ long_bits \<le> q" if "2 ^ long_bits dvd q" "q \<noteq> 0" using that by (simp add: dvd_imp_le)
    ultimately show ?thesis by (cases "q = 0") (simp, meson le_less_trans less_irrefl less_trans)
  qed
  moreover have "q = 0 \<longleftrightarrow> unat value < 1000000000" by (simp add: assms(3) div_eq_0_iff)
  moreover have "tv_nsec t = ?v - int q" if "unat value < 2 ^ ?n"
  proof -
    have "int (unat value) < int (2 ^ ?n)" using that by (simp only: of_nat_less_iff)
    moreover have "int q \<le> ?v" by (simp only: of_nat_le_iff assms(3) div_le_dividend)
    ultimately have "0 \<le> ?v - int q" "?v - int q < 2 ^ ?n" by simp_all
    then have "tv_nsec t = ?v - int q \<longleftrightarrow> 2 ^ long_bits dvd (?v - int q) - (?v - int q)" by (rule near)
    then show ?thesis by (simp only: diff_self dvd_0_right)
  qed
  ultimately show ?thesis using 1 2 by blast
qed

theorem time_from_uint64_nanoseconds_witness:
  "tv_nsec (flb_time_from_uint64 64 2500000000 zero_flb_time) \<noteq> 500000000 \<and>
   tv_nsec (flb_time_from_uint64 32 2500000000 zero_flb_time) \<noteq> 500000000 \<and>
   tv_nsec (flb_time_from_uint64 32 1500000000 zero_flb_time) = 1499999999 \<and>
   tv_sec (flb_time_from_uint64 32 3000000000000000000 zero_flb_time) \<noteq> 3000000000 \<and>
   tv_sec (flb_time_from_uint64 64 3000000000000000000 zero_flb_time) = 3000000000"
  using time_from_uint64_nanoseconds [of 64 _ 2500000000 zero_flb_time 2]
    time_from_uint64_nanoseconds [of 32 _ 2500000000 zero_flb_time 2]
    time_from_uint64_nanoseconds [of 32 _ 1500000000 zero_flb_time 1]
    time_from_uint64_nanoseconds [of 32 _ 3000000000000000000 zero_flb_time 3000000000]
    time_from_uint64_nanoseconds [of 64 _ 3000000000000000000 zero_flb_time 3000000000]
  by simp
text \<open>The nanoseconds of the fraction \<open>r / 2 ^ k\<close>: the rounded product keeps below a second.\<close>

lemma scaled_fraction:
  assumes r: "\<bar>r\<bar> < 2 ^ k" "\<bar>r\<bar> < 2 ^ 53" and k: "0 < k"
  shows "\<exists>n. dbl_to_int 64 (dbl_scale (Finite r (- int k)) 1000000000) = Some n \<and> \<bar>n\<bar> < 1000000000 \<and>
    (0 \<le> r \<longrightarrow> 0 \<le> n) \<and> (r \<le> 0 \<longrightarrow> n \<le> 0) \<and> \<bar>r * 1000000000 - n * 2 ^ k\<bar> < 2 * 2 ^ k"
proof -
  define P where "P = r * 1000000000"
  define s where "s = floorlog 2 (nat \<bar>P\<bar>) - 53"
  define M where "M = round_even P s"
  have "\<bar>r\<bar> < 2 ^ min k 53" using r by (simp add: min_def)
  then have "\<bar>P\<bar> < 2 ^ 30 * 2 ^ min k 53" by (simp add: P_def abs_mult)
  then have "\<bar>P\<bar> < 2 ^ (30 + min k 53)" by (simp add: power_add)
  then have "nat \<bar>P\<bar> < 2 ^ (30 + min k 53)" by (simp add: nat_less_iff)
  then have "floorlog 2 (nat \<bar>P\<bar>) \<le> 30 + min k 53" by (intro floorlog_leI) simp_all
  then have s: "s \<le> 30" "s < k" using k by (simp_all add: s_def min_def split: if_splits)
  then have s30: "(2 :: int) ^ s \<le> 1073741824" using power_increasing [of s 30 "2 :: int"] by simp
  define j where "j = k - s"
  have kj: "(2 :: int) ^ k = 2 ^ j * 2 ^ s" using s(2) by (simp add: j_def power_add [symmetric])
  define n where "n = sgn M * (\<bar>M\<bar> div 2 ^ j)"
  have "- int k + int s = - int j" "0 < j" using s(2) by (simp_all add: j_def)
  then have trunc: "dbl_trunc M (- int k + int s) = n" by (simp add: dbl_trunc_def n_def)
  have err: "2 * \<bar>P - M * 2 ^ s\<bar> \<le> 2 ^ s" unfolding M_def by (rule round_even_error)
  have "\<bar>P\<bar> \<le> 1000000000 * 2 ^ k - 1000000000" using r(1) by (simp add: P_def abs_mult)
  moreover have "\<bar>a\<bar> < c" if "\<bar>b\<bar> \<le> c - 1000000000" "2 * \<bar>b - a\<bar> \<le> d" "d \<le> 1073741824" for a b c d :: int
  proof -
    have "\<bar>b - a\<bar> \<le> 536870912" using that(2,3) by simp
    then show ?thesis using that(1) unfolding abs_le_iff abs_less_iff by simp
  qed
  ultimately have "\<bar>M * 2 ^ s\<bar> < 1000000000 * 2 ^ k" using err s30 by blast
  then have "\<bar>M\<bar> * 2 ^ s < 1000000000 * 2 ^ j * 2 ^ s" by (simp add: kj abs_mult mult.assoc)
  then have "\<bar>M\<bar> < 1000000000 * 2 ^ j" by (simp add: mult_less_cancel_right)
  moreover have "\<bar>M\<bar> div 2 ^ j * 2 ^ j \<le> \<bar>M\<bar>" by (simp add: minus_mod_eq_div_mult [symmetric])
  ultimately have "\<bar>M\<bar> div 2 ^ j * 2 ^ j < 1000000000 * 2 ^ j" by (rule order_le_less_trans [rotated])
  then have "\<bar>M\<bar> div 2 ^ j < 1000000000" by simp
  moreover have "0 \<le> \<bar>M\<bar> div 2 ^ j" by (simp add: pos_imp_zdiv_nonneg_iff)
  moreover have "\<bar>sgn M * d\<bar> < 1000000000" if "d < 1000000000" "0 \<le> d" for d using that by (auto simp: sgn_if)
  ultimately have n: "\<bar>n\<bar> < 1000000000" unfolding n_def by blast
  have "\<bar>M - n * 2 ^ j\<bar> * 2 ^ s < 2 ^ j * 2 ^ s"
    unfolding n_def by (intro mult_strict_right_mono trunc_error) simp
  moreover have "\<bar>M * 2 ^ s - n * 2 ^ k\<bar> = \<bar>M - n * 2 ^ j\<bar> * 2 ^ s"
    by (simp add: kj abs_mult_pos left_diff_distrib mult.assoc)
  ultimately have "\<bar>M * 2 ^ s - n * 2 ^ k\<bar> < 2 ^ k" by (simp add: kj)
  moreover have "(2 :: int) ^ s \<le> 2 ^ k" using s(2) by (intro power_increasing) simp_all
  ultimately have acc: "\<bar>P - n * 2 ^ k\<bar> < 2 * 2 ^ k" using err by (intro abs_near)
  have "0 \<le> r \<longrightarrow> 0 \<le> M" "r \<le> 0 \<longrightarrow> M \<le> 0"
    using round_even_sign [of P s] by (auto simp: P_def M_def)
  then have sg: "0 \<le> r \<longrightarrow> 0 \<le> n" "r \<le> 0 \<longrightarrow> n \<le> 0"
    using \<open>0 \<le> \<bar>M\<bar> div 2 ^ j\<close> by (auto simp: n_def sgn_if mult_le_0_iff zero_le_mult_iff)
  have "- (2 ^ 63) \<le> n" "n < 2 ^ 63" using n by simp_all
  then have "dbl_to_int 64 (dbl_scale (Finite r (- int k)) 1000000000) = Some n"
    using trunc by (simp add: dbl_round_def Let_def P_def [symmetric] s_def [symmetric] M_def [symmetric])
  then show ?thesis using n sg acc unfolding P_def by blast
qed

text \<open>
  C33: time stamps from a \<^verbatim>\<open>double\<close>.  The conversion of \<open>m * 2 ^ e\<close> is defined exactly when the whole seconds fit
  an \<^verbatim>\<open>int\<close>, not the wider \<^verbatim>\<open>time_t\<close> they are stored in.  Then the seconds are the number without its
  fraction, the nanoseconds stay below a second in spite of the rounding, have the sign of the number, and
  seconds and nanoseconds together are less than two nanoseconds away from it.
\<close>

theorem time_from_double_correct:
  assumes "wf_double (Finite m e)"
  shows "case flb_time_from_double (Finite m e) dst of
      None \<Rightarrow> dbl_trunc m e \<notin> {- (2 ^ 31) ..< 2 ^ 31}
    | Some t \<Rightarrow> dbl_trunc m e \<in> {- (2 ^ 31) ..< 2 ^ 31} \<and> tv_sec t = dbl_trunc m e \<and>
        \<bar>tv_nsec t\<bar> < 1000000000 \<and> 0 \<le> m * tv_nsec t \<and>
        \<bar>m * 1000000000 * 2 ^ nat e - (tv_sec t * 1000000000 + tv_nsec t) * 2 ^ nat (- e)\<bar> < 2 * 2 ^ nat (- e)"
proof (cases "dbl_trunc m e \<in> {- (2 ^ 31) ..< 2 ^ 31}")
  case False
  then show ?thesis by (auto simp: flb_time_from_double_def Let_def)
next
  case True
  define sec where "sec = dbl_trunc m e"
  have sec: "- (2 ^ 31) \<le> sec" "sec < 2 ^ 31" using True by (simp_all add: sec_def)
  have m: "\<bar>m\<bar> < 2 ^ 53" using assms by simp
  have i: "dbl_of_int sec = Finite sec 0" using sec by (simp add: dbl_of_int_def)
  have ex: "\<exists>n. dbl_to_int 64 (dbl_scale (dbl_sub (Finite m e) (dbl_of_int sec)) 1000000000) = Some n \<and>
      \<bar>n\<bar> < 1000000000 \<and> 0 \<le> m * n \<and>
      \<bar>m * 1000000000 * 2 ^ nat e - (sec * 1000000000 + n) * 2 ^ nat (- e)\<bar> < 2 * 2 ^ nat (- e)"
  proof (cases "0 \<le> e")
    case True
    then have "sec = m * 2 ^ nat e" by (simp add: sec_def dbl_trunc_def)
    then show ?thesis using True i by (simp add: dbl_trunc_def Let_def)
  next
    case False
    define k where "k = nat (- e)"
    define r where "r = m - sec * 2 ^ k"
    have k: "0 < k" "e = - int k" using False by (simp_all add: k_def)
    have s: "sec = sgn m * (\<bar>m\<bar> div 2 ^ k)" using k by (simp add: sec_def dbl_trunc_def)
    have "r = sgn m * (\<bar>m\<bar> mod 2 ^ k)" 
      by (simp add: r_def s minus_div_mult_eq_mod [symmetric] algebra_simps abs_mult_sgn)
    moreover have "\<bar>m\<bar> mod 2 ^ k \<le> \<bar>m\<bar>" "0 \<le> \<bar>m\<bar> mod 2 ^ k" "\<bar>m\<bar> mod 2 ^ k < 2 ^ k" by (simp_all add: zmod_le_nonneg_dividend)
    ultimately have r: "\<bar>r\<bar> < 2 ^ k" "\<bar>r\<bar> < 2 ^ 53" "0 \<le> m \<longrightarrow> 0 \<le> r" "m \<le> 0 \<longrightarrow> r \<le> 0"
      using m by (auto simp: abs_mult sgn_if)
    have sub: "dbl_sub (Finite m e) (dbl_of_int sec) = Finite r (- int k)"
      using k i r(2) by (simp add: r_def Let_def)
    obtain n where n: "dbl_to_int 64 (dbl_scale (Finite r (- int k)) 1000000000) = Some n" "\<bar>n\<bar> < 1000000000"
      "0 \<le> r \<longrightarrow> 0 \<le> n" "r \<le> 0 \<longrightarrow> n \<le> 0" "\<bar>r * 1000000000 - n * 2 ^ k\<bar> < 2 * 2 ^ k"
      using scaled_fraction [OF r(1,2) k(1)] by blast
    have "0 \<le> m * n" using r(3,4) n(3,4) by (auto simp: zero_le_mult_iff)
    moreover have "m * 1000000000 - (sec * 1000000000 + n) * 2 ^ k = r * 1000000000 - n * 2 ^ k"
      by (simp add: r_def algebra_simps)
    ultimately show ?thesis using n sub k by (intro exI [of _ n]) simp
  qed
  then obtain n where "dbl_to_int 64 (dbl_scale (dbl_sub (Finite m e) (dbl_of_int sec)) 1000000000) = Some n"
    "\<bar>n\<bar> < 1000000000" "0 \<le> m * n"
    "\<bar>m * 1000000000 * 2 ^ nat e - (sec * 1000000000 + n) * 2 ^ nat (- e)\<bar> < 2 * 2 ^ nat (- e)" by blast
  moreover have "dbl_to_int 32 (Finite m e) = Some sec" using True by (simp add: sec_def Let_def)
  ultimately show ?thesis using True by (simp add: flb_time_from_double_def sec_def)
qed

theorem time_from_double_correct_witness:
  "\<exists>t. flb_time_from_double (Finite (- 3) (- 1)) zero_flb_time = Some t \<and> tv_sec t = - 1 \<and>
     \<bar>tv_nsec t + 500000000\<bar> < 2"
proof -
  have "dbl_trunc (- 3) (- 1) = - 1" by (simp add: dbl_trunc_def)
  then show ?thesis
    using time_from_double_correct [of "- 3" "- 1" zero_flb_time] by (auto split: option.splits simp: mult_le_0_iff)
qed

end
