(* ===== verification/Flb_Byteswap.thy ===== *)
theory Flb_Byteswap
  imports Prelude
begin

text \<open>
  The portable byte swaps of \<^verbatim>\<open>fluent-bit/flb_byteswap.h\<close>, written with a union of an integer and its
  bytes.  The order of the bytes in memory is a parameter: \<open>little\<close> for a little-endian target.
\<close>

section \<open>The union\<close>

definition byte_of :: "'a::len word \<Rightarrow> nat \<Rightarrow> u8" where
  "byte_of w i = ucast (drop_bit (8 * i) w)"

definition le_word :: "u8 list \<Rightarrow> 'a::len word" where
  "le_word bs = foldr (\<lambda>b w. ucast b OR push_bit 8 w) bs 0"

text \<open>The bytes \<^verbatim>\<open>raw[0]\<close>, \<^verbatim>\<open>raw[1]\<close>, ... of an integer of \<open>n\<close> bytes, and the integer of bytes.\<close>

definition to_raw :: "bool \<Rightarrow> nat \<Rightarrow> 'a::len word \<Rightarrow> u8 list" where
  "to_raw little n w = (let bs = map (byte_of w) [0..<n] in if little then bs else rev bs)"

definition from_raw :: "bool \<Rightarrow> u8 list \<Rightarrow> 'a::len word" where
  "from_raw little bs = le_word (if little then bs else rev bs)"

section \<open>The swaps\<close>

definition FLB_BSWAP_16 :: "bool \<Rightarrow> u16 \<Rightarrow> u16" where
  "FLB_BSWAP_16 little value =
     (let output = to_raw little 2 value; input = to_raw little 2 value;
          output = output[0 := input ! 1];
          output = output[1 := input ! 0]
      in from_raw little output)"

definition FLB_BSWAP_32 :: "bool \<Rightarrow> u32 \<Rightarrow> u32" where
  "FLB_BSWAP_32 little value =
     (let output = to_raw little 4 value; input = to_raw little 4 value;
          output = output[0 := input ! 3];
          output = output[1 := input ! 2];
          output = output[2 := input ! 1];
          output = output[3 := input ! 0]
      in from_raw little output)"

definition FLB_BSWAP_64 :: "bool \<Rightarrow> u64 \<Rightarrow> u64" where
  "FLB_BSWAP_64 little value =
     (let output = to_raw little 8 value; input = to_raw little 8 value;
          output = output[0 := input ! 7];
          output = output[1 := input ! 6];
          output = output[2 := input ! 5];
          output = output[3 := input ! 4];
          output = output[4 := input ! 3];
          output = output[5 := input ! 2];
          output = output[6 := input ! 1];
          output = output[7 := input ! 0]
      in from_raw little output)"

section \<open>Correctness\<close>

text \<open>Assigning every byte from the other end reverses the bytes, whatever their order in memory.\<close>

lemma bswap_rev:
  "FLB_BSWAP_16 little x = le_word (rev (map (byte_of x) [0..<2]))"
  "FLB_BSWAP_32 little y = le_word (rev (map (byte_of y) [0..<4]))"
  "FLB_BSWAP_64 little z = le_word (rev (map (byte_of z) [0..<8]))"
  by (cases little; simp add: FLB_BSWAP_16_def FLB_BSWAP_32_def FLB_BSWAP_64_def to_raw_def from_raw_def Let_def
      upt_rec numeral_eq_Suc)+

lemma byte_of_le_word:
  assumes "i < length bs" "8 * length bs \<le> LENGTH('a)"
  shows "byte_of (le_word bs :: 'a::len word) i = bs ! i"
  using assms
proof (induction bs arbitrary: i)
  case (Cons b bs)
  have le: "le_word (b # bs) = (ucast b OR push_bit 8 (le_word bs) :: 'a word)" by (simp add: le_word_def)
  show ?case
  proof (cases i)
    case 0
    have "bit (byte_of (le_word (b # bs) :: 'a word) 0) n = bit b n" if "n < 8" for n
      using that Cons.prems(2) by (auto simp: byte_of_def le bit_simps)
    then show ?thesis using 0 by (auto intro: bit_word_eqI)
  next
    case (Suc j)
    have "bit (byte_of (le_word (b # bs) :: 'a word) (Suc j)) n = bit (byte_of (le_word bs :: 'a word) j) n" if "n < 8" for n
    proof -
      have "\<not> bit b (8 * Suc j + n)" by (rule notI) (drule bit_imp_le_length, simp)
      moreover have "8 * Suc j + n < LENGTH('a)" using Cons.prems Suc that by auto
      ultimately show ?thesis using that by (simp add: byte_of_def le bit_simps)
    qed
    then have "byte_of (le_word (b # bs) :: 'a word) (Suc j) = byte_of (le_word bs :: 'a word) j"
      by (auto intro: bit_word_eqI)
    then show ?thesis using Suc Cons by simp
  qed
qed simp

lemma word_eq_bytes:
  fixes x y :: "'a::len word"
  assumes "\<And>i. i < n \<Longrightarrow> byte_of x i = byte_of y i" "LENGTH('a) = 8 * n"
  shows "x = y"
proof (rule bit_word_eqI)
  fix k assume k: "k < LENGTH('a)"
  have kn: "k = 8 * (k div 8) + k mod 8" "k div 8 < n" using k assms(2) by auto
  have "bit (byte_of w (k div 8)) (k mod 8) = bit w k" for w :: "'a word"
    using kn(1) by (simp add: byte_of_def bit_simps)
  then show "bit x k \<longleftrightarrow> bit y k" using assms(1) [OF kn(2)] by metis
qed

section \<open>What a byte swap promises\<close>

text \<open>A family of functions, one for each byte order, that reverse the \<open>n\<close> bytes of an integer.\<close>

locale byte_swap =
  fixes n :: nat and swap :: "bool \<Rightarrow> 'a::len word \<Rightarrow> 'a word"
  assumes width: "LENGTH('a) = 8 * n"
    and bytes: "i < n \<Longrightarrow> byte_of (swap little x) i = byte_of x (n - 1 - i)"
begin

lemma swap_swap: "swap little (swap little' x) = x"
  by (rule word_eq_bytes [OF _ width]) (simp add: bytes)

lemma order_irrelevant: "swap little x = swap little' x"
  by (rule word_eq_bytes [OF _ width]) (simp add: bytes)

lemma swap_eq_iff: "swap little x = swap little' y \<longleftrightarrow> x = y"
  by (metis swap_swap order_irrelevant)

end

interpretation swap16: byte_swap 2 FLB_BSWAP_16
  by unfold_locales (simp_all add: bswap_rev byte_of_le_word rev_nth)

interpretation swap32: byte_swap 4 FLB_BSWAP_32
  by unfold_locales (simp_all add: bswap_rev byte_of_le_word rev_nth)

interpretation swap64: byte_swap 8 FLB_BSWAP_64
  by unfold_locales (simp_all add: bswap_rev byte_of_le_word rev_nth)

text \<open>
  Byte swaps.  On targets of either byte order the result of each swap has the bytes of its
  argument in reverse; so the two orders agree, and swapping twice gives the argument back.
\<close>

lemma bswap_reverses:
  "(i < 2 \<longrightarrow> byte_of (FLB_BSWAP_16 little x) i = byte_of x (1 - i)) \<and>
   (i < 4 \<longrightarrow> byte_of (FLB_BSWAP_32 little y) i = byte_of y (3 - i)) \<and>
   (i < 8 \<longrightarrow> byte_of (FLB_BSWAP_64 little z) i = byte_of z (7 - i)) \<and>
   FLB_BSWAP_16 little (FLB_BSWAP_16 little' x) = x \<and>
   FLB_BSWAP_32 little (FLB_BSWAP_32 little' y) = y \<and>
   FLB_BSWAP_64 little (FLB_BSWAP_64 little' z) = z"
  using swap16.bytes [of i little x] swap32.bytes [of i little y] swap64.bytes [of i little z]
  by (simp add: swap16.swap_swap swap32.swap_swap swap64.swap_swap)

lemma bswap_reverses_witness:
  "FLB_BSWAP_32 True (FLB_BSWAP_32 False 0x01020304) = 0x01020304 \<and>
   byte_of (FLB_BSWAP_32 False 0x01020304) 0 = byte_of (0x01020304 :: u32) 3"
  using bswap_reverses [of 0 True 0 "0x01020304" 0 False] bswap_reverses [of 0 False 0 "0x01020304" 0 False] by simp

end
