(* ===== verification/Flb_Encoder.thy ===== *)
theory Flb_Encoder
  imports Flb_Time
begin

text \<open>
  The log event encoder: \<^verbatim>\<open>fluent-bit/flb_log_event_encoder.h\<close>, its inline primitives and the macros for
  the metadata, body and root of a record.  A record has three dynamic fields; a caller either names
  the field by a number or uses the macros of one field.  The operations of a dynamic field and the
  \<^verbatim>\<open>append\<close> functions are only declared in the headers: parameters.
\<close>

section \<open>Constants\<close>

definition FLB_EVENT_ENCODER_SUCCESS :: int where "FLB_EVENT_ENCODER_SUCCESS = 0"
definition FLB_EVENT_ENCODER_ERROR_UNSPECIFIED :: int where "FLB_EVENT_ENCODER_ERROR_UNSPECIFIED = - 1"
definition FLB_EVENT_ENCODER_ERROR_ALLOCATION_ERROR :: int where "FLB_EVENT_ENCODER_ERROR_ALLOCATION_ERROR = - 2"
definition FLB_EVENT_ENCODER_ERROR_INVALID_CONTEXT :: int where "FLB_EVENT_ENCODER_ERROR_INVALID_CONTEXT = - 3"
definition FLB_EVENT_ENCODER_ERROR_INVALID_ARGUMENT :: int where "FLB_EVENT_ENCODER_ERROR_INVALID_ARGUMENT = - 4"
definition FLB_EVENT_ENCODER_ERROR_SERIALIZATION_FAILURE :: int where "FLB_EVENT_ENCODER_ERROR_SERIALIZATION_FAILURE = - 5"
definition FLB_EVENT_ENCODER_ERROR_INVALID_VALUE_TYPE :: int where "FLB_EVENT_ENCODER_ERROR_INVALID_VALUE_TYPE = - 6"

definition FLB_LOG_EVENT_APPEND_TERMINATOR_VALUE_TYPE :: int where "FLB_LOG_EVENT_APPEND_TERMINATOR_VALUE_TYPE = 0"
definition FLB_LOG_EVENT_STRING_LENGTH_VALUE_TYPE :: int where "FLB_LOG_EVENT_STRING_LENGTH_VALUE_TYPE = 1"
definition FLB_LOG_EVENT_STRING_BODY_VALUE_TYPE :: int where "FLB_LOG_EVENT_STRING_BODY_VALUE_TYPE = 2"
definition FLB_LOG_EVENT_BINARY_LENGTH_VALUE_TYPE :: int where "FLB_LOG_EVENT_BINARY_LENGTH_VALUE_TYPE = 3"
definition FLB_LOG_EVENT_BINARY_BODY_VALUE_TYPE :: int where "FLB_LOG_EVENT_BINARY_BODY_VALUE_TYPE = 4"
definition FLB_LOG_EVENT_EXT_LENGTH_VALUE_TYPE :: int where "FLB_LOG_EVENT_EXT_LENGTH_VALUE_TYPE = 5"
definition FLB_LOG_EVENT_EXT_BODY_VALUE_TYPE :: int where "FLB_LOG_EVENT_EXT_BODY_VALUE_TYPE = 6"
definition FLB_LOG_EVENT_NULL_VALUE_TYPE :: int where "FLB_LOG_EVENT_NULL_VALUE_TYPE = 7"
definition FLB_LOG_EVENT_CHAR_VALUE_TYPE :: int where "FLB_LOG_EVENT_CHAR_VALUE_TYPE = 8"
definition FLB_LOG_EVENT_INT8_VALUE_TYPE :: int where "FLB_LOG_EVENT_INT8_VALUE_TYPE = 9"
definition FLB_LOG_EVENT_INT16_VALUE_TYPE :: int where "FLB_LOG_EVENT_INT16_VALUE_TYPE = 10"
definition FLB_LOG_EVENT_INT32_VALUE_TYPE :: int where "FLB_LOG_EVENT_INT32_VALUE_TYPE = 11"
definition FLB_LOG_EVENT_INT64_VALUE_TYPE :: int where "FLB_LOG_EVENT_INT64_VALUE_TYPE = 12"
definition FLB_LOG_EVENT_UINT8_VALUE_TYPE :: int where "FLB_LOG_EVENT_UINT8_VALUE_TYPE = 13"
definition FLB_LOG_EVENT_UINT16_VALUE_TYPE :: int where "FLB_LOG_EVENT_UINT16_VALUE_TYPE = 14"
definition FLB_LOG_EVENT_UINT32_VALUE_TYPE :: int where "FLB_LOG_EVENT_UINT32_VALUE_TYPE = 15"
definition FLB_LOG_EVENT_UINT64_VALUE_TYPE :: int where "FLB_LOG_EVENT_UINT64_VALUE_TYPE = 16"
definition FLB_LOG_EVENT_DOUBLE_VALUE_TYPE :: int where "FLB_LOG_EVENT_DOUBLE_VALUE_TYPE = 17"
definition FLB_LOG_EVENT_BOOLEAN_VALUE_TYPE :: int where "FLB_LOG_EVENT_BOOLEAN_VALUE_TYPE = 18"
definition FLB_LOG_EVENT_MSGPACK_OBJECT_VALUE_TYPE :: int where "FLB_LOG_EVENT_MSGPACK_OBJECT_VALUE_TYPE = 19"
definition FLB_LOG_EVENT_MSGPACK_RAW_VALUE_TYPE :: int where "FLB_LOG_EVENT_MSGPACK_RAW_VALUE_TYPE = 20"
definition FLB_LOG_EVENT_TIMESTAMP_VALUE_TYPE :: int where "FLB_LOG_EVENT_TIMESTAMP_VALUE_TYPE = 21"
definition FLB_LOG_EVENT_LEGACY_TIMESTAMP_VALUE_TYPE :: int where "FLB_LOG_EVENT_LEGACY_TIMESTAMP_VALUE_TYPE = 22"
definition FLB_LOG_EVENT_FORWARD_V1_TIMESTAMP_VALUE_TYPE :: int where "FLB_LOG_EVENT_FORWARD_V1_TIMESTAMP_VALUE_TYPE = 23"
definition FLB_LOG_EVENT_FLUENT_BIT_V1_TIMESTAMP_VALUE_TYPE :: int where "FLB_LOG_EVENT_FLUENT_BIT_V1_TIMESTAMP_VALUE_TYPE = 24"
definition FLB_LOG_EVENT_FLUENT_BIT_V2_TIMESTAMP_VALUE_TYPE :: int where "FLB_LOG_EVENT_FLUENT_BIT_V2_TIMESTAMP_VALUE_TYPE = 25"

definition FLB_LOG_EVENT_STRING_MIN_VALUE_TYPE :: int where
  "FLB_LOG_EVENT_STRING_MIN_VALUE_TYPE = FLB_LOG_EVENT_STRING_LENGTH_VALUE_TYPE"
definition FLB_LOG_EVENT_STRING_MAX_VALUE_TYPE :: int where
  "FLB_LOG_EVENT_STRING_MAX_VALUE_TYPE = FLB_LOG_EVENT_FLUENT_BIT_V2_TIMESTAMP_VALUE_TYPE"

definition FLB_LOG_EVENT_ROOT :: int where "FLB_LOG_EVENT_ROOT = 1"
definition FLB_LOG_EVENT_METADATA :: int where "FLB_LOG_EVENT_METADATA = 2"
definition FLB_LOG_EVENT_BODY :: int where "FLB_LOG_EVENT_BODY = 3"
definition FLB_EVENT_ENCODER_VALUE_LIMIT :: int where "FLB_EVENT_ENCODER_VALUE_LIMIT = 64"
definition FLB_LOG_EVENT_APPEND_UNTIL_TERMINATOR :: int where "FLB_LOG_EVENT_APPEND_UNTIL_TERMINATOR = - 1"

lemmas value_types =
  FLB_LOG_EVENT_APPEND_TERMINATOR_VALUE_TYPE_def
  FLB_LOG_EVENT_STRING_LENGTH_VALUE_TYPE_def
  FLB_LOG_EVENT_STRING_BODY_VALUE_TYPE_def
  FLB_LOG_EVENT_BINARY_LENGTH_VALUE_TYPE_def
  FLB_LOG_EVENT_BINARY_BODY_VALUE_TYPE_def
  FLB_LOG_EVENT_EXT_LENGTH_VALUE_TYPE_def
  FLB_LOG_EVENT_EXT_BODY_VALUE_TYPE_def
  FLB_LOG_EVENT_NULL_VALUE_TYPE_def
  FLB_LOG_EVENT_CHAR_VALUE_TYPE_def
  FLB_LOG_EVENT_INT8_VALUE_TYPE_def
  FLB_LOG_EVENT_INT16_VALUE_TYPE_def
  FLB_LOG_EVENT_INT32_VALUE_TYPE_def
  FLB_LOG_EVENT_INT64_VALUE_TYPE_def
  FLB_LOG_EVENT_UINT8_VALUE_TYPE_def
  FLB_LOG_EVENT_UINT16_VALUE_TYPE_def
  FLB_LOG_EVENT_UINT32_VALUE_TYPE_def
  FLB_LOG_EVENT_UINT64_VALUE_TYPE_def
  FLB_LOG_EVENT_DOUBLE_VALUE_TYPE_def
  FLB_LOG_EVENT_BOOLEAN_VALUE_TYPE_def
  FLB_LOG_EVENT_MSGPACK_OBJECT_VALUE_TYPE_def
  FLB_LOG_EVENT_MSGPACK_RAW_VALUE_TYPE_def
  FLB_LOG_EVENT_TIMESTAMP_VALUE_TYPE_def
  FLB_LOG_EVENT_LEGACY_TIMESTAMP_VALUE_TYPE_def
  FLB_LOG_EVENT_FORWARD_V1_TIMESTAMP_VALUE_TYPE_def
  FLB_LOG_EVENT_FLUENT_BIT_V1_TIMESTAMP_VALUE_TYPE_def
  FLB_LOG_EVENT_FLUENT_BIT_V2_TIMESTAMP_VALUE_TYPE_def

lemmas encoder_results =
  FLB_EVENT_ENCODER_SUCCESS_def
  FLB_EVENT_ENCODER_ERROR_UNSPECIFIED_def
  FLB_EVENT_ENCODER_ERROR_ALLOCATION_ERROR_def
  FLB_EVENT_ENCODER_ERROR_INVALID_CONTEXT_def
  FLB_EVENT_ENCODER_ERROR_INVALID_ARGUMENT_def
  FLB_EVENT_ENCODER_ERROR_SERIALIZATION_FAILURE_def
  FLB_EVENT_ENCODER_ERROR_INVALID_VALUE_TYPE_def

section \<open>Value lists\<close>

text \<open>
  The variadic functions take a flat list of C arguments: a type code followed by the arguments of
  that type.  \<open>vararg\<close> is an argument as it is passed, with the type of its cast; a double is its 64
  bits.
\<close>

datatype vararg = A_int "32 word" | A_uint u32 | A_int64 u64 | A_uint64 u64 | A_size size_t | A_ptr ptr | A_double u64

definition FLB_LOG_EVENT_VALUE_LIST_TERMINATOR :: "vararg list" where
  "FLB_LOG_EVENT_VALUE_LIST_TERMINATOR = [A_int (word_of_int FLB_LOG_EVENT_APPEND_TERMINATOR_VALUE_TYPE)]"

definition FLB_LOG_EVENT_STRING_LENGTH_VALUE :: "size_t \<Rightarrow> vararg list" where
  "FLB_LOG_EVENT_STRING_LENGTH_VALUE len = [A_int (word_of_int FLB_LOG_EVENT_STRING_LENGTH_VALUE_TYPE), A_size len]"

definition FLB_LOG_EVENT_STRING_BODY_VALUE :: "ptr \<Rightarrow> size_t \<Rightarrow> vararg list" where
  "FLB_LOG_EVENT_STRING_BODY_VALUE buffer len = [A_int (word_of_int FLB_LOG_EVENT_STRING_BODY_VALUE_TYPE), A_ptr buffer, A_size len]"

definition FLB_LOG_EVENT_BINARY_LENGTH_VALUE :: "size_t \<Rightarrow> vararg list" where
  "FLB_LOG_EVENT_BINARY_LENGTH_VALUE len = [A_int (word_of_int FLB_LOG_EVENT_BINARY_LENGTH_VALUE_TYPE), A_size len]"

definition FLB_LOG_EVENT_BINARY_BODY_VALUE :: "ptr \<Rightarrow> size_t \<Rightarrow> vararg list" where
  "FLB_LOG_EVENT_BINARY_BODY_VALUE buffer len = [A_int (word_of_int FLB_LOG_EVENT_BINARY_BODY_VALUE_TYPE), A_ptr buffer, A_size len]"

definition FLB_LOG_EVENT_EXT_LENGTH_VALUE :: "32 word \<Rightarrow> size_t \<Rightarrow> vararg list" where
  "FLB_LOG_EVENT_EXT_LENGTH_VALUE ty len = [A_int (word_of_int FLB_LOG_EVENT_EXT_LENGTH_VALUE_TYPE), A_int ty, A_size len]"

definition FLB_LOG_EVENT_EXT_BODY_VALUE :: "ptr \<Rightarrow> size_t \<Rightarrow> vararg list" where
  "FLB_LOG_EVENT_EXT_BODY_VALUE buffer len = [A_int (word_of_int FLB_LOG_EVENT_EXT_BODY_VALUE_TYPE), A_ptr buffer, A_size len]"

definition FLB_LOG_EVENT_TIMESTAMP_VALUE :: "ptr \<Rightarrow> vararg list" where
  "FLB_LOG_EVENT_TIMESTAMP_VALUE value = [A_int (word_of_int FLB_LOG_EVENT_TIMESTAMP_VALUE_TYPE), A_ptr value]"

definition FLB_LOG_EVENT_LEGACY_TIMESTAMP_VALUE :: "ptr \<Rightarrow> vararg list" where
  "FLB_LOG_EVENT_LEGACY_TIMESTAMP_VALUE value = [A_int (word_of_int FLB_LOG_EVENT_LEGACY_TIMESTAMP_VALUE_TYPE), A_ptr value]"

definition FLB_LOG_EVENT_FORWARD_V1_TIMESTAMP_VALUE :: "ptr \<Rightarrow> vararg list" where
  "FLB_LOG_EVENT_FORWARD_V1_TIMESTAMP_VALUE value = [A_int (word_of_int FLB_LOG_EVENT_FORWARD_V1_TIMESTAMP_VALUE_TYPE), A_ptr value]"

definition FLB_LOG_EVENT_FLUENT_BIT_V1_TIMESTAMP_VALUE :: "ptr \<Rightarrow> vararg list" where
  "FLB_LOG_EVENT_FLUENT_BIT_V1_TIMESTAMP_VALUE value = [A_int (word_of_int FLB_LOG_EVENT_FLUENT_BIT_V1_TIMESTAMP_VALUE_TYPE), A_ptr value]"

definition FLB_LOG_EVENT_NULL_VALUE :: "vararg list" where
  "FLB_LOG_EVENT_NULL_VALUE = [A_int (word_of_int FLB_LOG_EVENT_NULL_VALUE_TYPE)]"

definition FLB_LOG_EVENT_CHAR_VALUE :: "32 word \<Rightarrow> vararg list" where
  "FLB_LOG_EVENT_CHAR_VALUE value = [A_int (word_of_int FLB_LOG_EVENT_CHAR_VALUE_TYPE), A_int value]"

definition FLB_LOG_EVENT_INT8_VALUE :: "32 word \<Rightarrow> vararg list" where
  "FLB_LOG_EVENT_INT8_VALUE value = [A_int (word_of_int FLB_LOG_EVENT_INT8_VALUE_TYPE), A_int value]"

definition FLB_LOG_EVENT_INT16_VALUE :: "32 word \<Rightarrow> vararg list" where
  "FLB_LOG_EVENT_INT16_VALUE value = [A_int (word_of_int FLB_LOG_EVENT_INT16_VALUE_TYPE), A_int value]"

definition FLB_LOG_EVENT_INT32_VALUE :: "32 word \<Rightarrow> vararg list" where
  "FLB_LOG_EVENT_INT32_VALUE value = [A_int (word_of_int FLB_LOG_EVENT_INT32_VALUE_TYPE), A_int value]"

definition FLB_LOG_EVENT_INT64_VALUE :: "u64 \<Rightarrow> vararg list" where
  "FLB_LOG_EVENT_INT64_VALUE value = [A_int (word_of_int FLB_LOG_EVENT_INT64_VALUE_TYPE), A_int64 value]"

definition FLB_LOG_EVENT_UINT8_VALUE :: "u32 \<Rightarrow> vararg list" where
  "FLB_LOG_EVENT_UINT8_VALUE value = [A_int (word_of_int FLB_LOG_EVENT_UINT8_VALUE_TYPE), A_uint value]"

definition FLB_LOG_EVENT_UINT16_VALUE :: "u32 \<Rightarrow> vararg list" where
  "FLB_LOG_EVENT_UINT16_VALUE value = [A_int (word_of_int FLB_LOG_EVENT_UINT16_VALUE_TYPE), A_uint value]"

definition FLB_LOG_EVENT_UINT32_VALUE :: "u32 \<Rightarrow> vararg list" where
  "FLB_LOG_EVENT_UINT32_VALUE value = [A_int (word_of_int FLB_LOG_EVENT_UINT32_VALUE_TYPE), A_uint value]"

definition FLB_LOG_EVENT_UINT64_VALUE :: "u64 \<Rightarrow> vararg list" where
  "FLB_LOG_EVENT_UINT64_VALUE value = [A_int (word_of_int FLB_LOG_EVENT_UINT64_VALUE_TYPE), A_uint64 value]"

definition FLB_LOG_EVENT_DOUBLE_VALUE :: "u64 \<Rightarrow> vararg list" where
  "FLB_LOG_EVENT_DOUBLE_VALUE value = [A_int (word_of_int FLB_LOG_EVENT_DOUBLE_VALUE_TYPE), A_double value]"

definition FLB_LOG_EVENT_BOOLEAN_VALUE :: "32 word \<Rightarrow> vararg list" where
  "FLB_LOG_EVENT_BOOLEAN_VALUE value = [A_int (word_of_int FLB_LOG_EVENT_BOOLEAN_VALUE_TYPE), A_int value]"

definition FLB_LOG_EVENT_MSGPACK_OBJECT_VALUE :: "ptr \<Rightarrow> vararg list" where
  "FLB_LOG_EVENT_MSGPACK_OBJECT_VALUE value = [A_int (word_of_int FLB_LOG_EVENT_MSGPACK_OBJECT_VALUE_TYPE), A_ptr value]"

definition FLB_LOG_EVENT_MSGPACK_RAW_VALUE :: "ptr \<Rightarrow> size_t \<Rightarrow> vararg list" where
  "FLB_LOG_EVENT_MSGPACK_RAW_VALUE buffer len = [A_int (word_of_int FLB_LOG_EVENT_MSGPACK_RAW_VALUE_TYPE), A_ptr buffer, A_size len]"

definition FLB_LOG_EVENT_STRING_VALUE :: "ptr \<Rightarrow> size_t \<Rightarrow> vararg list" where
  "FLB_LOG_EVENT_STRING_VALUE buffer len =
     FLB_LOG_EVENT_STRING_LENGTH_VALUE len @ FLB_LOG_EVENT_STRING_BODY_VALUE buffer len"

definition FLB_LOG_EVENT_BINARY_VALUE :: "ptr \<Rightarrow> size_t \<Rightarrow> vararg list" where
  "FLB_LOG_EVENT_BINARY_VALUE buffer len =
     FLB_LOG_EVENT_BINARY_LENGTH_VALUE len @ FLB_LOG_EVENT_BINARY_BODY_VALUE buffer len"

text \<open>
  The macro has the parameter \<^verbatim>\<open>type_\<close> and uses the identifier \<^verbatim>\<open>type\<close>, whatever that is at the place
  of use: the first parameter here.
\<close>

definition FLB_LOG_EVENT_EXT_VALUE :: "32 word \<Rightarrow> 32 word \<Rightarrow> ptr \<Rightarrow> size_t \<Rightarrow> vararg list" where
  "FLB_LOG_EVENT_EXT_VALUE captured ty buffer len =
     FLB_LOG_EVENT_EXT_LENGTH_VALUE captured len @ FLB_LOG_EVENT_EXT_BODY_VALUE buffer len"

definition FLB_LOG_EVENT_CSTRING_VALUE :: "(ptr \<Rightarrow> size_t) \<Rightarrow> ptr \<Rightarrow> vararg list" where
  "FLB_LOG_EVENT_CSTRING_VALUE strlen buffer = FLB_LOG_EVENT_STRING_VALUE buffer (strlen buffer)"

text \<open>
  The macros that call a variadic function on a list of values, for any field and for each of the
  three: they pass the terminator behind the last value.  \<open>unsafe\<close>: the variadic function, a parameter.
\<close>

definition flb_log_event_encoder_append_values :: "('c \<Rightarrow> 'f \<Rightarrow> vararg list \<Rightarrow> 'r) \<Rightarrow> 'c \<Rightarrow> 'f \<Rightarrow> vararg list \<Rightarrow> 'r" where
  "flb_log_event_encoder_append_values unsafe context field args =
     unsafe context field (args @ FLB_LOG_EVENT_VALUE_LIST_TERMINATOR)"

definition flb_log_event_encoder_append_metadata_values :: "('c \<Rightarrow> vararg list \<Rightarrow> 'r) \<Rightarrow> 'c \<Rightarrow> vararg list \<Rightarrow> 'r" where
  "flb_log_event_encoder_append_metadata_values unsafe context args =
     unsafe context (args @ FLB_LOG_EVENT_VALUE_LIST_TERMINATOR)"

definition flb_log_event_encoder_append_body_values :: "('c \<Rightarrow> vararg list \<Rightarrow> 'r) \<Rightarrow> 'c \<Rightarrow> vararg list \<Rightarrow> 'r" where
  "flb_log_event_encoder_append_body_values unsafe context args =
     unsafe context (args @ FLB_LOG_EVENT_VALUE_LIST_TERMINATOR)"

definition flb_log_event_encoder_append_root_values :: "('c \<Rightarrow> vararg list \<Rightarrow> 'r) \<Rightarrow> 'c \<Rightarrow> vararg list \<Rightarrow> 'r" where
  "flb_log_event_encoder_append_root_values unsafe context args =
     unsafe context (args @ FLB_LOG_EVENT_VALUE_LIST_TERMINATOR)"

section \<open>The encoder\<close>

text \<open>\<open>'m\<close>: the packer and its buffer, objects of the MessagePack library.\<close>

record flb_mp_map_header =
  mh_offset :: int
  mh_entries :: size_t
  mh_data :: ptr

record flb_log_event_encoder_dynamic_field_scope =
  sc_offset :: size_t
  sc_header :: flb_mp_map_header
  sc_type :: int

record 'm flb_log_event_encoder_dynamic_field =
  df_initialized :: int
  df_entry_count :: size_t
  df_data_offset :: size_t
  df_packer :: 'm
  df_buffer :: 'm
  df_scopes :: "flb_log_event_encoder_dynamic_field_scope list"
  df_data :: ptr
  df_size :: size_t
  df_type :: int

type_synonym 'm field = "'m flb_log_event_encoder_dynamic_field"

record 'm flb_log_event_encoder =
  le_dynamically_allocated :: int
  le_output_buffer :: ptr
  le_output_length :: size_t
  le_initialized :: int
  le_timestamp :: flb_time
  le_metadata :: "'m field"
  le_body :: "'m field"
  le_root :: "'m field"
  le_packer :: 'm
  le_buffer :: 'm
  le_format :: int

text \<open>The declared append functions, with their arguments after the context and the field.\<close>

datatype append_call =
    Append_Binary_Length size_t | Append_Binary_Body ptr size_t | Append_Ext_Length u8 size_t | Append_Ext_Body ptr size_t
  | Append_String_Length size_t | Append_String_Body ptr size_t
  | Append_Int8 u8 | Append_Int16 u16 | Append_Int32 u32 | Append_Int64 u64
  | Append_Uint8 u8 | Append_Uint16 u16 | Append_Uint32 u32 | Append_Uint64 u64
  | Append_Double u64 | Append_Boolean u32 | Append_Character u8
  | Append_Binary ptr size_t | Append_String ptr size_t | Append_Ext u8 ptr size_t | Append_Cstring ptr | Append_Null
  | Append_Msgpack_Object ptr | Append_Raw_Msgpack ptr size_t
  | Append_Timestamp ptr | Append_Legacy_Timestamp ptr | Append_Forward_V1_Timestamp ptr
  | Append_Fluent_Bit_V1_Timestamp ptr | Append_Fluent_Bit_V2_Timestamp ptr

record 'm encoder_ops =
  eo_begin_map :: "'m field \<Rightarrow> int \<times> 'm field"
  eo_commit_map :: "'m field \<Rightarrow> int \<times> 'm field"
  eo_rollback_map :: "'m field \<Rightarrow> int \<times> 'm field"
  eo_begin_array :: "'m field \<Rightarrow> int \<times> 'm field"
  eo_commit_array :: "'m field \<Rightarrow> int \<times> 'm field"
  eo_rollback_array :: "'m field \<Rightarrow> int \<times> 'm field"
  eo_reset :: "'m field \<Rightarrow> int \<times> 'm field"
  eo_flush :: "'m field \<Rightarrow> int \<times> 'm field"
  eo_append :: "append_call \<Rightarrow> int \<Rightarrow> 'm flb_log_event_encoder \<Rightarrow> int \<times> 'm flb_log_event_encoder"

text \<open>A pointer to one of the three fields of a context.\<close>

datatype field_ref = Ref_Metadata | Ref_Body | Ref_Root

fun load_field :: "field_ref \<Rightarrow> 'm flb_log_event_encoder \<Rightarrow> 'm field" where
  "load_field Ref_Metadata context = le_metadata context"
| "load_field Ref_Body context = le_body context"
| "load_field Ref_Root context = le_root context"

fun store_field :: "field_ref \<Rightarrow> 'm field \<Rightarrow> 'm flb_log_event_encoder \<Rightarrow> 'm flb_log_event_encoder" where
  "store_field Ref_Metadata f context = context\<lparr>le_metadata := f\<rparr>"
| "store_field Ref_Body f context = context\<lparr>le_body := f\<rparr>"
| "store_field Ref_Root f context = context\<lparr>le_root := f\<rparr>"

definition call_field ::
  "('m field \<Rightarrow> int \<times> 'm field) \<Rightarrow> field_ref \<Rightarrow> 'm flb_log_event_encoder \<Rightarrow> int \<times> 'm flb_log_event_encoder" where
  "call_field f r context = (let (result, field) = f (load_field r context) in (result, store_field r field context))"

section \<open>The primitives\<close>

text \<open>The pointer written through the last parameter is the second component; it is left alone on an error.\<close>

definition flb_log_event_encoder_get_field :: "int \<Rightarrow> int \<times> field_ref option" where
  "flb_log_event_encoder_get_field target_field =
     (if target_field = FLB_LOG_EVENT_METADATA then (FLB_EVENT_ENCODER_SUCCESS, Some Ref_Metadata)
      else if target_field = FLB_LOG_EVENT_BODY then (FLB_EVENT_ENCODER_SUCCESS, Some Ref_Body)
      else if target_field = FLB_LOG_EVENT_ROOT then (FLB_EVENT_ENCODER_SUCCESS, Some Ref_Root)
      else (FLB_EVENT_ENCODER_ERROR_INVALID_ARGUMENT, None))"

text \<open>The six operations have the same body around a different call; \<open>None\<close> would be the use of an unset pointer.\<close>

definition on_field ::
  "('m field \<Rightarrow> int \<times> 'm field) \<Rightarrow> int \<Rightarrow> 'm flb_log_event_encoder \<Rightarrow> (int \<times> 'm flb_log_event_encoder) option" where
  "on_field f target_field context =
     (let (result, field) = flb_log_event_encoder_get_field target_field
      in if result = FLB_EVENT_ENCODER_SUCCESS then map_option (\<lambda>r. call_field f r context) field
         else Some (result, context))"

definition flb_log_event_encoder_begin_map ::
  "'m encoder_ops \<Rightarrow> int \<Rightarrow> 'm flb_log_event_encoder \<Rightarrow> (int \<times> 'm flb_log_event_encoder) option" where
  "flb_log_event_encoder_begin_map ops target_field context = on_field (eo_begin_map ops) target_field context"

definition flb_log_event_encoder_commit_map ::
  "'m encoder_ops \<Rightarrow> int \<Rightarrow> 'm flb_log_event_encoder \<Rightarrow> (int \<times> 'm flb_log_event_encoder) option" where
  "flb_log_event_encoder_commit_map ops target_field context = on_field (eo_commit_map ops) target_field context"

definition flb_log_event_encoder_rollback_map ::
  "'m encoder_ops \<Rightarrow> int \<Rightarrow> 'm flb_log_event_encoder \<Rightarrow> (int \<times> 'm flb_log_event_encoder) option" where
  "flb_log_event_encoder_rollback_map ops target_field context = on_field (eo_rollback_map ops) target_field context"

definition flb_log_event_encoder_begin_array ::
  "'m encoder_ops \<Rightarrow> int \<Rightarrow> 'm flb_log_event_encoder \<Rightarrow> (int \<times> 'm flb_log_event_encoder) option" where
  "flb_log_event_encoder_begin_array ops target_field context = on_field (eo_begin_array ops) target_field context"

definition flb_log_event_encoder_commit_array ::
  "'m encoder_ops \<Rightarrow> int \<Rightarrow> 'm flb_log_event_encoder \<Rightarrow> (int \<times> 'm flb_log_event_encoder) option" where
  "flb_log_event_encoder_commit_array ops target_field context = on_field (eo_commit_array ops) target_field context"

definition flb_log_event_encoder_rollback_array ::
  "'m encoder_ops \<Rightarrow> int \<Rightarrow> 'm flb_log_event_encoder \<Rightarrow> (int \<times> 'm flb_log_event_encoder) option" where
  "flb_log_event_encoder_rollback_array ops target_field context = on_field (eo_rollback_array ops) target_field context"

section \<open>The macros of one field\<close>

text \<open>
  For each field a family of macros, \<^verbatim>\<open>flb_log_event_encoder_append_body_int8(context, value)\<close> and so on,
  calls the append function of the same name with the number of the field and its own arguments.
\<close>

definition flb_log_event_encoder_append_metadata ::
  "'m encoder_ops \<Rightarrow> append_call \<Rightarrow> 'm flb_log_event_encoder \<Rightarrow> int \<times> 'm flb_log_event_encoder" where
  "flb_log_event_encoder_append_metadata ops call context = eo_append ops call FLB_LOG_EVENT_METADATA context"

definition flb_log_event_encoder_metadata_begin_map ::
  "'m encoder_ops \<Rightarrow> 'm flb_log_event_encoder \<Rightarrow> int \<times> 'm flb_log_event_encoder" where
  "flb_log_event_encoder_metadata_begin_map ops context = call_field (eo_begin_map ops) Ref_Metadata context"

definition flb_log_event_encoder_metadata_commit_map ::
  "'m encoder_ops \<Rightarrow> 'm flb_log_event_encoder \<Rightarrow> int \<times> 'm flb_log_event_encoder" where
  "flb_log_event_encoder_metadata_commit_map ops context = call_field (eo_commit_map ops) Ref_Metadata context"

definition flb_log_event_encoder_metadata_rollback_map ::
  "'m encoder_ops \<Rightarrow> 'm flb_log_event_encoder \<Rightarrow> int \<times> 'm flb_log_event_encoder" where
  "flb_log_event_encoder_metadata_rollback_map ops context = call_field (eo_rollback_map ops) Ref_Metadata context"

definition flb_log_event_encoder_metadata_begin_array ::
  "'m encoder_ops \<Rightarrow> 'm flb_log_event_encoder \<Rightarrow> int \<times> 'm flb_log_event_encoder" where
  "flb_log_event_encoder_metadata_begin_array ops context = call_field (eo_begin_array ops) Ref_Metadata context"

definition flb_log_event_encoder_metadata_commit_array ::
  "'m encoder_ops \<Rightarrow> 'm flb_log_event_encoder \<Rightarrow> int \<times> 'm flb_log_event_encoder" where
  "flb_log_event_encoder_metadata_commit_array ops context = call_field (eo_commit_array ops) Ref_Metadata context"

definition flb_log_event_encoder_metadata_rollback_array ::
  "'m encoder_ops \<Rightarrow> 'm flb_log_event_encoder \<Rightarrow> int \<times> 'm flb_log_event_encoder" where
  "flb_log_event_encoder_metadata_rollback_array ops context = call_field (eo_rollback_array ops) Ref_Metadata context"

definition flb_log_event_encoder_append_body ::
  "'m encoder_ops \<Rightarrow> append_call \<Rightarrow> 'm flb_log_event_encoder \<Rightarrow> int \<times> 'm flb_log_event_encoder" where
  "flb_log_event_encoder_append_body ops call context = eo_append ops call FLB_LOG_EVENT_BODY context"

definition flb_log_event_encoder_body_begin_map ::
  "'m encoder_ops \<Rightarrow> 'm flb_log_event_encoder \<Rightarrow> int \<times> 'm flb_log_event_encoder" where
  "flb_log_event_encoder_body_begin_map ops context = call_field (eo_begin_map ops) Ref_Body context"

definition flb_log_event_encoder_body_commit_map ::
  "'m encoder_ops \<Rightarrow> 'm flb_log_event_encoder \<Rightarrow> int \<times> 'm flb_log_event_encoder" where
  "flb_log_event_encoder_body_commit_map ops context = call_field (eo_commit_map ops) Ref_Body context"

definition flb_log_event_encoder_body_rollback_map ::
  "'m encoder_ops \<Rightarrow> 'm flb_log_event_encoder \<Rightarrow> int \<times> 'm flb_log_event_encoder" where
  "flb_log_event_encoder_body_rollback_map ops context = call_field (eo_rollback_map ops) Ref_Body context"

definition flb_log_event_encoder_body_begin_array ::
  "'m encoder_ops \<Rightarrow> 'm flb_log_event_encoder \<Rightarrow> int \<times> 'm flb_log_event_encoder" where
  "flb_log_event_encoder_body_begin_array ops context = call_field (eo_begin_array ops) Ref_Body context"

definition flb_log_event_encoder_body_commit_array ::
  "'m encoder_ops \<Rightarrow> 'm flb_log_event_encoder \<Rightarrow> int \<times> 'm flb_log_event_encoder" where
  "flb_log_event_encoder_body_commit_array ops context = call_field (eo_commit_array ops) Ref_Body context"

definition flb_log_event_encoder_body_rollback_array ::
  "'m encoder_ops \<Rightarrow> 'm flb_log_event_encoder \<Rightarrow> int \<times> 'm flb_log_event_encoder" where
  "flb_log_event_encoder_body_rollback_array ops context = call_field (eo_rollback_array ops) Ref_Body context"

definition flb_log_event_encoder_append_root ::
  "'m encoder_ops \<Rightarrow> append_call \<Rightarrow> 'm flb_log_event_encoder \<Rightarrow> int \<times> 'm flb_log_event_encoder" where
  "flb_log_event_encoder_append_root ops call context = eo_append ops call FLB_LOG_EVENT_ROOT context"

definition flb_log_event_encoder_root_begin_map ::
  "'m encoder_ops \<Rightarrow> 'm flb_log_event_encoder \<Rightarrow> int \<times> 'm flb_log_event_encoder" where
  "flb_log_event_encoder_root_begin_map ops context = call_field (eo_begin_map ops) Ref_Root context"

definition flb_log_event_encoder_root_commit_map ::
  "'m encoder_ops \<Rightarrow> 'm flb_log_event_encoder \<Rightarrow> int \<times> 'm flb_log_event_encoder" where
  "flb_log_event_encoder_root_commit_map ops context = call_field (eo_commit_map ops) Ref_Root context"

definition flb_log_event_encoder_root_rollback_map ::
  "'m encoder_ops \<Rightarrow> 'm flb_log_event_encoder \<Rightarrow> int \<times> 'm flb_log_event_encoder" where
  "flb_log_event_encoder_root_rollback_map ops context = call_field (eo_rollback_map ops) Ref_Root context"

definition flb_log_event_encoder_root_begin_array ::
  "'m encoder_ops \<Rightarrow> 'm flb_log_event_encoder \<Rightarrow> int \<times> 'm flb_log_event_encoder" where
  "flb_log_event_encoder_root_begin_array ops context = call_field (eo_begin_array ops) Ref_Root context"

definition flb_log_event_encoder_root_commit_array ::
  "'m encoder_ops \<Rightarrow> 'm flb_log_event_encoder \<Rightarrow> int \<times> 'm flb_log_event_encoder" where
  "flb_log_event_encoder_root_commit_array ops context = call_field (eo_commit_array ops) Ref_Root context"

definition flb_log_event_encoder_root_rollback_array ::
  "'m encoder_ops \<Rightarrow> 'm flb_log_event_encoder \<Rightarrow> int \<times> 'm flb_log_event_encoder" where
  "flb_log_event_encoder_root_rollback_array ops context = call_field (eo_rollback_array ops) Ref_Root context"

section \<open>Setting a field from MessagePack\<close>

text \<open>\<open>then_ok\<close>: the next step, unless the last one failed.\<close>

definition then_ok :: "int \<times> 'c \<Rightarrow> ('c \<Rightarrow> int \<times> 'c) \<Rightarrow> int \<times> 'c" where
  "then_ok s f = (let (result, context) = s in if result = FLB_EVENT_ENCODER_SUCCESS then f context else (result, context))"

definition flb_log_event_encoder_set_metadata_from_msgpack_object ::
  "'m encoder_ops \<Rightarrow> ptr \<Rightarrow> 'm flb_log_event_encoder \<Rightarrow> int \<times> 'm flb_log_event_encoder" where
  "flb_log_event_encoder_set_metadata_from_msgpack_object ops value context =
     then_ok (then_ok (call_field (eo_reset ops) Ref_Metadata context)
       (flb_log_event_encoder_append_metadata ops (Append_Msgpack_Object value)))
       (call_field (eo_flush ops) Ref_Metadata)"

definition flb_log_event_encoder_set_metadata_from_raw_msgpack ::
  "'m encoder_ops \<Rightarrow> ptr \<Rightarrow> size_t \<Rightarrow> 'm flb_log_event_encoder \<Rightarrow> int \<times> 'm flb_log_event_encoder" where
  "flb_log_event_encoder_set_metadata_from_raw_msgpack ops value_buffer value_size context =
     then_ok (then_ok (call_field (eo_reset ops) Ref_Metadata context)
       (flb_log_event_encoder_append_metadata ops (Append_Raw_Msgpack value_buffer value_size)))
       (call_field (eo_flush ops) Ref_Metadata)"

definition flb_log_event_encoder_set_body_from_msgpack_object ::
  "'m encoder_ops \<Rightarrow> ptr \<Rightarrow> 'm flb_log_event_encoder \<Rightarrow> int \<times> 'm flb_log_event_encoder" where
  "flb_log_event_encoder_set_body_from_msgpack_object ops value context =
     then_ok (then_ok (call_field (eo_reset ops) Ref_Body context)
       (flb_log_event_encoder_append_body ops (Append_Msgpack_Object value)))
       (call_field (eo_flush ops) Ref_Body)"

definition flb_log_event_encoder_set_body_from_raw_msgpack ::
  "'m encoder_ops \<Rightarrow> ptr \<Rightarrow> size_t \<Rightarrow> 'm flb_log_event_encoder \<Rightarrow> int \<times> 'm flb_log_event_encoder" where
  "flb_log_event_encoder_set_body_from_raw_msgpack ops value_buffer value_size context =
     then_ok (then_ok (call_field (eo_reset ops) Ref_Body context)
       (flb_log_event_encoder_append_body ops (Append_Raw_Msgpack value_buffer value_size)))
       (call_field (eo_flush ops) Ref_Body)"

definition flb_log_event_encoder_set_root_from_msgpack_object ::
  "'m encoder_ops \<Rightarrow> ptr \<Rightarrow> 'm flb_log_event_encoder \<Rightarrow> int \<times> 'm flb_log_event_encoder" where
  "flb_log_event_encoder_set_root_from_msgpack_object ops value context =
     then_ok (then_ok (then_ok (then_ok (call_field (eo_reset ops) Ref_Metadata context)
       (call_field (eo_reset ops) Ref_Body))
       (call_field (eo_reset ops) Ref_Root))
       (flb_log_event_encoder_append_root ops (Append_Msgpack_Object value)))
       (call_field (eo_flush ops) Ref_Root)"

definition flb_log_event_encoder_set_root_from_raw_msgpack ::
  "'m encoder_ops \<Rightarrow> ptr \<Rightarrow> size_t \<Rightarrow> 'm flb_log_event_encoder \<Rightarrow> int \<times> 'm flb_log_event_encoder" where
  "flb_log_event_encoder_set_root_from_raw_msgpack ops value_buffer value_size context =
     then_ok (then_ok (then_ok (then_ok (call_field (eo_reset ops) Ref_Metadata context)
       (call_field (eo_reset ops) Ref_Body))
       (call_field (eo_reset ops) Ref_Root))
       (flb_log_event_encoder_append_root ops (Append_Raw_Msgpack value_buffer value_size)))
       (call_field (eo_flush ops) Ref_Root)"

section \<open>Reading value lists\<close>

text \<open>
  The values a caller can write, the arguments their macros pass, and a reader that follows the type
  codes: what any consumer of these lists has to do.
\<close>

datatype log_value =
    V_String_Length size_t
  | V_String_Body ptr size_t
  | V_Binary_Length size_t
  | V_Binary_Body ptr size_t
  | V_Ext_Length "32 word" size_t
  | V_Ext_Body ptr size_t
  | V_Null
  | V_Char "32 word"
  | V_Int8 "32 word"
  | V_Int16 "32 word"
  | V_Int32 "32 word"
  | V_Int64 u64
  | V_Uint8 u32
  | V_Uint16 u32
  | V_Uint32 u32
  | V_Uint64 u64
  | V_Double u64
  | V_Boolean "32 word"
  | V_Msgpack_Object ptr
  | V_Msgpack_Raw ptr size_t
  | V_Timestamp ptr
  | V_Legacy_Timestamp ptr
  | V_Forward_V1_Timestamp ptr
  | V_Fluent_Bit_V1_Timestamp ptr

fun expand :: "log_value \<Rightarrow> vararg list" where
  "expand (V_String_Length x) = FLB_LOG_EVENT_STRING_LENGTH_VALUE x"
| "expand (V_String_Body x y) = FLB_LOG_EVENT_STRING_BODY_VALUE x y"
| "expand (V_Binary_Length x) = FLB_LOG_EVENT_BINARY_LENGTH_VALUE x"
| "expand (V_Binary_Body x y) = FLB_LOG_EVENT_BINARY_BODY_VALUE x y"
| "expand (V_Ext_Length x y) = FLB_LOG_EVENT_EXT_LENGTH_VALUE x y"
| "expand (V_Ext_Body x y) = FLB_LOG_EVENT_EXT_BODY_VALUE x y"
| "expand (V_Null) = FLB_LOG_EVENT_NULL_VALUE"
| "expand (V_Char x) = FLB_LOG_EVENT_CHAR_VALUE x"
| "expand (V_Int8 x) = FLB_LOG_EVENT_INT8_VALUE x"
| "expand (V_Int16 x) = FLB_LOG_EVENT_INT16_VALUE x"
| "expand (V_Int32 x) = FLB_LOG_EVENT_INT32_VALUE x"
| "expand (V_Int64 x) = FLB_LOG_EVENT_INT64_VALUE x"
| "expand (V_Uint8 x) = FLB_LOG_EVENT_UINT8_VALUE x"
| "expand (V_Uint16 x) = FLB_LOG_EVENT_UINT16_VALUE x"
| "expand (V_Uint32 x) = FLB_LOG_EVENT_UINT32_VALUE x"
| "expand (V_Uint64 x) = FLB_LOG_EVENT_UINT64_VALUE x"
| "expand (V_Double x) = FLB_LOG_EVENT_DOUBLE_VALUE x"
| "expand (V_Boolean x) = FLB_LOG_EVENT_BOOLEAN_VALUE x"
| "expand (V_Msgpack_Object x) = FLB_LOG_EVENT_MSGPACK_OBJECT_VALUE x"
| "expand (V_Msgpack_Raw x y) = FLB_LOG_EVENT_MSGPACK_RAW_VALUE x y"
| "expand (V_Timestamp x) = FLB_LOG_EVENT_TIMESTAMP_VALUE x"
| "expand (V_Legacy_Timestamp x) = FLB_LOG_EVENT_LEGACY_TIMESTAMP_VALUE x"
| "expand (V_Forward_V1_Timestamp x) = FLB_LOG_EVENT_FORWARD_V1_TIMESTAMP_VALUE x"
| "expand (V_Fluent_Bit_V1_Timestamp x) = FLB_LOG_EVENT_FLUENT_BIT_V1_TIMESTAMP_VALUE x"

definition read_value :: "vararg list \<Rightarrow> (log_value option \<times> vararg list) option" where
  "read_value args =
     (case args of
        A_int t # args \<Rightarrow>
         (let t = sint t in
          if t = FLB_LOG_EVENT_APPEND_TERMINATOR_VALUE_TYPE then Some (None, args)
          else if t = FLB_LOG_EVENT_STRING_LENGTH_VALUE_TYPE then
            (case args of A_size x # args \<Rightarrow> Some (Some (V_String_Length x), args) | _ \<Rightarrow> None)
          else if t = FLB_LOG_EVENT_STRING_BODY_VALUE_TYPE then
            (case args of A_ptr x # A_size y # args \<Rightarrow> Some (Some (V_String_Body x y), args) | _ \<Rightarrow> None)
          else if t = FLB_LOG_EVENT_BINARY_LENGTH_VALUE_TYPE then
            (case args of A_size x # args \<Rightarrow> Some (Some (V_Binary_Length x), args) | _ \<Rightarrow> None)
          else if t = FLB_LOG_EVENT_BINARY_BODY_VALUE_TYPE then
            (case args of A_ptr x # A_size y # args \<Rightarrow> Some (Some (V_Binary_Body x y), args) | _ \<Rightarrow> None)
          else if t = FLB_LOG_EVENT_EXT_LENGTH_VALUE_TYPE then
            (case args of A_int x # A_size y # args \<Rightarrow> Some (Some (V_Ext_Length x y), args) | _ \<Rightarrow> None)
          else if t = FLB_LOG_EVENT_EXT_BODY_VALUE_TYPE then
            (case args of A_ptr x # A_size y # args \<Rightarrow> Some (Some (V_Ext_Body x y), args) | _ \<Rightarrow> None)
          else if t = FLB_LOG_EVENT_NULL_VALUE_TYPE then Some (Some V_Null, args)
          else if t = FLB_LOG_EVENT_CHAR_VALUE_TYPE then
            (case args of A_int x # args \<Rightarrow> Some (Some (V_Char x), args) | _ \<Rightarrow> None)
          else if t = FLB_LOG_EVENT_INT8_VALUE_TYPE then
            (case args of A_int x # args \<Rightarrow> Some (Some (V_Int8 x), args) | _ \<Rightarrow> None)
          else if t = FLB_LOG_EVENT_INT16_VALUE_TYPE then
            (case args of A_int x # args \<Rightarrow> Some (Some (V_Int16 x), args) | _ \<Rightarrow> None)
          else if t = FLB_LOG_EVENT_INT32_VALUE_TYPE then
            (case args of A_int x # args \<Rightarrow> Some (Some (V_Int32 x), args) | _ \<Rightarrow> None)
          else if t = FLB_LOG_EVENT_INT64_VALUE_TYPE then
            (case args of A_int64 x # args \<Rightarrow> Some (Some (V_Int64 x), args) | _ \<Rightarrow> None)
          else if t = FLB_LOG_EVENT_UINT8_VALUE_TYPE then
            (case args of A_uint x # args \<Rightarrow> Some (Some (V_Uint8 x), args) | _ \<Rightarrow> None)
          else if t = FLB_LOG_EVENT_UINT16_VALUE_TYPE then
            (case args of A_uint x # args \<Rightarrow> Some (Some (V_Uint16 x), args) | _ \<Rightarrow> None)
          else if t = FLB_LOG_EVENT_UINT32_VALUE_TYPE then
            (case args of A_uint x # args \<Rightarrow> Some (Some (V_Uint32 x), args) | _ \<Rightarrow> None)
          else if t = FLB_LOG_EVENT_UINT64_VALUE_TYPE then
            (case args of A_uint64 x # args \<Rightarrow> Some (Some (V_Uint64 x), args) | _ \<Rightarrow> None)
          else if t = FLB_LOG_EVENT_DOUBLE_VALUE_TYPE then
            (case args of A_double x # args \<Rightarrow> Some (Some (V_Double x), args) | _ \<Rightarrow> None)
          else if t = FLB_LOG_EVENT_BOOLEAN_VALUE_TYPE then
            (case args of A_int x # args \<Rightarrow> Some (Some (V_Boolean x), args) | _ \<Rightarrow> None)
          else if t = FLB_LOG_EVENT_MSGPACK_OBJECT_VALUE_TYPE then
            (case args of A_ptr x # args \<Rightarrow> Some (Some (V_Msgpack_Object x), args) | _ \<Rightarrow> None)
          else if t = FLB_LOG_EVENT_MSGPACK_RAW_VALUE_TYPE then
            (case args of A_ptr x # A_size y # args \<Rightarrow> Some (Some (V_Msgpack_Raw x y), args) | _ \<Rightarrow> None)
          else if t = FLB_LOG_EVENT_TIMESTAMP_VALUE_TYPE then
            (case args of A_ptr x # args \<Rightarrow> Some (Some (V_Timestamp x), args) | _ \<Rightarrow> None)
          else if t = FLB_LOG_EVENT_LEGACY_TIMESTAMP_VALUE_TYPE then
            (case args of A_ptr x # args \<Rightarrow> Some (Some (V_Legacy_Timestamp x), args) | _ \<Rightarrow> None)
          else if t = FLB_LOG_EVENT_FORWARD_V1_TIMESTAMP_VALUE_TYPE then
            (case args of A_ptr x # args \<Rightarrow> Some (Some (V_Forward_V1_Timestamp x), args) | _ \<Rightarrow> None)
          else if t = FLB_LOG_EVENT_FLUENT_BIT_V1_TIMESTAMP_VALUE_TYPE then
            (case args of A_ptr x # args \<Rightarrow> Some (Some (V_Fluent_Bit_V1_Timestamp x), args) | _ \<Rightarrow> None)
          else None)
      | _ \<Rightarrow> None)"

lemmas value_macros =
  FLB_LOG_EVENT_STRING_LENGTH_VALUE_def
  FLB_LOG_EVENT_STRING_BODY_VALUE_def
  FLB_LOG_EVENT_BINARY_LENGTH_VALUE_def
  FLB_LOG_EVENT_BINARY_BODY_VALUE_def
  FLB_LOG_EVENT_EXT_LENGTH_VALUE_def
  FLB_LOG_EVENT_EXT_BODY_VALUE_def
  FLB_LOG_EVENT_NULL_VALUE_def
  FLB_LOG_EVENT_CHAR_VALUE_def
  FLB_LOG_EVENT_INT8_VALUE_def
  FLB_LOG_EVENT_INT16_VALUE_def
  FLB_LOG_EVENT_INT32_VALUE_def
  FLB_LOG_EVENT_INT64_VALUE_def
  FLB_LOG_EVENT_UINT8_VALUE_def
  FLB_LOG_EVENT_UINT16_VALUE_def
  FLB_LOG_EVENT_UINT32_VALUE_def
  FLB_LOG_EVENT_UINT64_VALUE_def
  FLB_LOG_EVENT_DOUBLE_VALUE_def
  FLB_LOG_EVENT_BOOLEAN_VALUE_def
  FLB_LOG_EVENT_MSGPACK_OBJECT_VALUE_def
  FLB_LOG_EVENT_MSGPACK_RAW_VALUE_def
  FLB_LOG_EVENT_TIMESTAMP_VALUE_def
  FLB_LOG_EVENT_LEGACY_TIMESTAMP_VALUE_def
  FLB_LOG_EVENT_FORWARD_V1_TIMESTAMP_VALUE_def
  FLB_LOG_EVENT_FLUENT_BIT_V1_TIMESTAMP_VALUE_def

lemma read_value_expand: "read_value (expand v @ rest) = Some (Some v, rest)"
  by (cases v) (simp_all add: read_value_def value_macros value_types)

lemma read_value_terminator: "read_value (FLB_LOG_EVENT_VALUE_LIST_TERMINATOR @ rest) = Some (None, rest)"
  by (simp add: read_value_def FLB_LOG_EVENT_VALUE_LIST_TERMINATOR_def value_types)

text \<open>Reading up to the terminator; the fuel is the length of the list.\<close>

fun read_values :: "nat \<Rightarrow> vararg list \<Rightarrow> (log_value list \<times> vararg list) option" where
  "read_values 0 args = None"
| "read_values (Suc n) args = do {
     (v, args) \<leftarrow> read_value args;
     case v of
       None \<Rightarrow> Some ([], args)
     | Some v \<Rightarrow> do { (vs, args) \<leftarrow> read_values n args; Some (v # vs, args) }
   }"

lemma read_values_expand:
  "length vs < n \<Longrightarrow>
     read_values n (concat (map expand vs) @ FLB_LOG_EVENT_VALUE_LIST_TERMINATOR @ rest) = Some (vs, rest)"
proof (induction vs arbitrary: n)
  case Nil
  then obtain k where "n = Suc k" by (cases n) auto
  then show ?case using read_value_terminator by simp
next
  case (Cons v vs)
  then obtain k where "n = Suc k" "length vs < k" by (cases n) auto
  then show ?case using Cons.IH [of k] by (simp add: read_value_expand)
qed

lemma on_field_eq:
  "on_field f target context =
     Some (if target = FLB_LOG_EVENT_METADATA then call_field f Ref_Metadata context
           else if target = FLB_LOG_EVENT_BODY then call_field f Ref_Body context
           else if target = FLB_LOG_EVENT_ROOT then call_field f Ref_Root context
           else (FLB_EVENT_ENCODER_ERROR_INVALID_ARGUMENT, context))"
  by (simp add: on_field_def flb_log_event_encoder_get_field_def encoder_results)

lemma call_field_frame:
  "context\<lparr>le_metadata := le_metadata (snd (call_field f Ref_Metadata context))\<rparr> = snd (call_field f Ref_Metadata context)"
  "context\<lparr>le_body := le_body (snd (call_field f Ref_Body context))\<rparr> = snd (call_field f Ref_Body context)"
  "context\<lparr>le_root := le_root (snd (call_field f Ref_Root context))\<rparr> = snd (call_field f Ref_Root context)"
  by (simp_all add: call_field_def split: prod.splits)

lemmas field_op_defs =
  flb_log_event_encoder_begin_map_def
  flb_log_event_encoder_commit_map_def
  flb_log_event_encoder_rollback_map_def
  flb_log_event_encoder_begin_array_def
  flb_log_event_encoder_commit_array_def
  flb_log_event_encoder_rollback_array_def
  flb_log_event_encoder_metadata_begin_map_def
  flb_log_event_encoder_metadata_commit_map_def
  flb_log_event_encoder_metadata_rollback_map_def
  flb_log_event_encoder_metadata_begin_array_def
  flb_log_event_encoder_metadata_commit_array_def
  flb_log_event_encoder_metadata_rollback_array_def
  flb_log_event_encoder_body_begin_map_def
  flb_log_event_encoder_body_commit_map_def
  flb_log_event_encoder_body_rollback_map_def
  flb_log_event_encoder_body_begin_array_def
  flb_log_event_encoder_body_commit_array_def
  flb_log_event_encoder_body_rollback_array_def
  flb_log_event_encoder_root_begin_map_def
  flb_log_event_encoder_root_commit_map_def
  flb_log_event_encoder_root_rollback_map_def
  flb_log_event_encoder_root_begin_array_def
  flb_log_event_encoder_root_commit_array_def
  flb_log_event_encoder_root_rollback_array_def

section \<open>Properties\<close>

text \<open>
  Value lists.  The argument list that the value macros and the terminator build for a sequence of
  values can be read back by the type codes alone: the reader finds exactly these values and stops
  behind the terminator, so no value can be mistaken for another or for the end.
\<close>

lemma value_lists_unambiguous:
  "flb_log_event_encoder_append_values
     (\<lambda>context field args. read_values (Suc (length vs)) (args @ rest)) context field (concat (map expand vs)) =
   Some (vs, rest)"
  unfolding flb_log_event_encoder_append_values_def append_assoc by (rule read_values_expand) simp

text \<open>The operations by field number, with the macros of the three fields.\<close>

definition field_operations where
  "field_operations =
    [(flb_log_event_encoder_begin_map, flb_log_event_encoder_metadata_begin_map,
      flb_log_event_encoder_body_begin_map, flb_log_event_encoder_root_begin_map),
     (flb_log_event_encoder_commit_map, flb_log_event_encoder_metadata_commit_map,
      flb_log_event_encoder_body_commit_map, flb_log_event_encoder_root_commit_map),
     (flb_log_event_encoder_rollback_map, flb_log_event_encoder_metadata_rollback_map,
      flb_log_event_encoder_body_rollback_map, flb_log_event_encoder_root_rollback_map),
     (flb_log_event_encoder_begin_array, flb_log_event_encoder_metadata_begin_array,
      flb_log_event_encoder_body_begin_array, flb_log_event_encoder_root_begin_array),
     (flb_log_event_encoder_commit_array, flb_log_event_encoder_metadata_commit_array,
      flb_log_event_encoder_body_commit_array, flb_log_event_encoder_root_commit_array),
     (flb_log_event_encoder_rollback_array, flb_log_event_encoder_metadata_rollback_array,
      flb_log_event_encoder_body_rollback_array, flb_log_event_encoder_root_rollback_array)]"

text \<open>
  Fields of a record.  Each of the six map and array operations, called with the number of a field,
  does what the macro of that field does, and a macro changes nothing but its field; with any other
  number they answer INVALID_ARGUMENT and leave the context as it is.
\<close>

lemma field_operations_agree:
  "list_all (\<lambda>(op, metadata, body, root).
      op ops target context =
        Some (if target = FLB_LOG_EVENT_METADATA then metadata ops context
              else if target = FLB_LOG_EVENT_BODY then body ops context
              else if target = FLB_LOG_EVENT_ROOT then root ops context
              else (FLB_EVENT_ENCODER_ERROR_INVALID_ARGUMENT, context)) \<and>
      snd (metadata ops context) = context\<lparr>le_metadata := le_metadata (snd (metadata ops context))\<rparr> \<and>
      snd (body ops context) = context\<lparr>le_body := le_body (snd (body ops context))\<rparr> \<and>
      snd (root ops context) = context\<lparr>le_root := le_root (snd (root ops context))\<rparr>) field_operations"
  by (simp add: field_operations_def field_op_defs on_field_eq call_field_frame)

end
