(* ===== verification/Mk_Io.thy ===== *)
theory Mk_Io
  imports Flb_Mem
begin

text \<open>
  Scatter/gather vectors, \<^verbatim>\<open>monkey/mk_core/mk_iov.h\<close>, and the channels between coroutines,
  \<^verbatim>\<open>monkey/mk_core/mk_thread_channel.h\<close>.  The arrays of a vector are lists: a store behind their end
  is \<open>None\<close>.
\<close>

section \<open>mk_iov.h\<close>

definition MK_IOV_CRLF :: string where "MK_IOV_CRLF = [CHR 0x0D, CHR 0x0A]"
definition MK_IOV_CRLFCRLF :: string where "MK_IOV_CRLFCRLF = [CHR 0x0D, CHR 0x0A, CHR 0x0D, CHR 0x0A]"
definition MK_IOV_LF :: string where "MK_IOV_LF = [CHR 0x0A]"
definition MK_IOV_LFLF :: string where "MK_IOV_LFLF = [CHR 0x0A, CHR 0x0A]"
definition MK_IOV_LFLFLFLF :: string where "MK_IOV_LFLFLFLF = [CHR 0x0A, CHR 0x0A, CHR 0x0A, CHR 0x0A]"
definition MK_IOV_SPACE :: string where "MK_IOV_SPACE = '' ''"
definition MK_IOV_SLASH :: string where "MK_IOV_SLASH = ''/''"
definition MK_IOV_NONE :: string where "MK_IOV_NONE = []"
definition MK_IOV_EQUAL :: string where "MK_IOV_EQUAL = ''=''"

text \<open>
  The entry type is the \<^verbatim>\<open>struct iovec\<close> of POSIX.  \<^verbatim>\<open>total_len\<close> is an \<^verbatim>\<open>unsigned long\<close>, here with the 64 bits it has where
  POSIX vectors exist; a Windows build would keep the lower 32 bits of the sum.
\<close>

record mk_iovec =
  iov_base :: ptr
  iov_len :: size_t

record mk_iov =
  iov_idx :: int
  iov_buf_idx :: int
  iov_size :: int
  iov_total_len :: u64
  iov_io :: "mk_iovec list"
  iov_buf_to_free :: "ptr list"

text \<open>Storing at an \<^verbatim>\<open>int\<close> index of an array, and incrementing an \<^verbatim>\<open>int\<close>, whose overflow is undefined.\<close>

definition store_at :: "int \<Rightarrow> 'a \<Rightarrow> 'a list \<Rightarrow> 'a list option" where
  "store_at i x xs = (if 0 \<le> i \<and> i < int (length xs) then Some (xs[nat i := x]) else None)"

definition inc_int :: "int \<Rightarrow> int option" where
  "inc_int i = (if i < 2 ^ 31 - 1 then Some (i + 1) else None)"

text \<open>The loop that clears the entries below the offset; its fuel is the number of iterations left.\<close>

fun zero_entries :: "nat \<Rightarrow> int \<Rightarrow> mk_iovec list \<Rightarrow> mk_iovec list option" where
  "zero_entries 0 i io = Some io"
| "zero_entries (Suc n) i io = do {
     io \<leftarrow> store_at i \<lparr>iov_base = NULL, iov_len = 0\<rparr> io;
     zero_entries n (i + 1) io
   }"

definition mk_iov_init :: "int \<Rightarrow> int \<Rightarrow> mk_iov \<Rightarrow> (int \<times> mk_iov) option" where
  "mk_iov_init n offset iov =
     (let iov = iov\<lparr>iov_idx := offset, iov_buf_idx := 0, iov_total_len := 0, iov_size := n\<rparr>
      in if offset > 0 then do {
           io \<leftarrow> zero_entries (nat offset) 0 (iov_io iov);
           Some (0, iov\<lparr>iov_io := io\<rparr>)
         }
         else Some (0, iov))"

definition mk_iov_set_free :: "ptr \<Rightarrow> mk_iov \<Rightarrow> mk_iov option" where
  "mk_iov_set_free buf mk_io = do {
     bs \<leftarrow> store_at (iov_buf_idx mk_io) buf (iov_buf_to_free mk_io);
     i \<leftarrow> inc_int (iov_buf_idx mk_io);
     Some (mk_io\<lparr>iov_buf_to_free := bs, iov_buf_idx := i\<rparr>)
   }"

definition mk_iov_add :: "ptr \<Rightarrow> int \<Rightarrow> int \<Rightarrow> mk_iov \<Rightarrow> (int \<times> mk_iov) option" where
  "mk_iov_add buf len free_flag mk_io = do {
     io \<leftarrow> store_at (iov_idx mk_io) \<lparr>iov_base = buf, iov_len = word_of_int len\<rparr> (iov_io mk_io);
     i \<leftarrow> inc_int (iov_idx mk_io);
     let mk_io = mk_io\<lparr>iov_io := io, iov_idx := i, iov_total_len := iov_total_len mk_io + word_of_int len\<rparr>;
     mk_io \<leftarrow> (if free_flag = MK_TRUE then mk_iov_set_free buf mk_io else Some mk_io);
     if iov_idx mk_io > iov_size mk_io then Some (- 1, mk_io)
     else Some (iov_idx mk_io, mk_io)
   }"

section \<open>mk_thread_channel.h\<close>

text \<open>
  \<open>ch_bufs\<close> and \<open>ch_head\<close>: the addresses of the embedded list nodes.  \<^verbatim>\<open>EPIPE\<close> is 32 on the targets;
  \<^verbatim>\<open>mk_thread_add_channel\<close> is only declared: a parameter that changes the world of the scheduler.
\<close>

definition EPIPE :: int where "EPIPE = 32"
definition MK_THREAD_CHANNEL_OK :: int where "MK_THREAD_CHANNEL_OK = 0"
definition MK_THREAD_CHANNEL_BROKEN :: int where "MK_THREAD_CHANNEL_BROKEN = - EPIPE"

record mk_thread_channel =
  ch_size :: int
  ch_used :: int
  ch_bufs :: ptr
  ch_sender :: int
  ch_receiver :: int
  ch_ended :: int
  ch_done :: int
  ch_head :: ptr

definition mk_thread_channel_get_sender :: "mk_thread_channel \<Rightarrow> int" where
  "mk_thread_channel_get_sender chan = ch_sender chan"

definition mk_thread_channel_set_sender :: "mk_thread_channel \<Rightarrow> int \<Rightarrow> mk_thread_channel" where
  "mk_thread_channel_set_sender chan sender = chan\<lparr>ch_sender := sender\<rparr>"

definition mk_thread_channel_get_receiver :: "mk_thread_channel \<Rightarrow> int" where
  "mk_thread_channel_get_receiver chan = ch_receiver chan"

definition mk_thread_channel_set_receiver ::
  "(int \<Rightarrow> mk_thread_channel \<Rightarrow> 'w \<Rightarrow> 'w) \<Rightarrow> mk_thread_channel \<Rightarrow> int \<Rightarrow> 'w \<Rightarrow> mk_thread_channel \<times> 'w" where
  "mk_thread_channel_set_receiver mk_thread_add_channel chan receiver w =
     (let chan = chan\<lparr>ch_receiver := receiver\<rparr> in (chan, mk_thread_add_channel receiver chan w))"

definition mk_thread_channel_done :: "mk_thread_channel \<Rightarrow> int" where
  "mk_thread_channel_done chan = ch_done chan"

definition mk_thread_channel_end :: "mk_thread_channel \<Rightarrow> mk_thread_channel" where
  "mk_thread_channel_end chan = chan\<lparr>ch_ended := 1\<rparr>"

section \<open>Filling a vector\<close>

text \<open>
  A sequence of calls of \<^verbatim>\<open>mk_iov_add\<close>, as a caller makes them, with the last result; and what the
  vector holds.
\<close>

fun add_all :: "(ptr \<times> int \<times> int) list \<Rightarrow> int \<times> mk_iov \<Rightarrow> (int \<times> mk_iov) option" where
  "add_all [] s = Some s"
| "add_all ((buf, len, free_flag) # rest) s = do { s \<leftarrow> mk_iov_add buf len free_flag (snd s); add_all rest s }"

definition entry_of :: "ptr \<times> int \<times> int \<Rightarrow> mk_iovec" where
  "entry_of b = \<lparr>iov_base = fst b, iov_len = word_of_int (fst (snd b))\<rparr>"

definition to_free :: "(ptr \<times> int \<times> int) list \<Rightarrow> ptr list" where
  "to_free bs = map fst (filter (\<lambda>b. snd (snd b) = MK_TRUE) bs)"

definition entries :: "mk_iov \<Rightarrow> mk_iovec list" where
  "entries iov = take (nat (iov_idx iov)) (iov_io iov)"

definition freed :: "mk_iov \<Rightarrow> ptr list" where
  "freed iov = take (nat (iov_buf_idx iov)) (iov_buf_to_free iov)"

text \<open>The state of a vector whose two arrays have the announced number of elements.\<close>

definition iov_ok :: "mk_iov \<Rightarrow> bool" where
  "iov_ok iov \<longleftrightarrow> 0 \<le> iov_buf_idx iov \<and> iov_buf_idx iov \<le> iov_idx iov \<and> iov_idx iov \<le> iov_size iov \<and>
     iov_size iov < 2 ^ 31 \<and> length (iov_io iov) = nat (iov_size iov) \<and> length (iov_buf_to_free iov) = nat (iov_size iov)"

lemma take_store: "i < length xs \<Longrightarrow> take (Suc i) (xs[i := x]) = take i xs @ [x]"
  by (simp add: take_Suc_conv_app_nth)

lemma store_at_ok: "0 \<le> i \<Longrightarrow> i < int (length xs) \<Longrightarrow> store_at i x xs = Some (xs[nat i := x])"
  by (simp add: store_at_def)

lemma zero_entries_eq:
  "n + i \<le> length io \<Longrightarrow>
     zero_entries n (int i) io = Some (take i io @ replicate n \<lparr>iov_base = NULL, iov_len = 0\<rparr> @ drop (n + i) io)"
proof (induction n arbitrary: i io)
  case (Suc n)
  have "zero_entries (Suc n) (int i) io = zero_entries n (int (Suc i)) (io[i := \<lparr>iov_base = NULL, iov_len = 0\<rparr>])"
    using Suc.prems by (simp add: store_at_def add.commute)
  also have "\<dots> = Some (take (Suc i) (io[i := \<lparr>iov_base = NULL, iov_len = 0\<rparr>]) @
      replicate n \<lparr>iov_base = NULL, iov_len = 0\<rparr> @ drop (n + Suc i) (io[i := \<lparr>iov_base = NULL, iov_len = 0\<rparr>]))"
    using Suc.prems by (intro Suc.IH) simp
  finally show ?case using Suc.prems by (simp add: take_store)
qed simp

lemma mk_iov_set_free_ok:
  assumes "0 \<le> iov_buf_idx iov" "iov_buf_idx iov < int (length (iov_buf_to_free iov))" "length (iov_buf_to_free iov) < 2 ^ 31"
  shows "mk_iov_set_free buf iov = Some (iov\<lparr>iov_buf_to_free := (iov_buf_to_free iov)[nat (iov_buf_idx iov) := buf],
    iov_buf_idx := iov_buf_idx iov + 1\<rparr>)"
  using assms by (simp add: mk_iov_set_free_def store_at_def inc_int_def)

lemma mk_iov_add_ok:
  assumes iov: "iov_ok iov" and room: "iov_idx iov < iov_size iov"
  shows "\<exists>iov'. mk_iov_add buf len f iov = Some (iov_idx iov + 1, iov') \<and> iov_ok iov' \<and>
    iov_idx iov' = iov_idx iov + 1 \<and> iov_size iov' = iov_size iov \<and>
    entries iov' = entries iov @ [entry_of (buf, len, f)] \<and> freed iov' = freed iov @ to_free [(buf, len, f)] \<and>
    iov_total_len iov' = iov_total_len iov + iov_len (entry_of (buf, len, f))"
proof -
  let ?e = "\<lparr>iov_base = buf, iov_len = word_of_int len\<rparr>"
  let ?b = "iov\<lparr>iov_io := (iov_io iov)[nat (iov_idx iov) := ?e], iov_idx := iov_idx iov + 1,
    iov_total_len := iov_total_len iov + word_of_int len\<rparr>"
  let ?c = "?b\<lparr>iov_buf_to_free := (iov_buf_to_free iov)[nat (iov_buf_idx iov) := buf], iov_buf_idx := iov_buf_idx iov + 1\<rparr>"
  let ?r = "if f = MK_TRUE then ?c else ?b"
  have bounds: "0 \<le> iov_buf_idx iov" "iov_buf_idx iov \<le> iov_idx iov" "iov_size iov < 2 ^ 31"
    "length (iov_io iov) = nat (iov_size iov)" "length (iov_buf_to_free iov) = nat (iov_size iov)"
    using iov by (auto simp: iov_ok_def)
  have "mk_iov_set_free buf ?b = Some ?c"
    using mk_iov_set_free_ok [of ?b buf] bounds room by simp
  then have "mk_iov_add buf len f iov = Some (iov_idx iov + 1, ?r)"
    using bounds room by (simp add: mk_iov_add_def store_at_def inc_int_def)
  moreover have "nat (iov_idx iov + 1) = Suc (nat (iov_idx iov))" "nat (iov_buf_idx iov + 1) = Suc (nat (iov_buf_idx iov))"
    using bounds by simp_all
  then have "entries ?r = entries iov @ [entry_of (buf, len, f)]" "freed ?r = freed iov @ to_free [(buf, len, f)]"
    using bounds room by (simp_all add: entries_def freed_def entry_of_def to_free_def take_store)
  moreover have "iov_ok ?r" using bounds room by (simp add: iov_ok_def)
  ultimately show ?thesis by (intro exI [of _ ?r]) (simp add: entry_of_def)
qed

lemma mk_iov_add_full: "iov_ok iov \<Longrightarrow> iov_idx iov = iov_size iov \<Longrightarrow> mk_iov_add buf len f iov = None"
  by (simp add: mk_iov_add_def store_at_def iov_ok_def)

lemma add_all_ok:
  assumes "iov_ok iov" "iov_idx iov + int (length bs) \<le> iov_size iov"
  shows "\<exists>iov'. add_all bs (r, iov) = Some (if bs = [] then r else iov_idx iov + int (length bs), iov') \<and>
    entries iov' = entries iov @ map entry_of bs \<and> freed iov' = freed iov @ to_free bs \<and>
    iov_total_len iov' = iov_total_len iov + sum_list (map (iov_len \<circ> entry_of) bs)"
  using assms
proof (induction bs arbitrary: iov r)
  case (Cons b bs)
  obtain buf len f where b: "b = (buf, len, f)" by (cases b)
  from Cons.prems mk_iov_add_ok [of iov buf len f] obtain iov' where iov':
    "mk_iov_add buf len f iov = Some (iov_idx iov + 1, iov')" "iov_ok iov'" "iov_idx iov' = iov_idx iov + 1"
    "iov_size iov' = iov_size iov" "entries iov' = entries iov @ [entry_of b]" "freed iov' = freed iov @ to_free [b]"
    "iov_total_len iov' = iov_total_len iov + iov_len (entry_of b)" by (auto simp: b)
  have "iov_idx iov' + int (length bs) \<le> iov_size iov'" using Cons.prems iov' by simp
  from Cons.IH [OF iov'(2) this, of "iov_idx iov + 1"] iov' show ?case
    by (auto simp: b to_free_def ac_simps split: if_splits)
qed (simp add: to_free_def)

lemma add_all_overflow:
  assumes "iov_ok iov" "iov_size iov < iov_idx iov + int (length bs)"
  shows "add_all bs (r, iov) = None"
  using assms
proof (induction bs arbitrary: iov r)
  case Nil
  then show ?case by (simp add: iov_ok_def)
next
  case (Cons b bs)
  obtain buf len f where b: "b = (buf, len, f)" by (cases b)
  show ?case
  proof (cases "iov_idx iov = iov_size iov")
    case True
    then show ?thesis using mk_iov_add_full Cons.prems by (simp add: b)
  next
    case False
    then have "iov_idx iov < iov_size iov" using Cons.prems(1) by (simp add: iov_ok_def)
    with Cons.prems(1) mk_iov_add_ok [of iov buf len f] obtain iov' where iov':
      "mk_iov_add buf len f iov = Some (iov_idx iov + 1, iov')" "iov_ok iov'" "iov_idx iov' = iov_idx iov + 1"
      "iov_size iov' = iov_size iov" by auto
    then show ?thesis using Cons.IH [OF iov'(2), of "iov_idx iov + 1"] Cons.prems by (simp add: b)
  qed
qed

section \<open>Properties\<close>

text \<open>
  C28: filling a scatter/gather vector.  After \<^verbatim>\<open>mk_iov_init(iov, n, offset)\<close> on arrays of \<open>n\<close> elements,
  calls of \<^verbatim>\<open>mk_iov_add\<close> for up to \<open>n - offset\<close> buffers answer the number of entries used, behind \<open>offset\<close>
  null entries the vector holds the buffers in order, the total is the sum of their lengths and the
  buffers marked so are queued for release.  One buffer more is written behind the arrays: the
  answer -1 for a full vector comes after the store and is never reached within bounds.
\<close>

theorem iov_fill:
  assumes "0 \<le> offset" "offset \<le> n" "n < 2 ^ 31"
    and "length (iov_io iov) = nat n" "length (iov_buf_to_free iov) = nat n"
  shows "\<exists>iov0. mk_iov_init n offset iov = Some (0, iov0) \<and>
    (if offset + int (length bs) \<le> n then
       \<exists>iov'. add_all bs (offset, iov0) = Some (offset + int (length bs), iov') \<and>
         entries iov' = replicate (nat offset) \<lparr>iov_base = NULL, iov_len = 0\<rparr> @ map entry_of bs \<and>
         freed iov' = to_free bs \<and> iov_total_len iov' = sum_list (map (iov_len \<circ> entry_of) bs)
     else add_all bs (offset, iov0) = None)"
proof -
  let ?z = "replicate (nat offset) \<lparr>iov_base = NULL, iov_len = 0\<rparr>"
  let ?iov0 = "iov\<lparr>iov_idx := offset, iov_buf_idx := 0, iov_total_len := 0, iov_size := n,
    iov_io := ?z @ drop (nat offset) (iov_io iov)\<rparr>"
  have "nat offset + 0 \<le> length (iov_io iov)" using assms by simp
  from zero_entries_eq [OF this] have init: "mk_iov_init n offset iov = Some (0, ?iov0)"
    using assms(1) by (cases "offset = 0"; cases iov) (simp_all add: mk_iov_init_def Let_def)
  moreover have ok: "iov_ok ?iov0" using assms by (simp add: iov_ok_def nat_diff_distrib)
  moreover have "entries ?iov0 = ?z" "freed ?iov0 = []" by (simp_all add: entries_def freed_def)
  ultimately show ?thesis
    using add_all_ok [OF ok, of bs offset] add_all_overflow [OF ok, of bs offset]
    by (intro exI [of _ ?iov0]) (auto split: if_splits)
qed

theorem iov_fill_witness:
  "\<exists>iov0. mk_iov_init 2 1 \<lparr>iov_idx = 0, iov_buf_idx = 0, iov_size = 0, iov_total_len = 0,
      iov_io = replicate 2 \<lparr>iov_base = 9, iov_len = 9\<rparr>, iov_buf_to_free = [0, 0]\<rparr> = Some (0, iov0) \<and>
    (\<exists>iov'. add_all [(64, 3, 1)] (1, iov0) = Some (2, iov') \<and>
       entries iov' = [\<lparr>iov_base = NULL, iov_len = 0\<rparr>, \<lparr>iov_base = 64, iov_len = 3\<rparr>] \<and> freed iov' = [64])"
  using iov_fill [of 1 2 "\<lparr>iov_idx = 0, iov_buf_idx = 0, iov_size = 0, iov_total_len = 0,
      iov_io = replicate 2 \<lparr>iov_base = 9, iov_len = 9\<rparr>, iov_buf_to_free = [0, 0]\<rparr>" "[(64, 3, 1)]"]
  by (fastforce simp: entry_of_def to_free_def)

end
