(* ===== verification/Mk_Macros.thy ===== *)
theory Mk_Macros
  imports Flb_Byteswap
begin

text \<open>
  The macros of \<^verbatim>\<open>monkey/mk_core/mk_macros.h\<close>: message codes, terminal colours, checks, and the data of
  a sub-network from an address and a prefix length.  An address is the \<^verbatim>\<open>s_addr\<close> of POSIX: four bytes
  in network order, held in an integer of the host, whose byte order is the parameter \<open>little\<close>.  The
  arguments of a macro are modelled by their values: the network macros do not put them into
  parentheses.
\<close>

section \<open>Constants\<close>

definition MK_ERROR :: int where "MK_ERROR = - 1"
definition MK_INFO :: int where "MK_INFO = 0x1000"
definition MK_ERR :: int where "MK_ERR = 0x1001"
definition MK_WARN :: int where "MK_WARN = 0x1002"
definition MK_BUG :: int where "MK_BUG = 0x1003"

text \<open>Escape sequences of the builds that are not made by the Microsoft compiler, which has empty ones.\<close>

definition ANSI_RESET :: "bool \<Rightarrow> string" where
  "ANSI_RESET msc = (if msc then [] else CHR 0x1B # ''[0m'')"
definition ANSI_BOLD :: "bool \<Rightarrow> string" where
  "ANSI_BOLD msc = (if msc then [] else CHR 0x1B # ''[1m'')"
definition ANSI_CYAN :: "bool \<Rightarrow> string" where
  "ANSI_CYAN msc = (if msc then [] else CHR 0x1B # ''[96m'')"
definition ANSI_MAGENTA :: "bool \<Rightarrow> string" where
  "ANSI_MAGENTA msc = (if msc then [] else CHR 0x1B # ''[95m'')"
definition ANSI_RED :: "bool \<Rightarrow> string" where
  "ANSI_RED msc = (if msc then [] else CHR 0x1B # ''[91m'')"
definition ANSI_YELLOW :: "bool \<Rightarrow> string" where
  "ANSI_YELLOW msc = (if msc then [] else CHR 0x1B # ''[93m'')"
definition ANSI_BLUE :: "bool \<Rightarrow> string" where
  "ANSI_BLUE msc = (if msc then [] else CHR 0x1B # ''[94m'')"
definition ANSI_GREEN :: "bool \<Rightarrow> string" where
  "ANSI_GREEN msc = (if msc then [] else CHR 0x1B # ''[92m'')"
definition ANSI_WHITE :: "bool \<Rightarrow> string" where
  "ANSI_WHITE msc = (if msc then [] else CHR 0x1B # ''[97m'')"
definition ANSI_BOLD_CYAN :: "bool \<Rightarrow> string" where
  "ANSI_BOLD_CYAN msc = ANSI_BOLD msc @ ANSI_CYAN msc"
definition ANSI_BOLD_MAGENTA :: "bool \<Rightarrow> string" where
  "ANSI_BOLD_MAGENTA msc = ANSI_BOLD msc @ ANSI_MAGENTA msc"
definition ANSI_BOLD_RED :: "bool \<Rightarrow> string" where
  "ANSI_BOLD_RED msc = ANSI_BOLD msc @ ANSI_RED msc"
definition ANSI_BOLD_YELLOW :: "bool \<Rightarrow> string" where
  "ANSI_BOLD_YELLOW msc = ANSI_BOLD msc @ ANSI_YELLOW msc"
definition ANSI_BOLD_BLUE :: "bool \<Rightarrow> string" where
  "ANSI_BOLD_BLUE msc = ANSI_BOLD msc @ ANSI_BLUE msc"
definition ANSI_BOLD_GREEN :: "bool \<Rightarrow> string" where
  "ANSI_BOLD_GREEN msc = ANSI_BOLD msc @ ANSI_GREEN msc"
definition ANSI_BOLD_WHITE :: "bool \<Rightarrow> string" where
  "ANSI_BOLD_WHITE msc = ANSI_BOLD msc @ ANSI_WHITE msc"

definition MK_BANNER_ENTRY :: "bool \<Rightarrow> string" where
  "MK_BANNER_ENTRY msc = ANSI_BOLD msc @ ''['' @ ANSI_GREEN msc @ ''+'' @ ANSI_RESET msc @ ANSI_BOLD msc @ ''] '' @ ANSI_RESET msc"

definition MK_TRANSPORT_HTTP :: string where "MK_TRANSPORT_HTTP = ''http''"
definition MK_TRANSPORT_HTTPS :: string where "MK_TRANSPORT_HTTPS = ''https''"
definition O_CLOEXEC :: int where "O_CLOEXEC = 2 * 8 ^ 6"

section \<open>Messages and checks\<close>

text \<open>\<open>mk_print\<close> is only declared: a parameter, with the message and the world it changes.\<close>

definition mk_info :: "(int \<Rightarrow> 'f \<Rightarrow> 'w \<Rightarrow> 'w) \<Rightarrow> 'f \<Rightarrow> 'w \<Rightarrow> 'w" where
  "mk_info mk_print message = mk_print MK_INFO message"
definition mk_err :: "(int \<Rightarrow> 'f \<Rightarrow> 'w \<Rightarrow> 'w) \<Rightarrow> 'f \<Rightarrow> 'w \<Rightarrow> 'w" where
  "mk_err mk_print message = mk_print MK_ERR message"
definition mk_warn :: "(int \<Rightarrow> 'f \<Rightarrow> 'w \<Rightarrow> 'w) \<Rightarrow> 'f \<Rightarrow> 'w \<Rightarrow> 'w" where
  "mk_warn mk_print message = mk_print MK_WARN message"

definition mk_unlikely :: "int \<Rightarrow> int" where "mk_unlikely x = x"
definition mk_likely :: "int \<Rightarrow> int" where "mk_likely x = x"

definition mk_is_bool :: "int \<Rightarrow> int" where
  "mk_is_bool x = (if x = MK_TRUE \<or> x = MK_FALSE then 1 else 0)"

text \<open>\<^verbatim>\<open>mk_bug\<close> prints and aborts the process when the condition holds: \<open>Inl\<close> the world it leaves.\<close>

definition mk_bug :: "(int \<Rightarrow> 'f \<Rightarrow> 'w \<Rightarrow> 'w) \<Rightarrow> 'f \<Rightarrow> int \<Rightarrow> 'w \<Rightarrow> 'w + 'w" where
  "mk_bug mk_print message condition w =
     (if mk_unlikely (if condition \<noteq> 0 then 1 else 0) \<noteq> 0 then Inl (mk_print MK_BUG message w) else Inr w)"

definition mk_exception :: "(int \<Rightarrow> 'f \<Rightarrow> 'w \<Rightarrow> 'w) \<Rightarrow> 'f \<Rightarrow> 'w \<Rightarrow> 'w" where
  "mk_exception mk_print message = mk_print MK_WARN message"

text \<open>
  The error reports of \<^verbatim>\<open>monkey/mk_core/mk_utils.h\<close>: \<^verbatim>\<open>strerror_r\<close> gives a result and the text it wrote,
  \<open>errno\<close> is the error number of the thread.
\<close>

definition MK_UTILS_ERROR_SIZE :: nat where "MK_UTILS_ERROR_SIZE = 128"

datatype 'b libc_message = Strerror_Failed | Libc_Message string 'b int string int

definition MK_UTILS_LIBC_ERRNO_BUFFER ::
  "(int \<Rightarrow> int \<times> 'b) \<Rightarrow> (int \<Rightarrow> 'b libc_message \<Rightarrow> 'w \<Rightarrow> 'w) \<Rightarrow> int \<Rightarrow> 'w \<Rightarrow> 'b \<times> int \<times> 'w" where
  "MK_UTILS_LIBC_ERRNO_BUFFER strerror_r mk_print errno w =
     (let err = errno; (rc, buf) = strerror_r err;
          w = (if rc \<noteq> 0 then mk_err mk_print Strerror_Failed w else w)
      in (buf, err, w))"

definition mk_utils_libc_error ::
  "(int \<Rightarrow> int \<times> 'b) \<Rightarrow> (int \<Rightarrow> 'b libc_message \<Rightarrow> 'w \<Rightarrow> 'w) \<Rightarrow> int \<Rightarrow> string \<Rightarrow> string \<Rightarrow> int \<Rightarrow> 'w \<Rightarrow> 'w" where
  "mk_utils_libc_error strerror_r mk_print errno caller file line w =
     (let (buf, err, w) = MK_UTILS_LIBC_ERRNO_BUFFER strerror_r mk_print errno w
      in mk_err mk_print (Libc_Message caller buf err file line) w)"

definition mk_utils_libc_warn ::
  "(int \<Rightarrow> int \<times> 'b) \<Rightarrow> (int \<Rightarrow> 'b libc_message \<Rightarrow> 'w \<Rightarrow> 'w) \<Rightarrow> int \<Rightarrow> string \<Rightarrow> string \<Rightarrow> int \<Rightarrow> 'w \<Rightarrow> 'w" where
  "mk_utils_libc_warn strerror_r mk_print errno caller file line w =
     (let (buf, err, w) = MK_UTILS_LIBC_ERRNO_BUFFER strerror_r mk_print errno w
      in mk_warn mk_print (Libc_Message caller buf err file line) w)"

text \<open>The wrappers of \<^verbatim>\<open>monkey/mk_core/mk_macros.h\<close>, which fill in the position.\<close>

definition mk_libc_error ::
  "(int \<Rightarrow> int \<times> 'b) \<Rightarrow> (int \<Rightarrow> 'b libc_message \<Rightarrow> 'w \<Rightarrow> 'w) \<Rightarrow> int \<Rightarrow> string \<times> int \<Rightarrow> string \<Rightarrow> 'w \<Rightarrow> 'w" where
  "mk_libc_error strerror_r mk_print errno pos c = mk_utils_libc_error strerror_r mk_print errno c (fst pos) (snd pos)"

definition mk_libc_warn ::
  "(int \<Rightarrow> int \<times> 'b) \<Rightarrow> (int \<Rightarrow> 'b libc_message \<Rightarrow> 'w \<Rightarrow> 'w) \<Rightarrow> int \<Rightarrow> string \<times> int \<Rightarrow> string \<Rightarrow> 'w \<Rightarrow> 'w" where
  "mk_libc_warn strerror_r mk_print errno pos c = mk_utils_libc_warn strerror_r mk_print errno c (fst pos) (snd pos)"

section \<open>Byte order\<close>

text \<open>\<^verbatim>\<open>htonl\<close> and \<^verbatim>\<open>ntohl\<close> of POSIX: the integer with the bytes of the argument, big end first, in memory.\<close>

definition htonl :: "bool \<Rightarrow> u32 \<Rightarrow> u32" where
  "htonl little x = from_raw little (to_raw False 4 x)"

definition ntohl :: "bool \<Rightarrow> u32 \<Rightarrow> u32" where
  "ntohl little x = from_raw False (to_raw little 4 x)"

section \<open>The macros\<close>

text \<open>A shift by less than 0 or by 32 and more is undefined: \<open>None\<close>.\<close>

definition shift_left :: "u32 \<Rightarrow> int \<Rightarrow> u32 option" where
  "shift_left x n = (if 0 \<le> n \<and> n < 32 then Some (push_bit (nat n) x) else None)"

definition shift_right :: "u32 \<Rightarrow> int \<Rightarrow> u32 option" where
  "shift_right x n = (if 0 \<le> n \<and> n < 32 then Some (drop_bit (nat n) x) else None)"

definition MK_NET_IP_OCTECT :: "u32 \<Rightarrow> int \<Rightarrow> u32 option" where
  "MK_NET_IP_OCTECT addr pos = map_option (\<lambda>x. x AND 255) (shift_right addr (8 * pos))"

definition MK_NET_NETMASK :: "bool \<Rightarrow> u32 \<Rightarrow> int \<Rightarrow> u32 option" where
  "MK_NET_NETMASK little addr net = map_option (htonl little) (shift_left 0xffffffff (32 - net))"

definition MK_NET_BROADCAST :: "bool \<Rightarrow> u32 \<Rightarrow> int \<Rightarrow> u32 option" where
  "MK_NET_BROADCAST little addr net = map_option (\<lambda>m. addr OR NOT m) (MK_NET_NETMASK little addr net)"

definition MK_NET_NETWORK :: "bool \<Rightarrow> u32 \<Rightarrow> int \<Rightarrow> u32 option" where
  "MK_NET_NETWORK little addr net = map_option (\<lambda>m. addr AND m) (MK_NET_NETMASK little addr net)"

definition MK_NET_WILDCARD :: "bool \<Rightarrow> u32 \<Rightarrow> int \<Rightarrow> u32 option" where
  "MK_NET_WILDCARD little addr net = do {
     b \<leftarrow> MK_NET_BROADCAST little addr net;
     n \<leftarrow> MK_NET_NETWORK little addr net;
     Some (b XOR n)
   }"

definition MK_NET_HOSTMIN :: "bool \<Rightarrow> u32 \<Rightarrow> int \<Rightarrow> u32 option" where
  "MK_NET_HOSTMIN little addr net =
     (if net = 31 then MK_NET_NETWORK little addr net
      else map_option (\<lambda>n. n + 0x01000000) (MK_NET_NETWORK little addr net))"

definition MK_NET_HOSTMAX :: "bool \<Rightarrow> u32 \<Rightarrow> int \<Rightarrow> u32 option" where
  "MK_NET_HOSTMAX little addr net =
     (if net = 31 then MK_NET_BROADCAST little addr net
      else map_option (\<lambda>b. b - 0x01000000) (MK_NET_BROADCAST little addr net))"

section \<open>Byte order and bits\<close>

definition swapped :: "nat \<Rightarrow> nat" where
  "swapped n = 8 * (3 - n div 8) + n mod 8"

lemma swapped: "n < 32 \<Longrightarrow> swapped n < 32" "n < 32 \<Longrightarrow> swapped (swapped n) = n"
proof -
  assume n: "n < 32"
  then have d: "n div 8 \<le> 3" by simp
  have r: "n mod 8 < 8" by simp
  show "swapped n < 32" using d r by (simp add: swapped_def)
  have "swapped n div 8 = 3 - n div 8" "swapped n mod 8 = n mod 8" using r by (simp_all add: swapped_def)
  then show "swapped (swapped n) = n" using d by (simp add: swapped_def [of "swapped n"])
qed

lemma bit_byte_of: "j < 8 \<Longrightarrow> bit (byte_of w i) j = bit w (8 * i + j)"
  by (simp add: byte_of_def bit_simps)

lemma bit_le_word_rev:
  "bit (le_word (rev (map (byte_of x) [0..<4])) :: u32) n \<longleftrightarrow> n < 32 \<and> bit (x :: u32) (swapped n)"
proof (cases "n < 32")
  case True
  let ?w = "le_word (rev (map (byte_of x) [0..<4])) :: u32"
  have "n = 8 * (n div 8) + n mod 8" by simp
  then have "bit ?w n = bit (byte_of ?w (n div 8)) (n mod 8)" by (metis bit_byte_of mod_less_divisor zero_less_numeral)
  also have "byte_of ?w (n div 8) = rev (map (byte_of x) [0..<4]) ! (n div 8)"
    using True by (intro byte_of_le_word) simp_all
  also have "\<dots> = byte_of x (3 - n div 8)" using True by (simp add: rev_nth)
  finally show ?thesis using True by (simp add: bit_byte_of swapped_def)
next
  case False
  then show ?thesis by (auto dest: bit_imp_le_length)
qed

lemma le_word_bytes: "le_word (map (byte_of x) [0..<4]) = (x :: u32)"
  by (rule word_eq_bytes [of 4]) (simp_all add: byte_of_le_word)

lemma bit_htonl:
  "bit (htonl little x) n \<longleftrightarrow> n < 32 \<and> bit x (if little then swapped n else n)"
  using bit_imp_le_length [of x n] by (cases little) (auto simp: htonl_def from_raw_def to_raw_def bit_le_word_rev le_word_bytes)

lemma ntohl_htonl: "ntohl = htonl"
  by (intro ext, rule bit_word_eqI)
    (simp add: htonl_def ntohl_def from_raw_def to_raw_def Let_def rev_map split: if_splits)

lemma htonl_htonl [simp]: "htonl little (htonl little x) = x"
  by (rule bit_word_eqI) (auto simp: bit_htonl swapped split: if_splits)

lemma htonl_and: "htonl little (x AND y) = htonl little x AND htonl little y"
  by (rule bit_word_eqI) (auto simp: bit_htonl bit_simps)

lemma htonl_or: "htonl little (x OR y) = htonl little x OR htonl little y"
  by (rule bit_word_eqI) (auto simp: bit_htonl bit_simps)

lemma htonl_xor: "htonl little (x XOR y) = htonl little x XOR htonl little y"
  by (rule bit_word_eqI) (auto simp: bit_htonl bit_simps)

lemma htonl_not: "htonl little (NOT x) = NOT (htonl little x)"
  by (rule bit_word_eqI) (auto simp: bit_htonl bit_simps swapped)

section \<open>Prefixes\<close>

text \<open>The first and the last address of the block of \<open>2 ^ k\<close> addresses around \<open>a\<close>.\<close>

definition first_of :: "nat \<Rightarrow> nat \<Rightarrow> nat" where
  "first_of k a = a div 2 ^ k * 2 ^ k"

definition last_of :: "nat \<Rightarrow> nat \<Rightarrow> nat" where
  "last_of k a = first_of k a + (2 ^ k - 1)"

lemma u32_len: "2 ^ LENGTH(32) = (2 ^ 32 :: nat)"
  by simp

lemma and_high: "unat (h AND push_bit k (- 1)) = first_of k (unat h)" for h :: u32
proof -
  have "h AND push_bit k (- 1) = push_bit k (drop_bit k h)"
    by (rule bit_word_eqI) (auto simp: bit_simps)
  moreover have "unat (push_bit k (drop_bit k h)) = take_bit 32 (push_bit k (take_bit 32 (drop_bit k (unat h))))"
    by (rule bit_eqI) (auto simp: bit_simps dest: bit_imp_le_length)
  moreover have "unat h div 2 ^ k * 2 ^ k < 2 ^ 32" "unat h div 2 ^ k < 2 ^ 32"
    using unat_less_len [of h] by (metis (no_types) div_times_less_eq_dividend div_le_dividend le_less_trans u32_len)+
  ultimately show ?thesis
    by (simp add: first_of_def push_bit_eq_mult [where 'a = nat] drop_bit_eq_div [where 'a = nat] take_bit_eq_mod)
qed

lemma unat_mask: "k \<le> 32 \<Longrightarrow> unat (mask k :: u32) = 2 ^ k - 1"
proof -
  assume "k \<le> 32"
  then have "unat (mask k :: u32) = mask k" by (intro bit_eqI) (auto simp: bit_simps)
  then show ?thesis by (simp add: mask_eq_exp_minus_1)
qed

lemma or_low: "k \<le> 32 \<Longrightarrow> unat (h OR NOT (push_bit k (- 1))) = last_of k (unat h)" for h :: u32
proof -
  assume k: "k \<le> 32"
  have split: "h OR NOT (push_bit k (- 1)) = (h AND push_bit k (- 1)) OR mask k"
    by (rule bit_word_eqI) (auto simp: bit_simps)
  have "unat (h AND push_bit k (- 1)) AND unat (mask k :: u32) = 0"
    by (rule bit_eqI) (auto simp: bit_simps)
  then have "unat ((h AND push_bit k (- 1)) OR mask k) = unat (h AND push_bit k (- 1)) + unat (mask k :: u32)"
    by (simp only: unsigned_or_eq disjunctive_add_eq_or)
  then show ?thesis by (simp only: split and_high last_of_def unat_mask [OF k])
qed

section \<open>The macros in host order\<close>

lemma all_ones: "(0xffffffff :: u32) = - 1"
  by simp

lemma netmask: "1 \<le> net \<Longrightarrow> net \<le> 32 \<Longrightarrow>
    MK_NET_NETMASK little addr net = Some (htonl little (push_bit (nat (32 - net)) (- 1)))"
  unfolding MK_NET_NETMASK_def shift_left_def all_ones by (simp del: push_bit_minus_one_eq_not_mask)

lemma network: "1 \<le> net \<Longrightarrow> net \<le> 32 \<Longrightarrow>
    MK_NET_NETWORK little addr net = Some (htonl little (htonl little addr AND push_bit (nat (32 - net)) (- 1)))"
  by (simp add: MK_NET_NETWORK_def netmask htonl_and del: push_bit_minus_one_eq_not_mask)

lemma broadcast: "1 \<le> net \<Longrightarrow> net \<le> 32 \<Longrightarrow>
    MK_NET_BROADCAST little addr net = Some (htonl little (htonl little addr OR NOT (push_bit (nat (32 - net)) (- 1))))"
  by (simp add: MK_NET_BROADCAST_def netmask htonl_or htonl_not del: push_bit_minus_one_eq_not_mask)

lemma wildcard: "1 \<le> net \<Longrightarrow> net \<le> 32 \<Longrightarrow>
    MK_NET_WILDCARD little addr net = Some (htonl little (mask (nat (32 - net))))"
proof -
  assume net: "1 \<le> net" "net \<le> 32"
  have "(h OR NOT (push_bit k (- 1))) XOR (h AND push_bit k (- 1)) = mask k" for h :: u32 and k
    by (rule bit_word_eqI) (auto simp: bit_simps)
  then show ?thesis using net by (simp add: MK_NET_WILDCARD_def network broadcast flip: htonl_xor)
qed

text \<open>On a little-endian host the constant is the last octet of an address.\<close>

lemma htonl_one: "htonl True 0x01000000 = 1"
  by (simp add: htonl_def from_raw_def to_raw_def le_word_def byte_of_def upt_rec)

lemma host_succ:
  assumes "even y"
  shows "htonl True (htonl True y + 0x01000000) = y + 1"
proof -
  have "htonl True y AND 0x01000000 = htonl True (y AND 1)"
    by (metis htonl_and htonl_htonl htonl_one)
  also have "y AND 1 = 0" using assms by (simp add: and_one_eq even_iff_mod_2_eq_zero)
  also have "htonl True 0 = 0" by (rule bit_word_eqI) (simp add: bit_htonl)
  finally have "htonl True y + 0x01000000 = htonl True y OR 0x01000000" by (rule disjunctive_add_eq_or)
  then have "htonl True (htonl True y + 0x01000000) = y OR 1" by (simp add: htonl_or htonl_one)
  also have "\<dots> = y + 1" using \<open>y AND 1 = 0\<close> by (rule disjunctive_add_eq_or [symmetric])
  finally show ?thesis .
qed

lemma host_pred: "odd y \<Longrightarrow> htonl True (htonl True y - 0x01000000) = y - 1"
proof -
  assume "odd y"
  then have "even (y - 1)" by simp
  then have "htonl True (y - 1) + 0x01000000 = htonl True y"
    using host_succ [of "y - 1"] by (metis add.commute diff_add_cancel htonl_htonl)
  then have "htonl True y - 0x01000000 = htonl True (y - 1)" by (metis add_diff_cancel_right')
  then show ?thesis by simp
qed

lemma hostmin:
  assumes "1 \<le> net" "net < 31"
  shows "map_option (unat \<circ> htonl True) (MK_NET_HOSTMIN True addr net) =
    Some (first_of (nat (32 - net)) (unat (htonl True addr)) + 1)"
proof -
  let ?k = "nat (32 - net)"
  let ?y = "htonl True addr AND push_bit ?k (- 1)"
  have "\<not> bit ?y 0" using assms by (simp add: bit_simps del: push_bit_minus_one_eq_not_mask)
  then have even: "even ?y" by (simp add: bit_0)
  then have "?y + 1 \<noteq> 0" by (metis even_add odd_one even_zero)
  then have "unat (?y + 1) = unat ?y + 1" by (metis Suc_eq_plus1 unatSuc add.commute)
  then show ?thesis
    using assms even host_succ [of ?y]
    by (simp add: MK_NET_HOSTMIN_def network and_high del: push_bit_minus_one_eq_not_mask)
qed

lemma hostmax:
  assumes "1 \<le> net" "net < 31"
  shows "map_option (unat \<circ> htonl True) (MK_NET_HOSTMAX True addr net) =
    Some (last_of (nat (32 - net)) (unat (htonl True addr)) - 1)"
proof -
  let ?k = "nat (32 - net)"
  let ?y = "htonl True addr OR NOT (push_bit ?k (- 1))"
  have "bit ?y 0" using assms by (simp add: bit_simps del: push_bit_minus_one_eq_not_mask)
  then have odd: "odd ?y" by (simp add: bit_0)
  then have "unat (?y - 1) = unat ?y - 1" by (metis even_zero unat_minus_one)
  then show ?thesis
    using assms odd host_pred [of ?y]
    by (simp add: MK_NET_HOSTMAX_def broadcast or_low del: push_bit_minus_one_eq_not_mask)
qed

section \<open>Properties\<close>

text \<open>
  C27: sub-networks.  For an address and a prefix length of 1 to 32, read in host order, the network
  macro gives the first and the broadcast macro the last address with the same prefix, and the
  wildcard macro the wildcard mask, which is the number of addresses minus one, on hosts of either byte order.  On a
  little-endian host the lowest and the highest address of a host are, up to 30 bits of prefix, the
  ones next to these two, and these two themselves for 31 bits; for 32 bits, where the block is the one
  address, the macros leave it.  A prefix of 0 bits is undefined.
\<close>

theorem subnet_correct:
  assumes "a = unat (ntohl little addr)" "1 \<le> net" "net \<le> 32"
  shows "map_option (unat \<circ> ntohl little) (MK_NET_NETWORK little addr net) = Some (first_of (nat (32 - net)) a) \<and>
    map_option (unat \<circ> ntohl little) (MK_NET_BROADCAST little addr net) = Some (last_of (nat (32 - net)) a) \<and>
    map_option (unat \<circ> ntohl little) (MK_NET_WILDCARD little addr net) = Some (2 ^ nat (32 - net) - 1) \<and>
    (little \<longrightarrow> net < 31 \<longrightarrow>
       map_option (unat \<circ> ntohl little) (MK_NET_HOSTMIN little addr net) = Some (first_of (nat (32 - net)) a + 1) \<and>
       map_option (unat \<circ> ntohl little) (MK_NET_HOSTMAX little addr net) = Some (last_of (nat (32 - net)) a - 1)) \<and>
    (net = 31 \<longrightarrow> MK_NET_HOSTMIN little addr net = MK_NET_NETWORK little addr net \<and>
       MK_NET_HOSTMAX little addr net = MK_NET_BROADCAST little addr net) \<and>
    (net = 32 \<longrightarrow> MK_NET_NETWORK little addr net = Some addr \<and> MK_NET_HOSTMIN little addr net \<noteq> Some addr \<and>
       MK_NET_HOSTMAX little addr net \<noteq> Some addr) \<and>
    MK_NET_NETWORK little addr 0 = None \<and> MK_NET_BROADCAST little addr 0 = None"
proof -
  let ?k = "nat (32 - net)"
  have k: "?k \<le> 32" using assms by simp
  have "map_option (unat \<circ> ntohl little) (MK_NET_NETWORK little addr net) = Some (first_of ?k a)"
    using assms by (simp add: network ntohl_htonl and_high del: push_bit_minus_one_eq_not_mask)
  moreover have "map_option (unat \<circ> ntohl little) (MK_NET_BROADCAST little addr net) = Some (last_of ?k a)"
    using assms k by (simp add: broadcast ntohl_htonl or_low del: push_bit_minus_one_eq_not_mask)
  moreover have "map_option (unat \<circ> ntohl little) (MK_NET_WILDCARD little addr net) = Some (2 ^ ?k - 1)"
    using assms k by (simp add: wildcard ntohl_htonl unat_mask)
  moreover have "net = 31 \<longrightarrow> MK_NET_HOSTMIN little addr net = MK_NET_NETWORK little addr net \<and>
      MK_NET_HOSTMAX little addr net = MK_NET_BROADCAST little addr net"
    by (simp add: MK_NET_HOSTMIN_def MK_NET_HOSTMAX_def)
  moreover have "MK_NET_NETWORK little addr 32 = Some addr" "MK_NET_BROADCAST little addr 32 = Some addr"
    by (simp_all add: network broadcast)
  then have "net = 32 \<longrightarrow> MK_NET_NETWORK little addr net = Some addr \<and> MK_NET_HOSTMIN little addr net \<noteq> Some addr \<and>
      MK_NET_HOSTMAX little addr net \<noteq> Some addr"
    by (simp add: MK_NET_HOSTMIN_def MK_NET_HOSTMAX_def)
  moreover have "MK_NET_NETWORK little addr 0 = None" "MK_NET_BROADCAST little addr 0 = None"
    by (simp_all add: MK_NET_NETWORK_def MK_NET_BROADCAST_def MK_NET_NETMASK_def shift_left_def)
  ultimately show ?thesis
    using assms hostmin [of net addr] hostmax [of net addr] by (simp add: ntohl_htonl)
qed

text \<open>The address 192.168.1.77 with a prefix of 24 bits: 192.168.1.0, 192.168.1.1 and 192.168.1.254.\<close>

theorem subnet_correct_witness:
  "map_option (unat \<circ> ntohl True) (MK_NET_NETWORK True 0x4D01A8C0 24) = Some 0xC0A80100 \<and>
   map_option (unat \<circ> ntohl True) (MK_NET_HOSTMIN True 0x4D01A8C0 24) = Some 0xC0A80101 \<and>
   map_option (unat \<circ> ntohl True) (MK_NET_HOSTMAX True 0x4D01A8C0 24) = Some 0xC0A801FE"
proof -
  have a: "0xC0A8014D = unat (ntohl True 0x4D01A8C0)"
    by (simp add: ntohl_def from_raw_def to_raw_def le_word_def byte_of_def upt_rec)
  show ?thesis using subnet_correct [OF a, of 24] by (simp add: first_of_def last_of_def)
qed

end
