(* ===== verification/Flb_Log.thy ===== *)
theory Flb_Log
  imports Flb_Mem Mk_Event Mk_Macros Flb_Config
begin

text \<open>
  Logging, \<^verbatim>\<open>fluent-bit/flb_log.h\<close>, and the workers it asks for a level, \<^verbatim>\<open>fluent-bit/flb_worker.h\<close>.
  The current worker is a value of the thread (null outside of workers).  The printing functions, the
  level of a worker and the cache of messages are only declared: parameters.  The version banner of
  \<^verbatim>\<open>fluent-bit/flb_version.h\<close> stands at the end.
\<close>

section \<open>Constants\<close>

definition FLB_LOG_OFF :: int where "FLB_LOG_OFF = 0"
definition FLB_LOG_ERROR :: int where "FLB_LOG_ERROR = 1"
definition FLB_LOG_WARN :: int where "FLB_LOG_WARN = 2"
definition FLB_LOG_INFO :: int where "FLB_LOG_INFO = 3"
definition FLB_LOG_DEBUG :: int where "FLB_LOG_DEBUG = 4"
definition FLB_LOG_TRACE :: int where "FLB_LOG_TRACE = 5"
definition FLB_LOG_HELP :: int where "FLB_LOG_HELP = 6"
definition FLB_LOG_IDEBUG :: int where "FLB_LOG_IDEBUG = 10"

lemmas log_levels = FLB_LOG_OFF_def FLB_LOG_ERROR_def FLB_LOG_WARN_def FLB_LOG_INFO_def FLB_LOG_DEBUG_def
  FLB_LOG_TRACE_def FLB_LOG_HELP_def FLB_LOG_IDEBUG_def

definition FLB_LOG_STDERR :: int where "FLB_LOG_STDERR = 0"
definition FLB_LOG_FILE :: int where "FLB_LOG_FILE = 1"
definition FLB_LOG_SOCKET :: int where "FLB_LOG_SOCKET = 2"
definition FLB_LOG_EVENT :: int where "FLB_LOG_EVENT = MK_EVENT_NOTIFICATION"
definition FLB_LOG_MNG :: int where "FLB_LOG_MNG = 1024"
definition FLB_LOG_CACHE_ENTRIES :: int where "FLB_LOG_CACHE_ENTRIES = 10"
definition FLB_LOG_CACHE_TEXT_BUF_SIZE :: int where "FLB_LOG_CACHE_TEXT_BUF_SIZE = 1024"

section \<open>Structures\<close>

text \<open>Embedded list nodes, conditions and mutexes are named by an address; a pipe is a pair of descriptors.\<close>

record flb_log =
  lg_event :: mk_event
  lg_ch_mng :: "int \<times> int"
  lg_type :: u16
  lg_level :: u16
  lg_out :: ptr
  lg_tid :: nat
  lg_worker :: ptr
  lg_evl :: ptr
  lg_pth_init :: int
  lg_pth_cond :: ptr
  lg_pth_mutex :: ptr

record flb_log_cache_entry =
  lce_buf :: ptr
  lce_timestamp :: u64
  lce_head :: ptr

record flb_log_cache =
  lc_size :: int
  lc_timeout :: int
  lc_entries :: ptr

record flb_worker =
  wk_event :: mk_event
  wk_func :: ptr
  wk_data :: ptr
  wk_tid :: nat
  wk_log_cache :: ptr
  wk_log :: "int \<times> int"
  wk_config :: ptr
  wk_log_ctx :: ptr
  wk_mutex :: ptr
  wk_head :: ptr

section \<open>Levels\<close>

definition FLB_CONFIG_LOG_LEVEL :: "(ptr \<rightharpoonup> flb_log) \<Rightarrow> flb_config \<Rightarrow> u16 option" where
  "FLB_CONFIG_LOG_LEVEL logs c = map_option lg_level (logs (cf_log c))"

definition flb_log_check_level :: "int \<Rightarrow> int \<Rightarrow> int" where
  "flb_log_check_level level_set msg_level = (if msg_level \<le> level_set then FLB_TRUE else FLB_FALSE)"

text \<open>\<open>log_level\<close>: \<^verbatim>\<open>flb_worker_log_level\<close>; \<open>w\<close>: the worker of the thread.\<close>

definition flb_log_check :: "(ptr \<Rightarrow> int) \<Rightarrow> ptr \<Rightarrow> int \<Rightarrow> int" where
  "flb_log_check log_level w l =
     (if w = NULL \<and> l \<le> 3 then FLB_TRUE
      else if w = NULL \<or> log_level w < l then FLB_FALSE
      else FLB_TRUE)"

section \<open>Printing\<close>

text \<open>
  A message for \<^verbatim>\<open>flb_log_print\<close>: its type, the place in the source (none for most macros) and the
  formatted arguments \<open>'f\<close>.  \<^verbatim>\<open>flb_log_is_truncated\<close> answers a number.
\<close>

datatype 'f log_message = Log_Message int "(string \<times> int) option" 'f

record ('f, 'w) log_env =
  ln_log_level :: "ptr \<Rightarrow> int"
  ln_print :: "'f log_message \<Rightarrow> 'w \<Rightarrow> 'w"
  ln_is_truncated :: "'f log_message \<Rightarrow> int"

text \<open>The body shared by the macros that test the level.\<close>

definition print_at :: "('f, 'w) log_env \<Rightarrow> ptr \<Rightarrow> int \<Rightarrow> (string \<times> int) option \<Rightarrow> 'f \<Rightarrow> 'w \<Rightarrow> 'w" where
  "print_at env w l pos fmt s =
     (if flb_log_check (ln_log_level env) w l \<noteq> 0 then ln_print env (Log_Message l pos fmt) s else s)"

definition truncated_at :: "('f, 'w) log_env \<Rightarrow> ptr \<Rightarrow> int \<Rightarrow> (string \<times> int) option \<Rightarrow> 'f \<Rightarrow> int" where
  "truncated_at env w l pos fmt =
     (if flb_log_check (ln_log_level env) w l \<noteq> 0 then ln_is_truncated env (Log_Message l pos fmt) else 0)"

definition flb_helper :: "('f, 'w) log_env \<Rightarrow> ptr \<Rightarrow> 'f \<Rightarrow> 'w \<Rightarrow> 'w" where
  "flb_helper env w fmt s = ln_print env (Log_Message FLB_LOG_HELP None fmt) s"

definition flb_error :: "('f, 'w) log_env \<Rightarrow> ptr \<Rightarrow> 'f \<Rightarrow> 'w \<Rightarrow> 'w" where
  "flb_error env w fmt s = print_at env w FLB_LOG_ERROR None fmt s"

definition flb_error_is_truncated :: "('f, 'w) log_env \<Rightarrow> ptr \<Rightarrow> 'f \<Rightarrow> int" where
  "flb_error_is_truncated env w fmt = truncated_at env w FLB_LOG_ERROR None fmt"

definition flb_warn :: "('f, 'w) log_env \<Rightarrow> ptr \<Rightarrow> 'f \<Rightarrow> 'w \<Rightarrow> 'w" where
  "flb_warn env w fmt s = print_at env w FLB_LOG_WARN None fmt s"

definition flb_warn_is_truncated :: "('f, 'w) log_env \<Rightarrow> ptr \<Rightarrow> 'f \<Rightarrow> int" where
  "flb_warn_is_truncated env w fmt = truncated_at env w FLB_LOG_WARN None fmt"

definition flb_info :: "('f, 'w) log_env \<Rightarrow> ptr \<Rightarrow> 'f \<Rightarrow> 'w \<Rightarrow> 'w" where
  "flb_info env w fmt s = print_at env w FLB_LOG_INFO None fmt s"

definition flb_info_is_truncated :: "('f, 'w) log_env \<Rightarrow> ptr \<Rightarrow> 'f \<Rightarrow> int" where
  "flb_info_is_truncated env w fmt = truncated_at env w FLB_LOG_INFO None fmt"

definition flb_debug :: "('f, 'w) log_env \<Rightarrow> ptr \<Rightarrow> 'f \<Rightarrow> 'w \<Rightarrow> 'w" where
  "flb_debug env w fmt s = print_at env w FLB_LOG_DEBUG None fmt s"

definition flb_debug_is_truncated :: "('f, 'w) log_env \<Rightarrow> ptr \<Rightarrow> 'f \<Rightarrow> int" where
  "flb_debug_is_truncated env w fmt = truncated_at env w FLB_LOG_DEBUG None fmt"

definition flb_idebug :: "('f, 'w) log_env \<Rightarrow> ptr \<Rightarrow> 'f \<Rightarrow> 'w \<Rightarrow> 'w" where
  "flb_idebug env w fmt s = ln_print env (Log_Message FLB_LOG_IDEBUG None fmt) s"

definition flb_idebug_is_truncated :: "('f, 'w) log_env \<Rightarrow> ptr \<Rightarrow> 'f \<Rightarrow> int" where
  "flb_idebug_is_truncated env w fmt = ln_is_truncated env (Log_Message FLB_LOG_IDEBUG None fmt)"

text \<open>\<open>have_trace\<close>: the build has \<^verbatim>\<open>FLB_HAVE_TRACE\<close>; \<open>pos\<close>: \<^verbatim>\<open>__FILE__\<close> and \<^verbatim>\<open>__LINE__\<close>.\<close>

definition flb_trace :: "bool \<Rightarrow> string \<times> int \<Rightarrow> ('f, 'w) log_env \<Rightarrow> ptr \<Rightarrow> 'f \<Rightarrow> 'w \<Rightarrow> 'w" where
  "flb_trace have_trace pos env w fmt s = (if have_trace then print_at env w FLB_LOG_TRACE (Some pos) fmt s else s)"

text \<open>Without \<^verbatim>\<open>FLB_HAVE_TRACE\<close> the second macro is a statement, which has no value: \<open>None\<close>.\<close>

definition flb_trace_is_truncated :: "bool \<Rightarrow> string \<times> int \<Rightarrow> ('f, 'w) log_env \<Rightarrow> ptr \<Rightarrow> 'f \<Rightarrow> int option" where
  "flb_trace_is_truncated have_trace pos env w fmt =
     (if have_trace then Some (truncated_at env w FLB_LOG_TRACE (Some pos) fmt) else None)"

text \<open>The position is that of the build's own macro for file names, if there is one.\<close>

definition flb_errno :: "(int \<Rightarrow> string \<Rightarrow> int \<Rightarrow> 'w \<Rightarrow> int \<times> 'w) \<Rightarrow> string option \<Rightarrow> string \<times> int \<Rightarrow> int \<Rightarrow> 'w \<Rightarrow> int \<times> 'w" where
  "flb_errno errno_print flb_filename pos errno =
     errno_print errno (case flb_filename of Some f \<Rightarrow> f | None \<Rightarrow> fst pos) (snd pos)"

section \<open>Suppressing repeated messages\<close>

text \<open>
  \<^verbatim>\<open>vsnprintf(buf, n, ...)\<close> of the C standard: \<open>text\<close> are the bytes the format produces, \<open>None\<close> when
  the conversion fails.  It writes at most \<open>n - 1\<close> of them and a 0, and answers the number of all of
  them, or a negative number.
\<close>

definition vsnprintf :: "block \<Rightarrow> nat \<Rightarrow> u8 list option \<Rightarrow> int \<times> block" where
  "vsnprintf buf n text =
     (case text of
        None \<Rightarrow> (- 1, buf)
      | Some t \<Rightarrow>
          (let out = map Some (take (n - 1) t) @ [Some 0]
           in (int (length t), if n = 0 then buf else out @ drop (length out) buf)))"

text \<open>
  \<open>cache_of\<close> reads the member \<^verbatim>\<open>log_cache\<close> of a worker, \<open>check_suppress\<close> is
  \<^verbatim>\<open>flb_log_cache_check_suppress\<close>.  The result of \<^verbatim>\<open>vsnprintf\<close> goes to a \<^verbatim>\<open>size_t\<close>.
\<close>

definition flb_log_suppress_check ::
  "(ptr \<Rightarrow> ptr) \<Rightarrow> (ptr \<Rightarrow> block \<Rightarrow> size_t \<Rightarrow> 's \<Rightarrow> (int \<times> 's) option) \<Rightarrow> ptr \<Rightarrow> int \<Rightarrow> u8 list option \<Rightarrow> 's \<Rightarrow>
     (int \<times> 's) option" where
  "flb_log_suppress_check cache_of check_suppress w log_suppress_interval text s =
     (if log_suppress_interval \<le> 0 then Some (FLB_FALSE, s)
      else (let (n, buf) = vsnprintf (replicate 4096 None) (4096 - 1) text; len = (word_of_int n :: size_t)
            in if len = - 1 then Some (FLB_FALSE, s)
               else if w = NULL then Some (FLB_FALSE, s)
               else check_suppress (cache_of w) buf len s))"

section \<open>flb_version.h\<close>

definition FLB_VERSION_MAJOR :: int where "FLB_VERSION_MAJOR = 2"
definition FLB_VERSION_MINOR :: int where "FLB_VERSION_MINOR = 1"
definition FLB_VERSION_PATCH :: int where "FLB_VERSION_PATCH = 9"
definition FLB_VERSION_STR :: string where "FLB_VERSION_STR = ''2.1.9''"
definition FLB_GIT_HASH :: string where "FLB_GIT_HASH = ''c625ad7ea41123ad14f433fb569c5106645b6e82''"

text \<open>
  What is printed, line by line; \<open>nightly\<close> is the name of a nightly build, \<open>tty\<close> says whether the output
  is a terminal and the build allows control characters, \<open>msc\<close> whether it was made by the Microsoft
  compiler.  \<^verbatim>\<open>flb_version\<close> prints to the standard output and exits with 0.
\<close>

definition version_line :: "string option \<Rightarrow> string" where
  "version_line nightly = ''Fluent Bit v'' @ FLB_VERSION_STR @
     (case nightly of None \<Rightarrow> [] | Some n \<Rightarrow> '' | NIGHTLY_BUILD='' @ n @ '' - DO NOT USE IN PRODUCTION!'')"

definition flb_version :: "string option \<Rightarrow> string list \<times> int" where
  "flb_version nightly = ([version_line nightly, ''Git commit: '' @ FLB_GIT_HASH], 0)"

definition flb_version_banner :: "bool \<Rightarrow> bool \<Rightarrow> string option \<Rightarrow> string list" where
  "flb_version_banner msc tty nightly =
     (let copyright_color = (if tty then ANSI_BOLD msc @ ANSI_YELLOW msc else []);
          bold_color = (if tty then ANSI_BOLD msc else []);
          reset_color = (if tty then ANSI_RESET msc else [])
      in [bold_color @ version_line nightly @ reset_color,
          ''* '' @ copyright_color @ ''Copyright (C) 2015-2022 The Fluent Bit Authors'' @ reset_color,
          ''* Fluent Bit is a CNCF sub-project under the '' @ ''umbrella of Fluentd'',
          ''* https://fluentbit.io'', []])"

section \<open>Properties\<close>

lemma flb_log_check_eq:
  "flb_log_check log_level w l \<noteq> 0 \<longleftrightarrow> l \<le> (if w = NULL then FLB_LOG_INFO else log_level w)"
  by (simp add: flb_log_check_def log_levels)

text \<open>
  Levels.  Every logging macro hands its message to the printer, with its own type, exactly when
  the level of the current worker admits it, or, outside of workers, when it is an error, a warning or
  an information; help and internal debug messages always.  A level that admits a message admits
  every message of a lower type.
\<close>

lemma log_macros_filter:
  "let level = (if w = NULL then FLB_LOG_INFO else ln_log_level env w);
       shown = (\<lambda>t pos. if t \<le> level then ln_print env (Log_Message t pos fmt) s else s)
   in flb_error env w fmt s = shown 1 None \<and> flb_warn env w fmt s = shown 2 None \<and>
      flb_info env w fmt s = shown 3 None \<and> flb_debug env w fmt s = shown 4 None \<and>
      flb_trace True pos env w fmt s = shown 5 (Some pos) \<and> flb_trace False pos env w fmt s = s \<and>
      flb_helper env w fmt s = ln_print env (Log_Message 6 None fmt) s \<and>
      flb_idebug env w fmt s = ln_print env (Log_Message 10 None fmt) s"
  unfolding Let_def flb_error_def flb_warn_def flb_info_def flb_debug_def flb_trace_def flb_helper_def flb_idebug_def
    print_at_def flb_log_check_eq
  by (simp add: log_levels)

lemma suppress_check_size:
  assumes "length text < 2 ^ 31"
  shows "unat (word_of_int (int (length text)) :: size_t) = length text" "(word_of_int (int (length text)) :: size_t) \<noteq> - 1"
proof -
  let ?n = "word_of_int (int (length text)) :: size_t"
  show n: "unat ?n = length text" using assms by (simp add: unat_of_nat)
  show "?n \<noteq> - 1"
  proof
    assume "?n = - 1"
    then have "unat ?n = 2 ^ 64 - 1" by (simp add: unsigned_minus_1_eq_mask mask_eq_exp_minus_1)
    with n assms show False by simp
  qed
qed

text \<open>
  C29: suppression.  With an interval and a worker the cache is asked about the formatted message.  For
  messages of less than 4095 bytes it gets exactly the message; from 4095 bytes on the buffer holds
  only the first 4094, but the size it gets is the one of the whole message, which above 4096 bytes
  reaches behind the end of the buffer.
\<close>

theorem log_suppress_buffer:
  assumes "0 < interval" "w \<noteq> NULL" "length text < 2 ^ 31"
  shows "\<exists>buf n. flb_log_suppress_check cache_of check w interval (Some text) s = check (cache_of w) buf n s \<and>
    length buf = 4096 \<and> unat n = length text \<and>
    (if length text < 4095 then take (unat n) buf = map Some text
     else take 4095 buf = map Some (take 4094 text) @ [Some 0]) \<and>
    (unat n \<le> length buf \<longleftrightarrow> length text \<le> 4096)"
proof -
  let ?n = "word_of_int (int (length text)) :: size_t"
  let ?out = "map Some (take 4094 text) @ [Some 0]"
  let ?buf = "?out @ drop (length ?out) (replicate 4096 None)"
  note n = suppress_check_size [OF assms(3)]
  have "flb_log_suppress_check cache_of check w interval (Some text) s = check (cache_of w) ?buf ?n s"
    using assms n by (simp add: flb_log_suppress_check_def vsnprintf_def Let_def)
  then show ?thesis using n by (intro exI [of _ ?buf] exI [of _ ?n]) simp
qed

theorem log_suppress_buffer_witness:
  "\<exists>buf n. flb_log_suppress_check (\<lambda>w. 64) (\<lambda>c b n s. Some (1, s)) 8 5 (Some (replicate 5000 65)) () = Some (1, ()) \<and>
    length buf = 4096 \<and> unat (n :: size_t) = 5000 \<and> take 4095 buf = map Some (replicate 4094 65) @ [Some (0 :: u8)]"
  using log_suppress_buffer [of 5 8 "replicate 5000 65" "\<lambda>w. 64" "\<lambda>c b n s. Some (1, s)" "()"] by auto

end
