(* ===== verification/Flb_Parser.thy ===== *)
theory Flb_Parser
  imports Flb_Time
begin

text \<open>
  Names for dates, \<^verbatim>\<open>fluent-bit/flb_langinfo.h\<close> (the replacement of \<^verbatim>\<open>nl_langinfo\<close> for the Microsoft
  compiler, used by the time formats of parsers), and the inline part of \<^verbatim>\<open>fluent-bit/flb_parser.h\<close>.
\<close>

section \<open>flb_langinfo.h\<close>

definition D_T_FMT :: int where "D_T_FMT = 0x00"
definition D_FMT :: int where "D_FMT = 0x01"
definition T_FMT :: int where "T_FMT = 0x02"
definition DAY_1 :: int where "DAY_1 = 0x03"
definition DAY_2 :: int where "DAY_2 = 0x04"
definition DAY_3 :: int where "DAY_3 = 0x05"
definition DAY_4 :: int where "DAY_4 = 0x06"
definition DAY_5 :: int where "DAY_5 = 0x07"
definition DAY_6 :: int where "DAY_6 = 0x08"
definition DAY_7 :: int where "DAY_7 = 0x09"
definition ABDAY_1 :: int where "ABDAY_1 = 0x0A"
definition ABDAY_2 :: int where "ABDAY_2 = 0x0B"
definition ABDAY_3 :: int where "ABDAY_3 = 0x0C"
definition ABDAY_4 :: int where "ABDAY_4 = 0x0D"
definition ABDAY_5 :: int where "ABDAY_5 = 0x0E"
definition ABDAY_6 :: int where "ABDAY_6 = 0x0F"
definition ABDAY_7 :: int where "ABDAY_7 = 0x10"
definition MON_1 :: int where "MON_1 = 0x11"
definition MON_2 :: int where "MON_2 = 0x12"
definition MON_3 :: int where "MON_3 = 0x13"
definition MON_4 :: int where "MON_4 = 0x14"
definition MON_5 :: int where "MON_5 = 0x15"
definition MON_6 :: int where "MON_6 = 0x16"
definition MON_7 :: int where "MON_7 = 0x17"
definition MON_8 :: int where "MON_8 = 0x18"
definition MON_9 :: int where "MON_9 = 0x19"
definition MON_10 :: int where "MON_10 = 0x1A"
definition MON_11 :: int where "MON_11 = 0x1B"
definition MON_12 :: int where "MON_12 = 0x1C"
definition ABMON_1 :: int where "ABMON_1 = 0x1D"
definition ABMON_2 :: int where "ABMON_2 = 0x1E"
definition ABMON_3 :: int where "ABMON_3 = 0x1F"
definition ABMON_4 :: int where "ABMON_4 = 0x20"
definition ABMON_5 :: int where "ABMON_5 = 0x21"
definition ABMON_6 :: int where "ABMON_6 = 0x22"
definition ABMON_7 :: int where "ABMON_7 = 0x23"
definition ABMON_8 :: int where "ABMON_8 = 0x24"
definition ABMON_9 :: int where "ABMON_9 = 0x25"
definition ABMON_10 :: int where "ABMON_10 = 0x26"
definition ABMON_11 :: int where "ABMON_11 = 0x27"
definition ABMON_12 :: int where "ABMON_12 = 0x28"
definition AM_STR :: int where "AM_STR = 0x29"
definition PM_STR :: int where "PM_STR = 0x2A"
definition T_FMT_AMPM :: int where "T_FMT_AMPM = 0x2B"

lemmas langinfo_items =
  D_T_FMT_def D_FMT_def T_FMT_def DAY_1_def DAY_2_def DAY_3_def DAY_4_def DAY_5_def DAY_6_def
  DAY_7_def ABDAY_1_def ABDAY_2_def ABDAY_3_def ABDAY_4_def ABDAY_5_def ABDAY_6_def ABDAY_7_def
  MON_1_def MON_2_def MON_3_def MON_4_def MON_5_def MON_6_def MON_7_def MON_8_def MON_9_def
  MON_10_def MON_11_def MON_12_def ABMON_1_def ABMON_2_def ABMON_3_def ABMON_4_def ABMON_5_def
  ABMON_6_def ABMON_7_def ABMON_8_def ABMON_9_def ABMON_10_def ABMON_11_def ABMON_12_def AM_STR_def
  PM_STR_def T_FMT_AMPM_def

definition lc_time_c :: "string list" where
  "lc_time_c =
    [''%a %b %e %H:%M:%S %Y'',
     ''%m/%d/%y'',
     ''%H:%M:%S'',
     ''Sunday'',
     ''Monday'',
     ''Tuesday'',
     ''Wednesday'',
     ''Thursday'',
     ''Friday'',
     ''Saturday'',
     ''Sun'',
     ''Mon'',
     ''Tue'',
     ''Wed'',
     ''Thu'',
     ''Fri'',
     ''Sat'',
     ''January'',
     ''February'',
     ''March'',
     ''April'',
     ''May'',
     ''June'',
     ''July'',
     ''August'',
     ''September'',
     ''October'',
     ''November'',
     ''December'',
     ''Jan'',
     ''Feb'',
     ''Mar'',
     ''Apr'',
     ''May'',
     ''Jun'',
     ''Jul'',
     ''Aug'',
     ''Sep'',
     ''Oct'',
     ''Nov'',
     ''Dec'',
     ''AM'',
     ''PM'',
     ''%I:%M:%S %p'']"

text \<open>Reading behind the table would be \<open>None\<close>.\<close>

definition nl_langinfo :: "int \<Rightarrow> string option" where
  "nl_langinfo item =
     (if item < 0 \<or> 0x2B < item then Some []
      else if nat item < length lc_time_c then Some (lc_time_c ! nat item) else None)"

section \<open>flb_parser.h\<close>

definition FLB_PARSER_REGEX :: int where "FLB_PARSER_REGEX = 1"
definition FLB_PARSER_JSON :: int where "FLB_PARSER_JSON = 2"
definition FLB_PARSER_LTSV :: int where "FLB_PARSER_LTSV = 3"
definition FLB_PARSER_LOGFMT :: int where "FLB_PARSER_LOGFMT = 4"

record flb_parser_types =
  pt_key :: ptr
  pt_key_len :: int
  pt_type :: int

record flb_parser =
  pa_type :: int
  pa_name :: ptr
  pa_p_regex :: ptr
  pa_skip_empty :: int
  pa_time_fmt :: ptr
  pa_time_fmt_full :: ptr
  pa_time_key :: ptr
  pa_time_offset :: int
  pa_time_keep :: int
  pa_time_strict :: int
  pa_logfmt_no_bare_keys :: int
  pa_time_frac_secs :: ptr
  pa_types :: ptr
  pa_types_len :: int
  pa_decoders :: ptr
  pa_time_with_year :: int
  pa_time_fmt_year :: ptr
  pa_time_with_tz :: int
  pa_regex :: ptr
  pa_head :: ptr

definition FLB_PARSER_TYPE_INT :: int where "FLB_PARSER_TYPE_INT = 1"
definition FLB_PARSER_TYPE_FLOAT :: int where "FLB_PARSER_TYPE_FLOAT = 2"
definition FLB_PARSER_TYPE_BOOL :: int where "FLB_PARSER_TYPE_BOOL = 3"
definition FLB_PARSER_TYPE_STRING :: int where "FLB_PARSER_TYPE_STRING = 4"
definition FLB_PARSER_TYPE_HEX :: int where "FLB_PARSER_TYPE_HEX = 5"

text \<open>
  The broken-down time of the C library with its GNU member \<^verbatim>\<open>tm_gmtoff\<close>; \<open>ft_gmtoff\<close> is the member
  that \<^verbatim>\<open>struct flb_tm\<close> adds on systems without it.
\<close>

record tm =
  tm_sec :: int
  tm_min :: int
  tm_hour :: int
  tm_mday :: int
  tm_mon :: int
  tm_year :: int
  tm_wday :: int
  tm_yday :: int
  tm_isdst :: int
  tm_gmtoff :: int

record flb_tm =
  ft_tm :: tm
  ft_gmtoff :: int

definition flb_tm_gmtoff :: "bool \<Rightarrow> flb_tm \<Rightarrow> int" where
  "flb_tm_gmtoff have_gmtoff x = (if have_gmtoff then tm_gmtoff (ft_tm x) else ft_gmtoff x)"

text \<open>\<^verbatim>\<open>timegm\<close> of the C library normalises the copy it gets, which is dropped: a parameter.\<close>

definition flb_parser_tm2time :: "(tm \<Rightarrow> int) \<Rightarrow> bool \<Rightarrow> flb_tm \<Rightarrow> int" where
  "flb_parser_tm2time timegm have_gmtoff src =
     (let tmp = ft_tm src; res = timegm tmp - flb_tm_gmtoff have_gmtoff src in res)"

section \<open>Properties\<close>

definition days :: "(int \<times> int) list" where
  "days = zip [DAY_1, DAY_2, DAY_3, DAY_4, DAY_5, DAY_6, DAY_7]
     [ABDAY_1, ABDAY_2, ABDAY_3, ABDAY_4, ABDAY_5, ABDAY_6, ABDAY_7]"

definition months :: "(int \<times> int) list" where
  "months = zip [MON_1, MON_2, MON_3, MON_4, MON_5, MON_6, MON_7, MON_8, MON_9, MON_10, MON_11, MON_12]
     [ABMON_1, ABMON_2, ABMON_3, ABMON_4, ABMON_5, ABMON_6, ABMON_7, ABMON_8, ABMON_9, ABMON_10, ABMON_11, ABMON_12]"

lemma length_lc_time_c: "length lc_time_c = 44"
  by (simp add: lc_time_c_def)

lemma nl_langinfo_eq: "nl_langinfo item = Some (if 0 \<le> item \<and> item < 44 then lc_time_c ! nat item else [])"
  by (auto simp: nl_langinfo_def length_lc_time_c)

text \<open>
  Names of dates.  \<^verbatim>\<open>nl_langinfo\<close> reads within its table for every item and answers the empty string
  for the unknown ones.  The items of the days and of the months give the names in order, and the
  abbreviated ones the first three letters of the name of the same day or month.
\<close>

lemma langinfo_correct:
  "(\<exists>s. nl_langinfo item = Some s) \<and> nl_langinfo (- 1) = Some [] \<and> nl_langinfo (T_FMT_AMPM + 1) = Some [] \<and>
   map (nl_langinfo \<circ> fst) days = map Some
     [''Sunday'', ''Monday'', ''Tuesday'', ''Wednesday'', ''Thursday'', ''Friday'', ''Saturday''] \<and>
   map (nl_langinfo \<circ> fst) months = map Some
     [''January'', ''February'', ''March'', ''April'', ''May'', ''June'', ''July'', ''August'', ''September'',
      ''October'', ''November'', ''December''] \<and>
   map (nl_langinfo \<circ> snd) (days @ months) = map (map_option (take 3) \<circ> nl_langinfo \<circ> fst) (days @ months) \<and>
   nl_langinfo AM_STR = Some ''AM'' \<and> nl_langinfo PM_STR = Some ''PM''"
  by (simp add: nl_langinfo_eq days_def months_def langinfo_items lc_time_c_def)

end
