(* ===== verification/Flb_Pipeline.thy ===== *)
theory Flb_Pipeline
  imports Flb_Output Flb_Log
begin

text \<open>
  What lies between inputs and outputs: configuration maps (\<^verbatim>\<open>fluent-bit/flb_config_map.h\<close>), filters,
  processors and custom plugins (\<^verbatim>\<open>flb_filter.h\<close>, \<^verbatim>\<open>flb_processor.h\<close>, \<^verbatim>\<open>flb_custom.h\<close>), storage types
  (\<^verbatim>\<open>flb_storage.h\<close>) and the type test of the router (\<^verbatim>\<open>flb_router.h\<close>).  Embedded list nodes and
  mutexes are named by an address, function pointers as well.  \<^verbatim>\<open>flb_config_map_set\<close> is only declared.
\<close>

section \<open>flb_config_map.h\<close>

definition FLB_CONFIG_MAP_STR :: int where "FLB_CONFIG_MAP_STR = 0"
definition FLB_CONFIG_MAP_STR_PREFIX :: int where "FLB_CONFIG_MAP_STR_PREFIX = 1"
definition FLB_CONFIG_MAP_INT :: int where "FLB_CONFIG_MAP_INT = 2"
definition FLB_CONFIG_MAP_BOOL :: int where "FLB_CONFIG_MAP_BOOL = 3"
definition FLB_CONFIG_MAP_DOUBLE :: int where "FLB_CONFIG_MAP_DOUBLE = 4"
definition FLB_CONFIG_MAP_SIZE :: int where "FLB_CONFIG_MAP_SIZE = 5"
definition FLB_CONFIG_MAP_TIME :: int where "FLB_CONFIG_MAP_TIME = 6"
definition FLB_CONFIG_MAP_DEPRECATED :: int where "FLB_CONFIG_MAP_DEPRECATED = 7"
definition FLB_CONFIG_MAP_CLIST :: int where "FLB_CONFIG_MAP_CLIST = 30"
definition FLB_CONFIG_MAP_CLIST_1 :: int where "FLB_CONFIG_MAP_CLIST_1 = 31"
definition FLB_CONFIG_MAP_CLIST_2 :: int where "FLB_CONFIG_MAP_CLIST_2 = 32"
definition FLB_CONFIG_MAP_CLIST_3 :: int where "FLB_CONFIG_MAP_CLIST_3 = 33"
definition FLB_CONFIG_MAP_CLIST_4 :: int where "FLB_CONFIG_MAP_CLIST_4 = 34"
definition FLB_CONFIG_MAP_SLIST :: int where "FLB_CONFIG_MAP_SLIST = 40"
definition FLB_CONFIG_MAP_SLIST_1 :: int where "FLB_CONFIG_MAP_SLIST_1 = 41"
definition FLB_CONFIG_MAP_SLIST_2 :: int where "FLB_CONFIG_MAP_SLIST_2 = 42"
definition FLB_CONFIG_MAP_SLIST_3 :: int where "FLB_CONFIG_MAP_SLIST_3 = 43"
definition FLB_CONFIG_MAP_SLIST_4 :: int where "FLB_CONFIG_MAP_SLIST_4 = 44"
definition FLB_CONFIG_MAP_MULT :: int where "FLB_CONFIG_MAP_MULT = 1"

text \<open>The union of a value, one constructor for each member; a double is its 64 bits.\<close>

datatype config_value = Val_I_Num int | Val_Boolean u8 | Val_D_Num u64 | Val_S_Num size_t | Val_Str ptr | Val_List ptr

record flb_config_map_val =
  cv_val :: config_value
  cv_mult :: ptr
  cv_head :: ptr

record flb_config_map =
  cm_type :: int
  cm_name :: ptr
  cm_def_value :: ptr
  cm_flags :: int
  cm_set_property :: int
  cm_offset :: u64
  cm_desc :: ptr
  cm_value :: flb_config_map_val
  cm_head :: ptr

definition flb_config_map_val_head_off :: nat where "flb_config_map_val_head_off = 16"

text \<open>The loop gives its body the current node and the value it is embedded in.\<close>

definition flb_config_map_foreach ::
  "('s \<Rightarrow> lheap) \<Rightarrow> (ptr \<Rightarrow> ptr \<Rightarrow> 's \<Rightarrow> ('s \<times> bool) option) \<Rightarrow> ptr \<Rightarrow> 's \<Rightarrow> 's option" where
  "flb_config_map_foreach hp body head s =
     mk_list_foreach hp (\<lambda>cur. body cur (container_of cur flb_config_map_val_head_off)) head s"

definition flb_config_map_mult_type :: "int \<Rightarrow> int" where
  "flb_config_map_mult_type type =
     (if type \<ge> FLB_CONFIG_MAP_CLIST \<and> type \<le> FLB_CONFIG_MAP_CLIST_4 then FLB_CONFIG_MAP_CLIST
      else if type \<ge> FLB_CONFIG_MAP_SLIST \<and> type \<le> FLB_CONFIG_MAP_SLIST_4 then FLB_CONFIG_MAP_SLIST
      else - 1)"

section \<open>flb_storage.h\<close>

text \<open>The numbers of the chunk storage library are those of the comments beside the macros.\<close>

definition FLB_STORAGE_FS :: int where "FLB_STORAGE_FS = 0"
definition FLB_STORAGE_MEM :: int where "FLB_STORAGE_MEM = 1"
definition FLB_STORAGE_MEMRB :: int where "FLB_STORAGE_MEMRB = 10"
definition FLB_STORAGE_BL_MEM_LIMIT :: string where "FLB_STORAGE_BL_MEM_LIMIT = ''100M''"
definition FLB_STORAGE_MAX_CHUNKS_UP :: int where "FLB_STORAGE_MAX_CHUNKS_UP = 128"

record flb_storage_metrics =
  sm_fd :: int
  sm_cmt :: ptr
  sm_cmt_chunks :: ptr
  sm_cmt_mem_chunks :: ptr
  sm_cmt_fs_chunks :: ptr
  sm_cmt_fs_chunks_up :: ptr
  sm_cmt_fs_chunks_down :: ptr

record flb_storage_input =
  si_type :: int
  si_stream :: ptr
  si_cio :: ptr

text \<open>\<open>None\<close>: the null pointer.\<close>

definition flb_storage_get_type :: "int \<Rightarrow> string option" where
  "flb_storage_get_type type =
     (if type = FLB_STORAGE_FS then Some (CHR 0x27 # ''filesystem'' @ CHR 0x27 # '' (memory + filesystem)'')
      else if type = FLB_STORAGE_MEM then Some (CHR 0x27 # ''memory'' @ CHR 0x27 # '' (memory only)'')
      else if type = FLB_STORAGE_MEMRB then Some (CHR 0x27 # ''memrb'' @ CHR 0x27 # '' (memory ring buffer)'')
      else None)"

section \<open>flb_filter.h\<close>

definition FLB_FILTER_MODIFIED :: int where "FLB_FILTER_MODIFIED = 1"
definition FLB_FILTER_NOTOUCH :: int where "FLB_FILTER_NOTOUCH = 2"
definition FLB_FILTER_LOGS :: u32 where "FLB_FILTER_LOGS = 1"
definition FLB_FILTER_METRICS :: u32 where "FLB_FILTER_METRICS = 2"
definition FLB_FILTER_TRACES :: u32 where "FLB_FILTER_TRACES = 4"

record flb_filter_plugin =
  fp_event_type :: u32
  fp_flags :: int
  fp_name :: ptr
  fp_description :: ptr
  fp_config_map :: ptr
  fp_cb_init :: ptr
  fp_cb_filter :: ptr
  fp_cb_exit :: ptr
  fp_head :: ptr

record flb_filter_instance =
  fi_event_type :: u32
  fi_id :: int
  fi_log_level :: int
  fi_log_suppress_interval :: int
  fi_name :: "u8 list"
  fi_alias :: ptr
  fi_match :: ptr
  fi_match_regex :: ptr
  fi_parent_processor :: ptr
  fi_context :: ptr
  fi_data :: ptr
  fi_p :: ptr
  fi_properties :: ptr
  fi_config_map :: ptr
  fi_head :: ptr
  fi_cmt :: ptr
  fi_cmt_records :: ptr
  fi_cmt_bytes :: ptr
  fi_cmt_add_records :: ptr
  fi_cmt_drop_records :: ptr
  fi_metrics :: ptr
  fi_config :: ptr

text \<open>\<open>map_set\<close>: \<^verbatim>\<open>flb_config_map_set\<close>, from the properties and the map to the context \<open>'c\<close> of the plugin.\<close>

definition flb_filter_config_map_set ::
  "(ptr \<Rightarrow> ptr \<Rightarrow> ptr \<Rightarrow> 'c \<Rightarrow> int \<times> 'c) \<Rightarrow> flb_filter_instance \<Rightarrow> ptr \<Rightarrow> 'c \<Rightarrow> int \<times> 'c" where
  "flb_filter_config_map_set map_set ins context c = map_set (fi_properties ins) (fi_config_map ins) context c"

section \<open>flb_processor.h\<close>

definition FLB_PROCESSOR_SUCCESS :: int where "FLB_PROCESSOR_SUCCESS = 0"
definition FLB_PROCESSOR_FAILURE :: int where "FLB_PROCESSOR_FAILURE = - 1"
definition FLB_PROCESSOR_LOGS :: u32 where "FLB_PROCESSOR_LOGS = 1"
definition FLB_PROCESSOR_METRICS :: u32 where "FLB_PROCESSOR_METRICS = 2"
definition FLB_PROCESSOR_TRACES :: u32 where "FLB_PROCESSOR_TRACES = 4"
definition FLB_PROCESSOR_UNIT_NATIVE :: int where "FLB_PROCESSOR_UNIT_NATIVE = 0"
definition FLB_PROCESSOR_UNIT_FILTER :: int where "FLB_PROCESSOR_UNIT_FILTER = 1"
definition FLB_PROCESSOR_LOCK_RETRY_LIMIT :: int where "FLB_PROCESSOR_LOCK_RETRY_LIMIT = 40"
definition FLB_PROCESSOR_LOCK_RETRY_DELAY :: int where "FLB_PROCESSOR_LOCK_RETRY_DELAY = 50000"

record flb_processor_unit =
  pu_event_type :: u32
  pu_unit_type :: int
  pu_name :: ptr
  pu_stage :: size_t
  pu_ctx :: ptr
  pu_lock :: ptr
  pu_unused_list :: ptr
  pu_head :: ptr
  pu_parent :: ptr

record flb_processor =
  pr_is_active :: int
  pr_name :: ptr
  pr_logs :: ptr
  pr_metrics :: ptr
  pr_traces :: ptr
  pr_stage_count :: size_t
  pr_data :: ptr
  pr_source_plugin_type :: int
  pr_config :: ptr

record flb_processor_plugin =
  pp_flags :: int
  pp_name :: ptr
  pp_description :: ptr
  pp_config_map :: ptr
  pp_cb_init :: ptr
  pp_cb_process_logs :: ptr
  pp_cb_process_metrics :: ptr
  pp_cb_process_traces :: ptr
  pp_cb_exit :: ptr
  pp_head :: ptr

record flb_processor_instance =
  pi_id :: int
  pi_log_level :: int
  pi_name :: "u8 list"
  pi_alias :: ptr
  pi_context :: ptr
  pi_data :: ptr
  pi_p :: ptr
  pi_properties :: ptr
  pi_config_map :: ptr
  pi_log_decoder :: ptr
  pi_log_encoder :: ptr
  pi_cmt :: ptr
  pi_config :: ptr

definition flb_processor_instance_config_map_set ::
  "(ptr \<Rightarrow> ptr \<Rightarrow> ptr \<Rightarrow> 'c \<Rightarrow> int \<times> 'c) \<Rightarrow> flb_processor_instance \<Rightarrow> ptr \<Rightarrow> 'c \<Rightarrow> int \<times> 'c" where
  "flb_processor_instance_config_map_set map_set ins context c =
     map_set (pi_properties ins) (pi_config_map ins) context c"

section \<open>flb_custom.h\<close>

record flb_custom_plugin =
  cp_flags :: int
  cp_name :: ptr
  cp_description :: ptr
  cp_config_map :: ptr
  cp_cb_init :: ptr
  cp_cb_run :: ptr
  cp_cb_exit :: ptr
  cp_head :: ptr

record flb_custom_instance =
  ci_id :: int
  ci_log_level :: int
  ci_name :: "u8 list"
  ci_alias :: ptr
  ci_context :: ptr
  ci_data :: ptr
  ci_p :: ptr
  ci_properties :: ptr
  ci_config_map :: ptr
  ci_head :: ptr
  ci_cmt :: ptr
  ci_config :: ptr

definition flb_custom_config_map_set ::
  "(ptr \<Rightarrow> ptr \<Rightarrow> ptr \<Rightarrow> 'c \<Rightarrow> int \<times> 'c) \<Rightarrow> flb_custom_instance \<Rightarrow> ptr \<Rightarrow> 'c \<Rightarrow> int \<times> 'c" where
  "flb_custom_config_map_set map_set ins context c = map_set (ci_properties ins) (ci_config_map ins) context c"

section \<open>flb_router.h\<close>

record flb_router_path =
  rp_ins :: ptr
  rp_head :: ptr

definition flb_router_match_type :: "int \<Rightarrow> flb_output_instance \<Rightarrow> int" where
  "flb_router_match_type in_event_type o_ins =
     (if in_event_type = FLB_INPUT_LOGS \<and> oi_event_type o_ins AND FLB_OUTPUT_LOGS = 0 then FLB_FALSE
      else if in_event_type = FLB_INPUT_METRICS \<and> oi_event_type o_ins AND FLB_OUTPUT_METRICS = 0 then FLB_FALSE
      else if in_event_type = FLB_INPUT_TRACES \<and> oi_event_type o_ins AND FLB_OUTPUT_TRACES = 0 then FLB_FALSE
      else FLB_TRUE)"

section \<open>Properties\<close>

lemma and_exp_0: "x AND 2 ^ n = 0 \<longleftrightarrow> \<not> bit x n" for x :: u32
  by (rule and_exp_eq_0_iff_not_bit)

lemma mask_bits:
  "x AND FLB_OUTPUT_LOGS = 0 \<longleftrightarrow> \<not> bit x 0"
  "x AND FLB_OUTPUT_METRICS = 0 \<longleftrightarrow> \<not> bit x 1"
  "x AND FLB_OUTPUT_TRACES = 0 \<longleftrightarrow> \<not> bit x 2"
  using and_exp_0 [of x 0] and_exp_0 [of x 1] and_exp_0 [of x 2]
  by (simp_all add: FLB_OUTPUT_LOGS_def FLB_OUTPUT_METRICS_def FLB_OUTPUT_TRACES_def)

lemma flb_config_map_foreach_dll:
  assumes "dll (hp s) head xs"
    and "\<And>p s' s'' b. p \<in> set xs \<Longrightarrow> hp s' = hp s \<Longrightarrow>
      body p (container_of p flb_config_map_val_head_off) s' = Some (s'', b) \<Longrightarrow> hp s'' = hp s"
  shows "flb_config_map_foreach hp body head s =
    fold_break (\<lambda>p. body p (container_of p flb_config_map_val_head_off)) xs s"
  unfolding flb_config_map_foreach_def by (rule mk_list_foreach_dll [where hp = hp, OF assms(1)]) (rule assms(2))

lemma flb_config_map_mult_type_lists:
  "map flb_config_map_mult_type [FLB_CONFIG_MAP_CLIST, FLB_CONFIG_MAP_CLIST_1, FLB_CONFIG_MAP_CLIST_2,
     FLB_CONFIG_MAP_CLIST_3, FLB_CONFIG_MAP_CLIST_4] = replicate 5 FLB_CONFIG_MAP_CLIST"
  "map flb_config_map_mult_type [FLB_CONFIG_MAP_SLIST, FLB_CONFIG_MAP_SLIST_1, FLB_CONFIG_MAP_SLIST_2,
     FLB_CONFIG_MAP_SLIST_3, FLB_CONFIG_MAP_SLIST_4] = replicate 5 FLB_CONFIG_MAP_SLIST"
  "t < FLB_CONFIG_MAP_CLIST \<Longrightarrow> flb_config_map_mult_type t = - 1"
  by (simp_all add: flb_config_map_mult_type_def FLB_CONFIG_MAP_CLIST_def FLB_CONFIG_MAP_CLIST_1_def
      FLB_CONFIG_MAP_CLIST_2_def FLB_CONFIG_MAP_CLIST_3_def FLB_CONFIG_MAP_CLIST_4_def FLB_CONFIG_MAP_SLIST_def
      FLB_CONFIG_MAP_SLIST_1_def FLB_CONFIG_MAP_SLIST_2_def FLB_CONFIG_MAP_SLIST_3_def FLB_CONFIG_MAP_SLIST_4_def
      numeral_eq_Suc)

text \<open>
  Event types.  Inputs number their event types from 0, outputs, filters and processors use masks:
  the router refuses an input and an output exactly when the type of the input is one of the three
  numbers and the bit of that number is not set in the mask of the output.  The chunks an output
  flushes are numbered like the inputs, the filters and processors use the masks of the outputs.
\<close>

lemma router_match_type:
  "flb_router_match_type t o_ins =
     (if t \<in> {FLB_EVENT_TYPE_LOGS, FLB_EVENT_TYPE_METRICS, FLB_EVENT_TYPE_TRACES} \<and> \<not> bit (oi_event_type o_ins) (nat t)
      then FLB_FALSE else FLB_TRUE) \<and>
   map (\<lambda>n. push_bit (nat n) 1) [FLB_EVENT_TYPE_LOGS, FLB_EVENT_TYPE_METRICS, FLB_EVENT_TYPE_TRACES] =
     [FLB_FILTER_LOGS, FLB_FILTER_METRICS, FLB_FILTER_TRACES] \<and>
   [FLB_PROCESSOR_LOGS, FLB_PROCESSOR_METRICS, FLB_PROCESSOR_TRACES] = [FLB_FILTER_LOGS, FLB_FILTER_METRICS, FLB_FILTER_TRACES]"
  by (auto simp: flb_router_match_type_def mask_bits FLB_INPUT_LOGS_def FLB_INPUT_METRICS_def FLB_INPUT_TRACES_def
      c_consts FLB_FILTER_LOGS_def FLB_FILTER_METRICS_def FLB_FILTER_TRACES_def FLB_PROCESSOR_LOGS_def
      FLB_PROCESSOR_METRICS_def FLB_PROCESSOR_TRACES_def)

end
