(* ===== verification/Flb_Sched.thy ===== *)
theory Flb_Sched
  imports Flb_Output Flb_Log Flb_Parser Types_Engine
begin

text \<open>
  Timers and sleeping coroutines (\<^verbatim>\<open>fluent-bit/flb_scheduler.h\<close>, \<^verbatim>\<open>flb_time_utils.h\<close>), and the records
  of the objects that wait and are looked up: connections (\<^verbatim>\<open>flb_connection.h\<close>, \<^verbatim>\<open>flb_upstream_queue.h\<close>,
  \<^verbatim>\<open>flb_upstream_node.h\<close>), chunks (\<^verbatim>\<open>flb_input_chunk.h\<close>, \<^verbatim>\<open>flb_routes_mask.h\<close>), hash tables
  (\<^verbatim>\<open>flb_hash_table.h\<close>), environments (\<^verbatim>\<open>flb_env.h\<close>), callbacks (\<^verbatim>\<open>flb_callback.h\<close>) and decoded log events
  (\<^verbatim>\<open>flb_log_event.h\<close>, \<^verbatim>\<open>flb_log_event_decoder.h\<close>).  Embedded list nodes are named by an address.
\<close>

section \<open>flb_scheduler.h\<close>

definition FLB_SCHED_CAP :: int where "FLB_SCHED_CAP = 2000"
definition FLB_SCHED_BASE :: int where "FLB_SCHED_BASE = 5"
definition FLB_SCHED_REQUEST_FRAME :: int where "FLB_SCHED_REQUEST_FRAME = 10"
definition FLB_SCHED_TIMER_REQUEST :: int where "FLB_SCHED_TIMER_REQUEST = 1"
definition FLB_SCHED_TIMER_FRAME :: int where "FLB_SCHED_TIMER_FRAME = 2"
definition FLB_SCHED_TIMER_CB_ONESHOT :: int where "FLB_SCHED_TIMER_CB_ONESHOT = 3"
definition FLB_SCHED_TIMER_CB_PERM :: int where "FLB_SCHED_TIMER_CB_PERM = 4"

text \<open>\<open>'cb\<close>: the callback of a timer.\<close>

record 'cb flb_sched_timer =
  ti_event :: mk_event
  ti_active :: int
  ti_type :: int
  ti_data :: ptr
  ti_sched :: ptr
  ti_timer_fd :: int
  ti_cb :: 'cb
  ti_config :: ptr
  ti_head :: ptr

record flb_sched_request =
  sr_fd :: int
  sr_created :: int
  sr_timeout :: int
  sr_data :: ptr
  sr_timer :: ptr
  sr_head :: ptr

record flb_sched =
  sd_requests :: ptr
  sd_requests_wait :: ptr
  sd_timers :: ptr
  sd_timers_drop :: ptr
  sd_frame_fd :: int
  sd_evl :: ptr
  sd_config :: ptr

section \<open>flb_time_utils.h\<close>

text \<open>
  \<open>cb\<close> is what a timer calls with the configuration and its data; \<open>timer_cb_create\<close> is
  \<^verbatim>\<open>flb_sched_timer_cb_create\<close> without the pointer for the new timer, which is null here.  \<open>worker\<close> is
  the worker of the thread, for the error message.
\<close>

type_synonym 'x timer_cb = "ptr \<Rightarrow> ptr \<Rightarrow> 'x in_world \<Rightarrow> 'x in_world option"

definition flb_time_thread_wakeup :: "'x in_env \<Rightarrow> 'x timer_cb" where
  "flb_time_thread_wakeup env config data w = flb_coro_resume env data w"

record 'x sleep_env =
  se_in :: "'x in_env"
  se_log :: "(string, 'x in_world) log_env"
  se_coro_get :: "'x in_world \<Rightarrow> ptr"
  se_sched_ctx_get :: "'x in_world \<Rightarrow> ptr"
  se_timer_cb_create :: "ptr \<Rightarrow> int \<Rightarrow> int \<Rightarrow> 'x timer_cb \<Rightarrow> ptr \<Rightarrow> 'x in_world \<Rightarrow> int \<times> 'x in_world"

text \<open>A failing \<^verbatim>\<open>assert\<close> is \<open>None\<close>.\<close>

definition flb_time_sleep :: "'x sleep_env \<Rightarrow> ptr \<Rightarrow> int \<Rightarrow> 'x in_world \<Rightarrow> 'x in_world option" where
  "flb_time_sleep env worker ms w =
     (let coro = se_coro_get env w
      in if coro = NULL then Some (flb_error (se_log env) worker ''[thread] invalid context for thread_sleep()'' w)
         else
           (let sched = se_sched_ctx_get env w
            in if sched = NULL then None
               else
                 (let (ret, w) = se_timer_cb_create env sched FLB_SCHED_TIMER_CB_ONESHOT ms
                        (flb_time_thread_wakeup (se_in env)) coro w
                  in if ret = - 1 then Some w else flb_coro_yield (se_in env) coro FLB_FALSE w)))"

section \<open>flb_connection.h, flb_upstream_queue.h, flb_upstream_node.h\<close>

definition FLB_UNKNOWN_CONNECTION :: int where "FLB_UNKNOWN_CONNECTION = 0"
definition FLB_UPSTREAM_CONNECTION :: int where "FLB_UPSTREAM_CONNECTION = 1"
definition FLB_DOWNSTREAM_CONNECTION :: int where "FLB_DOWNSTREAM_CONNECTION = 2"

text \<open>The union of the parent, one constructor for each member; the raw address of the host is its bytes.\<close>

datatype connection_parent = Parent_Stream ptr | Parent_Upstream ptr | Parent_Downstream ptr

record flb_connection =
  cn_event :: mk_event
  cn_user_data :: ptr
  cn_fd :: int
  cn_raw_remote_host :: "u8 list"
  cn_remote_host :: "u8 list"
  cn_remote_port :: u16
  cn_user_friendly_remote_host :: "u8 list"
  cn_net :: ptr
  cn_net_error :: int
  cn_busy_flag :: int
  cn_shutdown_flag :: int
  cn_recycle :: int
  cn_ka_count :: int
  cn_ts_assigned :: int
  cn_ts_created :: int
  cn_ts_available :: int
  cn_ts_io_timeout :: int
  cn_ts_connect_start :: int
  cn_ts_connect_timeout :: int
  cn_evl :: ptr
  cn_parent :: connection_parent
  cn_coroutine :: ptr
  cn_type :: int
  cn_dynamically_allocated :: int
  cn_head :: ptr
  cn_tls_session :: ptr

record flb_upstream_queue =
  uq_av_queue :: ptr
  uq_busy_queue :: ptr
  uq_destroy_queue :: ptr

text \<open>A build with TLS.\<close>

record flb_upstream_node =
  un_name :: ptr
  un_host :: ptr
  un_port :: ptr
  un_tls_enabled :: int
  un_tls_verify :: int
  un_tls_debug :: int
  un_tls_ca_path :: ptr
  un_tls_ca_file :: ptr
  un_tls_crt_file :: ptr
  un_tls_key_file :: ptr
  un_tls_key_passwd :: ptr
  un_tls :: ptr
  un_ht :: ptr
  un_u :: ptr
  un_data :: ptr
  un_head :: ptr

definition flb_upstream_node_set_data :: "ptr \<Rightarrow> flb_upstream_node \<Rightarrow> flb_upstream_node" where
  "flb_upstream_node_set_data data node = node\<lparr>un_data := data\<rparr>"

definition flb_upstream_node_get_data :: "flb_upstream_node \<Rightarrow> ptr" where
  "flb_upstream_node_get_data node = un_data node"

section \<open>flb_input_chunk.h, flb_routes_mask.h\<close>

definition FLB_ROUTES_MASK_ELEMENTS :: nat where "FLB_ROUTES_MASK_ELEMENTS = 4"
definition FLB_ROUTES_MASK_ELEMENT_BITS :: nat where "FLB_ROUTES_MASK_ELEMENT_BITS = 8 * 8"
definition FLB_ROUTES_MASK_MAX_VALUE :: nat where
  "FLB_ROUTES_MASK_MAX_VALUE = FLB_ROUTES_MASK_ELEMENTS * FLB_ROUTES_MASK_ELEMENT_BITS"

definition FLB_INPUT_CHUNK_SIZE :: int where "FLB_INPUT_CHUNK_SIZE = 262144"
definition FLB_INPUT_CHUNK_FS_MAX_SIZE :: int where "FLB_INPUT_CHUNK_FS_MAX_SIZE = 2048000"
definition FLB_INPUT_CHUNK_META_HEADER :: int where "FLB_INPUT_CHUNK_META_HEADER = 4"
definition FLB_INPUT_CHUNK_MAGIC_BYTE_0 :: u8 where "FLB_INPUT_CHUNK_MAGIC_BYTE_0 = 0xF1"
definition FLB_INPUT_CHUNK_MAGIC_BYTE_1 :: u8 where "FLB_INPUT_CHUNK_MAGIC_BYTE_1 = 0x77"
definition FLB_INPUT_CHUNK_TYPE_LOGS :: int where "FLB_INPUT_CHUNK_TYPE_LOGS = 0"
definition FLB_INPUT_CHUNK_TYPE_METRICS :: int where "FLB_INPUT_CHUNK_TYPE_METRICS = 1"
definition FLB_INPUT_CHUNK_TYPE_TRACES :: int where "FLB_INPUT_CHUNK_TYPE_TRACES = 2"
definition FLB_INPUT_CHUNK_TAG_MAX :: int where "FLB_INPUT_CHUNK_TAG_MAX = 65535 - FLB_INPUT_CHUNK_META_HEADER"

text \<open>A build with metrics and chunk traces; \<open>'m\<close>: the packer of the MessagePack library.\<close>

record 'm flb_input_chunk =
  ik_event_type :: int
  ik_fs_counted :: bool
  ik_busy :: int
  ik_fs_backlog :: int
  ik_sp_done :: int
  ik_total_records :: int
  ik_added_records :: int
  ik_chunk :: ptr
  ik_stream_off :: int
  ik_mp_pck :: 'm
  ik_in :: ptr
  ik_task :: ptr
  ik_trace :: ptr
  ik_routes_mask :: "u64 list"
  ik_head :: ptr

section \<open>flb_hash_table.h, flb_env.h, flb_callback.h\<close>

definition FLB_HASH_TABLE_EVICT_NONE :: int where "FLB_HASH_TABLE_EVICT_NONE = 0"
definition FLB_HASH_TABLE_EVICT_OLDER :: int where "FLB_HASH_TABLE_EVICT_OLDER = 1"
definition FLB_HASH_TABLE_EVICT_LESS_USED :: int where "FLB_HASH_TABLE_EVICT_LESS_USED = 2"
definition FLB_HASH_TABLE_EVICT_RANDOM :: int where "FLB_HASH_TABLE_EVICT_RANDOM = 3"

record flb_hash_table_entry =
  he_created :: int
  he_hits :: u64
  he_hash :: u64
  he_key :: ptr
  he_key_len :: size_t
  he_val :: ptr
  he_val_size :: int
  he_table :: ptr
  he_head :: ptr
  he_head_parent :: ptr

record flb_hash_table_chain =
  hc_count :: int
  hc_chains :: ptr

record flb_hash_table =
  ht_evict_mode :: int
  ht_max_entries :: int
  ht_total_count :: int
  ht_cache_ttl :: int
  ht_size :: size_t
  ht_entries :: ptr
  ht_table :: ptr

definition FLB_ENV_SIZE :: int where "FLB_ENV_SIZE = 64"

record flb_env =
  en_warn_unused :: int
  en_ht :: ptr

definition flb_env_warn_unused :: "flb_env \<Rightarrow> int \<Rightarrow> flb_env" where
  "flb_env_warn_unused env warn = env\<lparr>en_warn_unused := warn\<rparr>"

record flb_callback_entry =
  ce_name :: ptr
  ce_cb :: ptr
  ce_head :: ptr

record flb_callback =
  cb_name :: ptr
  cb_ht :: ptr
  cb_entries :: ptr
  cb_config :: ptr

section \<open>flb_log_event.h, flb_log_event_decoder.h\<close>

definition FLB_LOG_EVENT_FORMAT_UNKNOWN :: int where "FLB_LOG_EVENT_FORMAT_UNKNOWN = 0"
definition FLB_LOG_EVENT_FORMAT_FORWARD_LEGACY :: int where "FLB_LOG_EVENT_FORMAT_FORWARD_LEGACY = 1"
definition FLB_LOG_EVENT_FORMAT_FORWARD :: int where "FLB_LOG_EVENT_FORMAT_FORWARD = 2"
definition FLB_LOG_EVENT_FORMAT_FLUENT_BIT_V1 :: int where
  "FLB_LOG_EVENT_FORMAT_FLUENT_BIT_V1 = FLB_LOG_EVENT_FORMAT_FORWARD"
definition FLB_LOG_EVENT_FORMAT_FLUENT_BIT_V2 :: int where "FLB_LOG_EVENT_FORMAT_FLUENT_BIT_V2 = 4"
definition FLB_LOG_EVENT_FORMAT_DEFAULT :: int where
  "FLB_LOG_EVENT_FORMAT_DEFAULT = FLB_LOG_EVENT_FORMAT_FLUENT_BIT_V2"

record flb_log_event =
  ev_raw_timestamp :: ptr
  ev_timestamp :: flb_time
  ev_metadata :: ptr
  ev_format :: int
  ev_body :: ptr
  ev_root :: ptr

definition FLB_EVENT_DECODER_SUCCESS :: int where "FLB_EVENT_DECODER_SUCCESS = 0"
definition FLB_EVENT_DECODER_ERROR_INITIALIZATION_FAILURE :: int where "FLB_EVENT_DECODER_ERROR_INITIALIZATION_FAILURE = - 1"
definition FLB_EVENT_DECODER_ERROR_INVALID_CONTEXT :: int where "FLB_EVENT_DECODER_ERROR_INVALID_CONTEXT = - 2"
definition FLB_EVENT_DECODER_ERROR_INVALID_ARGUMENT :: int where "FLB_EVENT_DECODER_ERROR_INVALID_ARGUMENT = - 3"
definition FLB_EVENT_DECODER_ERROR_WRONG_ROOT_TYPE :: int where "FLB_EVENT_DECODER_ERROR_WRONG_ROOT_TYPE = - 4"
definition FLB_EVENT_DECODER_ERROR_WRONG_ROOT_SIZE :: int where "FLB_EVENT_DECODER_ERROR_WRONG_ROOT_SIZE = - 5"
definition FLB_EVENT_DECODER_ERROR_WRONG_HEADER_TYPE :: int where "FLB_EVENT_DECODER_ERROR_WRONG_HEADER_TYPE = - 6"
definition FLB_EVENT_DECODER_ERROR_WRONG_HEADER_SIZE :: int where "FLB_EVENT_DECODER_ERROR_WRONG_HEADER_SIZE = - 7"
definition FLB_EVENT_DECODER_ERROR_WRONG_TIMESTAMP_TYPE :: int where "FLB_EVENT_DECODER_ERROR_WRONG_TIMESTAMP_TYPE = - 8"
definition FLB_EVENT_DECODER_ERROR_WRONG_METADATA_TYPE :: int where "FLB_EVENT_DECODER_ERROR_WRONG_METADATA_TYPE = - 9"
definition FLB_EVENT_DECODER_ERROR_WRONG_BODY_TYPE :: int where "FLB_EVENT_DECODER_ERROR_WRONG_BODY_TYPE = - 10"
definition FLB_EVENT_DECODER_ERROR_DESERIALIZATION_FAILURE :: int where "FLB_EVENT_DECODER_ERROR_DESERIALIZATION_FAILURE = - 11"
definition FLB_EVENT_DECODER_ERROR_INSUFFICIENT_DATA :: int where "FLB_EVENT_DECODER_ERROR_INSUFFICIENT_DATA = - 12"
definition FLB_LOG_EVENT_EXPECTED_ROOT_ELEMENT_COUNT :: int where "FLB_LOG_EVENT_EXPECTED_ROOT_ELEMENT_COUNT = 2"
definition FLB_LOG_EVENT_EXPECTED_HEADER_ELEMENT_COUNT :: int where "FLB_LOG_EVENT_EXPECTED_HEADER_ELEMENT_COUNT = 2"

text \<open>\<open>'m\<close>: an unpacked object of the MessagePack library.\<close>

record 'm flb_log_event_decoder =
  ld_dynamically_allocated :: int
  ld_unpacked_empty_map :: 'm
  ld_previous_offset :: size_t
  ld_unpacked_event :: 'm
  ld_record_length :: size_t
  ld_record_base :: ptr
  ld_initialized :: int
  ld_empty_map :: ptr
  ld_buffer :: ptr
  ld_offset :: size_t
  ld_length :: size_t
  ld_last_result :: int

section \<open>flb_lua.h\<close>

definition FLB_LUA_L2C_TYPES_NUM_MAX :: int where "FLB_LUA_L2C_TYPES_NUM_MAX = 16"

datatype flb_lua_l2c_type_enum = FLB_LUA_L2C_TYPE_INT | FLB_LUA_L2C_TYPE_ARRAY

record flb_lua_l2c_type =
  ll_key :: ptr
  ll_type :: int
  ll_head :: ptr

record flb_lua_l2c_config =
  ll_types_num :: int
  ll_types :: ptr

text \<open>
  \<open>lua_gettop\<close> and \<open>lua_absindex\<close> of the Lua runtime for the stack at hand; the version is the macro
  \<^verbatim>\<open>LUA_VERSION_NUM\<close>, when it is defined.
\<close>

definition flb_lua_absindex :: "int option \<Rightarrow> int \<Rightarrow> (int \<Rightarrow> int) \<Rightarrow> int \<Rightarrow> int" where
  "flb_lua_absindex version lua_gettop lua_absindex index =
     (if (case version of None \<Rightarrow> False | Some v \<Rightarrow> v < 520) then
        (if index < 0 then lua_gettop + index + 1 else index)
      else lua_absindex index)"

section \<open>Properties\<close>

text \<open>
  What the scheduler promises for a timer with the callback \<open>cb\<close>: on failure it answers -1 and leaves
  the world alone; otherwise the timer is one of those waiting, and the coroutines are as before.
  \<open>timers\<close> reads the waiting timers with this callback: type, milliseconds and data.
\<close>

definition timer_contract ::
  "(ptr \<Rightarrow> int \<Rightarrow> int \<Rightarrow> 'x timer_cb \<Rightarrow> ptr \<Rightarrow> 'x in_world \<Rightarrow> int \<times> 'x in_world) \<Rightarrow> 'x timer_cb \<Rightarrow>
     ('x in_world \<Rightarrow> (int \<times> int \<times> ptr) list) \<Rightarrow> bool" where
  "timer_contract create cb timers \<longleftrightarrow> (\<forall>sched ty ms data w ret w'. create sched ty ms cb data w = (ret, w') \<longrightarrow>
     (if ret = - 1 then w' = w else (ty, ms, data) \<in> set (timers w') \<and> iw_coros w' = iw_coros w))"

text \<open>Switching to a coroutine, with the context that is active now as the one to come back to.\<close>

definition switched_to :: "'x in_env \<Rightarrow> ptr \<Rightarrow> flb_coro \<Rightarrow> 'x in_world \<Rightarrow> 'x in_world option" where
  "switched_to env coro c w =
     env_co_switch env (co_callee c) (w\<lparr>iw_coros := (iw_coros w)(coro \<mapsto> c\<lparr>co_caller := env_co_active env w\<rparr>)\<rparr>)"

text \<open>
  C31: sleeping.  Inside a coroutine, with a scheduler, \<^verbatim>\<open>flb_time_sleep\<close> either stays in the coroutine,
  with the world as it was, or gives control back to its caller while a one-shot timer waits whose
  data is the coroutine; and whenever the callback of such a timer runs, it switches to this very
  coroutine.  Outside of coroutines \<^verbatim>\<open>flb_time_sleep\<close> only reports an error.
\<close>

theorem sleep_is_woken:
  assumes "timer_contract (se_timer_cb_create env) (flb_time_thread_wakeup (se_in env)) timers"
    and "se_sched_ctx_get env w \<noteq> NULL" "se_coro_get env w = coro" "coro \<noteq> NULL \<longrightarrow> iw_coros w coro = Some c"
    and "iw_coros (env_coro_set (se_in env) coro later) coro = Some c2"
  shows "(if coro = NULL then flb_time_sleep env worker ms w =
        Some (flb_error (se_log env) worker ''[thread] invalid context for thread_sleep()'' w)
      else flb_time_sleep env worker ms w = Some w \<or>
        (\<exists>w1. (FLB_SCHED_TIMER_CB_ONESHOT, ms, coro) \<in> set (timers w1) \<and>
          flb_time_sleep env worker ms w = env_co_switch (se_in env) (co_caller c) w1)) \<and>
    flb_time_thread_wakeup (se_in env) config coro later =
      switched_to (se_in env) coro c2 (env_coro_set (se_in env) coro later)"
proof (rule conjI)
  show "flb_time_thread_wakeup (se_in env) config coro later =
      switched_to (se_in env) coro c2 (env_coro_set (se_in env) coro later)"
    using assms(5) by (simp add: flb_time_thread_wakeup_def flb_coro_resume_def switched_to_def Let_def)
next
  let ?cb = "flb_time_thread_wakeup (se_in env)"
  obtain ret w1 where r: "se_timer_cb_create env (se_sched_ctx_get env w) FLB_SCHED_TIMER_CB_ONESHOT ms ?cb coro w = (ret, w1)"
    by fastforce
  with assms(1) have t: "if ret = - 1 then w1 = w
      else (FLB_SCHED_TIMER_CB_ONESHOT, ms, coro) \<in> set (timers w1) \<and> iw_coros w1 = iw_coros w"
    unfolding timer_contract_def by blast
  have sleep: "flb_time_sleep env worker ms w =
      (if ret = - 1 then Some w1 else flb_coro_yield (se_in env) coro FLB_FALSE w1)" if "coro \<noteq> NULL"
    using that assms(2,3) r by (simp add: flb_time_sleep_def Let_def)
  moreover have "flb_coro_yield (se_in env) coro FLB_FALSE w1 = env_co_switch (se_in env) (co_caller c) w1"
    if "coro \<noteq> NULL" "ret \<noteq> - 1"
    using that t assms(4) by (simp add: flb_coro_yield_def)
  ultimately show "if coro = NULL then flb_time_sleep env worker ms w =
        Some (flb_error (se_log env) worker ''[thread] invalid context for thread_sleep()'' w)
      else flb_time_sleep env worker ms w = Some w \<or>
        (\<exists>w1. (FLB_SCHED_TIMER_CB_ONESHOT, ms, coro) \<in> set (timers w1) \<and>
          flb_time_sleep env worker ms w = env_co_switch (se_in env) (co_caller c) w1)"
    using t assms(3) by (cases "ret = - 1") (auto simp: flb_time_sleep_def)
qed

text \<open>Sleeping for 50 milliseconds in the coroutine 600 of the example, whose world records the timers.\<close>

definition example_sleep_env :: "(int \<times> int \<times> ptr) list sleep_env" where
  "example_sleep_env = \<lparr>se_in = example_in_env,
     se_log = \<lparr>ln_log_level = (\<lambda>w. 3), ln_print = (\<lambda>m w. w), ln_is_truncated = (\<lambda>m. 0)\<rparr>,
     se_coro_get = (\<lambda>w. 600), se_sched_ctx_get = (\<lambda>w. 64),
     se_timer_cb_create = (\<lambda>sched ty ms cb data w. (0, w\<lparr>iw_ext := (ty, ms, data) # iw_ext w\<rparr>))\<rparr>"

theorem sleep_is_woken_witness:
  "flb_time_thread_wakeup example_in_env 3000 600 (example_in_world []) =
     switched_to example_in_env 600 \<lparr>co_caller = 1, co_callee = 4096, co_data = 640\<rparr> (example_in_world [] :: (int \<times> int \<times> ptr) list in_world) \<and>
   (flb_time_sleep example_sleep_env 0 50 (example_in_world []) = Some (example_in_world []) \<or>
    (\<exists>w1. (3, 50, 600) \<in> set (iw_ext w1) \<and> flb_time_sleep example_sleep_env 0 50 (example_in_world []) = Some w1))"
proof -
  let ?c = "\<lparr>co_caller = 1, co_callee = 4096, co_data = 640\<rparr>"
  have "timer_contract (se_timer_cb_create example_sleep_env) (flb_time_thread_wakeup (se_in example_sleep_env)) iw_ext"
    by (auto simp: timer_contract_def example_sleep_env_def)
  moreover have p: "se_in example_sleep_env = example_in_env" "\<And>w. se_sched_ctx_get example_sleep_env w = 64"
    "\<And>w. se_coro_get example_sleep_env w = 600" "\<And>t w. env_co_switch example_in_env t w = Some w"
    "\<And>q w. env_coro_set example_in_env q w = w" "iw_coros (example_in_world []) 600 = Some ?c"
    by (simp_all add: example_sleep_env_def example_in_env_def example_in_world_def)
  ultimately show ?thesis
    using sleep_is_woken [of example_sleep_env iw_ext "example_in_world []" 600 ?c "example_in_world []" ?c 0 50 3000]
    unfolding p by (simp add: p FLB_SCHED_TIMER_CB_ONESHOT_def)
qed

end
