(* ===== verification/Types_Services.thy ===== *)
theory Types_Services
  imports Types_Engine
begin

text \<open>
  The structures of the services around the engine: configuration formats, AWS, HTTP, TLS and
  OAuth clients, stores, metrics, parsers' decoders, proxies, thread pools and utilities.
\<close>

text \<open>\<^verbatim>\<open>fluent-bit/config_format/flb_cf.h\<close>\<close>

definition struct_flb_cf_group :: "build \<Rightarrow> ctype" where
  "struct_flb_cf_group b = cstruct b
    [Mem ''name'' c_ptr, Mem ''properties'' c_ptr, Mem ''_head'' (struct_mk_list b)]"

definition struct_flb_cf_section :: "build \<Rightarrow> ctype" where
  "struct_flb_cf_section b = cstruct b
    [Mem ''type'' c_int, Mem ''name'' c_ptr, Mem ''properties'' c_ptr,
     Mem ''groups'' (struct_mk_list b), Mem ''_head'' (struct_mk_list b),
     Mem ''_head_section'' (struct_mk_list b)]"

definition struct_flb_cf :: "build \<Rightarrow> ctype" where
  "struct_flb_cf b = cstruct b
    [Mem ''format'' c_int, Mem ''service'' c_ptr, Mem ''env'' (struct_mk_list b),
     Mem ''metas'' (struct_mk_list b), Mem ''parsers'' (struct_mk_list b),
     Mem ''multiline_parsers'' (struct_mk_list b), Mem ''customs'' (struct_mk_list b),
     Mem ''inputs'' (struct_mk_list b), Mem ''filters'' (struct_mk_list b),
     Mem ''outputs'' (struct_mk_list b), Mem ''others'' (struct_mk_list b),
     Mem ''sections'' (struct_mk_list b), Mem ''error_str'' c_ptr,
     Mem ''_head'' (struct_mk_list b)]"

text \<open>\<^verbatim>\<open>fluent-bit/flb_api.h\<close>\<close>

definition struct_flb_api :: "build \<Rightarrow> ctype" where
  "struct_flb_api b = cstruct b
    [Mem ''output_get_property'' c_ptr, Mem ''input_get_property'' c_ptr,
     Mem ''output_get_cmt_instance'' c_ptr, Mem ''input_get_cmt_instance'' c_ptr,
     Mem ''log_print'' c_ptr, Mem ''input_log_check'' c_ptr, Mem ''output_log_check'' c_ptr]"

text \<open>\<^verbatim>\<open>fluent-bit/flb_avro.h\<close>\<close>

definition struct_flb_avro_fields :: "build \<Rightarrow> ctype" where
  "struct_flb_avro_fields b = cstruct b
    [Mem ''schema_id'' c_ptr, Mem ''schema_str'' c_ptr]"

text \<open>\<^verbatim>\<open>fluent-bit/flb_aws_credentials.h\<close>\<close>

definition struct_flb_aws_credentials :: "build \<Rightarrow> ctype" where
  "struct_flb_aws_credentials b = cstruct b
    [Mem ''access_key_id'' c_ptr, Mem ''secret_access_key'' c_ptr,
     Mem ''session_token'' c_ptr]"

definition struct_flb_aws_provider_vtable :: "build \<Rightarrow> ctype" where
  "struct_flb_aws_provider_vtable b = cstruct b
    [Mem ''get_credentials'' c_ptr, Mem ''init'' c_ptr, Mem ''refresh'' c_ptr,
     Mem ''destroy'' c_ptr, Mem ''sync'' c_ptr, Mem ''async'' c_ptr,
     Mem ''upstream_set'' c_ptr]"

definition struct_flb_aws_provider :: "build \<Rightarrow> ctype" where
  "struct_flb_aws_provider b = cstruct b
    [Mem ''lock'' (bd_ext b ''pthread_mutex_t''), Mem ''provider_vtable'' c_ptr,
     Mem ''implementation'' c_ptr, Mem ''_head'' (struct_mk_list b),
     Mem ''base_aws_provider'' c_ptr, Mem ''cred_tls'' c_ptr, Mem ''sts_tls'' c_ptr]"

text \<open>\<^verbatim>\<open>fluent-bit/flb_aws_util.h\<close>\<close>

definition struct_flb_aws_header :: "build \<Rightarrow> ctype" where
  "struct_flb_aws_header b = cstruct b
    [Mem ''key'' c_ptr, Mem ''key_len'' c_int64, Mem ''val'' c_ptr, Mem ''val_len'' c_int64]"

definition struct_flb_aws_client_vtable :: "build \<Rightarrow> ctype" where
  "struct_flb_aws_client_vtable b = cstruct b
    [Mem ''request'' c_ptr]"

definition struct_flb_aws_client :: "build \<Rightarrow> ctype" where
  "struct_flb_aws_client b = cstruct b
    [Mem ''client_vtable'' c_ptr, Mem ''name'' c_ptr, Mem ''has_auth'' c_int,
     Mem ''s3_mode'' c_int, Mem ''provider'' c_ptr, Mem ''region'' c_ptr,
     Mem ''service'' c_ptr, Mem ''upstream'' c_ptr, Mem ''host'' c_ptr, Mem ''port'' c_int,
     Mem ''proxy'' c_ptr, Mem ''flags'' c_int, Mem ''extra_user_agent'' c_ptr,
     Mem ''static_headers'' c_ptr, Mem ''static_headers_len'' c_int64,
     Mem ''retry_requests'' c_int, Mem ''refresh_limit'' c_int64, Mem ''debug_only'' c_int]"

definition struct_flb_aws_client_generator :: "build \<Rightarrow> ctype" where
  "struct_flb_aws_client_generator b = cstruct b
    [Mem ''create'' c_ptr]"

text \<open>\<^verbatim>\<open>fluent-bit/flb_chunk_trace.h\<close>\<close>

definition struct_flb_chunk_trace_input_record :: "build \<Rightarrow> ctype" where
  "struct_flb_chunk_trace_input_record b = cstruct b
    [Mem ''t'' (struct_flb_time b), Mem ''input'' c_ptr, Mem ''buf'' c_ptr,
     Mem ''buf_size'' c_int64]"

definition struct_flb_chunk_trace_filter_record :: "build \<Rightarrow> ctype" where
  "struct_flb_chunk_trace_filter_record b = cstruct b
    [Mem ''t'' (struct_flb_time b), Mem ''trace_version'' c_int, Mem ''filter'' c_ptr,
     Mem ''buf'' c_ptr, Mem ''buf_size'' c_int64]"

definition struct_flb_chunk_trace_limit :: "build \<Rightarrow> ctype" where
  "struct_flb_chunk_trace_limit b = cstruct b
    [Mem ''type'' c_int, Mem ''seconds'' c_int, Mem ''seconds_started'' c_int,
     Mem ''count'' c_int]"

definition struct_flb_chunk_trace_context :: "build \<Rightarrow> ctype" where
  "struct_flb_chunk_trace_context b = cstruct b
    [Mem ''input'' c_ptr, Mem ''output'' c_ptr, Mem ''trace_count'' c_int,
     Mem ''limit'' (struct_flb_chunk_trace_limit b), Mem ''trace_prefix'' c_ptr,
     Mem ''to_destroy'' c_int, Mem ''chunks'' c_int, Mem ''flb'' c_ptr, Mem ''cio'' c_ptr]"

definition struct_flb_chunk_trace :: "build \<Rightarrow> ctype" where
  "struct_flb_chunk_trace b = cstruct b
    [Mem ''ic'' c_ptr, Mem ''ctxt'' c_ptr, Mem ''trace_id'' c_ptr,
     Mem ''tracer_versions'' c_int]"

text \<open>\<^verbatim>\<open>fluent-bit/flb_compression.h\<close>\<close>

definition struct_flb_decompression_context :: "build \<Rightarrow> ctype" where
  "struct_flb_decompression_context b = cstruct b
    [Mem ''input_buffer_length'' c_int64, Mem ''input_buffer_size'' c_int64,
     Mem ''input_buffer'' c_ptr, Mem ''read_buffer'' c_ptr, Mem ''algorithm'' c_int,
     Mem ''state'' c_int, Mem ''inner_context'' c_ptr]"

text \<open>\<^verbatim>\<open>fluent-bit/flb_crypto.h\<close>\<close>

definition struct_flb_crypto :: "build \<Rightarrow> ctype" where
  "struct_flb_crypto b = cstruct b
    [Mem ''digest_algorithm'' c_ptr, Mem ''backend_context'' c_ptr,
     Mem ''last_operation'' c_int, Mem ''padding_type'' c_int, Mem ''block_size'' c_int64,
     Mem ''last_error'' c_long, Mem ''key'' c_ptr]"

text \<open>\<^verbatim>\<open>fluent-bit/flb_csv.h\<close>\<close>

definition struct_flb_csv_state :: "build \<Rightarrow> ctype" where
  "struct_flb_csv_state b = cstruct b
    [Mem ''field_callback'' c_ptr, Mem ''buffered_data'' c_ptr, Mem ''escape_buffer'' c_ptr,
     Mem ''offset'' c_int64, Mem ''start'' c_int64, Mem ''length'' c_int64,
     Mem ''field_count'' c_int64, Mem ''state'' c_int, Mem ''field_parsed'' c_char,
     Mem ''has_dquote'' c_char, Mem ''data'' c_ptr]"

text \<open>\<^verbatim>\<open>fluent-bit/flb_fstore.h\<close>\<close>

definition struct_flb_fstore_file :: "build \<Rightarrow> ctype" where
  "struct_flb_fstore_file b = cstruct b
    [Mem ''name'' c_ptr, Mem ''meta_buf'' c_ptr, Mem ''meta_size'' c_int64, Mem ''data'' c_ptr,
     Mem ''chunk'' c_ptr, Mem ''stream'' c_ptr, Mem ''_head'' (struct_mk_list b)]"

definition struct_flb_fstore_stream :: "build \<Rightarrow> ctype" where
  "struct_flb_fstore_stream b = cstruct b
    [Mem ''name'' c_ptr, Mem ''path'' c_ptr, Mem ''stream'' c_ptr,
     Mem ''files'' (struct_mk_list b), Mem ''_head'' (struct_mk_list b)]"

definition struct_flb_fstore :: "build \<Rightarrow> ctype" where
  "struct_flb_fstore b = cstruct b
    [Mem ''store_type'' c_int, Mem ''root_path'' c_ptr, Mem ''cio'' c_ptr,
     Mem ''streams'' (struct_mk_list b)]"

text \<open>\<^verbatim>\<open>fluent-bit/flb_hash.h\<close>\<close>

definition struct_flb_hash :: "build \<Rightarrow> ctype" where
  "struct_flb_hash b = cstruct b
    [Mem ''backend_context'' c_ptr, Mem ''digest_size'' c_int64, Mem ''last_error'' c_long]"

text \<open>\<^verbatim>\<open>fluent-bit/flb_hmac.h\<close>\<close>

definition struct_flb_hmac :: "build \<Rightarrow> ctype" where
  "struct_flb_hmac b = cstruct b
    [Mem ''backend_context'' c_ptr,
     MemIf ''FLB_CRYPTO_OPENSSL_COMPAT_MODE >= 3'' ''mac_algorithm'' c_ptr,
     Mem ''digest_size'' c_int64, Mem ''last_error'' c_long]"

text \<open>\<^verbatim>\<open>fluent-bit/flb_http_client.h\<close>\<close>

definition struct_flb_http_response :: "build \<Rightarrow> ctype" where
  "struct_flb_http_response b = cstruct b
    [Mem ''status'' c_int, Mem ''content_length'' c_int, Mem ''chunked_encoding'' c_int,
     Mem ''connection_close'' c_int, Mem ''chunked_cur_size'' c_long,
     Mem ''chunked_exp_size'' c_long, Mem ''chunk_processed_end'' c_ptr,
     Mem ''headers_end'' c_ptr, Mem ''payload'' c_ptr, Mem ''payload_size'' c_int64,
     Mem ''data'' c_ptr, Mem ''data_len'' c_int64, Mem ''data_size'' c_int64,
     Mem ''data_size_max'' c_int64]"

definition struct_flb_http_proxy :: "build \<Rightarrow> ctype" where
  "struct_flb_http_proxy b = cstruct b
    [Mem ''type'' c_int, Mem ''port'' c_int, Mem ''host'' c_ptr]"

definition struct_flb_http_debug :: "build \<Rightarrow> ctype" where
  "struct_flb_http_debug b = cstruct b
    [Mem ''debug_request_headers'' c_int, Mem ''cb_debug_request_headers'' c_ptr,
     Mem ''debug_request_payload'' c_int, Mem ''cb_debug_request_payload'' c_ptr]"

definition struct_flb_http_client :: "build \<Rightarrow> ctype" where
  "struct_flb_http_client b = cstruct b
    [Mem ''u_conn'' c_ptr, Mem ''method'' c_int, Mem ''flags'' c_int, Mem ''header_len'' c_int,
     Mem ''header_size'' c_int, Mem ''header_buf'' c_ptr, Mem ''allow_dup_headers'' c_int,
     Mem ''uri'' c_ptr, Mem ''query_string'' c_ptr, Mem ''host'' c_ptr, Mem ''port'' c_int,
     Mem ''body_len'' c_int, Mem ''body_buf'' c_ptr, Mem ''headers'' (struct_mk_list b),
     Mem ''proxy'' (struct_flb_http_proxy b), Mem ''resp'' (struct_flb_http_response b),
     Mem ''cb_ctx'' c_ptr]"

text \<open>\<^verbatim>\<open>fluent-bit/flb_intermediate_metric.h\<close>\<close>

definition struct_flb_intermediate_metric :: "build \<Rightarrow> ctype" where
  "struct_flb_intermediate_metric b = cstruct b
    [Mem ''key'' (bd_ext b ''msgpack_object''), Mem ''value'' (bd_ext b ''msgpack_object''),
     Mem ''metric_type'' c_int, Mem ''metric_unit'' c_ptr,
     Mem ''timestamp'' (struct_flb_time b), Mem ''_head'' (struct_mk_list b)]"

text \<open>\<^verbatim>\<open>fluent-bit/flb_kafka.h\<close>\<close>

definition struct_flb_kafka :: "build \<Rightarrow> ctype" where
  "struct_flb_kafka b = cstruct b
    [Mem ''rk'' c_ptr, Mem ''brokers'' c_ptr]"

text \<open>\<^verbatim>\<open>fluent-bit/flb_kv.h\<close>\<close>

definition struct_flb_kv :: "build \<Rightarrow> ctype" where
  "struct_flb_kv b = cstruct b
    [Mem ''key'' c_ptr, Mem ''val'' c_ptr, Mem ''_head'' (struct_mk_list b)]"

text \<open>\<^verbatim>\<open>fluent-bit/flb_lib.h\<close>\<close>

definition struct_flb_lib_ctx :: "build \<Rightarrow> ctype" where
  "struct_flb_lib_ctx b = cstruct b
    [Mem ''status'' c_int, Mem ''event_loop'' c_ptr, Mem ''event_channel'' c_ptr,
     Mem ''config'' c_ptr]"

definition struct_flb_lib_out_cb :: "build \<Rightarrow> ctype" where
  "struct_flb_lib_out_cb b = cstruct b
    [Mem ''cb'' c_ptr, Mem ''data'' c_ptr]"

text \<open>\<^verbatim>\<open>fluent-bit/flb_lua.h\<close>\<close>

definition struct_flb_lua_l2c_type :: "build \<Rightarrow> ctype" where
  "struct_flb_lua_l2c_type b = cstruct b
    [Mem ''key'' c_ptr, Mem ''type'' c_int, Mem ''_head'' (struct_mk_list b)]"

definition struct_flb_lua_l2c_config :: "build \<Rightarrow> ctype" where
  "struct_flb_lua_l2c_config b = cstruct b
    [Mem ''l2c_types_num'' c_int, Mem ''l2c_types'' (struct_mk_list b)]"

text \<open>\<^verbatim>\<open>fluent-bit/flb_luajit.h\<close>\<close>

definition struct_flb_luajit :: "build \<Rightarrow> ctype" where
  "struct_flb_luajit b = cstruct b
    [Mem ''state'' c_ptr, Mem ''config'' c_ptr, Mem ''_head'' (struct_mk_list b)]"

text \<open>\<^verbatim>\<open>fluent-bit/flb_metrics.h\<close>\<close>

definition struct_flb_metric :: "build \<Rightarrow> ctype" where
  "struct_flb_metric b = cstruct b
    [Mem ''id'' c_int, Mem ''title_len'' c_int, Mem ''title'' (CArray 64 c_char),
     Mem ''val'' c_int64, Mem ''_head'' (struct_mk_list b)]"

definition struct_flb_metrics :: "build \<Rightarrow> ctype" where
  "struct_flb_metrics b = cstruct b
    [Mem ''title_len'' c_int, Mem ''title'' (CArray 64 c_char), Mem ''count'' c_int,
     Mem ''list'' (struct_mk_list b)]"

text \<open>\<^verbatim>\<open>fluent-bit/flb_metrics_exporter.h\<close>\<close>

definition struct_flb_me :: "build \<Rightarrow> ctype" where
  "struct_flb_me b = cstruct b
    [Mem ''fd'' c_int, Mem ''config'' c_ptr, Mem ''event'' (struct_mk_event b)]"

text \<open>\<^verbatim>\<open>fluent-bit/flb_net_dns.h\<close>\<close>

definition struct_flb_net_dns :: "build \<Rightarrow> ctype" where
  "struct_flb_net_dns b = cstruct b
    [Mem ''lookups'' (struct_mk_list b), Mem ''lookups_drop'' (struct_mk_list b)]"

text \<open>\<^verbatim>\<open>fluent-bit/flb_oauth2.h\<close>\<close>

definition struct_flb_oauth2 :: "build \<Rightarrow> ctype" where
  "struct_flb_oauth2 b = cstruct b
    [Mem ''auth_url'' c_ptr, Mem ''payload'' c_ptr, Mem ''host'' c_ptr, Mem ''port'' c_ptr,
     Mem ''uri'' c_ptr, Mem ''issued'' c_int64, Mem ''expires'' c_int64,
     Mem ''access_token'' c_ptr, Mem ''token_type'' c_ptr, Mem ''expires_in'' c_int64,
     Mem ''tls'' c_ptr, Mem ''u'' c_ptr]"

text \<open>\<^verbatim>\<open>fluent-bit/flb_pack.h\<close>\<close>

definition struct_flb_pack_state :: "build \<Rightarrow> ctype" where
  "struct_flb_pack_state b = cstruct b
    [Mem ''multiple'' c_int, Mem ''tokens_count'' c_int, Mem ''tokens_size'' c_int,
     Mem ''last_byte'' c_int, Mem ''tokens'' c_ptr, Mem ''parser'' (bd_ext b ''jsmn_parser''),
     Mem ''buf_data'' c_ptr, Mem ''buf_size'' c_int64, Mem ''buf_len'' c_int64]"

definition struct_flb_gelf_fields :: "build \<Rightarrow> ctype" where
  "struct_flb_gelf_fields b = cstruct b
    [Mem ''timestamp_key'' c_ptr, Mem ''host_key'' c_ptr, Mem ''short_message_key'' c_ptr,
     Mem ''full_message_key'' c_ptr, Mem ''level_key'' c_ptr]"

text \<open>\<^verbatim>\<open>fluent-bit/flb_parser_decoder.h\<close>\<close>

definition struct_flb_parser_dec_rule :: "build \<Rightarrow> ctype" where
  "struct_flb_parser_dec_rule b = cstruct b
    [Mem ''type'' c_int, Mem ''backend'' c_int, Mem ''action'' c_int,
     Mem ''_head'' (struct_mk_list b)]"

definition struct_flb_parser_dec :: "build \<Rightarrow> ctype" where
  "struct_flb_parser_dec b = cstruct b
    [Mem ''key'' c_ptr, Mem ''buffer'' c_ptr, Mem ''add_extra_keys'' c_int,
     Mem ''rules'' (struct_mk_list b), Mem ''_head'' (struct_mk_list b)]"

text \<open>\<^verbatim>\<open>fluent-bit/flb_plugin.h\<close>\<close>

definition struct_flb_plugin :: "build \<Rightarrow> ctype" where
  "struct_flb_plugin b = cstruct b
    [Mem ''type'' c_int, Mem ''path'' c_ptr, Mem ''dso_handle'' c_ptr,
     Mem ''_head'' (struct_mk_list b)]"

definition struct_flb_plugins :: "build \<Rightarrow> ctype" where
  "struct_flb_plugins b = cstruct b
    [Mem ''input'' (struct_mk_list b), Mem ''processor'' (struct_mk_list b),
     Mem ''filter'' (struct_mk_list b), Mem ''output'' (struct_mk_list b)]"

text \<open>\<^verbatim>\<open>fluent-bit/flb_plugin_proxy.h\<close>\<close>

definition struct_flb_plugin_proxy_def :: "build \<Rightarrow> ctype" where
  "struct_flb_plugin_proxy_def b = cstruct b
    [Mem ''type'' c_int, Mem ''proxy'' c_int, Mem ''flags'' c_int, Mem ''name'' c_ptr,
     Mem ''description'' c_ptr]"

definition struct_flb_plugin_proxy :: "build \<Rightarrow> ctype" where
  "struct_flb_plugin_proxy b = cstruct b
    [Mem ''def'' c_ptr, Mem ''api'' c_ptr, Mem ''instance'' c_ptr, Mem ''dso_handler'' c_ptr,
     Mem ''data'' c_ptr, Mem ''_head'' (struct_mk_list b)]"

definition struct_flb_plugin_proxy_context :: "build \<Rightarrow> ctype" where
  "struct_flb_plugin_proxy_context b = cstruct b
    [Mem ''remote_context'' c_ptr, Mem ''proxy'' c_ptr]"

definition struct_flb_plugin_input_proxy_context :: "build \<Rightarrow> ctype" where
  "struct_flb_plugin_input_proxy_context b = cstruct b
    [Mem ''coll_fd'' c_int, Mem ''proxy'' c_ptr]"

text \<open>\<^verbatim>\<open>fluent-bit/flb_ra_key.h\<close>\<close>

definition struct_ra_val :: "build \<Rightarrow> ctype" where
  "struct_ra_val b = CUnion
    [(''boolean'', c_char), (''i64'', c_int64), (''f64'', c_double), (''string'', c_ptr)]"

definition struct_flb_ra_value :: "build \<Rightarrow> ctype" where
  "struct_flb_ra_value b = cstruct b
    [Mem ''type'' c_int, Mem ''o'' (bd_ext b ''msgpack_object''),
     Mem ''val'' (struct_ra_val b)]"

text \<open>\<^verbatim>\<open>fluent-bit/flb_record_accessor.h\<close>\<close>

definition struct_flb_record_accessor :: "build \<Rightarrow> ctype" where
  "struct_flb_record_accessor b = cstruct b
    [Mem ''size_hint'' c_int64, Mem ''pattern'' c_ptr, Mem ''list'' (struct_mk_list b),
     Mem ''_head'' (struct_mk_list b)]"

text \<open>\<^verbatim>\<open>fluent-bit/flb_regex.h\<close>\<close>

definition struct_flb_regex :: "build \<Rightarrow> ctype" where
  "struct_flb_regex b = cstruct b
    [Mem ''regex'' c_ptr]"

definition struct_flb_regex_search :: "build \<Rightarrow> ctype" where
  "struct_flb_regex_search b = cstruct b
    [Mem ''last_pos'' c_int, Mem ''region'' c_ptr, Mem ''str'' c_ptr, Mem ''cb_match'' c_ptr,
     Mem ''data'' c_ptr]"

text \<open>\<^verbatim>\<open>fluent-bit/flb_ring_buffer.h\<close>\<close>

definition struct_flb_ring_buffer :: "build \<Rightarrow> ctype" where
  "struct_flb_ring_buffer b = cstruct b
    [Mem ''ctx'' c_ptr, Mem ''event_loop'' c_ptr, Mem ''flush_pending'' c_int,
     Mem ''signal_event'' c_ptr, Mem ''signal_channels'' (CArray 2 c_sock),
     Mem ''data_window'' c_int64, Mem ''data_size'' c_int64, Mem ''data_buf'' c_ptr]"

text \<open>\<^verbatim>\<open>fluent-bit/flb_s3_local_buffer.h\<close>\<close>

definition struct_flb_local_chunk :: "build \<Rightarrow> ctype" where
  "struct_flb_local_chunk b = cstruct b
    [Mem ''key'' c_ptr, Mem ''tag'' c_ptr, Mem ''file_path'' c_ptr, Mem ''size'' c_int64,
     Mem ''ts'' (bd_ext b ''struct timespec''), Mem ''create_time'' c_int64,
     Mem ''failures'' c_int, Mem ''_head'' (struct_mk_list b)]"

definition struct_flb_local_buffer :: "build \<Rightarrow> ctype" where
  "struct_flb_local_buffer b = cstruct b
    [Mem ''dir'' c_ptr, Mem ''ins'' c_ptr, Mem ''chunks'' (struct_mk_list b)]"

text \<open>\<^verbatim>\<open>fluent-bit/flb_sds_list.h\<close>\<close>

definition struct_flb_sds_list_entry :: "build \<Rightarrow> ctype" where
  "struct_flb_sds_list_entry b = cstruct b
    [Mem ''str'' c_ptr, Mem ''_head'' (struct_mk_list b)]"

definition struct_flb_sds_list :: "build \<Rightarrow> ctype" where
  "struct_flb_sds_list b = cstruct b
    [Mem ''strs'' (struct_mk_list b)]"

text \<open>\<^verbatim>\<open>fluent-bit/flb_slist.h\<close>\<close>

definition struct_flb_slist_entry :: "build \<Rightarrow> ctype" where
  "struct_flb_slist_entry b = cstruct b
    [Mem ''str'' c_ptr, Mem ''_head'' (struct_mk_list b)]"

text \<open>\<^verbatim>\<open>fluent-bit/flb_snappy.h\<close>\<close>

definition struct_flb_snappy_data_chunk :: "build \<Rightarrow> ctype" where
  "struct_flb_snappy_data_chunk b = cstruct b
    [Mem ''dynamically_allocated_buffer'' c_int, Mem ''buffer'' c_ptr, Mem ''length'' c_int64,
     Mem ''_head'' (bd_ext b ''struct cfl_list'')]"

text \<open>\<^verbatim>\<open>fluent-bit/flb_sqldb.h\<close>\<close>

definition struct_flb_sqldb :: "build \<Rightarrow> ctype" where
  "struct_flb_sqldb b = cstruct b
    [Mem ''path'' c_ptr, Mem ''desc'' c_ptr, Mem ''shared'' c_int, Mem ''users'' c_int,
     Mem ''parent'' c_ptr, Mem ''handler'' c_ptr, Mem ''_head'' (struct_mk_list b)]"

text \<open>\<^verbatim>\<open>fluent-bit/flb_stacktrace.h\<close>\<close>

definition struct_flb_stacktrace :: "build \<Rightarrow> ctype" where
  "struct_flb_stacktrace b = cstruct b
    [Mem ''state'' c_ptr, Mem ''error'' c_int, Mem ''line'' c_int]"

text \<open>\<^verbatim>\<open>fluent-bit/flb_thread_pool.h\<close>\<close>

definition struct_worker_params :: "build \<Rightarrow> ctype" where
  "struct_worker_params b = cstruct b
    [Mem ''func'' c_ptr, Mem ''data'' c_ptr]"

definition struct_flb_tp_thread :: "build \<Rightarrow> ctype" where
  "struct_flb_tp_thread b = cstruct b
    [Mem ''id'' c_int, Mem ''status'' c_int, Mem ''tid'' (bd_ext b ''pthread_t''),
     Mem ''params'' (struct_worker_params b), Mem ''worker'' c_ptr,
     Mem ''_head'' (struct_mk_list b), Mem ''config'' c_ptr]"

definition struct_flb_tp :: "build \<Rightarrow> ctype" where
  "struct_flb_tp b = cstruct b
    [Mem ''list_threads'' (struct_mk_list b), Mem ''thread_cur'' c_ptr, Mem ''config'' c_ptr]"

text \<open>\<^verbatim>\<open>fluent-bit/flb_typecast.h\<close>\<close>

definition struct_flb_typecast_rule :: "build \<Rightarrow> ctype" where
  "struct_flb_typecast_rule b = cstruct b
    [Mem ''from_type'' c_int, Mem ''to_type'' c_int]"

definition struct_flb_typecast_value :: "build \<Rightarrow> ctype" where
  "struct_flb_typecast_value b = cstruct b
    [Mem ''type'' c_int, Mem ''val'' (CUnion [(''boolean'', c_char), (''i_num'', c_int64),
     (''ui_num'', c_int64), (''d_num'', c_double), (''str'', c_ptr)])]"

text \<open>\<^verbatim>\<open>fluent-bit/flb_upstream_ha.h\<close>\<close>

definition struct_flb_upstream_ha :: "build \<Rightarrow> ctype" where
  "struct_flb_upstream_ha b = cstruct b
    [Mem ''name'' c_ptr, Mem ''last_used_node'' c_ptr, Mem ''nodes'' (struct_mk_list b)]"

text \<open>\<^verbatim>\<open>fluent-bit/flb_utils.h\<close>\<close>

definition struct_flb_split_entry :: "build \<Rightarrow> ctype" where
  "struct_flb_split_entry b = cstruct b
    [Mem ''value'' c_ptr, Mem ''len'' c_int, Mem ''last_pos'' (bd_ext b ''off_t''),
     Mem ''_head'' (struct_mk_list b)]"

text \<open>\<^verbatim>\<open>fluent-bit/tls/flb_tls.h\<close>\<close>

definition struct_flb_tls_session :: "build \<Rightarrow> ctype" where
  "struct_flb_tls_session b = cstruct b
    [Mem ''ptr'' c_ptr, Mem ''tls'' c_ptr, Mem ''connection'' c_ptr]"

definition struct_flb_tls_backend :: "build \<Rightarrow> ctype" where
  "struct_flb_tls_backend b = cstruct b
    [Mem ''name'' c_ptr, Mem ''context_create'' c_ptr, Mem ''context_destroy'' c_ptr,
     Mem ''session_create'' c_ptr, Mem ''session_destroy'' c_ptr, Mem ''net_read'' c_ptr,
     Mem ''net_write'' c_ptr, Mem ''net_handshake'' c_ptr]"

definition struct_flb_tls :: "build \<Rightarrow> ctype" where
  "struct_flb_tls b = cstruct b
    [Mem ''verify'' c_int, Mem ''debug'' c_int, Mem ''vhost'' c_ptr, Mem ''mode'' c_int,
     Mem ''ctx'' c_ptr, Mem ''api'' c_ptr]"

text \<open>\<^verbatim>\<open>fluent-bit/wasm/flb_wasm.h\<close>\<close>

definition struct_flb_wasm :: "build \<Rightarrow> ctype" where
  "struct_flb_wasm b = cstruct b
    [Mem ''module'' (bd_ext b ''wasm_module_t''),
     Mem ''module_inst'' (bd_ext b ''wasm_module_inst_t''),
     Mem ''func'' (bd_ext b ''wasm_function_inst_t''),
     Mem ''exec_env'' (bd_ext b ''wasm_exec_env_t''), Mem ''tag_buffer'' c_int,
     Mem ''record_buffer'' c_int, Mem ''buffer'' c_ptr, Mem ''config'' c_ptr,
     Mem ''_head'' (struct_mk_list b)]"

text \<open>All of them.\<close>

definition service_structs :: "build \<Rightarrow> ctype list" where
  "service_structs b =
    [struct_flb_cf_group b, struct_flb_cf_section b, struct_flb_cf b, struct_flb_api b,
     struct_flb_avro_fields b, struct_flb_aws_credentials b, struct_flb_aws_provider_vtable b,
     struct_flb_aws_provider b, struct_flb_aws_header b, struct_flb_aws_client_vtable b,
     struct_flb_aws_client b, struct_flb_aws_client_generator b,
     struct_flb_chunk_trace_input_record b, struct_flb_chunk_trace_filter_record b,
     struct_flb_chunk_trace_limit b, struct_flb_chunk_trace_context b,
     struct_flb_chunk_trace b, struct_flb_decompression_context b, struct_flb_crypto b,
     struct_flb_csv_state b, struct_flb_fstore_file b, struct_flb_fstore_stream b,
     struct_flb_fstore b, struct_flb_hash b, struct_flb_hmac b, struct_flb_http_response b,
     struct_flb_http_proxy b, struct_flb_http_debug b, struct_flb_http_client b,
     struct_flb_intermediate_metric b, struct_flb_kafka b, struct_flb_kv b,
     struct_flb_lib_ctx b, struct_flb_lib_out_cb b, struct_flb_lua_l2c_type b,
     struct_flb_lua_l2c_config b, struct_flb_luajit b, struct_flb_metric b,
     struct_flb_metrics b, struct_flb_me b, struct_flb_net_dns b, struct_flb_oauth2 b,
     struct_flb_pack_state b, struct_flb_gelf_fields b, struct_flb_parser_dec_rule b,
     struct_flb_parser_dec b, struct_flb_plugin b, struct_flb_plugins b,
     struct_flb_plugin_proxy_def b, struct_flb_plugin_proxy b,
     struct_flb_plugin_proxy_context b, struct_flb_plugin_input_proxy_context b,
     struct_ra_val b, struct_flb_ra_value b, struct_flb_record_accessor b, struct_flb_regex b,
     struct_flb_regex_search b, struct_flb_ring_buffer b, struct_flb_local_chunk b,
     struct_flb_local_buffer b, struct_flb_sds_list_entry b, struct_flb_sds_list b,
     struct_flb_slist_entry b, struct_flb_snappy_data_chunk b, struct_flb_sqldb b,
     struct_flb_stacktrace b, struct_worker_params b, struct_flb_tp_thread b, struct_flb_tp b,
     struct_flb_typecast_rule b, struct_flb_typecast_value b, struct_flb_upstream_ha b,
     struct_flb_split_entry b, struct_flb_tls_session b, struct_flb_tls_backend b,
     struct_flb_tls b, struct_flb_wasm b]"

lemmas service_structs_defs = struct_flb_cf_group_def struct_flb_cf_section_def struct_flb_cf_def struct_flb_api_def
    struct_flb_avro_fields_def struct_flb_aws_credentials_def
    struct_flb_aws_provider_vtable_def struct_flb_aws_provider_def struct_flb_aws_header_def
    struct_flb_aws_client_vtable_def struct_flb_aws_client_def
    struct_flb_aws_client_generator_def struct_flb_chunk_trace_input_record_def
    struct_flb_chunk_trace_filter_record_def struct_flb_chunk_trace_limit_def
    struct_flb_chunk_trace_context_def struct_flb_chunk_trace_def
    struct_flb_decompression_context_def struct_flb_crypto_def struct_flb_csv_state_def
    struct_flb_fstore_file_def struct_flb_fstore_stream_def struct_flb_fstore_def
    struct_flb_hash_def struct_flb_hmac_def struct_flb_http_response_def
    struct_flb_http_proxy_def struct_flb_http_debug_def struct_flb_http_client_def
    struct_flb_intermediate_metric_def struct_flb_kafka_def struct_flb_kv_def
    struct_flb_lib_ctx_def struct_flb_lib_out_cb_def struct_flb_lua_l2c_type_def
    struct_flb_lua_l2c_config_def struct_flb_luajit_def struct_flb_metric_def
    struct_flb_metrics_def struct_flb_me_def struct_flb_net_dns_def struct_flb_oauth2_def
    struct_flb_pack_state_def struct_flb_gelf_fields_def struct_flb_parser_dec_rule_def
    struct_flb_parser_dec_def struct_flb_plugin_def struct_flb_plugins_def
    struct_flb_plugin_proxy_def_def struct_flb_plugin_proxy_def
    struct_flb_plugin_proxy_context_def struct_flb_plugin_input_proxy_context_def
    struct_ra_val_def struct_flb_ra_value_def struct_flb_record_accessor_def
    struct_flb_regex_def struct_flb_regex_search_def struct_flb_ring_buffer_def
    struct_flb_local_chunk_def struct_flb_local_buffer_def struct_flb_sds_list_entry_def
    struct_flb_sds_list_def struct_flb_slist_entry_def struct_flb_snappy_data_chunk_def
    struct_flb_sqldb_def struct_flb_stacktrace_def struct_worker_params_def
    struct_flb_tp_thread_def struct_flb_tp_def struct_flb_typecast_rule_def
    struct_flb_typecast_value_def struct_flb_upstream_ha_def struct_flb_split_entry_def
    struct_flb_tls_session_def struct_flb_tls_backend_def struct_flb_tls_def
    struct_flb_wasm_def

lemma wf_service_structs: "ext_ok b \<Longrightarrow> list_all wf_ctype (service_structs b)"
  by (simp add: service_structs_def service_structs_defs engine_structs_defs monkey_structs_defs members_ok_def wf_cstruct sa_ok_def alignments_def)

end
