(* ===== verification/Flb_Info.thy ===== *)
theory Flb_Info
  imports C_Layout
begin

text \<open>
  The configuration of the build, \<^verbatim>\<open>fluent-bit/flb_info.h\<close>, and the structures' view of it: a Windows build
  (the sources were in a directory of drive C), so the data model is LLP64.
\<close>

definition FLB_SOURCE_DIR :: string where "FLB_SOURCE_DIR = ''C:/projects/fluent-bit-2e87g''"
definition FLB_MSGPACK_TO_JSON_INIT_BUFFER_SIZE :: string where "FLB_MSGPACK_TO_JSON_INIT_BUFFER_SIZE = ''2.0''"
definition FLB_MSGPACK_TO_JSON_REALLOC_BUFFER_SIZE :: string where "FLB_MSGPACK_TO_JSON_REALLOC_BUFFER_SIZE = ''0.10''"
definition ONIG_EXTERN :: string where "ONIG_EXTERN = ''extern''"

text \<open>The flags in the order of the header, which defines \<^verbatim>\<open>FLB_HAVE_METRICS\<close> at two places.\<close>

definition flb_info_flags :: "string list" where
  "flb_info_flags =
    [''FLB_HAVE_IN_STORAGE_BACKLOG'', ''FLB_HAVE_CHUNK_TRACE'', ''FLB_HAVE_PARSER'',
     ''FLB_HAVE_RECORD_ACCESSOR'', ''FLB_HAVE_STREAM_PROCESSOR'', ''JSMN_PARENT_LINKS'',
     ''JSMN_STRICT'', ''FLB_HAVE_TLS'', ''FLB_HAVE_OPENSSL'', ''FLB_HAVE_METRICS'',
     ''FLB_HAVE_AWS'', ''FLB_HAVE_SIGNV4'', ''FLB_HAVE_SQLDB'', ''FLB_HAVE_METRICS'',
     ''FLB_HAVE_HTTP_SERVER'', ''FLB_HAVE_TIMESPEC_GET'', ''FLB_HAVE_PROXY_GO'',
     ''FLB_HAVE_REGEX'', ''FLB_HAVE_UTF8_ENCODER'', ''FLB_HAVE_LUAJIT'']"

definition FLB_INFO_FLAGS :: string where
  "FLB_INFO_FLAGS =
     '' FLB_HAVE_IN_STORAGE_BACKLOG FLB_HAVE_CHUNK_TRACE FLB_HAVE_PARSER'' @
     '' FLB_HAVE_RECORD_ACCESSOR FLB_HAVE_STREAM_PROCESSOR JSMN_PARENT_LINKS'' @
     '' JSMN_STRICT FLB_HAVE_TLS FLB_HAVE_OPENSSL FLB_HAVE_METRICS FLB_HAVE_AWS'' @
     '' FLB_HAVE_SIGNV4 FLB_HAVE_SQLDB FLB_HAVE_METRICS FLB_HAVE_HTTP_SERVER'' @
     '' FLB_HAVE_TIMESPEC_GET FLB_HAVE_PROXY_GO FLB_HAVE_REGEX FLB_HAVE_UTF8_ENCODER'' @
     '' FLB_HAVE_LUAJIT''"

text \<open>The string that the agent prints lists exactly the flags, in their order.\<close>

lemma info_flags_complete: "FLB_INFO_FLAGS = concat (map (\<lambda>f. '' '' @ f) flb_info_flags)"
  by (simp add: FLB_INFO_FLAGS_def flb_info_flags_def)

text \<open>The build of the repository; \<open>ext\<close> are the types of the C library and of the other packages.\<close>

definition agent_build :: "(string \<Rightarrow> ctype) \<Rightarrow> build" where
  "agent_build ext = \<lparr>bd_model = LLP64, bd_ext = ext, bd_defined = (\<lambda>x. x \<in> set flb_info_flags)\<rparr>"

lemma agent_build_features:
  "bd_defined (agent_build ext) ''FLB_HAVE_METRICS''" "bd_defined (agent_build ext) ''FLB_HAVE_CHUNK_TRACE''"
  "bd_defined (agent_build ext) ''FLB_HAVE_TLS''" "\<not> bd_defined (agent_build ext) ''FLB_HAVE_VALGRIND''"
  "\<not> bd_defined (agent_build ext) ''FLB_HAVE_C_TLS''" "\<not> bd_defined (agent_build ext) ''FLB_HAVE_LIBBACKTRACE''"
  by (simp_all add: agent_build_def flb_info_flags_def)

end
