(* ===== verification/Flb_Layouts.thy ===== *)
theory Flb_Layouts
  imports Types_Services Flb_Info Event_Loop Flb_Pipeline Flb_Sched Flb_Text
begin

text \<open>
  The layouts of the declared structures against the component theories: every structure of
  the agent is well formed, list nodes can be mapped back to their objects, and the offsets
  and sizes that the components use are those of the declarations, on both data models.
\<close>

definition agent_structs :: "build \<Rightarrow> ctype list" where
  "agent_structs b = monkey_structs b @ engine_structs b @ service_structs b"

lemma wf_agent_structs: "ext_ok b \<Longrightarrow> t \<in> set (agent_structs b) \<Longrightarrow> wf_ctype t"
  using wf_monkey_structs [of b] wf_engine_structs [of b] wf_service_structs [of b]
  by (auto simp: agent_structs_def list_all_iff)

lemma struct_mk_list_sa: "size_align dm (struct_mk_list b) = (16, 8)"
  by (simp add: struct_mk_list_def cstruct_def select_def struct_sa_def round_up_def)

lemmas layout_eval = cstruct_def select_def struct_sa_def union_sa_def round_up_def field_at_def field_offsets_def
  offsetof_def sizeof_def struct_mk_list_sa

lemma struct_mk_event_sa: "size_align dm (struct_mk_event b) = (72, 8)"
  by (simp add: struct_mk_event_def layout_eval)

lemma mk_event_offsets:
  "offsetof dm (struct_mk_event b) [''_head''] = Some mk_event_head_off"
  "offsetof dm (struct_mk_event b) [''_priority_head''] = Some mk_event_priority_head_off"
  by (simp_all add: struct_mk_event_def layout_eval mk_event_head_off_def mk_event_priority_head_off_def)

lemma flb_task_offsets:
  assumes "bd_defined b ''FLB_HAVE_METRICS''"
  shows "offsetof dm (struct_flb_task b) [''routes''] = Some flb_task_routes_off"
    "offsetof dm (struct_flb_task b) [''retries''] = Some flb_task_retries_off"
    "offsetof dm (struct_flb_task b) [''_head''] = Some flb_task_head_off"
    "offsetof dm (struct_flb_task_route b) [''_head''] = Some flb_task_route_head_off"
  using assms by (simp_all add: struct_flb_task_def struct_flb_task_route_def layout_eval flb_task_routes_off_def
    flb_task_retries_off_def flb_task_head_off_def flb_task_route_head_off_def)

lemma coro_offsets:
  assumes "\<not> bd_defined b ''FLB_HAVE_VALGRIND''"
  shows "sizeof dm (struct_flb_coro b) = sizeof_flb_coro"
    "offsetof dm (struct_flb_input_coro b) [''_head''] = Some flb_input_coro_head_off"
    "sizeof dm (struct_flb_input_coro b) = sizeof_flb_input_coro"
    "sizeof dm (struct_flb_libco_in_params b) = sizeof_flb_libco_in_params"
    "offsetof dm (struct_flb_output_flush b) [''_head''] = Some flb_output_flush_head_off"
    "sizeof dm (struct_flb_output_flush b) = sizeof_flb_output_flush"
    "sizeof dm (struct_flb_out_flush_params b) = sizeof_flb_out_flush_params"
  using assms
  by (simp_all add: struct_flb_coro_def struct_flb_input_coro_def struct_flb_libco_in_params_def struct_flb_output_flush_def
      struct_flb_out_flush_params_def layout_eval sizeof_flb_coro_def flb_input_coro_head_off_def sizeof_flb_input_coro_def
      sizeof_flb_libco_in_params_def flb_output_flush_head_off_def sizeof_flb_output_flush_def sizeof_flb_out_flush_params_def)

lemma queue_sizes:
    "sizeof dm (struct_mk_list b) = sizeof_mk_list"
    "sizeof dm (struct_flb_bucket_queue b) = unat sizeof_flb_bucket_queue"
    "offsetof dm (struct_flb_config_map_val b) [''_head''] = Some flb_config_map_val_head_off"
    "offsetof dm (struct_flb_dns_lookup_context b) [''response_event''] = Some dns_response_event_off"
  by (simp_all add: struct_flb_bucket_queue_def struct_flb_config_map_val_def struct_flb_dns_lookup_context_def layout_eval
    sizeof_mk_list_def sizeof_flb_bucket_queue_def flb_config_map_val_head_off_def dns_response_event_off_def struct_mk_event_sa)

lemma round_up_0 [simp]: "round_up 0 a = 0"
  by (cases a) (simp_all add: round_up_def)

lemma first_member: "offsetof dm (cstruct b (Mem x t # ms)) [x] = Some 0"
  by (cases "size_align dm t") (simp add: offsetof_def cstruct_def select_def field_at_def field_offsets_def)

lemma inherited_members:
  "offsetof dm (struct_flb_connection b) [''event''] = Some 0"
  "offsetof dm (struct_flb_sched_timer b) [''event''] = Some 0"
  "offsetof dm (struct_flb_worker b) [''event''] = Some 0"
  "offsetof dm (struct_flb_input_collector b) [''event''] = Some 0"
  "offsetof dm (struct_flb_out_thread_instance b) [''event''] = Some 0"
  "offsetof dm (struct_flb_upstream b) [''base''] = Some 0"
  "offsetof dm (struct_flb_downstream b) [''base''] = Some 0"
  by (simp_all only: struct_flb_connection_def struct_flb_sched_timer_def struct_flb_worker_def struct_flb_input_collector_def
    struct_flb_out_thread_instance_def struct_flb_upstream_def struct_flb_downstream_def first_member)

lemma flb_sds_layout:
  "sizeof dm (struct_flb_sds b) = FLB_SDS_HEADER_SIZE" "offsetof dm (struct_flb_sds b) [''buf''] = Some FLB_SDS_HEADER_SIZE"
  by (simp_all add: struct_flb_sds_def layout_eval FLB_SDS_HEADER_SIZE_def)

text \<open>A build for an LP64 target with the sizes of its C library.\<close>

definition lp64_build :: build where
  "lp64_build = \<lparr>bd_model = LP64,
     bd_ext = (\<lambda>x. if x = ''pthread_mutex_t'' then COpaque 40 8 else if x = ''pthread_cond_t'' then COpaque 48 8
       else if x = ''struct sockaddr_storage'' then COpaque 128 8 else c_ptr),
     bd_defined = (\<lambda>x. x = ''FLB_HAVE_METRICS'')\<rparr>"

lemma lp64_build_ok: "ext_ok lp64_build"
  by (simp add: ext_ok_def lp64_build_def sa_ok_def alignments_def)

text \<open>
  In every structure the agent declares, on both data models and for every set of features,
  an embedded list node (at any depth) is aligned, never null, lies inside its object, overlaps
  no other member, and \<^verbatim>\<open>container_of\<close> on its address gives the object back.
\<close>

lemma list_nodes_recoverable:
  assumes "ext_ok b" "t \<in> set (agent_structs b)" "dm = bd_model b"
    and "locate dm t p = Some (n, struct_mk_list b)" "alignof dm t dvd obj" "0 < obj"
  shows "container_of (obj + n) n = obj \<and> 8 dvd obj + n \<and> obj + n \<noteq> NULL \<and> n + 16 \<le> sizeof dm t \<and>
    (\<forall>q m u. p \<parallel> q \<longrightarrow> locate dm t q = Some (m, u) \<longrightarrow>
       {obj + n ..< obj + n + 16} \<inter> {obj + m ..< obj + m + sizeof dm u} = {})"
proof -
  note wf = wf_agent_structs [OF assms(1,2)]
  have sa: "sizeof dm (struct_mk_list b) = 16" "alignof dm (struct_mk_list b) = 8"
    by (simp_all add: sizeof_def alignof_def struct_mk_list_sa)
  note l = locate_bounds [OF wf assms(4), unfolded sa]
  have "8 dvd obj + n" using l assms(5) by (meson dvd_add dvd_trans)
  moreover have "{obj + n ..< obj + n + 16} \<inter> {obj + m ..< obj + m + sizeof dm u} = {}"
    if "p \<parallel> q" "locate dm t q = Some (m, u)" for q m u
    using locate_disjoint [OF wf assms(4) that(2,1)] sa by auto
  ultimately show ?thesis using l assms(6) by (simp add: container_of_def)
qed

lemma list_nodes_recoverable_witness:
  "container_of (4096 + 80) 80 = 4096 \<and> {4096 + 80 ..< 4096 + 80 + (16 :: nat)} \<inter> {4096 + 64 ..< 4096 + 64 + 16} = {}"
proof -
  let ?b = "lp64_build"
  have e: "t \<in> set (agent_structs ?b)" if "t = struct_flb_task ?b" for t
    using that by (simp add: agent_structs_def engine_structs_def)
  have d: "bd_defined ?b ''FLB_HAVE_METRICS''" "bd_model ?b = LP64" by (simp_all add: lp64_build_def)
  have l: "locate LP64 (struct_flb_task ?b) [''_head''] = Some (80, struct_mk_list ?b)"
    "locate LP64 (struct_flb_task ?b) [''retries''] = Some (64, struct_mk_list ?b)"
    using d by (simp_all add: struct_flb_task_def layout_eval)
  have a: "alignof LP64 (struct_flb_task ?b) dvd 4096"
    by (simp add: alignof_def struct_flb_task_def layout_eval lp64_build_def)
  have p: "[''_head''] \<parallel> [''retries'']" by (simp add: parallel_def)
  note t = list_nodes_recoverable [OF lp64_build_ok e [OF refl] d(2)[symmetric] l(1) a]
  show ?thesis using t p l(2) by (auto simp: sizeof_def struct_mk_list_sa)
qed

lemmas component_layout_facts = mk_event_offsets flb_task_offsets coro_offsets queue_sizes inherited_members flb_sds_layout

text \<open>
  C25: The offsets and sizes that the components compute with are those of the declared
  structures on both data models; the event of every object the loop dispatches on, and the base
  stream of upstreams and downstreams, are at offset zero, so the casts between them are sound.
\<close>

theorem component_layouts:
  assumes "bd_defined b ''FLB_HAVE_METRICS''" "\<not> bd_defined b ''FLB_HAVE_VALGRIND''"
  shows "offsetof dm (struct_mk_event b) [''_head''] = Some mk_event_head_off \<and>
    offsetof dm (struct_mk_event b) [''_priority_head''] = Some mk_event_priority_head_off \<and>
    offsetof dm (struct_flb_task b) [''routes''] = Some flb_task_routes_off \<and>
    offsetof dm (struct_flb_task b) [''retries''] = Some flb_task_retries_off \<and>
    offsetof dm (struct_flb_task b) [''_head''] = Some flb_task_head_off \<and>
    offsetof dm (struct_flb_task_route b) [''_head''] = Some flb_task_route_head_off \<and>
    offsetof dm (struct_flb_input_coro b) [''_head''] = Some flb_input_coro_head_off \<and>
    sizeof dm (struct_flb_input_coro b) = sizeof_flb_input_coro \<and>
    sizeof dm (struct_flb_libco_in_params b) = sizeof_flb_libco_in_params \<and>
    offsetof dm (struct_flb_output_flush b) [''_head''] = Some flb_output_flush_head_off \<and>
    sizeof dm (struct_flb_output_flush b) = sizeof_flb_output_flush \<and>
    sizeof dm (struct_flb_out_flush_params b) = sizeof_flb_out_flush_params \<and>
    sizeof dm (struct_flb_coro b) = sizeof_flb_coro \<and>
    sizeof dm (struct_mk_list b) = sizeof_mk_list \<and>
    sizeof dm (struct_flb_bucket_queue b) = unat sizeof_flb_bucket_queue \<and>
    offsetof dm (struct_flb_config_map_val b) [''_head''] = Some flb_config_map_val_head_off \<and>
    offsetof dm (struct_flb_dns_lookup_context b) [''response_event''] = Some dns_response_event_off \<and>
    offsetof dm (struct_flb_sds b) [''buf''] = Some FLB_SDS_HEADER_SIZE \<and>
    (\<forall>t\<in>{struct_flb_connection b, struct_flb_sched_timer b, struct_flb_worker b, struct_flb_input_collector b,
        struct_flb_out_thread_instance b}. offsetof dm t [''event''] = Some 0) \<and>
    (\<forall>t\<in>{struct_flb_upstream b, struct_flb_downstream b}. offsetof dm t [''base''] = Some 0)"
  using assms by (simp add: component_layout_facts)

theorem component_layouts_witness:
  "offsetof LLP64 (struct_flb_task (agent_build (\<lambda>_. c_ptr))) [''_head''] = Some flb_task_head_off"
  using component_layouts [of "agent_build (\<lambda>_. c_ptr)" LLP64] by (simp add: agent_build_features)

end
