(* ===== verification/Flb_Plugin_Log.thy ===== *)
theory Flb_Plugin_Log
  imports Flb_Log Flb_Pipeline
begin

text \<open>
  The logging macros of the plugins, \<^verbatim>\<open>fluent-bit/flb_input_plugin.h\<close>, \<^verbatim>\<open>flb_output_plugin.h\<close>,
  \<^verbatim>\<open>flb_filter_plugin.h\<close>, \<^verbatim>\<open>flb_custom_plugin.h\<close> and \<^verbatim>\<open>flb_processor_plugin.h\<close>.  The headers give
  their macros the same names; here the kind of the plugin is a suffix.  The macros test the level of
  the instance, and for inputs, outputs and filters ask the cache of repeated messages; the arguments of
  the message are expressions that the expansion evaluates at every place they stand.
\<close>

section \<open>Arguments and environment\<close>

text \<open>
  The format and its arguments, evaluated: the formatted bytes (none when the conversion fails) and
  the state after the side effects.  The names of the instances are functions the headers only
  declare; \<open>pe_plugin_name\<close> reads the member \<^verbatim>\<open>name\<close> of a plugin.
\<close>

type_synonym 's log_args = "'s \<Rightarrow> u8 list option \<times> 's"

record 's plg_env =
  pe_worker :: ptr
  pe_cache_of :: "ptr \<Rightarrow> ptr"
  pe_check_suppress :: "ptr \<Rightarrow> block \<Rightarrow> size_t \<Rightarrow> 's \<Rightarrow> (int \<times> 's) option"
  pe_print :: "u8 list option log_message \<Rightarrow> 's \<Rightarrow> 's"
  pe_plugin_name :: "ptr \<Rightarrow> string"
  pe_input_name :: "flb_input_instance \<Rightarrow> string"
  pe_output_name :: "flb_output_instance \<Rightarrow> string"
  pe_filter_name :: "flb_filter_instance \<Rightarrow> string"
  pe_custom_name :: "flb_custom_instance \<Rightarrow> string"
  pe_processor_name :: "flb_processor_instance \<Rightarrow> string"

text \<open>The prefixes of the messages.\<close>

definition plg_head :: "string \<Rightarrow> string \<Rightarrow> string \<Rightarrow> string" where
  "plg_head kind plugin name = ''['' @ kind @ '':'' @ plugin @ '':'' @ name @ ''] ''"

definition plg_trace_head :: "string \<Rightarrow> string \<Rightarrow> string \<Rightarrow> string \<times> int \<Rightarrow> string" where
  "plg_trace_head kind plugin name pos =
     ''['' @ kind @ '':'' @ plugin @ '':'' @ name @ '' at '' @ fst pos @ '':'' @ show_int (snd pos) @ ''] ''"

text \<open>The call of \<^verbatim>\<open>flb_log_print\<close> with its arguments.\<close>

definition plg_print :: "'s plg_env \<Rightarrow> int \<Rightarrow> string \<Rightarrow> 's log_args \<Rightarrow> 's \<Rightarrow> 's" where
  "plg_print env level head args s =
     (let (t, s) = args s in pe_print env (Log_Message level None (map_option (\<lambda>t. map of_char head @ t) t)) s)"

text \<open>The expansion with and without the suppression check \<open>check\<close>.\<close>

definition plg_log_checked ::
  "('s log_args \<Rightarrow> 's \<Rightarrow> (int \<times> 's) option) \<Rightarrow> 's plg_env \<Rightarrow> int \<Rightarrow> int \<Rightarrow> string \<Rightarrow> 's log_args \<Rightarrow> 's \<Rightarrow> 's option" where
  "plg_log_checked check env log_level level head args s =
     (if flb_log_check_level log_level level \<noteq> 0 then do {
        (r, s) \<leftarrow> check args s;
        Some (if r = FLB_FALSE then plg_print env level head args s else s)
      } else Some s)"

definition plg_log_unchecked :: "'s plg_env \<Rightarrow> int \<Rightarrow> int \<Rightarrow> string \<Rightarrow> 's log_args \<Rightarrow> 's \<Rightarrow> 's" where
  "plg_log_unchecked env log_level level head args s =
     (if flb_log_check_level log_level level \<noteq> 0 then plg_print env level head args s else s)"

text \<open>The call of \<^verbatim>\<open>flb_log_suppress_check\<close> with an interval; its arguments are evaluated first.\<close>

definition plg_suppress :: "'s plg_env \<Rightarrow> int \<Rightarrow> 's log_args \<Rightarrow> 's \<Rightarrow> (int \<times> 's) option" where
  "plg_suppress env interval args s =
     (let (t, s) = args s
      in flb_log_suppress_check (pe_cache_of env) (pe_check_suppress env) (pe_worker env) interval t s)"

section \<open>flb_input_plugin.h\<close>

definition flb_input_plugin_log_suppress_check ::
  "'s plg_env \<Rightarrow> flb_input_instance \<Rightarrow> 's log_args \<Rightarrow> 's \<Rightarrow> (int \<times> 's) option" where
  "flb_input_plugin_log_suppress_check env ins args s = plg_suppress env (ii_log_suppress_interval ins) args s"

definition flb_plg_error_input :: "'s plg_env \<Rightarrow> flb_input_instance \<Rightarrow> 's log_args \<Rightarrow> 's \<Rightarrow> 's option" where
  "flb_plg_error_input env ctx args s =
     plg_log_checked (flb_input_plugin_log_suppress_check env ctx) env (ii_log_level ctx) FLB_LOG_ERROR
       (plg_head ''input'' (pe_plugin_name env (ii_p ctx)) (pe_input_name env ctx)) args s"

definition flb_plg_warn_input :: "'s plg_env \<Rightarrow> flb_input_instance \<Rightarrow> 's log_args \<Rightarrow> 's \<Rightarrow> 's option" where
  "flb_plg_warn_input env ctx args s =
     plg_log_checked (flb_input_plugin_log_suppress_check env ctx) env (ii_log_level ctx) FLB_LOG_WARN
       (plg_head ''input'' (pe_plugin_name env (ii_p ctx)) (pe_input_name env ctx)) args s"

definition flb_plg_info_input :: "'s plg_env \<Rightarrow> flb_input_instance \<Rightarrow> 's log_args \<Rightarrow> 's \<Rightarrow> 's option" where
  "flb_plg_info_input env ctx args s =
     plg_log_checked (flb_input_plugin_log_suppress_check env ctx) env (ii_log_level ctx) FLB_LOG_INFO
       (plg_head ''input'' (pe_plugin_name env (ii_p ctx)) (pe_input_name env ctx)) args s"

definition flb_plg_debug_input :: "'s plg_env \<Rightarrow> flb_input_instance \<Rightarrow> 's log_args \<Rightarrow> 's \<Rightarrow> 's option" where
  "flb_plg_debug_input env ctx args s =
     plg_log_checked (flb_input_plugin_log_suppress_check env ctx) env (ii_log_level ctx) FLB_LOG_DEBUG
       (plg_head ''input'' (pe_plugin_name env (ii_p ctx)) (pe_input_name env ctx)) args s"

definition flb_plg_trace_input :: "'s plg_env \<Rightarrow> string \<times> int \<Rightarrow> flb_input_instance \<Rightarrow> 's log_args \<Rightarrow> 's \<Rightarrow> 's option" where
  "flb_plg_trace_input env pos ctx args s =
     plg_log_checked (flb_input_plugin_log_suppress_check env ctx) env (ii_log_level ctx) FLB_LOG_TRACE
       (plg_trace_head ''input'' (pe_plugin_name env (ii_p ctx)) (pe_input_name env ctx) pos) args s"

section \<open>flb_output_plugin.h\<close>

definition flb_output_plugin_log_suppress_check ::
  "'s plg_env \<Rightarrow> flb_output_instance \<Rightarrow> 's log_args \<Rightarrow> 's \<Rightarrow> (int \<times> 's) option" where
  "flb_output_plugin_log_suppress_check env ins args s = plg_suppress env (oi_log_suppress_interval ins) args s"

definition flb_plg_error_output :: "'s plg_env \<Rightarrow> flb_output_instance \<Rightarrow> 's log_args \<Rightarrow> 's \<Rightarrow> 's option" where
  "flb_plg_error_output env ctx args s =
     plg_log_checked (flb_output_plugin_log_suppress_check env ctx) env (oi_log_level ctx) FLB_LOG_ERROR
       (plg_head ''output'' (pe_plugin_name env (oi_p ctx)) (pe_output_name env ctx)) args s"

definition flb_plg_warn_output :: "'s plg_env \<Rightarrow> flb_output_instance \<Rightarrow> 's log_args \<Rightarrow> 's \<Rightarrow> 's option" where
  "flb_plg_warn_output env ctx args s =
     plg_log_checked (flb_output_plugin_log_suppress_check env ctx) env (oi_log_level ctx) FLB_LOG_WARN
       (plg_head ''output'' (pe_plugin_name env (oi_p ctx)) (pe_output_name env ctx)) args s"

definition flb_plg_info_output :: "'s plg_env \<Rightarrow> flb_output_instance \<Rightarrow> 's log_args \<Rightarrow> 's \<Rightarrow> 's option" where
  "flb_plg_info_output env ctx args s =
     plg_log_checked (flb_output_plugin_log_suppress_check env ctx) env (oi_log_level ctx) FLB_LOG_INFO
       (plg_head ''output'' (pe_plugin_name env (oi_p ctx)) (pe_output_name env ctx)) args s"

definition flb_plg_debug_output :: "'s plg_env \<Rightarrow> flb_output_instance \<Rightarrow> 's log_args \<Rightarrow> 's \<Rightarrow> 's option" where
  "flb_plg_debug_output env ctx args s =
     plg_log_checked (flb_output_plugin_log_suppress_check env ctx) env (oi_log_level ctx) FLB_LOG_DEBUG
       (plg_head ''output'' (pe_plugin_name env (oi_p ctx)) (pe_output_name env ctx)) args s"

definition flb_plg_trace_output :: "'s plg_env \<Rightarrow> string \<times> int \<Rightarrow> flb_output_instance \<Rightarrow> 's log_args \<Rightarrow> 's \<Rightarrow> 's option" where
  "flb_plg_trace_output env pos ctx args s =
     plg_log_checked (flb_output_plugin_log_suppress_check env ctx) env (oi_log_level ctx) FLB_LOG_TRACE
       (plg_trace_head ''output'' (pe_plugin_name env (oi_p ctx)) (pe_output_name env ctx) pos) args s"

section \<open>flb_filter_plugin.h\<close>

definition flb_filter_plugin_log_suppress_check ::
  "'s plg_env \<Rightarrow> flb_filter_instance \<Rightarrow> 's log_args \<Rightarrow> 's \<Rightarrow> (int \<times> 's) option" where
  "flb_filter_plugin_log_suppress_check env ins args s = plg_suppress env (fi_log_suppress_interval ins) args s"

definition flb_plg_error_filter :: "'s plg_env \<Rightarrow> flb_filter_instance \<Rightarrow> 's log_args \<Rightarrow> 's \<Rightarrow> 's option" where
  "flb_plg_error_filter env ctx args s =
     plg_log_checked (flb_filter_plugin_log_suppress_check env ctx) env (fi_log_level ctx) FLB_LOG_ERROR
       (plg_head ''filter'' (pe_plugin_name env (fi_p ctx)) (pe_filter_name env ctx)) args s"

definition flb_plg_warn_filter :: "'s plg_env \<Rightarrow> flb_filter_instance \<Rightarrow> 's log_args \<Rightarrow> 's \<Rightarrow> 's option" where
  "flb_plg_warn_filter env ctx args s =
     plg_log_checked (flb_filter_plugin_log_suppress_check env ctx) env (fi_log_level ctx) FLB_LOG_WARN
       (plg_head ''filter'' (pe_plugin_name env (fi_p ctx)) (pe_filter_name env ctx)) args s"

definition flb_plg_info_filter :: "'s plg_env \<Rightarrow> flb_filter_instance \<Rightarrow> 's log_args \<Rightarrow> 's \<Rightarrow> 's option" where
  "flb_plg_info_filter env ctx args s =
     plg_log_checked (flb_filter_plugin_log_suppress_check env ctx) env (fi_log_level ctx) FLB_LOG_INFO
       (plg_head ''filter'' (pe_plugin_name env (fi_p ctx)) (pe_filter_name env ctx)) args s"

definition flb_plg_debug_filter :: "'s plg_env \<Rightarrow> flb_filter_instance \<Rightarrow> 's log_args \<Rightarrow> 's \<Rightarrow> 's option" where
  "flb_plg_debug_filter env ctx args s =
     plg_log_checked (flb_filter_plugin_log_suppress_check env ctx) env (fi_log_level ctx) FLB_LOG_DEBUG
       (plg_head ''filter'' (pe_plugin_name env (fi_p ctx)) (pe_filter_name env ctx)) args s"

definition flb_plg_trace_filter :: "'s plg_env \<Rightarrow> string \<times> int \<Rightarrow> flb_filter_instance \<Rightarrow> 's log_args \<Rightarrow> 's \<Rightarrow> 's option" where
  "flb_plg_trace_filter env pos ctx args s =
     plg_log_checked (flb_filter_plugin_log_suppress_check env ctx) env (fi_log_level ctx) FLB_LOG_TRACE
       (plg_trace_head ''filter'' (pe_plugin_name env (fi_p ctx)) (pe_filter_name env ctx) pos) args s"

section \<open>flb_custom_plugin.h\<close>

definition flb_plg_error_custom :: "'s plg_env \<Rightarrow> flb_custom_instance \<Rightarrow> 's log_args \<Rightarrow> 's \<Rightarrow> 's" where
  "flb_plg_error_custom env ctx args s =
     plg_log_unchecked env (ci_log_level ctx) FLB_LOG_ERROR
       (plg_head ''custom'' (pe_plugin_name env (ci_p ctx)) (pe_custom_name env ctx)) args s"

definition flb_plg_warn_custom :: "'s plg_env \<Rightarrow> flb_custom_instance \<Rightarrow> 's log_args \<Rightarrow> 's \<Rightarrow> 's" where
  "flb_plg_warn_custom env ctx args s =
     plg_log_unchecked env (ci_log_level ctx) FLB_LOG_WARN
       (plg_head ''custom'' (pe_plugin_name env (ci_p ctx)) (pe_custom_name env ctx)) args s"

definition flb_plg_info_custom :: "'s plg_env \<Rightarrow> flb_custom_instance \<Rightarrow> 's log_args \<Rightarrow> 's \<Rightarrow> 's" where
  "flb_plg_info_custom env ctx args s =
     plg_log_unchecked env (ci_log_level ctx) FLB_LOG_INFO
       (plg_head ''custom'' (pe_plugin_name env (ci_p ctx)) (pe_custom_name env ctx)) args s"

definition flb_plg_debug_custom :: "'s plg_env \<Rightarrow> flb_custom_instance \<Rightarrow> 's log_args \<Rightarrow> 's \<Rightarrow> 's" where
  "flb_plg_debug_custom env ctx args s =
     plg_log_unchecked env (ci_log_level ctx) FLB_LOG_DEBUG
       (plg_head ''custom'' (pe_plugin_name env (ci_p ctx)) (pe_custom_name env ctx)) args s"

definition flb_plg_trace_custom :: "'s plg_env \<Rightarrow> string \<times> int \<Rightarrow> flb_custom_instance \<Rightarrow> 's log_args \<Rightarrow> 's \<Rightarrow> 's" where
  "flb_plg_trace_custom env pos ctx args s =
     plg_log_unchecked env (ci_log_level ctx) FLB_LOG_TRACE
       (plg_trace_head ''custom'' (pe_plugin_name env (ci_p ctx)) (pe_custom_name env ctx) pos) args s"

section \<open>flb_processor_plugin.h\<close>

definition flb_plg_log :: "'s plg_env \<Rightarrow> flb_processor_instance \<Rightarrow> int \<Rightarrow> 's log_args \<Rightarrow> 's \<Rightarrow> 's" where
  "flb_plg_log env ctx level args s =
     plg_log_unchecked env (pi_log_level ctx) level
       (plg_head ''processor'' (pe_plugin_name env (pi_p ctx)) (pe_processor_name env ctx)) args s"

definition flb_plg_error_processor :: "'s plg_env \<Rightarrow> flb_processor_instance \<Rightarrow> 's log_args \<Rightarrow> 's \<Rightarrow> 's" where
  "flb_plg_error_processor env ctx args s = flb_plg_log env ctx FLB_LOG_ERROR args s"

definition flb_plg_warn_processor :: "'s plg_env \<Rightarrow> flb_processor_instance \<Rightarrow> 's log_args \<Rightarrow> 's \<Rightarrow> 's" where
  "flb_plg_warn_processor env ctx args s = flb_plg_log env ctx FLB_LOG_WARN args s"

definition flb_plg_info_processor :: "'s plg_env \<Rightarrow> flb_processor_instance \<Rightarrow> 's log_args \<Rightarrow> 's \<Rightarrow> 's" where
  "flb_plg_info_processor env ctx args s = flb_plg_log env ctx FLB_LOG_INFO args s"

definition flb_plg_debug_processor :: "'s plg_env \<Rightarrow> flb_processor_instance \<Rightarrow> 's log_args \<Rightarrow> 's \<Rightarrow> 's" where
  "flb_plg_debug_processor env ctx args s = flb_plg_log env ctx FLB_LOG_DEBUG args s"

definition flb_plg_trace_processor :: "'s plg_env \<Rightarrow> flb_processor_instance \<Rightarrow> 's log_args \<Rightarrow> 's \<Rightarrow> 's" where
  "flb_plg_trace_processor env ctx args s = flb_plg_log env ctx FLB_LOG_TRACE args s"

section \<open>The contract of the macros with suppression\<close>

text \<open>
  The specification of a macro of level \<open>l\<close> with the prefix \<open>h\<close> on a text of less than 4095 bytes:
  nothing when the instance does not log the level; otherwise the cache of the worker is asked about
  the text alone, in the buffer of 4096 bytes, and the message is printed with its prefix unless the
  cache has seen it.  \<open>step\<close> is the effect of one evaluation of the arguments.
\<close>

definition suppress_buffer :: "u8 list \<Rightarrow> block" where
  "suppress_buffer t = map Some t @ Some 0 # replicate (4095 - length t) None"

definition plg_outcome :: "'s plg_env \<Rightarrow> ('s \<Rightarrow> 's) \<Rightarrow> u8 list \<Rightarrow> int \<Rightarrow> int \<Rightarrow> string \<Rightarrow> 's \<Rightarrow> 's option" where
  "plg_outcome env step t log_level l h s =
     (if log_level < l then Some s
      else map_option (\<lambda>(r, s'). if r = 0 then pe_print env (Log_Message l None (Some (map of_char h @ t))) (step s') else s')
        (pe_check_suppress env (pe_cache_of env (pe_worker env)) (suppress_buffer t) (of_nat (length t)) (step s)))"

lemma checked_outcome:
  assumes "0 < interval" "pe_worker env \<noteq> NULL" "length t < 4095" "\<And>s. args s = (Some t, step s)"
  shows "plg_log_checked (plg_suppress env interval) env log_level l h args s = plg_outcome env step t log_level l h s"
proof -
  have n: "(of_nat (length t) :: size_t) \<noteq> - 1" using suppress_check_size(2) [of t] assms(3) by simp
  have b: "snd (vsnprintf (replicate 4096 None) (4096 - 1) (Some t)) = suppress_buffer t"
    using assms(3) by (simp add: vsnprintf_def suppress_buffer_def)
  have "flb_log_suppress_check (pe_cache_of env) (pe_check_suppress env) (pe_worker env) interval (Some t) s =
      pe_check_suppress env (pe_cache_of env (pe_worker env)) (suppress_buffer t) (of_nat (length t)) s" for s
    using assms n b by (auto simp: flb_log_suppress_check_def vsnprintf_def Let_def)
  then show ?thesis
    unfolding plg_log_checked_def plg_outcome_def plg_suppress_def plg_print_def assms(4) Let_def prod.case
    by (cases "pe_check_suppress env (pe_cache_of env (pe_worker env)) (suppress_buffer t) (of_nat (length t)) (step s)")
      (auto simp: flb_log_check_level_def)
qed

text \<open>What the headers of inputs, outputs and filters promise for their kind of instance.\<close>

locale plugin_logger =
  fixes log_level interval :: "'c \<Rightarrow> int" and kind :: string
    and plugin :: "'c \<Rightarrow> ptr" and name :: "'s plg_env \<Rightarrow> 'c \<Rightarrow> string"
    and error warn info debug :: "'s plg_env \<Rightarrow> 'c \<Rightarrow> 's log_args \<Rightarrow> 's \<Rightarrow> 's option"
    and trace :: "'s plg_env \<Rightarrow> string \<times> int \<Rightarrow> 'c \<Rightarrow> 's log_args \<Rightarrow> 's \<Rightarrow> 's option"
  assumes error: "error env c args s = plg_log_checked (plg_suppress env (interval c)) env (log_level c) FLB_LOG_ERROR
        (plg_head kind (pe_plugin_name env (plugin c)) (name env c)) args s"
    and warn: "warn env c args s = plg_log_checked (plg_suppress env (interval c)) env (log_level c) FLB_LOG_WARN
        (plg_head kind (pe_plugin_name env (plugin c)) (name env c)) args s"
    and info: "info env c args s = plg_log_checked (plg_suppress env (interval c)) env (log_level c) FLB_LOG_INFO
        (plg_head kind (pe_plugin_name env (plugin c)) (name env c)) args s"
    and debug: "debug env c args s = plg_log_checked (plg_suppress env (interval c)) env (log_level c) FLB_LOG_DEBUG
        (plg_head kind (pe_plugin_name env (plugin c)) (name env c)) args s"
    and trace: "trace env pos c args s = plg_log_checked (plg_suppress env (interval c)) env (log_level c) FLB_LOG_TRACE
        (plg_trace_head kind (pe_plugin_name env (plugin c)) (name env c) pos) args s"
begin

lemma messages:
  assumes "0 < interval c" "pe_worker env \<noteq> NULL" "length t < 4095" "\<And>s. args s = (Some t, step s)"
    and h: "h = plg_head kind (pe_plugin_name env (plugin c)) (name env c)"
  shows "error env c args s = plg_outcome env step t (log_level c) 1 h s"
    "warn env c args s = plg_outcome env step t (log_level c) 2 h s"
    "info env c args s = plg_outcome env step t (log_level c) 3 h s"
    "debug env c args s = plg_outcome env step t (log_level c) 4 h s"
    "trace env pos c args s = plg_outcome env step t (log_level c) 5
       (plg_trace_head kind (pe_plugin_name env (plugin c)) (name env c) pos) s"
  unfolding h error warn info debug trace by (simp_all only: checked_outcome [of "interval c", OF assms(1-4)] log_levels)

end

lemmas plg_input_defs = flb_plg_error_input_def flb_plg_warn_input_def flb_plg_info_input_def flb_plg_debug_input_def
  flb_plg_trace_input_def flb_input_plugin_log_suppress_check_def

lemmas plg_output_defs = flb_plg_error_output_def flb_plg_warn_output_def flb_plg_info_output_def flb_plg_debug_output_def
  flb_plg_trace_output_def flb_output_plugin_log_suppress_check_def

lemmas plg_filter_defs = flb_plg_error_filter_def flb_plg_warn_filter_def flb_plg_info_filter_def flb_plg_debug_filter_def
  flb_plg_trace_filter_def flb_filter_plugin_log_suppress_check_def

interpretation in_log: plugin_logger ii_log_level ii_log_suppress_interval "''input''" ii_p pe_input_name
  flb_plg_error_input flb_plg_warn_input flb_plg_info_input flb_plg_debug_input flb_plg_trace_input
  by unfold_locales (simp_all add: plg_input_defs plg_log_checked_def)

interpretation out_log: plugin_logger oi_log_level oi_log_suppress_interval "''output''" oi_p pe_output_name
  flb_plg_error_output flb_plg_warn_output flb_plg_info_output flb_plg_debug_output flb_plg_trace_output
  by unfold_locales (simp_all add: plg_output_defs plg_log_checked_def)

interpretation filter_log: plugin_logger fi_log_level fi_log_suppress_interval "''filter''" fi_p pe_filter_name
  flb_plg_error_filter flb_plg_warn_filter flb_plg_info_filter flb_plg_debug_filter flb_plg_trace_filter
  by unfold_locales (simp_all add: plg_filter_defs plg_log_checked_def)

section \<open>Properties\<close>

text \<open>
  The macros of inputs, outputs and filters, for an instance with a suppression interval, in a thread with a worker and a text of
  less than 4095 bytes that does not change: below the level of the instance they print nothing, ask no cache and evaluate no
  argument; otherwise they evaluate the arguments, ask the cache of the worker about the text without its prefix, and print the
  text behind the prefix of the instance when the cache has not seen it.  The arguments are evaluated again for that, so that
  the side effects of an argument happen twice for every printed message.
\<close>

lemma plugin_log_messages:
  assumes "0 < ii_log_suppress_interval i" "0 < oi_log_suppress_interval out" "0 < fi_log_suppress_interval fl"
    and "pe_worker env \<noteq> NULL" "length t < 4095" "\<And>s. args s = (Some t, step s)"
    and "hi = plg_head ''input'' (pe_plugin_name env (ii_p i)) (pe_input_name env i)"
    and "ho = plg_head ''output'' (pe_plugin_name env (oi_p out)) (pe_output_name env out)"
    and "hf = plg_head ''filter'' (pe_plugin_name env (fi_p fl)) (pe_filter_name env fl)"
  shows "\<forall>(level, l, h, f) \<in> set
     [(ii_log_level i, 1, hi, flb_plg_error_input env i), (ii_log_level i, 2, hi, flb_plg_warn_input env i),
      (ii_log_level i, 3, hi, flb_plg_info_input env i), (ii_log_level i, 4, hi, flb_plg_debug_input env i),
      (ii_log_level i, 5, plg_trace_head ''input'' (pe_plugin_name env (ii_p i)) (pe_input_name env i) pos,
         flb_plg_trace_input env pos i),
      (oi_log_level out, 1, ho, flb_plg_error_output env out), (oi_log_level out, 2, ho, flb_plg_warn_output env out),
      (oi_log_level out, 3, ho, flb_plg_info_output env out), (oi_log_level out, 4, ho, flb_plg_debug_output env out),
      (oi_log_level out, 5, plg_trace_head ''output'' (pe_plugin_name env (oi_p out)) (pe_output_name env out) pos,
         flb_plg_trace_output env pos out),
      (fi_log_level fl, 1, hf, flb_plg_error_filter env fl), (fi_log_level fl, 2, hf, flb_plg_warn_filter env fl),
      (fi_log_level fl, 3, hf, flb_plg_info_filter env fl), (fi_log_level fl, 4, hf, flb_plg_debug_filter env fl),
      (fi_log_level fl, 5, plg_trace_head ''filter'' (pe_plugin_name env (fi_p fl)) (pe_filter_name env fl) pos,
         flb_plg_trace_filter env pos fl)].
     f args s = plg_outcome env step t level l h s"
  using in_log.messages [OF assms(1,4,5,6,7)] out_log.messages [OF assms(2,4,5,6,8)]
    filter_log.messages [OF assms(3,4,5,6,9)] by simp

text \<open>An environment that records the printed messages and suppresses what it has printed.\<close>

definition example_plg_env :: "(nat \<times> u8 list list) plg_env" where
  "example_plg_env =
    \<lparr>pe_worker = 8, pe_cache_of = (\<lambda>w. w),
     pe_check_suppress = (\<lambda>c buf n (k, out). Some (if k = 2 then 1 else 0, k, out)),
     pe_print = (\<lambda>m (k, out). case m of Log_Message l pos f \<Rightarrow> (k, out @ [case f of None \<Rightarrow> [] | Some x \<Rightarrow> x])),
     pe_plugin_name = (\<lambda>p. ''p''), pe_input_name = (\<lambda>i. ''p.0''), pe_output_name = (\<lambda>o'. ''p.1''),
     pe_filter_name = (\<lambda>f. ''p.2''), pe_custom_name = (\<lambda>c. ''p.3''), pe_processor_name = (\<lambda>r. ''p.4'')\<rparr>"

definition example_filter :: flb_filter_instance where
  "example_filter =
    \<lparr>fi_event_type = 1, fi_id = 0, fi_log_level = 3, fi_log_suppress_interval = 5, fi_name = [], fi_alias = 0,
     fi_match = 0, fi_match_regex = 0, fi_parent_processor = 0, fi_context = 0, fi_data = 0, fi_p = 0,
     fi_properties = 0, fi_config_map = 0, fi_head = 0, fi_cmt = 0, fi_cmt_records = 0, fi_cmt_bytes = 0,
     fi_cmt_add_records = 0, fi_cmt_drop_records = 0, fi_metrics = 0, fi_config = 0\<rparr>"

lemma plugin_log_messages_witness:
  "flb_plg_error_input example_plg_env (zero_flb_input_instance\<lparr>ii_log_level := 3, ii_log_suppress_interval := 5\<rparr>)
     (\<lambda>(k, out). (Some [65], k + 1, out)) (0, []) =
   Some (2, [map of_char (plg_head ''input'' ''p'' ''p.0'') @ [65]])"
proof -
  let ?i = "zero_flb_input_instance\<lparr>ii_log_level := 3, ii_log_suppress_interval := 5\<rparr>"
  let ?out = "zero_flb_output_instance\<lparr>oi_log_suppress_interval := 5\<rparr>"
  let ?fl = "example_filter"
  have "\<forall>(level, l, h, f) \<in> set [(ii_log_level ?i, 1, plg_head ''input'' ''p'' ''p.0'', flb_plg_error_input example_plg_env ?i)].
     f (\<lambda>(k, out). (Some [65], k + 1, out)) (0, []) = plg_outcome example_plg_env (\<lambda>(k, out). (k + 1, out)) [65] level l h (0, [])"
    using plugin_log_messages [of ?i ?out ?fl example_plg_env "[65]" "\<lambda>(k, out). (Some [65], k + 1, out)" "\<lambda>(k, out). (k + 1, out)"
      _ _ _ "(''f'', 1)" "(0, [])"]
    by (simp add: example_plg_env_def example_filter_def case_prod_beta)
  then show ?thesis by (simp add: plg_outcome_def example_plg_env_def)
qed

text \<open>
  Custom plugins and processors print whatever their level admits, with one evaluation of the
  arguments; the processors have no place in their trace messages.
\<close>

lemma plugin_log_unsuppressed:
  assumes "\<And>s. args s = (Some t, step s)"
    and "hc = plg_head ''custom'' (pe_plugin_name env (ci_p c)) (pe_custom_name env c)"
    and "hp = plg_head ''processor'' (pe_plugin_name env (pi_p p)) (pe_processor_name env p)"
  shows "\<forall>(level, l, h, f) \<in> set
     [(ci_log_level c, 1, hc, flb_plg_error_custom env c), (ci_log_level c, 2, hc, flb_plg_warn_custom env c),
      (ci_log_level c, 3, hc, flb_plg_info_custom env c), (ci_log_level c, 4, hc, flb_plg_debug_custom env c),
      (ci_log_level c, 5, plg_trace_head ''custom'' (pe_plugin_name env (ci_p c)) (pe_custom_name env c) pos,
         flb_plg_trace_custom env pos c),
      (pi_log_level p, 1, hp, flb_plg_error_processor env p), (pi_log_level p, 2, hp, flb_plg_warn_processor env p),
      (pi_log_level p, 3, hp, flb_plg_info_processor env p), (pi_log_level p, 4, hp, flb_plg_debug_processor env p),
      (pi_log_level p, 5, hp, flb_plg_trace_processor env p)].
     f args s = (if level < l then s else pe_print env (Log_Message l None (Some (map of_char h @ t))) (step s))"
  using assms(1) unfolding assms(2,3)
  by (simp add: flb_plg_error_custom_def flb_plg_warn_custom_def flb_plg_info_custom_def flb_plg_debug_custom_def
    flb_plg_trace_custom_def flb_plg_error_processor_def flb_plg_warn_processor_def flb_plg_info_processor_def
    flb_plg_debug_processor_def flb_plg_trace_processor_def flb_plg_log_def plg_log_unchecked_def plg_print_def
    flb_log_check_level_def log_levels)

end
