(* ===== verification/Flb_Platform.thy ===== *)
theory Flb_Platform
  imports Flb_Text Flb_Mem
begin

text \<open>
  Portability: thread-local storage (\<^verbatim>\<open>fluent-bit/flb_thread_storage.h\<close>), sleeping and the POSIX
  functions of the Windows builds (\<^verbatim>\<open>monkey/mk_core/mk_sleep.h\<close>, \<^verbatim>\<open>fluent-bit/flb_compat.h\<close>), sockets and
  pipes (\<^verbatim>\<open>flb_socket.h\<close>, \<^verbatim>\<open>flb_pipe.h\<close>), byte orders (\<^verbatim>\<open>flb_endian.h\<close>), kernel versions (\<^verbatim>\<open>flb_kernel.h\<close>) and
  back traces (\<^verbatim>\<open>flb_stacktrace.h\<close>).  Functions of the operating systems and of the back trace
  library are parameters.
\<close>

section \<open>flb_thread_storage.h\<close>

text \<open>
  A variable made by \<^verbatim>\<open>FLB_TLS_DEFINE\<close>.  With \<^verbatim>\<open>FLB_HAVE_C_TLS\<close> it is one pointer per thread,
  null at first.  Otherwise it is a global key into the thread-specific data of the POSIX
  threads: \<open>tk_values\<close> of each key and thread, \<open>tk_next\<close> the number of keys in use.
\<close>

type_synonym thread = nat

type_synonym c_tls = "thread \<Rightarrow> ptr"

record pthread_tls =
  tk_key :: nat
  tk_next :: nat
  tk_values :: "nat \<Rightarrow> thread \<Rightarrow> ptr"

definition FLB_TLS_DEFINE_c :: c_tls where
  "FLB_TLS_DEFINE_c = (\<lambda>_. NULL)"

definition FLB_TLS_SET_c :: "thread \<Rightarrow> ptr \<Rightarrow> c_tls \<Rightarrow> c_tls" where
  "FLB_TLS_SET_c t v s = s(t := v)"

definition FLB_TLS_GET_c :: "thread \<Rightarrow> c_tls \<Rightarrow> ptr" where
  "FLB_TLS_GET_c t s = s t"

definition FLB_TLS_INIT_c :: "c_tls \<Rightarrow> c_tls" where
  "FLB_TLS_INIT_c s = s"

text \<open>
  \<^verbatim>\<open>pthread_key_create\<close> fails, and leaves the key alone, when all \<open>keys_max\<close> keys are in use; a new key has the
  value null in every thread.  A definition of the variable creates no key.  \<^verbatim>\<open>pthread_setspecific\<close> answers 0, or ENOMEM
  without storing the value when \<open>room\<close> says that no memory is left for it; the macro is an expression with that
  answer, which its uses in the headers ignore.
\<close>

definition FLB_TLS_DEFINE_pthread :: "nat \<Rightarrow> (nat \<Rightarrow> thread \<Rightarrow> ptr) \<Rightarrow> pthread_tls" where
  "FLB_TLS_DEFINE_pthread used values = \<lparr>tk_key = 0, tk_next = used, tk_values = values\<rparr>"

definition ENOMEM :: int where
  "ENOMEM = 12"

definition FLB_TLS_SET_pthread :: "(thread \<Rightarrow> pthread_tls \<Rightarrow> bool) \<Rightarrow> thread \<Rightarrow> ptr \<Rightarrow> pthread_tls \<Rightarrow> int \<times> pthread_tls" where
  "FLB_TLS_SET_pthread room t v s =
     (if room t s then (0, s\<lparr>tk_values := (tk_values s)(tk_key s := (tk_values s (tk_key s))(t := v))\<rparr>)
      else (ENOMEM, s))"

definition FLB_TLS_GET_pthread :: "thread \<Rightarrow> pthread_tls \<Rightarrow> ptr" where
  "FLB_TLS_GET_pthread t s = tk_values s (tk_key s) t"

definition FLB_TLS_INIT_pthread :: "nat \<Rightarrow> pthread_tls \<Rightarrow> pthread_tls" where
  "FLB_TLS_INIT_pthread keys_max s =
     (if tk_next s < keys_max
      then s\<lparr>tk_key := tk_next s, tk_next := Suc (tk_next s), tk_values := (tk_values s)(tk_next s := (\<lambda>_. NULL))\<rparr>
      else s)"

text \<open>An access of a thread, a write or a read, and the values that a sequence of accesses reads.\<close>

datatype tls_access = TLS_Write thread ptr | TLS_Read thread

fun tls_reads :: "(thread \<Rightarrow> ptr \<Rightarrow> 's \<Rightarrow> 's) \<Rightarrow> (thread \<Rightarrow> 's \<Rightarrow> ptr) \<Rightarrow> tls_access list \<Rightarrow> 's \<Rightarrow> ptr list" where
  "tls_reads put get [] s = []"
| "tls_reads put get (TLS_Write t v # ops) s = tls_reads put get ops (put t v s)"
| "tls_reads put get (TLS_Read t # ops) s = get t s # tls_reads put get ops s"

text \<open>What the code relies on: a thread reads what it wrote last, whatever the others write.\<close>

locale thread_storage =
  fixes put :: "thread \<Rightarrow> ptr \<Rightarrow> 's \<Rightarrow> 's" and get :: "thread \<Rightarrow> 's \<Rightarrow> ptr"
  assumes get_set: "get t (put t' v s) = (if t = t' then v else get t s)"
begin

lemma reads_per_thread:
  "tls_reads put get ops s = tls_reads (\<lambda>t v g. g(t := v)) (\<lambda>t g. g t) ops (\<lambda>t. get t s)"
proof (induction ops arbitrary: s)
  case (Cons op ops)
  have "(\<lambda>t'. get t' (put t v s)) = (\<lambda>t'. get t' s)(t := v)" for t v by (auto simp: get_set)
  with Cons show ?case by (cases op) (auto simp: fun_upd_def)
qed simp

end

interpretation c_storage: thread_storage FLB_TLS_SET_c FLB_TLS_GET_c
  by unfold_locales (simp add: FLB_TLS_SET_c_def FLB_TLS_GET_c_def)

text \<open>With the POSIX threads this holds only while every store finds memory.\<close>

abbreviation always_room :: "thread \<Rightarrow> pthread_tls \<Rightarrow> bool" where
  "always_room \<equiv> \<lambda>_ _. True"

interpretation pthread_storage: thread_storage "\<lambda>t v s. snd (FLB_TLS_SET_pthread always_room t v s)" FLB_TLS_GET_pthread
  by unfold_locales (simp add: FLB_TLS_SET_pthread_def FLB_TLS_GET_pthread_def)

text \<open>
  The two implementations of thread-local variables answer every interleaving of reads and writes of the threads alike,
  once the variable is initialised and a key was left, as long as no store fails.  A failed store leaves the old
  value, and a second initialisation loses the values in the second implementation only.
\<close>

lemma tls_variants_agree:
  assumes "tk_next s < keys_max"
  shows "tls_reads (\<lambda>t v s. snd (FLB_TLS_SET_pthread always_room t v s)) FLB_TLS_GET_pthread ops (FLB_TLS_INIT_pthread keys_max s) =
    tls_reads FLB_TLS_SET_c FLB_TLS_GET_c ops (FLB_TLS_INIT_c FLB_TLS_DEFINE_c)"
proof -
  have "(\<lambda>t. FLB_TLS_GET_pthread t (FLB_TLS_INIT_pthread keys_max s)) = (\<lambda>t. FLB_TLS_GET_c t (FLB_TLS_INIT_c FLB_TLS_DEFINE_c))"
    using assms by (simp add: FLB_TLS_GET_pthread_def FLB_TLS_INIT_pthread_def FLB_TLS_GET_c_def FLB_TLS_INIT_c_def FLB_TLS_DEFINE_c_def)
  then show ?thesis
    unfolding c_storage.reads_per_thread [of ops] pthread_storage.reads_per_thread [of ops] by simp
qed

lemma tls_store_fails:
  assumes "\<not> room t s"
  shows "FLB_TLS_GET_pthread t (snd (FLB_TLS_SET_pthread room t v s)) = FLB_TLS_GET_pthread t s"
    "FLB_TLS_GET_c t (FLB_TLS_SET_c t v c) = v"
  using assms by (simp_all add: FLB_TLS_SET_pthread_def FLB_TLS_GET_c_def FLB_TLS_SET_c_def)

lemma tls_init_twice:
  assumes "Suc (tk_next s) < keys_max"
  shows "FLB_TLS_GET_c t (FLB_TLS_INIT_c (FLB_TLS_SET_c t v c)) = v"
    "FLB_TLS_GET_pthread t (FLB_TLS_INIT_pthread keys_max (snd (FLB_TLS_SET_pthread room t v (FLB_TLS_INIT_pthread keys_max s)))) = NULL"
  using assms by (simp_all add: FLB_TLS_GET_pthread_def FLB_TLS_INIT_pthread_def FLB_TLS_SET_pthread_def FLB_TLS_GET_c_def
    FLB_TLS_INIT_c_def FLB_TLS_SET_c_def)

section \<open>flb_kernel.h\<close>

definition FLB_KERNEL_VERSION :: "int \<Rightarrow> int \<Rightarrow> int \<Rightarrow> int" where
  "FLB_KERNEL_VERSION a b c = push_bit 16 a + push_bit 8 b + c"

record flb_kernel =
  kn_minor :: u8
  kn_major :: u8
  kn_patch :: u8
  kn_n_version :: u32
  kn_s_version :: mk_ptr_t

text \<open>
  Numeric kernel versions compare as the triples of their components while the last two are below
  256, and then each component can be read back; from 256 on, as in the long-lived series of Linux,
  they collide with later versions.
\<close>

lemma kernel_version_order:
  assumes "0 \<le> b" "b < 256" "0 \<le> c" "c < 256" "0 \<le> b'" "b' < 256" "0 \<le> c'" "c' < 256"
  shows "(FLB_KERNEL_VERSION a b c < FLB_KERNEL_VERSION a' b' c' \<longleftrightarrow> a < a' \<or> a = a' \<and> (b < b' \<or> b = b' \<and> c < c')) \<and>
    drop_bit 16 (FLB_KERNEL_VERSION a b c) = a \<and> drop_bit 8 (FLB_KERNEL_VERSION a b c) mod 256 = b \<and>
    FLB_KERNEL_VERSION a b c mod 256 = c \<and> FLB_KERNEL_VERSION a b 256 = FLB_KERNEL_VERSION a (b + 1) 0"
proof -
  have v: "FLB_KERNEL_VERSION x y z = 65536 * x + 256 * y + z" for x y z
    by (simp add: FLB_KERNEL_VERSION_def push_bit_eq_mult)
  have e: "(256 * x + z) div 256 = x" "(256 * x + z) mod 256 = z" if "0 \<le> z" "z < 256" for x z :: int
    using that by auto
  have s: "FLB_KERNEL_VERSION a b c = 256 * (256 * a + b) + c" by (simp add: v)
  have q: "FLB_KERNEL_VERSION a b c div 256 = 256 * a + b" unfolding s using assms e by blast
  have "drop_bit 16 (FLB_KERNEL_VERSION a b c) = FLB_KERNEL_VERSION a b c div 256 div 256"
    by (simp add: drop_bit_eq_div div_mult2_eq [symmetric] zdiv_zmult2_eq [symmetric])
  then have d: "drop_bit 16 (FLB_KERNEL_VERSION a b c) = a" "drop_bit 8 (FLB_KERNEL_VERSION a b c) mod 256 = b"
    "FLB_KERNEL_VERSION a b c mod 256 = c"
    using assms q e(1) [of b a] e(2) [of b a] e(2) [of c "256 * a + b"] s by (simp_all add: drop_bit_eq_div)
  show ?thesis using d assms unfolding v by auto
qed

lemma kernel_version_order_witness:
  "FLB_KERNEL_VERSION 4 14 255 < FLB_KERNEL_VERSION 4 15 0 \<and> FLB_KERNEL_VERSION 4 14 256 = FLB_KERNEL_VERSION 4 15 0"
  using kernel_version_order [of 14 255 15 0 4 4] by simp

section \<open>mk_sleep.h\<close>

text \<open>
  The build for Windows.  The calls of the waitable timers are recorded; \<open>timer\<close> is what
  \<^verbatim>\<open>CreateWaitableTimer\<close> answers (0 on failure) and \<open>set_ok\<close> the answer of \<^verbatim>\<open>SetWaitableTimer\<close>.  Times
  are 64-bit numbers of 100 nanoseconds, negative for relative ones.
\<close>

datatype timer_call = Create_Timer nat | Set_Timer nat u64 | Wait_Timer nat | Close_Handle nat

definition sleep_win :: "u32 \<Rightarrow> u32" where
  "sleep_win x = x * 1000"

definition nanosleep_win :: "nat \<Rightarrow> bool \<Rightarrow> u64 \<Rightarrow> int \<times> timer_call list" where
  "nanosleep_win timer set_ok ns =
     (if timer = 0 then (0, [Create_Timer timer])
      else if \<not> set_ok then (0, [Create_Timer timer, Set_Timer timer (- ns), Close_Handle timer])
      else (1, [Create_Timer timer, Set_Timer timer (- ns), Wait_Timer timer, Close_Handle timer]))"

section \<open>flb_compat.h\<close>

definition FLB_DIRCHAR :: "bool \<Rightarrow> char" where
  "FLB_DIRCHAR windows = (if windows then CHR 0x5C else CHR ''/'')"

text \<open>\<^verbatim>\<open>S_IFMT\<close> and \<^verbatim>\<open>S_IFREG\<close> of the C library of Windows.\<close>

definition S_ISREG_win :: "u32 \<Rightarrow> u32 \<Rightarrow> u32 \<Rightarrow> bool" where
  "S_ISREG_win s_ifmt s_ifreg m \<longleftrightarrow> m AND s_ifmt = s_ifreg"

definition S_ISLNK_win :: "u32 \<Rightarrow> int" where
  "S_ISLNK_win m = 0"

text \<open>\<^verbatim>\<open>GetSystemInfo\<close> gives the page size, a 32-bit number, which becomes an \<^verbatim>\<open>int\<close>.\<close>

definition getpagesize_win :: "u32 \<Rightarrow> int" where
  "getpagesize_win dwPageSize = sint dwPageSize"

text \<open>
  Broken-down times \<open>'t\<close> are stored at an address.  \<^verbatim>\<open>gmtime_s\<close> and \<^verbatim>\<open>localtime_s\<close> answer an error number
  and the broken-down time; \<^verbatim>\<open>ctime\<close> answers a text or null.
\<close>

definition gmtime_r_win :: "(int \<Rightarrow> int \<times> 't) \<Rightarrow> int \<Rightarrow> ptr \<Rightarrow> (ptr \<Rightarrow> 't) \<Rightarrow> ptr \<times> (ptr \<Rightarrow> 't)" where
  "gmtime_r_win gmtime_s timep result tms =
     (let (e, tm) = gmtime_s timep; tms = tms(result := tm) in if e \<noteq> 0 then (NULL, tms) else (result, tms))"

definition ctime_r_win :: "(int \<Rightarrow> string option) \<Rightarrow> int \<Rightarrow> ptr \<Rightarrow> (ptr \<Rightarrow> string) \<Rightarrow> ptr \<times> (ptr \<Rightarrow> string)" where
  "ctime_r_win ctime timep result texts =
     (case ctime timep of None \<Rightarrow> (NULL, texts) | Some tmp \<Rightarrow> (result, texts(result := tmp)))"

definition flb_localtime_r :: "(int \<Rightarrow> int \<times> 't) \<Rightarrow> int \<Rightarrow> ptr \<Rightarrow> (ptr \<Rightarrow> 't) \<Rightarrow> ptr \<times> (ptr \<Rightarrow> 't)" where
  "flb_localtime_r localtime_s timep result tms =
     (let (e, tm) = localtime_s timep; tms = tms(result := tm) in if e \<noteq> 0 then (NULL, tms) else (result, tms))"

text \<open>
  \<open>splitpath\<close> and \<open>makepath\<close> of the C library split a path into drive, directory, name and
  extension, and put them together.
\<close>

definition basename_win ::
  "(string \<Rightarrow> string \<times> string \<times> string \<times> string) \<Rightarrow> (string \<Rightarrow> string \<Rightarrow> string \<Rightarrow> string \<Rightarrow> string) \<Rightarrow> string \<Rightarrow> string" where
  "basename_win splitpath makepath path =
     (let (drive, dir, fname, ext) = splitpath path in makepath [] [] fname ext)"

definition realpath_win :: "(string \<Rightarrow> ptr) \<Rightarrow> string \<Rightarrow> ptr \<Rightarrow> ptr" where
  "realpath_win fullpath path buf = (if buf \<noteq> NULL then NULL else fullpath path)"

definition usleep_win :: "nat \<Rightarrow> bool \<Rightarrow> u64 \<Rightarrow> int \<times> timer_call list" where
  "usleep_win timer set_ok usec = nanosleep_win timer set_ok (usec * 10)"

text \<open>Handles that a sequence of calls leaves open.\<close>

fun open_handles :: "timer_call list \<Rightarrow> nat set \<Rightarrow> nat set" where
  "open_handles [] hs = hs"
| "open_handles (Create_Timer h # cs) hs = open_handles cs (if h = 0 then hs else insert h hs)"
| "open_handles (Close_Handle h # cs) hs = open_handles cs (hs - {h})"
| "open_handles (_ # cs) hs = open_handles cs hs"

lemma sint_neg_of_nat:
  assumes "n < 2 ^ 63"
  shows "sint (- of_nat n :: u64) = - int n"
proof -
  have "sint (word_of_int (- int n) :: u64) = signed_take_bit 63 (- int n)"
    by (simp add: sint_sbintrunc' del: of_int_minus of_int_of_nat_eq)
  also have "\<dots> = - int n" using assms by (intro signed_take_bit_int_eq_self) auto
  finally show ?thesis by simp
qed

text \<open>
  Sleeping on Windows.  Whatever the system trace answer, no timer is left open; it waits exactly
  when it answers 1, and for up to 29 thousand years the due time is the one asked for, relative,
  in units of 100 nanoseconds.
\<close>

lemma usleep_win_correct:
  assumes "10 * usec < 2 ^ 63" "timer \<notin> hs"
  shows "case usleep_win timer set_ok (of_nat usec) of (ret, trace) \<Rightarrow>
    open_handles trace hs = hs \<and> (ret = 1 \<longleftrightarrow> timer \<noteq> 0 \<and> set_ok) \<and> (Wait_Timer timer \<in> set trace \<longleftrightarrow> ret = 1) \<and>
    (\<forall>h due. Set_Timer h due \<in> set trace \<longrightarrow> h = timer \<and> sint due = - (10 * int usec))"
proof -
  have "sint (- (of_nat usec * 10) :: u64) = - (10 * int usec)"
    using sint_neg_of_nat [of "10 * usec"] assms(1) by (simp add: mult.commute)
  then show ?thesis using assms(2) by (auto simp: usleep_win_def nanosleep_win_def)
qed

lemma usleep_win_correct_witness:
  "case usleep_win 7 True (of_nat 2500) of (ret, trace) \<Rightarrow> open_handles trace {} = {} \<and> ret = 1"
  using usleep_win_correct [of 2500 7 "{}" True] by (simp add: case_prod_beta)

section \<open>flb_socket.h and flb_pipe.h\<close>

text \<open>
  The error numbers are those of the platform.  On POSIX systems \<open>e\<close> is \<^verbatim>\<open>errno\<close>, on Windows the answer of
  \<^verbatim>\<open>WSAGetLastError\<close>.
\<close>

record error_numbers =
  en_EINTR :: int
  en_EINPROGRESS :: int
  en_EAGAIN :: int
  en_EWOULDBLOCK :: int
  en_WSAEWOULDBLOCK :: int

definition FLB_EINPROGRESS :: "error_numbers \<Rightarrow> bool \<Rightarrow> int \<Rightarrow> bool" where
  "FLB_EINPROGRESS en windows e =
     (if windows then e = en_WSAEWOULDBLOCK en else e = en_EINTR en \<or> e = en_EINPROGRESS en)"

definition FLB_WOULDBLOCK :: "error_numbers \<Rightarrow> bool \<Rightarrow> int \<Rightarrow> bool" where
  "FLB_WOULDBLOCK en windows e =
     (if windows then e = en_WSAEWOULDBLOCK en else e = en_EAGAIN en \<or> e = en_EWOULDBLOCK en)"

definition FLB_PIPE_WOULDBLOCK :: "error_numbers \<Rightarrow> bool \<Rightarrow> int \<Rightarrow> bool" where
  "FLB_PIPE_WOULDBLOCK en windows e =
     (if windows then e = en_WSAEWOULDBLOCK en else e = en_EAGAIN en \<or> e = en_EWOULDBLOCK en)"

definition FLB_INVALID_SOCKET :: int where "FLB_INVALID_SOCKET = - 1"

text \<open>Pipes are sockets on Windows: the calls \<open>write\<close>, \<open>send\<close>, \<open>read\<close> and \<open>recv\<close> of the systems are parameters.\<close>

record 's io_calls =
  io_write :: "int \<Rightarrow> u8 list \<Rightarrow> 's \<Rightarrow> int \<times> 's"
  io_send :: "int \<Rightarrow> u8 list \<Rightarrow> int \<Rightarrow> 's \<Rightarrow> int \<times> 's"
  io_read :: "int \<Rightarrow> nat \<Rightarrow> 's \<Rightarrow> u8 list option \<times> 's"
  io_recv :: "int \<Rightarrow> nat \<Rightarrow> int \<Rightarrow> 's \<Rightarrow> u8 list option \<times> 's"
  io_close :: "int \<Rightarrow> 's \<Rightarrow> int \<times> 's"
  io_closesocket :: "int \<Rightarrow> 's \<Rightarrow> int \<times> 's"

definition flb_pipe_w :: "'s io_calls \<Rightarrow> bool \<Rightarrow> int \<Rightarrow> u8 list \<Rightarrow> 's \<Rightarrow> int \<times> 's" where
  "flb_pipe_w io windows fd buf s = (if windows then io_send io fd buf 0 s else io_write io fd buf s)"

definition flb_pipe_r :: "'s io_calls \<Rightarrow> bool \<Rightarrow> int \<Rightarrow> nat \<Rightarrow> 's \<Rightarrow> u8 list option \<times> 's" where
  "flb_pipe_r io windows fd len s = (if windows then io_recv io fd len 0 s else io_read io fd len s)"

definition flb_socket_close :: "'s io_calls \<Rightarrow> bool \<Rightarrow> int \<Rightarrow> 's \<Rightarrow> int \<times> 's" where
  "flb_socket_close io windows fd s = (if windows then io_closesocket io fd s else io_close io fd s)"

section \<open>flb_stacktrace.h\<close>

record flb_stacktrace =
  sk_state :: ptr
  sk_error :: int
  sk_line :: int

text \<open>
  Formatted output: padding on the right.  What goes to the standard error output is appended to a
  list of texts.
\<close>

definition pad_right :: "nat \<Rightarrow> string \<Rightarrow> string" where
  "pad_right n s = s @ replicate (n - length s) (CHR '' '')"

text \<open>
  The callbacks get the address of a trace, \<open>None\<close> stands for an access through a null pointer or
  behind the end of a string.  \<open>source_dir\<close> is \<^verbatim>\<open>FLB_SOURCE_DIR\<close>, a string literal whose size counts the
  final 0, so that the slash behind the directory is skipped too; the program counter is cast to
  \<^verbatim>\<open>unsigned long\<close>, of \<open>long_bits\<close> bits.
\<close>

type_synonym trace_state = "(ptr \<rightharpoonup> flb_stacktrace) \<times> string list"

definition flb_stacktrace_error_callback :: "ptr \<Rightarrow> string \<Rightarrow> int \<Rightarrow> trace_state \<Rightarrow> trace_state option" where
  "flb_stacktrace_error_callback data msg errnum w =
     (let err = snd w @ [''ERROR: '' @ msg @ '' ('' @ show_int errnum @ '')'']
      in if data = NULL then None
         else do {
           ctx \<leftarrow> fst w data;
           Some ((fst w)(data \<mapsto> ctx\<lparr>sk_error := 1\<rparr>), err)
         })"

definition flb_stacktrace_print_callback ::
  "nat \<Rightarrow> string \<Rightarrow> ptr \<Rightarrow> u64 \<Rightarrow> string option \<Rightarrow> int \<Rightarrow> string option \<Rightarrow> trace_state \<Rightarrow> (int \<times> trace_state) option" where
  "flb_stacktrace_print_callback long_bits source_dir data pc filename lineno function_name w = do {
     p \<leftarrow> (if data = NULL then None else fst w data);
     file \<leftarrow> (case filename of
                None \<Rightarrow> Some ''???''
              | Some f \<Rightarrow> if Suc (length source_dir) \<le> length f then Some (drop (Suc (length source_dir)) f) else None);
     let out = ''#'' @ pad_right 2 (show_int (sk_line p)) @ '' 0x'' @ pad_right 17 (digits 16 (unat (take_bit long_bits pc))) @ '' in  '' @
         (case function_name of None \<Rightarrow> ''???'' | Some g \<Rightarrow> g) @ ''() at '' @ file @ '':'' @ show_int lineno @ [CHR 0x0A];
     Some (0, ((fst w)(data \<mapsto> p\<lparr>sk_line := sk_line p + 1\<rparr>), snd w @ [out]))
   }"

text \<open>
  What the library does: \<open>create\<close> answers the state and the error it reports through the callback, if
  any; a walk over the stack reports frames and errors in some order and stops when a callback does
  not answer 0.
\<close>

datatype trace_event = Trace_Frame u64 "string option" int "string option" | Trace_Error string int

definition flb_stacktrace_init ::
  "(string \<Rightarrow> ptr \<times> (string \<times> int) option) \<Rightarrow> string \<Rightarrow> ptr \<Rightarrow> trace_state \<Rightarrow> trace_state option" where
  "flb_stacktrace_init create prog st w =
     (let (state, report) = create prog;
          w = ((fst w)(st \<mapsto> \<lparr>sk_state = NULL, sk_error = 0, sk_line = 0\<rparr>), snd w)
      in do {
        w \<leftarrow> (case report of None \<Rightarrow> Some w | Some (msg, errnum) \<Rightarrow> flb_stacktrace_error_callback NULL msg errnum w);
        Some ((fst w)(st \<mapsto> \<lparr>sk_state = state, sk_error = 0, sk_line = 0\<rparr>), snd w)
      })"

fun trace_walk :: "nat \<Rightarrow> string \<Rightarrow> ptr \<Rightarrow> trace_event list \<Rightarrow> trace_state \<Rightarrow> trace_state option" where
  "trace_walk long_bits source_dir st [] w = Some w"
| "trace_walk long_bits source_dir st (Trace_Frame pc file lineno g # es) w = do {
     (r, w) \<leftarrow> flb_stacktrace_print_callback long_bits source_dir st pc file lineno g w;
     if r = 0 then trace_walk long_bits source_dir st es w else Some w
   }"
| "trace_walk long_bits source_dir st (Trace_Error msg errnum # es) w = do {
     w \<leftarrow> flb_stacktrace_error_callback st msg errnum w;
     trace_walk long_bits source_dir st es w
   }"

definition flb_stacktrace_print ::
  "nat \<Rightarrow> (ptr \<Rightarrow> int \<Rightarrow> trace_event list) \<Rightarrow> string \<Rightarrow> ptr \<Rightarrow> trace_state \<Rightarrow> trace_state option" where
  "flb_stacktrace_print long_bits backtrace_full source_dir st w = do {
     ctx \<leftarrow> fst w st;
     trace_walk long_bits source_dir st (backtrace_full (sk_state ctx) 3) w
   }"

text \<open>Events whose file is unknown or lies below the directory of the sources.\<close>

fun event_ok :: "string \<Rightarrow> trace_event \<Rightarrow> bool" where
  "event_ok source_dir (Trace_Frame pc (Some f) lineno g) \<longleftrightarrow> length source_dir < length f"
| "event_ok source_dir _ \<longleftrightarrow> True"

fun is_frame :: "trace_event \<Rightarrow> bool" where
  "is_frame (Trace_Frame pc f lineno g) = True"
| "is_frame (Trace_Error msg errnum) = False"

text \<open>
  The report of a walk, with the frames numbered from \<open>n\<close>: a line per frame with its number, its program counter, its function and
  its file below the directory of the sources, and a text per error.
\<close>

definition frame_text :: "nat \<Rightarrow> string \<Rightarrow> int \<Rightarrow> u64 \<Rightarrow> string option \<Rightarrow> int \<Rightarrow> string option \<Rightarrow> string" where
  "frame_text long_bits source_dir n pc f lineno g = ''#'' @ pad_right 2 (show_int n) @ '' 0x'' @
     pad_right 17 (digits 16 (unat pc mod 2 ^ long_bits)) @ '' in  '' @ (if g = None then ''???'' else the g) @ ''() at '' @
     (if f = None then ''???'' else drop (length source_dir + 1) (the f)) @ '':'' @ show_int lineno @ [CHR 0x0A]"

fun trace_report :: "nat \<Rightarrow> string \<Rightarrow> int \<Rightarrow> trace_event list \<Rightarrow> string list" where
  "trace_report long_bits source_dir n [] = []"
| "trace_report long_bits source_dir n (Trace_Frame pc f lineno g # es) =
     frame_text long_bits source_dir n pc f lineno g # trace_report long_bits source_dir (n + 1) es"
| "trace_report long_bits source_dir n (Trace_Error msg errnum # es) =
     (''ERROR: '' @ msg @ '' ('' @ show_int errnum @ '')'') # trace_report long_bits source_dir n es"

lemma print_callback_text:
  assumes "st \<noteq> NULL" "fst w st = Some ctx" "event_ok source_dir (Trace_Frame pc f lineno g)"
  shows "flb_stacktrace_print_callback long_bits source_dir st pc f lineno g w =
    Some (0, (fst w)(st \<mapsto> ctx\<lparr>sk_line := sk_line ctx + 1\<rparr>), snd w @ [frame_text long_bits source_dir (sk_line ctx) pc f lineno g])"
proof -
  have "unat (take_bit long_bits pc) = unat pc mod 2 ^ long_bits"
    by (simp only: unsigned_take_bit_eq) (simp add: take_bit_eq_mod)
  then show ?thesis using assms
    by (cases f) (auto simp: flb_stacktrace_print_callback_def frame_text_def Let_def split: option.split)
qed

lemma trace_walk_spec:
  assumes "st \<noteq> NULL" "fst w st = Some ctx"
  shows "if list_all (event_ok source_dir) es
    then \<exists>m. trace_walk long_bits source_dir st es w = Some (m, snd w @ trace_report long_bits source_dir (sk_line ctx) es) \<and>
      m st = Some (ctx\<lparr>sk_line := sk_line ctx + int (length (filter is_frame es)),
        sk_error := if list_all is_frame es then sk_error ctx else 1\<rparr>)
    else trace_walk long_bits source_dir st es w = None"
  using assms(2)
proof (induction es arbitrary: w ctx)
  case Nil
  then show ?case by (cases w) simp
next
  case (Cons e es)
  show ?case
  proof (cases e)
    case (Trace_Frame pc f lineno g)
    show ?thesis
    proof (cases "event_ok source_dir e")
      case True
      let ?l = "frame_text long_bits source_dir (sk_line ctx) pc f lineno g"
      have p: "flb_stacktrace_print_callback long_bits source_dir st pc f lineno g w =
          Some (0, (fst w)(st \<mapsto> ctx\<lparr>sk_line := sk_line ctx + 1\<rparr>), snd w @ [?l])"
        using print_callback_text [OF assms(1) Cons.prems True [unfolded Trace_Frame]] .
      show ?thesis using Cons.IH [of "((fst w)(st \<mapsto> ctx\<lparr>sk_line := sk_line ctx + 1\<rparr>), snd w @ [?l])"
          "ctx\<lparr>sk_line := sk_line ctx + 1\<rparr>"] p Trace_Frame True
        by (auto simp: algebra_simps split: if_splits)
    next
      case False
      then have "flb_stacktrace_print_callback long_bits source_dir st pc f lineno g w = None"
        using Cons.prems assms(1) Trace_Frame
        by (cases f) (auto simp: flb_stacktrace_print_callback_def Let_def)
      then show ?thesis using Trace_Frame False by simp
    qed
  next
    case (Trace_Error msg errnum)
    let ?l = "''ERROR: '' @ msg @ '' ('' @ show_int errnum @ '')''"
    have p: "flb_stacktrace_error_callback st msg errnum w =
        Some ((fst w)(st \<mapsto> ctx\<lparr>sk_error := 1\<rparr>), snd w @ [?l])"
      using Cons.prems assms(1) Trace_Error by (auto simp: flb_stacktrace_error_callback_def Let_def)
    show ?thesis using Cons.IH [of "((fst w)(st \<mapsto> ctx\<lparr>sk_error := 1\<rparr>), snd w @ [?l])" "ctx\<lparr>sk_error := 1\<rparr>"] p Trace_Error
      by (auto split: if_splits)
  qed
qed

text \<open>
  C30: Back traces.  An error that the library reports while the trace is set up goes through a null
  pointer.  Printing appends exactly the report of the walk: a line per frame, numbered consecutively from
  \<^verbatim>\<open>line\<close>, and a text per error; afterwards \<^verbatim>\<open>line\<close> counts the frames and \<^verbatim>\<open>error\<close> remembers an error.  When the
  name of a file is not longer than the directory of the sources, it reads behind the end of the name instead.
\<close>

theorem stacktrace_report:
  assumes "st \<noteq> NULL" "fst w st = Some ctx" "es = backtrace_full (sk_state ctx) 3"
  shows "(snd (create prog) \<noteq> None \<longrightarrow> flb_stacktrace_init create prog st w = None) \<and>
    (if list_all (event_ok source_dir) es
     then \<exists>m. flb_stacktrace_print long_bits backtrace_full source_dir st w =
         Some (m, snd w @ trace_report long_bits source_dir (sk_line ctx) es) \<and>
       m st = Some (ctx\<lparr>sk_line := sk_line ctx + int (length (filter is_frame es)),
         sk_error := if list_all is_frame es then sk_error ctx else 1\<rparr>)
     else flb_stacktrace_print long_bits backtrace_full source_dir st w = None)"
proof -
  have "flb_stacktrace_print long_bits backtrace_full source_dir st w = trace_walk long_bits source_dir st es w"
    using assms by (simp add: flb_stacktrace_print_def)
  moreover have "flb_stacktrace_init create prog st w = None" if "snd (create prog) \<noteq> None"
    using that by (auto simp: flb_stacktrace_init_def flb_stacktrace_error_callback_def Let_def case_prod_beta)
  ultimately show ?thesis using trace_walk_spec [of st w ctx source_dir es long_bits, OF assms(1,2)] by presburger
qed

theorem stacktrace_report_witness:
  "flb_stacktrace_init (\<lambda>_. (0, Some (''no debug info'', 2))) ''fluent-bit'' 64 ([64 \<mapsto> \<lparr>sk_state = 8, sk_error = 0, sk_line = 0\<rparr>], []) = None \<and>
   (\<exists>m. flb_stacktrace_print 64 (\<lambda>_ _. [Trace_Frame 4096 (Some ''/src/a.c'') 7 None, Trace_Frame 26 None 0 (Some ''main'')]) ''/src'' 64
     ([64 \<mapsto> \<lparr>sk_state = 8, sk_error = 0, sk_line = 0\<rparr>], []) =
     Some (m, [''#0  0x1000              in  ???() at a.c:7'' @ [CHR 0x0A], ''#1  0x1a                in  main() at ???:0'' @ [CHR 0x0A]]))"
proof -
  let ?w = "([64 \<mapsto> \<lparr>sk_state = 8, sk_error = 0, sk_line = 0\<rparr>], []) :: trace_state"
  let ?es = "[Trace_Frame 4096 (Some ''/src/a.c'') 7 None, Trace_Frame 26 None 0 (Some ''main'')]"
  have blanks: "replicate 13 CHR '' '' = ''             ''" "replicate 15 CHR '' '' = ''               ''"
    by (simp_all add: numeral_eq_Suc)
  have "trace_report 64 ''/src'' 0 ?es =
      [''#0  0x1000              in  ???() at a.c:7'' @ [CHR 0x0A], ''#1  0x1a                in  main() at ???:0'' @ [CHR 0x0A]]"
    by (simp add: frame_text_def pad_right_def show_int_def digits.simps blanks)
  moreover have "fst ?w 64 = Some \<lparr>sk_state = 8, sk_error = 0, sk_line = 0\<rparr>" by simp
  note stacktrace_report [of 64 ?w, OF _ this refl, of "\<lambda>_. (0, Some (''no debug info'', 2))" "''fluent-bit''" "''/src''"
      "\<lambda>_ _. ?es" 64]
  ultimately show ?thesis by simp blast
qed

end
