(* ===== verification/Flb_Services.thy ===== *)
theory Flb_Services
  imports Flb_Flush Flb_Pipeline Flb_Text
begin

text \<open>
  Constants, enumerations and macros of the services around the engine: configuration formats, AWS and
  HTTP clients, compression, cryptography, error codes, metrics, decoders, plugins and proxies, thread
  pools and TLS, the readers of monkey, and the macros by which plugins return.  The functions of
  these headers are only declared.
\<close>

section \<open>Constants\<close>

text \<open>\<^verbatim>\<open>fluent-bit/config_format/flb_cf.h\<close>\<close>

definition FLB_CF_ERROR_SERVICE_EXISTS :: string where "FLB_CF_ERROR_SERVICE_EXISTS = ''SERVICE definition already exists''"
definition FLB_CF_ERROR_META_CHAR :: string where "FLB_CF_ERROR_META_CHAR = ''invalid first meta character: '' @ [CHR 0x27] @ ''@'' @ [CHR 0x27] @ '' expected''"
definition FLB_CF_ERROR_KV_INVALID_KEY :: string where "FLB_CF_ERROR_KV_INVALID_KEY = ''invalid key content''"
definition FLB_CF_ERROR_KV_INVALID_VAL :: string where "FLB_CF_ERROR_KV_INVALID_VAL = ''invalid value content''"

text \<open>\<^verbatim>\<open>fluent-bit/flb_config_format.h\<close>\<close>

definition FLB_DEFAULT_CF_BUF_SIZE :: int where "FLB_DEFAULT_CF_BUF_SIZE = 4096"

text \<open>\<^verbatim>\<open>fluent-bit/flb_avro.h\<close>\<close>

definition MEMORY_POOL_SUCCESS :: int where "MEMORY_POOL_SUCCESS = 1"
definition MEMORY_POOL_ERROR :: int where "MEMORY_POOL_ERROR = 0"
definition MEMORY_POOL_MINIMUM_SIZE :: int where "MEMORY_POOL_MINIMUM_SIZE = 8"

text \<open>\<^verbatim>\<open>fluent-bit/flb_aws_credentials.h\<close>\<close>

definition FLB_AWS_REFRESH_WINDOW :: int where "FLB_AWS_REFRESH_WINDOW = 60"
definition FLB_AWS_CREDENTIAL_NET_TIMEOUT :: int where "FLB_AWS_CREDENTIAL_NET_TIMEOUT = 5"

text \<open>\<^verbatim>\<open>fluent-bit/flb_aws_util.h\<close>\<close>

definition FLB_AWS_CREDENTIAL_REFRESH_LIMIT :: int where "FLB_AWS_CREDENTIAL_REFRESH_LIMIT = 60"

text \<open>\<^verbatim>\<open>fluent-bit/flb_signv4.h\<close>\<close>

definition S3_MODE_NONE :: int where "S3_MODE_NONE = 0"
definition S3_MODE_SIGNED_PAYLOAD :: int where "S3_MODE_SIGNED_PAYLOAD = 1"
definition S3_MODE_UNSIGNED_PAYLOAD :: int where "S3_MODE_UNSIGNED_PAYLOAD = 2"

text \<open>\<^verbatim>\<open>fluent-bit/flb_base64.h\<close>\<close>

definition FLB_BASE64_ERR_BUFFER_TOO_SMALL :: int where "FLB_BASE64_ERR_BUFFER_TOO_SMALL = - 0x2A"
definition FLB_BASE64_ERR_INVALID_CHARACTER :: int where "FLB_BASE64_ERR_INVALID_CHARACTER = - 0x2C"

text \<open>\<^verbatim>\<open>fluent-bit/flb_chunk_trace.h\<close>\<close>

definition FLB_CHUNK_TRACE_TYPE_INPUT :: int where "FLB_CHUNK_TRACE_TYPE_INPUT = 1"
definition FLB_CHUNK_TRACE_TYPE_FILTER :: int where "FLB_CHUNK_TRACE_TYPE_FILTER = 2"
definition FLB_CHUNK_TRACE_TYPE_PRE_OUTPUT :: int where "FLB_CHUNK_TRACE_TYPE_PRE_OUTPUT = 3"
definition FLB_CHUNK_TRACE_TYPE_OUTPUT :: int where "FLB_CHUNK_TRACE_TYPE_OUTPUT = 4"
definition FLB_CHUNK_TRACE_LIMIT_TIME :: int where "FLB_CHUNK_TRACE_LIMIT_TIME = 1"
definition FLB_CHUNK_TRACE_LIMIT_COUNT :: int where "FLB_CHUNK_TRACE_LIMIT_COUNT = 2"

text \<open>\<^verbatim>\<open>fluent-bit/flb_compression.h\<close>\<close>

definition FLB_COMPRESSION_ALGORITHM_NONE :: int where "FLB_COMPRESSION_ALGORITHM_NONE = 0"
definition FLB_COMPRESSION_ALGORITHM_GZIP :: int where "FLB_COMPRESSION_ALGORITHM_GZIP = 1"
definition FLB_DECOMPRESSOR_STATE_FAILED :: int where "FLB_DECOMPRESSOR_STATE_FAILED = - 1"
definition FLB_DECOMPRESSOR_STATE_EXPECTING_HEADER :: int where "FLB_DECOMPRESSOR_STATE_EXPECTING_HEADER = 0"
definition FLB_DECOMPRESSOR_STATE_EXPECTING_OPTIONAL_HEADERS :: int where "FLB_DECOMPRESSOR_STATE_EXPECTING_OPTIONAL_HEADERS = 1"
definition FLB_DECOMPRESSOR_STATE_EXPECTING_BODY :: int where "FLB_DECOMPRESSOR_STATE_EXPECTING_BODY = 2"
definition FLB_DECOMPRESSOR_STATE_EXPECTING_FOOTER :: int where "FLB_DECOMPRESSOR_STATE_EXPECTING_FOOTER = 3"
definition FLB_DECOMPRESSOR_FAILURE :: int where "FLB_DECOMPRESSOR_FAILURE = - 1"
definition FLB_DECOMPRESSOR_CORRUPTED_HEADER :: int where "FLB_DECOMPRESSOR_CORRUPTED_HEADER = - 2"
definition FLB_DECOMPRESSOR_INVALID_STATE :: int where "FLB_DECOMPRESSOR_INVALID_STATE = - 3"
definition FLB_DECOMPRESSOR_SUCCESS :: int where "FLB_DECOMPRESSOR_SUCCESS = 0"
definition FLB_DECOMPRESSOR_INSUFFICIENT_DATA :: int where "FLB_DECOMPRESSOR_INSUFFICIENT_DATA = 0"
definition FLB_DECOMPRESSION_BUFFER_SIZE :: int where "FLB_DECOMPRESSION_BUFFER_SIZE = 1024 * 1000"

text \<open>\<^verbatim>\<open>fluent-bit/flb_snappy.h\<close>\<close>

definition FLB_SNAPPY_STREAM_IDENTIFIER_STRING :: string where "FLB_SNAPPY_STREAM_IDENTIFIER_STRING = ''sNaPpY''"
definition FLB_SNAPPY_FRAME_SIZE_LIMIT :: int where "FLB_SNAPPY_FRAME_SIZE_LIMIT = 65540"
definition FLB_SNAPPY_FRAME_TYPE_STREAM_IDENTIFIER :: int where "FLB_SNAPPY_FRAME_TYPE_STREAM_IDENTIFIER = 0xFF"
definition FLB_SNAPPY_FRAME_TYPE_COMPRESSED_DATA :: int where "FLB_SNAPPY_FRAME_TYPE_COMPRESSED_DATA = 0x0"
definition FLB_SNAPPY_FRAME_TYPE_UNCOMPRESSED_DATA :: int where "FLB_SNAPPY_FRAME_TYPE_UNCOMPRESSED_DATA = 0x1"
definition FLB_SNAPPY_FRAME_TYPE_RESERVED_UNSKIPPABLE_BASE :: int where "FLB_SNAPPY_FRAME_TYPE_RESERVED_UNSKIPPABLE_BASE = 0x2"
definition FLB_SNAPPY_FRAME_TYPE_RESERVED_UNSKIPPABLE_TOP :: int where "FLB_SNAPPY_FRAME_TYPE_RESERVED_UNSKIPPABLE_TOP = 0x7F"
definition FLB_SNAPPY_FRAME_TYPE_RESERVED_SKIPPABLE_BASE :: int where "FLB_SNAPPY_FRAME_TYPE_RESERVED_SKIPPABLE_BASE = 0x80"
definition FLB_SNAPPY_FRAME_TYPE_RESERVED_SKIPPABLE_TOP :: int where "FLB_SNAPPY_FRAME_TYPE_RESERVED_SKIPPABLE_TOP = 0xFD"
definition FLB_SNAPPY_FRAME_TYPE_PADDING :: int where "FLB_SNAPPY_FRAME_TYPE_PADDING = 0xFE"

text \<open>\<^verbatim>\<open>fluent-bit/flb_crypto_constants.h\<close>\<close>

definition FLB_CRYPTO_SUCCESS :: int where "FLB_CRYPTO_SUCCESS = 0"
definition FLB_CRYPTO_BACKEND_ERROR :: int where "FLB_CRYPTO_BACKEND_ERROR = 1"
definition FLB_CRYPTO_INVALID_STATE :: int where "FLB_CRYPTO_INVALID_STATE = 2"
definition FLB_CRYPTO_INVALID_ARGUMENT :: int where "FLB_CRYPTO_INVALID_ARGUMENT = 3"
definition FLB_CRYPTO_ALLOCATION_ERROR :: int where "FLB_CRYPTO_ALLOCATION_ERROR = 4"
definition FLB_CRYPTO_PUBLIC_KEY :: int where "FLB_CRYPTO_PUBLIC_KEY = 1"
definition FLB_CRYPTO_PRIVATE_KEY :: int where "FLB_CRYPTO_PRIVATE_KEY = 2"
definition FLB_CRYPTO_PADDING_NONE :: int where "FLB_CRYPTO_PADDING_NONE = 0"
definition FLB_CRYPTO_PADDING_PKCS1 :: int where "FLB_CRYPTO_PADDING_PKCS1 = 1"
definition FLB_CRYPTO_PADDING_PKCS1_OEAP :: int where "FLB_CRYPTO_PADDING_PKCS1_OEAP = 2"
definition FLB_CRYPTO_PADDING_PKCS1_X931 :: int where "FLB_CRYPTO_PADDING_PKCS1_X931 = 3"
definition FLB_CRYPTO_PADDING_PKCS1_PSS :: int where "FLB_CRYPTO_PADDING_PKCS1_PSS = 4"
definition FLB_HASH_NONE :: int where "FLB_HASH_NONE = 0"
definition FLB_HASH_MD5 :: int where "FLB_HASH_MD5 = 1"
definition FLB_HASH_SHA256 :: int where "FLB_HASH_SHA256 = 2"
definition FLB_HASH_SHA512 :: int where "FLB_HASH_SHA512 = 3"
definition FLB_CRYPTO_OPERATION_NONE :: int where "FLB_CRYPTO_OPERATION_NONE = 0"
definition FLB_CRYPTO_OPERATION_SIGN :: int where "FLB_CRYPTO_OPERATION_SIGN = 1"
definition FLB_CRYPTO_OPERATION_ENCRYPT :: int where "FLB_CRYPTO_OPERATION_ENCRYPT = 2"
definition FLB_CRYPTO_OPERATION_DECRYPT :: int where "FLB_CRYPTO_OPERATION_DECRYPT = 3"

text \<open>\<^verbatim>\<open>fluent-bit/flb_engine.h\<close>\<close>

definition FLB_ENGINE_OUTPUT_EVENT_BATCH_SIZE :: int where "FLB_ENGINE_OUTPUT_EVENT_BATCH_SIZE = 1"

text \<open>\<^verbatim>\<open>fluent-bit/flb_error.h\<close>\<close>

definition FLB_ERR_CFG_FILE :: int where "FLB_ERR_CFG_FILE = 10"
definition FLB_ERR_CFG_FILE_FORMAT :: int where "FLB_ERR_CFG_FILE_FORMAT = 11"
definition FLB_ERR_CFG_FILE_STOP :: int where "FLB_ERR_CFG_FILE_STOP = 12"
definition FLB_ERR_CFG_FLUSH :: int where "FLB_ERR_CFG_FLUSH = 20"
definition FLB_ERR_CFG_FLUSH_CREATE :: int where "FLB_ERR_CFG_FLUSH_CREATE = 21"
definition FLB_ERR_CFG_FLUSH_REGISTER :: int where "FLB_ERR_CFG_FLUSH_REGISTER = 22"
definition FLB_ERR_CUSTOM_INVALID :: int where "FLB_ERR_CUSTOM_INVALID = 49"
definition FLB_ERR_INPUT_INVALID :: int where "FLB_ERR_INPUT_INVALID = 50"
definition FLB_ERR_INPUT_UNDEF :: int where "FLB_ERR_INPUT_UNDEF = 51"
definition FLB_ERR_INPUT_UNSUP :: int where "FLB_ERR_INPUT_UNSUP = 52"
definition FLB_ERR_OUTPUT_UNDEF :: int where "FLB_ERR_OUTPUT_UNDEF = 100"
definition FLB_ERR_OUTPUT_INVALID :: int where "FLB_ERR_OUTPUT_INVALID = 101"
definition FLB_ERR_OUTPUT_UNIQ :: int where "FLB_ERR_OUTPUT_UNIQ = 102"
definition FLB_ERR_FILTER_INVALID :: int where "FLB_ERR_FILTER_INVALID = 201"
definition FLB_ERR_CFG_PARSER_FILE :: int where "FLB_ERR_CFG_PARSER_FILE = 300"
definition FLB_ERR_CFG_PLUGIN_FILE :: int where "FLB_ERR_CFG_PLUGIN_FILE = 400"
definition FLB_ERR_JSON_INVAL :: int where "FLB_ERR_JSON_INVAL = - 501"
definition FLB_ERR_JSON_PART :: int where "FLB_ERR_JSON_PART = - 502"
definition FLB_ERR_CORO_STACK_SIZE :: int where "FLB_ERR_CORO_STACK_SIZE = - 600"
definition FLB_ERR_RELOADING_IN_PROGRESS :: int where "FLB_ERR_RELOADING_IN_PROGRESS = 700"

text \<open>\<^verbatim>\<open>fluent-bit/flb_fstore.h\<close>\<close>

definition FLB_FSTORE_LOCK :: int where "FLB_FSTORE_LOCK = 222"
definition FLB_FSTORE_UNLOCK :: int where "FLB_FSTORE_UNLOCK = 333"

text \<open>\<^verbatim>\<open>fluent-bit/flb_help.h\<close>\<close>

definition FLB_HELP_SCHEMA_VERSION :: string where "FLB_HELP_SCHEMA_VERSION = ''1''"
definition FLB_HELP_PLUGIN_CUSTOM :: int where "FLB_HELP_PLUGIN_CUSTOM = 0"
definition FLB_HELP_PLUGIN_INPUT :: int where "FLB_HELP_PLUGIN_INPUT = 1"
definition FLB_HELP_PLUGIN_OUTPUT :: int where "FLB_HELP_PLUGIN_OUTPUT = 2"
definition FLB_HELP_PLUGIN_FILTER :: int where "FLB_HELP_PLUGIN_FILTER = 3"

text \<open>\<^verbatim>\<open>fluent-bit/flb_http_client.h\<close>\<close>

definition FLB_HTTP_BUF_SIZE :: int where "FLB_HTTP_BUF_SIZE = 2048"
definition FLB_HTTP_DATA_SIZE_MAX :: int where "FLB_HTTP_DATA_SIZE_MAX = 4096"
definition FLB_HTTP_DATA_CHUNK :: int where "FLB_HTTP_DATA_CHUNK = 32768"
definition FLB_HTTP_GET :: int where "FLB_HTTP_GET = 0"
definition FLB_HTTP_POST :: int where "FLB_HTTP_POST = 1"
definition FLB_HTTP_PUT :: int where "FLB_HTTP_PUT = 2"
definition FLB_HTTP_HEAD :: int where "FLB_HTTP_HEAD = 3"
definition FLB_HTTP_CONNECT :: int where "FLB_HTTP_CONNECT = 4"
definition FLB_HTTP_PATCH :: int where "FLB_HTTP_PATCH = 5"
definition FLB_HTTP_10 :: int where "FLB_HTTP_10 = 1"
definition FLB_HTTP_11 :: int where "FLB_HTTP_11 = 2"
definition FLB_HTTP_KA :: int where "FLB_HTTP_KA = 16"
definition FLB_HTTP_PROXY_NONE :: int where "FLB_HTTP_PROXY_NONE = 0"
definition FLB_HTTP_PROXY_HTTP :: int where "FLB_HTTP_PROXY_HTTP = 1"
definition FLB_HTTP_PROXY_HTTPS :: int where "FLB_HTTP_PROXY_HTTPS = 2"
definition FLB_HTTP_ERROR :: int where "FLB_HTTP_ERROR = - 1"
definition FLB_HTTP_MORE :: int where "FLB_HTTP_MORE = 0"
definition FLB_HTTP_OK :: int where "FLB_HTTP_OK = 1"
definition FLB_HTTP_NOT_FOUND :: int where "FLB_HTTP_NOT_FOUND = 2"
definition FLB_HTTP_HEADER_AUTH :: string where "FLB_HTTP_HEADER_AUTH = ''Authorization''"
definition FLB_HTTP_HEADER_PROXY_AUTH :: string where "FLB_HTTP_HEADER_PROXY_AUTH = ''Proxy-Authorization''"
definition FLB_HTTP_HEADER_CONTENT_TYPE :: string where "FLB_HTTP_HEADER_CONTENT_TYPE = ''Content-Type''"
definition FLB_HTTP_HEADER_CONTENT_ENCODING :: string where "FLB_HTTP_HEADER_CONTENT_ENCODING = ''Content-Encoding''"
definition FLB_HTTP_HEADER_CONNECTION :: string where "FLB_HTTP_HEADER_CONNECTION = ''Connection''"
definition FLB_HTTP_HEADER_KA :: string where "FLB_HTTP_HEADER_KA = ''keep-alive''"

text \<open>\<^verbatim>\<open>fluent-bit/flb_input_thread.h\<close>\<close>

definition FLB_INPUT_THREAD_TO_PARENT :: u32 where "FLB_INPUT_THREAD_TO_PARENT = 1"
definition FLB_INPUT_THREAD_TO_THREAD :: u32 where "FLB_INPUT_THREAD_TO_THREAD = 2"
definition FLB_INPUT_THREAD_PAUSE :: u32 where "FLB_INPUT_THREAD_PAUSE = 1"
definition FLB_INPUT_THREAD_RESUME :: u32 where "FLB_INPUT_THREAD_RESUME = 2"
definition FLB_INPUT_THREAD_EXIT :: u32 where "FLB_INPUT_THREAD_EXIT = 3"
definition FLB_INPUT_THREAD_START_COLLECTORS :: u32 where "FLB_INPUT_THREAD_START_COLLECTORS = 4"
definition FLB_INPUT_THREAD_OK :: u32 where "FLB_INPUT_THREAD_OK = 5"
definition FLB_INPUT_THREAD_ERROR :: u32 where "FLB_INPUT_THREAD_ERROR = 6"
definition FLB_INPUT_THREAD_NOT_READY :: u32 where "FLB_INPUT_THREAD_NOT_READY = 7"

text \<open>\<^verbatim>\<open>fluent-bit/flb_intermediate_metric.h\<close>\<close>

definition GAUGE :: int where "GAUGE = 1"
definition COUNTER :: int where "COUNTER = 2"
definition PERCENT :: string where "PERCENT = ''Percent''"
definition BYTES :: string where "BYTES = ''Bytes''"

text \<open>\<^verbatim>\<open>fluent-bit/flb_kafka.h\<close>\<close>

definition FLB_KAFKA_BROKERS :: string where "FLB_KAFKA_BROKERS = ''127.0.0.1''"
definition FLB_KAFKA_TOPIC :: string where "FLB_KAFKA_TOPIC = ''fluent-bit''"

text \<open>\<^verbatim>\<open>fluent-bit/flb_lib.h\<close>\<close>

definition FLB_LIB_ERROR :: int where "FLB_LIB_ERROR = - 1"
definition FLB_LIB_NONE :: int where "FLB_LIB_NONE = 0"
definition FLB_LIB_OK :: int where "FLB_LIB_OK = 1"
definition FLB_LIB_NO_CONFIG_MAP :: int where "FLB_LIB_NO_CONFIG_MAP = 2"

text \<open>\<^verbatim>\<open>fluent-bit/flb_metrics.h\<close>\<close>

definition FLB_METRIC_N_RECORDS :: int where "FLB_METRIC_N_RECORDS = 0"
definition FLB_METRIC_N_BYTES :: int where "FLB_METRIC_N_BYTES = 1"
definition FLB_METRIC_N_DROPPED :: int where "FLB_METRIC_N_DROPPED = 2"
definition FLB_METRIC_N_ADDED :: int where "FLB_METRIC_N_ADDED = 3"
definition FLB_METRIC_OUT_OK_RECORDS :: int where "FLB_METRIC_OUT_OK_RECORDS = 10"
definition FLB_METRIC_OUT_OK_BYTES :: int where "FLB_METRIC_OUT_OK_BYTES = 11"
definition FLB_METRIC_OUT_ERROR :: int where "FLB_METRIC_OUT_ERROR = 12"
definition FLB_METRIC_OUT_RETRY :: int where "FLB_METRIC_OUT_RETRY = 13"
definition FLB_METRIC_OUT_RETRY_FAILED :: int where "FLB_METRIC_OUT_RETRY_FAILED = 14"
definition FLB_METRIC_OUT_DROPPED_RECORDS :: int where "FLB_METRIC_OUT_DROPPED_RECORDS = 15"
definition FLB_METRIC_OUT_RETRIED_RECORDS :: int where "FLB_METRIC_OUT_RETRIED_RECORDS = 16"

text \<open>\<^verbatim>\<open>fluent-bit/flb_oauth2.h\<close>\<close>

definition FLB_OAUTH2_PORT :: string where "FLB_OAUTH2_PORT = ''443''"
definition FLB_OAUTH2_HTTP_ENCODING :: string where "FLB_OAUTH2_HTTP_ENCODING = ''application/x-www-form-urlencoded''"

text \<open>\<^verbatim>\<open>fluent-bit/flb_pack.h\<close>\<close>

definition FLB_PACK_JSON_DATE_DOUBLE :: int where "FLB_PACK_JSON_DATE_DOUBLE = 0"
definition FLB_PACK_JSON_DATE_ISO8601 :: int where "FLB_PACK_JSON_DATE_ISO8601 = 1"
definition FLB_PACK_JSON_DATE_EPOCH :: int where "FLB_PACK_JSON_DATE_EPOCH = 2"
definition FLB_PACK_JSON_DATE_JAVA_SQL_TIMESTAMP :: int where "FLB_PACK_JSON_DATE_JAVA_SQL_TIMESTAMP = 3"
definition FLB_PACK_JSON_DATE_EPOCH_MS :: int where "FLB_PACK_JSON_DATE_EPOCH_MS = 4"
definition FLB_PACK_JSON_DATE_ISO8601_FMT :: string where "FLB_PACK_JSON_DATE_ISO8601_FMT = ''%Y-%m-%dT%H:%M:%S''"
definition FLB_PACK_JSON_DATE_JAVA_SQL_TIMESTAMP_FMT :: string where "FLB_PACK_JSON_DATE_JAVA_SQL_TIMESTAMP_FMT = ''%Y-%m-%d %H:%M:%S''"
definition FLB_PACK_JSON_FORMAT_NONE :: int where "FLB_PACK_JSON_FORMAT_NONE = 0"
definition FLB_PACK_JSON_FORMAT_JSON :: int where "FLB_PACK_JSON_FORMAT_JSON = 1"
definition FLB_PACK_JSON_FORMAT_STREAM :: int where "FLB_PACK_JSON_FORMAT_STREAM = 2"
definition FLB_PACK_JSON_FORMAT_LINES :: int where "FLB_PACK_JSON_FORMAT_LINES = 3"

text \<open>\<^verbatim>\<open>fluent-bit/flb_parser_decoder.h\<close>\<close>

definition FLB_PARSER_DEC_DEFAULT :: int where "FLB_PARSER_DEC_DEFAULT = 0"
definition FLB_PARSER_DEC_AS :: int where "FLB_PARSER_DEC_AS = 1"
definition FLB_PARSER_DEC_JSON :: int where "FLB_PARSER_DEC_JSON = 0"
definition FLB_PARSER_DEC_ESCAPED :: int where "FLB_PARSER_DEC_ESCAPED = 1"
definition FLB_PARSER_DEC_ESCAPED_UTF8 :: int where "FLB_PARSER_DEC_ESCAPED_UTF8 = 2"
definition FLB_PARSER_DEC_MYSQL_QUOTED :: int where "FLB_PARSER_DEC_MYSQL_QUOTED = 3"
definition FLB_PARSER_ACT_NONE :: int where "FLB_PARSER_ACT_NONE = 0"
definition FLB_PARSER_ACT_TRY_NEXT :: int where "FLB_PARSER_ACT_TRY_NEXT = 1"
definition FLB_PARSER_ACT_DO_NEXT :: int where "FLB_PARSER_ACT_DO_NEXT = 2"
definition FLB_PARSER_DEC_BUF_SIZE :: int where "FLB_PARSER_DEC_BUF_SIZE = 1024 * 8"

text \<open>\<^verbatim>\<open>fluent-bit/flb_plugin.h\<close>\<close>

definition FLB_PLUGIN_INPUT :: int where "FLB_PLUGIN_INPUT = 1"
definition FLB_PLUGIN_FILTER :: int where "FLB_PLUGIN_FILTER = 2"
definition FLB_PLUGIN_OUTPUT :: int where "FLB_PLUGIN_OUTPUT = 3"
definition FLB_PLUGIN_PROCESSOR :: int where "FLB_PLUGIN_PROCESSOR = 4"

text \<open>\<^verbatim>\<open>fluent-bit/flb_plugin_proxy.h\<close>\<close>

definition FLB_PROXY_INPUT_PLUGIN :: int where "FLB_PROXY_INPUT_PLUGIN = 1"
definition FLB_PROXY_OUTPUT_PLUGIN :: int where "FLB_PROXY_OUTPUT_PLUGIN = 2"
definition FLB_PROXY_GOLANG :: int where "FLB_PROXY_GOLANG = 11"

text \<open>\<^verbatim>\<open>fluent-bit/flb_reload.h\<close>\<close>

definition FLB_RELOAD_IDLE :: int where "FLB_RELOAD_IDLE = 0"
definition FLB_RELOAD_IN_PROGRESS :: int where "FLB_RELOAD_IN_PROGRESS = 1"

text \<open>\<^verbatim>\<open>fluent-bit/flb_thread_pool.h\<close>\<close>

definition FLB_THREAD_POOL_ERROR :: int where "FLB_THREAD_POOL_ERROR = - 1"
definition FLB_THREAD_POOL_NONE :: int where "FLB_THREAD_POOL_NONE = 0"
definition FLB_THREAD_POOL_RUNNING :: int where "FLB_THREAD_POOL_RUNNING = 1"
definition FLB_THREAD_POOL_STOPPED :: int where "FLB_THREAD_POOL_STOPPED = 2"

text \<open>\<^verbatim>\<open>fluent-bit/tls/flb_tls.h\<close>\<close>

definition FLB_TLS_CLIENT :: string where "FLB_TLS_CLIENT = ''Fluent Bit''"
definition FLB_TLS_WANT_READ :: int where "FLB_TLS_WANT_READ = - 0x7e4"
definition FLB_TLS_WANT_WRITE :: int where "FLB_TLS_WANT_WRITE = - 0x7e6"
definition FLB_TLS_CA_ROOT :: int where "FLB_TLS_CA_ROOT = 1"
definition FLB_TLS_CERT :: int where "FLB_TLS_CERT = 2"
definition FLB_TLS_PRIV_KEY :: int where "FLB_TLS_PRIV_KEY = 4"
definition FLB_TLS_UNKNOWN_CONNECTION :: int where "FLB_TLS_UNKNOWN_CONNECTION = 0"
definition FLB_TLS_UPSTREAM_CONNECTION :: int where "FLB_TLS_UPSTREAM_CONNECTION = 1"
definition FLB_TLS_DOWNSTREAM_CONNECTION :: int where "FLB_TLS_DOWNSTREAM_CONNECTION = 2"
definition FLB_TLS_CLIENT_MODE :: int where "FLB_TLS_CLIENT_MODE = 0"
definition FLB_TLS_SERVER_MODE :: int where "FLB_TLS_SERVER_MODE = 1"

text \<open>\<^verbatim>\<open>fluent-bit/flb_network.h\<close>\<close>

definition TCP_FASTOPEN :: int where "TCP_FASTOPEN = 23"

text \<open>\<^verbatim>\<open>monkey/mk_core/mk_file.h\<close>\<close>

definition MK_FILE_EXISTS :: int where "MK_FILE_EXISTS = 1"
definition MK_FILE_READ :: int where "MK_FILE_READ = 2"
definition MK_FILE_EXEC :: int where "MK_FILE_EXEC = 4"

text \<open>\<^verbatim>\<open>monkey/mk_core/mk_limits.h\<close>\<close>

definition MK_HOSTNAME_LEN :: int where "MK_HOSTNAME_LEN = 64"
definition MK_SOMAXCONN :: int where "MK_SOMAXCONN = 128"
definition MK_PATH_BASE :: int where "MK_PATH_BASE = 128"

text \<open>\<^verbatim>\<open>monkey/mk_core/mk_rconf.h\<close>\<close>

definition MK_RCONF_ON :: string where "MK_RCONF_ON = ''on''"
definition MK_RCONF_OFF :: string where "MK_RCONF_OFF = ''off''"
definition MK_RCONF_STR :: int where "MK_RCONF_STR = 0"
definition MK_RCONF_NUM :: int where "MK_RCONF_NUM = 1"
definition MK_RCONF_BOOL :: int where "MK_RCONF_BOOL = 2"
definition MK_RCONF_LIST :: int where "MK_RCONF_LIST = 3"
definition MK_RCONF_KV_SIZE :: int where "MK_RCONF_KV_SIZE = 4096"

text \<open>\<^verbatim>\<open>monkey/mk_core/mk_string.h\<close>\<close>

definition MK_STR_SENSITIVE :: int where "MK_STR_SENSITIVE = 0"
definition MK_STR_INSENSITIVE :: int where "MK_STR_INSENSITIVE = 1"

text \<open>\<^verbatim>\<open>monkey/mk_core/mk_thread.h\<close>\<close>

definition MK_THREAD_DEAD :: int where "MK_THREAD_DEAD = 0"
definition MK_THREAD_READY :: int where "MK_THREAD_READY = 1"
definition MK_THREAD_RUNNING :: int where "MK_THREAD_RUNNING = 2"
definition MK_THREAD_SUSPEND :: int where "MK_THREAD_SUSPEND = 3"

text \<open>\<^verbatim>\<open>monkey/mk_core/mk_utils.h\<close>\<close>

definition MK_TRACE_CORE :: int where "MK_TRACE_CORE = 0"
definition MK_TRACE_PLUGIN :: int where "MK_TRACE_PLUGIN = 1"
definition MK_TRACE_COMP_CORE :: string where "MK_TRACE_COMP_CORE = ''mk''"

section \<open>Enumerations\<close>

datatype cf_file_format = FLB_CF_FLUENTBIT | FLB_CF_YAML

definition FLB_CF_CLASSIC :: cf_file_format where "FLB_CF_CLASSIC = FLB_CF_FLUENTBIT"

datatype section_type = FLB_CF_SERVICE | FLB_CF_PARSER | FLB_CF_MULTILINE_PARSER | FLB_CF_CUSTOM |
  FLB_CF_INPUT | FLB_CF_FILTER | FLB_CF_OUTPUT | FLB_CF_OTHER

datatype ra_types = FLB_RA_BOOL | FLB_RA_INT | FLB_RA_FLOAT | FLB_RA_STRING | FLB_RA_NULL

datatype flb_typecast_type_t = FLB_TYPECAST_TYPE_NUMBER | FLB_TYPECAST_TYPE_INT | FLB_TYPECAST_TYPE_UINT |
  FLB_TYPECAST_TYPE_FLOAT | FLB_TYPECAST_TYPE_BOOL | FLB_TYPECAST_TYPE_STR | FLB_TYPECAST_TYPE_HEX | FLB_TYPECAST_TYPE_ERROR

definition FLB_CSV_SUCCESS :: int where "FLB_CSV_SUCCESS = 0"
definition FLB_CSV_ALLOC_FAILED :: int where "FLB_CSV_ALLOC_FAILED = - 1"
definition FLB_CSV_INVALID_STATE :: int where "FLB_CSV_INVALID_STATE = - 2"
definition FLB_CSV_EOF :: int where "FLB_CSV_EOF = - 3"

section \<open>Constants that depend on the build\<close>

text \<open>The version of OpenSSL, and whether the system is macOS, are parameters.\<close>

definition FLB_CRYPTO_OPENSSL_COMPAT_MODE :: "nat \<Rightarrow> int" where
  "FLB_CRYPTO_OPENSSL_COMPAT_MODE OPENSSL_VERSION_NUMBER =
     (if OPENSSL_VERSION_NUMBER < 0x10100000 then 0 else if OPENSSL_VERSION_NUMBER < 0x30000000 then 1 else 3)"

definition FLB_DEFAULT_SEARCH_CA_BUNDLE :: "bool \<Rightarrow> string" where
  "FLB_DEFAULT_SEARCH_CA_BUNDLE macos =
     (if macos then ''C:/Program Files (x86)/fluent-bit/etc/certs/rootcert.pem'' else ''/etc/ssl/certs/ca-bundle.crt'')"

definition FLB_DEFAULT_CA_DIR :: "bool \<Rightarrow> string" where
  "FLB_DEFAULT_CA_DIR macos = (if macos then ''C:/Program Files (x86)/fluent-bit/etc/certs/'' else ''/etc/ssl/certs/'')"

text \<open>The bundle lies in the directory of certificates.\<close>

lemma ca_bundle_in_dir: "\<exists>file. FLB_DEFAULT_SEARCH_CA_BUNDLE macos = FLB_DEFAULT_CA_DIR macos @ file \<and> CHR ''/'' \<notin> set file"
  by (cases macos; rule exI [of _ "if macos then ''rootcert.pem'' else ''ca-bundle.crt''"])
    (simp_all add: FLB_DEFAULT_SEARCH_CA_BUNDLE_def FLB_DEFAULT_CA_DIR_def)

definition BUFFER_SIZE :: nat where "BUFFER_SIZE = 65535"
definition RTLD_LAZY :: int where "RTLD_LAZY = 0"
definition R_OK :: int where "R_OK = 4"
definition W_OK :: int where "W_OK = 2"
definition F_OK :: int where "F_OK = 0"
definition STDIN_FILENO :: int where "STDIN_FILENO = 0"
definition STDOUT_FILENO :: int where "STDOUT_FILENO = 1"
definition STDERR_FILENO :: int where "STDERR_FILENO = 2"

section \<open>The HTTP client\<close>

record flb_http_response =
  hr_status :: int
  hr_content_length :: int
  hr_chunked_encoding :: int
  hr_connection_close :: int
  hr_chunked_cur_size :: int
  hr_chunked_exp_size :: int
  hr_chunk_processed_end :: ptr
  hr_headers_end :: ptr
  hr_payload :: ptr
  hr_payload_size :: size_t
  hr_data :: ptr
  hr_data_len :: size_t
  hr_data_size :: size_t
  hr_data_size_max :: size_t

record flb_http_proxy =
  hx_type :: int
  hx_port :: int
  hx_host :: ptr

text \<open>\<open>hc_headers\<close> is the address of the embedded head of the list of headers.\<close>

record flb_http_client =
  hc_u_conn :: ptr
  hc_method :: int
  hc_flags :: int
  hc_header_len :: int
  hc_header_size :: int
  hc_header_buf :: ptr
  hc_allow_dup_headers :: int
  hc_uri :: ptr
  hc_query_string :: ptr
  hc_host :: ptr
  hc_port :: int
  hc_body_len :: int
  hc_body_buf :: ptr
  hc_headers :: ptr
  hc_proxy :: flb_http_proxy
  hc_resp :: flb_http_response
  hc_cb_ctx :: ptr

definition flb_http_client_debug_enable :: "ptr \<Rightarrow> flb_http_client \<Rightarrow> flb_http_client" where
  "flb_http_client_debug_enable cb_ctx c = c\<lparr>hc_cb_ctx := cb_ctx\<rparr>"

section \<open>Macros\<close>

text \<open>\<^verbatim>\<open>MK_TRACE\<close>: \<open>mk_utils_trace\<close> is only declared: a parameter.\<close>

definition MK_TRACE :: "(string \<Rightarrow> int \<Rightarrow> string \<Rightarrow> string \<times> int \<Rightarrow> 'f \<Rightarrow> 'w \<Rightarrow> 'w) \<Rightarrow> bool \<Rightarrow> string \<Rightarrow> string \<times> int \<Rightarrow> 'f \<Rightarrow> 'w \<Rightarrow> 'w" where
  "MK_TRACE mk_utils_trace have_trace func pos message w =
     (if have_trace then mk_utils_trace MK_TRACE_COMP_CORE MK_TRACE_CORE func pos message w else w)"

text \<open>
  The error of a configuration context: \<open>None\<close> is the null pointer.  The other members of the
  context are in the layout of the structure.
\<close>

record flb_cf =
  cfc_format :: cf_file_format
  cfc_error_str :: "string option"

definition flb_cf_error_set :: "flb_cf \<Rightarrow> string \<Rightarrow> flb_cf" where
  "flb_cf_error_set cf err = cf\<lparr>cfc_error_str := Some err\<rparr>"

definition flb_cf_error_get :: "flb_cf \<Rightarrow> string option" where
  "flb_cf_error_get cf = cfc_error_str cf"

definition flb_cr_error_reset :: "flb_cf \<Rightarrow> flb_cf" where
  "flb_cr_error_reset cf = cf\<lparr>cfc_error_str := Some []\<rparr>"

text \<open>The options of an AWS provider for a plugin, each with the prefix of the plugin in its name.\<close>

record config_option =
  co_type :: int
  co_name :: string
  co_default :: "string option"
  co_flags :: int
  co_set_property :: int
  co_offset :: nat
  co_desc :: string

definition FLB_AWS_CREDENTIAL_BASE_CONFIG_MAP :: "string \<Rightarrow> config_option list" where
  "FLB_AWS_CREDENTIAL_BASE_CONFIG_MAP prefix =
     map (\<lambda>(name, desc). \<lparr>co_type = FLB_CONFIG_MAP_STR, co_name = prefix @ name, co_default = None, co_flags = 0,
            co_set_property = FLB_FALSE, co_offset = 0, co_desc = desc\<rparr>)
       [(''region'', ''AWS region of your service''),
        (''sts_endpoint'', ''Custom endpoint for the AWS STS API, used with the `'' @ prefix @ ''role_arn` option''),
        (''role_arn'', ''ARN of an IAM role to assume (ex. for cross account access)''),
        (''external_id'', ''Specify an external ID for the STS API, can be used with the `'' @ prefix @
           ''role_arn` parameter if your role requires an external ID.''),
        (''profile'', ''AWS Profile name. AWS Profiles can be configured with AWS CLI and are usually'' @
           ''stored in $HOME/.aws/ directory.'')]"

text \<open>\<^verbatim>\<open>flb_bug\<close> reports its place and aborts when its condition holds: \<open>Inl\<close> the report.\<close>

definition flb_bug :: "string \<times> string \<times> int \<Rightarrow> int \<Rightarrow> 's \<Rightarrow> string + 's" where
  "flb_bug place condition s =
     (case place of (function_name, file, line) \<Rightarrow>
        if condition \<noteq> 0 then Inl (''Bug found in '' @ function_name @ ''() at '' @ file @ '':'' @ show_int line) else Inr s)"

text \<open>The initialiser of a string pointer from a literal at an address.\<close>

definition mk_ptr_init :: "ptr \<Rightarrow> string \<Rightarrow> ptr \<times> nat" where
  "mk_ptr_init a literal = (a, Suc (length literal) - 1)"

text \<open>
  The variables of a flush callback of the old signature: data, size, length of the tag (an \<^verbatim>\<open>int\<close>) and tag.
\<close>

definition FLB_OUTPUT_FLUSH_COMPAT_OLD_18 :: "sds_heap \<Rightarrow> flb_event_chunk \<Rightarrow> (ptr \<times> size_t \<times> int \<times> ptr) option" where
  "FLB_OUTPUT_FLUSH_COMPAT_OLD_18 h event_chunk = do {
     len \<leftarrow> flb_sds_len (ec_tag event_chunk) h;
     Some (ec_data event_chunk, ec_size event_chunk, sint (ucast len :: u32), ec_tag event_chunk)
   }"

definition FLB_OUTPUT_RETURN :: "'y out_env \<Rightarrow> u32 \<Rightarrow> 'y out_world \<Rightarrow> 'y out_world option" where
  "FLB_OUTPUT_RETURN env x w = flb_output_return_do env x w"

text \<open>The argument stands twice in the macro of the inputs and is evaluated twice.\<close>

definition FLB_INPUT_RETURN ::
  "'x in_env \<Rightarrow> ('x in_world \<Rightarrow> ptr) \<Rightarrow> ('x in_world \<Rightarrow> int \<times> 'x in_world) \<Rightarrow> 'x in_world \<Rightarrow> (int \<times> 'x in_world) option" where
  "FLB_INPUT_RETURN env flb_coro_get x w =
     (let (ret, w) = x w in map_option x (flb_input_return_do env flb_coro_get ret w))"

section \<open>Properties\<close>

text \<open>
  Every value of a byte is exactly one of the frame types of the Snappy framing format: the stream
  identifier, compressed and uncompressed data, padding, or a reserved type that can or cannot be skipped.
\<close>

lemma snappy_frame_types:
  assumes "0 \<le> b" "b \<le> 255"
  shows "(\<Sum>p\<leftarrow>[b = FLB_SNAPPY_FRAME_TYPE_STREAM_IDENTIFIER, b = FLB_SNAPPY_FRAME_TYPE_COMPRESSED_DATA,
      b = FLB_SNAPPY_FRAME_TYPE_UNCOMPRESSED_DATA, b = FLB_SNAPPY_FRAME_TYPE_PADDING,
      FLB_SNAPPY_FRAME_TYPE_RESERVED_UNSKIPPABLE_BASE \<le> b \<and> b \<le> FLB_SNAPPY_FRAME_TYPE_RESERVED_UNSKIPPABLE_TOP,
      FLB_SNAPPY_FRAME_TYPE_RESERVED_SKIPPABLE_BASE \<le> b \<and> b \<le> FLB_SNAPPY_FRAME_TYPE_RESERVED_SKIPPABLE_TOP].
    if p then 1 else 0 :: nat) = 1"
  using assms
  by (auto simp: FLB_SNAPPY_FRAME_TYPE_STREAM_IDENTIFIER_def FLB_SNAPPY_FRAME_TYPE_COMPRESSED_DATA_def
    FLB_SNAPPY_FRAME_TYPE_UNCOMPRESSED_DATA_def FLB_SNAPPY_FRAME_TYPE_PADDING_def
    FLB_SNAPPY_FRAME_TYPE_RESERVED_UNSKIPPABLE_BASE_def FLB_SNAPPY_FRAME_TYPE_RESERVED_UNSKIPPABLE_TOP_def
    FLB_SNAPPY_FRAME_TYPE_RESERVED_SKIPPABLE_BASE_def FLB_SNAPPY_FRAME_TYPE_RESERVED_SKIPPABLE_TOP_def)

text \<open>The error codes of the agent are pairwise distinct.\<close>

lemmas error_codes = FLB_ERR_CFG_FILE_def FLB_ERR_CFG_FILE_FORMAT_def FLB_ERR_CFG_FILE_STOP_def FLB_ERR_CFG_FLUSH_def
  FLB_ERR_CFG_FLUSH_CREATE_def FLB_ERR_CFG_FLUSH_REGISTER_def FLB_ERR_CUSTOM_INVALID_def FLB_ERR_INPUT_INVALID_def
  FLB_ERR_INPUT_UNDEF_def FLB_ERR_INPUT_UNSUP_def FLB_ERR_OUTPUT_UNDEF_def FLB_ERR_OUTPUT_INVALID_def FLB_ERR_OUTPUT_UNIQ_def
  FLB_ERR_FILTER_INVALID_def FLB_ERR_CFG_PARSER_FILE_def FLB_ERR_CFG_PLUGIN_FILE_def FLB_ERR_JSON_INVAL_def FLB_ERR_JSON_PART_def
  FLB_ERR_CORO_STACK_SIZE_def FLB_ERR_RELOADING_IN_PROGRESS_def

lemma error_codes_distinct:
  "distinct [FLB_ERR_CFG_FILE, FLB_ERR_CFG_FILE_FORMAT, FLB_ERR_CFG_FILE_STOP, FLB_ERR_CFG_FLUSH, FLB_ERR_CFG_FLUSH_CREATE,
     FLB_ERR_CFG_FLUSH_REGISTER, FLB_ERR_CUSTOM_INVALID, FLB_ERR_INPUT_INVALID, FLB_ERR_INPUT_UNDEF, FLB_ERR_INPUT_UNSUP,
     FLB_ERR_OUTPUT_UNDEF, FLB_ERR_OUTPUT_INVALID, FLB_ERR_OUTPUT_UNIQ, FLB_ERR_FILTER_INVALID, FLB_ERR_CFG_PARSER_FILE,
     FLB_ERR_CFG_PLUGIN_FILE, FLB_ERR_JSON_INVAL, FLB_ERR_JSON_PART, FLB_ERR_CORO_STACK_SIZE, FLB_ERR_RELOADING_IN_PROGRESS]"
  by (simp add: error_codes)

text \<open>A decompressor cannot tell its caller that it needs more data: the two results are the same number.\<close>

lemma decompressor_results:
  "FLB_DECOMPRESSOR_INSUFFICIENT_DATA = FLB_DECOMPRESSOR_SUCCESS"
  "distinct [FLB_DECOMPRESSOR_SUCCESS, FLB_DECOMPRESSOR_FAILURE, FLB_DECOMPRESSOR_CORRUPTED_HEADER, FLB_DECOMPRESSOR_INVALID_STATE]"
  by (simp_all add: FLB_DECOMPRESSOR_INSUFFICIENT_DATA_def FLB_DECOMPRESSOR_SUCCESS_def FLB_DECOMPRESSOR_FAILURE_def
    FLB_DECOMPRESSOR_CORRUPTED_HEADER_def FLB_DECOMPRESSOR_INVALID_STATE_def)

text \<open>
  The option names of the AWS providers are distinct for every prefix and start with it, and the option
  that the descriptions refer to is one of the table.
\<close>

lemma aws_options:
  "distinct (map co_name (FLB_AWS_CREDENTIAL_BASE_CONFIG_MAP prefix)) \<and>
   (\<forall>x\<in>set (FLB_AWS_CREDENTIAL_BASE_CONFIG_MAP prefix). take (length prefix) (co_name x) = prefix) \<and>
   prefix @ ''role_arn'' \<in> co_name ` set (FLB_AWS_CREDENTIAL_BASE_CONFIG_MAP prefix)"
  by (simp add: FLB_AWS_CREDENTIAL_BASE_CONFIG_MAP_def)

lemma mk_ptr_init_length: "mk_ptr_init a s = (a, length s)"
  by (simp add: mk_ptr_init_def)

lemma cf_error_round_trip:
  "flb_cf_error_get (flb_cf_error_set cf err) = Some err" "flb_cf_error_get (flb_cr_error_reset cf) = Some []"
  by (simp_all add: flb_cf_error_get_def flb_cf_error_set_def flb_cr_error_reset_def)

end
