(* ===== verification/Flb_Processed.thy ===== *)
theory Flb_Processed
  imports Flb_Flush
begin

text \<open>
  Creating a flush whose logs go through a processor (\<^verbatim>\<open>flb_output_flush_create\<close> of
  \<^verbatim>\<open>fluent-bit/flb_output.h\<close>, the branch of the logs): when the processor hands back a buffer of its own,
  no failure leaks or releases too much.  \<open>Flb_Flush\<close> has the case of a processor that changes nothing.
\<close>

section \<open>Steps of the creation\<close>

text \<open>
  A processor of logs: it fails, without effect, or hands back a new block of the heap.  Creating a chunk
  allocates exactly the blocks that belong to it.
\<close>

definition makes_logs :: "'y out_env \<Rightarrow> ptr \<Rightarrow> ptr \<Rightarrow> bool" where
  "makes_logs env proc evc \<longleftrightarrow> (\<forall>w. oe_processor_is_active env proc w \<and>
     ((\<exists>ret buf sz. oe_run_logs env proc evc w = ((ret, buf, sz), w) \<and> (ret = - 1 \<or> sz = 0)) \<or>
      (\<exists>buf sz m b. oe_run_logs env proc evc w = ((0, buf, sz), w\<lparr>iw_mem := m\<rparr>) \<and> sz \<noteq> 0 \<and> buf \<noteq> NULL \<and>
         blocks (iw_mem w) buf = None \<and> blocks m = (blocks (iw_mem w))(buf \<mapsto> b))))"

definition chunk_blocks_exact :: "(ptr \<Rightarrow> flb_event_chunk \<Rightarrow> ptr set) \<Rightarrow> 'y out_env \<Rightarrow> bool" where
  "chunk_blocks_exact own env \<longleftrightarrow> (\<forall>ty n tag buf sz w q w' c. oe_event_chunk_create env ty n tag buf sz w = (q, w') \<longrightarrow> q \<noteq> NULL \<longrightarrow>
     os_chunks (iw_ext w') q = Some c \<longrightarrow> dom (blocks (iw_mem w')) \<subseteq> dom (blocks (iw_mem w)) \<union> own q c)"

text \<open>A flush whose logs were processed: the chunk \<open>q\<close> holds the new buffer and owns its blocks.\<close>

definition processed_flush :: "(ptr \<Rightarrow> flb_event_chunk \<Rightarrow> ptr set) \<Rightarrow> 'y out_world \<Rightarrow> 'y out_world \<Rightarrow> ptr \<Rightarrow> ptr \<Rightarrow> ptr \<Rightarrow>
    flb_event_chunk \<Rightarrow> 'y out_world \<Rightarrow> bool" where
  "processed_flush own w w1 p c q ch w2 \<longleftrightarrow>
     q \<noteq> NULL \<and> os_chunks (iw_ext w1) q = None \<and> os_chunks (iw_ext w2) = (os_chunks (iw_ext w1))(q \<mapsto> ch) \<and>
     (\<exists>fl. os_flushes (iw_ext w1) p = Some fl \<and> os_flushes (iw_ext w2) p = Some (fl\<lparr>of_processed_event_chunk := q\<rparr>)) \<and>
     iw_links w2 = iw_links w1 \<and> iw_coros w2 = iw_coros w1 \<and> iw_configs w2 = iw_configs w1 \<and>
     os_threads (iw_ext w2) = os_threads (iw_ext w1) \<and> ec_data ch \<noteq> NULL \<and> ec_data ch \<notin> {p, c} \<and> blocks (iw_mem w) (ec_data ch) = None \<and>
     {p, c, ec_data ch} \<subseteq> dom (blocks (iw_mem w2)) \<and> {p, c} \<inter> own q ch = {} \<and>
     ((blocks (iw_mem w2))(c := None, ec_data ch := None) |` (- own q ch))(p := None) = blocks (iw_mem w)"

lemma flush_abort_fresh:
  assumes fr: "fresh_flush w task o_ins config p c w1"
    and w': "iw_links w' = iw_links w1" "iw_coros w' = iw_coros w1" "os_chunks (iw_ext w') = os_chunks (iw_ext w1)"
      "blocks (iw_mem w') c \<noteq> None" "blocks (iw_mem w') p \<noteq> None"
  shows "\<exists>w2. flush_abort env c p w' = Some w2 \<and> blocks (iw_mem w2) = (blocks (iw_mem w'))(c := None, p := None) \<and>
    iw_links w2 = iw_links w \<and> os_chunks (iw_ext w2) = os_chunks (iw_ext w) \<and> os_lib (iw_ext w2) = os_lib (iw_ext w')"
proof -
  obtain fl where b: "p \<noteq> NULL" "c \<noteq> NULL" "p \<noteq> c" "p + flb_output_flush_head_off \<notin> dom (iw_links w)"
    "iw_links w1 = (iw_links w)(p + flb_output_flush_head_off \<mapsto> zero_node)"
    "iw_coros w1 c = Some \<lparr>co_caller = NULL, co_callee = NULL, co_data = p\<rparr>"
    "os_flushes (iw_ext w1) p = Some fl" "os_chunks (iw_ext w1) = os_chunks (iw_ext w)"
    using fr unfolding fresh_flush_def by blast
  have "(iw_links w1)(p + flb_output_flush_head_off := None) = iw_links w"
    using b(4,5) by (simp add: fun_upd_idem domIff)
  then show ?thesis using w' b
    by (simp add: flush_abort_def flb_coro_destroy_def flb_free_live free_flush_def os_update_def)
qed

text \<open>
  Nothing of the flush is left: the result of a branch that gives up.  \<open>G\<close> is what is known of the libraries then.
\<close>

definition given_up :: "('y \<Rightarrow> bool) \<Rightarrow> 'y out_world \<Rightarrow> (bool \<times> 'y out_world) option \<Rightarrow> bool" where
  "given_up G w r \<longleftrightarrow> (\<exists>w2. r = Some (False, w2) \<and> blocks (iw_mem w2) = blocks (iw_mem w) \<and> iw_links w2 = iw_links w \<and>
     os_chunks (iw_ext w2) = os_chunks (iw_ext w) \<and> G (os_lib (iw_ext w2)))"

lemma create_blocks:
  assumes own: "chunk_blocks_exact own env"
    and q: "oe_event_chunk_create env ty n tag buf sz w =
        (q, os_update (\<lambda>s. s\<lparr>os_chunks := (os_chunks s)(q \<mapsto> ch)\<rparr>) (w\<lparr>iw_mem := m\<rparr>))" "q \<noteq> NULL"
      "own q ch \<inter> dom (blocks (iw_mem w)) = {}" "\<forall>a \<in> dom (blocks (iw_mem w)). blocks m a = blocks (iw_mem w) a"
  shows "blocks m |` (- own q ch) = blocks (iw_mem w)"
proof
  fix a
  have "dom (blocks m) \<subseteq> dom (blocks (iw_mem w)) \<union> own q ch"
    using own q(1,2) unfolding chunk_blocks_exact_def by (fastforce simp: os_update_def)
  then show "(blocks m |` (- own q ch)) a = blocks (iw_mem w) a"
    using q(3,4) by (cases "a \<in> own q ch"; cases "a \<in> dom (blocks (iw_mem w))") (auto simp: restrict_map_def domIff)
qed

text \<open>
  Between the processor and the new chunk a flush has a buffer \<open>buf\<close> of its own.  Whatever fails then, the
  release of the coroutine, the flush and the buffer leaves nothing; a chunk created for it is the processed one.
\<close>

definition buffered :: "ptr \<Rightarrow> 'y out_world \<Rightarrow> 'y out_world \<Rightarrow> bool" where
  "buffered buf w1 w' \<longleftrightarrow> iw_links w' = iw_links w1 \<and> iw_coros w' = iw_coros w1 \<and> iw_configs w' = iw_configs w1 \<and>
     os_chunks (iw_ext w') = os_chunks (iw_ext w1) \<and> os_threads (iw_ext w') = os_threads (iw_ext w1) \<and> buf \<noteq> NULL \<and> blocks (iw_mem w1) buf = None \<and>
     (\<exists>b. blocks (iw_mem w') = (blocks (iw_mem w1))(buf \<mapsto> b))"

lemma buffered_blocks:
  assumes fr: "fresh_flush w task o_ins config p c w1" and b: "buffered buf w1 w'"
  shows "buf \<noteq> p" "buf \<noteq> c" "p \<noteq> c" "blocks (iw_mem w) buf = None" "{p, c, buf} \<subseteq> dom (blocks (iw_mem w'))"
    "(blocks (iw_mem w'))(c := None, p := None, buf := None) = blocks (iw_mem w)"
proof -
  obtain bp bc b' where x: "p \<noteq> c" "blocks (iw_mem w) p = None" "blocks (iw_mem w) c = None"
    "blocks (iw_mem w1) = (blocks (iw_mem w))(p \<mapsto> bp, c \<mapsto> bc)" "blocks (iw_mem w1) buf = None"
    "blocks (iw_mem w') = (blocks (iw_mem w1))(buf \<mapsto> b')"
    using fr b unfolding fresh_flush_def buffered_def by blast
  then show ne: "buf \<noteq> p" "buf \<noteq> c" "p \<noteq> c" "blocks (iw_mem w) buf = None" by (auto split: if_splits)
  then show "{p, c, buf} \<subseteq> dom (blocks (iw_mem w'))"
    "(blocks (iw_mem w'))(c := None, p := None, buf := None) = blocks (iw_mem w)"
    using x by (auto simp: fun_eq_iff)
qed

lemma buffered_abort:
  assumes fr: "fresh_flush w task o_ins config p c w1" and b: "buffered buf w1 w'" and G: "G (os_lib (iw_ext w'))"
  shows "given_up G w (do { w \<leftarrow> flush_abort env c p w'; w \<leftarrow> free_buf buf w; Some (False, w) })"
proof -
  note x = buffered_blocks [OF fr b]
  have "iw_links w' = iw_links w1" "iw_coros w' = iw_coros w1" "os_chunks (iw_ext w') = os_chunks (iw_ext w1)" "buf \<noteq> NULL"
    using b by (simp_all add: buffered_def)
  moreover have "blocks (iw_mem w') c \<noteq> None" "blocks (iw_mem w') p \<noteq> None" "blocks (iw_mem w') buf \<noteq> None"
    using x(5) by auto
  ultimately show ?thesis
    using flush_abort_fresh [OF fr, of w' env] x(1,2,6) G by (auto simp: given_up_def free_buf_def flb_free_live)
qed

lemma buffered_chunk:
  assumes own: "chunk_functions_ok own env" "chunk_blocks_exact own env"
    and fr: "fresh_flush w task o_ins config p c w1" and b: "buffered buf w1 w'"
    and fl: "os_flushes (iw_ext w') p = os_flushes (iw_ext w1) p"
  shows "oe_event_chunk_create env ty n tag buf sz w' = (NULL, w') \<or>
    (\<exists>q w2 w3 ch. oe_event_chunk_create env ty n tag buf sz w' = (q, w2) \<and> q \<noteq> NULL \<and> set_processed p q w2 = Some w3 \<and>
      processed_flush own w w1 p c q ch w3 \<and> ec_data ch = buf \<and> blocks (iw_mem w3) buf = blocks (iw_mem w') buf \<and>
      os_chunks (iw_ext w2) q = Some ch \<and> os_lib (iw_ext w3) = os_lib (iw_ext w'))"
  using chunk_createD [OF own(1), of ty n tag buf sz w']
proof (elim disjE exE conjE)
  fix q m ch
  assume q: "oe_event_chunk_create env ty n tag buf sz w' =
        (q, os_update (\<lambda>s. s\<lparr>os_chunks := (os_chunks s)(q \<mapsto> ch)\<rparr>) (w'\<lparr>iw_mem := m\<rparr>))"
    "q \<noteq> NULL" "os_chunks (iw_ext w') q = None" "ec_data ch = buf"
    "own q ch \<inter> dom (blocks (iw_mem w')) = {}" "\<forall>a \<in> dom (blocks (iw_mem w')). blocks m a = blocks (iw_mem w') a"
  obtain f where f: "os_flushes (iw_ext w1) p = Some f" using fr unfolding fresh_flush_def by blast
  note x = buffered_blocks [OF fr b]
  note m = create_blocks [OF own(2) q(1,2,5,6)]
  have o': "{p, c, buf} \<subseteq> dom (blocks m)" "{p, c, buf} \<inter> own q ch = {}" using x(5) q(5,6) by (auto simp: domIff)
  have "((blocks m)(c := None, buf := None) |` (- own q ch))(p := None) = (blocks m |` (- own q ch))(c := None, p := None, buf := None)"
    using x(1-3) by (auto simp: fun_eq_iff restrict_map_def)
  then have all: "((blocks m)(c := None, buf := None) |` (- own q ch))(p := None) = blocks (iw_mem w)" using m x(6) by simp
  define w3 where "w3 = os_update (\<lambda>s. s\<lparr>os_chunks := (os_chunks s)(q \<mapsto> ch),
      os_flushes := (os_flushes s)(p \<mapsto> f\<lparr>of_processed_event_chunk := q\<rparr>)\<rparr>) (w'\<lparr>iw_mem := m\<rparr>)"
  have "processed_flush own w w1 p c q ch w3"
    using q(2-4) x(1,2,4) f o' all b by (simp add: processed_flush_def os_update_def w3_def buffered_def)
  moreover have "set_processed p q (os_update (\<lambda>s. s\<lparr>os_chunks := (os_chunks s)(q \<mapsto> ch)\<rparr>) (w'\<lparr>iw_mem := m\<rparr>)) = Some w3"
    using f fl by (simp add: set_processed_def os_update_def w3_def)
  moreover have "blocks (iw_mem w3) buf = blocks (iw_mem w') buf" "os_lib (iw_ext w3) = os_lib (iw_ext w')"
    using q(6) x(5) by (simp_all add: w3_def os_update_def)
  moreover have "os_chunks (iw_ext (os_update (\<lambda>s. s\<lparr>os_chunks := (os_chunks s)(q \<mapsto> ch)\<rparr>) (w'\<lparr>iw_mem := m\<rparr>))) q = Some ch"
    by (simp add: os_update_def)
  ultimately show ?thesis using q(1,2,4) by blast
qed simp

lemma flush_logs_made:
  assumes own: "chunk_functions_ok own env" "chunk_blocks_exact own env"
    and evc: "os_chunks (iw_ext w1) evc = Some e" and fr: "fresh_flush w task o_ins config p c w1"
    and run: "oe_run_logs env (oi_processor ins) evc w1 = ((0, buf, sz), w1\<lparr>iw_mem := m\<rparr>)" "sz \<noteq> 0" "buf \<noteq> NULL"
      "blocks (iw_mem w1) buf = None" "blocks m = (blocks (iw_mem w1))(buf \<mapsto> bb)"
  shows "given_up (\<lambda>y. y = os_lib (iw_ext w)) w (flush_logs env ins evc c p w1) \<or>
    (\<exists>w2 q ch. flush_logs env ins evc c p w1 = Some (True, w2) \<and> processed_flush own w w1 p c q ch w2 \<and>
       os_lib (iw_ext w2) = os_lib (iw_ext w))"
proof -
  define w' where "w' = w1\<lparr>iw_mem := m\<rparr>"
  let ?n = "oe_mp_count env buf sz w'"
  let ?create = "oe_event_chunk_create env (ec_type e) ?n (ec_tag e) buf sz w'"
  let ?stop = "\<lambda>w'. do { w \<leftarrow> flush_abort env c p w'; w \<leftarrow> free_buf buf w; Some (False, w) }"
  have b: "buffered buf w1 w'" using run(3-5) by (auto simp: buffered_def w'_def)
  have logs: "flush_logs env ins evc c p w1 = (if ?n = 0 then ?stop w' else if fst ?create = NULL then ?stop (snd ?create)
     else do { w \<leftarrow> set_processed p (fst ?create) (snd ?create); Some (True, w) })"
    using run(1,2) evc by (simp add: flush_logs_def w'_def case_prod_beta)
  have y: "os_lib (iw_ext w') = os_lib (iw_ext w)" using fr by (simp add: w'_def fresh_flush_def)
  have "os_flushes (iw_ext w') p = os_flushes (iw_ext w1) p" by (simp add: w'_def)
  from buffered_chunk [OF own fr b this, of "ec_type e" ?n "ec_tag e" sz] show ?thesis
    using logs y buffered_abort [OF fr b, of "\<lambda>y. y = os_lib (iw_ext w)" env] by (cases "?n = 0") fastforce+
qed

lemma flush_logs_processes:
  assumes pl: "makes_logs env (oi_processor ins) evc" "os_chunks (iw_ext w1) evc = Some e"
    and own: "chunk_functions_ok own env" "chunk_blocks_exact own env"
    and fr: "fresh_flush w task o_ins config p c w1"
  shows "given_up (\<lambda>y. y = os_lib (iw_ext w)) w (flush_logs env ins evc c p w1) \<or>
    (\<exists>w2 q ch. flush_logs env ins evc c p w1 = Some (True, w2) \<and> processed_flush own w w1 p c q ch w2 \<and>
       os_lib (iw_ext w2) = os_lib (iw_ext w))"
proof -
  obtain bp bc where b: "p \<noteq> c" "blocks (iw_mem w) p = None" "blocks (iw_mem w) c = None"
    "blocks (iw_mem w1) = (blocks (iw_mem w))(p \<mapsto> bp, c \<mapsto> bc)" "os_lib (iw_ext w1) = os_lib (iw_ext w)"
    using fr unfolding fresh_flush_def by blast
  from pl(1) consider
      (fails) ret buf sz where "oe_run_logs env (oi_processor ins) evc w1 = ((ret, buf, sz), w1)" "ret = - 1 \<or> sz = 0"
    | (made) buf sz m bb where "oe_run_logs env (oi_processor ins) evc w1 = ((0, buf, sz), w1\<lparr>iw_mem := m\<rparr>)"
      "sz \<noteq> 0" "buf \<noteq> NULL" "blocks (iw_mem w1) buf = None" "blocks m = (blocks (iw_mem w1))(buf \<mapsto> bb)"
    unfolding makes_logs_def by meson
  then show ?thesis
  proof cases
    case fails
    have "(blocks (iw_mem w1))(c := None, p := None) = blocks (iw_mem w)" using b by (auto simp: fun_eq_iff)
    then show ?thesis using flush_abort_fresh [OF fr, of w1 env] fails pl(2) b(1,4,5)
      by (auto simp: flush_logs_def given_up_def)
  next
    case made
    then show ?thesis by (rule flush_logs_made [OF own pl(2) fr])
  qed
qed

text \<open>The last step of the creation for a processed flush: without a stack nothing is left of it.\<close>

lemma processed_flush_starts:
  assumes fr: "fresh_flush w task o_ins config p c w1" and pf: "processed_flush own w w1 p c q ch w2"
    and co: "co_create_ok env" and cf: "iw_configs w1 config = Some cf" and home: "flush_home env ins w lst"
    and d: "dll (iw_links w) lst xs" and own: "chunk_functions_ok own env"
  shows "(\<exists>w3. flush_start env o_ins ins config c p w2 = Some (False, w3) \<and> blocks (iw_mem w3) = blocks (iw_mem w) \<and>
      iw_links w3 = iw_links w \<and> os_lib (iw_ext w3) = os_lib (iw_ext w2)) \<or>
    (\<exists>w3 f. flush_start env o_ins ins config c p w2 = Some (True, w3) \<and>
      dll (iw_links w3) lst (xs @ [p + flb_output_flush_head_off]) \<and>
      os_flushes (iw_ext w3) p = Some f \<and> of_task f = task \<and> of_o_ins f = o_ins \<and> of_coro f = c \<and>
      os_chunks (iw_ext w3) (of_processed_event_chunk f) = Some ch \<and>
      blocks (iw_mem w) (ec_data ch) = None \<and> blocks (iw_mem w2) (ec_data ch) \<noteq> None \<and> iw_mem w3 = iw_mem w2 \<and>
      iw_ext w3 = iw_ext w2 \<and> flush_holds own (blocks (iw_mem w)) p c w3)"
proof -
  let ?n = "p + flb_output_flush_head_off"
  obtain fl where b: "p \<noteq> NULL" "c \<noteq> NULL" "p \<noteq> c" "?n \<notin> dom (iw_links w)" "iw_links w1 = (iw_links w)(?n \<mapsto> zero_node)"
    "iw_coros w1 c = Some \<lparr>co_caller = NULL, co_callee = NULL, co_data = p\<rparr>"
    "os_flushes (iw_ext w1) p = Some fl" "of_task fl = task" "of_o_ins fl = o_ins" "of_coro fl = c"
    using fr unfolding fresh_flush_def by blast
  have q: "q \<noteq> NULL" "os_chunks (iw_ext w2) q = Some ch" "os_flushes (iw_ext w2) p = Some (fl\<lparr>of_processed_event_chunk := q\<rparr>)"
    "iw_links w2 = iw_links w1" "iw_coros w2 = iw_coros w1" "iw_configs w2 = iw_configs w1" "ec_data ch \<noteq> NULL"
    "ec_data ch \<noteq> p" "ec_data ch \<noteq> c" "blocks (iw_mem w) (ec_data ch) = None"
    "blocks (iw_mem w2) p \<noteq> None" "blocks (iw_mem w2) c \<noteq> None" "blocks (iw_mem w2) (ec_data ch) \<noteq> None" "p \<notin> own q ch"
    "((blocks (iw_mem w2))(c := None, ec_data ch := None) |` (- own q ch))(p := None) = blocks (iw_mem w)"
    using pf b(7) by (auto simp: processed_flush_def)
  obtain callee where cc: "env_co_create (oe_in env) (cf_coro_stack_size cf) w2 = (callee, w2)"
    using co unfolding co_create_ok_def by (metis prod.collapse)
  have w2: "iw_coros w2 c = Some \<lparr>co_caller = NULL, co_callee = NULL, co_data = p\<rparr>" "iw_configs w2 config = Some cf"
    using q(5,6) b(6) cf by simp_all
  show ?thesis
  proof (cases "callee = NULL")
    case True
    have "(iw_links w2)(?n := None) = iw_links w" using b(4,5) q(4) by (simp add: fun_upd_idem domIff)
    moreover have "of_processed_event_chunk (fl\<lparr>of_processed_event_chunk := q\<rparr>) = q" by simp
    ultimately show ?thesis
      using flush_start_fails [OF w2 b(2) q(12) cc [unfolded True] q(3) _ q(1,2) own q(7,9,13) b(1,3) q(8)[symmetric] q(14,11), of o_ins ins]
        q(15) by auto
  next
    case False
    have nin: "?n \<notin> set (lst # xs)"
      using dll_ends(1,4) [OF d] b(4) by (auto simp: valid_def)
    have l: "dll (iw_links w2) lst xs"
      using d b(5) q(4) nin by (subst dll_frame [where h = "iw_links w"]) auto
    have v: "valid (iw_links w2) ?n" using b(1,5) q(4) by (simp add: valid_def)
    have home2: "flush_home env ins w2 lst" using fr pf home flush_home_frame by (fastforce simp: fresh_flush_def processed_flush_def)
    from flush_start_links [OF w2 cc False home2 l v nin refl, of o_ins] obtain w3 cr where
      w3: "flush_start env o_ins ins config c p w2 = Some (True, w3)" "iw_ext w3 = iw_ext w2" "iw_mem w3 = iw_mem w2"
        "iw_coros w3 c = Some cr" "co_data cr = p" "dll (iw_links w3) lst (xs @ [?n])" by auto
    have "flush_holds own (blocks (iw_mem w)) p c w3"
      using w3 q b pf by (auto simp: flush_holds_def processed_flush_def)
    then show ?thesis using w3 q(2,3,10,13) b(8-10) by fastforce
  qed
qed

text \<open>
  The creation as a whole, for any branch of the processor section that either gives up or ends with a
  processed flush; \<open>R\<close> is what the branch says of the new chunk, the memory and the libraries, and \<open>G\<close> what it says of the
  libraries when it gives up.
\<close>

lemma flush_create_processed:
  assumes al: "fresh_allocator (env_alloc (oe_in env))" "sep_allocator (env_alloc (oe_in env))"
    and nb: "nodes_in_blocks (iw_links w) (iw_mem w)" and ids: "flush_id_get_ok env" and co: "co_create_ok env"
    and t: "os_tasks (iw_ext w) task = Some t" "os_chunks (iw_ext w) (tk_event_chunk t) = Some e"
    and ins: "os_outputs (iw_ext w) o_ins = Some ins" "flush_home env ins w lst"
    and cf: "iw_configs w config = Some cf" "dll (iw_links w) lst xs"
    and own: "chunk_functions_ok own env"
    and branch: "\<And>p c w1 k. fresh_flush w task o_ins config p c w1 \<Longrightarrow>
      given_up G w (flush_process env (ins\<lparr>oi_flush_id := k\<rparr>) (tk_event_chunk t) c p w1) \<or>
      (\<exists>w2 q ch. flush_process env (ins\<lparr>oi_flush_id := k\<rparr>) (tk_event_chunk t) c p w1 = Some (True, w2) \<and>
         processed_flush own w w1 p c q ch w2 \<and> R ch (iw_mem w2) (os_lib (iw_ext w2)))"
    and G: "G (os_lib (iw_ext w))" "\<And>ch m y. R ch m y \<Longrightarrow> G y"
  shows "(\<exists>w'. flb_output_flush_create env task i_ins o_ins config w = Some (NULL, w') \<and>
        blocks (iw_mem w') = blocks (iw_mem w) \<and> iw_links w' = iw_links w \<and> G (os_lib (iw_ext w'))) \<or>
     (\<exists>p c f ch w'. p \<noteq> NULL \<and> flb_output_flush_create env task i_ins o_ins config w =
          map_option (Pair p) (output_params_set env p c task (oi_p ins) (oi_context ins) config w') \<and>
        dll (iw_links w') lst (xs @ [p + flb_output_flush_head_off]) \<and>
        os_flushes (iw_ext w') p = Some f \<and> of_task f = task \<and> of_o_ins f = o_ins \<and> of_coro f = c \<and>
        os_chunks (iw_ext w') (of_processed_event_chunk f) = Some ch \<and>
        blocks (iw_mem w) (ec_data ch) = None \<and> blocks (iw_mem w') (ec_data ch) \<noteq> None \<and>
        R ch (iw_mem w') (os_lib (iw_ext w')) \<and>
        flush_holds own (blocks (iw_mem w)) p c w')"
proof -
  from new_flush_spec [OF al nb ids t, of o_ins config] show ?thesis
  proof (elim disjE exE conjE)
    fix p c w1
    assume n: "new_flush env task o_ins config w = Some (Some (p, c), w1)" and fr: "fresh_flush w task o_ins config p c w1"
    obtain k where k: "os_outputs (iw_ext w1) o_ins = Some (ins\<lparr>oi_flush_id := k\<rparr>)"
      using fr ins(1) unfolding fresh_flush_def by blast
    let ?ins = "ins\<lparr>oi_flush_id := k\<rparr>"
    have w1: "os_tasks (iw_ext w1) task = Some t" "iw_configs w1 config = Some cf" "p \<noteq> NULL"
      using fr t cf(1) by (simp_all add: fresh_flush_def)
    have i: "flush_home env ?ins w lst" using ins(2) by simp
    from branch [OF fr, of k] show ?thesis
    proof (elim disjE exE conjE)
      fix w2 q ch
      assume s: "flush_process env ?ins (tk_event_chunk t) c p w1 = Some (True, w2)"
        and pf: "processed_flush own w w1 p c q ch w2" and R: "R ch (iw_mem w2) (os_lib (iw_ext w2))"
      from processed_flush_starts [OF fr pf co w1(2) i cf(2) own] show ?thesis
      proof (elim disjE exE conjE)
        fix w3 f
        assume s2: "flush_start env o_ins ?ins config c p w2 = Some (True, w3)"
          and f: "dll (iw_links w3) lst (xs @ [p + flb_output_flush_head_off])"
          "os_flushes (iw_ext w3) p = Some f" "of_task f = task" "of_o_ins f = o_ins" "of_coro f = c"
          "os_chunks (iw_ext w3) (of_processed_event_chunk f) = Some ch"
          "blocks (iw_mem w) (ec_data ch) = None" "blocks (iw_mem w2) (ec_data ch) \<noteq> None" "iw_mem w3 = iw_mem w2"
          "iw_ext w3 = iw_ext w2" "flush_holds own (blocks (iw_mem w)) p c w3"
        have "flb_output_flush_create env task i_ins o_ins config w =
            map_option (Pair p) (output_params_set env p c task (oi_p ins) (oi_context ins) config w3)"
          using n k w1(1) s s2
          by (cases "output_params_set env p c task (oi_p ins) (oi_context ins) config w3")
            (simp_all add: flb_output_flush_create_def)
        then show ?thesis using f w1(3) R
          by (intro disjI2 exI [of _ p] exI [of _ c] exI [of _ f] exI [of _ ch] exI [of _ w3]) simp
      qed (use n k w1(1) s G(2) [OF R] in \<open>simp add: flb_output_flush_create_def\<close>)
    qed (use n k w1(1) in \<open>auto simp: given_up_def flb_output_flush_create_def\<close>)
  qed (use G(1) in \<open>simp add: flb_output_flush_create_def\<close>)
qed

lemma logs_branch:
  assumes fr: "fresh_flush w task o_ins config p c w1"
    and t: "os_chunks (iw_ext w) evc = Some e" "ec_type e = FLB_EVENT_TYPE_LOGS"
    and proc: "makes_logs env (oi_processor ins) evc" "chunk_functions_ok own env" "chunk_blocks_exact own env"
  shows "given_up (\<lambda>y. y = os_lib (iw_ext w)) w (flush_process env ins evc c p w1) \<or>
    (\<exists>w2 q ch. flush_process env ins evc c p w1 = Some (True, w2) \<and> processed_flush own w w1 p c q ch w2 \<and>
       os_lib (iw_ext w2) = os_lib (iw_ext w))"
proof -
  have evc: "os_chunks (iw_ext w1) evc = Some e" using fr t(1) by (simp add: fresh_flush_def)
  then show ?thesis
    using flush_logs_processes [OF proc(1) evc proc(2,3) fr] proc(1) t(2) by (simp add: flush_process_def makes_logs_def)
qed

text \<open>
  C12: creating a flush with a processor of logs that hands back a buffer of its own.  Whichever allocation,
  step of the processor or stack creation fails, \<^verbatim>\<open>flb_output_flush_create\<close> answers null, every block it
  or the processor allocated is released, and links and chunks are as before; otherwise it hands over to
  the new coroutine with the flush linked and bound to its task and to the processed chunk.
\<close>

theorem processed_flush_create_safe:
  assumes al: "fresh_allocator (env_alloc (oe_in env))" "sep_allocator (env_alloc (oe_in env))"
    and nb: "nodes_in_blocks (iw_links w) (iw_mem w)" and ids: "flush_id_get_ok env" and co: "co_create_ok env"
    and t: "os_tasks (iw_ext w) task = Some t" "os_chunks (iw_ext w) (tk_event_chunk t) = Some e"
    and e: "ec_type e = FLB_EVENT_TYPE_LOGS"
    and ins: "os_outputs (iw_ext w) o_ins = Some ins" "flush_home env ins w lst"
    and cf: "iw_configs w config = Some cf" "dll (iw_links w) lst xs"
    and proc: "makes_logs env (oi_processor ins) (tk_event_chunk t)" "chunk_functions_ok own env" "chunk_blocks_exact own env"
  shows "(\<exists>w'. flb_output_flush_create env task i_ins o_ins config w = Some (NULL, w') \<and>
        blocks (iw_mem w') = blocks (iw_mem w) \<and> iw_links w' = iw_links w) \<or>
     (\<exists>p c f ch w'. p \<noteq> NULL \<and> flb_output_flush_create env task i_ins o_ins config w =
          map_option (Pair p) (output_params_set env p c task (oi_p ins) (oi_context ins) config w') \<and>
        dll (iw_links w') lst (xs @ [p + flb_output_flush_head_off]) \<and>
        os_flushes (iw_ext w') p = Some f \<and> of_task f = task \<and> of_o_ins f = o_ins \<and> of_coro f = c \<and>
        os_chunks (iw_ext w') (of_processed_event_chunk f) = Some ch \<and>
        blocks (iw_mem w) (ec_data ch) = None \<and> blocks (iw_mem w') (ec_data ch) \<noteq> None \<and>
        flush_holds own (blocks (iw_mem w)) p c w')"
proof -
  have br: "given_up (\<lambda>y. y = os_lib (iw_ext w)) w (flush_process env (ins\<lparr>oi_flush_id := k\<rparr>) (tk_event_chunk t) c p w1) \<or>
      (\<exists>w2 q ch. flush_process env (ins\<lparr>oi_flush_id := k\<rparr>) (tk_event_chunk t) c p w1 = Some (True, w2) \<and>
         processed_flush own w w1 p c q ch w2 \<and> os_lib (iw_ext w2) = os_lib (iw_ext w))"
    if fr: "fresh_flush w task o_ins config p c w1" for p c w1 k
    using logs_branch [OF fr t(2) e, of env "ins\<lparr>oi_flush_id := k\<rparr>" own] proc by simp
  from flush_create_processed [where R = "\<lambda>ch m y. y = os_lib (iw_ext w)" and G = "\<lambda>y. y = os_lib (iw_ext w)",
      OF al nb ids co t ins cf proc(2) br refl, of i_ins] show ?thesis by blast
qed

text \<open>The example with a processor that puts its result into a new block.\<close>

definition example_making_env :: "lib_objects out_env" where
  "example_making_env = example_passing_env\<lparr>oe_in := example_in_env,
     oe_run_logs := (\<lambda>p c w. if blocks (iw_mem w) 9500 = None
       then ((0, 9500, 64), w\<lparr>iw_mem := (iw_mem w)\<lparr>blocks := (blocks (iw_mem w))(9500 \<mapsto> replicate 64 (Some 0))\<rparr>\<rparr>)
       else ((- 1, NULL, 0), w))\<rparr>"

lemma example_making_ok:
  "fresh_allocator (env_alloc (oe_in example_making_env))" "sep_allocator (env_alloc (oe_in example_making_env))"
  "flush_id_get_ok example_making_env" "co_create_ok example_making_env"
  "makes_logs example_making_env proc evc" "chunk_functions_ok (\<lambda>q c. {}) example_making_env"
  "chunk_blocks_exact (\<lambda>q c. {}) example_making_env"
proof -
  show "fresh_allocator (env_alloc (oe_in example_making_env))" "sep_allocator (env_alloc (oe_in example_making_env))"
    using bump_allocator_ok by (simp_all add: example_making_env_def example_in_env_def)
  show "flush_id_get_ok example_making_env"
    by (rule constant_flush_id [of _ 1]) (simp add: example_making_env_def example_passing_env_def example_out_env_def)
  show "co_create_ok example_making_env" by (simp add: co_create_ok_def example_making_env_def example_in_env_def)
  have "\<exists>buf sz m b. oe_run_logs example_making_env proc evc w = ((0, buf, sz), w\<lparr>iw_mem := m\<rparr>) \<and> sz \<noteq> 0 \<and> buf \<noteq> NULL \<and>
      blocks (iw_mem w) buf = None \<and> blocks m = (blocks (iw_mem w))(buf \<mapsto> b)" if "blocks (iw_mem w) 9500 = None" for w
    using that by (intro exI [of _ 9500] exI [of _ 64] exI [of _ "(iw_mem w)\<lparr>blocks := (blocks (iw_mem w))(9500 \<mapsto> replicate 64 (Some 0))\<rparr>"]
      exI [of _ "replicate 64 (Some 0)"]) (simp add: example_making_env_def)
  then show "makes_logs example_making_env proc evc"
    unfolding makes_logs_def by (simp add: example_making_env_def example_passing_env_def)
  show "chunk_functions_ok (\<lambda>q c. {}) example_making_env"
    using example_chunk_functions unfolding chunk_functions_ok_def example_making_env_def by simp
  show "chunk_blocks_exact (\<lambda>q c. {}) example_making_env"
    by (auto simp: chunk_blocks_exact_def example_making_env_def example_passing_env_def os_update_def split: if_splits)
qed

theorem processed_flush_create_safe_witness:
  "(\<exists>w'. flb_output_flush_create example_making_env 3500 0 3700 3000 example_logs_world = Some (NULL, w') \<and>
      blocks (iw_mem w') = blocks (iw_mem example_logs_world)) \<or>
   (\<exists>p c f ch w'. p \<noteq> NULL \<and> flb_output_flush_create example_making_env 3500 0 3700 3000 example_logs_world =
          map_option (Pair p) (output_params_set example_making_env p c 3500 0 0 3000 w') \<and>
      os_flushes (iw_ext w') p = Some f \<and> os_chunks (iw_ext w') (of_processed_event_chunk f) = Some ch)"
proof -
  let ?t = "zero_flb_task\<lparr>tk_id := 5, tk_event_chunk := 3800\<rparr>"
  have w: "os_tasks (iw_ext example_logs_world) 3500 = Some ?t"
    "os_chunks (iw_ext example_logs_world) (tk_event_chunk ?t) = Some example_logs"
    "ec_type example_logs = FLB_EVENT_TYPE_LOGS"
    "os_outputs (iw_ext example_logs_world) 3700 = Some example_output" "flush_home example_making_env example_output example_logs_world (oi_flush_list example_output)"
    "iw_configs example_logs_world 3000 = Some zero_flb_config"
    by (simp_all add: example_logs_world_def example_out_world_def example_in_world_def example_out_state_def os_update_def
      zero_flb_output_instance_def flush_home_def c_consts)
  have "iw_links example_logs_world = iw_links example_out_world" by (simp add: example_logs_world_def os_update_def)
  then have d: "dll (iw_links example_logs_world) (oi_flush_list example_output) []" using example_out_links(2) by simp
  have "oi_p example_output = 0" "oi_context example_output = 0" by (simp_all add: zero_flb_output_instance_def)
  note r = processed_flush_create_safe [OF example_making_ok(1,2) example_logs_links example_making_ok(3,4) w d example_making_ok(5-7),
    of 0, unfolded this]
  then show ?thesis by blast
qed

end
