(* ===== verification/Flb_Contexts.thy ===== *)
theory Flb_Contexts
  imports Flb_Processed
begin

text \<open>
  Creating a flush whose metrics or traces go through a processor (\<^verbatim>\<open>flb_output_flush_create\<close> of
  \<^verbatim>\<open>fluent-bit/flb_output.h\<close>, the branches of the metrics and of the traces): the loop of \<open>Flb_Serialize\<close>
  composed with the allocation of its buffer, the creation of the chunk, every release and the start of the
  coroutine in \<open>Flb_Output\<close>.
\<close>

section \<open>The loop changes its buffer only\<close>

definition ser_live :: "'y ser \<Rightarrow> bool" where
  "ser_live s \<longleftrightarrow> ser_buf s \<noteq> NULL \<and> blocks (ser_mem s) (ser_buf s) \<noteq> None"

abbreviation ser_rest :: "'y ser \<Rightarrow> ptr \<rightharpoonup> u8 option list" where
  "ser_rest s \<equiv> (blocks (ser_mem s))(ser_buf s := None)"

definition outcome_ser :: "'y ser_outcome \<Rightarrow> 'y ser" where
  "outcome_ser r = (case r of Stop ok s \<Rightarrow> s | Continue off s \<Rightarrow> s)"

lemma ser_inv_live: "ser_inv bs s \<Longrightarrow> ser_live s"
  by (auto simp: ser_inv_def ser_live_def)

lemma realloc_rest:
  assumes "flb_realloc al p sz m = Some (q, m')" "p \<noteq> NULL" "q \<noteq> NULL" "fresh_allocator al" "blocks m p \<noteq> None"
  shows "blocks m' q \<noteq> None \<and> (blocks m')(q := None) = (blocks m)(p := None)"
  using assms by (auto simp: flb_realloc_def realloc_def Let_def fresh_allocator_def fun_eq_iff split: if_splits)

lemma memcpy_rest:
  "memcpy_to p off bs m = Some m' \<Longrightarrow> blocks m' p \<noteq> None \<and> (blocks m')(p := None) = (blocks m)(p := None)"
  by (auto simp: memcpy_to_def split: option.splits if_splits)

lemma ser_append_rest:
  assumes al: "fresh_allocator al" and live: "ser_live s" and r: "ser_append lib al buf bytes off s = Some r"
  shows "ser_live (outcome_ser r) \<and> ser_rest (outcome_ser r) = ser_rest s"
proof (cases "ser_off s + of_nat (length bytes) > ser_size s")
  case False
  then show ?thesis using r live memcpy_rest
    by (fastforce simp: ser_append_def Let_def ser_live_def outcome_ser_def split: Option.bind_splits)
next
  case True
  obtain q m where q: "flb_realloc al (ser_buf s) (ser_size s + of_nat (length bytes)) (ser_mem s) = Some (q, m)"
    using r True by (auto simp: ser_append_def Let_def split: Option.bind_splits)
  show ?thesis
  proof (cases "q = NULL")
    case True
    then have "blocks m = blocks (ser_mem s)"
      using q live by (auto simp: flb_realloc_def realloc_def Let_def ser_live_def split: if_splits)
    then show ?thesis using r q True \<open>ser_size s < _\<close> live
      by (auto simp: ser_append_def Let_def ser_live_def outcome_ser_def)
  next
    case False
    then have "blocks m q \<noteq> None \<and> (blocks m)(q := None) = ser_rest s"
      using realloc_rest [OF q _ False al] live by (simp add: ser_live_def)
    then show ?thesis using r q False \<open>ser_size s < _\<close> memcpy_rest
      by (fastforce simp: ser_append_def Let_def ser_live_def outcome_ser_def split: Option.bind_splits)
  qed
qed

lemma ser_step_rest:
  assumes al: "fresh_allocator al" and live: "ser_live s" and r: "ser_step lib al data off s = Some r"
  shows "ser_live (outcome_ser r) \<and> ser_rest (outcome_ser r) = ser_rest s"
proof -
  have "ser_live (s\<lparr>ser_lib := y\<rparr>)" for y using live by (simp add: ser_live_def)
  note app = ser_append_rest [OF al this]
  show ?thesis using r live app
    by (fastforce simp: ser_step_def Let_def case_prod_beta ser_live_def outcome_ser_def split: if_splits)
qed

lemma ser_loop_rest:
  assumes "ser_loop lib al data off s = Some t" "fresh_allocator al" "ser_live s"
  shows "ser_rest (snd t) = ser_rest s"
proof -
  have "fresh_allocator al \<longrightarrow> ser_live s \<longrightarrow> ser_rest (snd t) = ser_rest s"
    using assms(1)
  proof (rule ser_loop.raw_induct [rotated], intro impI)
    fix loop lib al data off and s :: "'a ser" and t
    assume IH: "\<And>lib al data off s t. loop lib al data off s = Some t \<Longrightarrow>
        fresh_allocator al \<longrightarrow> ser_live s \<longrightarrow> ser_rest (snd t) = ser_rest s"
      and t: "Option.bind (ser_step lib al data off s) (\<lambda>r. if is_stop r then Some (stop_ok r, stop_ser r)
        else loop lib al data (next_offset r) (next_ser r)) = Some t"
      and al: "fresh_allocator al" and live: "ser_live s"
    obtain r where r: "ser_step lib al data off s = Some r"
      "(if is_stop r then Some (stop_ok r, stop_ser r) else loop lib al data (next_offset r) (next_ser r)) = Some t"
      using t by (auto split: Option.bind_splits)
    note st = ser_step_rest [OF al live r(1)]
    show "ser_rest (snd t) = ser_rest s"
    proof (cases r)
      case Stop
      then show ?thesis using r(2) st by (auto simp: outcome_ser_def)
    next
      case (Continue off' s')
      then show ?thesis using r(2) st IH [of lib al data off' s' t] al by (fastforce simp: outcome_ser_def)
    qed
  qed
  then show ?thesis using assms(2,3) by blast
qed

section \<open>The branches of the metrics and of the traces\<close>

text \<open>The block of the chunk starts with the encodings that the reference loop makes of \<open>data\<close>.\<close>

definition holds_encodings :: "'y ctx_lib \<Rightarrow> u8 list \<Rightarrow> 'y \<Rightarrow> flb_event_chunk \<Rightarrow> mem \<Rightarrow> bool" where
  "holds_encodings lib data y ch m \<longleftrightarrow> (\<exists>bs y' b. ref_loop lib data 0 y = Some (bs, y') \<and> bs \<noteq> [] \<and>
     blocks m (ec_data ch) = Some b \<and> take (length bs) b = map Some bs)"

text \<open>
  From \<open>y\<close> to \<open>y'\<close> the contexts left behind in the library, however it keeps them, are those its processor rejected: all
  of them, or those of the turns that were made.
\<close>

definition rejected_left :: "'y ctx_lib \<Rightarrow> u8 list \<Rightarrow> bool \<Rightarrow> 'y \<Rightarrow> 'y \<Rightarrow> bool" where
  "rejected_left lib data all y y' \<longleftrightarrow> (\<forall>ctxs bufs. lib_balanced lib ctxs bufs \<longrightarrow>
     (\<exists>n \<le> length data. (all \<longrightarrow> n = length data) \<and> contexts_left ctxs bufs (rejects lib data n 0 y) y y'))"

lemma rejected_left_none [simp]: "rejected_left lib data False y y"
  by (force simp: rejected_left_def intro: exI [of _ 0])

lemma rejected_left_some: "rejected_left lib data ok y y' \<Longrightarrow> rejected_left lib data False y y'"
  unfolding rejected_left_def by blast

text \<open>\<^verbatim>\<open>flb_event_chunk_create\<close> records the size it is given.\<close>

definition chunk_size_kept :: "'y out_env \<Rightarrow> bool" where
  "chunk_size_kept env \<longleftrightarrow> (\<forall>ty n tag buf sz w q w' c. oe_event_chunk_create env ty n tag buf sz w = (q, w') \<longrightarrow> q \<noteq> NULL \<longrightarrow>
     os_chunks (iw_ext w') q = Some c \<longrightarrow> ec_size c = sz)"

text \<open>What the branch makes of the chunk \<open>e\<close>, whose bytes are \<open>data\<close>, with the libraries in the state \<open>y0\<close>.\<close>

definition contexts_made :: "'y ctx_lib \<Rightarrow> 'y out_env \<Rightarrow> u8 list \<Rightarrow> flb_event_chunk \<Rightarrow> 'y \<Rightarrow> flb_event_chunk \<Rightarrow> mem \<Rightarrow> 'y \<Rightarrow> bool" where
  "contexts_made lib env data e y0 ch m y \<longleftrightarrow> holds_encodings lib data y0 ch m \<and> rejected_left lib data True y0 y \<and>
     (\<exists>bs. ref_loop lib data 0 y0 = Some (bs, y) \<and>
        (chunk_size_kept env \<longrightarrow> length bs \<le> unat (ec_size ch) \<and> unat (ec_size e) \<le> unat (ec_size ch)))"

lemma read_bytes_frame: "blocks m' p = blocks m p \<Longrightarrow> read_bytes p n m' = read_bytes p n m"
  by (simp add: read_bytes_def)

lemma read_bytes_length: "read_bytes p n m = Some data \<Longrightarrow> length data = n"
  by (auto simp: read_bytes_def split: option.splits if_splits)

text \<open>The loop on a new buffer of a flush: it returns, and the flush then has one buffer of its own.\<close>

lemma ser_loop_buffered:
  assumes al: "fresh_allocator al" and lib: "lib_progress lib data" "lib_bounded lib B"
    and b: "buf \<noteq> NULL" "blocks (iw_mem w1) buf = None" "blocks m = (blocks (iw_mem w1))(buf \<mapsto> b)" "unat sz \<le> length b"
    and fits: "unat sz + Suc (length data) * B < 2 ^ 64"
  shows "\<exists>ok s bs b'. ser_loop lib al data 0 \<lparr>ser_mem = m, ser_buf = buf, ser_size = sz, ser_off = 0, ser_lib = y\<rparr> = Some (ok, s) \<and>
    buffered (ser_buf s) w1 (os_update (\<lambda>o'. o'\<lparr>os_lib := ser_lib s\<rparr>) (w1\<lparr>iw_mem := ser_mem s\<rparr>)) \<and>
    blocks (ser_mem s) (ser_buf s) = Some b' \<and> take (length bs) b' = map Some bs \<and> (ser_off s = 0 \<longleftrightarrow> bs = []) \<and>
    length bs \<le> unat (ser_size s) \<and> unat sz \<le> unat (ser_size s) \<and> rejected_left lib data ok y (ser_lib s) \<and>
    (ok \<longrightarrow> ref_loop lib data 0 y = Some (bs, ser_lib s))"
proof -
  let ?s = "\<lparr>ser_mem = m, ser_buf = buf, ser_size = sz, ser_off = 0, ser_lib = y\<rparr>"
  have i: "ser_inv [] ?s" using b by (simp add: ser_inv_def)
  have "unat (ser_size ?s) + Suc (length data - unat (0 :: size_t)) * B < 2 ^ 64" using fits by simp
  from ser_loop_inv [OF al lib i this] obtain ok s bs where
    s: "ser_loop lib al data 0 ?s = Some (ok, s)" "ser_inv bs s" "ok \<longrightarrow> ref_loop lib data 0 y = Some (bs, ser_lib s)"
    "unat sz \<le> unat (ser_size s)" by auto
  have left: "rejected_left lib data ok y (ser_lib s)"
    using ser_loop_contexts [OF s(1) _ lib(1)] unfolding rejected_left_def by fastforce
  obtain b' where b': "ser_buf s \<noteq> NULL" "blocks (ser_mem s) (ser_buf s) = Some b'" "take (length bs) b' = map Some bs"
    "unat (ser_off s) = length bs" "length bs \<le> unat (ser_size s)" using s(2) by (auto simp: ser_inv_def)
  have "ser_rest s = (blocks m)(buf := None)" using ser_loop_rest [OF s(1) al ser_inv_live [OF i]] by simp
  then have rest: "ser_rest s = blocks (iw_mem w1)" using b(2,3) by (simp add: fun_upd_idem)
  then have "blocks (iw_mem w1) (ser_buf s) = None" by (metis fun_upd_same)
  moreover have "blocks (ser_mem s) = (blocks (iw_mem w1))(ser_buf s \<mapsto> b')"
    using b'(2) by (simp add: rest [symmetric] fun_upd_idem)
  moreover have "ser_off s = 0 \<longleftrightarrow> bs = []" using b'(4) by (metis length_0_conv unat_0 unat_eq_zero)
  ultimately show ?thesis using s(1,3,4) b' left
    by (intro exI [of _ ok] exI [of _ s] exI [of _ bs] exI [of _ b']) (auto simp: buffered_def os_update_def)
qed

lemma buffered_set_processed:
  assumes "buffered buf w1 w'" "os_flushes (iw_ext w') p = Some f"
  shows "\<exists>w''. set_processed p q w' = Some w'' \<and> buffered buf w1 w'' \<and> os_lib (iw_ext w'') = os_lib (iw_ext w')"
  using assms by (simp add: set_processed_def buffered_def os_update_def)

lemma flush_contexts_processes:
  assumes al: "fresh_allocator (env_alloc (oe_in env))" and own: "chunk_functions_ok own env" "chunk_blocks_exact own env"
    and fr: "fresh_flush w task o_ins config p c w1" and evc: "os_chunks (iw_ext w) evc = Some e"
    and data: "read_bytes (ec_data e) (unat (ec_size e)) (iw_mem w) = Some data"
    and lib: "lib_progress lib data" "lib_bounded lib B"
    and fits: "2 * unat (ec_size e) < 2 ^ 64" "unat (ec_size e) + Suc (unat (ec_size e)) * B < 2 ^ 64"
  shows "given_up (rejected_left lib data False (os_lib (iw_ext w))) w (flush_contexts lib env evc c p w1) \<or>
    (\<exists>w2 q ch. flush_contexts lib env evc c p w1 = Some (True, w2) \<and> processed_flush own w w1 p c q ch w2 \<and>
       contexts_made lib env data e (os_lib (iw_ext w)) ch (iw_mem w2) (os_lib (iw_ext w2)))"
proof -
  let ?al = "env_alloc (oe_in env)" and ?y = "os_lib (iw_ext w)"
  let ?stop = "\<lambda>buf w. do { w \<leftarrow> flush_abort env c p w; w \<leftarrow> free_buf buf w; Some (False, w) }"
  obtain bp bc f where b: "p \<noteq> c" "blocks (iw_mem w) p = None" "blocks (iw_mem w) c = None"
    "blocks (iw_mem w1) = (blocks (iw_mem w))(p \<mapsto> bp, c \<mapsto> bc)" "os_chunks (iw_ext w1) evc = Some e"
    "os_flushes (iw_ext w1) p = Some f" "os_lib (iw_ext w1) = ?y"
    using fr evc unfolding fresh_flush_def by auto
  obtain buf m where pm: "flb_calloc ?al (ec_size e * 2) 1 (iw_mem w1) = (buf, m)" by fastforce
  show ?thesis
  proof (cases "buf = NULL")
    case True
    then have "blocks m = blocks (iw_mem w1)" using flb_calloc_blocks [OF pm al] by simp
    moreover have "(blocks (iw_mem w1))(c := None, p := None) = blocks (iw_mem w)" using b(1-4) by (auto simp: fun_eq_iff)
    ultimately show ?thesis using flush_abort_fresh [OF fr, of "w1\<lparr>iw_mem := m\<rparr>" env] pm True b(1,4,5,7)
      by (auto simp: flush_contexts_def given_up_def)
  next
    case False
    have "unat (ec_size e) * unat (2 :: size_t) < 2 ^ LENGTH(64)" using fits(1) by simp
    then have sz: "unat (ec_size e * 2) = 2 * unat (ec_size e)" by (subst unat_mult_lem [THEN iffD1]) simp_all
    have m: "blocks (iw_mem w1) buf = None" "blocks m = (blocks (iw_mem w1))(buf \<mapsto> replicate (2 * unat (ec_size e)) (Some 0))"
      using flb_calloc_blocks [OF pm al] False sz by simp_all
    have "blocks m (ec_data e) = blocks (iw_mem w) (ec_data e)"
      using data b(2-4) m by (auto simp: read_bytes_def split: option.splits if_splits)
    then have rd: "read_bytes (ec_data e) (unat (ec_size e)) m = Some data" by (rule read_bytes_frame [THEN trans, OF _ data])
    have "unat (ec_size e) + Suc (length data) * B < 2 ^ 64" using fits(2) read_bytes_length [OF data] by simp
    from ser_loop_buffered [OF al lib False m _ this, of ?y] obtain ok s bs b' where
      s: "ser_loop lib ?al data 0 \<lparr>ser_mem = m, ser_buf = buf, ser_size = ec_size e, ser_off = 0, ser_lib = ?y\<rparr> = Some (ok, s)"
      and bu: "buffered (ser_buf s) w1 (os_update (\<lambda>o'. o'\<lparr>os_lib := ser_lib s\<rparr>) (w1\<lparr>iw_mem := ser_mem s\<rparr>))"
      and bs: "blocks (ser_mem s) (ser_buf s) = Some b'" "take (length bs) b' = map Some bs" "ser_off s = 0 \<longleftrightarrow> bs = []"
        "ok \<longrightarrow> ref_loop lib data 0 ?y = Some (bs, ser_lib s)"
      and left: "length bs \<le> unat (ser_size s)" "unat (ec_size e) \<le> unat (ser_size s)" "rejected_left lib data ok ?y (ser_lib s)"
      by auto
    define w' where "w' = os_update (\<lambda>o'. o'\<lparr>os_lib := ser_lib s\<rparr>) (w1\<lparr>iw_mem := ser_mem s\<rparr>)"
    let ?create = "oe_event_chunk_create env (ec_type e) 0 (ec_tag e) (ser_buf s) (ser_size s) w'"
    have ctx: "flush_contexts lib env evc c p w1 = (if \<not> ok \<or> ser_off s = 0 then ?stop (ser_buf s) w'
        else do { w \<leftarrow> set_processed p (fst ?create) (snd ?create);
                  if fst ?create = NULL then ?stop (ser_buf s) w else Some (True, w) })"
      using pm False rd s b(5,7) by (simp add: flush_contexts_def w'_def case_prod_beta Let_def)
    have fl: "os_flushes (iw_ext w') p = os_flushes (iw_ext w1) p" "iw_mem w' = ser_mem s" "os_lib (iw_ext w') = ser_lib s"
      by (simp_all add: w'_def os_update_def)
    have G: "rejected_left lib data False ?y (os_lib (iw_ext w'))" using left(3) fl(3) rejected_left_some by fastforce
    note bu = bu [folded w'_def]
    show ?thesis
    proof (cases "\<not> ok \<or> ser_off s = 0")
      case True
      then show ?thesis using ctx buffered_abort [where G = "rejected_left lib data False ?y", OF fr bu G] by simp
    next
      case go: False
      from buffered_chunk [OF own fr bu fl(1), of "ec_type e" 0 "ec_tag e" "ser_size s"] show ?thesis
      proof (elim disjE exE conjE)
        assume "?create = (NULL, w')"
        moreover obtain w'' where "set_processed p NULL w' = Some w''" "buffered (ser_buf s) w1 w''" "os_lib (iw_ext w'') = os_lib (iw_ext w')"
          using buffered_set_processed [OF bu] fl(1) b(6) by metis
        ultimately show ?thesis using ctx go G buffered_abort [OF fr, of "ser_buf s" w'' "rejected_left lib data False ?y" env] by simp
      next
        fix q w2 w3 ch
        assume q: "?create = (q, w2)" "q \<noteq> NULL" "set_processed p q w2 = Some w3" "processed_flush own w w1 p c q ch w3"
          "ec_data ch = ser_buf s" "blocks (iw_mem w3) (ser_buf s) = blocks (iw_mem w') (ser_buf s)"
          "os_chunks (iw_ext w2) q = Some ch" "os_lib (iw_ext w3) = os_lib (iw_ext w')"
        have "chunk_size_kept env \<longrightarrow> ec_size ch = ser_size s" using q(1,2,7) unfolding chunk_size_kept_def by blast
        then have "contexts_made lib env data e ?y ch (iw_mem w3) (os_lib (iw_ext w3))"
          using go bs fl q(5,6,8) left by (auto simp: contexts_made_def holds_encodings_def)
        then show ?thesis using ctx go q(1-4) by auto
      qed
    qed
  qed
qed

section \<open>The creation\<close>

lemma contexts_branch:
  assumes fr: "fresh_flush w task o_ins config p c w1" and al: "fresh_allocator (env_alloc (oe_in env))"
    and t: "os_chunks (iw_ext w) evc = Some e"
    and e: "ec_type e = FLB_EVENT_TYPE_METRICS \<and> lib = oe_cmt env (oi_processor ins) \<or>
      ec_type e = FLB_EVENT_TYPE_TRACES \<and> lib = oe_ctr env (oi_processor ins)"
    and active: "\<forall>w. oe_processor_is_active env (oi_processor ins) w"
    and data: "read_bytes (ec_data e) (unat (ec_size e)) (iw_mem w) = Some data"
    and lib: "lib_progress lib data" "lib_bounded lib B"
    and fits: "2 * unat (ec_size e) < 2 ^ 64" "unat (ec_size e) + Suc (unat (ec_size e)) * B < 2 ^ 64"
    and own: "chunk_functions_ok own env" "chunk_blocks_exact own env"
  shows "given_up (rejected_left lib data False (os_lib (iw_ext w))) w (flush_process env ins evc c p w1) \<or>
    (\<exists>w2 q ch. flush_process env ins evc c p w1 = Some (True, w2) \<and> processed_flush own w w1 p c q ch w2 \<and>
       contexts_made lib env data e (os_lib (iw_ext w)) ch (iw_mem w2) (os_lib (iw_ext w2)))"
proof -
  have "os_chunks (iw_ext w1) evc = Some e" using fr t by (simp add: fresh_flush_def)
  then have "flush_process env ins evc c p w1 = flush_contexts lib env evc c p w1"
    using e active by (auto simp: flush_process_def flush_metrics_def flush_traces_def c_consts)
  then show ?thesis using flush_contexts_processes [OF al own fr t data lib fits] by simp
qed

lemma flush_create_contexts:
  assumes al: "fresh_allocator (env_alloc (oe_in env))" "sep_allocator (env_alloc (oe_in env))"
    and nb: "nodes_in_blocks (iw_links w) (iw_mem w)" and ids: "flush_id_get_ok env" and co: "co_create_ok env"
    and t: "os_tasks (iw_ext w) task = Some t" "os_chunks (iw_ext w) (tk_event_chunk t) = Some e"
    and e: "ec_type e = FLB_EVENT_TYPE_METRICS \<and> lib = oe_cmt env (oi_processor ins) \<or>
      ec_type e = FLB_EVENT_TYPE_TRACES \<and> lib = oe_ctr env (oi_processor ins)"
    and data: "read_bytes (ec_data e) (unat (ec_size e)) (iw_mem w) = Some data"
    and ins: "os_outputs (iw_ext w) o_ins = Some ins" "flush_home env ins w lst"
    and cf: "iw_configs w config = Some cf" "dll (iw_links w) lst xs"
    and active: "\<forall>w. oe_processor_is_active env (oi_processor ins) w"
    and lib: "lib_progress lib data" "lib_bounded lib B"
    and fits: "2 * unat (ec_size e) < 2 ^ 64" "unat (ec_size e) + Suc (unat (ec_size e)) * B < 2 ^ 64"
    and own: "chunk_functions_ok own env" "chunk_blocks_exact own env"
  shows "(\<exists>w'. flb_output_flush_create env task i_ins o_ins config w = Some (NULL, w') \<and>
        blocks (iw_mem w') = blocks (iw_mem w) \<and> iw_links w' = iw_links w \<and>
        rejected_left lib data False (os_lib (iw_ext w)) (os_lib (iw_ext w'))) \<or>
     (\<exists>p c f ch w'. p \<noteq> NULL \<and> flb_output_flush_create env task i_ins o_ins config w =
          map_option (Pair p) (output_params_set env p c task (oi_p ins) (oi_context ins) config w') \<and>
        dll (iw_links w') lst (xs @ [p + flb_output_flush_head_off]) \<and>
        os_flushes (iw_ext w') p = Some f \<and> of_task f = task \<and> of_o_ins f = o_ins \<and> of_coro f = c \<and>
        os_chunks (iw_ext w') (of_processed_event_chunk f) = Some ch \<and>
        blocks (iw_mem w) (ec_data ch) = None \<and> blocks (iw_mem w') (ec_data ch) \<noteq> None \<and>
        contexts_made lib env data e (os_lib (iw_ext w)) ch (iw_mem w') (os_lib (iw_ext w')) \<and>
        flush_holds own (blocks (iw_mem w)) p c w')"
proof -
  have br: "given_up (rejected_left lib data False (os_lib (iw_ext w))) w (flush_process env (ins\<lparr>oi_flush_id := k\<rparr>) (tk_event_chunk t) c p w1) \<or>
      (\<exists>w2 q ch. flush_process env (ins\<lparr>oi_flush_id := k\<rparr>) (tk_event_chunk t) c p w1 = Some (True, w2) \<and>
         processed_flush own w w1 p c q ch w2 \<and> contexts_made lib env data e (os_lib (iw_ext w)) ch (iw_mem w2) (os_lib (iw_ext w2)))"
    if fr: "fresh_flush w task o_ins config p c w1" for p c w1 k
    using contexts_branch [OF fr al(1) t(2) _ _ data lib fits own, of "ins\<lparr>oi_flush_id := k\<rparr>"] e active by simp
  have G: "rejected_left lib data False (os_lib (iw_ext w)) y" if "contexts_made lib env data e (os_lib (iw_ext w)) ch m y" for ch m y
    using that rejected_left_some [of lib data True] by (simp add: contexts_made_def)
  show ?thesis
    by (rule flush_create_processed [where R = "contexts_made lib env data e (os_lib (iw_ext w))", OF al nb ids co t ins cf own(1) br rejected_left_none G])
qed

text \<open>
  C13: creating a flush with a processor of metrics or traces.  For every decoder that makes progress and whichever
  allocation, step of the library or stack creation fails, \<^verbatim>\<open>flb_output_flush_create\<close> returns: with null, every block
  it took from the agent's heap released and the links as before, or by handing over to the new coroutine (as in the creation
  without a processor: the switch is lost when the block of the parameters cannot be allocated) with the flush linked and bound to a processed chunk whose data, a block of its own, starts with the encodings of the contexts the
  processor accepted, in order.  Of the library's own objects, no encoding buffer stays behind, and of the contexts
  exactly those the processor rejected: all of them in the second case, in the first those of the turns that were made.
\<close>

theorem context_flush_create_safe:
  assumes al: "fresh_allocator (env_alloc (oe_in env))" "sep_allocator (env_alloc (oe_in env))"
    and nb: "nodes_in_blocks (iw_links w) (iw_mem w)" and ids: "flush_id_get_ok env" and co: "co_create_ok env"
    and t: "os_tasks (iw_ext w) task = Some t" "os_chunks (iw_ext w) (tk_event_chunk t) = Some e"
    and e: "ec_type e = FLB_EVENT_TYPE_METRICS \<and> lib = oe_cmt env (oi_processor ins) \<or>
      ec_type e = FLB_EVENT_TYPE_TRACES \<and> lib = oe_ctr env (oi_processor ins)"
    and data: "read_bytes (ec_data e) (unat (ec_size e)) (iw_mem w) = Some data"
    and ins: "os_outputs (iw_ext w) o_ins = Some ins" "flush_home env ins w lst"
    and cf: "iw_configs w config = Some cf" "dll (iw_links w) lst xs"
    and active: "\<forall>w. oe_processor_is_active env (oi_processor ins) w"
    and lib: "lib_progress lib data" "lib_bounded lib B"
    and fits: "2 * unat (ec_size e) < 2 ^ 64" "unat (ec_size e) + Suc (unat (ec_size e)) * B < 2 ^ 64"
    and own: "chunk_functions_ok own env" "chunk_blocks_exact own env"
  shows "(\<exists>w'. flb_output_flush_create env task i_ins o_ins config w = Some (NULL, w') \<and>
        blocks (iw_mem w') = blocks (iw_mem w) \<and> iw_links w' = iw_links w \<and>
        rejected_left lib data False (os_lib (iw_ext w)) (os_lib (iw_ext w'))) \<or>
     (\<exists>p c f ch w'. p \<noteq> NULL \<and> flb_output_flush_create env task i_ins o_ins config w =
          map_option (Pair p) (output_params_set env p c task (oi_p ins) (oi_context ins) config w') \<and>
        dll (iw_links w') lst (xs @ [p + flb_output_flush_head_off]) \<and>
        os_flushes (iw_ext w') p = Some f \<and> of_task f = task \<and> of_o_ins f = o_ins \<and> of_coro f = c \<and>
        os_chunks (iw_ext w') (of_processed_event_chunk f) = Some ch \<and> blocks (iw_mem w) (ec_data ch) = None \<and>
        holds_encodings lib data (os_lib (iw_ext w)) ch (iw_mem w') \<and>
        rejected_left lib data True (os_lib (iw_ext w)) (os_lib (iw_ext w')) \<and> flush_holds own (blocks (iw_mem w)) p c w')"
  using flush_create_contexts [OF al nb ids co t e data ins cf active lib fits own, of i_ins]
  unfolding contexts_made_def by blast

text \<open>
  C36: a rejected context leaks, and the new chunk is given the wrong size.  Whenever the creation comes to hand over, the
  libraries still hold every context the processor rejected, although nothing of the agent refers to them any more, and no
  other; and the processed chunk is recorded with at least the size of the old chunk, however few bytes \<open>bs\<close> the
  encodings are.
\<close>

theorem rejected_context_leaks:
  assumes al: "fresh_allocator (env_alloc (oe_in env))" "sep_allocator (env_alloc (oe_in env))"
    and nb: "nodes_in_blocks (iw_links w) (iw_mem w)" and ids: "flush_id_get_ok env" and co: "co_create_ok env"
    and t: "os_tasks (iw_ext w) task = Some t" "os_chunks (iw_ext w) (tk_event_chunk t) = Some e"
    and e: "ec_type e = FLB_EVENT_TYPE_METRICS \<and> lib = oe_cmt env (oi_processor ins) \<or>
      ec_type e = FLB_EVENT_TYPE_TRACES \<and> lib = oe_ctr env (oi_processor ins)"
    and data: "read_bytes (ec_data e) (unat (ec_size e)) (iw_mem w) = Some data"
    and ins: "os_outputs (iw_ext w) o_ins = Some ins" "flush_home env ins w lst"
    and cf: "iw_configs w config = Some cf" "dll (iw_links w) lst xs"
    and active: "\<forall>w. oe_processor_is_active env (oi_processor ins) w"
    and lib: "lib_progress lib data" "lib_bounded lib B"
    and fits: "2 * unat (ec_size e) < 2 ^ 64" "unat (ec_size e) + Suc (unat (ec_size e)) * B < 2 ^ 64"
    and own: "chunk_functions_ok own env" "chunk_blocks_exact own env"
    and counts: "lib_balanced lib ctxs bufs" and sz: "chunk_size_kept env"
  shows "(\<exists>w'. flb_output_flush_create env task i_ins o_ins config w = Some (NULL, w')) \<or>
     (\<exists>p c f ch w' bs b rs. p \<noteq> NULL \<and> flb_output_flush_create env task i_ins o_ins config w =
          map_option (Pair p) (output_params_set env p c task (oi_p ins) (oi_context ins) config w') \<and>
        rs = rejects lib data (length data) 0 (os_lib (iw_ext w)) \<and> distinct rs \<and> set rs \<inter> ctxs (os_lib (iw_ext w)) = {} \<and>
        ctxs (os_lib (iw_ext w')) = ctxs (os_lib (iw_ext w)) \<union> set rs \<and> bufs (os_lib (iw_ext w')) = bufs (os_lib (iw_ext w)) \<and>
        os_flushes (iw_ext w') p = Some f \<and> os_chunks (iw_ext w') (of_processed_event_chunk f) = Some ch \<and>
        blocks (iw_mem w') (ec_data ch) = Some b \<and> take (length bs) b = map Some bs \<and>
        ref_loop lib data 0 (os_lib (iw_ext w)) = Some (bs, os_lib (iw_ext w')) \<and>
        max (length bs) (unat (ec_size e)) \<le> unat (ec_size ch))"
  using flush_create_contexts [OF al nb ids co t e data ins cf active lib fits own, of i_ins]
proof (elim disjE exE conjE)
  fix p c f ch w'
  assume r: "p \<noteq> NULL" "flb_output_flush_create env task i_ins o_ins config w =
      map_option (Pair p) (output_params_set env p c task (oi_p ins) (oi_context ins) config w')"
    "os_flushes (iw_ext w') p = Some f" "os_chunks (iw_ext w') (of_processed_event_chunk f) = Some ch"
    and made: "contexts_made lib env data e (os_lib (iw_ext w)) ch (iw_mem w') (os_lib (iw_ext w'))"
  obtain bs b where bs: "blocks (iw_mem w') (ec_data ch) = Some b" "take (length bs) b = map Some bs"
    "ref_loop lib data 0 (os_lib (iw_ext w)) = Some (bs, os_lib (iw_ext w'))" "max (length bs) (unat (ec_size e)) \<le> unat (ec_size ch)"
    using made sz by (auto simp: contexts_made_def holds_encodings_def)
  have "contexts_left ctxs bufs (rejects lib data (length data) 0 (os_lib (iw_ext w))) (os_lib (iw_ext w)) (os_lib (iw_ext w'))"
    using made counts by (auto simp: contexts_made_def rejected_left_def)
  then show ?thesis using r bs unfolding contexts_left_def by blast
qed blast

text \<open>
  The example with a chunk of metrics that is two contexts: the processor accepts the first, which is encoded as two bytes, and rejects
  the second.  The output is run by a worker.
\<close>

definition whole_lib :: "lib_objects ctx_lib" where
  "whole_lib = \<lparr>lib_success = 0,
     lib_decode = (\<lambda>data off (ctxs, bufs). if unat off < length data \<and> length data < 2 ^ 32 \<and> (if off = 0 then 700 else 701) \<notin> ctxs
        then if off = 0 then ((0, 700, 1), (insert 700 ctxs, bufs)) else ((0, 701, of_nat (length data)), (insert 701 ctxs, bufs))
        else ((1, 0, off), (ctxs, bufs))),
     lib_process = (\<lambda>ctx y. (if ctx = 701 then - 1 else 0, y)),
     lib_encode = (\<lambda>ctx (ctxs, bufs). if 800 \<notin> bufs then ((0, 800, [1, 2]), (ctxs, insert 800 bufs)) else ((1, 0, []), (ctxs, bufs))),
     lib_destroy = (\<lambda>ctx (ctxs, bufs). (ctxs - {ctx}, bufs)), lib_encode_destroy = (\<lambda>buf (ctxs, bufs). (ctxs, bufs - {buf}))\<rparr>"

lemma whole_lib_ok: "lib_progress whole_lib data" "lib_bounded whole_lib 2" "lib_balanced whole_lib fst snd"
proof -
  have "unat (of_nat (length data) :: size_t) = length data" if "length data < 2 ^ 32"
    using that by (simp add: unat_of_nat)
  then show "lib_progress whole_lib data" by (auto simp: lib_progress_def whole_lib_def Suc_le_eq split: if_splits)
  show "lib_bounded whole_lib 2" by (auto simp: lib_bounded_def whole_lib_def split: if_splits)
  show "lib_balanced whole_lib fst snd" unfolding lib_balanced_def
    by (intro conjI allI impI) (auto simp: whole_lib_def split: if_splits prod.splits)
qed

definition example_metrics_env :: "lib_objects out_env" where
  "example_metrics_env = example_making_env\<lparr>oe_cmt := (\<lambda>p. whole_lib)\<rparr>"

definition example_metrics_world :: "lib_objects out_world" where
  "example_metrics_world = os_update (\<lambda>s. s\<lparr>os_chunks := [3800 \<mapsto> example_logs\<lparr>ec_type := 1\<rparr>],
     os_outputs := [3700 \<mapsto> zero_flb_output_instance\<lparr>oi_id := 3, oi_is_threaded := FLB_TRUE\<rparr>],
     os_threads := [0 \<mapsto> zero_flb_out_thread_instance\<lparr>ti_flush_list := 512\<rparr>]\<rparr>) example_logs_world"

lemma example_metrics_ok:
  "fresh_allocator (env_alloc (oe_in example_metrics_env))" "sep_allocator (env_alloc (oe_in example_metrics_env))"
  "flush_id_get_ok example_metrics_env" "co_create_ok example_metrics_env"
  "chunk_functions_ok (\<lambda>q c. {}) example_metrics_env" "chunk_blocks_exact (\<lambda>q c. {}) example_metrics_env"
  "\<forall>w. oe_processor_is_active example_metrics_env proc w" "oe_cmt example_metrics_env proc = whole_lib"
  using example_making_ok(1-4,6,7) example_making_ok(5) [of proc 0]
  unfolding flush_id_get_ok_def co_create_ok_def chunk_functions_ok_def chunk_blocks_exact_def makes_logs_def
  by (simp_all add: example_metrics_env_def)

abbreviation example_metrics :: flb_event_chunk where
  "example_metrics \<equiv> example_logs\<lparr>ec_type := 1\<rparr>"

abbreviation example_worker_output :: flb_output_instance where
  "example_worker_output \<equiv> zero_flb_output_instance\<lparr>oi_id := 3, oi_is_threaded := FLB_TRUE\<rparr>"

abbreviation example_task :: flb_task where
  "example_task \<equiv> zero_flb_task\<lparr>tk_id := 5, tk_event_chunk := 3800\<rparr>"

lemma example_metrics_maps:
  "os_tasks (iw_ext example_metrics_world) 3500 = Some example_task"
  "os_chunks (iw_ext example_metrics_world) (tk_event_chunk example_task) = Some example_metrics"
  "ec_type example_metrics = FLB_EVENT_TYPE_METRICS \<and> whole_lib = oe_cmt example_metrics_env (oi_processor example_worker_output) \<or>
   ec_type example_metrics = FLB_EVENT_TYPE_TRACES \<and> whole_lib = oe_ctr example_metrics_env (oi_processor example_worker_output)"
  "read_bytes (ec_data example_metrics) (unat (ec_size example_metrics)) (iw_mem example_metrics_world) = Some (replicate 64 0)"
  "os_outputs (iw_ext example_metrics_world) 3700 = Some example_worker_output"
  "flush_home example_metrics_env example_worker_output example_metrics_world 512"
  "iw_configs example_metrics_world 3000 = Some zero_flb_config" "oi_p example_worker_output = 0" "oi_context example_worker_output = 0"
  by (simp_all add: example_metrics_env_def example_making_env_def example_passing_env_def example_out_env_def
    example_metrics_world_def example_logs_world_def example_out_world_def example_in_world_def
    example_out_state_def os_update_def zero_flb_output_instance_def flush_home_def c_consts read_bytes_def)

lemma example_metrics_links:
  "dll (iw_links example_metrics_world) 512 []" "nodes_in_blocks (iw_links example_metrics_world) (iw_mem example_metrics_world)"
proof -
  have "iw_links example_metrics_world = iw_links example_out_world" "iw_mem example_metrics_world = iw_mem example_logs_world"
    "iw_links example_logs_world = iw_links example_out_world"
    by (simp_all add: example_metrics_world_def example_logs_world_def os_update_def)
  then show "dll (iw_links example_metrics_world) 512 []" "nodes_in_blocks (iw_links example_metrics_world) (iw_mem example_metrics_world)"
    using example_out_links(2) example_logs_links by simp_all
qed

lemma example_metrics_fits:
  "2 * unat (ec_size example_metrics) < 2 ^ 64" "unat (ec_size example_metrics) + Suc (unat (ec_size example_metrics)) * 2 < 2 ^ 64"
  by simp_all

theorem context_flush_create_safe_witness:
  "(\<exists>w'. flb_output_flush_create example_metrics_env 3500 0 3700 3000 example_metrics_world = Some (NULL, w') \<and>
      blocks (iw_mem w') = blocks (iw_mem example_metrics_world)) \<or>
   (\<exists>p c f ch w'. p \<noteq> NULL \<and> flb_output_flush_create example_metrics_env 3500 0 3700 3000 example_metrics_world =
          map_option (Pair p) (output_params_set example_metrics_env p c 3500 0 0 3000 w') \<and>
      os_flushes (iw_ext w') p = Some f \<and> os_chunks (iw_ext w') (of_processed_event_chunk f) = Some ch \<and>
      holds_encodings whole_lib (replicate 64 0) (os_lib (iw_ext example_metrics_world)) ch (iw_mem w') \<and>
      rejected_left whole_lib (replicate 64 0) True (os_lib (iw_ext example_metrics_world)) (os_lib (iw_ext w')))"
  using context_flush_create_safe [OF example_metrics_ok(1,2) example_metrics_links(2) example_metrics_ok(3,4) example_metrics_maps(1-7)
    example_metrics_links(1) example_metrics_ok(7) whole_lib_ok(1,2) example_metrics_fits example_metrics_ok(5,6), of 0,
    unfolded example_metrics_maps(8,9)] by blast

lemma example_metrics_rejects:
  "os_lib (iw_ext example_metrics_world) = ({}, {})" "chunk_size_kept example_metrics_env"
  "rejects whole_lib (replicate 64 0) (length (replicate 64 0 :: u8 list)) 0 ({}, {}) = [701]"
  "ref_loop whole_lib (replicate 64 0) 0 ({}, {}) = Some ([1, 2], ({701}, {}))"
proof -
  show "os_lib (iw_ext example_metrics_world) = ({}, {})"
    by (simp add: example_metrics_world_def example_logs_world_def example_out_world_def example_in_world_def example_out_state_def os_update_def)
  show "chunk_size_kept example_metrics_env"
    by (auto simp: chunk_size_kept_def example_metrics_env_def example_making_env_def example_passing_env_def os_update_def split: if_splits)
  have "rejects whole_lib (replicate 64 0) n 64 y = []" for n y by (cases n) (simp_all add: whole_lib_def split: prod.splits)
  then have "rejects whole_lib (replicate 64 0) (Suc (Suc n)) 0 ({}, {}) = [701]" for n by (simp add: whole_lib_def)
  from this [of 62] show "rejects whole_lib (replicate 64 0) (length (replicate 64 0 :: u8 list)) 0 ({}, {}) = [701]" by simp
  show "ref_loop whole_lib (replicate 64 0) 0 ({}, {}) = Some ([1, 2], ({701}, {}))"
    by (simp add: ref_loop.simps ref_step_def whole_lib_def)
qed

text \<open>In the example the second context stays alive, and the new chunk has at least 64 bytes, of which two were written.\<close>

theorem rejected_context_leaks_witness:
  "(\<exists>w'. flb_output_flush_create example_metrics_env 3500 0 3700 3000 example_metrics_world = Some (NULL, w')) \<or>
   (\<exists>p c f ch w' b. p \<noteq> NULL \<and> flb_output_flush_create example_metrics_env 3500 0 3700 3000 example_metrics_world =
        map_option (Pair p) (output_params_set example_metrics_env p c 3500 0 0 3000 w') \<and>
      os_lib (iw_ext w') = ({701}, {}) \<and> os_flushes (iw_ext w') p = Some f \<and>
      os_chunks (iw_ext w') (of_processed_event_chunk f) = Some ch \<and> blocks (iw_mem w') (ec_data ch) = Some b \<and>
      take 2 b = [Some 1, Some 2] \<and> 64 \<le> unat (ec_size ch))"
  using rejected_context_leaks [OF example_metrics_ok(1,2) example_metrics_links(2) example_metrics_ok(3,4) example_metrics_maps(1-7)
    example_metrics_links(1) example_metrics_ok(7) whole_lib_ok(1,2) example_metrics_fits example_metrics_ok(5,6) whole_lib_ok(3)
    example_metrics_rejects(2), of 0, unfolded example_metrics_maps(8,9) example_metrics_rejects(1,3,4)]
proof (elim disjE exE conjE)
  fix p c f ch w' bs b rs
  assume r: "p \<noteq> NULL" "flb_output_flush_create example_metrics_env 3500 0 3700 3000 example_metrics_world =
        map_option (Pair p) (output_params_set example_metrics_env p c 3500 0 0 3000 w')"
      "os_flushes (iw_ext w') p = Some f" "os_chunks (iw_ext w') (of_processed_event_chunk f) = Some ch"
      "blocks (iw_mem w') (ec_data ch) = Some b"
    and bs: "take (length bs) b = map Some bs" "Some ([1, 2], {701}, {}) = Some (bs, os_lib (iw_ext w'))"
      "max (length bs) (unat (ec_size example_metrics)) \<le> unat (ec_size ch)"
  have "bs = [1, 2]" "os_lib (iw_ext w') = ({701}, {})" using bs(2) by simp_all
  moreover have "take 2 b = [Some 1, Some 2]" using bs(1) \<open>bs = _\<close> by (simp add: numeral_2_eq_2)
  moreover have "64 \<le> unat (ec_size ch)" using bs(3) by simp
  ultimately show ?thesis using r by blast
qed blast

end
