(* ===== verification/Flb_Lifecycle.thy ===== *)
theory Flb_Lifecycle
  imports Flb_Contexts
begin

text \<open>
  The life of a flush (\<^verbatim>\<open>fluent-bit/flb_output.h\<close>): \<^verbatim>\<open>flb_output_flush_create\<close>, the callback of the plugin,
  \<^verbatim>\<open>flb_output_return\<close> and \<^verbatim>\<open>flb_output_flush_destroy\<close> in sequence, with or without a processor.
\<close>

section \<open>The callback and the functions outside\<close>

text \<open>
  While its callback runs, a flush keeps its coroutine, its record and the chunks; the callback and
  the parameters of the thread may leave new blocks \<open>X\<close> behind, apart from those of the chunks.
\<close>

definition callback_kept :: "(ptr \<Rightarrow> flb_event_chunk \<Rightarrow> ptr set) \<Rightarrow> (ptr \<rightharpoonup> u8 option list) \<Rightarrow> ptr \<Rightarrow> ptr \<Rightarrow>
    'y out_world \<Rightarrow> 'y out_world \<Rightarrow> bool" where
  "callback_kept own X p c w v \<longleftrightarrow> map_option co_data (iw_coros v c) = map_option co_data (iw_coros w c) \<and>
     os_flushes (iw_ext v) p = os_flushes (iw_ext w) p \<and> os_chunks (iw_ext v) = os_chunks (iw_ext w) \<and>
     blocks (iw_mem v) = blocks (iw_mem w) ++ X \<and> dom X \<inter> dom (blocks (iw_mem w)) = {} \<and>
     (\<forall>q ch. os_chunks (iw_ext w) q = Some ch \<longrightarrow> dom X \<inter> own q ch = {})"

text \<open>
  Deleting a stack does not touch the state modelled here; preparing a linked flush for its destruction moves
  its node into another list, at most.
\<close>

definition co_delete_ok :: "'y out_env \<Rightarrow> bool" where
  "co_delete_ok env \<longleftrightarrow> (\<forall>co w. env_co_delete (oe_in env) co w = w)"

definition prepare_destroy_ok :: "'y out_env \<Rightarrow> bool" where
  "prepare_destroy_ok env \<longleftrightarrow> (\<forall>q w lst xs. dll (iw_links w) lst xs \<and> q + flb_output_flush_head_off \<in> set xs \<longrightarrow>
     (\<exists>h lst' ys zs. oe_prepare_destroy env q w = w\<lparr>iw_links := h\<rparr> \<and> dll h lst' (ys @ (q + flb_output_flush_head_off) # zs)))"

section \<open>Giving back\<close>

lemma map_add_upd_None: "X a = None \<Longrightarrow> (m ++ X)(a := None) = m(a := None) ++ X"
  by (auto simp: fun_eq_iff map_add_def split: option.splits)

lemma flush_holds_routes [simp]:
  "flush_holds own base p c (os_update (\<lambda>s. s\<lparr>os_routes := rh\<rparr>) v) = flush_holds own base p c v"
  by (simp add: flush_holds_def os_update_def)

lemma flush_holds_extends:
  assumes h: "flush_holds own base p c w" and k: "callback_kept own X p c w v"
  shows "flush_holds own (base ++ X) p c v"
proof -
  obtain f cr where b: "p \<noteq> NULL" "c \<noteq> NULL" "p \<noteq> c" "{p, c} \<subseteq> dom (blocks (iw_mem w))" "iw_coros w c = Some cr" "co_data cr = p"
    "os_flushes (iw_ext w) p = Some f" "of_coro f = c" using h unfolding flush_holds_def by blast
  obtain cr' where v: "iw_coros v c = Some cr'" "co_data cr' = p" "os_flushes (iw_ext v) p = Some f"
    "os_chunks (iw_ext v) = os_chunks (iw_ext w)" "blocks (iw_mem v) = blocks (iw_mem w) ++ X"
    using k b unfolding callback_kept_def by (cases "iw_coros v c") auto
  have x: "X p = None" "X c = None" "dom X \<inter> dom (blocks (iw_mem w)) = {}"
    using k b(4) unfolding callback_kept_def by (auto simp: domIff)
  have dom: "{p, c} \<subseteq> dom (blocks (iw_mem v))" using b(4) v(5) by auto
  show ?thesis
  proof (cases "of_processed_event_chunk f = NULL")
    case True
    then have base: "(blocks (iw_mem w))(c := None, p := None) = base" using h b(7) by (simp add: flush_holds_def)
    have "(blocks (iw_mem v))(c := None, p := None) = base ++ X"
      unfolding base [symmetric] v(5) using x(1,2) by (simp add: map_add_upd_None)
    then show ?thesis using b v dom True by (simp add: flush_holds_def)
  next
    case False
    let ?q = "of_processed_event_chunk f"
    obtain ch where ch: "os_chunks (iw_ext w) ?q = Some ch" "ec_data ch \<notin> {NULL, p, c}" "ec_data ch \<in> dom (blocks (iw_mem w))"
      "{p, c} \<inter> own ?q ch = {}" "((blocks (iw_mem w))(c := None, ec_data ch := None) |` (- own ?q ch))(p := None) = base"
      using h b(7) False by (auto simp: flush_holds_def)
    have xo: "X (ec_data ch) = None" "dom X \<inter> own ?q ch = {}"
      using k ch(1,3) unfolding callback_kept_def by auto
    have "((blocks (iw_mem v))(c := None, ec_data ch := None) |` (- own ?q ch))(p := None) = base ++ X"
    proof
      fix a
      show "(((blocks (iw_mem v))(c := None, ec_data ch := None) |` (- own ?q ch))(p := None)) a = (base ++ X) a"
        using xo x(1,2) unfolding ch(5) [symmetric] v(5)
        by (cases "X a") (auto simp: map_add_def restrict_map_def)
    qed
    then show ?thesis using b v dom ch False by (auto simp: flush_holds_def)
  qed
qed

lemma release_exact:
  assumes h: "flush_holds own base p c w" and f: "os_flushes (iw_ext w) p = Some f"
    and t: "os_tasks (iw_ext w) (of_task f) = Some t" "os_chunks (iw_ext w) (tk_event_chunk t) = Some e"
    and e: "ec_data e \<in> dom base" and own: "chunk_functions_ok own env"
  shows "\<exists>m cs. release_processed env p w = Some (os_update (\<lambda>s. s\<lparr>os_chunks := cs,
       os_flushes := (os_flushes s)(p \<mapsto> f\<lparr>of_processed_event_chunk := NULL\<rparr>)\<rparr>) (w\<lparr>iw_mem := m\<rparr>)) \<and>
     {p, c} \<subseteq> dom (blocks m) \<and> (blocks m)(c := None, p := None) = base"
proof (cases "of_processed_event_chunk f = NULL")
  case True
  have "(os_flushes (iw_ext w))(p \<mapsto> f\<lparr>of_processed_event_chunk := NULL\<rparr>) = os_flushes (iw_ext w)"
    using f True by (cases f) (simp add: fun_upd_idem)
  then show ?thesis using True f h
    by (intro exI [of _ "iw_mem w"] exI [of _ "os_chunks (iw_ext w)"])
      (auto simp: release_processed_def os_update_def flush_holds_def)
next
  case False
  let ?q = "of_processed_event_chunk f"
  obtain ch where ch: "os_chunks (iw_ext w) ?q = Some ch" "ec_data ch \<notin> {NULL, p, c}" "ec_data ch \<in> dom (blocks (iw_mem w))"
    "{p, c} \<inter> own ?q ch = {}" "((blocks (iw_mem w))(c := None, ec_data ch := None) |` (- own ?q ch))(p := None) = base"
    "p \<noteq> c" "{p, c} \<subseteq> dom (blocks (iw_mem w))"
    using h f False by (auto simp: flush_holds_def)
  have ne: "ec_data e \<noteq> ec_data ch" using e unfolding ch(5) [symmetric] by (auto simp: restrict_map_def split: if_splits)
  define m where "m = (iw_mem w)\<lparr>blocks := (blocks (iw_mem w))(ec_data ch := None)\<rparr>"
  have m: "flb_free (ec_data ch) (iw_mem w) = Some m" using ch(2,3) flb_free_live [of "iw_mem w" "ec_data ch"] by (auto simp: m_def)
  obtain m' where m': "oe_event_chunk_destroy env ?q (w\<lparr>iw_mem := m\<rparr>) =
      os_update (\<lambda>s. s\<lparr>os_chunks := (os_chunks s)(?q := None)\<rparr>) (w\<lparr>iw_mem := m'\<rparr>)" "blocks m' = blocks m |` (- own ?q ch)"
    using chunk_destroyD [OF own, of "w\<lparr>iw_mem := m\<rparr>" ?q ch] ch(1) by auto
  have "{p, c} \<subseteq> dom (blocks m')" using ch m'(2) by (auto simp: m_def restrict_map_def)
  moreover have "(blocks m')(c := None, p := None) = base"
    using ch(2,4,6) by (auto simp: ch(5) [symmetric] m'(2) m_def fun_eq_iff restrict_map_def)
  ultimately show ?thesis
    using False f t ne ch(1) m m'(1)
    by (intro exI [of _ m'] exI [of _ "(os_chunks (iw_ext w))(?q := None)"]) (simp add: release_processed_def os_update_def)
qed

lemma destroy_returned:
  assumes h: "p \<noteq> NULL" "c \<noteq> NULL" "p \<noteq> c" "{p, c} \<subseteq> dom (blocks (iw_mem w))" "iw_coros w c = Some cr"
    and f: "os_flushes (iw_ext w) p = Some f" "of_coro f = c" and co: "co_delete_ok env"
    and d: "dll (iw_links w) lst (ys @ (p + flb_output_flush_head_off) # zs)"
  shows "\<exists>w'. flb_output_flush_destroy env p w = Some w' \<and> blocks (iw_mem w') = (blocks (iw_mem w))(c := None, p := None) \<and>
    os_flushes (iw_ext w') p = None \<and> iw_coros w' c = None \<and> dll (iw_links w') lst (ys @ zs) \<and>
    os_written (iw_ext w') = os_written (iw_ext w) \<and> os_lib (iw_ext w') = os_lib (iw_ext w)"
proof -
  let ?n = "p + flb_output_flush_head_off"
  obtain h' where h': "mk_list_del ?n (iw_links w) = Some h'" "dll h' lst (ys @ zs)"
    using mk_list_del_dll [OF d] by blast
  have "?n \<notin> set (lst # ys @ zs)" using d by (auto simp: dll_def)
  then have "dll (h'(?n := None)) lst (ys @ zs)"
    using h'(2) by (subst dll_frame [where h = h']) auto
  moreover have "blocks (iw_mem w) c \<noteq> None" "blocks (iw_mem w) p \<noteq> None" using h(4) by auto
  ultimately show ?thesis using h f h' co
    by (simp add: flb_output_flush_destroy_def flb_coro_destroy_def free_flush_def flb_free_live os_update_def co_delete_ok_def)
qed

text \<open>
  A flush that holds its blocks on top of \<open>base\<close> returns and is destroyed: exactly \<open>base\<close> is left, with the
  blocks of the callback.
\<close>

lemma flush_gives_back:
  assumes h: "flush_holds own base p c w" and k: "callback_kept own X p c w v"
    and f: "os_flushes (iw_ext w) p = Some f" and ins: "os_outputs (iw_ext v) (of_o_ins f) = Some ins"
    and t: "os_tasks (iw_ext v) (of_task f) = Some t" "os_chunks (iw_ext v) (tk_event_chunk t) = Some e" "ec_data e \<in> dom base"
    and r: "routes (iw_links v) (os_routes (iw_ext v)) (of_task f) rs" "return_fd env v ins fd" "pipe_ok env"
    and own: "chunk_functions_ok own env" "co_delete_ok env" "prepare_destroy_ok env"
    and d: "dll (iw_links v) lst xs" "p + flb_output_flush_head_off \<in> set xs"
  shows "\<exists>w1 w2. flb_output_return env ret c v = Some w1 \<and> flb_output_flush_destroy env p w1 = Some w2 \<and>
    blocks (iw_mem w2) = base ++ X \<and> os_flushes (iw_ext w2) p = None \<and> iw_coros w2 c = None \<and>
    os_lib (iw_ext w2) = os_lib (iw_ext v) \<and>
    os_written (iw_ext w2) = os_written (iw_ext v) @ [(fd, FLB_BITS_U64_SET 2 (FLB_TASK_SET ret (word_of_int (tk_id t)) (oi_id ins)))]"
proof -
  note hv = flush_holds_extends [OF h k]
  have fv: "os_flushes (iw_ext v) p = Some f" using k f by (simp add: callback_kept_def)
  obtain cr where cr: "iw_coros v c = Some cr" "co_data cr = p" "p \<noteq> NULL" "c \<noteq> NULL" "p \<noteq> c" "of_coro f = c"
    using hv fv unfolding flush_holds_def by auto
  let ?f = "f\<lparr>of_processed_event_chunk := NULL\<rparr>"
  let ?msg = "(fd, FLB_BITS_U64_SET 2 (FLB_TASK_SET ret (word_of_int (tk_id t)) (oi_id ins)))"
  from flb_output_return_steps [OF cr(1) _ ins t(1) r, of ret] fv cr(2) obtain rh where
    ret: "\<And>m cs. release_processed env p (os_update (\<lambda>s. s\<lparr>os_routes := rh\<rparr>) v) =
        Some (os_update (\<lambda>s. s\<lparr>os_routes := rh, os_chunks := cs, os_flushes := (os_flushes s)(p \<mapsto> ?f)\<rparr>) (v\<lparr>iw_mem := m\<rparr>)) \<Longrightarrow>
      flb_output_return env ret c v = Some (oe_prepare_destroy env p (os_update (\<lambda>s. s\<lparr>os_routes := rh, os_chunks := cs,
         os_flushes := (os_flushes s)(p \<mapsto> ?f), os_written := os_written s @ [?msg]\<rparr>) (v\<lparr>iw_mem := m\<rparr>)))" by auto
  have "flush_holds own (base ++ X) p c (os_update (\<lambda>s. s\<lparr>os_routes := rh\<rparr>) v)"
    using hv by simp
  from release_exact [OF this, of f t e env] obtain m cs where
    m: "release_processed env p (os_update (\<lambda>s. s\<lparr>os_routes := rh\<rparr>) v) =
        Some (os_update (\<lambda>s. s\<lparr>os_routes := rh, os_chunks := cs, os_flushes := (os_flushes s)(p \<mapsto> ?f)\<rparr>) (v\<lparr>iw_mem := m\<rparr>))"
      "{p, c} \<subseteq> dom (blocks m)" "(blocks m)(c := None, p := None) = base ++ X"
    using fv t own(1) by (auto simp: os_update_def)
  define w1 where "w1 = os_update (\<lambda>s. s\<lparr>os_routes := rh, os_chunks := cs,
     os_flushes := (os_flushes s)(p \<mapsto> ?f), os_written := os_written s @ [?msg]\<rparr>) (v\<lparr>iw_mem := m\<rparr>)"
  have w1: "iw_links w1 = iw_links v" "iw_mem w1 = m" "iw_coros w1 = iw_coros v" "os_flushes (iw_ext w1) p = Some ?f"
    "os_written (iw_ext w1) = os_written (iw_ext v) @ [?msg]" "os_lib (iw_ext w1) = os_lib (iw_ext v)" by (simp_all add: w1_def os_update_def)
  obtain h lst' ys zs where pd: "oe_prepare_destroy env p w1 = w1\<lparr>iw_links := h\<rparr>"
    "dll h lst' (ys @ (p + flb_output_flush_head_off) # zs)"
    using own(3) d w1(1) unfolding prepare_destroy_ok_def by metis
  have "flb_output_return env ret c v = Some (w1\<lparr>iw_links := h\<rparr>)" using ret [OF m(1)] pd(1) by (simp add: w1_def)
  moreover have "\<exists>w2. flb_output_flush_destroy env p (w1\<lparr>iw_links := h\<rparr>) = Some w2 \<and> blocks (iw_mem w2) = (blocks m)(c := None, p := None) \<and>
      os_flushes (iw_ext w2) p = None \<and> iw_coros w2 c = None \<and> dll (iw_links w2) lst' (ys @ zs) \<and> os_written (iw_ext w2) = os_written (iw_ext w1) \<and>
      os_lib (iw_ext w2) = os_lib (iw_ext w1)"
    using destroy_returned [of p c "w1\<lparr>iw_links := h\<rparr>" cr ?f env lst' ys zs] cr m(2) w1 own(2) pd(2) by simp
  ultimately show ?thesis using m(3) w1(5,6) by auto
qed

section \<open>From the creation to the end\<close>

text \<open>
  The processors the creation can meet: none that is active, one of logs that makes a new buffer, or one of metrics
  or traces with a library that makes progress.
\<close>

definition processor_ok :: "'y out_env \<Rightarrow> flb_output_instance \<Rightarrow> ptr \<Rightarrow> flb_event_chunk \<Rightarrow> 'y out_world \<Rightarrow> bool" where
  "processor_ok env ins evc e w \<longleftrightarrow>
     (\<forall>w. \<not> oe_processor_is_active env (oi_processor ins) w) \<or>
     ec_type e = FLB_EVENT_TYPE_LOGS \<and> makes_logs env (oi_processor ins) evc \<or>
     (\<forall>w. oe_processor_is_active env (oi_processor ins) w) \<and>
     (\<exists>lib data B. (ec_type e = FLB_EVENT_TYPE_METRICS \<and> lib = oe_cmt env (oi_processor ins) \<or>
         ec_type e = FLB_EVENT_TYPE_TRACES \<and> lib = oe_ctr env (oi_processor ins)) \<and>
       read_bytes (ec_data e) (unat (ec_size e)) (iw_mem w) = Some data \<and> lib_progress lib data \<and> lib_bounded lib B \<and>
       2 * unat (ec_size e) < 2 ^ 64 \<and> unat (ec_size e) + Suc (unat (ec_size e)) * B < 2 ^ 64)"

text \<open>
  The objects of the libraries that the creation leaves behind: none without a processor of contexts, otherwise the contexts
  that it rejected, all of them when the loop was completed.
\<close>

definition creation_leaves :: "'y out_env \<Rightarrow> flb_output_instance \<Rightarrow> flb_event_chunk \<Rightarrow> bool \<Rightarrow> 'y out_world \<Rightarrow> 'y out_world \<Rightarrow> bool" where
  "creation_leaves env ins e all w w' \<longleftrightarrow>
     (if oe_processor_is_active env (oi_processor ins) w \<and> ec_type e \<noteq> FLB_EVENT_TYPE_LOGS
      then \<exists>lib data. (ec_type e = FLB_EVENT_TYPE_METRICS \<and> lib = oe_cmt env (oi_processor ins) \<or>
            ec_type e = FLB_EVENT_TYPE_TRACES \<and> lib = oe_ctr env (oi_processor ins)) \<and>
          read_bytes (ec_data e) (unat (ec_size e)) (iw_mem w) = Some data \<and>
          rejected_left lib data all (os_lib (iw_ext w)) (os_lib (iw_ext w'))
      else os_lib (iw_ext w') = os_lib (iw_ext w))"

text \<open>The state in which a callback returns: task, output and chunk are still there, the flush is linked.\<close>

definition can_return :: "'y out_env \<Rightarrow> ptr \<Rightarrow> ptr \<Rightarrow> ptr \<Rightarrow> flb_task \<Rightarrow> flb_event_chunk \<Rightarrow> 'y out_world \<Rightarrow> bool" where
  "can_return env p task o_ins t e v \<longleftrightarrow> os_tasks (iw_ext v) task = Some t \<and> os_chunks (iw_ext v) (tk_event_chunk t) = Some e \<and>
     (\<exists>ins fd. os_outputs (iw_ext v) o_ins = Some ins \<and> return_fd env v ins fd) \<and>
     (\<exists>rs. routes (iw_links v) (os_routes (iw_ext v)) task rs) \<and>
     (\<exists>lst xs. dll (iw_links v) lst xs \<and> p + flb_output_flush_head_off \<in> set xs)"

lemma flush_create_holds:
  assumes al: "fresh_allocator (env_alloc (oe_in env))" "sep_allocator (env_alloc (oe_in env))"
    and nb: "nodes_in_blocks (iw_links w) (iw_mem w)" and ids: "flush_id_get_ok env" and co: "co_create_ok env"
    and t: "os_tasks (iw_ext w) task = Some t" "os_chunks (iw_ext w) (tk_event_chunk t) = Some e"
    and ins: "os_outputs (iw_ext w) o_ins = Some ins" "flush_home env ins w lst"
    and cf: "iw_configs w config = Some cf" "dll (iw_links w) lst xs"
    and own: "chunk_functions_ok own env" "chunk_blocks_exact own env"
    and proc: "processor_ok env ins (tk_event_chunk t) e w"
  shows "(\<exists>w'. flb_output_flush_create env task i_ins o_ins config w = Some (NULL, w') \<and>
        blocks (iw_mem w') = blocks (iw_mem w) \<and> iw_links w' = iw_links w \<and> creation_leaves env ins e False w w') \<or>
     (\<exists>p c f w'. p \<noteq> NULL \<and> flb_output_flush_create env task i_ins o_ins config w =
          map_option (Pair p) (output_params_set env p c task (oi_p ins) (oi_context ins) config w') \<and>
        os_flushes (iw_ext w') p = Some f \<and> of_task f = task \<and> of_o_ins f = o_ins \<and>
        creation_leaves env ins e True w w' \<and> flush_holds own (blocks (iw_mem w)) p c w')"
proof -
  consider (none) "\<forall>w. \<not> oe_processor_is_active env (oi_processor ins) w"
    | (logs) "ec_type e = FLB_EVENT_TYPE_LOGS" "makes_logs env (oi_processor ins) (tk_event_chunk t)"
    | (contexts) lib data B where "\<forall>w. oe_processor_is_active env (oi_processor ins) w"
        "ec_type e = FLB_EVENT_TYPE_METRICS \<and> lib = oe_cmt env (oi_processor ins) \<or>
         ec_type e = FLB_EVENT_TYPE_TRACES \<and> lib = oe_ctr env (oi_processor ins)"
        "read_bytes (ec_data e) (unat (ec_size e)) (iw_mem w) = Some data" "lib_progress lib data" "lib_bounded lib B"
        "2 * unat (ec_size e) < 2 ^ 64" "unat (ec_size e) + Suc (unat (ec_size e)) * B < 2 ^ 64"
    using proc unfolding processor_ok_def by blast
  then show ?thesis
  proof cases
    case none
    then have l: "creation_leaves env ins e all w w' \<longleftrightarrow> os_lib (iw_ext w') = os_lib (iw_ext w)" for all w'
      by (simp add: creation_leaves_def)
    show ?thesis unfolding l using flush_create_plain [OF al nb ids co none t ins cf, of i_ins own] by blast
  next
    case logs
    have br: "given_up (\<lambda>y. y = os_lib (iw_ext w)) w (flush_process env (ins\<lparr>oi_flush_id := k\<rparr>) (tk_event_chunk t) c p w1) \<or>
        (\<exists>w2 q ch. flush_process env (ins\<lparr>oi_flush_id := k\<rparr>) (tk_event_chunk t) c p w1 = Some (True, w2) \<and>
           processed_flush own w w1 p c q ch w2 \<and> os_lib (iw_ext w2) = os_lib (iw_ext w))"
      if fr: "fresh_flush w task o_ins config p c w1" for p c w1 k
      using logs_branch [OF fr t(2) logs(1), of env "ins\<lparr>oi_flush_id := k\<rparr>" own] logs(2) own by simp
    have l: "creation_leaves env ins e all w w' \<longleftrightarrow> os_lib (iw_ext w') = os_lib (iw_ext w)" for all w'
      using logs(1) by (simp add: creation_leaves_def)
    show ?thesis unfolding l
      using flush_create_processed [where R = "\<lambda>ch m y. y = os_lib (iw_ext w)" and G = "\<lambda>y. y = os_lib (iw_ext w)",
          OF al nb ids co t ins cf own(1) br refl, of i_ins] by blast
  next
    case contexts
    have "creation_leaves env ins e all w w'" if "rejected_left lib data all (os_lib (iw_ext w)) (os_lib (iw_ext w'))" for all w'
      using that contexts(1-3) by (auto simp: creation_leaves_def c_consts)
    then show ?thesis
      using flush_create_contexts [OF al nb ids co t contexts(2,3) ins cf contexts(1,4-7) own, of i_ins]
      unfolding contexts_made_def by blast
  qed
qed

text \<open>
  C14: the life of a flush, when the output has no active processor, one of logs that makes a buffer of its own (one that
  hands back the buffer of the task can have it freed, see \<open>Flb_Flush\<close>) or one of metrics or traces.  \<^verbatim>\<open>flb_output_flush_create\<close> either answers null
  with the agent's heap and the links as before, or answers a new flush, handed over to its coroutine as in \<open>Flb_Output\<close>.  Whenever the callback of that flush then returns with
  the flush still linked and the task, its chunk and the output still there, \<^verbatim>\<open>flb_output_return\<close> and the later
  \<^verbatim>\<open>flb_output_flush_destroy\<close> succeed and leave exactly the blocks of before the creation and the blocks \<open>X\<close> that the
  callback itself left: no block of the flush, its coroutine or its processed chunk leaks, and none is freed twice.  The
  contexts of the metrics and trace libraries are accounted for as well: the creation leaves behind exactly those that a
  processor rejected (the leak shown in \<open>Flb_Contexts\<close>), and the return and the destruction release none of them.
\<close>

theorem flush_life_cycle:
  assumes "fresh_allocator (env_alloc (oe_in env))" "sep_allocator (env_alloc (oe_in env))"
    and "nodes_in_blocks (iw_links w) (iw_mem w)" "flush_id_get_ok env" "co_create_ok env"
    and "os_tasks (iw_ext w) task = Some t" "os_chunks (iw_ext w) (tk_event_chunk t) = Some e"
    and "os_outputs (iw_ext w) o_ins = Some ins" "flush_home env ins w lst"
    and "iw_configs w config = Some cf" "dll (iw_links w) lst xs"
    and "chunk_functions_ok own env" "chunk_blocks_exact own env" "processor_ok env ins (tk_event_chunk t) e w"
    and "ec_data e \<in> dom (blocks (iw_mem w))" "pipe_ok env" "co_delete_ok env" "prepare_destroy_ok env"
  shows "(\<exists>w'. flb_output_flush_create env task i_ins o_ins config w = Some (NULL, w') \<and>
        blocks (iw_mem w') = blocks (iw_mem w) \<and> iw_links w' = iw_links w \<and> creation_leaves env ins e False w w') \<or>
     (\<exists>p c w'. p \<noteq> NULL \<and> flb_output_flush_create env task i_ins o_ins config w =
          map_option (Pair p) (output_params_set env p c task (oi_p ins) (oi_context ins) config w') \<and>
        creation_leaves env ins e True w w' \<and>
        (\<forall>X v ret. callback_kept own X p c w' v \<and> can_return env p task o_ins t e v \<longrightarrow>
           (\<exists>w1 w2. flb_output_return env ret c v = Some w1 \<and> flb_output_flush_destroy env p w1 = Some w2 \<and>
              blocks (iw_mem w2) = blocks (iw_mem w) ++ X \<and> os_flushes (iw_ext w2) p = None \<and> iw_coros w2 c = None \<and>
              os_lib (iw_ext w2) = os_lib (iw_ext v))))"
  using flush_create_holds [OF assms(1-14), of i_ins]
proof (elim disjE exE conjE)
  fix p c f w'
  assume cr: "p \<noteq> NULL" "flb_output_flush_create env task i_ins o_ins config w =
      map_option (Pair p) (output_params_set env p c task (oi_p ins) (oi_context ins) config w')"
    and f: "os_flushes (iw_ext w') p = Some f" "of_task f = task" "of_o_ins f = o_ins"
    and h: "flush_holds own (blocks (iw_mem w)) p c w'" and left: "creation_leaves env ins e True w w'"
  have "\<exists>w1 w2. flb_output_return env ret c v = Some w1 \<and> flb_output_flush_destroy env p w1 = Some w2 \<and>
      blocks (iw_mem w2) = blocks (iw_mem w) ++ X \<and> os_flushes (iw_ext w2) p = None \<and> iw_coros w2 c = None \<and>
      os_lib (iw_ext w2) = os_lib (iw_ext v)"
    if k: "callback_kept own X p c w' v" and v: "can_return env p task o_ins t e v" for X v ret
  proof -
    obtain ins' fd rs lst' xs' where r: "os_tasks (iw_ext v) (of_task f) = Some t" "os_chunks (iw_ext v) (tk_event_chunk t) = Some e"
      "os_outputs (iw_ext v) (of_o_ins f) = Some ins'" "return_fd env v ins' fd"
      "routes (iw_links v) (os_routes (iw_ext v)) (of_task f) rs" "dll (iw_links v) lst' xs'" "p + flb_output_flush_head_off \<in> set xs'"
      using v f(2,3) unfolding can_return_def by blast
    from flush_gives_back [OF h k f(1) r(3,1,2) assms(15) r(5,4) assms(16,12,17,18) r(6,7), of ret] show ?thesis by blast
  qed
  then show ?thesis using cr left by blast
qed blast

lemma example_metrics_life:
  "processor_ok example_metrics_env example_worker_output (tk_event_chunk example_task) example_metrics example_metrics_world"
  "ec_data example_metrics \<in> dom (blocks (iw_mem example_metrics_world))"
  "pipe_ok example_metrics_env" "co_delete_ok example_metrics_env" "prepare_destroy_ok example_metrics_env"
proof -
  note env = example_metrics_env_def example_making_env_def example_passing_env_def example_out_env_def example_in_env_def
  show "processor_ok example_metrics_env example_worker_output (tk_event_chunk example_task) example_metrics example_metrics_world"
    unfolding processor_ok_def
    using example_metrics_ok(7) example_metrics_maps(3,4) whole_lib_ok(1,2) example_metrics_fits by blast
  show "ec_data example_metrics \<in> dom (blocks (iw_mem example_metrics_world))"
    by (simp add: example_metrics_world_def example_logs_world_def os_update_def)
  show "pipe_ok example_metrics_env" "co_delete_ok example_metrics_env" by (simp_all add: pipe_ok_def co_delete_ok_def env)
  have "\<exists>h lst' ys zs. w = w\<lparr>iw_links := h\<rparr> \<and> dll h lst' (ys @ n # zs)" if d: "dll (iw_links w) lst xs" and n: "n \<in> set xs"
    for w :: "lib_objects out_world" and lst xs n
  proof -
    obtain ys zs where "xs = ys @ n # zs" using split_list [OF n] by blast
    then show ?thesis using d by (intro exI [of _ "iw_links w"] exI [of _ lst] exI [of _ ys] exI [of _ zs]) simp
  qed
  then show "prepare_destroy_ok example_metrics_env" unfolding prepare_destroy_ok_def by (simp add: env) blast
qed

theorem flush_life_cycle_witness:
  "(\<exists>w'. flb_output_flush_create example_metrics_env 3500 0 3700 3000 example_metrics_world = Some (NULL, w') \<and>
      blocks (iw_mem w') = blocks (iw_mem example_metrics_world) \<and> iw_links w' = iw_links example_metrics_world \<and>
      creation_leaves example_metrics_env example_worker_output example_metrics False example_metrics_world w') \<or>
   (\<exists>p c w'. p \<noteq> NULL \<and> flb_output_flush_create example_metrics_env 3500 0 3700 3000 example_metrics_world =
        map_option (Pair p) (output_params_set example_metrics_env p c 3500 0 0 3000 w') \<and>
      creation_leaves example_metrics_env example_worker_output example_metrics True example_metrics_world w' \<and>
      (\<forall>X v ret. callback_kept (\<lambda>q c. {}) X p c w' v \<and>
           can_return example_metrics_env p 3500 3700 example_task example_metrics v \<longrightarrow>
         (\<exists>w1 w2. flb_output_return example_metrics_env ret c v = Some w1 \<and> flb_output_flush_destroy example_metrics_env p w1 = Some w2 \<and>
            blocks (iw_mem w2) = blocks (iw_mem example_metrics_world) ++ X \<and> os_flushes (iw_ext w2) p = None \<and> iw_coros w2 c = None \<and>
            os_lib (iw_ext w2) = os_lib (iw_ext v))))"
  by (rule flush_life_cycle [OF example_metrics_ok(1,2) example_metrics_links(2) example_metrics_ok(3,4) example_metrics_maps(1,2,5,6,7)
    example_metrics_links(1) example_metrics_ok(5,6) example_metrics_life, of 0, unfolded example_metrics_maps(8,9)])

end
