(* ===== verification/Spec2Isabelle.thy ===== *)
theory Spec2Isabelle
  imports Prelude Mk_List Flb_Mem Bucket_Queue Mk_Event Event_Loop Flb_Bits Flb_Task Flb_Config Flb_Stream
    Flb_Heap Flb_Plugins Flb_Serialize Flb_Input Flb_Output Flb_Flush
    Flb_Utf8 Flb_Text Flb_Time Flb_Byteswap Flb_Encoder
    Mk_Io Mk_Macros Flb_Log Flb_Parser Flb_Pipeline Flb_Sched
    C_Layout Types_Monkey Types_Engine Types_Services Flb_Info Flb_Layouts Flb_Plugin_Log Flb_Platform
    Flb_Services Flb_Processed Flb_Contexts Flb_Lifecycle
begin

text \<open>
  Verification development for the C code of the repository: the headers of the Fluent Bit agent under
  \<^verbatim>\<open>src/agents/Fluentbit/fluentbit/include\<close>, with the part of the Monkey library they are built on.  The
  repository holds no C sources beside them, so the program here is what the headers define: the inline
  functions, the function-like macros, the static tables and the structures.

  The program.  The engine of the agent runs one event loop.  A polling backend reports events; they go
  through a queue with one bucket for each priority and come out most urgent first.  Inputs collect
  records in coroutines and store them in chunks; the router decides by the type of a chunk which
  outputs get it; a task keeps one route for each of these outputs.  An output flushes a task in a
  coroutine of its own: the chunk is decoded, run through the processors and encoded again, then the
  callback of the plugin runs unless the route was dropped meanwhile, and the coroutine reports its
  result to the engine in one 64-bit message.  Plugins are copied into the configuration at start and
  taken out again at the end.  All objects are linked by nodes embedded in them.

  The theories, each beginning with a description of its own (\<^verbatim>\<open>fluent-bit/\<close> is meant where a header
  is named without a directory, \<^verbatim>\<open>mk_core\<close> stands for \<^verbatim>\<open>monkey/mk_core\<close>).

  \<^item> \<^verbatim>\<open>Prelude\<close>: addresses, the C integers, truth values (\<^verbatim>\<open>flb_macros.h\<close>), the collections of facts, lemmas
    on options, lists and words; \<^verbatim>\<open>Flb_Heap\<close>: structures with embedded nodes on the heap.
  \<^item> \<^verbatim>\<open>Mk_List\<close>: \<^verbatim>\<open>mk_core/mk_list.h\<close>.  The nodes of all lists are one heap; \<open>dll h head xs\<close> says that the ring at
    \<open>head\<close> links exactly the entries \<open>xs\<close>.  Each operation refines the operation on \<open>xs\<close>, leaves other
    lists alone (\<open>frame\<close>) and never follows a bad pointer; the loops visit the entries and return, also
    when the body unlinks them.
  \<^item> \<^verbatim>\<open>Flb_Mem\<close>: \<^verbatim>\<open>flb_mem.h\<close> and \<^verbatim>\<open>mk_core/mk_memory.h\<close> over an allocator that is a parameter.
  \<^item> \<^verbatim>\<open>Bucket_Queue\<close>: \<^verbatim>\<open>flb_bucket_queue.h\<close>.  The invariant \<open>bq_inv\<close>, the refinement of a stable priority queue, the
    contract \<open>prio_queue\<close> with its interpretation, and the sorting of whatever is put in.
  \<^item> \<^verbatim>\<open>Mk_Event\<close>, \<^verbatim>\<open>Event_Loop\<close>: \<^verbatim>\<open>mk_core/mk_event.h\<close> with its backends and \<^verbatim>\<open>flb_event_loop.h\<close>.  The contract
    \<open>event_backend\<close> holds for the four backends; the loop ends within its bound, keeps the invariants
    and processes the events in the order of their priorities.
  \<^item> \<^verbatim>\<open>Flb_Bits\<close>: \<^verbatim>\<open>flb_bits.h\<close>, \<^verbatim>\<open>flb_engine_macros.h\<close>, the task codes: round trips of packed messages.
  \<^item> \<^verbatim>\<open>Flb_Task\<close>: \<^verbatim>\<open>flb_task.h\<close>, \<^verbatim>\<open>flb_task_map.h\<close>: the routes of a task as a map from outputs to statuses.
  \<^item> \<^verbatim>\<open>Flb_Config\<close>, \<^verbatim>\<open>Flb_Stream\<close>: \<^verbatim>\<open>flb_config.h\<close> with its keys; \<^verbatim>\<open>flb_stream.h\<close>, \<^verbatim>\<open>flb_io.h\<close>, \<^verbatim>\<open>flb_network.h\<close>, \<^verbatim>\<open>flb_upstream.h\<close>,
    \<^verbatim>\<open>flb_downstream.h\<close>: the flags of a stream and its lock.
  \<^item> \<^verbatim>\<open>Flb_Plugins\<close>: \<^verbatim>\<open>flb_plugins.h\<close>: registration and its inverse, for every pattern of failing allocations.
  \<^item> \<^verbatim>\<open>Flb_Serialize\<close>, \<^verbatim>\<open>Flb_Input\<close>, \<^verbatim>\<open>Flb_Output\<close>: \<^verbatim>\<open>flb_output.h\<close>, \<^verbatim>\<open>flb_input.h\<close>, \<^verbatim>\<open>flb_coro.h\<close>, \<^verbatim>\<open>flb_event.h\<close>: the
    coroutines of inputs and outputs, from their creation to the message to the engine.
  \<^item> \<^verbatim>\<open>Flb_Flush\<close>: all flushes of one task as a relation of steps (the engine resumes a flush or drops a route, a
    callback returns); in every reachable state each active route has a running callback of its own.
    What a failing creation of a flush does to the chunk of its task; \<^verbatim>\<open>Flb_Processed\<close>: creating a flush
    whose logs a processor puts into a new buffer never leaks; \<^verbatim>\<open>Flb_Contexts\<close>: the same for metrics and
    traces, with the loop of \<^verbatim>\<open>Flb_Serialize\<close>: no block of the agent's heap leaks, the new chunk holds what the loop
    produced, and of the objects of the library, which \<open>lib_balanced\<close> counts, exactly the contexts that the processor
    rejects stay behind; \<^verbatim>\<open>Flb_Lifecycle\<close>: creation, callback, return and destruction together give back exactly
    the blocks they took, for outputs without an active processor, with one of logs that makes its own buffer (one
    that hands back the buffer of the task can have it freed, \<^verbatim>\<open>Flb_Flush\<close>) and with one of metrics or traces.  The theorems
    at the end of this theory follow one flush from its task to the callback and back to the engine.
  \<^item> \<^verbatim>\<open>Flb_Pipeline\<close>: \<^verbatim>\<open>flb_config_map.h\<close>, \<^verbatim>\<open>flb_storage.h\<close>, \<^verbatim>\<open>flb_filter.h\<close>, \<^verbatim>\<open>flb_processor.h\<close>, \<^verbatim>\<open>flb_custom.h\<close>,
    \<^verbatim>\<open>flb_router.h\<close>: what lies between inputs and outputs.
  \<^item> \<^verbatim>\<open>Flb_Sched\<close>: \<^verbatim>\<open>flb_scheduler.h\<close>, \<^verbatim>\<open>flb_time_utils.h\<close>: a sleeping coroutine is woken; the structures of
    connections, chunks, hash tables, environments, callbacks and decoded log events.
  \<^item> \<^verbatim>\<open>Flb_Log\<close>: \<^verbatim>\<open>flb_log.h\<close>, \<^verbatim>\<open>flb_worker.h\<close>, \<^verbatim>\<open>flb_version.h\<close>: levels, and the suppression of repeated messages.
  \<^item> \<^verbatim>\<open>Flb_Encoder\<close>: \<^verbatim>\<open>flb_log_event_encoder.h\<close> and the headers it includes: value lists can be read back, the
    operations by field number agree with those of the fields.
  \<^item> \<^verbatim>\<open>Flb_Utf8\<close>, \<^verbatim>\<open>Flb_Text\<close>: \<^verbatim>\<open>flb_utf8.h\<close>: the table-driven decoder accepts exactly UTF-8; \<^verbatim>\<open>flb_str.h\<close>,
    \<^verbatim>\<open>flb_sds.h\<close>, \<^verbatim>\<open>flb_uri.h\<close>: strings.
  \<^item> \<^verbatim>\<open>C_Double\<close>, \<^verbatim>\<open>Flb_Time\<close>, \<^verbatim>\<open>Flb_Parser\<close>, \<^verbatim>\<open>Flb_Byteswap\<close>: doubles and their rounding; \<^verbatim>\<open>flb_time.h\<close>; \<^verbatim>\<open>flb_parser.h\<close>, \<^verbatim>\<open>flb_langinfo.h\<close>; \<^verbatim>\<open>flb_byteswap.h\<close> with
    the contract \<open>byte_swap\<close>.
  \<^item> \<^verbatim>\<open>Mk_Io\<close>, \<^verbatim>\<open>Mk_Macros\<close>: \<^verbatim>\<open>mk_core/mk_iov.h\<close>, \<^verbatim>\<open>mk_core/mk_thread_channel.h\<close>; \<^verbatim>\<open>mk_core/mk_macros.h\<close>,
    \<^verbatim>\<open>mk_core/mk_utils.h\<close>: scatter/gather vectors within their bounds, sub-networks.
  \<^item> \<^verbatim>\<open>C_Layout\<close>, \<^verbatim>\<open>Types_Monkey\<close>, \<^verbatim>\<open>Types_Engine\<close>, \<^verbatim>\<open>Types_Services\<close>, \<^verbatim>\<open>Flb_Info\<close>, \<^verbatim>\<open>Flb_Layouts\<close>: the types of C, the placement of
    members on LP64 and LLP64 targets, every structure the headers declare (\<open>struct_\<close> and its name) for
    every set of features, and the features of the build (\<^verbatim>\<open>flb_info.h\<close>).  Embedded list nodes can be
    mapped back to their objects, and the offsets of the component theories are those of the structures.
  \<^item> \<^verbatim>\<open>Flb_Plugin_Log\<close>: the logging macros of \<^verbatim>\<open>flb_input_plugin.h\<close>, \<^verbatim>\<open>flb_output_plugin.h\<close>, \<^verbatim>\<open>flb_filter_plugin.h\<close>,
    \<^verbatim>\<open>flb_custom_plugin.h\<close>, \<^verbatim>\<open>flb_processor_plugin.h\<close>, with the contract \<open>plugin_logger\<close>.
  \<^item> \<^verbatim>\<open>Flb_Platform\<close>: \<^verbatim>\<open>flb_thread_storage.h\<close> (contract \<open>thread_storage\<close>, which the POSIX variant keeps only while its stores find memory), \<^verbatim>\<open>mk_core/mk_sleep.h\<close>, \<^verbatim>\<open>flb_compat.h\<close>,
    \<^verbatim>\<open>flb_socket.h\<close>, \<^verbatim>\<open>flb_pipe.h\<close>, \<^verbatim>\<open>flb_kernel.h\<close>, \<^verbatim>\<open>flb_stacktrace.h\<close>: portability and crash reports.
  \<^item> \<^verbatim>\<open>Flb_Services\<close>: the constants, enumerations, option tables and macros of the other headers.

  How the code is modelled.  A structure is a record whose embedded list nodes live in a heap of nodes,
  at the offset they have in the structure; a pointer is a natural number.  State is
  passed explicitly.  \<open>None\<close> is undefined behaviour: a bad pointer, an access out of bounds, a bad
  shift, a failed assertion, a loop that does not return; so a theorem that a function answers \<open>Some\<close>
  says that it returns and is safe.  Errors that the code reports are ordinary results.  Integers are
  \<open>int\<close> where the code only counts or compares, words where it shifts, masks or wraps around.  The width of \<^verbatim>\<open>long\<close>, 64
  bits on LP64 and 32 on the Windows builds, is a parameter where a result depends on it (\<^verbatim>\<open>C_Layout\<close>, \<^verbatim>\<open>Flb_Time\<close>,
  \<^verbatim>\<open>Flb_Platform\<close>); the total length of a scatter/gather vector is modelled with the 64 bits of LP64.

  Loops and fuel.  The loops over lists, the event loop and the loop of a flush are partial functions
  in the option monad, and the theorems prove that they return.  Loops over arrays recurse over the
  number of iterations left, which is the trip count of the code.  \<open>read_values\<close> is a specification: its
  fuel, one more than the number of values, is shown to be enough.

  Parameters.  Code outside of the headers is a parameter: the allocator, the coroutine library, the
  polling system calls, the mutexes, the MessagePack, CMetrics, CTraces and Lua libraries, and the
  functions that the headers only declare.  What a theorem needs of them is a hypothesis with a name
  (\<open>fresh_allocator\<close>, \<open>co_create_ok\<close>, \<open>outside_keeps\<close>, \<open>chunk_functions_ok\<close>, \<open>wait_ok\<close>, \<open>lib_bounded\<close>,
  \<open>lib_balanced\<close>, \<open>timer_contract\<close>, ...), and its witness gives concrete functions that fulfil it.

  Not modelled: the functions that are only declared, as there is no code of them to model; the renamings
  of functions of the system in \<^verbatim>\<open>flb_endian.h\<close> and \<^verbatim>\<open>mk_core/mk_dep_unistd.h\<close>; the headers of Lua, which are vendored; and the scripts, templates and
  playbooks of the rest of the repository, which are not C.
\<close>

section \<open>From the task to the callback and back to the engine\<close>

text \<open>
  C7: a flush gets its chunk.  The parameters handed to a new flush coroutine pass through the
  parameter block of the thread, into the copy its entry point makes before it first yields.  When
  the engine resumes the flush later, in whatever state the block is by then, and its route was not
  dropped, the callback of the plugin runs with the chunk that the processors made, or that of the
  task if there is none, and with the input of the task, the context of the output and the
  configuration; the route is active then.
\<close>

theorem flush_callback_gets_chunk:
  assumes "os_tls (iw_ext w) \<noteq> NULL \<or>
      fst (flb_malloc (env_alloc (oe_in env)) (of_nat sizeof_flb_out_flush_params) (iw_mem w)) \<noteq> NULL"
    and "os_flushes (iw_ext w) q = Some f" "os_tasks (iw_ext w) task = Some t" "iw_coros w coro = Some c"
    and "\<forall>co w. env_co_switch (oe_in env) co w \<noteq> None"
    and "os_flushes (iw_ext w3) q = Some f3" "os_plugins (iw_ext w3) out_plugin = Some p"
    and "routes (iw_links w3) (os_routes (iw_ext w3)) (of_task f3) rs"
    and "route_status (of_o_ins f3) rs \<noteq> FLB_TASK_ROUTE_DROPPED"
  shows "\<exists>w2 w2' ps rh. output_params_set env q coro task out_plugin out_context config w =
       env_co_switch (oe_in env) (co_callee c) w2 \<and>
     output_pre_cb_flush_enter env w2 = Some (Some ps, w2') \<and>
     output_pre_cb_flush_resumed env ps w3 = Some (oe_cb_flush env (op_cb_flush p)
       (if of_processed_event_chunk f \<noteq> NULL then of_processed_event_chunk f else tk_event_chunk t)
       q (tk_i_ins t) out_context config (os_update (\<lambda>s. s\<lparr>os_routes := rh\<rparr>) w3)) \<and>
     routes (iw_links w3) rh (of_task f3) (update_route (of_o_ins f3) FLB_TASK_ROUTE_ACTIVE rs)"
proof -
  obtain params w1 where 1: "(if os_tls (iw_ext w) \<noteq> NULL then (os_tls (iw_ext w), w)
        else (let (p, m) = flb_malloc (env_alloc (oe_in env)) (of_nat sizeof_flb_out_flush_params) (iw_mem w)
              in (p, w\<lparr>iw_mem := m\<rparr>))) = (params, w1)" by fastforce
  then have "params \<noteq> NULL" using assms(1) by (auto simp: Let_def split_def split: if_splits)
  from params_set_spec [OF 1 this assms(2-4), of out_plugin out_context config] assms(5) obtain w2 w2' where
    2: "output_params_set env q coro task out_plugin out_context config w = env_co_switch (oe_in env) (co_callee c) w2"
      "output_pre_cb_flush_enter env w2 = Some (Some
        \<lparr>fp_event_chunk = (if of_processed_event_chunk f \<noteq> NULL then of_processed_event_chunk f else tk_event_chunk t),
         fp_out_flush = q, fp_i_ins = tk_i_ins t, fp_out_plugin = out_plugin,
         fp_out_context = out_context, fp_config = config, fp_coro = coro\<rparr>, w2')" (is "_ = Some (Some ?ps, _)")
    by fastforce
  from resumed_runs [of w3 ?ps f3 p rs env] assms(6-9) 2 show ?thesis by fastforce
qed

theorem flush_callback_gets_chunk_witness:
  "\<exists>w2 w2' ps. output_params_set example_out_env 3900 600 3500 4000 0 3000 example_out_world =
       env_co_switch (oe_in example_out_env) 4096 w2 \<and>
     output_pre_cb_flush_enter example_out_env w2 = Some (Some ps, w2') \<and>
     output_pre_cb_flush_resumed example_out_env ps example_out_world \<noteq> None"
proof -
  have "os_tls (iw_ext example_out_world) \<noteq> NULL \<or>
      fst (flb_malloc (env_alloc (oe_in example_out_env)) (of_nat sizeof_flb_out_flush_params) (iw_mem example_out_world)) \<noteq> NULL"
    by (simp add: flb_malloc_def malloc_def Let_def bump_allocator_def example_out_env_def example_in_env_def
        example_out_world_def sizeof_flb_out_flush_params_def)
  moreover have "\<forall>co w. env_co_switch (oe_in example_out_env) co w \<noteq> None"
    by (simp add: example_out_env_def example_in_env_def)
  moreover have "route_status (of_o_ins example_flush) example_routes \<noteq> FLB_TASK_ROUTE_DROPPED"
    by (simp add: route_status_def c_consts)
  moreover have "routes (iw_links example_out_world) (os_routes (iw_ext example_out_world)) (of_task example_flush) example_routes"
    using example_out_links(3) by simp
  ultimately show ?thesis
    using flush_callback_gets_chunk [OF _ example_out_maps(5,1,7) _ example_out_maps(5,4), of example_out_env example_routes 0 3000]
    by fastforce
qed

text \<open>
  C6: a dropped flush tells the engine.  When the engine dropped the route before it resumes the
  flush, the callback does not run: the coroutine releases the chunk a processor made (never the
  data of the task's chunk), sends one message from which the engine reads FLB_ERROR, the task and
  the output, leaves the route inactive and the lock free, and yields for good.
\<close>

theorem dropped_flush_reports_error:
  assumes "iw_coros w (oe_coro_get env w) = Some c" "os_flushes (iw_ext w) (co_data c) = Some f"
    and "os_outputs (iw_ext w) (of_o_ins f) = Some ins" "os_tasks (iw_ext w) (of_task f) = Some t"
    and "os_chunks (iw_ext w) (tk_event_chunk t) = Some e"
    and "routes (iw_links w) (os_routes (iw_ext w)) (of_task f) rs"
    and "may_return env w f e" "chunk_destroy_ok env" "return_fd env w ins fd" "pipe_ok env" "ids_fit t ins"
    and "fp_out_flush ps = co_data c" "route_status (of_o_ins f) rs = FLB_TASK_ROUTE_DROPPED"
  shows "\<exists>w1 val. output_pre_cb_flush_resumed env ps w =
       flb_coro_yield (oe_in env) (oe_coro_get env w) FLB_TRUE (oe_prepare_destroy env (co_data c) w1) \<and>
    os_written (iw_ext w1) = os_written (iw_ext w) @ [(fd, val)] \<and> reports FLB_ERROR t ins val \<and>
    routes (iw_links w1) (os_routes (iw_ext w1)) (of_task f) (update_route (of_o_ins f) FLB_TASK_ROUTE_INACTIVE rs) \<and>
    os_locks (iw_ext w1) = os_locks (iw_ext w) \<and> data_released w w1 f e"
proof -
  have r: "output_pre_cb_flush_resumed env ps w = flb_output_return_do env FLB_ERROR w"
    using resumed_dropped [of w ps f rs env] assms(2,6,12,13) by simp
  have "FLB_ERROR < 2 ^ 4" by (simp add: FLB_ERROR_def c_consts)
  from flb_output_return_spec [OF assms(1-10), of FLB_ERROR] reports_message [OF this assms(11)] r
  show ?thesis by (auto simp: os_update_def flb_output_return_do_def Let_def)
qed

text \<open>The example of \<open>Flb_Output\<close> after the engine dropped the route.\<close>

definition example_dropped_world :: "lib_objects out_world" where
  "example_dropped_world = os_update (\<lambda>s. s\<lparr>os_routes := [3600 \<mapsto> \<lparr>rt_status = FLB_TASK_ROUTE_DROPPED, rt_out = 3700\<rparr>]\<rparr>)
     example_out_world"

theorem dropped_flush_reports_error_witness:
  "\<exists>w1 val. output_pre_cb_flush_resumed example_out_env \<lparr>fp_event_chunk = 3800, fp_out_flush = 3900, fp_i_ins = 0,
        fp_out_plugin = 4000, fp_out_context = 0, fp_config = 3000, fp_coro = 600\<rparr> example_dropped_world =
       flb_coro_yield (oe_in example_out_env) 600 FLB_TRUE w1 \<and>
     os_written (iw_ext w1) = [(11, val)] \<and> FLB_TASK_RET (ucast (FLB_BITS_U64_LOW val)) = FLB_ERROR"
proof -
  let ?w = example_dropped_world and ?t = "zero_flb_task\<lparr>tk_id := 5, tk_event_chunk := 3800\<rparr>"
  let ?c = "\<lparr>co_caller = 1, co_callee = 4096, co_data = 3900\<rparr>"
  have w: "iw_coros ?w (oe_coro_get example_out_env ?w) = Some ?c" "os_flushes (iw_ext ?w) (co_data ?c) = Some example_flush"
    "os_outputs (iw_ext ?w) (of_o_ins example_flush) = Some example_output"
    "os_tasks (iw_ext ?w) (of_task example_flush) = Some ?t"
    "os_chunks (iw_ext ?w) (tk_event_chunk ?t) = Some zero_flb_event_chunk"
    using example_out_maps by (simp_all add: example_dropped_world_def os_update_def example_out_env_def)
  have r: "routes (iw_links ?w) (os_routes (iw_ext ?w)) (of_task example_flush)
      [\<lparr>rt_status = FLB_TASK_ROUTE_DROPPED, rt_out = 3700\<rparr>]"
    by (auto simp: example_dropped_world_def os_update_def routes_def example_out_world_def dll_def valid_def nx_def pv_def
        flb_task_routes_off_def flb_task_route_head_off_def intro!: exI [of _ "[3600]"])
  have m: "may_return example_out_env ?w example_flush zero_flb_event_chunk" by (simp add: may_return_def)
  have e: "return_fd example_out_env ?w example_output 11" "pipe_ok example_out_env" "ids_fit ?t example_output"
    by (simp_all add: return_fd_def pipe_ok_def ids_fit_def example_out_env_def example_in_env_def
        zero_flb_output_instance_def c_consts)
  have "os_written (iw_ext ?w) = []" "oe_coro_get example_out_env ?w = 600" "\<And>q w. oe_prepare_destroy example_out_env q w = w"
    by (simp_all add: example_dropped_world_def os_update_def example_out_world_def example_in_world_def
        example_out_state_def example_out_env_def)
  then show ?thesis
    using dropped_flush_reports_error [OF w r m example_destroy_ok e, of
        "\<lparr>fp_event_chunk = 3800, fp_out_flush = 3900, fp_i_ins = 0, fp_out_plugin = 4000, fp_out_context = 0,
          fp_config = 3000, fp_coro = 600\<rparr>"]
    by (auto simp: reports_def route_status_def)
qed

end
